(* ===== verification/Hex_Prelude.thy ===== *)
theory Hex_Prelude
  imports Main "HOL-Library.Sublist"
begin

text \<open>
  Shared vocabulary of the development: Python strings, byte strings, exceptions as values,
  and the parts of the Python standard library that the HexDNS sources use
  (\<^verbatim>\<open>str\<close> methods, \<^verbatim>\<open>int\<close>, UTF-8, \<^verbatim>\<open>struct\<close>, \<^verbatim>\<open>bytes.fromhex\<close>, \<^verbatim>\<open>base64\<close>).

  A Python \<^verbatim>\<open>str\<close> is the list of its code points and a \<^verbatim>\<open>bytes\<close> or \<^verbatim>\<open>bytearray\<close> value the list
  of its byte values, both as natural numbers; \<open>is_bytes\<close> is the range invariant of the latter.
  An exception is a value of \<open>exn\<close>, and code that may raise returns \<open>exn + 'a\<close> (\<open>Inl\<close> is
  the exception). Messages of exceptions are not modelled.
\<close>

named_theorems str_eval \<open>evaluation of literals and Python string functions\<close>
named_theorems res_simps \<open>rewriting of results that may be exceptions\<close>
named_theorems codec_simps \<open>byte codecs and their inverses\<close>

section \<open>Strings, bytes, exceptions\<close>

type_synonym pstr = "nat list"
type_synonym bytes = "nat list"

datatype exn =
    ValidationError | IndexError | ValueError | TypeError | KeyError | AttributeError
  | NameError | StructError | OverflowError | UnicodeError | BinasciiError | DNSError | RecursionError
  | OSError | RequestError | KeycloakError | DoesNotExist | ApiException nat
  | AMQPChannelError | AMQPConnectionError | PermissionDenied | Http404 | OtherError

type_synonym 'a res = "exn + 'a"

fun bind_res :: "'a res \<Rightarrow> ('a \<Rightarrow> 'b res) \<Rightarrow> 'b res" where
  "bind_res (Inl e) f = Inl e"
| "bind_res (Inr a) f = f a"

fun mapM_res :: "('a \<Rightarrow> 'b res) \<Rightarrow> 'a list \<Rightarrow> 'b list res" where
  "mapM_res f [] = Inr []"
| "mapM_res f (x # xs) =
     bind_res (f x) (\<lambda>y. bind_res (mapM_res f xs) (\<lambda>ys. Inr (y # ys)))"

definition str :: "string \<Rightarrow> pstr" where
  "str s = map of_char s"

definition is_bytes :: "bytes \<Rightarrow> bool" where
  "is_bytes bs \<longleftrightarrow> list_all (\<lambda>b. b < 256) bs"

definition is_ascii :: "pstr \<Rightarrow> bool" where
  "is_ascii s \<longleftrightarrow> list_all (\<lambda>c. c < 128) s"

lemma str_simps [simp, str_eval]: "str [] = []" "str (c # cs) = of_char c # str cs"
  by (simp_all add: str_def)

lemma str_append [simp]: "str (s @ t) = str s @ str t"
  by (simp add: str_def)

lemma length_str [simp]: "length (str s) = length s"
  by (simp add: str_def)

lemma is_bytes_simps [simp]:
  "is_bytes []" "is_bytes (b # bs) \<longleftrightarrow> b < 256 \<and> is_bytes bs"
  "is_bytes (xs @ ys) \<longleftrightarrow> is_bytes xs \<and> is_bytes ys"
  by (auto simp: is_bytes_def)

lemma is_ascii_simps [simp]:
  "is_ascii []" "is_ascii (b # bs) \<longleftrightarrow> b < 128 \<and> is_ascii bs"
  "is_ascii (xs @ ys) \<longleftrightarrow> is_ascii xs \<and> is_ascii ys"
  by (auto simp: is_ascii_def)

lemma is_ascii_concat: "is_ascii (concat xss) \<longleftrightarrow> (\<forall>xs \<in> set xss. is_ascii xs)"
  by (induction xss) auto

lemma is_bytes_concat: "is_bytes (concat xss) \<longleftrightarrow> (\<forall>xs \<in> set xss. is_bytes xs)"
  by (induction xss) auto

lemma is_bytes_subset: "is_bytes xs \<Longrightarrow> set ys \<subseteq> set xs \<Longrightarrow> is_bytes ys"
  by (auto simp: is_bytes_def list_all_iff)

lemma bind_res_Inr_iff [res_simps]:
  "bind_res m f = Inr b \<longleftrightarrow> (\<exists>a. m = Inr a \<and> f a = Inr b)"
  by (cases m) auto

lemma bind_res_Inl_iff [res_simps]:
  "bind_res m f = Inl e \<longleftrightarrow> m = Inl e \<or> (\<exists>a. m = Inr a \<and> f a = Inl e)"
  by (cases m) auto

lemma bind_res_assoc: "bind_res (bind_res m f) g = bind_res m (\<lambda>a. bind_res (f a) g)"
  by (cases m) auto

lemma find_append: "find P (xs @ ys) = (case find P xs of None \<Rightarrow> find P ys | Some x \<Rightarrow> Some x)"
  by (induction xs) auto

lemma mapM_res_append [res_simps]:
  "mapM_res f (xs @ ys) =
     bind_res (mapM_res f xs) (\<lambda>as. bind_res (mapM_res f ys) (\<lambda>bs. Inr (as @ bs)))"
proof (induction xs)
  case Nil
  show ?case by (cases "mapM_res f ys") auto
next
  case (Cons x xs)
  then show ?case by (cases "f x"; cases "mapM_res f xs"; cases "mapM_res f ys") auto
qed

lemma mapM_res_Inr_iff [res_simps]:
  "mapM_res f xs = Inr ys \<longleftrightarrow> list_all2 (\<lambda>x y. f x = Inr y) xs ys"
  by (induction xs arbitrary: ys) (auto simp: bind_res_Inr_iff list_all2_Cons1)

lemma mapM_res_total [res_simps]:
  "(\<And>x. x \<in> set xs \<Longrightarrow> f x = Inr (g x)) \<Longrightarrow> mapM_res f xs = Inr (map g xs)"
  by (induction xs) auto


section \<open>Methods of str\<close>

text \<open>
  Case folding of a text with characters beyond ASCII follows tables of the Unicode standard and may look
  at the neighbours of a character (the final sigma); it is passed in as \<open>u\<close>. The separators of \<open>split_on\<close> are single characters, as all separators of the sources are.
\<close>

definition lower_cp :: "nat \<Rightarrow> nat" where
  "lower_cp c = (if 65 \<le> c \<and> c \<le> 90 then c + 32 else c)"

definition py_lower :: "(pstr \<Rightarrow> pstr) \<Rightarrow> pstr \<Rightarrow> pstr" where
  "py_lower u s = (if is_ascii s then map lower_cp s else u s)"

definition is_space :: "nat \<Rightarrow> bool" where
  "is_space c \<longleftrightarrow> (9 \<le> c \<and> c \<le> 13) \<or> (28 \<le> c \<and> c \<le> 32) \<or> c = 133 \<or> c = 160 \<or> c = 5760
     \<or> (8192 \<le> c \<and> c \<le> 8202) \<or> c = 8232 \<or> c = 8233 \<or> c = 8239 \<or> c = 8287 \<or> c = 12288"

definition py_strip :: "pstr \<Rightarrow> pstr" where
  "py_strip s = rev (dropWhile is_space (rev (dropWhile is_space s)))"

definition strip_char :: "nat \<Rightarrow> pstr \<Rightarrow> pstr" where
  "strip_char c s = rev (dropWhile ((=) c) (rev (dropWhile ((=) c) s)))"

fun split_on :: "nat \<Rightarrow> pstr \<Rightarrow> pstr list" where
  "split_on c [] = [[]]"
| "split_on c (x # xs) =
     (if x = c then [] # split_on c xs
      else (case split_on c xs of [] \<Rightarrow> [[x]] | p # ps \<Rightarrow> (x # p) # ps))"

fun split1_on :: "nat \<Rightarrow> pstr \<Rightarrow> pstr list" where
  "split1_on c [] = [[]]"
| "split1_on c (x # xs) =
     (if x = c then [[], xs]
      else (case split1_on c xs of [] \<Rightarrow> [[x]] | p # ps \<Rightarrow> (x # p) # ps))"

fun join :: "pstr \<Rightarrow> pstr list \<Rightarrow> pstr" where
  "join sep [] = []"
| "join sep [p] = p"
| "join sep (p # q # ps) = p @ sep @ join sep (q # ps)"

definition replace_cp :: "nat \<Rightarrow> pstr \<Rightarrow> pstr \<Rightarrow> pstr" where
  "replace_cp c t s = concat (map (\<lambda>x. if x = c then t else [x]) s)"

fun contains :: "pstr \<Rightarrow> pstr \<Rightarrow> bool" where
  "contains t [] = (t = [])"
| "contains t (x # xs) = (prefix t (x # xs) \<or> contains t xs)"

fun dec_str :: "nat \<Rightarrow> pstr" where
  "dec_str n = (if n < 10 then [48 + n] else dec_str (n div 10) @ [48 + n mod 10])"

declare dec_str.simps [simp del]

definition int_str :: "int \<Rightarrow> pstr" where
  "int_str i = (if i < 0 then 45 # dec_str (nat (- i)) else dec_str (nat i))"

definition hex_digit :: "nat \<Rightarrow> nat" where
  "hex_digit n = (if n < 10 then 48 + n else 87 + n)"

definition hexlify :: "bytes \<Rightarrow> pstr" where
  "hexlify bs = concat (map (\<lambda>b. [hex_digit (b div 16), hex_digit (b mod 16)]) bs)"

subsection \<open>Facts\<close>

lemma split_on_nonempty [simp]: "split_on c s \<noteq> []"
  by (induction s) (auto split: list.splits)

lemma join_split_on: "join [c] (split_on c s) = s"
proof (induction s)
  case Nil
  show ?case by simp
next
  case (Cons x xs)
  obtain p ps where s: "split_on c xs = p # ps"
    by (cases "split_on c xs") auto
  show ?case using Cons s by (cases ps) auto
qed

lemma split_on_no_sep: "c \<notin> set s \<Longrightarrow> split_on c s = [s]"
  by (induction s) auto

lemma split_on_append_sep: "c \<notin> set s \<Longrightarrow> split_on c (s @ c # t) = s # split_on c t"
  by (induction s) auto

lemma split_on_join:
  "ps \<noteq> [] \<Longrightarrow> \<forall>p \<in> set ps. c \<notin> set p \<Longrightarrow> split_on c (join [c] ps) = ps"
  by (induction "[c]" ps rule: join.induct) (auto simp: split_on_no_sep split_on_append_sep)

lemma set_split_on: "p \<in> set (split_on c s) \<Longrightarrow> set p \<subseteq> set s \<and> c \<notin> set p"
proof (induction s arbitrary: p)
  case Nil
  then show ?case by simp
next
  case (Cons x xs)
  obtain q qs where s: "split_on c xs = q # qs"
    by (cases "split_on c xs") auto
  show ?case using Cons.prems Cons.IH[of p] Cons.IH[of q] s by (auto split: if_splits)
qed

lemma py_lower_ascii:
  "is_ascii s \<Longrightarrow> py_lower u s = map (\<lambda>c. if 65 \<le> c \<and> c \<le> 90 then c + 32 else c) s"
  by (simp add: py_lower_def lower_cp_def)

lemma py_lower_idem_ascii: "is_ascii s \<Longrightarrow> py_lower u (py_lower u s) = py_lower u s"
  by (auto simp: py_lower_def lower_cp_def is_ascii_def list_all_iff)

lemma dec_str_digits: "\<forall>c \<in> set (dec_str n). 48 \<le> c \<and> c \<le> 57"
  by (induction n rule: dec_str.induct) (subst dec_str.simps, auto)

lemma dec_str_nonempty [simp]: "dec_str n \<noteq> []"
  by (subst dec_str.simps) simp

lemma dec_str_ascii [simp]: "is_ascii (dec_str n)"
  using dec_str_digits[of n] by (auto simp: is_ascii_def list_all_iff)

lemma dec_str_small: "n < 10 \<Longrightarrow> dec_str n = [48 + n]"
  by (subst dec_str.simps) simp


section \<open>int of a string\<close>

text \<open>
  \<^verbatim>\<open>int(s)\<close> strips white space, accepts a sign and decimal digits with single underscores
  between them, and raises \<^verbatim>\<open>ValueError\<close> otherwise. Decimal digits outside ASCII are not
  accepted by the model.
\<close>

definition is_digit :: "nat \<Rightarrow> bool" where
  "is_digit c \<longleftrightarrow> 48 \<le> c \<and> c \<le> 57"

fun digits_val :: "nat \<Rightarrow> bool \<Rightarrow> pstr \<Rightarrow> nat option" where
  "digits_val acc us [] = (if us then None else Some acc)"
| "digits_val acc us (c # cs) =
     (if is_digit c then digits_val (acc * 10 + (c - 48)) False cs
      else if c = 95 \<and> \<not> us then digits_val acc True cs
      else None)"

definition nat_of_digits :: "pstr \<Rightarrow> nat option" where
  "nat_of_digits s =
     (case s of c # cs \<Rightarrow> (if is_digit c then digits_val (c - 48) False cs else None) | [] \<Rightarrow> None)"

definition py_int :: "pstr \<Rightarrow> int res" where
  "py_int s =
     (case py_strip s of
        [] \<Rightarrow> Inl ValueError
      | c # cs \<Rightarrow>
          (case (if c = 45 \<or> c = 43 then nat_of_digits cs else nat_of_digits (c # cs)) of
             None \<Rightarrow> Inl ValueError
           | Some n \<Rightarrow> Inr (if c = 45 then - int n else int n)))"

lemma digits_val_snoc:
  "digits_val acc False s = Some n \<Longrightarrow> is_digit c \<Longrightarrow>
   digits_val acc False (s @ [c]) = Some (n * 10 + (c - 48))"
proof -
  have "digits_val acc u s = Some n \<Longrightarrow> is_digit c \<Longrightarrow>
    digits_val acc u (s @ [c]) = Some (n * 10 + (c - 48))" for u
    by (induction acc u s rule: digits_val.induct) (auto split: if_splits)
  then show "digits_val acc False s = Some n \<Longrightarrow> is_digit c \<Longrightarrow> ?thesis" by simp
qed

lemma nat_of_digits_snoc:
  "nat_of_digits s = Some n \<Longrightarrow> is_digit c \<Longrightarrow> nat_of_digits (s @ [c]) = Some (n * 10 + (c - 48))"
  by (cases s) (auto simp: nat_of_digits_def digits_val_snoc split: if_splits)

lemma nat_of_dec_str: "nat_of_digits (dec_str n) = Some n"
proof (induction n rule: dec_str.induct)
  case (1 n)
  show ?case
  proof (cases "n < 10")
    case True
    then show ?thesis by (simp add: dec_str_small nat_of_digits_def is_digit_def)
  next
    case False
    have d: "is_digit (48 + n mod 10)" by (simp add: is_digit_def)
    have "nat_of_digits (dec_str (n div 10) @ [48 + n mod 10]) = Some (n div 10 * 10 + n mod 10)"
      using nat_of_digits_snoc[OF "1.IH"[OF False] d] by simp
    then show ?thesis using False by (subst dec_str.simps) simp
  qed
qed

lemma py_strip_no_space:
  "(\<forall>c \<in> set s. \<not> is_space c) \<Longrightarrow> py_strip s = s"
proof -
  assume a: "\<forall>c \<in> set s. \<not> is_space c"
  have d: "dropWhile is_space t = t" if "set t \<subseteq> set s" for t
    using that a by (cases t) auto
  show ?thesis by (simp add: py_strip_def d)
qed

lemma py_int_dec_str [simp]: "py_int (dec_str n) = Inr (int n)"
proof -
  have s: "py_strip (dec_str n) = dec_str n"
    by (rule py_strip_no_space) (use dec_str_digits[of n] in \<open>auto simp: is_space_def\<close>)
  obtain c cs where c: "dec_str n = c # cs" by (cases "dec_str n") auto
  have "48 \<le> c" using dec_str_digits[of n] c by simp
  then show ?thesis using s c nat_of_dec_str[of n] by (auto simp: py_int_def)
qed


section \<open>UTF-8\<close>

definition utf8_cp :: "nat \<Rightarrow> bytes" where
  "utf8_cp c =
     (if c < 128 then [c]
      else if c < 2048 then [192 + c div 64, 128 + c mod 64]
      else if c < 65536 then [224 + c div 4096, 128 + c div 64 mod 64, 128 + c mod 64]
      else [240 + c div 262144, 128 + c div 4096 mod 64, 128 + c div 64 mod 64, 128 + c mod 64])"

definition utf8_encode :: "pstr \<Rightarrow> bytes" where
  "utf8_encode s = concat (map utf8_cp s)"

definition is_cont :: "nat \<Rightarrow> bool" where
  "is_cont b \<longleftrightarrow> 128 \<le> b \<and> b < 192"

fun utf8_decode :: "bytes \<Rightarrow> pstr option" where
  "utf8_decode [] = Some []"
| "utf8_decode (a # bs) =
     (if a < 128 then map_option ((#) a) (utf8_decode bs)
      else if 194 \<le> a \<and> a < 224 then
        (case bs of b # rest \<Rightarrow>
           (if is_cont b then map_option ((#) ((a - 192) * 64 + (b - 128))) (utf8_decode rest) else None)
         | _ \<Rightarrow> None)
      else if 224 \<le> a \<and> a < 240 then
        (case bs of b # c # rest \<Rightarrow>
           (if is_cont b \<and> is_cont c then
              (let v = (a - 224) * 4096 + (b - 128) * 64 + (c - 128) in
               if v < 2048 \<or> (55296 \<le> v \<and> v < 57344) then None
               else map_option ((#) v) (utf8_decode rest))
            else None)
         | _ \<Rightarrow> None)
      else if 240 \<le> a \<and> a < 245 then
        (case bs of b # c # d # rest \<Rightarrow>
           (if is_cont b \<and> is_cont c \<and> is_cont d then
              (let v = (a - 240) * 262144 + (b - 128) * 4096 + (c - 128) * 64 + (d - 128) in
               if v < 65536 \<or> 1114111 < v then None
               else map_option ((#) v) (utf8_decode rest))
            else None)
         | _ \<Rightarrow> None)
      else None)"

definition py_decode :: "bytes \<Rightarrow> pstr res" where
  "py_decode bs = (case utf8_decode bs of None \<Rightarrow> Inl UnicodeError | Some s \<Rightarrow> Inr s)"

definition valid_cp :: "nat \<Rightarrow> bool" where
  "valid_cp c \<longleftrightarrow> c < 55296 \<or> (57344 \<le> c \<and> c < 1114112)"

lemma utf8_decode_ascii_append:
  "is_ascii s \<Longrightarrow> utf8_decode (s @ bs) = map_option ((@) s) (utf8_decode bs)"
proof (induction s)
  case Nil
  show ?case by (cases "utf8_decode bs") auto
next
  case (Cons a s)
  then show ?case by (cases "utf8_decode bs") auto
qed

lemma utf8_decode_ascii [codec_simps]: "is_ascii s \<Longrightarrow> utf8_decode s = Some s"
  using utf8_decode_ascii_append[of s "[]"] by simp

lemma utf8_encode_ascii [codec_simps]: "is_ascii s \<Longrightarrow> utf8_encode s = s"
  by (induction s) (auto simp: utf8_encode_def utf8_cp_def)

lemma py_decode_ascii [codec_simps]: "is_ascii s \<Longrightarrow> py_decode s = Inr s"
  by (simp add: py_decode_def utf8_decode_ascii)

lemma utf8_cp_bytes: "c < 1114112 \<Longrightarrow> is_bytes (utf8_cp c)"
  by (auto simp: utf8_cp_def)

lemma radix64_3: "(c::nat) div 4096 * 4096 + c div 64 mod 64 * 64 + c mod 64 = c"
proof -
  have "c div 4096 = c div 64 div 64" by (simp add: div_mult2_eq[symmetric])
  then show ?thesis
    using div_mult_mod_eq[of c 64] div_mult_mod_eq[of "c div 64" 64] by linarith
qed

lemma radix64_4:
  "(c::nat) div 262144 * 262144 + c div 4096 mod 64 * 4096 + c div 64 mod 64 * 64 + c mod 64 = c"
proof -
  have "c div 262144 = c div 4096 div 64" by (simp add: div_mult2_eq[symmetric])
  then show ?thesis
    using div_mult_mod_eq[of "c div 4096" 64] radix64_3[of c] by linarith
qed

lemma utf8_decode_cp:
  "valid_cp c \<Longrightarrow> utf8_decode (utf8_cp c @ bs) = map_option ((#) c) (utf8_decode bs)"
proof -
  assume v: "valid_cp c"
  consider "c < 128" | "128 \<le> c" "c < 2048" | "2048 \<le> c" "c < 65536" | "65536 \<le> c" by linarith
  then show ?thesis
  proof cases
    case 1
    then show ?thesis by (simp add: utf8_cp_def)
  next
    case 2
    then have "192 + c div 64 < 224" "194 \<le> 192 + c div 64" by auto
    with 2 show ?thesis by (simp add: utf8_cp_def is_cont_def)
  next
    case 3
    then have a: "224 + c div 4096 < 240" by auto
    have e: "c div 4096 * 4096 + c div 64 mod 64 * 64 + c mod 64 = c" by (rule radix64_3)
    from 3 a v show ?thesis by (auto simp: utf8_cp_def is_cont_def Let_def e valid_cp_def)
  next
    case 4
    then have a: "240 + c div 262144 < 245" using v by (auto simp: valid_cp_def)
    have e: "c div 262144 * 262144 + c div 4096 mod 64 * 4096 + c div 64 mod 64 * 64 + c mod 64 = c"
      by (rule radix64_4)
    from 4 a v show ?thesis by (simp add: utf8_cp_def is_cont_def Let_def e valid_cp_def)
  qed
qed

lemma utf8_roundtrip [codec_simps]:
  "list_all valid_cp s \<Longrightarrow> utf8_decode (utf8_encode s) = Some s"
  by (induction s) (auto simp: utf8_encode_def utf8_decode_cp)

text \<open>
  \<^verbatim>\<open>bytes.decode(errors='replace')\<close>: each maximal part of a sequence that cannot be completed
  becomes one U+FFFD.
\<close>

definition second_ok :: "nat \<Rightarrow> nat \<Rightarrow> bool" where
  "second_ok a b \<longleftrightarrow> is_cont b \<and> (a = 224 \<longrightarrow> 160 \<le> b) \<and> (a = 237 \<longrightarrow> b < 160)
     \<and> (a = 240 \<longrightarrow> 144 \<le> b) \<and> (a = 244 \<longrightarrow> b < 144)"

fun decode_replace :: "bytes \<Rightarrow> pstr" where
  "decode_replace [] = []"
| "decode_replace (a # bs) =
     (if a < 128 then a # decode_replace bs
      else if 194 \<le> a \<and> a < 224 then
        (case bs of
           [] \<Rightarrow> [65533]
         | b # rest \<Rightarrow> if is_cont b then ((a - 192) * 64 + (b - 128)) # decode_replace rest
                     else 65533 # decode_replace bs)
      else if 224 \<le> a \<and> a < 240 then
        (case bs of
           [] \<Rightarrow> [65533]
         | b # bs1 \<Rightarrow>
             if \<not> second_ok a b then 65533 # decode_replace bs
             else (case bs1 of
                     [] \<Rightarrow> [65533]
                   | c # rest \<Rightarrow>
                       if is_cont c then ((a - 224) * 4096 + (b - 128) * 64 + (c - 128)) # decode_replace rest
                       else 65533 # decode_replace bs1))
      else if 240 \<le> a \<and> a < 245 then
        (case bs of
           [] \<Rightarrow> [65533]
         | b # bs1 \<Rightarrow>
             if \<not> second_ok a b then 65533 # decode_replace bs
             else (case bs1 of
                     [] \<Rightarrow> [65533]
                   | c # bs2 \<Rightarrow>
                       if \<not> is_cont c then 65533 # decode_replace bs1
                       else (case bs2 of
                               [] \<Rightarrow> [65533]
                             | d # rest \<Rightarrow>
                                 if is_cont d
                                 then ((a - 240) * 262144 + (b - 128) * 4096 + (c - 128) * 64 + (d - 128))
                                        # decode_replace rest
                                 else 65533 # decode_replace bs2)))
      else 65533 # decode_replace bs)"

lemma second_ok_3:
  assumes "224 \<le> a" "a < 240" "is_cont b" "is_cont c"
    and "\<not> ((a - 224) * 4096 + (b - 128) * 64 + (c - 128) < 2048)"
    and "\<not> (55296 \<le> (a - 224) * 4096 + (b - 128) * 64 + (c - 128)
            \<and> (a - 224) * 4096 + (b - 128) * 64 + (c - 128) < 57344)"
  shows "second_ok a b"
proof -
  have b: "128 \<le> b" "b < 192" "128 \<le> c" "c < 192" using assms(3,4) by (auto simp: is_cont_def)
  have "160 \<le> b" if "a = 224" using assms(5) b that by simp
  moreover have "b < 160" if "a = 237"
  proof (rule ccontr)
    assume "\<not> b < 160"
    then have "2048 \<le> (b - 128) * 64" "(b - 128) * 64 \<le> 4032" using b by auto
    then show False using assms(6) b that by auto
  qed
  ultimately show ?thesis using assms(1-3) by (auto simp: second_ok_def)
qed

lemma second_ok_4:
  assumes "240 \<le> a" "a < 245" "is_cont b" "is_cont c" "is_cont d"
    and "\<not> ((a - 240) * 262144 + (b - 128) * 4096 + (c - 128) * 64 + (d - 128) < 65536)"
    and "\<not> 1114111 < (a - 240) * 262144 + (b - 128) * 4096 + (c - 128) * 64 + (d - 128)"
  shows "second_ok a b"
proof -
  have b: "128 \<le> b" "b < 192" "128 \<le> c" "c < 192" "128 \<le> d" "d < 192"
    using assms(3-5) by (auto simp: is_cont_def)
  have "144 \<le> b" if "a = 240" using assms(6) b that by simp
  moreover have "b < 144" if "a = 244" using assms(7) b that by simp
  ultimately show ?thesis using assms(1-3) by (auto simp: second_ok_def)
qed

lemma utf8_decode_cases:
  assumes "utf8_decode (a # bs) = Some s"
  obtains (one) t where "a < 128" "utf8_decode bs = Some t" "s = a # t"
  | (two) b rest t where "194 \<le> a" "a < 224" "bs = b # rest" "is_cont b" "utf8_decode rest = Some t"
      "s = ((a - 192) * 64 + (b - 128)) # t"
  | (three) b c rest t where "224 \<le> a" "a < 240" "bs = b # c # rest" "is_cont b" "is_cont c"
      "second_ok a b" "utf8_decode rest = Some t"
      "s = ((a - 224) * 4096 + (b - 128) * 64 + (c - 128)) # t"
  | (four) b c d rest t where "240 \<le> a" "a < 245" "bs = b # c # d # rest" "is_cont b" "is_cont c"
      "is_cont d" "second_ok a b" "utf8_decode rest = Some t"
      "s = ((a - 240) * 262144 + (b - 128) * 4096 + (c - 128) * 64 + (d - 128)) # t"
proof -
  consider "a < 128" | "194 \<le> a" "a < 224" | "224 \<le> a" "a < 240" | "240 \<le> a" "a < 245"
    using assms by (auto split: if_splits)
  then show thesis
  proof cases
    case 1
    then show ?thesis using assms by (auto intro: one)
  next
    case 2
    then show ?thesis using assms by (auto split: list.splits if_splits intro: two)
  next
    case 3
    then have "\<exists>b c rest t. bs = b # c # rest \<and> is_cont b \<and> is_cont c \<and> utf8_decode rest = Some t
      \<and> \<not> ((a - 224) * 4096 + (b - 128) * 64 + (c - 128) < 2048)
      \<and> \<not> (55296 \<le> (a - 224) * 4096 + (b - 128) * 64 + (c - 128)
            \<and> (a - 224) * 4096 + (b - 128) * 64 + (c - 128) < 57344)
      \<and> s = ((a - 224) * 4096 + (b - 128) * 64 + (c - 128)) # t"
      using assms by (auto simp: Let_def split: list.splits if_splits)
    then show ?thesis using 3 second_ok_3 three by metis
  next
    case 4
    then have "\<exists>b c d rest t. bs = b # c # d # rest \<and> is_cont b \<and> is_cont c \<and> is_cont d
      \<and> utf8_decode rest = Some t
      \<and> \<not> ((a - 240) * 262144 + (b - 128) * 4096 + (c - 128) * 64 + (d - 128) < 65536)
      \<and> \<not> 1114111 < (a - 240) * 262144 + (b - 128) * 4096 + (c - 128) * 64 + (d - 128)
      \<and> s = ((a - 240) * 262144 + (b - 128) * 4096 + (c - 128) * 64 + (d - 128)) # t"
      using assms by (auto simp: Let_def split: list.splits if_splits)
    then show ?thesis using 4 second_ok_4 four by metis
  qed
qed

lemma decode_replace_strict: "utf8_decode bs = Some s \<Longrightarrow> decode_replace bs = s"
proof (induction bs arbitrary: s rule: length_induct)
  case (1 bs)
  show ?case
  proof (cases bs)
    case (Cons a bs')
    with 1(2) have "utf8_decode (a # bs') = Some s" by simp
    then show ?thesis
      by (cases rule: utf8_decode_cases) (use 1(1) Cons in \<open>simp_all\<close>)
  qed (use 1 in simp)
qed

lemma decode_replace_encode [codec_simps]: "list_all valid_cp s \<Longrightarrow> decode_replace (utf8_encode s) = s"
  by (simp add: decode_replace_strict utf8_roundtrip)

end
