(* ===== verification/Byte_Codecs.thy ===== *)
theory Byte_Codecs
  imports Hex_Prelude
begin

text \<open>
  Byte-level parts of the Python standard library used by HexDNS: big-endian fields of
  \<^verbatim>\<open>struct.pack\<close> and \<^verbatim>\<open>struct.unpack\<close>, \<^verbatim>\<open>bytes.fromhex\<close> and \<^verbatim>\<open>hexdigest\<close>, \<^verbatim>\<open>base64\<close>; and the
  interface \<open>byte_codec\<close> of an encoder with a decoder that hands back the rest of the input,
  whose consequences (injectivity, unique parsing, sequences) are proved once.
\<close>

section \<open>The codec interface\<close>

fun dec_list :: "(bytes \<Rightarrow> ('a \<times> bytes) res) \<Rightarrow> nat \<Rightarrow> bytes \<Rightarrow> ('a list \<times> bytes) res" where
  "dec_list dec 0 bs = Inr ([], bs)"
| "dec_list dec (Suc n) bs =
     bind_res (dec bs) (\<lambda>(a, r). bind_res (dec_list dec n r) (\<lambda>(as, r'). Inr (a # as, r')))"

locale byte_codec =
  fixes enc :: "'a \<Rightarrow> bytes"
    and dec :: "bytes \<Rightarrow> ('a \<times> bytes) res"
    and valid :: "'a \<Rightarrow> bool"
  assumes dec_enc: "valid a \<Longrightarrow> dec (enc a @ rest) = Inr (a, rest)"
begin

lemma dec_enc_all: "valid a \<Longrightarrow> dec (enc a) = Inr (a, [])"
  using dec_enc[of a "[]"] by simp

lemma enc_prefix_unique:
  assumes "valid a" "valid b" "enc a @ r = enc b @ s"
  shows "a = b \<and> r = s"
proof -
  have "dec (enc a @ r) = dec (enc b @ s)"
    using assms(3) by (rule arg_cong)
  then show ?thesis unfolding dec_enc[OF assms(1)] dec_enc[OF assms(2)] by simp
qed

lemma enc_inj: "valid a \<Longrightarrow> valid b \<Longrightarrow> enc a = enc b \<Longrightarrow> a = b"
  using enc_prefix_unique[of a b "[]" "[]"] by simp

lemma dec_list_enc:
  "list_all valid as \<Longrightarrow>
   dec_list dec (length as) (concat (map enc as) @ rest) = Inr (as, rest)"
  by (induction as) (auto simp: dec_enc)

lemma enc_list_inj:
  assumes "list_all valid as" "list_all valid bs" "length as = length bs"
    "concat (map enc as) = concat (map enc bs)"
  shows "as = bs"
  using dec_list_enc[OF assms(1), of "[]"] dec_list_enc[OF assms(2), of "[]"] assms(3,4) by simp

end


section \<open>Big-endian fields of struct\<close>

fun be_bytes :: "nat \<Rightarrow> nat \<Rightarrow> bytes" where
  "be_bytes 0 v = []"
| "be_bytes (Suc w) v = be_bytes w (v div 256) @ [v mod 256]"

definition from_be :: "bytes \<Rightarrow> nat" where
  "from_be bs = foldl (\<lambda>acc b. acc * 256 + b) 0 bs"

definition pack_be :: "nat \<Rightarrow> int \<Rightarrow> bytes res" where
  "pack_be w v = (if 0 \<le> v \<and> v < 256 ^ w then Inr (be_bytes w (nat v)) else Inl StructError)"

abbreviation pack_B :: "int \<Rightarrow> bytes res" where "pack_B \<equiv> pack_be 1"
abbreviation pack_H :: "int \<Rightarrow> bytes res" where "pack_H \<equiv> pack_be 2"
abbreviation pack_I :: "int \<Rightarrow> bytes res" where "pack_I \<equiv> pack_be 4"
abbreviation pack_Q :: "int \<Rightarrow> bytes res" where "pack_Q \<equiv> pack_be 8"

definition unpack_be :: "nat \<Rightarrow> bytes \<Rightarrow> (nat \<times> bytes) res" where
  "unpack_be w bs = (if length bs < w then Inl StructError else Inr (from_be (take w bs), drop w bs))"

definition get_bytes :: "nat \<Rightarrow> bytes \<Rightarrow> (bytes \<times> bytes) res" where
  "get_bytes n bs = (if length bs < n then Inl StructError else Inr (take n bs, drop n bs))"

lemma length_be_bytes [simp]: "length (be_bytes w v) = w"
  by (induction w arbitrary: v) auto

lemma be_bytes_unfold:
  "be_bytes 1 v = [v mod 256]"
  "be_bytes 2 v = [v div 256 mod 256, v mod 256]"
  "be_bytes 4 v = [v div 256 div 256 div 256 mod 256, v div 256 div 256 mod 256, v div 256 mod 256, v mod 256]"
proof -
  have 2: "(2::nat) = Suc (Suc 0)" and 4: "(4::nat) = Suc (Suc (Suc (Suc 0)))" by simp_all
  show "be_bytes 1 v = [v mod 256]" by simp
  show "be_bytes 2 v = [v div 256 mod 256, v mod 256]"
    by (simp only: 2 be_bytes.simps append.simps)
  show "be_bytes 4 v =
    [v div 256 div 256 div 256 mod 256, v div 256 div 256 mod 256, v div 256 mod 256, v mod 256]"
    by (simp only: 4 be_bytes.simps append.simps)
qed

lemma is_bytes_be_bytes [simp]: "is_bytes (be_bytes w v)"
  by (induction w arbitrary: v) auto

lemma from_be_snoc [simp]: "from_be (bs @ [b]) = from_be bs * 256 + b"
  by (simp add: from_be_def)

lemma from_be_be_bytes [codec_simps]: "v < 256 ^ w \<Longrightarrow> from_be (be_bytes w v) = v"
proof (induction w arbitrary: v)
  case 0
  then show ?case by (simp add: from_be_def)
next
  case (Suc w)
  then have "v div 256 < 256 ^ w" by (simp add: less_mult_imp_div_less mult.commute)
  from Suc.IH[OF this] show ?case by simp
qed

lemma from_be_bound: "is_bytes bs \<Longrightarrow> from_be bs < 256 ^ length bs"
proof (induction bs rule: rev_induct)
  case Nil
  show ?case by (simp add: from_be_def)
next
  case (snoc b bs)
  then have "from_be bs + 1 \<le> 256 ^ length bs" "b < 256" by auto
  then have "from_be bs * 256 + b < 256 ^ length bs * 256" by linarith
  then show ?case by (simp add: mult.commute)
qed

lemma be_bytes_from_be [codec_simps]: "is_bytes bs \<Longrightarrow> be_bytes (length bs) (from_be bs) = bs"
proof (induction bs rule: rev_induct)
  case Nil
  show ?case by simp
next
  case (snoc b bs)
  then show ?case by simp
qed

lemma unpack_be_bytes [codec_simps]:
  "v < 256 ^ w \<Longrightarrow> unpack_be w (be_bytes w v @ rest) = Inr (v, rest)"
  by (simp add: unpack_be_def from_be_be_bytes)

lemma get_bytes_append [codec_simps]: "get_bytes (length m) (m @ rest) = Inr (m, rest)"
  by (simp add: get_bytes_def)

lemma pack_be_Inr_iff [codec_simps]:
  "pack_be w v = Inr bs \<longleftrightarrow> 0 \<le> v \<and> v < 256 ^ w \<and> bs = be_bytes w (nat v)"
  by (auto simp: pack_be_def)

lemma pack_be_nat [codec_simps]: "v < 256 ^ w \<Longrightarrow> pack_be w (int v) = Inr (be_bytes w v)"
proof -
  assume "v < 256 ^ w"
  then have "int v < 256 ^ w" by (metis of_nat_less_iff of_nat_numeral of_nat_power)
  then show ?thesis by (simp add: pack_be_def)
qed

interpretation u16: byte_codec "be_bytes 2" "unpack_be 2" "\<lambda>v. v < 65536"
  by unfold_locales (rule unpack_be_bytes, simp)

interpretation u32: byte_codec "be_bytes 4" "unpack_be 4" "\<lambda>v. v < 4294967296"
  by unfold_locales (rule unpack_be_bytes, simp)


section \<open>Hexadecimal\<close>

definition is_ascii_space :: "nat \<Rightarrow> bool" where
  "is_ascii_space c \<longleftrightarrow> c = 32 \<or> (9 \<le> c \<and> c \<le> 13)"

definition hex_val :: "nat \<Rightarrow> nat option" where
  "hex_val c =
     (if 48 \<le> c \<and> c \<le> 57 then Some (c - 48)
      else if 97 \<le> c \<and> c \<le> 102 then Some (c - 87)
      else if 65 \<le> c \<and> c \<le> 70 then Some (c - 55) else None)"

fun fromhex :: "pstr \<Rightarrow> bytes res" where
  "fromhex [] = Inr []"
| "fromhex [c] = (if is_ascii_space c then Inr [] else Inl ValueError)"
| "fromhex (c # d # cs) =
     (if is_ascii_space c then fromhex (d # cs)
      else (case (hex_val c, hex_val d) of
              (Some h, Some l) \<Rightarrow> bind_res (fromhex cs) (\<lambda>bs. Inr ((h * 16 + l) # bs))
            | _ \<Rightarrow> Inl ValueError))"

lemma hex_val_digit: "n < 16 \<Longrightarrow> hex_val (hex_digit n) = Some n \<and> \<not> is_ascii_space (hex_digit n)"
  by (auto simp: hex_val_def hex_digit_def is_ascii_space_def)

lemma fromhex_hexlify [codec_simps]: "is_bytes bs \<Longrightarrow> fromhex (hexlify bs) = Inr bs"
proof (induction bs)
  case Nil
  show ?case by (simp add: hexlify_def)
next
  case (Cons b bs)
  have "hexlify (b # bs) = hex_digit (b div 16) # hex_digit (b mod 16) # hexlify bs"
    by (simp add: hexlify_def)
  moreover have "b div 16 < 16" "b mod 16 < 16" using Cons.prems by auto
  ultimately show ?case using Cons by (simp add: hex_val_digit)
qed

lemma hex_val_bound: "hex_val c = Some v \<Longrightarrow> v < 16"
  by (auto simp: hex_val_def split: if_splits)

lemma fromhex_bytes: "fromhex s = Inr bs \<Longrightarrow> is_bytes bs"
proof (induction s arbitrary: bs rule: fromhex.induct)
  case (3 c d cs)
  show ?case
  proof (cases "is_ascii_space c")
    case True
    with 3 show ?thesis by simp
  next
    case False
    with 3 obtain h l r where "hex_val c = Some h" "hex_val d = Some l" "fromhex cs = Inr r"
      and b: "bs = (h * 16 + l) # r"
      by (auto simp: res_simps split: option.splits)
    then have "h < 16" "l < 16" "is_bytes r" using 3 False by (auto dest: hex_val_bound)
    then show ?thesis using b by simp
  qed
qed (auto split: if_splits)


section \<open>Base64\<close>

text \<open>
  \<open>a2b\<close> is the loop of \<^verbatim>\<open>binascii.a2b_base64\<close> in its default, non-strict mode: characters
  outside the alphabet are skipped, a complete padding ends the input, and an incomplete final
  group raises. \<^verbatim>\<open>base64.b64decode\<close> first requires a \<^verbatim>\<open>str\<close> argument to be ASCII, raising
  \<^verbatim>\<open>ValueError\<close> otherwise (which \<^verbatim>\<open>except binascii.Error\<close> does not catch).
\<close>

definition b64_char :: "nat \<Rightarrow> nat" where
  "b64_char v =
     (if v < 26 then 65 + v else if v < 52 then 71 + v else if v < 62 then v - 4
      else if v = 62 then 43 else 47)"

definition b64_val :: "nat \<Rightarrow> nat option" where
  "b64_val c =
     (if 65 \<le> c \<and> c \<le> 90 then Some (c - 65) else if 97 \<le> c \<and> c \<le> 122 then Some (c - 71)
      else if 48 \<le> c \<and> c \<le> 57 then Some (c + 4) else if c = 43 then Some 62
      else if c = 47 then Some 63 else None)"

fun b64encode :: "bytes \<Rightarrow> pstr" where
  "b64encode [] = []"
| "b64encode [a] = [b64_char (a div 4), b64_char (a mod 4 * 16), 61, 61]"
| "b64encode [a, b] =
     [b64_char (a div 4), b64_char (a mod 4 * 16 + b div 16), b64_char (b mod 16 * 4), 61]"
| "b64encode (a # b # c # bs) =
     b64_char (a div 4) # b64_char (a mod 4 * 16 + b div 16)
       # b64_char (b mod 16 * 4 + c div 64) # b64_char (c mod 64) # b64encode bs"

fun a2b :: "nat \<Rightarrow> nat \<Rightarrow> nat \<Rightarrow> pstr \<Rightarrow> bytes res" where
  "a2b q left pads [] = (if q = 0 then Inr [] else Inl BinasciiError)"
| "a2b q left pads (c # cs) =
     (if c = 61 then
        (if 2 \<le> q \<and> 4 \<le> q + pads + 1 then Inr [] else a2b q left (if 2 \<le> q then pads + 1 else pads) cs)
      else
        (case b64_val c of
           None \<Rightarrow> a2b q left pads cs
         | Some v \<Rightarrow>
             (if q = 0 then a2b 1 v 0 cs
              else if q = 1 then bind_res (a2b 2 (v mod 16) 0 cs) (\<lambda>r. Inr ((left * 4 + v div 16) # r))
              else if q = 2 then bind_res (a2b 3 (v mod 4) 0 cs) (\<lambda>r. Inr ((left * 16 + v div 4) # r))
              else bind_res (a2b 0 0 0 cs) (\<lambda>r. Inr ((left * 64 + v) # r)))))"

definition b64decode :: "pstr \<Rightarrow> bytes res" where
  "b64decode s = (if is_ascii s then a2b 0 0 0 s else Inl ValueError)"

lemma b64_val_char: "v < 64 \<Longrightarrow> b64_val (b64_char v) = Some v \<and> b64_char v \<noteq> 61 \<and> b64_char v < 128"
  by (auto simp: b64_val_def b64_char_def)

lemma b64_parts:
  "a < 256 \<Longrightarrow> a div 4 < 64 \<and> a mod 4 * 16 < 64 \<and> a mod 16 * 4 < 64 \<and> a div 16 < 16 \<and> a div 64 < 4"
  "a < 256 \<Longrightarrow> b < 256 \<Longrightarrow> a mod 4 * 16 + b div 16 < 64"
  "b < 256 \<Longrightarrow> c < 256 \<Longrightarrow> b mod 16 * 4 + c div 64 < 64"
  for a b c :: nat
  by (auto simp: less_mult_imp_div_less)

lemma b64encode_ascii: "is_bytes bs \<Longrightarrow> is_ascii (b64encode bs)"
  by (induction bs rule: b64encode.induct) (auto simp: b64_parts b64_val_char)

lemma a2b_b64encode: "is_bytes bs \<Longrightarrow> a2b 0 0 0 (b64encode bs) = Inr bs"
proof (induction bs rule: b64encode.induct)
  case 1
  show ?case by simp
next
  case (2 a)
  have m: "a mod 4 * 16 div 16 = a mod 4" by simp
  from 2 show ?case by (simp add: b64_val_char b64_parts m)
next
  case (3 a b)
  have "(a mod 4 * 16 + b div 16) mod 16 = b div 16" "(a mod 4 * 16 + b div 16) div 16 = a mod 4"
    using 3 by auto
  with 3 show ?case by (simp add: b64_val_char b64_parts)
next
  case (4 a b c bs)
  have "(a mod 4 * 16 + b div 16) mod 16 = b div 16" "(a mod 4 * 16 + b div 16) div 16 = a mod 4"
    "(b mod 16 * 4 + c div 64) mod 4 = c div 64" "(b mod 16 * 4 + c div 64) div 4 = b mod 16"
    using 4 by auto
  with 4 show ?case by (simp add: b64_val_char b64_parts)
qed

lemma b64decode_b64encode [codec_simps]: "is_bytes bs \<Longrightarrow> b64decode (b64encode bs) = Inr bs"
  by (simp add: b64decode_def b64encode_ascii a2b_b64encode)

end
