(* ===== verification/Py_Ipaddress.thy ===== *)
theory Py_Ipaddress
  imports Byte_Codecs
begin

text \<open>
  The part of Python's standard \<^verbatim>\<open>ipaddress\<close> module that HexDNS uses: addresses and networks,
  their parsers and printers, membership. An address is its integer value; \<open>ip_wf\<close> is the range
  that the module's constructors guarantee. Scope identifiers of IPv6 addresses are not modelled.
\<close>

section \<open>Addresses\<close>

datatype ip_addr = IPv4 nat | IPv6 nat

fun ip_wf :: "ip_addr \<Rightarrow> bool" where
  "ip_wf (IPv4 v) \<longleftrightarrow> v < 2 ^ 32"
| "ip_wf (IPv6 v) \<longleftrightarrow> v < 2 ^ 128"

fun is_v4 :: "ip_addr \<Rightarrow> bool" where
  "is_v4 (IPv4 v) = True"
| "is_v4 (IPv6 v) = False"

definition digits_be :: "nat \<Rightarrow> nat \<Rightarrow> nat \<Rightarrow> nat list" where
  "digits_be base n v = map (\<lambda>i. v div base ^ (n - 1 - i) mod base) [0..<n]"

definition v4_octets :: "nat \<Rightarrow> nat list" where
  "v4_octets v = digits_be 256 4 v"

definition v6_hextets :: "nat \<Rightarrow> nat list" where
  "v6_hextets v = digits_be 65536 8 v"

definition v6_nibbles :: "nat \<Rightarrow> nat list" where
  "v6_nibbles v = digits_be 16 32 v"

definition v4_str :: "nat \<Rightarrow> pstr" where
  "v4_str v = join (str ''.'') (map dec_str (v4_octets v))"

fun hex_trim :: "nat \<Rightarrow> pstr" where
  "hex_trim n = (if n < 16 then [hex_digit n] else hex_trim (n div 16) @ [hex_digit (n mod 16)])"

declare hex_trim.simps [simp del]

fun zero_run :: "nat \<Rightarrow> nat \<Rightarrow> nat \<Rightarrow> nat \<times> nat \<Rightarrow> nat list \<Rightarrow> nat \<times> nat" where
  "zero_run i start len best [] = best"
| "zero_run i start len best (h # hs) =
     (if h = 0 then
        (let start' = (if len = 0 then i else start); len' = len + 1 in
         zero_run (i + 1) start' len' (if snd best < len' then (start', len') else best) hs)
      else zero_run (i + 1) 0 0 best hs)"

definition compress_hextets :: "nat list \<Rightarrow> pstr list" where
  "compress_hextets hs =
     (let (s, l) = zero_run 0 0 0 (0, 0) hs; ps = map hex_trim hs in
      if 1 < l then
        (if s = 0 then [[]] else []) @ take s ps @ [[]] @ drop (s + l) ps
          @ (if s + l = length hs then [[]] else [])
      else ps)"

definition v6_str :: "nat \<Rightarrow> pstr" where
  "v6_str v = join (str '':'') (compress_hextets (v6_hextets v))"

fun ip_str :: "ip_addr \<Rightarrow> pstr" where
  "ip_str (IPv4 v) = v4_str v"
| "ip_str (IPv6 v) = v6_str v"

fun groups_of :: "nat \<Rightarrow> 'a list \<Rightarrow> 'a list list" where
  "groups_of n xs = (if n = 0 \<or> length xs \<le> n then [xs] else take n xs # groups_of n (drop n xs))"

declare groups_of.simps [simp del]

definition v6_exploded :: "nat \<Rightarrow> pstr" where
  "v6_exploded v = join (str '':'') (groups_of 4 (map hex_digit (v6_nibbles v)))"

definition packed :: "ip_addr \<Rightarrow> bytes" where
  "packed a = (case a of IPv4 v \<Rightarrow> be_bytes 4 v | IPv6 v \<Rightarrow> be_bytes 16 v)"

definition ipv4_mapped :: "nat \<Rightarrow> nat option" where
  "ipv4_mapped v = (if v div 2 ^ 32 = 65535 then Some (v mod 2 ^ 32) else None)"


section \<open>Parsing addresses\<close>

definition parse_octet :: "pstr \<Rightarrow> nat option" where
  "parse_octet s =
     (if s = [] \<or> \<not> list_all is_digit s \<or> 3 < length s then None
      else if s \<noteq> [48] \<and> hd s = 48 then None
      else (case nat_of_digits s of Some n \<Rightarrow> (if n \<le> 255 then Some n else None) | None \<Rightarrow> None))"

definition parse_v4 :: "pstr \<Rightarrow> nat option" where
  "parse_v4 s =
     (case map parse_octet (split_on 46 s) of
        [Some a, Some b, Some c, Some d] \<Rightarrow> Some (((a * 256 + b) * 256 + c) * 256 + d)
      | _ \<Rightarrow> None)"

fun hex_number :: "nat \<Rightarrow> pstr \<Rightarrow> nat option" where
  "hex_number acc [] = Some acc"
| "hex_number acc (c # cs) =
     (case hex_val c of Some h \<Rightarrow> hex_number (acc * 16 + h) cs | None \<Rightarrow> None)"

definition parse_hextet :: "pstr \<Rightarrow> nat option" where
  "parse_hextet s = (if s = [] \<or> 4 < length s then None else hex_number 0 s)"

fun hextets_val :: "nat \<Rightarrow> pstr list \<Rightarrow> nat option" where
  "hextets_val acc [] = Some acc"
| "hextets_val acc (p # ps) =
     (case parse_hextet p of Some h \<Rightarrow> hextets_val (acc * 65536 + h) ps | None \<Rightarrow> None)"

definition v6_parts :: "pstr \<Rightarrow> pstr list option" where
  "v6_parts s =
     (let ps = split_on 58 s in
      if length ps < 3 then None
      else if 46 \<in> set (last ps) then
        (case parse_v4 (last ps) of
           None \<Rightarrow> None
         | Some v \<Rightarrow> Some (butlast ps @ [hex_trim (v div 65536), hex_trim (v mod 65536)]))
      else Some ps)"

definition inner_empties :: "pstr list \<Rightarrow> nat list" where
  "inner_empties ps = filter (\<lambda>i. ps ! i = []) [1..<length ps - 1]"

definition parse_v6 :: "pstr \<Rightarrow> nat option" where
  "parse_v6 s =
     (case v6_parts s of
        None \<Rightarrow> None
      | Some ps \<Rightarrow>
          if 9 < length ps then None
          else (case inner_empties ps of
              [k] \<Rightarrow>
                (let hi = (if hd ps = [] then k - 1 else k);
                     lo0 = length ps - k - 1;
                     lo = (if last ps = [] then lo0 - 1 else lo0) in
                 if (hd ps = [] \<and> hi \<noteq> 0) \<or> (last ps = [] \<and> lo \<noteq> 0) \<or> 8 \<le> hi + lo then None
                 else (case hextets_val 0 (take hi ps) of
                         None \<Rightarrow> None
                       | Some v \<Rightarrow>
                           hextets_val (v * 65536 ^ (8 - (hi + lo))) (drop (length ps - lo) ps)))
            | [] \<Rightarrow>
                (if length ps \<noteq> 8 \<or> hd ps = [] \<or> last ps = [] then None else hextets_val 0 ps)
            | _ \<Rightarrow> None))"

definition parse_ip :: "pstr \<Rightarrow> ip_addr res" where
  "parse_ip s =
     (case parse_v4 s of
        Some v \<Rightarrow> Inr (IPv4 v)
      | None \<Rightarrow> (case parse_v6 s of Some v \<Rightarrow> Inr (IPv6 v) | None \<Rightarrow> Inl ValueError))"


section \<open>Networks\<close>

datatype ip_network = Net4 nat nat | Net6 nat nat

fun prefixlen :: "ip_network \<Rightarrow> nat" where
  "prefixlen (Net4 a p) = p"
| "prefixlen (Net6 a p) = p"

fun ip_network_of :: "ip_addr \<Rightarrow> nat \<Rightarrow> ip_network res" where
  "ip_network_of (IPv4 v) p =
     (if p \<le> 32 \<and> v mod 2 ^ (32 - p) = 0 then Inr (Net4 v p) else Inl ValueError)"
| "ip_network_of (IPv6 v) p =
     (if p \<le> 128 \<and> v mod 2 ^ (128 - p) = 0 then Inr (Net6 v p) else Inl ValueError)"

fun in_network :: "ip_addr \<Rightarrow> ip_network \<Rightarrow> bool" where
  "in_network (IPv4 v) (Net4 a p) \<longleftrightarrow> v div 2 ^ (32 - p) = a div 2 ^ (32 - p)"
| "in_network (IPv6 v) (Net6 a p) \<longleftrightarrow> v div 2 ^ (128 - p) = a div 2 ^ (128 - p)"
| "in_network _ _ \<longleftrightarrow> False"

fun net_wf :: "ip_network \<Rightarrow> bool" where
  "net_wf (Net4 a p) \<longleftrightarrow> p \<le> 32 \<and> a < 2 ^ 32 \<and> a mod 2 ^ (32 - p) = 0"
| "net_wf (Net6 a p) \<longleftrightarrow> p \<le> 128 \<and> a < 2 ^ 128 \<and> a mod 2 ^ (128 - p) = 0"

definition prefix_of_string :: "nat \<Rightarrow> pstr \<Rightarrow> nat option" where
  "prefix_of_string mx s =
     (if s = [] \<or> \<not> list_all is_digit s then None
      else (case nat_of_digits s of Some n \<Rightarrow> (if n \<le> mx then Some n else None) | None \<Rightarrow> None))"

definition prefix_of_mask :: "nat \<Rightarrow> nat option" where
  "prefix_of_mask m = find (\<lambda>p. m = 2 ^ 32 - 2 ^ (32 - p)) [0..<33]"

definition make_netmask4 :: "pstr \<Rightarrow> nat option" where
  "make_netmask4 s =
     (case prefix_of_string 32 s of
        Some p \<Rightarrow> Some p
      | None \<Rightarrow> (case parse_v4 s of
          None \<Rightarrow> None
        | Some m \<Rightarrow> (case prefix_of_mask m of
            Some p \<Rightarrow> Some p
          | None \<Rightarrow> prefix_of_mask (2 ^ 32 - 1 - m))))"

definition parse_net4 :: "pstr \<Rightarrow> ip_network res" where
  "parse_net4 s =
     (case split_on 47 s of
        [a] \<Rightarrow> (case parse_v4 a of Some v \<Rightarrow> ip_network_of (IPv4 v) 32 | None \<Rightarrow> Inl ValueError)
      | [a, m] \<Rightarrow>
          (case (parse_v4 a, make_netmask4 m) of
             (Some v, Some p) \<Rightarrow> ip_network_of (IPv4 v) p
           | _ \<Rightarrow> Inl ValueError)
      | _ \<Rightarrow> Inl ValueError)"

definition parse_net6 :: "pstr \<Rightarrow> ip_network res" where
  "parse_net6 s =
     (case split_on 47 s of
        [a] \<Rightarrow> (case parse_v6 a of Some v \<Rightarrow> ip_network_of (IPv6 v) 128 | None \<Rightarrow> Inl ValueError)
      | [a, m] \<Rightarrow>
          (case (parse_v6 a, prefix_of_string 128 m) of
             (Some v, Some p) \<Rightarrow> ip_network_of (IPv6 v) p
           | _ \<Rightarrow> Inl ValueError)
      | _ \<Rightarrow> Inl ValueError)"


section \<open>Facts\<close>

lemma length_digits_be [simp]: "length (digits_be base n v) = n"
  by (simp add: digits_be_def)

lemma nth_digits_be: "i < n \<Longrightarrow> digits_be base n v ! i = v div base ^ (n - 1 - i) mod base"
  by (simp add: digits_be_def)

lemma digits_be_bound: "0 < base \<Longrightarrow> d \<in> set (digits_be base n v) \<Longrightarrow> d < base"
  by (auto simp: digits_be_def)

lemma ip_network_of_wf: "ip_wf a \<Longrightarrow> ip_network_of a p = Inr n \<Longrightarrow> net_wf n \<and> prefixlen n = p"
  by (cases a) (auto split: if_splits)

lemma in_own_network: "ip_network_of a p = Inr n \<Longrightarrow> in_network a n"
  by (cases a) (auto split: if_splits)

lemma groups_of_short: "length xs \<le> n \<Longrightarrow> groups_of n xs = [xs]"
  by (subst groups_of.simps) simp

lemma groups_of_long: "0 < n \<Longrightarrow> n < length xs \<Longrightarrow> groups_of n xs = take n xs # groups_of n (drop n xs)"
  by (subst groups_of.simps) simp

lemma concat_groups_of: "concat (groups_of n xs) = xs"
proof (induction n xs rule: groups_of.induct)
  case (1 n xs)
  then show ?case by (subst groups_of.simps) simp
qed

lemma replace_join_groups:
  assumes "c \<notin> set (concat ps)"
  shows "replace_cp c [] (join [c] ps) = concat ps"
  using assms
proof (induction "[c]" ps rule: join.induct)
  case (2 p)
  then show ?case by (induction p) (auto simp: replace_cp_def)
next
  case (3 p q ps)
  have "replace_cp c [] (p @ [c] @ join [c] (q # ps)) =
      replace_cp c [] p @ replace_cp c [] (join [c] (q # ps))"
    by (simp add: replace_cp_def)
  moreover have "replace_cp c [] p = p"
    using 3(2) by (induction p) (auto simp: replace_cp_def)
  ultimately show ?case using 3 by simp
qed (simp add: replace_cp_def)

lemma hex_digit_not_colon: "n < 16 \<Longrightarrow> hex_digit n \<noteq> 58"
  by (auto simp: hex_digit_def)

lemma v6_exploded_replace:
  "replace_cp 58 [] (v6_exploded v) = map hex_digit (v6_nibbles v)"
proof -
  have "58 \<notin> set (map hex_digit (v6_nibbles v))"
    by (auto simp: v6_nibbles_def dest!: digits_be_bound[rotated] hex_digit_not_colon)
  then show ?thesis
    using replace_join_groups[of 58 "groups_of 4 (map hex_digit (v6_nibbles v))"]
    by (simp add: v6_exploded_def concat_groups_of del: set_concat)
qed

lemma ip_str_examples [str_eval]:
  "ip_str (IPv4 (2 ^ 24 * 45 + 2 ^ 16 * 129 + 2 ^ 8 * 95 + 254)) = str ''45.129.95.254''"
  "ip_str (IPv6 1) = str ''::1''" "ip_str (IPv6 0) = str ''::''"
  by (simp_all add: v4_str_def v4_octets_def v6_str_def v6_hextets_def digits_be_def upt_rec
      dec_str.simps compress_hextets_def hex_trim.simps hex_digit_def)

end
