(* ===== verification/Svcb.thy ===== *)
theory Svcb
  imports Py_Ipaddress "HOL-Library.Multiset"
begin

text \<open>
  \<^verbatim>\<open>svcb.py\<close>: the parsers of service binding parameters (RFC 9460), the parameter values, their
  wire format and their presentation. A parser takes the \<^verbatim>\<open>bytearray\<close> it consumes and returns its
  result with what is left of the array (the source pops bytes off its argument). Writing to a
  \<^verbatim>\<open>dnslib.DNSBuffer\<close> is modelled by the bytes appended to it.
\<close>

section \<open>Character classes\<close>

definition svcb_fetch_port_blocking :: "int \<Rightarrow> bool" where
  "svcb_fetch_port_blocking port \<longleftrightarrow> port \<in> set
     [1, 7, 9, 11, 13, 15, 17, 19, 20, 21, 22, 23, 25, 37, 42, 43, 53, 69, 77, 79, 87, 95, 101, 102, 103, 104,
      109, 110, 111, 113, 115, 117, 119, 123, 135, 137, 139, 143, 161, 179, 389, 427, 465, 512, 513, 514, 515,
      526, 530, 531, 532, 540, 548, 554, 556, 563, 601, 636, 993, 995, 1719, 1720, 1723, 2049, 3659, 4045, 5060,
      5061, 6000, 6566, 6665, 6666, 6667, 6668, 6669, 6697, 10080]"

definition is_item_allowed_char :: "nat \<Rightarrow> bool" where
  "is_item_allowed_char c \<longleftrightarrow>
     (0x00 \<le> c \<and> c \<le> 0x2b) \<or> (0x2d \<le> c \<and> c \<le> 0x5b) \<or> (0x5d \<le> c \<and> c \<le> 0xff)"

definition is_non_special_char :: "nat \<Rightarrow> bool" where
  "is_non_special_char c \<longleftrightarrow>
     c = 0x21 \<or> (0x23 \<le> c \<and> c \<le> 0x27) \<or> (0x2a \<le> c \<and> c \<le> 0x3a) \<or> (0x3c \<le> c \<and> c \<le> 0x5b)
     \<or> (0x5d \<le> c \<and> c \<le> 0x7e)"

definition is_non_digit_char :: "nat \<Rightarrow> bool" where
  "is_non_digit_char c \<longleftrightarrow> (0x21 \<le> c \<and> c \<le> 0x2f) \<or> (0x3a \<le> c \<and> c \<le> 0x7e)"

definition is_digit_char :: "nat \<Rightarrow> bool" where
  "is_digit_char c \<longleftrightarrow> 0x30 \<le> c \<and> c \<le> 0x39"

definition is_wsp :: "nat \<Rightarrow> bool" where
  "is_wsp c \<longleftrightarrow> c = 32 \<or> c = 9"


section \<open>Parsers\<close>

text \<open>
  The contract the parsers share: what a parser leaves is a suffix of what it was given. The loops
  that call them terminate by it, and a byte string stays one.
\<close>

locale consumer =
  fixes p :: "bytes \<Rightarrow> ('a \<times> bytes) res"
  assumes consumes: "p data = Inr (x, rest) \<Longrightarrow> suffix rest data"
begin

lemma rest_length: "p data = Inr (x, rest) \<Longrightarrow> length rest \<le> length data"
  by (rule suffix_length_le) (rule consumes)

lemma rest_bytes: "p data = Inr (x, rest) \<Longrightarrow> is_bytes data \<Longrightarrow> is_bytes rest"
  by (blast intro: is_bytes_subset dest: consumes set_mono_suffix)

end

definition decode_escaped :: "bytes \<Rightarrow> (nat \<times> bytes) res" where
  "decode_escaped data =
     (case data of
        [] \<Rightarrow> Inl ValidationError
      | f # r \<Rightarrow>
          if is_non_digit_char f then Inr (f, r)
          else (case r of
              d2 # d3 # r' \<Rightarrow>
                if \<not> (is_digit_char f \<and> is_digit_char d2 \<and> is_digit_char d3) then Inl ValidationError
                else (let val = (f - 0x30) * 100 + (d2 - 0x30) * 10 + (d3 - 0x30) in
                      if 255 < val then Inl ValidationError else Inr (val, r'))
            | _ \<Rightarrow> Inl ValidationError))"

lemma decode_escaped_shorter: "decode_escaped data = Inr (v, r) \<Longrightarrow> length r < length data"
  by (auto simp: decode_escaped_def Let_def split: list.splits if_splits)

interpretation esc: consumer decode_escaped
  by unfold_locales
    (auto simp: decode_escaped_def Let_def suffix_def split: list.splits if_splits)

function decode_contiguous_str :: "bool \<Rightarrow> bytes \<Rightarrow> (bytes \<times> bytes) res" where
  "decode_contiguous_str allow_space [] = Inr ([], [])"
| "decode_contiguous_str allow_space (c # r) =
     (if c = 92 then
        (case decode_escaped r of
           Inl e \<Rightarrow> Inl e
         | Inr (v, r') \<Rightarrow>
             bind_res (decode_contiguous_str allow_space r') (\<lambda>(out, rest). Inr (v # out, rest)))
      else if is_non_special_char c \<or> (c = 32 \<and> allow_space) then
        bind_res (decode_contiguous_str allow_space r) (\<lambda>(out, rest). Inr (c # out, rest))
      else Inr ([], c # r))"
  by pat_completeness auto
termination
  by (relation "measure (\<lambda>(a, d). length d)") (auto dest: decode_escaped_shorter)

lemma decode_contiguous_str_suffix:
  "decode_contiguous_str a data = Inr (out, r) \<Longrightarrow> suffix r data"
proof (induction a data arbitrary: out r rule: decode_contiguous_str.induct)
  case (2 a c d)
  show ?case
  proof (cases "c = 92")
    case True
    with 2(3) obtain v d' o' where d': "decode_escaped d = Inr (v, d')"
      and o': "decode_contiguous_str a d' = Inr (o', r)"
      by (auto simp: res_simps split: sum.splits)
    from "2.IH"(1)[OF True d' refl o'] esc.consumes[OF d'] show ?thesis
      by (blast intro: suffix_ConsI suffix_order.order_trans)
  next
    case False
    with 2 show ?thesis by (fastforce simp: res_simps intro: suffix_ConsI split: if_splits)
  qed
qed simp

interpretation contiguous: consumer "decode_contiguous_str a" for a
  by unfold_locales (rule decode_contiguous_str_suffix)

definition decode_char_str :: "bytes \<Rightarrow> (bytes \<times> bytes) res" where
  "decode_char_str data =
     (case data of
        [] \<Rightarrow> Inl IndexError
      | c # r \<Rightarrow>
          if c = 34 then
            bind_res (decode_contiguous_str True r) (\<lambda>(out, rest).
              case rest of
                [] \<Rightarrow> Inl ValidationError
              | q # rest' \<Rightarrow> if q \<noteq> 34 then Inl ValidationError else Inr (out, rest'))
          else decode_contiguous_str False data)"

lemma decode_char_str_suffix: "decode_char_str data = Inr (out, r) \<Longrightarrow> suffix r data"
proof (cases data)
  case (Cons c d)
  assume *: "decode_char_str data = Inr (out, r)"
  show ?thesis
  proof (cases "c = 34")
    case True
    with * Cons obtain rest where "decode_contiguous_str True d = Inr (out, rest)" "rest = 34 # r"
      by (cases "decode_contiguous_str True d")
        (auto simp: decode_char_str_def split: list.splits if_splits)
    then show ?thesis using contiguous.consumes Cons
      by (metis suffix_ConsD suffix_ConsI)
  next
    case False
    with * Cons contiguous.consumes[of False data out r] show ?thesis by (simp add: decode_char_str_def)
  qed
qed (simp add: decode_char_str_def)

interpretation char_str: consumer decode_char_str
  by unfold_locales (rule decode_char_str_suffix)

fun decode_svcb_param_key :: "bytes \<Rightarrow> bytes \<times> bytes" where
  "decode_svcb_param_key [] = ([], [])"
| "decode_svcb_param_key (c # r) =
     (if (0x61 \<le> c \<and> c \<le> 0x7a) \<or> is_digit_char c \<or> c = 45 then
        (let (out, rest) = decode_svcb_param_key r in (c # out, rest))
      else ([], c # r))"

lemma decode_svcb_param_key_suffix:
  "decode_svcb_param_key data = (k, r) \<Longrightarrow> suffix r data"
  by (induction data arbitrary: k r)
    (fastforce intro: suffix_ConsI split: if_splits prod.splits)+

interpretation param_key: consumer "\<lambda>d. Inr (decode_svcb_param_key d)"
  by unfold_locales (simp add: decode_svcb_param_key_suffix)

fun decode_escaped_item :: "bytes \<Rightarrow> (bytes \<times> bytes) res" where
  "decode_escaped_item [] = Inr ([], [])"
| "decode_escaped_item (c # r) =
     (if is_item_allowed_char c then
        bind_res (decode_escaped_item r) (\<lambda>(out, rest). Inr (c # out, rest))
      else if c = 92 then
        (case r of
           [] \<Rightarrow> Inl ValidationError
         | c' # r' \<Rightarrow>
             if c' = 92 \<or> c' = 44 then
               bind_res (decode_escaped_item r') (\<lambda>(out, rest). Inr (c' # out, rest))
             else Inl ValidationError)
      else Inr ([], c # r))"

lemma decode_escaped_item_suffix:
  "decode_escaped_item data = Inr (out, rest) \<Longrightarrow> suffix rest data"
  by (induction data arbitrary: out rest rule: decode_escaped_item.induct)
    (fastforce simp: res_simps intro: suffix_ConsI split: if_splits list.splits)+

interpretation item: consumer decode_escaped_item
  by unfold_locales (rule decode_escaped_item_suffix)

function decode_svcb_comma_list :: "bytes \<Rightarrow> bytes list res" where
  "decode_svcb_comma_list data =
     (case decode_escaped_item data of
        Inl e \<Rightarrow> Inl e
      | Inr (item, []) \<Rightarrow> Inr [item]
      | Inr (item, c # rest) \<Rightarrow>
          if c \<noteq> 44 then Inl ValidationError
          else bind_res (decode_svcb_comma_list rest) (\<lambda>items. Inr (item # items)))"
  by pat_completeness auto
termination
  by (relation "measure length") (auto dest: item.rest_length)

declare decode_svcb_comma_list.simps [simp del]


section \<open>Parameter values and parameters\<close>

datatype param_data =
    NullParamData
  | OctetParamData bytes
  | IntegerParamData int
  | MandatoryData "int list"
  | ALPNData "bytes list"
  | IPv4Data "nat list"
  | IPv6Data "nat list"

record svcb_param =
  p_key :: int
  p_data :: param_data

type_synonym svcb_param_list = "svcb_param list"

definition PARAM_MAPPING :: "(pstr \<times> int) list" where
  "PARAM_MAPPING =
     [(str ''mandatory'', 0), (str ''alpn'', 1), (str ''no-default-alpn'', 2), (str ''port'', 3),
      (str ''ipv4hint'', 4), (str ''ech'', 5), (str ''ipv6hint'', 6)]"

definition param_id_to_name :: "int \<Rightarrow> pstr" where
  "param_id_to_name param =
     (case find (\<lambda>(k, v). v = param) PARAM_MAPPING of
        Some (k, v) \<Rightarrow> k
      | None \<Rightarrow> str ''key'' @ int_str param)"

definition svcb_param_init :: "pstr \<Rightarrow> param_data \<Rightarrow> svcb_param res" where
  "svcb_param_init key data =
     (case map_of PARAM_MAPPING key of
        Some key_id \<Rightarrow> Inr \<lparr>p_key = key_id, p_data = data\<rparr>
      | None \<Rightarrow>
          if prefix (str ''key'') key then
            bind_res (py_int (drop 3 key)) (\<lambda>key_id. Inr \<lparr>p_key = key_id, p_data = data\<rparr>)
          else Inl ValueError)"

fun param_data_pack :: "param_data \<Rightarrow> bytes res" where
  "param_data_pack NullParamData = Inr []"
| "param_data_pack (OctetParamData d) = Inr d"
| "param_data_pack (IntegerParamData n) = pack_H n"
| "param_data_pack (MandatoryData ps) = bind_res (mapM_res pack_H ps) (\<lambda>bss. Inr (concat bss))"
| "param_data_pack (ALPNData alpns) =
     bind_res (mapM_res (\<lambda>p. bind_res (pack_B (int (length p))) (\<lambda>l. Inr (l @ p))) alpns)
       (\<lambda>bss. Inr (concat bss))"
| "param_data_pack (IPv4Data addrs) = Inr (concat (map (\<lambda>a. packed (IPv4 a)) addrs))"
| "param_data_pack (IPv6Data addrs) = Inr (concat (map (\<lambda>a. packed (IPv6 a)) addrs))"

definition svcb_param_pack :: "svcb_param \<Rightarrow> bytes res" where
  "svcb_param_pack p =
     bind_res (param_data_pack (p_data p)) (\<lambda>data.
       if 65535 < length data then Inl ValueError
       else bind_res (pack_H (p_key p)) (\<lambda>k.
            bind_res (pack_H (int (length data))) (\<lambda>l. Inr (k @ l @ data))))"

definition octet_repr :: "bytes \<Rightarrow> pstr" where
  "octet_repr d = concat (map (\<lambda>b. if 32 \<le> b \<and> b \<le> 126 then [b] else 92 # dec_str b) d)"

fun param_data_repr :: "param_data \<Rightarrow> pstr res" where
  "param_data_repr NullParamData = Inr (str ''null'')"
| "param_data_repr (OctetParamData d) = Inr (octet_repr d)"
| "param_data_repr (IntegerParamData n) = Inr (int_str n)"
| "param_data_repr (MandatoryData ps) = Inr (join (str '','') (map param_id_to_name ps))"
| "param_data_repr (ALPNData alpns) =
     bind_res (mapM_res py_decode alpns) (\<lambda>vs. Inr (join (str '','') vs))"
| "param_data_repr (IPv4Data addrs) = Inr (join (str '','') (map v4_str addrs))"
| "param_data_repr (IPv6Data addrs) = Inr (join (str '','') (map v6_str addrs))"

definition svcb_param_repr :: "svcb_param \<Rightarrow> pstr res" where
  "svcb_param_repr p =
     (case p_data p of
        NullParamData \<Rightarrow> Inr (param_id_to_name (p_key p))
      | d \<Rightarrow> bind_res (param_data_repr d) (\<lambda>r. Inr (param_id_to_name (p_key p) @ str ''='' @ r)))"

definition svcb_list_pack :: "svcb_param_list \<Rightarrow> bytes res" where
  "svcb_list_pack params =
     bind_res (mapM_res svcb_param_pack (sort_key p_key params)) (\<lambda>bss. Inr (concat bss))"

definition svcb_list_getitem :: "svcb_param_list \<Rightarrow> pstr \<Rightarrow> svcb_param option" where
  "svcb_list_getitem params key =
     (case map_of PARAM_MAPPING key of
        Some k \<Rightarrow> find (\<lambda>v. p_key v = k) params
      | None \<Rightarrow> None)"

definition svcb_list_contains :: "svcb_param_list \<Rightarrow> pstr \<Rightarrow> bool" where
  "svcb_list_contains params key =
     (case map_of PARAM_MAPPING key of
        Some k \<Rightarrow> list_ex (\<lambda>v. p_key v = k) params
      | None \<Rightarrow> False)"

definition svcb_list_repr :: "svcb_param_list \<Rightarrow> pstr res" where
  "svcb_list_repr params =
     bind_res (mapM_res svcb_param_repr params) (\<lambda>rs. Inr (join (str '' '') rs))"

text \<open>
  The resource data \<^verbatim>\<open>SVCB\<close>. Its target is encoded by \<^verbatim>\<open>DNSBuffer.encode_name_nocompress\<close> of
  dnslib, the parameter \<open>enc_name\<close>.
\<close>

record svcb_rdata =
  sv_priority :: int
  sv_target :: pstr
  sv_params :: svcb_param_list

definition svcb_pack :: "(pstr \<Rightarrow> bytes) \<Rightarrow> svcb_rdata \<Rightarrow> bytes res" where
  "svcb_pack enc_name r =
     bind_res (pack_H (sv_priority r)) (\<lambda>p.
       bind_res (svcb_list_pack (sv_params r)) (\<lambda>ps. Inr (p @ enc_name (sv_target r) @ ps)))"

definition svcb_repr :: "svcb_rdata \<Rightarrow> pstr res" where
  "svcb_repr r =
     bind_res (svcb_list_repr (sv_params r)) (\<lambda>ps.
       Inr (int_str (sv_priority r) @ str '' '' @ sv_target r @ str '' '' @ ps))"


section \<open>Values from text\<close>

definition alpn_init :: "bytes list \<Rightarrow> param_data res" where
  "alpn_init alpns = (if list_ex (\<lambda>v. 255 < length v) alpns then Inl ValidationError else Inr (ALPNData alpns))"

definition comma_list_from_str :: "pstr \<Rightarrow> bytes list res" where
  "comma_list_from_str s =
     bind_res (decode_char_str (utf8_encode s)) (\<lambda>(value, data).
       if data \<noteq> [] then Inl ValidationError else decode_svcb_comma_list value)"

definition alpn_from_str :: "pstr \<Rightarrow> param_data res" where
  "alpn_from_str s = bind_res (comma_list_from_str s) alpn_init"

definition ipv4_from_str :: "pstr \<Rightarrow> param_data res" where
  "ipv4_from_str s =
     bind_res (comma_list_from_str s) (\<lambda>elms.
       bind_res (mapM_res (\<lambda>v.
           case utf8_decode v of
             None \<Rightarrow> Inl ValidationError
           | Some t \<Rightarrow> (case parse_v4 t of None \<Rightarrow> Inl ValidationError | Some a \<Rightarrow> Inr a)) elms)
         (\<lambda>addrs. Inr (IPv4Data addrs)))"

definition ipv6_from_str :: "pstr \<Rightarrow> param_data res" where
  "ipv6_from_str s =
     bind_res (comma_list_from_str s) (\<lambda>elms.
       bind_res (mapM_res (\<lambda>v.
           case utf8_decode v of
             None \<Rightarrow> Inl ValidationError
           | Some t \<Rightarrow> (case parse_v6 t of None \<Rightarrow> Inl ValidationError | Some a \<Rightarrow> Inr a)) elms)
         (\<lambda>addrs. Inr (IPv6Data addrs)))"

text \<open>
  \<^verbatim>\<open>decode_svcb_param_list\<close> collects the parameters in a dict, which keeps the place of a key
  that is assigned again (\<open>dict_set\<close>); \<open>skip_wsp\<close> is its inner loop, whose test reads
  \<^verbatim>\<open>data[0]\<close>.
\<close>

fun dict_set :: "'k \<Rightarrow> 'v \<Rightarrow> ('k \<times> 'v) list \<Rightarrow> ('k \<times> 'v) list" where
  "dict_set k v [] = [(k, v)]"
| "dict_set k v ((k', v') # d) = (if k' = k then (k, v) # d else (k', v') # dict_set k v d)"

fun skip_wsp :: "bytes \<Rightarrow> bytes res" where
  "skip_wsp [] = Inl IndexError"
| "skip_wsp (c # r) = (if is_wsp c then skip_wsp r else Inr (c # r))"

lemma skip_wsp_length: "skip_wsp data = Inr r \<Longrightarrow> length r \<le> length data \<and> r \<noteq> []"
  by (induction data) (auto split: if_splits)

lemma param_key_rest_length:
  "(k, c # r) = decode_svcb_param_key data \<Longrightarrow> length r < length data"
  using decode_svcb_param_key_suffix[of data k "c # r"] by (auto dest: suffix_length_le)

function decode_params :: "(bytes \<times> bytes) list \<Rightarrow> bytes \<Rightarrow> (bytes \<times> bytes) list res" where
  "decode_params params data =
     (case skip_wsp data of
        Inl e \<Rightarrow> Inl e
      | Inr data1 \<Rightarrow>
          (case decode_svcb_param_key data1 of (key, data2) \<Rightarrow>
             (case data2 of
                [] \<Rightarrow> Inr (dict_set key [] params)
              | c # data3 \<Rightarrow>
                  if c = 61 then
                    (case decode_char_str data3 of
                       Inl e \<Rightarrow> Inl e
                     | Inr (v, data4) \<Rightarrow>
                         if data4 = [] then Inr (dict_set key v params)
                         else decode_params (dict_set key v params) data4)
                  else if is_wsp c then
                    (if data3 = [] then Inr (dict_set key [] params)
                     else decode_params (dict_set key [] params) data3)
                  else Inl ValidationError)))"
  by pat_completeness auto
termination
  by (relation "measure (\<lambda>(p, d). length d)")
    (auto dest!: skip_wsp_length param_key_rest_length char_str.rest_length)

declare decode_params.simps [simp del]

definition decode_svcb_param_list :: "pstr \<Rightarrow> svcb_param_list res" where
  "decode_svcb_param_list value =
     bind_res (decode_params [] (utf8_encode value)) (\<lambda>params.
       mapM_res (\<lambda>(key, data).
         case svcb_param_init key (OctetParamData data) of
           Inl ValueError \<Rightarrow> Inl ValidationError
         | r \<Rightarrow> r) params)"


section \<open>Reference encoders\<close>

text \<open>
  RFC 9460, appendix A: an item of a comma-separated list is written with a backslash before
  each comma and backslash, and a character string with every octet that is not a
  non-special character as a decimal escape. The parsers are compared against these two.
\<close>

definition escape_item :: "bytes \<Rightarrow> bytes" where
  "escape_item bs = concat (map (\<lambda>b. if b = 92 \<or> b = 44 then [92, b] else [b]) bs)"

definition escape_octet :: "nat \<Rightarrow> bytes" where
  "escape_octet b =
     (if is_non_special_char b then [b]
      else [92, 48 + b div 100, 48 + b div 10 mod 10, 48 + b mod 10])"

definition escape_char_str :: "bytes \<Rightarrow> bytes" where
  "escape_char_str bs = concat (map escape_octet bs)"


section \<open>Parser facts\<close>

lemma decode_escaped_range: "decode_escaped data = Inr (v, r) \<Longrightarrow> v < 256"
  by (auto simp: decode_escaped_def is_non_digit_char_def Let_def split: list.splits if_splits)

lemma decimal_octet: "b < 256 \<Longrightarrow> b div 100 * 100 + b div 10 mod 10 * 10 + b mod 10 = (b::nat)"
proof -
  have "b div 100 = b div 10 div 10" by (simp add: div_mult2_eq[symmetric])
  then show ?thesis
    using div_mult_mod_eq[of b 10] div_mult_mod_eq[of "b div 10" 10] by linarith
qed

lemma decode_escaped_octet:
  "b < 256 \<Longrightarrow>
   decode_escaped ((48 + b div 100) # (48 + b div 10 mod 10) # (48 + b mod 10) # r) = Inr (b, r)"
proof -
  assume b: "b < 256"
  then have "b div 100 \<le> 2" by simp
  moreover have "\<not> is_non_digit_char (48 + b div 100)"
    using calculation by (auto simp: is_non_digit_char_def)
  moreover have "b div 10 mod 10 \<le> 9" "b mod 10 \<le> 9" by auto
  ultimately show ?thesis
    using b decimal_octet[OF b] by (simp add: decode_escaped_def is_digit_char_def Let_def)
qed

lemma non_special_not_backslash: "is_non_special_char c \<Longrightarrow> c \<noteq> 92 \<and> c \<noteq> 34 \<and> c < 128"
  by (auto simp: is_non_special_char_def)

lemma decode_contiguous_plain:
  "list_all is_non_special_char s \<Longrightarrow>
   decode_contiguous_str a (s @ r) =
     bind_res (decode_contiguous_str a r) (\<lambda>(out, rest). Inr (s @ out, rest))"
proof (induction s)
  case Nil
  show ?case by (cases "decode_contiguous_str a r") auto
next
  case (Cons c s)
  then show ?case
    by (cases "decode_contiguous_str a r") (auto dest: non_special_not_backslash)
qed

lemma decode_contiguous_octet:
  "b < 256 \<Longrightarrow>
   decode_contiguous_str a (escape_octet b @ r) =
     bind_res (decode_contiguous_str a r) (\<lambda>(out, rest). Inr (b # out, rest))"
  by (auto simp: escape_octet_def decode_escaped_octet dest: non_special_not_backslash)

lemma decode_contiguous_escape:
  "is_bytes bs \<Longrightarrow> decode_contiguous_str a (escape_char_str bs) = Inr (bs, [])"
  by (induction bs) (simp_all add: escape_char_str_def decode_contiguous_octet)

lemma decode_char_str_escape:
  "is_bytes bs \<Longrightarrow> bs \<noteq> [] \<Longrightarrow> decode_char_str (escape_char_str bs) = Inr (bs, [])"
proof -
  assume b: "is_bytes bs" and ne: "bs \<noteq> []"
  then obtain c cs where bs: "bs = c # cs" by (cases bs) auto
  have e: "escape_char_str bs = escape_octet c @ escape_char_str cs"
    by (simp add: bs escape_char_str_def)
  have "escape_octet c \<noteq> []" "hd (escape_octet c) \<noteq> 34"
    by (auto simp: escape_octet_def dest: non_special_not_backslash)
  then have "\<exists>x xs. escape_char_str bs = x # xs \<and> x \<noteq> 34"
    using e by (cases "escape_octet c") auto
  then show ?thesis
    using decode_contiguous_escape[OF b, of False] by (auto simp: decode_char_str_def)
qed

lemma escape_char_str_ascii: "is_bytes bs \<Longrightarrow> is_ascii (escape_char_str bs)"
proof (induction bs)
  case (Cons b bs)
  then have "b < 256" by simp
  then have "is_ascii (escape_octet b)"
    by (auto simp: escape_octet_def dest: non_special_not_backslash)
  with Cons show ?case by (simp add: escape_char_str_def)
qed (simp add: escape_char_str_def)

lemma decode_escaped_item_escape:
  "is_bytes bs \<Longrightarrow> r = [] \<or> hd r = 44 \<Longrightarrow> decode_escaped_item (escape_item bs @ r) = Inr (bs, r)"
proof (induction bs)
  case Nil
  then show ?case by (cases r) (auto simp: escape_item_def is_item_allowed_char_def)
next
  case (Cons b bs)
  have e: "escape_item (b # bs) @ r
      = (if b = 92 \<or> b = 44 then [92, b] else [b]) @ escape_item bs @ r"
    by (simp add: escape_item_def)
  from Cons have IH: "decode_escaped_item (escape_item bs @ r) = Inr (bs, r)" and b: "b < 256"
    by auto
  show ?case
  proof (cases "b = 92 \<or> b = 44")
    case True
    then show ?thesis using IH by (auto simp: e is_item_allowed_char_def)
  next
    case False
    then have "is_item_allowed_char b" using b by (auto simp: is_item_allowed_char_def)
    then show ?thesis using IH False by (simp add: e)
  qed
qed

lemma decode_comma_list_escape:
  "items \<noteq> [] \<Longrightarrow> list_all is_bytes items \<Longrightarrow>
   decode_svcb_comma_list (join [44] (map escape_item items)) = Inr items"
proof (induction items rule: induct_list012)
  case (2 x)
  then show ?case
    using decode_escaped_item_escape[of x "[]"] by (simp add: decode_svcb_comma_list.simps)
next
  case (3 x y zs)
  let ?r = "44 # join [44] (map escape_item (y # zs))"
  have "decode_escaped_item (escape_item x @ ?r) = Inr (x, ?r)"
    using 3 by (intro decode_escaped_item_escape) auto
  moreover have "decode_svcb_comma_list (join [44] (map escape_item (y # zs))) = Inr (y # zs)"
    using 3 by simp
  ultimately show ?case
    by (subst decode_svcb_comma_list.simps) simp
qed simp

lemma escape_item_plain: "list_all (\<lambda>c. is_non_special_char c \<and> c \<noteq> 44) bs \<Longrightarrow> escape_item bs = bs"
  by (induction bs) (auto simp: escape_item_def dest: non_special_not_backslash)

lemma escape_item_bytes: "is_bytes bs \<Longrightarrow> is_bytes (escape_item bs)"
  by (induction bs) (auto simp: escape_item_def)

lemma join_bytes: "list_all is_bytes ps \<Longrightarrow> is_bytes sep \<Longrightarrow> is_bytes (join sep ps)"
  by (induction sep ps rule: join.induct) auto

lemma escape_char_str_plain: "list_all is_non_special_char bs \<Longrightarrow> escape_char_str bs = bs"
  by (induction bs) (auto simp: escape_char_str_def escape_octet_def)

lemma list_all_join: "list_all P sep \<Longrightarrow> list_all (list_all P) ps \<Longrightarrow> list_all P (join sep ps)"
  by (induction sep ps rule: join.induct) auto

lemma comma_list_escaped:
  assumes "items \<noteq> []" "items \<noteq> [[]]" "list_all is_bytes items"
  shows "comma_list_from_str (escape_char_str (join [44] (map escape_item items))) = Inr items"
proof -
  let ?v = "join [44] (map escape_item items)"
  have b: "is_bytes ?v"
    using assms(3) by (intro join_bytes) (auto simp: list_all_iff escape_item_bytes)
  have ne: "?v \<noteq> []"
  proof (cases items)
    case (Cons x xs)
    then show ?thesis using assms(2)
      by (cases xs; cases x) (auto simp: escape_item_def)
  qed (use assms in simp)
  show ?thesis
    using decode_char_str_escape[OF b ne] decode_comma_list_escape[OF assms(1,3)]
    by (simp add: comma_list_from_str_def utf8_encode_ascii escape_char_str_ascii b)
qed

lemma decode_escaped_item_bytes:
  "decode_escaped_item data = Inr (out, rest) \<Longrightarrow> is_bytes data \<Longrightarrow> is_bytes out"
  by (induction data arbitrary: out rest rule: decode_escaped_item.induct)
    (fastforce simp: res_simps split: if_splits list.splits)+


definition is_key_char :: "nat \<Rightarrow> bool" where
  "is_key_char c \<longleftrightarrow> (0x61 \<le> c \<and> c \<le> 0x7a) \<or> is_digit_char c \<or> c = 45"

lemma decode_svcb_param_key_append:
  "list_all is_key_char k \<Longrightarrow> \<not> is_key_char c \<Longrightarrow> decode_svcb_param_key (k @ c # r) = (k, c # r)"
  by (induction k) (auto simp: is_key_char_def)

lemma decode_contiguous_escape_rest:
  "is_bytes bs \<Longrightarrow> r = [] \<or> hd r = 32 \<Longrightarrow>
   decode_contiguous_str False (escape_char_str bs @ r) = Inr (bs, r)"
proof (induction bs)
  case Nil
  then show ?case
    by (cases r) (auto simp: escape_char_str_def is_non_special_char_def)
next
  case (Cons b bs)
  then show ?case by (simp add: escape_char_str_def decode_contiguous_octet)
qed

lemma decode_char_str_escape_rest:
  assumes "is_bytes bs" "bs \<noteq> []" "r = [] \<or> hd r = 32"
  shows "decode_char_str (escape_char_str bs @ r) = Inr (bs, r)"
proof -
  obtain c cs where bs: "bs = c # cs" using assms(2) by (cases bs) auto
  have "\<exists>x xs. escape_char_str bs @ r = x # xs \<and> x \<noteq> 34"
    by (auto simp: bs escape_char_str_def escape_octet_def dest: non_special_not_backslash)
  then show ?thesis
    using decode_contiguous_escape_rest[OF assms(1,3)] by (auto simp: decode_char_str_def)
qed

definition param_text :: "bytes \<times> bytes \<Rightarrow> pstr" where
  "param_text kv = fst kv @ 61 # escape_char_str (snd kv)"

lemma skip_wsp_key: "list_all is_key_char k \<Longrightarrow> skip_wsp (k @ 61 # r) = Inr (k @ 61 # r)"
  by (cases k) (auto simp: is_wsp_def is_key_char_def is_digit_char_def)

lemma decode_params_one:
  assumes "list_all is_key_char k" "is_bytes v" "v \<noteq> []" "r = [] \<or> hd r = 32"
  shows "decode_params ps (param_text (k, v) @ r) =
    (if r = [] then Inr (dict_set k v ps) else decode_params (dict_set k v ps) r)"
proof -
  have "\<not> is_key_char 61" by (simp add: is_key_char_def is_digit_char_def)
  then show ?thesis
    using assms decode_char_str_escape_rest[OF assms(2-4)]
    by (subst decode_params.simps)
      (simp add: param_text_def skip_wsp_key decode_svcb_param_key_append)
qed

lemma decode_params_space: "decode_params ps (32 # r) = decode_params ps r"
  by (subst (1 2) decode_params.simps) (simp add: is_wsp_def)

lemma decode_params_join:
  "kvs \<noteq> [] \<Longrightarrow> \<forall>(k, v) \<in> set kvs. list_all is_key_char k \<and> is_bytes v \<and> v \<noteq> [] \<Longrightarrow>
   decode_params ps (join [32] (map param_text kvs)) = Inr (foldl (\<lambda>d (k, v). dict_set k v d) ps kvs)"
proof (induction kvs arbitrary: ps rule: induct_list012)
  case (2 kv)
  then show ?case using decode_params_one[of "fst kv" "snd kv" "[]" ps] by (cases kv) auto
next
  case (3 kv kv' kvs)
  then show ?case
    using decode_params_one[of "fst kv" "snd kv" "32 # join [32] (map param_text (kv' # kvs))" ps]
    by (cases kv) (auto simp: decode_params_space)
qed simp

lemma dict_set_fresh: "k \<notin> fst ` set d \<Longrightarrow> dict_set k v d = d @ [(k, v)]"
  by (induction d) auto

lemma foldl_dict_set_distinct:
  "distinct (map fst d @ map fst kvs) \<Longrightarrow> foldl (\<lambda>d (k, v). dict_set k v d) d kvs = d @ kvs"
  by (induction kvs arbitrary: d) (auto simp: dict_set_fresh)

lemma key_chars_ascii: "list_all is_key_char k \<Longrightarrow> is_ascii k"
  by (auto simp: is_ascii_def list_all_iff is_key_char_def is_digit_char_def)

lemma param_text_ascii: "list_all is_key_char k \<Longrightarrow> is_bytes v \<Longrightarrow> is_ascii (param_text (k, v))"
  by (simp add: param_text_def key_chars_ascii escape_char_str_ascii)

lemma join_ascii: "list_all is_ascii ps \<Longrightarrow> is_ascii sep \<Longrightarrow> is_ascii (join sep ps)"
  by (induction sep ps rule: join.induct) auto


section \<open>The wire format of a parameter\<close>

definition tlv_enc :: "nat \<times> bytes \<Rightarrow> bytes" where
  "tlv_enc kd = be_bytes 2 (fst kd) @ be_bytes 2 (length (snd kd)) @ snd kd"

definition tlv_dec :: "bytes \<Rightarrow> ((nat \<times> bytes) \<times> bytes) res" where
  "tlv_dec bs =
     bind_res (unpack_be 2 bs) (\<lambda>(k, r1). bind_res (unpack_be 2 r1) (\<lambda>(l, r2).
       bind_res (get_bytes l r2) (\<lambda>(d, r3). Inr ((k, d), r3))))"

interpretation tlv: byte_codec tlv_enc tlv_dec "\<lambda>(k, d). k < 65536 \<and> length d < 65536"
proof unfold_locales
  fix a :: "nat \<times> bytes" and rest
  assume "case a of (k, d) \<Rightarrow> k < 65536 \<and> length d < 65536"
  then show "tlv_dec (tlv_enc a @ rest) = Inr (a, rest)"
    by (cases a) (simp add: tlv_dec_def tlv_enc_def u16.dec_enc get_bytes_append)
qed

definition payload :: "svcb_param \<Rightarrow> bytes" where
  "payload p = (case param_data_pack (p_data p) of Inr d \<Rightarrow> d | Inl e \<Rightarrow> [])"

lemma svcb_param_pack_tlv:
  "svcb_param_pack p = Inr bs \<longleftrightarrow>
     (\<exists>d. param_data_pack (p_data p) = Inr d) \<and> 0 \<le> p_key p \<and> p_key p < 65536
     \<and> length (payload p) < 65536 \<and> bs = tlv_enc (nat (p_key p), payload p)"
  by (cases "param_data_pack (p_data p)")
    (auto simp: svcb_param_pack_def payload_def tlv_enc_def res_simps codec_simps split: if_splits)

lemma svcb_list_pack_tlvs:
  assumes "svcb_list_pack ps = Inr bs"
  shows "bs = concat (map (\<lambda>p. tlv_enc (nat (p_key p), payload p)) (sort_key p_key ps))"
    and "\<forall>p \<in> set ps. 0 \<le> p_key p \<and> p_key p < 65536 \<and> length (payload p) < 65536"
proof -
  obtain bss where b: "list_all2 (\<lambda>p q. svcb_param_pack p = Inr q) (sort_key p_key ps) bss"
    and bs: "bs = concat bss"
    using assms by (auto simp: svcb_list_pack_def res_simps)
  have "bss = map (\<lambda>p. tlv_enc (nat (p_key p), payload p)) (sort_key p_key ps)"
    using b by (induction rule: list_all2_induct) (auto simp: svcb_param_pack_tlv)
  then show "bs = concat (map (\<lambda>p. tlv_enc (nat (p_key p), payload p)) (sort_key p_key ps))"
    using bs by simp
  have "\<forall>p \<in> set (sort_key p_key ps). 0 \<le> p_key p \<and> p_key p < 65536 \<and> length (payload p) < 65536"
    using b by (induction rule: list_all2_induct) (auto simp: svcb_param_pack_tlv)
  then show "\<forall>p \<in> set ps. 0 \<le> p_key p \<and> p_key p < 65536 \<and> length (payload p) < 65536"
    by simp
qed


section \<open>Properties\<close>

text \<open>every list of ALPN identifiers of at most 255 octets each (other than the list of one
  empty identifier) has a presentation, escaped as RFC 9460 prescribes, that \<^verbatim>\<open>ALPNData.from_str\<close>
  reads back to exactly that list.\<close>

theorem alpn_from_escaped:
  assumes "items \<noteq> []" "items \<noteq> [[]]" "list_all is_bytes items"
    and "\<forall>i \<in> set items. length i \<le> 255"
  shows "alpn_from_str (escape_char_str (join [44] (map escape_item items))) = Inr (ALPNData items)"
  using comma_list_escaped[OF assms(1-3)] assms(4)
  by (auto simp: alpn_from_str_def alpn_init_def list_ex_iff)

theorem alpn_from_escaped_witness:
  "alpn_from_str (escape_char_str (join [44] (map escape_item [str ''h2'', [44, 92, 0, 255]])))
     = Inr (ALPNData [str ''h2'', [44, 92, 0, 255]])"
  by (rule alpn_from_escaped) simp_all

text \<open>the presentation that \<^verbatim>\<open>ALPNData.__repr__\<close> prints is read back by \<^verbatim>\<open>ALPNData.from_str\<close>
  to the same identifiers, provided they are made of non-special characters other than the comma
  (which \<^verbatim>\<open>__repr__\<close> does not escape).\<close>

theorem alpn_repr_roundtrip:
  assumes "items \<noteq> []" "items \<noteq> [[]]" "\<forall>i \<in> set items. length i \<le> 255"
    and "\<forall>i \<in> set items. list_all (\<lambda>c. is_non_special_char c \<and> c \<noteq> 44) i"
  shows "bind_res (param_data_repr (ALPNData items)) alpn_from_str = Inr (ALPNData items)"
proof -
  have asc: "is_ascii i \<and> is_bytes i" if "i \<in> set items" for i
    using that assms(4) by (force simp: list_all_iff is_ascii_def is_bytes_def dest!: non_special_not_backslash)
  have dec: "mapM_res py_decode items = Inr items"
    using mapM_res_total[of items py_decode "\<lambda>i. i"] asc by (simp add: py_decode_ascii)
  have esc: "map escape_item items = items"
    using assms(4) by (simp add: escape_item_plain map_idI)
  have "list_all is_non_special_char (join [44] items)"
    using assms(4) by (intro list_all_join) (auto simp: list_all_iff is_non_special_char_def)
  then have "escape_char_str (join [44] (map escape_item items)) = join [44] items"
    by (simp add: esc escape_char_str_plain)
  moreover have "comma_list_from_str (escape_char_str (join [44] (map escape_item items))) = Inr items"
    using assms(1,2) asc by (intro comma_list_escaped) (auto simp: list_all_iff)
  ultimately show ?thesis
    using assms(3) by (auto simp: dec alpn_from_str_def alpn_init_def list_ex_iff)
qed

theorem alpn_repr_roundtrip_witness:
  "bind_res (param_data_repr (ALPNData [str ''h2'', str ''http/1.1''])) alpn_from_str
     = Inr (ALPNData [str ''h2'', str ''http/1.1''])"
  by (rule alpn_repr_roundtrip) (simp_all add: is_non_special_char_def)

text \<open>the name that \<^verbatim>\<open>SVCBParam.param_id_to_name\<close> gives to a parameter number is mapped back
  to that number by the constructor of \<^verbatim>\<open>SVCBParam\<close>, for every number from 0 on.\<close>

theorem param_name_roundtrip:
  "svcb_param_init (param_id_to_name (int k)) d = Inr \<lparr>p_key = int k, p_data = d\<rparr>"
proof (cases "k \<le> 6")
  case True
  then have "k \<in> {0, 1, 2, 3, 4, 5, 6}" by auto
  then show ?thesis
    by (auto simp: svcb_param_init_def param_id_to_name_def PARAM_MAPPING_def)
next
  case False
  then have name: "param_id_to_name (int k) = str ''key'' @ dec_str k"
    by (auto simp: param_id_to_name_def PARAM_MAPPING_def int_str_def)
  obtain c cs where c: "dec_str k = c # cs" by (cases "dec_str k") auto
  have "map_of PARAM_MAPPING (str ''key'' @ dec_str k) = None"
    by (simp add: PARAM_MAPPING_def)
  moreover have "drop 3 (str ''key'' @ dec_str k) = dec_str k" by simp
  ultimately show ?thesis
    by (simp add: svcb_param_init_def name del: str_simps)
qed

text \<open>C25: what \<^verbatim>\<open>SVCBParamList.pack\<close> writes is the sequence of key, length, value triples of its
  parameters, a decoder of that format recovers exactly these, and their keys come in increasing
  order whatever the order of the list (RFC 9460, section 2.2).\<close>

theorem svcb_list_wire_format:
  assumes "svcb_list_pack ps = Inr bs"
  shows "\<exists>ds. dec_list tlv_dec (length ps) bs = Inr (ds, []) \<and> sorted (map fst ds)
    \<and> mset ds = mset (map (\<lambda>p. (nat (p_key p), payload p)) ps)"
proof -
  let ?ds = "map (\<lambda>p. (nat (p_key p), payload p)) (sort_key p_key ps)"
  have "list_all (\<lambda>(k, d). k < 65536 \<and> length d < 65536) ?ds"
    using svcb_list_pack_tlvs(2)[OF assms] by (auto simp: list_all_iff)
  from tlv.dec_list_enc[OF this, of "[]"] have "dec_list tlv_dec (length ps) bs = Inr (?ds, [])"
    using svcb_list_pack_tlvs(1)[OF assms] by (simp add: comp_def)
  moreover have "sorted (map nat (map p_key (sort_key p_key ps)))"
    by (rule sorted_map_mono) (auto simp: mono_on_def)
  moreover have "mset ?ds = mset (map (\<lambda>p. (nat (p_key p), payload p)) ps)" by simp
  ultimately show ?thesis by (auto simp: comp_def)
qed

theorem svcb_list_wire_format_witness:
  "\<exists>ds. dec_list tlv_dec (Suc (Suc 0)) [0, 1, 0, 3, 2, 104, 50, 0, 3, 0, 2, 1, 187] = Inr (ds, [])
    \<and> sorted (map fst ds)
    \<and> mset ds = mset (map (\<lambda>p. (nat (p_key p), payload p))
        [\<lparr>p_key = 3, p_data = IntegerParamData 443\<rparr>, \<lparr>p_key = 1, p_data = ALPNData [str ''h2'']\<rparr>])"
  using svcb_list_wire_format[of
      "[\<lparr>p_key = 3, p_data = IntegerParamData 443\<rparr>, \<lparr>p_key = 1, p_data = ALPNData [str ''h2'']\<rparr>]"
      "[0, 1, 0, 3, 2, 104, 50, 0, 3, 0, 2, 1, 187]"]
  by (simp add: svcb_list_pack_def svcb_param_pack_def be_bytes_unfold pack_be_def)

lemma param_list_text:
  assumes "kvs \<noteq> []" "distinct (map fst kvs)"
    and "\<forall>(k, v) \<in> set kvs. list_all is_key_char k \<and> is_bytes v \<and> v \<noteq> []
      \<and> svcb_param_init k (OctetParamData v) = Inr (f (k, v))"
  shows "decode_svcb_param_list (join [32] (map param_text kvs)) = Inr (map f kvs)"
proof -
  let ?t = "join [32] (map param_text kvs)"
  have "is_ascii ?t"
    using assms(3) by (intro join_ascii) (auto simp: list_all_iff param_text_ascii)
  moreover have "decode_params [] ?t = Inr kvs"
    using assms decode_params_join[of kvs "[]"] foldl_dict_set_distinct[of "[]" kvs] by fastforce
  moreover have "mapM_res (\<lambda>(key, data).
      case svcb_param_init key (OctetParamData data) of
        Inl ValueError \<Rightarrow> Inl ValidationError | r \<Rightarrow> r) kvs = Inr (map f kvs)"
    using assms(3) by (intro mapM_res_total) auto
  ultimately show ?thesis
    by (simp add: decode_svcb_param_list_def utf8_encode_ascii)
qed


text \<open>a line of parameters \<^verbatim>\<open>key=value\<close> separated by single spaces, with distinct known or
  numbered keys and non-empty values escaped as RFC 9460 prescribes, is read by
  \<^verbatim>\<open>decode_svcb_param_list\<close> as exactly these parameters in this order.\<close>

theorem param_list_parses:
  assumes "kvs \<noteq> []" "distinct (map fst kvs)"
    and "\<forall>(k, v) \<in> set kvs. list_all is_key_char k \<and> is_bytes v \<and> v \<noteq> []
      \<and> svcb_param_init k (OctetParamData v) = Inr (f (k, v))"
  shows "decode_svcb_param_list (join [32] (map param_text kvs)) = Inr (map f kvs)"
  using assms by (rule param_list_text)

theorem param_list_parses_witness:
  "decode_svcb_param_list (join [32] (map param_text
      [(str ''alpn'', str ''h2''), (str ''key667'', [0, 34])])) =
   Inr (map (\<lambda>(k, v). \<lparr>p_key = (if k = str ''alpn'' then 1 else 667), p_data = OctetParamData v\<rparr>)
      [(str ''alpn'', str ''h2''), (str ''key667'', [0, 34])])"
  by (rule param_list_parses)
    (simp_all add: is_key_char_def is_digit_char_def svcb_param_init_def PARAM_MAPPING_def py_int_def
      py_strip_def is_space_def nat_of_digits_def is_digit_def)

text \<open>white space after the last parameter makes \<^verbatim>\<open>decode_svcb_param_list\<close> read
  \<^verbatim>\<open>data[0]\<close> of an exhausted array: an \<^verbatim>\<open>IndexError\<close> leaves the parser, which
  \<^verbatim>\<open>SVCBBaseRecord.clean\<close> does not turn into a form error.\<close>

theorem param_list_trailing_space_raises:
  assumes "list_all is_key_char k" "is_bytes v" "v \<noteq> []" "ws \<noteq> []" "hd ws = 32" "list_all is_wsp ws"
  shows "decode_svcb_param_list (param_text (k, v) @ ws) = Inl IndexError"
proof -
  have sk: "skip_wsp ws = Inl IndexError" using assms(6) by (induction ws) auto
  have "is_ascii ws" using assms(6) by (auto simp: is_ascii_def list_all_iff is_wsp_def)
  moreover have "decode_params [] (param_text (k, v) @ ws) = Inl IndexError"
    using decode_params_one[OF assms(1-3), of ws "[]"] assms(4,5)
    by (simp, subst decode_params.simps) (simp add: sk)
  ultimately show ?thesis
    using param_text_ascii[OF assms(1,2)] by (simp add: decode_svcb_param_list_def utf8_encode_ascii)
qed

theorem param_list_trailing_space_raises_witness:
  "decode_svcb_param_list (param_text (str ''alpn'', str ''h2'') @ str '' '') = Inl IndexError"
  by (rule param_list_trailing_space_raises) (simp_all add: is_key_char_def is_wsp_def)

end
