(* ===== verification/Effects.thy ===== *)
theory Effects
  imports Hex_Prelude
begin

text \<open>
  Operations that read and write the state of the program and may raise: functions from a state to
  a result and the state afterwards. The state is returned on the exceptional branch too, because
  what a method has stored or sent before it raises stays stored or sent.

  The locale \<open>step_rel\<close> is the contract of a relation between the state before and the state
  after (``nothing outside the zone changes'', ``tasks are only added''): reflexive and
  transitive. Whatever is composed of operations that respect such a relation obeys it.
\<close>

type_synonym ('s, 'a) act = "'s \<Rightarrow> 'a res \<times> 's"

definition ret :: "'a \<Rightarrow> ('s, 'a) act" where
  "ret a s = (Inr a, s)"

definition throw :: "exn \<Rightarrow> ('s, 'a) act" where
  "throw e s = (Inl e, s)"

definition lift_res :: "'a res \<Rightarrow> ('s, 'a) act" where
  "lift_res r s = (r, s)"

definition modify :: "('s \<Rightarrow> 's) \<Rightarrow> ('s, unit) act" where
  "modify f s = (Inr (), f s)"

definition asks :: "('s \<Rightarrow> 'a) \<Rightarrow> ('s, 'a) act" where
  "asks f s = (Inr (f s), s)"

definition asks_res :: "('s \<Rightarrow> 'a res) \<Rightarrow> ('s, 'a) act" where
  "asks_res f s = (f s, s)"

definition bind_act :: "('s, 'a) act \<Rightarrow> ('a \<Rightarrow> ('s, 'b) act) \<Rightarrow> ('s, 'b) act" where
  "bind_act m f s = (case m s of (Inl e, s') \<Rightarrow> (Inl e, s') | (Inr a, s') \<Rightarrow> f a s')"

definition seq :: "('s, 'a) act \<Rightarrow> ('s, 'b) act \<Rightarrow> ('s, 'b) act" where
  "seq m n = bind_act m (\<lambda>_. n)"

fun for_each :: "'a list \<Rightarrow> ('a \<Rightarrow> ('s, unit) act) \<Rightarrow> ('s, unit) act" where
  "for_each [] f = ret ()"
| "for_each (x # xs) f = seq (f x) (for_each xs f)"

text \<open>A loop that leaves with a value as soon as its body gives one (\<^verbatim>\<open>return\<close> inside \<^verbatim>\<open>for\<close>).\<close>

fun for_until :: "'a list \<Rightarrow> ('a \<Rightarrow> ('s, 'b option) act) \<Rightarrow> ('s, 'b option) act" where
  "for_until [] f = ret None"
| "for_until (x # xs) f = bind_act (f x) (\<lambda>r. case r of Some b \<Rightarrow> ret (Some b) | None \<Rightarrow> for_until xs f)"

lemmas act_defs = ret_def throw_def lift_res_def modify_def asks_def asks_res_def bind_act_def seq_def

lemma bind_act_simps [simp]:
  "bind_act (ret a) f = f a" "bind_act (throw e) f = throw e"
  by (auto simp: act_defs fun_eq_iff)

lemma bind_act_assoc: "bind_act (bind_act m f) g = bind_act m (\<lambda>a. bind_act (f a) g)"
  by (auto simp: act_defs fun_eq_iff split: prod.splits sum.splits)

lemma for_each_append: "for_each (xs @ ys) f = seq (for_each xs f) (for_each ys f)"
  by (induction xs) (simp_all add: seq_def bind_act_assoc)

lemma for_each_modify:
  "(\<And>x. x \<in> set xs \<Longrightarrow> f x = modify (g x)) \<Longrightarrow> for_each xs f s = (Inr (), fold g xs s)"
  by (induction xs arbitrary: s) (simp_all add: act_defs)

text \<open>
  \<open>obeys P R m\<close>: run from a state with \<open>P\<close>, the operation relates the states before and after
  by \<open>R\<close>, whether it returns or raises.
\<close>

definition obeys :: "('s \<Rightarrow> bool) \<Rightarrow> ('s \<Rightarrow> 's \<Rightarrow> bool) \<Rightarrow> ('s, 'a) act \<Rightarrow> bool" where
  "obeys P R m \<longleftrightarrow> (\<forall>s. P s \<longrightarrow> R s (snd (m s)))"

lemma obeysD: "obeys P R m \<Longrightarrow> P s \<Longrightarrow> m s = (r, s') \<Longrightarrow> R s s'"
  by (metis obeys_def snd_conv)

lemma obeys_pre: "obeys Q R m \<Longrightarrow> (\<And>s. P s \<Longrightarrow> Q s) \<Longrightarrow> obeys P R m"
  by (simp add: obeys_def)

text \<open>Catching an exception leaves the state as it is.\<close>

lemma obeys_catch:
  assumes "obeys P R m" and "\<And>w. snd (n w) = snd (m w)"
  shows "obeys P R n"
  using assms by (simp add: obeys_def)

lemma obeys_asks: "(\<And>s. P s \<Longrightarrow> R s (snd (g (f s) s))) \<Longrightarrow> obeys P R (bind_act (asks f) g)"
  by (simp add: obeys_def bind_act_def asks_def)

locale step_rel =
  fixes R :: "'s \<Rightarrow> 's \<Rightarrow> bool"
  assumes R_refl: "R s s"
    and R_trans: "R s t \<Longrightarrow> R t u \<Longrightarrow> R s u"
begin

lemma obeys_pure:
  "obeys P R (ret a)" "obeys P R (throw e)" "obeys P R (lift_res r)" "obeys P R (asks f)"
  "obeys P R (asks_res g)"
  by (simp_all add: obeys_def act_defs R_refl)

lemma obeys_modify: "(\<And>s. P s \<Longrightarrow> R s (f s)) \<Longrightarrow> obeys P R (modify f)"
  by (simp add: obeys_def modify_def)

lemma obeys_bind_strong:
  assumes "obeys P R m" "\<And>s a t. P s \<Longrightarrow> m s = (Inr a, t) \<Longrightarrow> R t (snd (f a t))"
  shows "obeys P R (bind_act m f)"
  unfolding obeys_def
proof (intro allI impI)
  fix s
  assume P: "P s"
  obtain r t where m: "m s = (r, t)" by (cases "m s")
  have "R s t" using obeysD[OF assms(1) P m] .
  then show "R s (snd (bind_act m f s))"
    using assms(2)[OF P] m by (cases r) (auto simp: bind_act_def intro: R_trans)
qed

lemma obeys_bind:
  assumes "obeys P R m" "\<And>a. obeys P R (f a)" "\<And>s t. P s \<Longrightarrow> R s t \<Longrightarrow> P t"
  shows "obeys P R (bind_act m f)"
proof (rule obeys_bind_strong[OF assms(1)])
  fix s a t
  assume "P s" "m s = (Inr a, t)"
  then have "P t" using assms(3) obeysD[OF assms(1)] by blast
  then show "R t (snd (f a t))" using assms(2) by (simp add: obeys_def)
qed

lemma obeys_seq:
  "obeys P R m \<Longrightarrow> obeys P R n \<Longrightarrow> (\<And>s t. P s \<Longrightarrow> R s t \<Longrightarrow> P t) \<Longrightarrow> obeys P R (seq m n)"
  unfolding seq_def by (rule obeys_bind)

lemma obeys_for_each:
  assumes "\<And>x. x \<in> set xs \<Longrightarrow> obeys P R (f x)" "\<And>s t. P s \<Longrightarrow> R s t \<Longrightarrow> P t"
  shows "obeys P R (for_each xs f)"
  using assms(1) by (induction xs) (auto intro: obeys_pure obeys_seq assms(2))

lemma obeys_for_until:
  assumes "\<And>x. x \<in> set xs \<Longrightarrow> obeys P R (f x)" "\<And>s t. P s \<Longrightarrow> R s t \<Longrightarrow> P t"
  shows "obeys P R (for_until xs f)"
  using assms(1)
proof (induction xs)
  case (Cons x xs)
  then have rest: "obeys P R (case r of Some b \<Rightarrow> ret (Some b) | None \<Rightarrow> for_until xs f)" for r
    by (cases r) (simp_all add: obeys_pure)
  have "obeys P R (f x)" using Cons.prems by simp
  then have "obeys P R (bind_act (f x) (\<lambda>r. case r of Some b \<Rightarrow> ret (Some b) | None \<Rightarrow> for_until xs f))"
    using rest assms(2) by (rule obeys_bind)
  then show ?case by simp
qed (simp add: obeys_pure)

end

end
