(* ===== verification/Dns_Types.thy ===== *)
theory Dns_Types
  imports Svcb Effects
begin

text \<open>
  The data the components exchange: DNS names, resource records and messages as the
  \<^verbatim>\<open>dnslib\<close> objects the sources read and build; the rows of the database; the world the
  operations act on (tables, queued tasks, calls to other systems, the clock).

  Code that is not part of the repository is the argument \<open>E :: ext\<close> of the definitions that
  use it: \<^verbatim>\<open>dnslib\<close>, \<^verbatim>\<open>idna\<close>, \<^verbatim>\<open>sshpubkeys\<close>, \<^verbatim>\<open>hmac\<close> and \<^verbatim>\<open>hashlib\<close>, Keycloak, Kubernetes,
  the HTTP services. A \<^verbatim>\<open>DNSLabel\<close> is its attribute \<^verbatim>\<open>label\<close>, the list of its byte labels.
\<close>

section \<open>Names, records, messages\<close>

type_synonym label = "bytes list"

text \<open>Numbers of types, classes, codes (\<^verbatim>\<open>dnslib.QTYPE\<close>, \<^verbatim>\<open>CLASS\<close>, \<^verbatim>\<open>OPCODE\<close>, \<^verbatim>\<open>RCODE\<close>).\<close>

abbreviation (input) QT_A :: nat where "QT_A \<equiv> 1"
abbreviation (input) QT_NS :: nat where "QT_NS \<equiv> 2"
abbreviation (input) QT_CNAME :: nat where "QT_CNAME \<equiv> 5"
abbreviation (input) QT_SOA :: nat where "QT_SOA \<equiv> 6"
abbreviation (input) QT_HINFO :: nat where "QT_HINFO \<equiv> 13"
abbreviation (input) QT_MX :: nat where "QT_MX \<equiv> 15"
abbreviation (input) QT_TXT :: nat where "QT_TXT \<equiv> 16"
abbreviation (input) QT_RP :: nat where "QT_RP \<equiv> 17"
abbreviation (input) QT_AAAA :: nat where "QT_AAAA \<equiv> 28"
abbreviation (input) QT_LOC :: nat where "QT_LOC \<equiv> 29"
abbreviation (input) QT_SRV :: nat where "QT_SRV \<equiv> 33"
abbreviation (input) QT_NAPTR :: nat where "QT_NAPTR \<equiv> 35"
abbreviation (input) QT_OPT :: nat where "QT_OPT \<equiv> 41"
abbreviation (input) QT_DS :: nat where "QT_DS \<equiv> 43"
abbreviation (input) QT_SSHFP :: nat where "QT_SSHFP \<equiv> 44"
abbreviation (input) QT_NSEC :: nat where "QT_NSEC \<equiv> 47"
abbreviation (input) QT_DNSKEY :: nat where "QT_DNSKEY \<equiv> 48"
abbreviation (input) QT_DHCID :: nat where "QT_DHCID \<equiv> 49"
abbreviation (input) QT_HTTPS :: nat where "QT_HTTPS \<equiv> 65"
abbreviation (input) QT_TSIG :: nat where "QT_TSIG \<equiv> 250"
abbreviation (input) QT_ANY :: nat where "QT_ANY \<equiv> 255"
abbreviation (input) QT_CAA :: nat where "QT_CAA \<equiv> 257"

abbreviation (input) CL_IN :: nat where "CL_IN \<equiv> 1"
abbreviation (input) CL_NONE :: nat where "CL_NONE \<equiv> 254"
abbreviation (input) CL_ANY :: nat where "CL_ANY \<equiv> 255"

abbreviation (input) OP_QUERY :: nat where "OP_QUERY \<equiv> 0"
abbreviation (input) OP_UPDATE :: nat where "OP_UPDATE \<equiv> 5"

abbreviation (input) RC_NOERROR :: nat where "RC_NOERROR \<equiv> 0"
abbreviation (input) RC_FORMERR :: nat where "RC_FORMERR \<equiv> 1"
abbreviation (input) RC_SERVFAIL :: nat where "RC_SERVFAIL \<equiv> 2"
abbreviation (input) RC_NXDOMAIN :: nat where "RC_NXDOMAIN \<equiv> 3"
abbreviation (input) RC_REFUSED :: nat where "RC_REFUSED \<equiv> 5"
abbreviation (input) RC_YXDOMAIN :: nat where "RC_YXDOMAIN \<equiv> 6"
abbreviation (input) RC_YXRRSET :: nat where "RC_YXRRSET \<equiv> 7"
abbreviation (input) RC_NXRRSET :: nat where "RC_NXRRSET \<equiv> 8"
abbreviation (input) RC_NOTAUTH :: nat where "RC_NOTAUTH \<equiv> 9"
abbreviation (input) RC_NOTZONE :: nat where "RC_NOTZONE \<equiv> 10"

text \<open>
  Record data by class: the string \<^verbatim>\<open>''\<close> that \<^verbatim>\<open>dnslib\<close> keeps for an empty rdata, the raw
  \<^verbatim>\<open>dnslib.RD\<close>, the classes of \<^verbatim>\<open>dnslib\<close> that the sources build or take apart, and the classes
  of \<^verbatim>\<open>models.py\<close> and \<^verbatim>\<open>svcb.py\<close>. Addresses are numbers. A floating point value is kept as its
  64-bit pattern: the sources hand it on, or to arithmetic that is an argument of the model.
\<close>

type_synonym float_bits = nat

datatype rdata =
    RD_empty | RD_raw bytes
  | RD_A nat | RD_AAAA nat | RD_CNAME label | RD_NS label | RD_MX label nat
  | RD_TXT "bytes list" | RD_SRV nat nat nat label | RD_CAA nat pstr pstr
  | RD_NAPTR nat nat pstr pstr pstr label | RD_DNSKEY nat nat nat bytes
  | RD_SOA label label "nat list" | RD_NSEC label "pstr list" | RD_OPT "bytes list"
  | RD_SSHFP nat nat bytes | RD_DS nat nat nat bytes
  | RD_LOC float_bits float_bits float_bits float_bits float_bits float_bits
  | RD_RP label label | RD_SVCB svcb_rdata | RD_DHCID bytes

record rr =
  rname :: label
  rtype :: nat
  rclass :: nat
  rr_ttl :: nat
  rdata :: rdata

record question =
  qname :: label
  qtype :: nat
  qclass :: nat

record dns_msg =
  m_id :: nat
  m_flags :: nat
  opcode :: nat
  rcode :: nat
  questions :: "question list"
  m_rr :: "rr list"
  m_auth :: "rr list"
  m_ar :: "rr list"

text \<open>\<^verbatim>\<open>dnslib.RR(name, type, rdata=..., ttl=...)\<close>: the class defaults to IN.\<close>

definition mk_rr :: "label \<Rightarrow> nat \<Rightarrow> rdata \<Rightarrow> nat \<Rightarrow> rr" where
  "mk_rr n t d l = \<lparr>rname = n, rtype = t, rclass = CL_IN, rr_ttl = l, rdata = d\<rparr>"

definition add_answer :: "rr \<Rightarrow> dns_msg \<Rightarrow> dns_msg" where
  "add_answer r m = m\<lparr>m_rr := m_rr m @ [r]\<rparr>"

definition add_auth :: "rr \<Rightarrow> dns_msg \<Rightarrow> dns_msg" where
  "add_auth r m = m\<lparr>m_auth := m_auth m @ [r]\<rparr>"

definition add_ar :: "rr \<Rightarrow> dns_msg \<Rightarrow> dns_msg" where
  "add_ar r m = m\<lparr>m_ar := m_ar m @ [r]\<rparr>"

text \<open>\<^verbatim>\<open>DNSRecord.q\<close>: the first question, or an empty one.\<close>

definition msg_q :: "dns_msg \<Rightarrow> question" where
  "msg_q m = (case questions m of q # _ \<Rightarrow> q | [] \<Rightarrow> \<lparr>qname = [], qtype = QT_A, qclass = CL_IN\<rparr>)"


section \<open>Rows\<close>

text \<open>
  A text column may be given a \<^verbatim>\<open>str\<close>, or by mistake \<^verbatim>\<open>bytes\<close> or a tuple of one value. On saving,
  Django stores \<^verbatim>\<open>str(value)\<close> in a text column and refuses a tuple in a number column.
\<close>

datatype pytext = PyStr pstr | PyBytes bytes
datatype 'a pyval = Plain 'a | Tuple1 'a

fun text_prep :: "pytext \<Rightarrow> pytext" where
  "text_prep (PyStr s) = PyStr s"
| "text_prep (PyBytes b) = PyStr (str ''b'' @ [39] @ b @ [39])"

record https_rec =
  h_port :: "nat option"
  h_scheme :: "pstr option"
  h_priority :: nat
  h_target :: pstr
  h_target_port :: "nat option"
  h_target_port_mandatory :: bool
  h_alpns :: "pstr option"
  h_alpn_mandatory :: bool
  h_no_default_alpn :: bool
  h_no_default_alpn_mandatory :: bool
  h_ech :: "pstr option"
  h_ech_mandatory :: bool
  h_ipv4_hints :: pstr
  h_ipv4_hints_mandatory :: bool
  h_ipv6_hints :: pstr
  h_ipv6_hints_mandatory :: bool
  h_extra_params :: pstr
  h_http2_support :: bool
  h_alpn_cache :: "bytes list option"

text \<open>
  One constructor for each concrete subclass of \<^verbatim>\<open>DNSZoneRecord\<close>, with the columns of its own.
  \<open>h_alpn_cache\<close> is the attribute \<^verbatim>\<open>__alpn_cache\<close>, an object that is shared and changed in place.
\<close>

datatype body =
    AddressRecord pstr bool
  | DynamicAddressRecord "pstr option" "pstr option" pstr
  | ANAMERecord pstr
  | CNAMERecord pstr
  | RedirectRecord pstr bool
  | MXRecord pstr nat
  | NSRecord pstr
  | TXTRecord pstr
  | SRVRecord nat nat nat pstr
  | CAARecord nat pstr pstr
  | NAPTRRecord nat "nat pyval" "pstr pyval" "pstr pyval" "pstr pyval" pstr
  | SSHFPRecord pstr
  | DSRecord nat nat nat pstr
  | DNSKEYRecord nat nat nat pytext
  | LOCRecord float_bits float_bits float_bits float_bits float_bits float_bits
  | HINFORecord pstr pstr
  | RPRecord pstr pstr
  | HTTPSRecord https_rec
  | DHCIDRecord bytes
  | GitHubPagesRecord "pstr option" "pstr option"

datatype model =
    M_Address | M_DynamicAddress | M_ANAME | M_CNAME | M_Redirect | M_MX | M_NS | M_TXT | M_SRV
  | M_CAA | M_NAPTR | M_SSHFP | M_DS | M_DNSKEY | M_LOC | M_HINFO | M_RP | M_HTTPS | M_DHCID
  | M_GitHubPages

fun model_of :: "body \<Rightarrow> model" where
  "model_of (AddressRecord a b) = M_Address"
| "model_of (DynamicAddressRecord a b c) = M_DynamicAddress"
| "model_of (ANAMERecord a) = M_ANAME"
| "model_of (CNAMERecord a) = M_CNAME"
| "model_of (RedirectRecord a b) = M_Redirect"
| "model_of (MXRecord a b) = M_MX"
| "model_of (NSRecord a) = M_NS"
| "model_of (TXTRecord a) = M_TXT"
| "model_of (SRVRecord a b c d) = M_SRV"
| "model_of (CAARecord a b c) = M_CAA"
| "model_of (NAPTRRecord a b c d e f) = M_NAPTR"
| "model_of (SSHFPRecord a) = M_SSHFP"
| "model_of (DSRecord a b c d) = M_DS"
| "model_of (DNSKEYRecord a b c d) = M_DNSKEY"
| "model_of (LOCRecord a b c d e f) = M_LOC"
| "model_of (HINFORecord a b) = M_HINFO"
| "model_of (RPRecord a b) = M_RP"
| "model_of (HTTPSRecord h) = M_HTTPS"
| "model_of (DHCIDRecord a) = M_DHCID"
| "model_of (GitHubPagesRecord a b) = M_GitHubPages"

record zrec =
  r_id :: pstr
  r_zone :: pstr
  record_name :: pstr
  ttl :: nat
  body :: body

abbreviation zmodel :: "zrec \<Rightarrow> model" where
  "zmodel r \<equiv> model_of (body r)"

record dnszone =
  z_id :: pstr
  zone_root :: pstr
  z_last_modified :: nat
  z_charged :: bool
  z_active :: bool
  z_num_check_fails :: nat
  z_resource_id :: "pstr option"
  z_cds_disable :: bool

record rzone =
  rz_id :: pstr
  zone_root_address :: pstr
  zone_root_prefix :: nat
  rz_last_modified :: nat
  rz_charged :: bool
  rz_active :: bool
  rz_num_check_fails :: nat
  rz_resource_id :: "pstr option"
  rz_cds_disable :: bool

record szone =
  sz_id :: pstr
  sz_zone_root :: pstr
  sz_serial :: "nat option"
  sz_primary :: pstr
  sz_charged :: bool
  sz_active :: bool
  sz_error :: bool
  sz_error_message :: "pstr option"
  sz_num_check_fails :: nat
  sz_resource_id :: "pstr option"

record szone_record =
  sr_id :: pstr
  sr_zone :: pstr
  record_text :: pstr

record cds_row =
  cds_id :: pstr
  cds_zone :: pstr
  cds_key_tag :: nat
  cds_algorithm :: nat
  cds_digest_type :: nat
  cds_digest :: pstr

record cdnskey_row =
  ck_id :: pstr
  ck_zone :: pstr
  ck_flags :: nat
  ck_protocol :: nat
  ck_algorithm :: nat
  ck_public_key :: pstr

record custom_ns_row =
  ns_id :: pstr
  ns_zone :: pstr
  ns_nameserver :: pstr

record update_secret =
  us_id :: pstr
  us_zone :: pstr
  us_name :: pstr
  us_type :: pstr
  restrict_to :: pstr
  secret :: bytes

record axfr_acl =
  acl_id :: pstr
  acl_zone :: pstr
  acl_name :: pstr
  acl_address :: pstr
  acl_prefix :: nat
  acl_last_used :: "nat option"

record axfr_secret =
  as_id :: pstr
  as_zone :: pstr
  as_name :: pstr
  as_secret :: bytes
  as_last_used :: "nat option"

record axfr_notify =
  an_id :: pstr
  an_zone :: pstr
  an_name :: pstr
  an_server :: pstr
  an_port :: nat

record ptr_rec =
  p_id :: pstr
  p_zone :: pstr
  p_address :: pstr
  p_ttl :: nat
  pointer :: pstr

record rns_rec =
  rn_id :: pstr
  rn_zone :: pstr
  rn_address :: pstr
  rn_ttl :: nat
  rn_prefix :: nat
  rn_nameserver :: pstr

record user =
  username :: pstr

record account =
  acc_id :: nat
  subscription_id :: "pstr option"
  subscription_active :: bool

text \<open>The OAuth flows with GitHub and Google; the user is the account of a name. A session belongs to a browser.\<close>

record oauth_state =
  st_id :: nat
  st_user :: pstr
  st_state :: pstr
  st_redirect :: "pstr option"

record gh_install =
  gi_id :: nat
  gi_installation :: int
  gi_user :: "pstr option"
  gi_token :: "pstr option"
  gi_token_expires :: "nat option"
  gi_user_token :: "pstr option"
  gi_user_token_expires :: "nat option"
  gi_refresh :: "pstr option"
  gi_refresh_expires :: "nat option"

record gg_install =
  gg_id :: nat
  gg_user :: "pstr option"
  gg_token :: "pstr option"
  gg_token_expires :: "nat option"
  gg_refresh :: "pstr option"
  gg_refresh_expires :: "nat option"
  gg_scopes :: "pstr option"

record session =
  github_state_id :: "nat option"
  google_state_id :: "nat option"
  zone_notice :: "pstr option"


section \<open>World and environment\<close>

datatype task =
    AddFzone pstr | UpdateFzone pstr | AddRzone pstr | UpdateRzone pstr | AddSzone pstr
  | UpdateSzone pstr | UpdateCatalog | UpdateSignalZones
  | SyncNetnodZones "(pstr \<times> pstr) list" "pstr list"

datatype k8s_op =
    ReadIngress pstr | PatchIngress pstr pstr | CreateIngress pstr pstr | DeleteIngress pstr

datatype http_req =
    NetnodGet pstr | NetnodPost pstr pstr "(pstr \<times> pstr) list" pstr pstr | NetnodDelete pstr
  | SubscribeUser pstr int bool bool "pstr option" | LogUsage pstr int bool bool "pstr option"
  | SetDns pstr | DomainsAll pstr | DomainsPut pstr "pstr list"
  | RestCall pstr pstr pstr "(pstr \<times> pstr) list"

datatype amqp_op = ConnOpen | ConnClose | ExchangeDeclare pstr | BasicPublish pstr bytes

text \<open>Calls to other systems, in the order in which they are made.\<close>

datatype event =
    Storage_save pstr bytes
  | Amqp amqp_op
  | K8s k8s_op
  | Http http_req
  | Keycloak_sync pstr
  | Keycloak_delete pstr
  | Mail pstr pstr

record http_resp =
  status :: nat
  resp_id :: pstr
  resp_redirect :: pstr
  resp_text :: pstr

text \<open>
  The tables are lists of rows in the order in which the database returns them. \<open>next_uuid\<close> counts
  the identifiers drawn so far. The clock counts microseconds and stands still during an operation.
  \<open>pika_client\<close> says whether the thread has a client of the message broker.
\<close>

record world =
  dnszones :: "dnszone list"
  rzones :: "rzone list"
  szones :: "szone list"
  zrecs :: "zrec list"
  ptrs :: "ptr_rec list"
  rnss :: "rns_rec list"
  szone_records :: "szone_record list"
  aname_cache :: "(pstr \<times> pstr) list"
  f_cds :: "cds_row list"
  f_cdnskey :: "cdnskey_row list"
  f_custom_ns :: "custom_ns_row list"
  r_cds :: "cds_row list"
  r_cdnskey :: "cdnskey_row list"
  r_custom_ns :: "custom_ns_row list"
  update_secrets :: "update_secret list"
  f_axfr_acls :: "axfr_acl list"
  f_axfr_secrets :: "axfr_secret list"
  f_axfr_notifies :: "axfr_notify list"
  accounts :: "(pstr \<times> account) list"
  queue :: "task list"
  events :: "event list"
  now :: nat
  next_uuid :: nat
  pika_client :: bool
  gh_states :: "oauth_state list"
  gh_installs :: "gh_install list"
  gg_states :: "oauth_state list"
  gg_installs :: "gg_install list"
  sessions :: "(pstr \<times> session) list"

text \<open>
  A \<^verbatim>\<open>dnslib.DNSBuffer\<close> that is written to: its bytes, and the names written so far with their
  offsets, which later names may point to. \<open>typed_uuid\<close> is the value that an identifier column
  takes for a text, or None where the column raises \<^verbatim>\<open>ValidationError\<close>.
\<close>

type_synonym dnsbuffer = "bytes \<times> (label \<times> nat) list"

record ext =
  uni_lower :: "pstr \<Rightarrow> pstr"
  DNSLabel :: "pstr \<Rightarrow> label"
  label_str :: "label \<Rightarrow> pstr"
  matchSuffix :: "label \<Rightarrow> label \<Rightarrow> bool"
  stripSuffix :: "label \<Rightarrow> label \<Rightarrow> label"
  label_eq :: "label \<Rightarrow> label \<Rightarrow> bool"
  idna_encode :: "pstr \<Rightarrow> pstr option"
  decode_name :: "bytes \<Rightarrow> nat \<Rightarrow> (label \<times> nat) res"
  encode_name_nocompress :: "label \<Rightarrow> bytes res"
  encode_name :: "dnsbuffer \<Rightarrow> label \<Rightarrow> dnsbuffer res"
  rdata_str :: "rdata \<Rightarrow> pstr"
  rdata_eq :: "rdata \<Rightarrow> rdata \<Rightarrow> bool"
  rr_list_eq :: "rr list \<Rightarrow> rr list \<Rightarrow> bool"
  sort_rrs :: "rr list \<Rightarrow> rr list res"
  txt_parse :: "bytes \<Rightarrow> bytes list res"
  txt_new :: "bytes list \<Rightarrow> rdata res"
  msg_parse :: "bytes \<Rightarrow> dns_msg res"
  msg_pack :: "dns_msg \<Rightarrow> bytes res"
  msg_reply :: "dns_msg \<Rightarrow> dns_msg"
  msg_new :: dns_msg
  header_pack :: "dns_msg \<Rightarrow> bytes res"
  rd_pack :: "dnsbuffer \<Rightarrow> rdata \<Rightarrow> dnsbuffer res"
  opt_pack :: "dnsbuffer \<Rightarrow> bytes \<Rightarrow> dnsbuffer res"
  hmac :: "pstr \<Rightarrow> bytes \<Rightarrow> bytes \<Rightarrow> bytes"
  sha1 :: "bytes \<Rightarrow> bytes"
  sha256 :: "bytes \<Rightarrow> bytes"
  ssh_parse :: "pstr \<Rightarrow> (bytes \<times> bytes) res"
  uuid :: "nat \<Rightarrow> pstr"
  typed_uuid :: "pstr \<Rightarrow> pstr option"
  resource_owner :: "pstr option \<Rightarrow> user option res"
  resources_of :: "pstr \<Rightarrow> pstr list res"
  kc_resource :: "event list \<Rightarrow> pstr \<Rightarrow> pstr option \<Rightarrow> (exn \<times> pstr option option) + pstr option"
  kc_delete :: "event list \<Rightarrow> pstr option \<Rightarrow> unit res"
  zone_parse :: "pstr \<Rightarrow> label \<Rightarrow> rr list res"
  psl_is_private :: "pstr \<Rightarrow> bool"
  k8s :: "event list \<Rightarrow> k8s_op \<Rightarrow> unit res"
  http :: "event list \<Rightarrow> http_req \<Rightarrow> http_resp res"
  dnssec_pubkey :: "nat \<times> nat"
  float_str :: "float_bits \<Rightarrow> pstr"
  storage :: "event list \<Rightarrow> pstr \<Rightarrow> unit res"
  amqp :: "event list \<Rightarrow> amqp_op \<Rightarrow> unit res"
  amqp_open :: "event list \<Rightarrow> bool"

type_synonym 'a io = "(world, 'a) act"

text \<open>\<^verbatim>\<open>task.delay(...)\<close> and a call to another system.\<close>

definition delay :: "task \<Rightarrow> world \<Rightarrow> world" where
  "delay t w = w\<lparr>queue := queue w @ [t]\<rparr>"

definition emit :: "event \<Rightarrow> world \<Rightarrow> world" where
  "emit e w = w\<lparr>events := events w @ [e]\<rparr>"

definition lower :: "ext \<Rightarrow> pstr \<Rightarrow> pstr" where
  "lower E s = py_lower (uni_lower E) s"

text \<open>\<^verbatim>\<open>".".join(map(lambda n: n.decode(), label.label))\<close>\<close>

definition dotted :: "label \<Rightarrow> pstr res" where
  "dotted l = bind_res (mapM_res py_decode l) (\<lambda>ps. Inr (join [46] ps))"

lemma delay_simps [simp]:
  "zrecs (delay t w) = zrecs w" "dnszones (delay t w) = dnszones w" "queue (delay t w) = queue w @ [t]"
  "events (delay t w) = events w" "ptrs (delay t w) = ptrs w" "next_uuid (delay t w) = next_uuid w"
  by (simp_all add: delay_def)

lemma emit_simps [simp]:
  "zrecs (emit e w) = zrecs w" "dnszones (emit e w) = dnszones w" "queue (emit e w) = queue w"
  "events (emit e w) = events w @ [e]" "next_uuid (emit e w) = next_uuid w"
  by (simp_all add: emit_def)

lemma msg_add_simps [simp]:
  "m_rr (add_answer r m) = m_rr m @ [r]" "m_auth (add_answer r m) = m_auth m" "m_ar (add_answer r m) = m_ar m"
  "m_rr (add_auth r m) = m_rr m" "m_auth (add_auth r m) = m_auth m @ [r]" "m_ar (add_auth r m) = m_ar m"
  "m_rr (add_ar r m) = m_rr m" "m_auth (add_ar r m) = m_auth m" "m_ar (add_ar r m) = m_ar m @ [r]"
  "questions (add_answer r m) = questions m" "questions (add_auth r m) = questions m"
  "questions (add_ar r m) = questions m" "rcode (add_answer r m) = rcode m" "rcode (add_auth r m) = rcode m"
  "rcode (add_ar r m) = rcode m"
  by (simp_all add: add_answer_def add_auth_def add_ar_def)

end
