(* ===== verification/Tables.thy ===== *)
theory Tables
  imports Hex_Prelude
begin

text \<open>
  A table of the database: rows that are stored and removed by their primary key. The locale
  \<open>table\<close> is the contract of Django's \<^verbatim>\<open>Model.save\<close> and \<^verbatim>\<open>Model.delete\<close> that the rest of the
  program relies on; \<open>upsert\<close> and \<open>remove\<close> are the two on tables kept as lists.
\<close>

definition upsert :: "('r \<Rightarrow> 'k) \<Rightarrow> 'r \<Rightarrow> 'r list \<Rightarrow> 'r list" where
  "upsert key r rs =
     (if list_ex (\<lambda>s. key s = key r) rs then map (\<lambda>s. if key s = key r then r else s) rs else rs @ [r])"

definition remove :: "('r \<Rightarrow> 'k) \<Rightarrow> 'r \<Rightarrow> 'r list \<Rightarrow> 'r list" where
  "remove key r rs = [s \<leftarrow> rs. key s \<noteq> key r]"

locale table =
  fixes key :: "'r \<Rightarrow> 'k"
    and save :: "'r \<Rightarrow> 't \<Rightarrow> 't"
    and delete :: "'r \<Rightarrow> 't \<Rightarrow> 't"
    and rows :: "'t \<Rightarrow> 'r set"
  assumes rows_save: "rows (save r t) = insert r {s \<in> rows t. key s \<noteq> key r}"
    and rows_delete: "rows (delete r t) = {s \<in> rows t. key s \<noteq> key r}"
begin

lemma save_lookup: "s \<in> rows (save r t) \<Longrightarrow> key s = key r \<Longrightarrow> s = r"
  by (auto simp: rows_save)

lemma save_found: "r \<in> rows (save r t)"
  by (simp add: rows_save)

lemma save_other: "key s \<noteq> key r \<Longrightarrow> s \<in> rows (save r t) \<longleftrightarrow> s \<in> rows t"
  by (auto simp: rows_save)

lemma save_unique: "inj_on key (rows t) \<Longrightarrow> inj_on key (rows (save r t))"
  by (auto simp: rows_save inj_on_def)

lemma delete_gone: "s \<in> rows (delete r t) \<Longrightarrow> key s \<noteq> key r"
  by (simp add: rows_delete)

lemma delete_other: "key s \<noteq> key r \<Longrightarrow> s \<in> rows (delete r t) \<longleftrightarrow> s \<in> rows t"
  by (auto simp: rows_delete)

lemma delete_unique: "inj_on key (rows t) \<Longrightarrow> inj_on key (rows (delete r t))"
  by (auto simp: rows_delete inj_on_def)

lemma delete_save: "rows (delete r (save r t)) = rows (delete r t)"
  by (auto simp: rows_save rows_delete)

lemma save_save: "key r = key s \<Longrightarrow> rows (save r (save s t)) = rows (save r t)"
  by (auto simp: rows_save)

end

lemma set_upsert: "set (upsert key r rs) = insert r {s \<in> set rs. key s \<noteq> key r}"
  by (auto simp: upsert_def list_ex_iff)

interpretation rows: table key "upsert key" "remove key" set
  by unfold_locales (auto simp: set_upsert remove_def)

lemma keys_upsert:
  "map key (upsert key r rs) = (if key r \<in> set (map key rs) then map key rs else map key rs @ [key r])"
  by (auto simp: upsert_def list_ex_iff intro: rev_image_eqI)

lemma distinct_upsert: "distinct (map key rs) \<Longrightarrow> distinct (map key (upsert key r rs))"
  by (auto simp: keys_upsert)

lemma distinct_remove: "distinct (map key rs) \<Longrightarrow> distinct (map key (remove key r rs))"
  by (simp add: remove_def distinct_map_filter)

text \<open>Rows that the predicate \<open>P\<close> selects are untouched, if neither the old nor the new row is one.\<close>

lemma filter_upsert_outside:
  assumes "\<not> P r" "\<And>s. s \<in> set rs \<Longrightarrow> key s = key r \<Longrightarrow> \<not> P s"
  shows "filter P (upsert key r rs) = filter P rs"
proof -
  have "filter P (map (\<lambda>s. if key s = key r then r else s) rs) = filter P rs"
    using assms by (induction rs) auto
  then show ?thesis using assms(1) by (simp add: upsert_def)
qed

lemma filter_remove_outside:
  "(\<And>s. s \<in> set rs \<Longrightarrow> key s = key r \<Longrightarrow> \<not> P s) \<Longrightarrow> filter P (remove key r rs) = filter P rs"
  by (induction rs) (auto simp: remove_def)

end
