(* ===== verification/Record_Models.thy ===== *)
theory Record_Models
  imports Dns_Types Tables
begin

text \<open>
  The record classes of \<^verbatim>\<open>models.py\<close>: what \<^verbatim>\<open>DNSZoneRecord\<close> gives to its subclasses, and for every
  subclass the conversions between rows and resource records (\<^verbatim>\<open>from_rr\<close>, \<^verbatim>\<open>update_from_rr\<close>,
  \<^verbatim>\<open>to_rr\<close>), saving and deleting, and validation. The zone object that a record refers to
  (\<^verbatim>\<open>self.zone\<close>) is the argument \<open>z\<close>; the identifier drawn when an object is built is \<open>nid\<close>.
\<close>

named_theorems record_ops \<open>definitions of the record classes\<close>

section \<open>DNSZoneRecord\<close>

definition idna_allowed :: "nat \<Rightarrow> bool" where
  "idna_allowed c \<longleftrightarrow> (97 \<le> c \<and> c \<le> 122) \<or> (65 \<le> c \<and> c \<le> 90) \<or> is_digit c
     \<or> c = 45 \<or> c = 95 \<or> c = 32 \<or> c = 42 \<or> c = 46"

definition idna_label :: "ext \<Rightarrow> pstr \<Rightarrow> pstr option" where
  "idna_label E name =
     (if py_strip name = str ''@'' \<or> py_strip name = [] then Some (str ''@'')
      else case idna_encode E name of
        Some s \<Rightarrow> Some s
      | None \<Rightarrow> if list_all idna_allowed name then Some (replace_cp 32 ([92] @ str ''040'') name) else None)"

definition opt_str :: "pstr option \<Rightarrow> pstr" where
  "opt_str x = (case x of Some s \<Rightarrow> s | None \<Rightarrow> str ''None'')"

definition dns_label :: "ext \<Rightarrow> dnszone \<Rightarrow> pstr \<Rightarrow> label" where
  "dns_label E z name =
     (if name = str ''@'' then DNSLabel E (zone_root z)
      else DNSLabel E (opt_str (idna_label E name) @ str ''.'' @ zone_root z))"

definition dns_label_to_record_name :: "ext \<Rightarrow> label \<Rightarrow> dnszone \<Rightarrow> pstr res" where
  "dns_label_to_record_name E rn z =
     (let zone_name = DNSLabel E (zone_root z) in
      if label_eq E zone_name rn then Inr (str ''@'')
      else bind_res (mapM_res (\<lambda>n. bind_res (py_decode n) (\<lambda>s. Inr (lower E s))) (stripSuffix E rn zone_name))
             (\<lambda>ps. Inr (join (str ''.'') ps)))"

text \<open>
  The table of a model, and the rows of it that belong to a zone. An object is stored by its
  identifier within its own table.
\<close>

definition objects :: "model \<Rightarrow> world \<Rightarrow> zrec list" where
  "objects m w = [r \<leftarrow> zrecs w. zmodel r = m]"

definition zone_set :: "model \<Rightarrow> pstr \<Rightarrow> world \<Rightarrow> zrec list" where
  "zone_set m zid w = [r \<leftarrow> zrecs w. zmodel r = m \<and> r_zone r = zid]"

definition filter_name :: "model \<Rightarrow> pstr \<Rightarrow> pstr \<Rightarrow> world \<Rightarrow> zrec list" where
  "filter_name m zid name w = [r \<leftarrow> zrecs w. zmodel r = m \<and> r_zone r = zid \<and> record_name r = name]"

definition pk :: "zrec \<Rightarrow> model \<times> pstr" where
  "pk r = (zmodel r, r_id r)"

fun prep_body :: "body \<Rightarrow> body res" where
  "prep_body (NAPTRRecord ord pref flags service regexp repl) =
     (case pref of Tuple1 _ \<Rightarrow> Inl TypeError | Plain _ \<Rightarrow> Inr (NAPTRRecord ord pref flags service regexp repl))"
| "prep_body (DNSKEYRecord flags proto alg key) = Inr (DNSKEYRecord flags proto alg (text_prep key))"
| "prep_body (HTTPSRecord h) = Inr (HTTPSRecord (h\<lparr>h_alpn_cache := None\<rparr>))"
| "prep_body b = Inr b"

definition row_save :: "zrec \<Rightarrow> unit io" where
  "row_save r =
     bind_act (lift_res (prep_body (body r))) (\<lambda>b.
       modify (\<lambda>w. w\<lparr>zrecs := upsert pk (r\<lparr>body := b\<rparr>) (zrecs w)\<rparr>))"

definition row_delete :: "zrec \<Rightarrow> unit io" where
  "row_delete r = modify (\<lambda>w. w\<lparr>zrecs := remove pk r (zrecs w)\<rparr>)"

text \<open>\<^verbatim>\<open>DNSZoneRecord.save\<close>, and the first line of the subclasses' \<^verbatim>\<open>save\<close> and \<^verbatim>\<open>delete\<close>.\<close>

definition base_save :: "ext \<Rightarrow> zrec \<Rightarrow> unit io" where
  "base_save E r = row_save (r\<lparr>record_name := lower E (record_name r)\<rparr>)"

definition touch_zone :: "zrec \<Rightarrow> unit io" where
  "touch_zone r = modify (delay (UpdateFzone (r_zone r)))"

definition validate_unique :: "ext \<Rightarrow> world \<Rightarrow> zrec \<Rightarrow> pstr option \<Rightarrow> pstr list option \<Rightarrow> unit res" where
  "validate_unique E w r lbl exclude =
     (case exclude of
        None \<Rightarrow> Inl TypeError
      | Some ex \<Rightarrow>
          if str ''record_name'' \<notin> set ex
             \<and> [c \<leftarrow> zone_set M_CNAME (r_zone r) w. lbl = Some (record_name c)] \<noteq> []
          then Inl ValidationError else Inr ())"

text \<open>Attributes of an rdata object, of a class that may not have them.\<close>

fun rd_label :: "rdata \<Rightarrow> label res" where
  "rd_label (RD_CNAME l) = Inr l"
| "rd_label (RD_NS l) = Inr l"
| "rd_label (RD_MX l p) = Inr l"
| "rd_label d = Inl AttributeError"

fun rd_raw :: "rdata \<Rightarrow> bytes res" where
  "rd_raw (RD_raw bs) = Inr bs"
| "rd_raw (RD_DHCID bs) = Inr bs"
| "rd_raw d = Inl AttributeError"

definition new_zrec :: "pstr \<Rightarrow> dnszone \<Rightarrow> pstr \<Rightarrow> nat \<Rightarrow> body \<Rightarrow> zrec" where
  "new_zrec nid z n l b = \<lparr>r_id = nid, r_zone = z_id z, record_name = n, ttl = l, body = b\<rparr>"

text \<open>
  The frame of every \<^verbatim>\<open>from_rr\<close> and \<^verbatim>\<open>update_from_rr\<close>: the record name is computed first, then the
  columns of the subclass.
\<close>

definition from_rr_frame :: "ext \<Rightarrow> pstr \<Rightarrow> dnszone \<Rightarrow> rr \<Rightarrow> body res \<Rightarrow> zrec res" where
  "from_rr_frame E nid z rr b =
     bind_res (dns_label_to_record_name E (rname rr) z) (\<lambda>n.
       bind_res b (\<lambda>b'. Inr (new_zrec nid z n (rr_ttl rr) b')))"

definition update_frame :: "ext \<Rightarrow> dnszone \<Rightarrow> rr \<Rightarrow> zrec \<Rightarrow> body res \<Rightarrow> zrec res" where
  "update_frame E z rr r b =
     bind_res (dns_label_to_record_name E (rname rr) z) (\<lambda>n.
       bind_res b (\<lambda>b'. Inr (r\<lparr>record_name := n, ttl := rr_ttl rr, body := b'\<rparr>)))"


section \<open>Addresses\<close>

definition AddressRecord_from_rr :: "ext \<Rightarrow> pstr \<Rightarrow> dnszone \<Rightarrow> rr \<Rightarrow> zrec res" where
  "AddressRecord_from_rr E nid z rr =
     from_rr_frame E nid z rr (Inr (AddressRecord (rdata_str E (rdata rr)) True))"

definition AddressRecord_update_from_rr :: "ext \<Rightarrow> dnszone \<Rightarrow> rr \<Rightarrow> zrec \<Rightarrow> bool \<Rightarrow> zrec res" where
  "AddressRecord_update_from_rr E z rr r auto_rev =
     update_frame E z rr r (Inr (AddressRecord (rdata_str E (rdata rr)) auto_rev))"

definition AddressRecord_to_rr :: "label \<Rightarrow> nat \<Rightarrow> pstr \<Rightarrow> rr res" where
  "AddressRecord_to_rr qn l address =
     bind_res (parse_ip address) (\<lambda>a. case a of
       IPv4 n \<Rightarrow> Inr (mk_rr qn QT_A (RD_A n) l)
     | IPv6 n \<Rightarrow> Inr (mk_rr qn QT_AAAA (RD_AAAA n) l))"

definition AddressRecord_save :: "ext \<Rightarrow> zrec \<Rightarrow> unit io" where
  "AddressRecord_save E r = seq (touch_zone r) (base_save E r)"

definition AddressRecord_delete :: "zrec \<Rightarrow> unit io" where
  "AddressRecord_delete r = seq (touch_zone r) (row_delete r)"

text \<open>\<^verbatim>\<open>dnslib.A(text)\<close> and \<^verbatim>\<open>dnslib.AAAA(text)\<close> read an address of that family.\<close>

definition rd_A :: "pstr \<Rightarrow> rdata res" where
  "rd_A s = (case parse_v4 s of Some n \<Rightarrow> Inr (RD_A n) | None \<Rightarrow> Inl ValueError)"

definition rd_AAAA :: "pstr \<Rightarrow> rdata res" where
  "rd_AAAA s = (case parse_v6 s of Some n \<Rightarrow> Inr (RD_AAAA n) | None \<Rightarrow> Inl ValueError)"

text \<open>An empty or missing address is false in a condition.\<close>

definition truthy :: "pstr option \<Rightarrow> pstr option" where
  "truthy x = (case x of Some s \<Rightarrow> if s = [] then None else Some s | None \<Rightarrow> None)"

definition DynamicAddressRecord_to_rr_v4 :: "label \<Rightarrow> nat \<Rightarrow> pstr option \<Rightarrow> rr option res" where
  "DynamicAddressRecord_to_rr_v4 qn l v4 =
     (case truthy v4 of
        None \<Rightarrow> Inr None
      | Some s \<Rightarrow> bind_res (rd_A s) (\<lambda>d. Inr (Some (mk_rr qn QT_A d l))))"

definition DynamicAddressRecord_to_rr_v6 :: "label \<Rightarrow> nat \<Rightarrow> pstr option \<Rightarrow> rr option res" where
  "DynamicAddressRecord_to_rr_v6 qn l v6 =
     (case truthy v6 of
        None \<Rightarrow> Inr None
      | Some s \<Rightarrow> bind_res (rd_AAAA s) (\<lambda>d. Inr (Some (mk_rr qn QT_AAAA d l))))"

definition DynamicAddressRecord_save :: "ext \<Rightarrow> zrec \<Rightarrow> unit io" where
  "DynamicAddressRecord_save E r = seq (touch_zone r) (base_save E r)"

definition DynamicAddressRecord_delete :: "zrec \<Rightarrow> unit io" where
  "DynamicAddressRecord_delete r = seq (touch_zone r) (row_delete r)"

definition ANAMERecord_save :: "ext \<Rightarrow> zrec \<Rightarrow> pstr \<Rightarrow> unit io" where
  "ANAMERecord_save E r alias =
     (let r' = r\<lparr>body := ANAMERecord (lower E alias)\<rparr> in seq (touch_zone r') (base_save E r'))"

definition ANAMERecord_delete :: "zrec \<Rightarrow> unit io" where
  "ANAMERecord_delete r = seq (touch_zone r) (row_delete r)"

text \<open>
  \<^verbatim>\<open>ANAMERecord.to_rrs\<close>: the address records of the same zone under the alias, or the addresses
  cached for this record. \<open>addr_rrs\<close> is the loop both branches run.
\<close>

definition addr_rr :: "nat \<Rightarrow> label \<Rightarrow> nat \<Rightarrow> pstr \<Rightarrow> rr list res" where
  "addr_rr qt qn l text =
     bind_res (parse_ip text) (\<lambda>a. case a of
       IPv4 n \<Rightarrow> Inr (if qt = QT_A then [mk_rr qn QT_A (RD_A n) l] else [])
     | IPv6 n \<Rightarrow> Inr (if qt = QT_AAAA then [mk_rr qn QT_AAAA (RD_AAAA n) l] else []))"

definition addr_rrs :: "nat \<Rightarrow> label \<Rightarrow> nat \<Rightarrow> pstr list \<Rightarrow> rr list res" where
  "addr_rrs qt qn l texts = bind_res (mapM_res (addr_rr qt qn l) texts) (\<lambda>rss. Inr (concat rss))"

definition address_of :: "zrec \<Rightarrow> pstr" where
  "address_of r = (case body r of AddressRecord a _ \<Rightarrow> a | _ \<Rightarrow> [])"

definition alias_addresses :: "ext \<Rightarrow> world \<Rightarrow> dnszone \<Rightarrow> zrec \<Rightarrow> pstr \<Rightarrow> pstr list res" where
  "alias_addresses E w z r alias =
     (let alias_label = DNSLabel E alias; zone_label = DNSLabel E (zone_root z) in
      if matchSuffix E alias_label zone_label then
        bind_res (dotted (stripSuffix E alias_label zone_label)) (\<lambda>search_name.
          Inr (map address_of (filter_name M_Address (z_id z) search_name w)))
      else Inr (map snd [c \<leftarrow> aname_cache w. fst c = r_id r]))"

definition ANAMERecord_to_rrs :: "ext \<Rightarrow> world \<Rightarrow> dnszone \<Rightarrow> nat \<Rightarrow> label \<Rightarrow> zrec \<Rightarrow> pstr \<Rightarrow> rr list res" where
  "ANAMERecord_to_rrs E w z qt qn r alias =
     bind_res (alias_addresses E w z r alias) (addr_rrs qt qn (ttl r))"


section \<open>CNAME, redirections\<close>

definition CNAMERecord_from_rr :: "ext \<Rightarrow> pstr \<Rightarrow> dnszone \<Rightarrow> rr \<Rightarrow> zrec res" where
  "CNAMERecord_from_rr E nid z rr =
     from_rr_frame E nid z rr (bind_res (rd_label (rdata rr)) (\<lambda>l. Inr (CNAMERecord (label_str E l))))"

definition CNAMERecord_update_from_rr :: "ext \<Rightarrow> dnszone \<Rightarrow> rr \<Rightarrow> zrec \<Rightarrow> zrec res" where
  "CNAMERecord_update_from_rr E z rr r =
     update_frame E z rr r (bind_res (rd_label (rdata rr)) (\<lambda>l. Inr (CNAMERecord (label_str E l))))"

definition CNAMERecord_clean_fields :: "zrec \<Rightarrow> pstr list option \<Rightarrow> unit res" where
  "CNAMERecord_clean_fields r exclude =
     (if record_name r = str ''@'' then
        (case exclude of
           None \<Rightarrow> Inl TypeError
         | Some ex \<Rightarrow> if str ''record_name'' \<notin> set ex then Inl ValidationError else Inr ())
      else Inr ())"

definition CNAMERecord_save :: "ext \<Rightarrow> zrec \<Rightarrow> pstr \<Rightarrow> unit io" where
  "CNAMERecord_save E r alias =
     (let r' = r\<lparr>body := CNAMERecord (lower E alias)\<rparr> in seq (touch_zone r') (base_save E r'))"

definition CNAMERecord_delete :: "zrec \<Rightarrow> unit io" where
  "CNAMERecord_delete r = seq (touch_zone r) (row_delete r)"

definition CNAMERecord_to_rr :: "ext \<Rightarrow> label \<Rightarrow> nat \<Rightarrow> pstr \<Rightarrow> rr" where
  "CNAMERecord_to_rr E qn l alias = mk_rr qn QT_CNAME (RD_CNAME (DNSLabel E alias)) l"

definition ingress_name :: "zrec \<Rightarrow> pstr" where
  "ingress_name r = replace_cp 95 (str ''-'') (r_id r)"

definition k8s_call :: "ext \<Rightarrow> k8s_op \<Rightarrow> unit io" where
  "k8s_call E c w = (k8s E (events w) c, emit (K8s c) w)"

definition RedirectRecord_ingress :: "ext \<Rightarrow> pstr \<Rightarrow> pstr \<Rightarrow> unit io" where
  "RedirectRecord_ingress E name host w =
     (case seq (k8s_call E (ReadIngress name)) (k8s_call E (PatchIngress name host)) w of
        (Inl (ApiException st), w') \<Rightarrow>
          if st = 404 then k8s_call E (CreateIngress name host) w' else (Inl (ApiException st), w')
      | other \<Rightarrow> other)"

definition RedirectRecord_save :: "ext \<Rightarrow> dnszone \<Rightarrow> zrec \<Rightarrow> unit io" where
  "RedirectRecord_save E z r =
     seq (touch_zone r)
       (bind_act (lift_res (dotted (dns_label E z (record_name r)))) (\<lambda>dns_name.
          seq (RedirectRecord_ingress E (ingress_name r) dns_name) (base_save E r)))"

definition RedirectRecord_delete :: "ext \<Rightarrow> zrec \<Rightarrow> unit io" where
  "RedirectRecord_delete E r =
     seq (touch_zone r) (seq (k8s_call E (DeleteIngress (ingress_name r))) (row_delete r))"

definition RedirectRecord_to_rr_v4 :: "label \<Rightarrow> nat \<Rightarrow> rr res" where
  "RedirectRecord_to_rr_v4 qn l = bind_res (rd_A (str ''45.129.95.254'')) (\<lambda>d. Inr (mk_rr qn QT_A d l))"

definition RedirectRecord_to_rr_v6 :: "label \<Rightarrow> nat \<Rightarrow> rr res" where
  "RedirectRecord_to_rr_v6 qn l = bind_res (rd_AAAA (str ''2a0e:1cc1:1::1:7'')) (\<lambda>d. Inr (mk_rr qn QT_AAAA d l))"

definition RedirectRecord_to_rr_caa :: "label \<Rightarrow> nat \<Rightarrow> rr" where
  "RedirectRecord_to_rr_caa qn l = mk_rr qn QT_CAA (RD_CAA 0 (str ''issue'') (str ''letsencrypt.org'')) l"


section \<open>MX, NS, TXT, SRV, CAA, NAPTR\<close>

definition MXRecord_body :: "ext \<Rightarrow> rdata \<Rightarrow> body res" where
  "MXRecord_body E d = (case d of RD_MX l p \<Rightarrow> Inr (MXRecord (label_str E l) p) | _ \<Rightarrow> Inl AttributeError)"

definition MXRecord_from_rr :: "ext \<Rightarrow> pstr \<Rightarrow> dnszone \<Rightarrow> rr \<Rightarrow> zrec res" where
  "MXRecord_from_rr E nid z rr = from_rr_frame E nid z rr (MXRecord_body E (rdata rr))"

definition MXRecord_update_from_rr :: "ext \<Rightarrow> dnszone \<Rightarrow> rr \<Rightarrow> zrec \<Rightarrow> zrec res" where
  "MXRecord_update_from_rr E z rr r = update_frame E z rr r (MXRecord_body E (rdata rr))"

definition MXRecord_save :: "ext \<Rightarrow> zrec \<Rightarrow> pstr \<Rightarrow> nat \<Rightarrow> unit io" where
  "MXRecord_save E r exchange priority =
     seq (touch_zone r) (base_save E (r\<lparr>body := MXRecord (lower E exchange) priority\<rparr>))"

definition MXRecord_delete :: "zrec \<Rightarrow> unit io" where
  "MXRecord_delete r = seq (touch_zone r) (row_delete r)"

definition MXRecord_to_rr :: "ext \<Rightarrow> label \<Rightarrow> nat \<Rightarrow> pstr \<Rightarrow> nat \<Rightarrow> rr" where
  "MXRecord_to_rr E qn l exchange priority = mk_rr qn QT_MX (RD_MX (DNSLabel E exchange) priority) l"

definition NSRecord_from_rr :: "ext \<Rightarrow> pstr \<Rightarrow> dnszone \<Rightarrow> rr \<Rightarrow> zrec res" where
  "NSRecord_from_rr E nid z rr =
     from_rr_frame E nid z rr (bind_res (rd_label (rdata rr)) (\<lambda>l. Inr (NSRecord (label_str E l))))"

definition NSRecord_update_from_rr :: "ext \<Rightarrow> dnszone \<Rightarrow> rr \<Rightarrow> zrec \<Rightarrow> zrec res" where
  "NSRecord_update_from_rr E z rr r =
     update_frame E z rr r (bind_res (rd_label (rdata rr)) (\<lambda>l. Inr (NSRecord (label_str E l))))"

definition NSRecord_save :: "ext \<Rightarrow> zrec \<Rightarrow> pstr \<Rightarrow> unit io" where
  "NSRecord_save E r nameserver =
     seq (touch_zone r) (base_save E (r\<lparr>body := NSRecord (lower E nameserver)\<rparr>))"

definition NSRecord_delete :: "zrec \<Rightarrow> unit io" where
  "NSRecord_delete r = seq (touch_zone r) (row_delete r)"

definition NSRecord_to_rr :: "ext \<Rightarrow> label \<Rightarrow> nat \<Rightarrow> pstr \<Rightarrow> rr" where
  "NSRecord_to_rr E qn l nameserver = mk_rr qn QT_NS (RD_NS (DNSLabel E nameserver)) l"

text \<open>
  \<open>chunks n s\<close> is \<^verbatim>\<open>[s[i:i+n] for i in range(0, len(s), n)]\<close>: the text of a TXT record in pieces of
  255 characters, each then encoded.
\<close>

fun chunks :: "nat \<Rightarrow> 'a list \<Rightarrow> 'a list list" where
  "chunks n [] = []"
| "chunks n (x # xs) = (if n = 0 then [] else take n (x # xs) # chunks n (drop n (x # xs)))"

definition TXTRecord_body :: "rdata \<Rightarrow> body res" where
  "TXTRecord_body d =
     (case d of RD_TXT ds \<Rightarrow> Inr (TXTRecord (concat (map decode_replace ds))) | _ \<Rightarrow> Inl AttributeError)"

definition TXTRecord_from_rr :: "ext \<Rightarrow> pstr \<Rightarrow> dnszone \<Rightarrow> rr \<Rightarrow> zrec res" where
  "TXTRecord_from_rr E nid z rr = from_rr_frame E nid z rr (TXTRecord_body (rdata rr))"

definition TXTRecord_update_from_rr :: "ext \<Rightarrow> dnszone \<Rightarrow> rr \<Rightarrow> zrec \<Rightarrow> zrec res" where
  "TXTRecord_update_from_rr E z rr r = update_frame E z rr r (TXTRecord_body (rdata rr))"

definition TXTRecord_to_rr :: "ext \<Rightarrow> label \<Rightarrow> nat \<Rightarrow> pstr \<Rightarrow> rr res" where
  "TXTRecord_to_rr E qn l data =
     bind_res (txt_new E (map utf8_encode (chunks 255 data))) (\<lambda>d. Inr (mk_rr qn QT_TXT d l))"

definition TXTRecord_save :: "ext \<Rightarrow> zrec \<Rightarrow> unit io" where
  "TXTRecord_save E r = seq (touch_zone r) (base_save E r)"

definition TXTRecord_delete :: "zrec \<Rightarrow> unit io" where
  "TXTRecord_delete r = seq (touch_zone r) (row_delete r)"

definition SRVRecord_body :: "ext \<Rightarrow> rdata \<Rightarrow> body res" where
  "SRVRecord_body E d =
     (case d of RD_SRV p wt pt tg \<Rightarrow> Inr (SRVRecord p wt pt (label_str E tg)) | _ \<Rightarrow> Inl AttributeError)"

definition SRVRecord_from_rr :: "ext \<Rightarrow> pstr \<Rightarrow> dnszone \<Rightarrow> rr \<Rightarrow> zrec res" where
  "SRVRecord_from_rr E nid z rr = from_rr_frame E nid z rr (SRVRecord_body E (rdata rr))"

definition SRVRecord_update_from_rr :: "ext \<Rightarrow> dnszone \<Rightarrow> rr \<Rightarrow> zrec \<Rightarrow> zrec res" where
  "SRVRecord_update_from_rr E z rr r = update_frame E z rr r (SRVRecord_body E (rdata rr))"

definition SRVRecord_to_rr :: "ext \<Rightarrow> label \<Rightarrow> nat \<Rightarrow> nat \<Rightarrow> nat \<Rightarrow> nat \<Rightarrow> pstr \<Rightarrow> rr" where
  "SRVRecord_to_rr E qn l priority weight port target =
     mk_rr qn QT_SRV (RD_SRV priority weight port (DNSLabel E target)) l"

definition SRVRecord_save :: "ext \<Rightarrow> zrec \<Rightarrow> unit io" where
  "SRVRecord_save E r = seq (touch_zone r) (base_save E r)"

definition SRVRecord_delete :: "zrec \<Rightarrow> unit io" where
  "SRVRecord_delete r = seq (touch_zone r) (row_delete r)"

definition CAARecord_body :: "rdata \<Rightarrow> body res" where
  "CAARecord_body d = (case d of RD_CAA f t v \<Rightarrow> Inr (CAARecord f t v) | _ \<Rightarrow> Inl AttributeError)"

definition CAARecord_from_rr :: "ext \<Rightarrow> pstr \<Rightarrow> dnszone \<Rightarrow> rr \<Rightarrow> zrec res" where
  "CAARecord_from_rr E nid z rr = from_rr_frame E nid z rr (CAARecord_body (rdata rr))"

definition CAARecord_update_from_rr :: "ext \<Rightarrow> dnszone \<Rightarrow> rr \<Rightarrow> zrec \<Rightarrow> zrec res" where
  "CAARecord_update_from_rr E z rr r = update_frame E z rr r (CAARecord_body (rdata rr))"

definition CAARecord_to_rr :: "label \<Rightarrow> nat \<Rightarrow> nat \<Rightarrow> pstr \<Rightarrow> pstr \<Rightarrow> rr" where
  "CAARecord_to_rr qn l flag tag value = mk_rr qn QT_CAA (RD_CAA flag tag value) l"

definition CAARecord_save :: "ext \<Rightarrow> zrec \<Rightarrow> unit io" where
  "CAARecord_save E r = seq (touch_zone r) (base_save E r)"

definition CAARecord_delete :: "zrec \<Rightarrow> unit io" where
  "CAARecord_delete r = seq (touch_zone r) (row_delete r)"

text \<open>\<^verbatim>\<open>NAPTRRecord.update_from_rr\<close> has a comma after four of its right-hand sides: they are tuples.\<close>

definition NAPTRRecord_from_rr :: "ext \<Rightarrow> pstr \<Rightarrow> dnszone \<Rightarrow> rr \<Rightarrow> zrec res" where
  "NAPTRRecord_from_rr E nid z rr =
     from_rr_frame E nid z rr
       (case rdata rr of
          RD_NAPTR ord pref flags service regexp repl \<Rightarrow>
            Inr (NAPTRRecord ord (Plain pref) (Plain flags) (Plain service) (Plain regexp) (label_str E repl))
        | _ \<Rightarrow> Inl AttributeError)"

definition NAPTRRecord_update_from_rr :: "ext \<Rightarrow> dnszone \<Rightarrow> rr \<Rightarrow> zrec \<Rightarrow> zrec res" where
  "NAPTRRecord_update_from_rr E z rr r =
     update_frame E z rr r
       (case rdata rr of
          RD_NAPTR ord pref flags service regexp repl \<Rightarrow>
            Inr (NAPTRRecord ord (Tuple1 pref) (Tuple1 flags) (Tuple1 service) (Tuple1 regexp) (label_str E repl))
        | _ \<Rightarrow> Inl AttributeError)"

fun pyval_get :: "'a pyval \<Rightarrow> 'a" where
  "pyval_get (Plain a) = a"
| "pyval_get (Tuple1 a) = a"

definition NAPTRRecord_to_rr ::
  "ext \<Rightarrow> label \<Rightarrow> nat \<Rightarrow> nat \<Rightarrow> nat \<Rightarrow> pstr \<Rightarrow> pstr \<Rightarrow> pstr \<Rightarrow> pstr \<Rightarrow> rr" where
  "NAPTRRecord_to_rr E qn l ord pref flags service regexp repl =
     mk_rr qn QT_NAPTR (RD_NAPTR ord pref flags service regexp (DNSLabel E repl)) l"

definition NAPTRRecord_save :: "ext \<Rightarrow> zrec \<Rightarrow> unit io" where
  "NAPTRRecord_save E r = seq (touch_zone r) (base_save E r)"

definition NAPTRRecord_delete :: "zrec \<Rightarrow> unit io" where
  "NAPTRRecord_delete r = seq (touch_zone r) (row_delete r)"


section \<open>SSHFP, DS, DNSKEY\<close>

definition SSHFP_pack :: "nat \<Rightarrow> nat \<Rightarrow> bytes \<Rightarrow> bytes res" where
  "SSHFP_pack algorithm fingerprint_type fingerprint =
     bind_res (pack_B (int algorithm)) (\<lambda>a. bind_res (pack_B (int fingerprint_type)) (\<lambda>t.
       Inr (a @ t @ fingerprint)))"

definition SSHFP_repr :: "nat \<Rightarrow> nat \<Rightarrow> bytes \<Rightarrow> pstr" where
  "SSHFP_repr algorithm fingerprint_type fingerprint =
     join (str '' '') [dec_str algorithm, dec_str fingerprint_type, hexlify fingerprint]"

definition SSHFPRecord_clean :: "ext \<Rightarrow> pstr \<Rightarrow> unit res" where
  "SSHFPRecord_clean E host_key =
     (case ssh_parse E host_key of Inl _ \<Rightarrow> Inl ValidationError | Inr _ \<Rightarrow> Inr ())"

definition ssh_algo_num :: "bytes \<Rightarrow> nat option" where
  "ssh_algo_num key_type =
     (if key_type = str ''ssh-rsa'' then Some 1
      else if key_type = str ''ssh-dsa'' then Some 2
      else if take 9 key_type = str ''ecdsa-sha'' then Some 3
      else if key_type = str ''ssh-ed25519'' then Some 4
      else None)"

definition SSHFPRecord_to_rrs :: "ext \<Rightarrow> label \<Rightarrow> nat \<Rightarrow> pstr \<Rightarrow> rr list res" where
  "SSHFPRecord_to_rrs E qn l host_key =
     bind_res (ssh_parse E host_key) (\<lambda>(key_type, decoded_key).
       case ssh_algo_num key_type of
         None \<Rightarrow> Inr []
       | Some n \<Rightarrow> Inr [mk_rr qn QT_SSHFP (RD_SSHFP n 1 (sha1 E decoded_key)) l,
                       mk_rr qn QT_SSHFP (RD_SSHFP n 2 (sha256 E decoded_key)) l])"

definition SSHFPRecord_save :: "ext \<Rightarrow> zrec \<Rightarrow> unit io" where
  "SSHFPRecord_save E r = seq (touch_zone r) (base_save E r)"

definition SSHFPRecord_delete :: "zrec \<Rightarrow> unit io" where
  "SSHFPRecord_delete r = seq (touch_zone r) (row_delete r)"

definition DS_pack :: "nat \<Rightarrow> nat \<Rightarrow> nat \<Rightarrow> bytes \<Rightarrow> bytes res" where
  "DS_pack key_tag algorithm digest_type digest =
     bind_res (pack_H (int key_tag)) (\<lambda>k. bind_res (pack_B (int algorithm)) (\<lambda>a.
       bind_res (pack_B (int digest_type)) (\<lambda>t. Inr (k @ a @ t @ digest))))"

definition DS_repr :: "nat \<Rightarrow> nat \<Rightarrow> nat \<Rightarrow> bytes \<Rightarrow> pstr" where
  "DS_repr key_tag algorithm digest_type digest =
     join (str '' '') [dec_str key_tag, dec_str algorithm, dec_str digest_type, hexlify digest]"

definition digest_bin :: "pstr \<Rightarrow> bytes option res" where
  "digest_bin digest =
     (case fromhex digest of
        Inr bs \<Rightarrow> Inr (Some bs)
      | Inl _ \<Rightarrow> (case b64decode digest of
                   Inr bs \<Rightarrow> Inr (Some bs)
                 | Inl BinasciiError \<Rightarrow> Inr None
                 | Inl e \<Rightarrow> Inl e))"

text \<open>\<^verbatim>\<open>struct.unpack("!HBB", data)\<close> takes a buffer of exactly four bytes.\<close>

definition unpack_HBB :: "bytes \<Rightarrow> (nat \<times> nat \<times> nat) res" where
  "unpack_HBB data =
     (case data of
        [a, b, c, d] \<Rightarrow> Inr (a * 256 + b, c, d)
      | _ \<Rightarrow> Inl StructError)"

definition DSRecord_body :: "rdata \<Rightarrow> body res" where
  "DSRecord_body rd =
     bind_res (rd_raw rd) (\<lambda>data.
       bind_res (unpack_HBB data) (\<lambda>(key_tag, algorithm, digest_type).
         Inr (DSRecord key_tag algorithm digest_type (hexlify (drop 4 data)))))"

definition DSRecord_from_rr :: "ext \<Rightarrow> pstr \<Rightarrow> dnszone \<Rightarrow> rr \<Rightarrow> zrec res" where
  "DSRecord_from_rr E nid z rr = from_rr_frame E nid z rr (DSRecord_body (rdata rr))"

definition DSRecord_update_from_rr :: "ext \<Rightarrow> dnszone \<Rightarrow> rr \<Rightarrow> zrec \<Rightarrow> zrec res" where
  "DSRecord_update_from_rr E z rr r = update_frame E z rr r (DSRecord_body (rdata rr))"

definition DSRecord_to_rr :: "label \<Rightarrow> nat \<Rightarrow> nat \<Rightarrow> nat \<Rightarrow> nat \<Rightarrow> pstr \<Rightarrow> rr option res" where
  "DSRecord_to_rr qn l key_tag algorithm digest_type digest =
     bind_res (digest_bin digest) (\<lambda>d. case d of
       None \<Rightarrow> Inr None
     | Some bs \<Rightarrow> Inr (if bs = [] then None
                      else Some (mk_rr qn QT_DS (RD_DS key_tag algorithm digest_type bs) l)))"

definition DSRecord_clean_fields :: "zrec \<Rightarrow> pstr list option \<Rightarrow> unit res" where
  "DSRecord_clean_fields r exclude =
     (if record_name r = str ''@'' then
        (case exclude of
           None \<Rightarrow> Inl TypeError
         | Some ex \<Rightarrow> if str ''record_name'' \<notin> set ex then Inl ValidationError else Inr ())
      else Inr ())"

definition DSRecord_save :: "ext \<Rightarrow> zrec \<Rightarrow> unit io" where
  "DSRecord_save E r = seq (touch_zone r) (base_save E r)"

definition DSRecord_delete :: "zrec \<Rightarrow> unit io" where
  "DSRecord_delete r = seq (touch_zone r) (row_delete r)"

definition DNSKEYRecord_body :: "rdata \<Rightarrow> body res" where
  "DNSKEYRecord_body rd =
     (case rd of
        RD_DNSKEY flags protocol algorithm key \<Rightarrow>
          Inr (DNSKEYRecord flags protocol algorithm (PyBytes (b64encode key)))
      | _ \<Rightarrow> Inl AttributeError)"

definition DNSKEYRecord_from_rr :: "ext \<Rightarrow> pstr \<Rightarrow> dnszone \<Rightarrow> rr \<Rightarrow> zrec res" where
  "DNSKEYRecord_from_rr E nid z rr = from_rr_frame E nid z rr (DNSKEYRecord_body (rdata rr))"

definition DNSKEYRecord_update_from_rr :: "ext \<Rightarrow> dnszone \<Rightarrow> rr \<Rightarrow> zrec \<Rightarrow> zrec res" where
  "DNSKEYRecord_update_from_rr E z rr r = update_frame E z rr r (DNSKEYRecord_body (rdata rr))"

fun pytext_raw :: "pytext \<Rightarrow> pstr" where
  "pytext_raw (PyStr s) = s"
| "pytext_raw (PyBytes b) = b"

definition DNSKEYRecord_to_rr :: "label \<Rightarrow> nat \<Rightarrow> nat \<Rightarrow> nat \<Rightarrow> nat \<Rightarrow> pytext \<Rightarrow> rr res" where
  "DNSKEYRecord_to_rr qn l flags protocol algorithm public_key =
     bind_res (b64decode (pytext_raw public_key)) (\<lambda>key.
       Inr (mk_rr qn QT_DS (RD_DNSKEY flags protocol algorithm key) l))"

definition DNSKEYRecord_save :: "ext \<Rightarrow> zrec \<Rightarrow> unit io" where
  "DNSKEYRecord_save E r = seq (touch_zone r) (base_save E r)"

definition DNSKEYRecord_delete :: "zrec \<Rightarrow> unit io" where
  "DNSKEYRecord_delete r = seq (touch_zone r) (row_delete r)"

end
