(* ===== verification/Service_Records.thy ===== *)
theory Service_Records
  imports Record_Models
begin

text \<open>
  The remaining record classes of \<^verbatim>\<open>models.py\<close>: LOC, HINFO, RP, the service binding records
  (\<^verbatim>\<open>SVCBBaseRecord\<close> and \<^verbatim>\<open>HTTPSRecord\<close>), DHCID, GitHub Pages; and the validation of CNAME records,
  which looks at all the others.
\<close>

section \<open>LOC, HINFO, RP, DHCID\<close>

text \<open>
  \<^verbatim>\<open>LOCRecord.from_rr\<close> hands the whole rdata to \<^verbatim>\<open>_dec_size\<close>, whose \<^verbatim>\<open>value & 0x0F\<close> raises on bytes.
\<close>

definition LOCRecord_dec_size :: "nat \<Rightarrow> nat" where
  "LOCRecord_dec_size value = (value div 16) mod 16 * 10 ^ (value mod 16)"

definition LOCRecord_body :: "rdata \<Rightarrow> body res" where
  "LOCRecord_body rd = bind_res (rd_raw rd) (\<lambda>data. Inl TypeError)"

definition LOCRecord_from_rr :: "ext \<Rightarrow> pstr \<Rightarrow> dnszone \<Rightarrow> rr \<Rightarrow> zrec res" where
  "LOCRecord_from_rr E nid z rr = from_rr_frame E nid z rr (LOCRecord_body (rdata rr))"

definition LOCRecord_update_from_rr :: "ext \<Rightarrow> dnszone \<Rightarrow> rr \<Rightarrow> zrec \<Rightarrow> zrec res" where
  "LOCRecord_update_from_rr E z rr r = update_frame E z rr r (LOCRecord_body (rdata rr))"

definition LOCRecord_to_rr ::
  "label \<Rightarrow> nat \<Rightarrow> float_bits \<Rightarrow> float_bits \<Rightarrow> float_bits \<Rightarrow> float_bits \<Rightarrow> float_bits \<Rightarrow> float_bits \<Rightarrow> rr" where
  "LOCRecord_to_rr qn l lat long alt siz hp vp = mk_rr qn QT_LOC (RD_LOC lat long alt siz hp vp) l"

definition LOCRecord_save :: "ext \<Rightarrow> zrec \<Rightarrow> unit io" where
  "LOCRecord_save E r = seq (touch_zone r) (base_save E r)"

definition LOCRecord_delete :: "zrec \<Rightarrow> unit io" where
  "LOCRecord_delete r = seq (touch_zone r) (row_delete r)"

definition HINFORecord_body :: "ext \<Rightarrow> rdata \<Rightarrow> body res" where
  "HINFORecord_body E rd =
     bind_res (rd_raw rd) (\<lambda>data. bind_res (txt_parse E data) (\<lambda>ds.
       case ds of
         cpu # os # _ \<Rightarrow> Inr (HINFORecord (decode_replace cpu) (decode_replace os))
       | _ \<Rightarrow> Inl IndexError))"

definition HINFORecord_from_rr :: "ext \<Rightarrow> pstr \<Rightarrow> dnszone \<Rightarrow> rr \<Rightarrow> zrec res" where
  "HINFORecord_from_rr E nid z rr = from_rr_frame E nid z rr (HINFORecord_body E (rdata rr))"

definition HINFORecord_update_from_rr :: "ext \<Rightarrow> dnszone \<Rightarrow> rr \<Rightarrow> zrec \<Rightarrow> zrec res" where
  "HINFORecord_update_from_rr E z rr r = update_frame E z rr r (HINFORecord_body E (rdata rr))"

definition HINFORecord_to_rr :: "ext \<Rightarrow> label \<Rightarrow> nat \<Rightarrow> pstr \<Rightarrow> pstr \<Rightarrow> rr res" where
  "HINFORecord_to_rr E qn l cpu os =
     bind_res (txt_new E [utf8_encode cpu, utf8_encode os]) (\<lambda>d. Inr (mk_rr qn QT_HINFO d l))"

definition HINFORecord_save :: "ext \<Rightarrow> zrec \<Rightarrow> unit io" where
  "HINFORecord_save E r = seq (touch_zone r) (base_save E r)"

definition HINFORecord_delete :: "zrec \<Rightarrow> unit io" where
  "HINFORecord_delete r = seq (touch_zone r) (row_delete r)"

definition RP_repr :: "ext \<Rightarrow> label \<Rightarrow> label \<Rightarrow> pstr" where
  "RP_repr E mbox txt = label_str E mbox @ str '' '' @ label_str E txt"

definition RPRecord_body :: "ext \<Rightarrow> rdata \<Rightarrow> body res" where
  "RPRecord_body E rd =
     bind_res (rd_raw rd) (\<lambda>data.
       bind_res (decode_name E data 0) (\<lambda>(mbox, off).
         bind_res (decode_name E data off) (\<lambda>(txt, _).
           Inr (RPRecord (label_str E mbox) (label_str E txt)))))"

definition RPRecord_from_rr :: "ext \<Rightarrow> pstr \<Rightarrow> dnszone \<Rightarrow> rr \<Rightarrow> zrec res" where
  "RPRecord_from_rr E nid z rr = from_rr_frame E nid z rr (RPRecord_body E (rdata rr))"

definition RPRecord_update_from_rr :: "ext \<Rightarrow> dnszone \<Rightarrow> rr \<Rightarrow> zrec \<Rightarrow> zrec res" where
  "RPRecord_update_from_rr E z rr r = update_frame E z rr r (RPRecord_body E (rdata rr))"

definition RPRecord_to_rr :: "ext \<Rightarrow> label \<Rightarrow> nat \<Rightarrow> pstr \<Rightarrow> pstr \<Rightarrow> rr" where
  "RPRecord_to_rr E qn l mailbox txt = mk_rr qn QT_RP (RD_RP (DNSLabel E mailbox) (DNSLabel E txt)) l"

definition dns_alphabet :: "nat \<Rightarrow> bool" where
  "dns_alphabet c \<longleftrightarrow> (97 \<le> c \<and> c \<le> 122) \<or> (48 \<le> c \<and> c \<le> 57) \<or> c = 45"

definition RPRecord_clean_fields :: "pstr \<Rightarrow> pstr \<Rightarrow> pstr list option \<Rightarrow> unit res" where
  "RPRecord_clean_fields mailbox txt exclude =
     (case exclude of
        None \<Rightarrow> Inl TypeError
      | Some ex \<Rightarrow>
          if str ''mailbox'' \<notin> set ex \<and> \<not> list_all dns_alphabet mailbox then Inl ValidationError
          else if str ''txt'' \<notin> set ex \<and> \<not> list_all dns_alphabet txt then Inl ValidationError
          else Inr ())"

definition RPRecord_save :: "ext \<Rightarrow> zrec \<Rightarrow> pstr \<Rightarrow> pstr \<Rightarrow> unit io" where
  "RPRecord_save E r mailbox txt =
     (let r' = r\<lparr>body := RPRecord (lower E mailbox) (lower E txt)\<rparr> in seq (touch_zone r') (base_save E r'))"

definition RPRecord_delete :: "zrec \<Rightarrow> unit io" where
  "RPRecord_delete r = seq (touch_zone r) (row_delete r)"

definition DHCID_pack :: "bytes \<Rightarrow> bytes" where
  "DHCID_pack data = data"

definition DHCID_repr :: "bytes \<Rightarrow> pstr" where
  "DHCID_repr data = b64encode data"

definition DHCIDRecord_save :: "ext \<Rightarrow> zrec \<Rightarrow> unit io" where
  "DHCIDRecord_save E r = seq (touch_zone r) (base_save E r)"

definition DHCIDRecord_body :: "rdata \<Rightarrow> body res" where
  "DHCIDRecord_body rd = bind_res (rd_raw rd) (\<lambda>data. Inr (DHCIDRecord data))"

definition DHCIDRecord_from_rr :: "ext \<Rightarrow> pstr \<Rightarrow> dnszone \<Rightarrow> rr \<Rightarrow> zrec res" where
  "DHCIDRecord_from_rr E nid z rr = from_rr_frame E nid z rr (DHCIDRecord_body (rdata rr))"

definition DHCIDRecord_update_from_rr :: "ext \<Rightarrow> dnszone \<Rightarrow> rr \<Rightarrow> zrec \<Rightarrow> zrec res" where
  "DHCIDRecord_update_from_rr E z rr r = update_frame E z rr r (DHCIDRecord_body (rdata rr))"

definition DHCIDRecord_to_rr :: "label \<Rightarrow> nat \<Rightarrow> bytes \<Rightarrow> rr" where
  "DHCIDRecord_to_rr qn l data = mk_rr qn QT_DHCID (RD_DHCID data) l"


section \<open>Service bindings\<close>

definition has :: "pstr option \<Rightarrow> bool" where
  "has x \<longleftrightarrow> truthy x \<noteq> None"

definition alpn_data :: "https_rec \<Rightarrow> bytes list option res" where
  "alpn_data h =
     (case (h_alpn_cache h, truthy (h_alpns h)) of
        (None, Some s) \<Rightarrow> bind_res (alpn_from_str s) (\<lambda>d.
           case d of ALPNData l \<Rightarrow> Inr (Some l) | _ \<Rightarrow> Inl TypeError)
      | (c, _) \<Rightarrow> Inr c)"

definition has_fetch_blocked_port :: "https_rec \<Rightarrow> bool" where
  "has_fetch_blocked_port h =
     (case h_target_port h of
        Some p \<Rightarrow> if p = 0 then False else svcb_fetch_port_blocking (int p)
      | None \<Rightarrow> False)"

definition num_set :: "nat option \<Rightarrow> bool" where
  "num_set x \<longleftrightarrow> (case x of None \<Rightarrow> False | Some n \<Rightarrow> n \<noteq> 0)"

text \<open>
  \<^verbatim>\<open>SVCBBaseRecord.clean\<close>, in the order of its checks. The tests \<^verbatim>\<open>"alpn" in self.extra_params\<close> look
  for a substring of the text.
\<close>

definition check :: "bool \<Rightarrow> unit res" where
  "check bad = (if bad then Inl ValidationError else Inr ())"

definition clean_ech :: "https_rec \<Rightarrow> unit res" where
  "clean_ech h =
     (let ep = h_extra_params h in
      bind_res (check (h_ech_mandatory h \<and> \<not> (has (h_ech h) \<or> contains (str ''ech'') ep))) (\<lambda>_.
        case truthy (h_ech h) of
          None \<Rightarrow> Inr ()
        | Some s \<Rightarrow>
            bind_res (check (contains (str ''ech'') ep)) (\<lambda>_.
              case b64decode s of
                Inl BinasciiError \<Rightarrow> Inl ValidationError
              | Inl e \<Rightarrow> Inl e
              | Inr _ \<Rightarrow> Inr ())))"

definition clean_alpn :: "https_rec \<Rightarrow> https_rec res" where
  "clean_alpn h =
     (let ep = h_extra_params h in
      bind_res (check (h_alpn_mandatory h \<and> \<not> (has (h_alpns h) \<or> contains (str ''alpn'') ep))) (\<lambda>_.
        case truthy (h_alpns h) of
          None \<Rightarrow> Inr h
        | Some s \<Rightarrow>
            bind_res (check (contains (str ''alpn'') ep)) (\<lambda>_.
              bind_res (alpn_from_str s) (\<lambda>d.
                case d of ALPNData l \<Rightarrow> Inr (h\<lparr>h_alpn_cache := Some l\<rparr>) | _ \<Rightarrow> Inl TypeError))))"

definition clean_hints :: "pstr \<Rightarrow> (pstr \<Rightarrow> param_data res) \<Rightarrow> bool \<Rightarrow> pstr \<Rightarrow> pstr \<Rightarrow> unit res" where
  "clean_hints key parse mand hints ep =
     bind_res (check (mand \<and> \<not> (hints \<noteq> [] \<or> contains key ep))) (\<lambda>_.
       if hints = [] then Inr ()
       else bind_res (check (contains key ep)) (\<lambda>_. bind_res (parse hints) (\<lambda>_. Inr ())))"

definition SVCBBase_clean :: "https_rec \<Rightarrow> https_rec res" where
  "SVCBBase_clean h =
     (let ep = h_extra_params h in
      bind_res (if ep = [] then Inr [] else decode_svcb_param_list ep) (\<lambda>_.
      bind_res (clean_alpn h) (\<lambda>h'.
      bind_res (clean_ech h) (\<lambda>_.
      bind_res (check (h_no_default_alpn h \<and> \<not> (has (h_alpns h) \<or> contains (str ''alpn'') ep))) (\<lambda>_.
      bind_res (check (h_target_port_mandatory h \<and> \<not> (num_set (h_target_port h) \<or> contains (str ''port'') ep))) (\<lambda>_.
      bind_res (clean_hints (str ''ipv4hint'') ipv4_from_str (h_ipv4_hints_mandatory h) (h_ipv4_hints h) ep) (\<lambda>_.
      bind_res (clean_hints (str ''ipv6hint'') ipv6_from_str (h_ipv6_hints_mandatory h) (h_ipv6_hints h) ep) (\<lambda>_.
      bind_res (check (num_set (h_target_port h) \<and> contains (str ''port'') ep)) (\<lambda>_.
      bind_res (check ((h_alpn_mandatory h \<or> h_no_default_alpn_mandatory h \<or> h_target_port_mandatory h
                  \<or> h_ipv4_hints_mandatory h \<or> h_ipv6_hints_mandatory h) \<and> contains (str ''mandatory'') ep)) (\<lambda>_.
      bind_res (check (num_set (h_port h) \<and> \<not> has (h_scheme h))) (\<lambda>_.
      bind_res (check (has (h_scheme h) \<and> \<not> num_set (h_port h))) (\<lambda>_. Inr h'))))))))))))"

definition HTTPSRecord_clean :: "https_rec \<Rightarrow> https_rec res" where
  "HTTPSRecord_clean h =
     bind_res (SVCBBase_clean h) (\<lambda>h'.
       if \<not> h_http2_support h' then Inr h'
       else bind_res (alpn_data h') (\<lambda>a.
         bind_res (check (case a of Some l \<Rightarrow> str ''h2'' \<in> set l | None \<Rightarrow> False)) (\<lambda>_.
           bind_res (check (contains (str ''alpn'') (h_extra_params h'))) (\<lambda>_. Inr h'))))"

text \<open>
  The parameters of a record and the numbers of the mandatory ones. The ALPN parameter holds the
  cached object itself, so what \<^verbatim>\<open>HTTPSRecord.svcb_data\<close> appends to it stays in the cache; the
  record is therefore part of the result.
\<close>

definition param_if :: "bool \<Rightarrow> pstr \<Rightarrow> param_data res \<Rightarrow> svcb_param list res" where
  "param_if c name d =
     (if c then bind_res d (\<lambda>v. bind_res (svcb_param_init name v) (\<lambda>p. Inr [p])) else Inr [])"

definition num_str :: "nat option \<Rightarrow> pstr" where
  "num_str x = (case x of Some n \<Rightarrow> dec_str n | None \<Rightarrow> str ''None'')"

definition svcb_mandatory :: "https_rec \<Rightarrow> int list" where
  "svcb_mandatory h =
     (if has (h_alpns h) \<and> h_alpn_mandatory h then [1] else [])
     @ (if h_no_default_alpn_mandatory h then [2] else [])
     @ (if h_ipv4_hints h \<noteq> [] \<and> h_ipv4_hints_mandatory h then [4] else [])
     @ (if h_ipv6_hints h \<noteq> [] \<and> h_ipv6_hints_mandatory h then [6] else [])
     @ (if num_set (h_target_port h) \<and> h_target_port_mandatory h then [3] else [])
     @ (if has (h_ech h) \<and> h_ech_mandatory h then [5] else [])"

definition SVCBBase_svcb_data :: "https_rec \<Rightarrow> (svcb_param list \<times> int list \<times> https_rec) res" where
  "SVCBBase_svcb_data h =
     bind_res (if has (h_alpns h) then alpn_data h else Inr (h_alpn_cache h)) (\<lambda>cache.
     bind_res (mapM_res id
       [param_if (has (h_alpns h)) (str ''alpn'') (Inr (ALPNData (case cache of Some l \<Rightarrow> l | None \<Rightarrow> []))),
        param_if (h_no_default_alpn h) (str ''no-default-alpn'') (Inr NullParamData),
        param_if (h_ipv4_hints h \<noteq> []) (str ''ipv4hint'') (ipv4_from_str (h_ipv4_hints h)),
        param_if (h_ipv6_hints h \<noteq> []) (str ''ipv6hint'') (ipv6_from_str (h_ipv6_hints h)),
        param_if (num_set (h_target_port h)) (str ''port'')
          (Inr (IntegerParamData (case h_target_port h of Some p \<Rightarrow> int p | None \<Rightarrow> 0))),
        param_if (has (h_ech h)) (str ''ech'')
          (bind_res (b64decode (opt_str (h_ech h))) (\<lambda>b. Inr (OctetParamData b)))])
       (\<lambda>ps.
     bind_res (if h_extra_params h = [] then Inr [] else decode_svcb_param_list (h_extra_params h)) (\<lambda>extra.
       Inr (concat ps @ extra, svcb_mandatory h, h\<lparr>h_alpn_cache := cache\<rparr>))))"

fun set_first :: "('a \<Rightarrow> bool) \<Rightarrow> ('a \<Rightarrow> 'a) \<Rightarrow> 'a list \<Rightarrow> 'a list" where
  "set_first P f [] = []"
| "set_first P f (x # xs) = (if P x then f x # xs else x # set_first P f xs)"

definition HTTPSRecord_svcb_data :: "https_rec \<Rightarrow> (svcb_param list \<times> int list \<times> https_rec) res" where
  "HTTPSRecord_svcb_data h =
     bind_res (SVCBBase_svcb_data h) (\<lambda>(ps, mand, h').
       if \<not> h_http2_support h then Inr (ps, mand, h')
       else (case svcb_list_getitem ps (str ''alpn'') of
               Some v \<Rightarrow> (case p_data v of
                   ALPNData l \<Rightarrow>
                     Inr (set_first (\<lambda>p. p_key p = p_key v) (\<lambda>p. p\<lparr>p_data := ALPNData (l @ [str ''h2''])\<rparr>) ps,
                          mand,
                          if has (h_alpns h) then h'\<lparr>h_alpn_cache := Some (l @ [str ''h2''])\<rparr> else h')
                 | _ \<Rightarrow> Inl AttributeError)
             | None \<Rightarrow>
                 bind_res (alpn_init [str ''h2'']) (\<lambda>d.
                   bind_res (svcb_param_init (str ''alpn'') d) (\<lambda>p. Inr (ps @ [p], mand, h')))))"

definition svcb_record :: "https_rec \<Rightarrow> (svcb_rdata \<times> https_rec) res" where
  "svcb_record h =
     bind_res (HTTPSRecord_svcb_data h) (\<lambda>(ps, mand, h').
       bind_res (param_if (mand \<noteq> []) (str ''mandatory'') (Inr (MandatoryData mand))) (\<lambda>m.
         Inr (\<lparr>sv_priority = int (h_priority h), sv_target = h_target h, sv_params = ps @ m\<rparr>, h')))"

definition SVCBBase_record_name :: "ext \<Rightarrow> pstr \<Rightarrow> https_rec \<Rightarrow> pstr option" where
  "SVCBBase_record_name E name h =
     (if \<not> num_set (h_port h) \<and> \<not> has (h_scheme h) then idna_label E name
      else let prefix = str ''_'' @ num_str (h_port h) @ str ''._'' @ opt_str (h_scheme h) in
        if py_strip name = str ''@'' \<or> py_strip name = [] then Some prefix
        else Some (prefix @ str ''.'' @ opt_str (idna_label E name)))"

definition HTTPSRecord_record_name :: "ext \<Rightarrow> pstr \<Rightarrow> https_rec \<Rightarrow> pstr option" where
  "HTTPSRecord_record_name E name h =
     (if h_port h = Some 443 \<and> h_scheme h = Some (str ''https'') then Some name
      else SVCBBase_record_name E name h)"

definition SVCBBase_dns_label :: "ext \<Rightarrow> dnszone \<Rightarrow> pstr \<Rightarrow> https_rec \<Rightarrow> label" where
  "SVCBBase_dns_label E z name h =
     (let rn = HTTPSRecord_record_name E name h in
      if rn = Some (str ''@'') then DNSLabel E (zone_root z)
      else DNSLabel E (opt_str rn @ str ''.'' @ zone_root z))"

definition HTTPSRecord_save :: "ext \<Rightarrow> zrec \<Rightarrow> https_rec \<Rightarrow> unit io" where
  "HTTPSRecord_save E r h =
     seq (touch_zone r) (base_save E (r\<lparr>body := HTTPSRecord (h\<lparr>h_target := lower E (h_target h)\<rparr>)\<rparr>))"

definition HTTPSRecord_delete :: "zrec \<Rightarrow> unit io" where
  "HTTPSRecord_delete r = seq (touch_zone r) (row_delete r)"

definition HTTPSRecord_to_rr :: "label \<Rightarrow> nat \<Rightarrow> https_rec \<Rightarrow> rr res" where
  "HTTPSRecord_to_rr qn l h = bind_res (svcb_record h) (\<lambda>(s, _). Inr (mk_rr qn QT_HTTPS (RD_SVCB s) l))"


section \<open>GitHub Pages\<close>

definition GitHubPages_v4 :: "pstr list" where
  "GitHubPages_v4 = [str ''185.199.108.153'', str ''185.199.109.153'', str ''185.199.110.153'', str ''185.199.111.153'']"

definition GitHubPagesRecord_to_rrs_v4 :: "label \<Rightarrow> nat \<Rightarrow> rr list res" where
  "GitHubPagesRecord_to_rrs_v4 qn l =
     mapM_res (\<lambda>a. bind_res (rd_A a) (\<lambda>d. Inr (mk_rr qn QT_A d l))) GitHubPages_v4"

definition GitHubPagesRecord_to_rrs_v6 :: "label \<Rightarrow> rr list" where
  "GitHubPagesRecord_to_rrs_v6 qn = []"

definition GitHubPagesRecord_save :: "ext \<Rightarrow> zrec \<Rightarrow> unit io" where
  "GitHubPagesRecord_save E r = seq (touch_zone r) (base_save E r)"

definition GitHubPagesRecord_delete :: "zrec \<Rightarrow> unit io" where
  "GitHubPagesRecord_delete r = seq (touch_zone r) (row_delete r)"


section \<open>Validation of CNAME records\<close>

definition cname_record_types :: "model list" where
  "cname_record_types =
     [M_Address, M_DynamicAddress, M_ANAME, M_GitHubPages, M_Redirect, M_MX, M_NS, M_TXT, M_SRV, M_CAA,
      M_NAPTR, M_SSHFP, M_DS, M_LOC, M_HINFO, M_RP, M_DHCID]"

definition named :: "model \<Rightarrow> pstr \<Rightarrow> pstr option \<Rightarrow> world \<Rightarrow> zrec list" where
  "named m zid lbl w = [r \<leftarrow> zone_set m zid w. lbl = Some (record_name r)]"

definition https_label :: "ext \<Rightarrow> zrec \<Rightarrow> pstr option" where
  "https_label E r =
     (case body r of HTTPSRecord h \<Rightarrow> HTTPSRecord_record_name E (record_name r) h | _ \<Rightarrow> idna_label E (record_name r))"

definition CNAMERecord_validate_unique :: "ext \<Rightarrow> world \<Rightarrow> zrec \<Rightarrow> pstr list option \<Rightarrow> unit res" where
  "CNAMERecord_validate_unique E w r exclude =
     (let lbl = idna_label E (record_name r); zid = r_zone r in
      case exclude of
        None \<Rightarrow> Inl TypeError
      | Some ex \<Rightarrow>
          if str ''record_name'' \<in> set ex then validate_unique E w r lbl (Some ex)
          else if [c \<leftarrow> named M_CNAME zid lbl w. r_id c \<noteq> r_id r] \<noteq> []
             \<or> list_ex (\<lambda>t. named t zid lbl w \<noteq> []) cname_record_types
             \<or> list_ex (\<lambda>s. https_label E s = lbl) (zone_set M_HTTPS zid w)
          then Inl ValidationError
          else validate_unique E w r lbl (Some (str ''record_name'' # ex)))"

end
