(* ===== verification/Sample.thy ===== *)
theory Sample
  imports Dns_Types
begin

text \<open>
  A concrete environment and an empty world, for evaluating the model on concrete inputs: names are
  split at the dots and compared as they are, an HMAC is the tag, key and message side by side, every
  other system answers with success.
\<close>

definition sample_label :: "pstr \<Rightarrow> label" where
  "sample_label s =
     (let t = rev (dropWhile ((=) 46) (rev s)) in if t = [] then [] else split_on 46 t)"

definition sample_label_str :: "label \<Rightarrow> pstr" where
  "sample_label_str l = join [46] l @ [46]"

definition sample_match :: "label \<Rightarrow> label \<Rightarrow> bool" where
  "sample_match l s \<longleftrightarrow> length s \<le> length l \<and> drop (length l - length s) l = s"

definition sample_strip :: "label \<Rightarrow> label \<Rightarrow> label" where
  "sample_strip l s = (if sample_match l s then take (length l - length s) l else l)"

definition sample_idna :: "pstr \<Rightarrow> pstr option" where
  "sample_idna s = (if list_all (\<lambda>c. (97 \<le> c \<and> c \<le> 122) \<or> is_digit c \<or> c = 45 \<or> c = 46) s then Some s else None)"

definition sample_encode_name :: "label \<Rightarrow> bytes" where
  "sample_encode_name l = concat (map (\<lambda>b. length b # b) l) @ [0]"

fun sample_decode_label :: "nat \<Rightarrow> bytes \<Rightarrow> nat \<Rightarrow> (label \<times> nat) res" where
  "sample_decode_label 0 bs off = Inl DNSError"
| "sample_decode_label (Suc n) bs off =
     (case drop off bs of
        [] \<Rightarrow> Inl DNSError
      | b # rest \<Rightarrow>
          if b = 0 then Inr ([], off + 1)
          else bind_res (sample_decode_label n bs (off + 1 + b)) (\<lambda>(l, off'). Inr (take b rest # l, off')))"

definition sample_txt_new :: "bytes list \<Rightarrow> rdata res" where
  "sample_txt_new ds = (if list_all (\<lambda>d. length d \<le> 255) ds then Inr (RD_TXT ds) else Inl DNSError)"

definition sample_rdata_str :: "rdata \<Rightarrow> pstr" where
  "sample_rdata_str d =
     (case d of RD_A n \<Rightarrow> v4_str n | RD_AAAA n \<Rightarrow> v6_str n | RD_CNAME l \<Rightarrow> sample_label_str l | _ \<Rightarrow> [])"

definition sample_reply :: "dns_msg \<Rightarrow> dns_msg" where
  "sample_reply m = m\<lparr>rcode := RC_NOERROR, m_rr := [], m_auth := [], m_ar := []\<rparr>"

definition empty_msg :: dns_msg where
  "empty_msg = \<lparr>m_id = 0, m_flags = 0, opcode = 0, rcode = 0, questions = [], m_rr = [], m_auth = [], m_ar = []\<rparr>"

definition sample_pack :: "dns_msg \<Rightarrow> bytes res" where
  "sample_pack m = Inr [m_id m mod 256, opcode m, rcode m, length (m_auth m) mod 256]"

definition sample_zone_parse :: "pstr \<Rightarrow> label \<Rightarrow> rr list res" where
  "sample_zone_parse text origin =
     (if text = [] then Inr []
      else if text = str ''x'' then Inr [mk_rr (str ''x'' # origin) QT_TXT (RD_TXT [str ''hi'']) 0]
      else Inl DNSError)"

definition sample_ext :: ext where
  "sample_ext = \<lparr>
     uni_lower = (\<lambda>s. s),
     DNSLabel = sample_label,
     label_str = sample_label_str,
     matchSuffix = sample_match,
     stripSuffix = sample_strip,
     label_eq = (=),
     idna_encode = sample_idna,
     decode_name = (\<lambda>bs off. sample_decode_label 128 bs off),
     encode_name_nocompress = (\<lambda>l. Inr (sample_encode_name l)),
     encode_name = (\<lambda>b l. Inr (fst b @ sample_encode_name l, snd b)),
     rdata_str = sample_rdata_str,
     rdata_eq = (=),
     rr_list_eq = (=),
     sort_rrs = Inr,
     txt_parse = (\<lambda>b. Inr [b]),
     txt_new = sample_txt_new,
     msg_parse = (\<lambda>b. Inl DNSError),
     msg_pack = sample_pack,
     msg_reply = sample_reply,
     msg_new = empty_msg,
     header_pack = sample_pack,
     rd_pack = (\<lambda>b d. Inr b),
     opt_pack = (\<lambda>b x. Inr (fst b @ x, snd b)),
     hmac = (\<lambda>alg key m. key @ m),
     sha1 = (\<lambda>b. []),
     sha256 = (\<lambda>b. []),
     ssh_parse = (\<lambda>s. Inr (str ''ssh-rsa'', s)),
     uuid = (\<lambda>n. str ''u'' @ dec_str n),
     typed_uuid = Some,
     resource_owner = (\<lambda>r. Inr (Some \<lparr>username = str ''alice''\<rparr>)),
     resources_of = (\<lambda>u. Inr []),
     kc_resource = (\<lambda>h i old. Inr (Some i)),
     kc_delete = (\<lambda>h i. Inr ()),
     zone_parse = sample_zone_parse,
     psl_is_private = (\<lambda>s. True),
     k8s = (\<lambda>h op. Inr ()),
     http = (\<lambda>h q. Inr \<lparr>status = 200, resp_id = [], resp_redirect = [], resp_text = []\<rparr>),
     dnssec_pubkey = (0, 0),
     float_str = (\<lambda>b. []),
     storage = (\<lambda>h n. Inr ()),
     amqp = (\<lambda>h op. Inr ()),
     amqp_open = (\<lambda>h. True)\<rparr>"

definition empty_world :: world where
  "empty_world = \<lparr>dnszones = [], rzones = [], szones = [], zrecs = [], ptrs = [], rnss = [], szone_records = [],
     aname_cache = [], f_cds = [], f_cdnskey = [], f_custom_ns = [], r_cds = [], r_cdnskey = [], r_custom_ns = [],
     update_secrets = [], f_axfr_acls = [], f_axfr_secrets = [], f_axfr_notifies = [], accounts = [], queue = [], events = [], now = 0, next_uuid = 0,
     pika_client = False, gh_states = [], gh_installs = [], gg_states = [], gg_installs = [], sessions = []\<rparr>"

definition sample_zone :: dnszone where
  "sample_zone = \<lparr>z_id = str ''z1'', zone_root = str ''ex.org'', z_last_modified = 0, z_charged = True,
     z_active = True, z_num_check_fails = 0, z_resource_id = None, z_cds_disable = False\<rparr>"

lemma sample_ext_simps [simp]:
  "uni_lower sample_ext = (\<lambda>s. s)" "DNSLabel sample_ext = sample_label"
  "label_str sample_ext = sample_label_str" "matchSuffix sample_ext = sample_match"
  "stripSuffix sample_ext = sample_strip" "label_eq sample_ext = (=)" "idna_encode sample_ext = sample_idna"
  "encode_name_nocompress sample_ext = (\<lambda>l. Inr (sample_encode_name l))"
  "rdata_str sample_ext = sample_rdata_str" "rdata_eq sample_ext = (=)" "rr_list_eq sample_ext = (=)"
  "txt_new sample_ext = sample_txt_new" "msg_reply sample_ext = sample_reply" "msg_pack sample_ext = sample_pack"
  "header_pack sample_ext = sample_pack" "typed_uuid sample_ext = Some"
  "encode_name sample_ext = (\<lambda>b l. Inr (fst b @ sample_encode_name l, snd b))"
  "rd_pack sample_ext = (\<lambda>b d. Inr b)" "msg_new sample_ext = empty_msg" "sort_rrs sample_ext = Inr"
  "hmac sample_ext = (\<lambda>alg key m. key @ m)"
  "uuid sample_ext = (\<lambda>n. str ''u'' @ dec_str n)"
  "resource_owner sample_ext = (\<lambda>r. Inr (Some \<lparr>username = str ''alice''\<rparr>))"
  "decode_name sample_ext = (\<lambda>bs off. sample_decode_label 128 bs off)"
  "kc_resource sample_ext = (\<lambda>h i old. Inr (Some i))" "kc_delete sample_ext = (\<lambda>h i. Inr ())"
  "zone_parse sample_ext = sample_zone_parse"
  "k8s sample_ext = (\<lambda>h op. Inr ())"
  "http sample_ext = (\<lambda>h q. Inr \<lparr>status = 200, resp_id = [], resp_redirect = [], resp_text = []\<rparr>)"
  "sha256 sample_ext = (\<lambda>b. [])" "dnssec_pubkey sample_ext = (0, 0)" "storage sample_ext = (\<lambda>h n. Inr ())"
  "amqp sample_ext = (\<lambda>h op. Inr ())" "amqp_open sample_ext = (\<lambda>h. True)"
  by (simp_all add: sample_ext_def)

lemma lower_sample: "is_ascii s \<Longrightarrow> lower sample_ext s = map (\<lambda>c. if 65 \<le> c \<and> c \<le> 90 then c + 32 else c) s"
  by (simp add: lower_def py_lower_ascii)

end
