(* ===== verification/Record_Store.thy ===== *)
theory Record_Store
  imports Service_Records Sample
begin

text \<open>
  The record classes as one interface: the methods \<^verbatim>\<open>save\<close>, \<^verbatim>\<open>delete\<close>, \<^verbatim>\<open>to_rr\<close>, \<^verbatim>\<open>from_rr\<close> and
  \<^verbatim>\<open>update_from_rr\<close> dispatch on the class of the object. A method that a class does not have raises
  \<^verbatim>\<open>AttributeError\<close>. What callers rely on follows from the laws of tables: what is saved is
  found under its zone and its lower-case name, other rows stay, a zone whose records change is
  queued for regeneration.
\<close>

fun zrec_save :: "ext \<Rightarrow> dnszone \<Rightarrow> zrec \<Rightarrow> unit io" where
  "zrec_save E z r =
     (case body r of
        AddressRecord _ _ \<Rightarrow> AddressRecord_save E r
      | DynamicAddressRecord _ _ _ \<Rightarrow> DynamicAddressRecord_save E r
      | ANAMERecord alias \<Rightarrow> ANAMERecord_save E r alias
      | CNAMERecord alias \<Rightarrow> CNAMERecord_save E r alias
      | RedirectRecord _ _ \<Rightarrow> RedirectRecord_save E z r
      | MXRecord exchange priority \<Rightarrow> MXRecord_save E r exchange priority
      | NSRecord nameserver \<Rightarrow> NSRecord_save E r nameserver
      | TXTRecord _ \<Rightarrow> TXTRecord_save E r
      | SRVRecord _ _ _ _ \<Rightarrow> SRVRecord_save E r
      | CAARecord _ _ _ \<Rightarrow> CAARecord_save E r
      | NAPTRRecord _ _ _ _ _ _ \<Rightarrow> NAPTRRecord_save E r
      | SSHFPRecord _ \<Rightarrow> SSHFPRecord_save E r
      | DSRecord _ _ _ _ \<Rightarrow> DSRecord_save E r
      | DNSKEYRecord _ _ _ _ \<Rightarrow> DNSKEYRecord_save E r
      | LOCRecord _ _ _ _ _ _ \<Rightarrow> LOCRecord_save E r
      | HINFORecord _ _ \<Rightarrow> HINFORecord_save E r
      | RPRecord mailbox txt \<Rightarrow> RPRecord_save E r mailbox txt
      | HTTPSRecord h \<Rightarrow> HTTPSRecord_save E r h
      | DHCIDRecord _ \<Rightarrow> DHCIDRecord_save E r
      | GitHubPagesRecord _ _ \<Rightarrow> GitHubPagesRecord_save E r)"

fun zrec_delete :: "ext \<Rightarrow> zrec \<Rightarrow> unit io" where
  "zrec_delete E r =
     (case body r of
        AddressRecord _ _ \<Rightarrow> AddressRecord_delete r
      | DynamicAddressRecord _ _ _ \<Rightarrow> DynamicAddressRecord_delete r
      | ANAMERecord _ \<Rightarrow> ANAMERecord_delete r
      | CNAMERecord _ \<Rightarrow> CNAMERecord_delete r
      | RedirectRecord _ _ \<Rightarrow> RedirectRecord_delete E r
      | MXRecord _ _ \<Rightarrow> MXRecord_delete r
      | NSRecord _ \<Rightarrow> NSRecord_delete r
      | TXTRecord _ \<Rightarrow> TXTRecord_delete r
      | SRVRecord _ _ _ _ \<Rightarrow> SRVRecord_delete r
      | CAARecord _ _ _ \<Rightarrow> CAARecord_delete r
      | NAPTRRecord _ _ _ _ _ _ \<Rightarrow> NAPTRRecord_delete r
      | SSHFPRecord _ \<Rightarrow> SSHFPRecord_delete r
      | DSRecord _ _ _ _ \<Rightarrow> DSRecord_delete r
      | DNSKEYRecord _ _ _ _ \<Rightarrow> DNSKEYRecord_delete r
      | LOCRecord _ _ _ _ _ _ \<Rightarrow> LOCRecord_delete r
      | HINFORecord _ _ \<Rightarrow> HINFORecord_delete r
      | RPRecord _ _ \<Rightarrow> RPRecord_delete r
      | HTTPSRecord _ \<Rightarrow> HTTPSRecord_delete r
      | DHCIDRecord _ \<Rightarrow> row_delete r
      | GitHubPagesRecord _ _ \<Rightarrow> GitHubPagesRecord_delete r)"

text \<open>The value None of \<open>to_rr\<close> stands for Python's None (\<^verbatim>\<open>DSRecord.to_rr\<close> without a digest).\<close>

definition some_res :: "'a res \<Rightarrow> 'a option res" where
  "some_res m = bind_res m (\<lambda>a. Inr (Some a))"

fun zrec_to_rr :: "ext \<Rightarrow> label \<Rightarrow> zrec \<Rightarrow> rr option res" where
  "zrec_to_rr E qn r =
     (case body r of
        AddressRecord address _ \<Rightarrow> some_res (AddressRecord_to_rr qn (ttl r) address)
      | CNAMERecord alias \<Rightarrow> Inr (Some (CNAMERecord_to_rr E qn (ttl r) alias))
      | MXRecord exchange priority \<Rightarrow> Inr (Some (MXRecord_to_rr E qn (ttl r) exchange priority))
      | NSRecord nameserver \<Rightarrow> Inr (Some (NSRecord_to_rr E qn (ttl r) nameserver))
      | TXTRecord data \<Rightarrow> some_res (TXTRecord_to_rr E qn (ttl r) data)
      | SRVRecord p wt pt tg \<Rightarrow> Inr (Some (SRVRecord_to_rr E qn (ttl r) p wt pt tg))
      | CAARecord f t v \<Rightarrow> Inr (Some (CAARecord_to_rr qn (ttl r) f t v))
      | NAPTRRecord ord pref fl sv re repl \<Rightarrow>
          Inr (Some (NAPTRRecord_to_rr E qn (ttl r) ord (pyval_get pref) (pyval_get fl) (pyval_get sv)
            (pyval_get re) repl))
      | DSRecord kt al dt dg \<Rightarrow> DSRecord_to_rr qn (ttl r) kt al dt dg
      | DNSKEYRecord fl pr al key \<Rightarrow> some_res (DNSKEYRecord_to_rr qn (ttl r) fl pr al key)
      | LOCRecord a b c d e f \<Rightarrow> Inr (Some (LOCRecord_to_rr qn (ttl r) a b c d e f))
      | HINFORecord cpu os \<Rightarrow> some_res (HINFORecord_to_rr E qn (ttl r) cpu os)
      | RPRecord mailbox txt \<Rightarrow> Inr (Some (RPRecord_to_rr E qn (ttl r) mailbox txt))
      | HTTPSRecord h \<Rightarrow> some_res (HTTPSRecord_to_rr qn (ttl r) h)
      | DHCIDRecord data \<Rightarrow> Inr (Some (DHCIDRecord_to_rr qn (ttl r) data))
      | _ \<Rightarrow> Inl AttributeError)"

fun model_from_rr :: "ext \<Rightarrow> model \<Rightarrow> pstr \<Rightarrow> dnszone \<Rightarrow> rr \<Rightarrow> zrec res" where
  "model_from_rr E M_Address nid z rr = AddressRecord_from_rr E nid z rr"
| "model_from_rr E M_CNAME nid z rr = CNAMERecord_from_rr E nid z rr"
| "model_from_rr E M_MX nid z rr = MXRecord_from_rr E nid z rr"
| "model_from_rr E M_NS nid z rr = NSRecord_from_rr E nid z rr"
| "model_from_rr E M_TXT nid z rr = TXTRecord_from_rr E nid z rr"
| "model_from_rr E M_SRV nid z rr = SRVRecord_from_rr E nid z rr"
| "model_from_rr E M_CAA nid z rr = CAARecord_from_rr E nid z rr"
| "model_from_rr E M_NAPTR nid z rr = NAPTRRecord_from_rr E nid z rr"
| "model_from_rr E M_DS nid z rr = DSRecord_from_rr E nid z rr"
| "model_from_rr E M_DNSKEY nid z rr = DNSKEYRecord_from_rr E nid z rr"
| "model_from_rr E M_LOC nid z rr = LOCRecord_from_rr E nid z rr"
| "model_from_rr E M_HINFO nid z rr = HINFORecord_from_rr E nid z rr"
| "model_from_rr E M_RP nid z rr = RPRecord_from_rr E nid z rr"
| "model_from_rr E M_DHCID nid z rr = DHCIDRecord_from_rr E nid z rr"
| "model_from_rr E _ nid z rr = Inl AttributeError"

fun zrec_update_from_rr :: "ext \<Rightarrow> dnszone \<Rightarrow> rr \<Rightarrow> zrec \<Rightarrow> zrec res" where
  "zrec_update_from_rr E z rr r =
     (case body r of
        AddressRecord _ auto_rev \<Rightarrow> AddressRecord_update_from_rr E z rr r auto_rev
      | CNAMERecord _ \<Rightarrow> CNAMERecord_update_from_rr E z rr r
      | MXRecord _ _ \<Rightarrow> MXRecord_update_from_rr E z rr r
      | NSRecord _ \<Rightarrow> NSRecord_update_from_rr E z rr r
      | TXTRecord _ \<Rightarrow> TXTRecord_update_from_rr E z rr r
      | SRVRecord _ _ _ _ \<Rightarrow> SRVRecord_update_from_rr E z rr r
      | CAARecord _ _ _ \<Rightarrow> CAARecord_update_from_rr E z rr r
      | NAPTRRecord _ _ _ _ _ _ \<Rightarrow> NAPTRRecord_update_from_rr E z rr r
      | DSRecord _ _ _ _ \<Rightarrow> DSRecord_update_from_rr E z rr r
      | DNSKEYRecord _ _ _ _ \<Rightarrow> DNSKEYRecord_update_from_rr E z rr r
      | LOCRecord _ _ _ _ _ _ \<Rightarrow> LOCRecord_update_from_rr E z rr r
      | HINFORecord _ _ \<Rightarrow> HINFORecord_update_from_rr E z rr r
      | RPRecord _ _ \<Rightarrow> RPRecord_update_from_rr E z rr r
      | DHCIDRecord _ \<Rightarrow> DHCIDRecord_update_from_rr E z rr r
      | _ \<Rightarrow> Inl AttributeError)"

declare zrec_save.simps [simp del] zrec_delete.simps [simp del] zrec_to_rr.simps [simp del]
  zrec_update_from_rr.simps [simp del]

lemmas save_defs = AddressRecord_save_def DynamicAddressRecord_save_def ANAMERecord_save_def CNAMERecord_save_def
  RedirectRecord_save_def MXRecord_save_def NSRecord_save_def TXTRecord_save_def SRVRecord_save_def
  CAARecord_save_def NAPTRRecord_save_def SSHFPRecord_save_def DSRecord_save_def DNSKEYRecord_save_def
  LOCRecord_save_def HINFORecord_save_def RPRecord_save_def HTTPSRecord_save_def DHCIDRecord_save_def
  GitHubPagesRecord_save_def

lemmas delete_defs = AddressRecord_delete_def DynamicAddressRecord_delete_def ANAMERecord_delete_def
  CNAMERecord_delete_def RedirectRecord_delete_def MXRecord_delete_def NSRecord_delete_def TXTRecord_delete_def
  SRVRecord_delete_def CAARecord_delete_def NAPTRRecord_delete_def SSHFPRecord_delete_def DSRecord_delete_def
  DNSKEYRecord_delete_def LOCRecord_delete_def HINFORecord_delete_def RPRecord_delete_def HTTPSRecord_delete_def
  GitHubPagesRecord_delete_def

lemmas update_defs = AddressRecord_update_from_rr_def CNAMERecord_update_from_rr_def MXRecord_update_from_rr_def
  NSRecord_update_from_rr_def TXTRecord_update_from_rr_def SRVRecord_update_from_rr_def
  CAARecord_update_from_rr_def NAPTRRecord_update_from_rr_def DSRecord_update_from_rr_def
  DNSKEYRecord_update_from_rr_def LOCRecord_update_from_rr_def HINFORecord_update_from_rr_def
  RPRecord_update_from_rr_def DHCIDRecord_update_from_rr_def

lemmas from_rr_defs = AddressRecord_from_rr_def CNAMERecord_from_rr_def MXRecord_from_rr_def
  NSRecord_from_rr_def TXTRecord_from_rr_def SRVRecord_from_rr_def CAARecord_from_rr_def
  NAPTRRecord_from_rr_def DSRecord_from_rr_def DNSKEYRecord_from_rr_def LOCRecord_from_rr_def
  HINFORecord_from_rr_def RPRecord_from_rr_def DHCIDRecord_from_rr_def


section \<open>The stored row\<close>

text \<open>What \<^verbatim>\<open>save\<close> writes: the columns after the changes \<^verbatim>\<open>save\<close> makes to them.\<close>

fun norm_body :: "ext \<Rightarrow> body \<Rightarrow> body" where
  "norm_body E (ANAMERecord a) = ANAMERecord (lower E a)"
| "norm_body E (CNAMERecord a) = CNAMERecord (lower E a)"
| "norm_body E (MXRecord e p) = MXRecord (lower E e) p"
| "norm_body E (NSRecord n) = NSRecord (lower E n)"
| "norm_body E (RPRecord m t) = RPRecord (lower E m) (lower E t)"
| "norm_body E (HTTPSRecord h) = HTTPSRecord (h\<lparr>h_target := lower E (h_target h)\<rparr>)"
| "norm_body E b = b"

definition stored :: "ext \<Rightarrow> zrec \<Rightarrow> zrec" where
  "stored E r = r\<lparr>record_name := lower E (record_name r), body := norm_body E (body r)\<rparr>"

lemma model_norm_body [simp]: "model_of (norm_body E b) = model_of b"
  by (cases b) auto

lemma stored_simps [simp]:
  "r_id (stored E r) = r_id r" "r_zone (stored E r) = r_zone r" "zmodel (stored E r) = zmodel r"
  "record_name (stored E r) = lower E (record_name r)" "ttl (stored E r) = ttl r"
  by (simp_all add: stored_def)

lemma model_prep_body: "prep_body b = Inr b' \<Longrightarrow> model_of b' = model_of b"
  by (cases b) (auto split: pyval.splits)

text \<open>Every class but \<^verbatim>\<open>RedirectRecord\<close> saves in the same way.\<close>

lemma zrec_save_plain:
  assumes "zmodel r \<noteq> M_Redirect"
  shows "zrec_save E z r = seq (touch_zone r) (row_save (stored E r))"
proof (cases r)
  case (fields i zid n t b)
  then show ?thesis
    using assms by (cases b) (simp_all add: zrec_save.simps save_defs base_save_def stored_def touch_zone_def)
qed

lemma zrec_save_redirect:
  assumes "zmodel r = M_Redirect"
  shows "zrec_save E z r = seq (touch_zone r)
     (bind_act (lift_res (dotted (dns_label E z (record_name r)))) (\<lambda>dns_name.
        seq (RedirectRecord_ingress E (ingress_name r) dns_name) (row_save (stored E r))))"
proof (cases r)
  case (fields i zid n t b)
  then show ?thesis
    using assms by (cases b) (simp_all add: zrec_save.simps save_defs base_save_def stored_def touch_zone_def)
qed

lemma zrec_delete_plain:
  assumes "zmodel r \<noteq> M_Redirect" "zmodel r \<noteq> M_DHCID"
  shows "zrec_delete E r = seq (touch_zone r) (row_delete r)"
  using assms by (cases "body r") (simp_all add: zrec_delete.simps delete_defs)

lemma zrec_delete_redirect:
  assumes "zmodel r = M_Redirect"
  shows "zrec_delete E r =
    seq (touch_zone r) (seq (k8s_call E (DeleteIngress (ingress_name r))) (row_delete r))"
  using assms by (cases "body r") (simp_all add: zrec_delete.simps delete_defs)

lemma zrec_delete_dhcid: "zmodel r = M_DHCID \<Longrightarrow> zrec_delete E r = row_delete r"
  by (cases "body r") (simp_all add: zrec_delete.simps)

definition written :: "ext \<Rightarrow> zrec \<Rightarrow> zrec res" where
  "written E r = bind_res (prep_body (norm_body E (body r))) (\<lambda>b. Inr ((stored E r)\<lparr>body := b\<rparr>))"

lemma written_simps:
  assumes "written E r = Inr row"
  shows "r_id row = r_id r" "r_zone row = r_zone r" "zmodel row = zmodel r"
    "record_name row = lower E (record_name r)" "ttl row = ttl r" "pk row = pk r"
  using assms by (auto simp: written_def res_simps pk_def dest!: model_prep_body)

lemma row_save_stored:
  "row_save (stored E r) w =
     (case written E r of
        Inl e \<Rightarrow> (Inl e, w)
      | Inr row \<Rightarrow> (Inr (), w\<lparr>zrecs := upsert pk row (zrecs w)\<rparr>))"
  by (cases "prep_body (norm_body E (body r))")
    (simp_all add: row_save_def written_def act_defs stored_def)

lemma RedirectRecord_ingress_events:
  "RedirectRecord_ingress E n h w = (x, w') \<Longrightarrow> \<exists>es. w' = w\<lparr>events := events w @ es\<rparr>"
  by (auto simp: RedirectRecord_ingress_def k8s_call_def act_defs emit_def
      split: sum.splits prod.splits exn.splits if_splits)

text \<open>Every \<^verbatim>\<open>save\<close> queues the zone, may call other systems, and then stores the row or raises.\<close>

lemma zrec_save_cases:
  assumes "zrec_save E z r w = (x, w')"
  shows "(\<exists>es row. x = Inr () \<and> written E r = Inr row
            \<and> w' = w\<lparr>queue := queue w @ [UpdateFzone (r_zone r)], events := events w @ es,
                     zrecs := upsert pk row (zrecs w)\<rparr>)
    \<or> (\<exists>es e. x = Inl e \<and> w' = w\<lparr>queue := queue w @ [UpdateFzone (r_zone r)], events := events w @ es\<rparr>)"
proof (cases "zmodel r = M_Redirect")
  case False
  then show ?thesis
    using assms
    by (auto simp: zrec_save_plain touch_zone_def seq_def bind_act_def modify_def row_save_stored delay_def
        split: sum.splits intro!: exI[of _ "[]"])
next
  case True
  let ?w = "delay (UpdateFzone (r_zone r)) w"
  have run: "zrec_save E z r w =
    (case dotted (dns_label E z (record_name r)) of
       Inl e \<Rightarrow> (Inl e, ?w)
     | Inr d \<Rightarrow> (case RedirectRecord_ingress E (ingress_name r) d ?w of
         (Inl e, w2) \<Rightarrow> (Inl e, w2) | (Inr u, w2) \<Rightarrow> row_save (stored E r) w2))"
    using True
    by (simp add: zrec_save_redirect touch_zone_def seq_def bind_act_def modify_def lift_res_def
        split: sum.splits)
  show ?thesis
  proof (cases "dotted (dns_label E z (record_name r))")
    case (Inl e)
    then show ?thesis using assms run by (auto simp: delay_def intro!: exI[of _ "[]"])
  next
    case (Inr d)
    obtain y w2 where i: "RedirectRecord_ingress E (ingress_name r) d ?w = (y, w2)" by fastforce
    obtain es where w2: "w2 = ?w\<lparr>events := events ?w @ es\<rparr>"
      using RedirectRecord_ingress_events[OF i] by blast
    show ?thesis
      using assms run Inr i w2
      by (auto simp: row_save_stored delay_def split: sum.splits intro!: exI[of _ es])
  qed
qed

lemma zrec_delete_cases:
  assumes "zrec_delete E r w = (x, w')"
  shows "(\<exists>es qs. x = Inr () \<and> (qs = [UpdateFzone (r_zone r)] \<or> zmodel r = M_DHCID \<and> qs = [])
            \<and> w' = w\<lparr>queue := queue w @ qs, events := events w @ es, zrecs := remove pk r (zrecs w)\<rparr>)
    \<or> (\<exists>es e. x = Inl e \<and> zmodel r = M_Redirect
            \<and> w' = w\<lparr>queue := queue w @ [UpdateFzone (r_zone r)], events := events w @ es\<rparr>)"
proof -
  consider "zmodel r = M_DHCID" | "zmodel r = M_Redirect"
    | "zmodel r \<noteq> M_DHCID" "zmodel r \<noteq> M_Redirect" by blast
  then show ?thesis
  proof cases
    case 1
    then show ?thesis
      using assms
      by (auto simp: zrec_delete_dhcid row_delete_def modify_def intro!: exI[of _ "[]"])
  next
    case 2
    obtain y where y: "k8s E (events w) (DeleteIngress (ingress_name r)) = y" by blast
    show ?thesis
      using assms 2
      by (cases y)
        (auto simp: zrec_delete_redirect row_delete_def touch_zone_def k8s_call_def act_defs delay_def emit_def y
          intro!: exI[of _ "[K8s (DeleteIngress (ingress_name r))]"])
  next
    case 3
    then show ?thesis
      using assms
      by (auto simp: zrec_delete_plain row_delete_def touch_zone_def act_defs delay_def intro!: exI[of _ "[]"])
  qed
qed


section \<open>Properties of the store\<close>

text \<open>C19: after a successful \<^verbatim>\<open>save\<close> the row of the object is the normalised object, it is found by a
  query for its zone and lower-case name, every other row of every table is as before, and the
  regeneration of the zone file of its zone is queued.\<close>

theorem record_saved_and_found:
  assumes "zrec_save E z r w = (Inr (), w')"
  shows "\<exists>row. written E r = Inr row
    \<and> row \<in> set (filter_name (zmodel r) (r_zone r) (lower E (record_name r)) w')
    \<and> (\<forall>s. pk s = pk r \<longrightarrow> (s \<in> set (zrecs w') \<longleftrightarrow> s = row))
    \<and> (\<forall>s. pk s \<noteq> pk r \<longrightarrow> (s \<in> set (zrecs w') \<longleftrightarrow> s \<in> set (zrecs w)))
    \<and> queue w' = queue w @ [UpdateFzone (r_zone r)]"
proof -
  obtain row where row: "written E r = Inr row" and z: "zrecs w' = upsert pk row (zrecs w)"
    and q: "queue w' = queue w @ [UpdateFzone (r_zone r)]"
    using zrec_save_cases[OF assms] by auto
  note ws = written_simps[OF row]
  have "row \<in> set (filter_name (zmodel r) (r_zone r) (lower E (record_name r)) w')"
    using ws by (simp add: filter_name_def z rows.save_found)
  then show ?thesis
    using row q ws(6) rows.save_lookup[of _ pk row "zrecs w"] rows.save_found[of row pk "zrecs w"]
      rows.save_other[of pk _ row "zrecs w"]
    by (auto simp: z)
qed

theorem record_saved_and_found_witness:
  "\<exists>row. written sample_ext (new_zrec (str ''a'') sample_zone (str ''WWW'') 60 (CNAMERecord (str ''X.org''))) = Inr row
    \<and> row \<in> set (filter_name M_CNAME (str ''z1'') (str ''www'')
        (snd (zrec_save sample_ext sample_zone
           (new_zrec (str ''a'') sample_zone (str ''WWW'') 60 (CNAMERecord (str ''X.org''))) empty_world)))"
  using record_saved_and_found[of sample_ext sample_zone
      "new_zrec (str ''a'') sample_zone (str ''WWW'') 60 (CNAMERecord (str ''X.org''))" empty_world
      "snd (zrec_save sample_ext sample_zone
           (new_zrec (str ''a'') sample_zone (str ''WWW'') 60 (CNAMERecord (str ''X.org''))) empty_world)"]
  by (force simp: zrec_save_plain new_zrec_def sample_zone_def touch_zone_def act_defs row_save_stored written_def
      lower_sample)

text \<open>after a successful \<^verbatim>\<open>delete\<close> no row with the key of the object is left and every other row is
  as before; the zone file is queued for regeneration, unless the object is a DHCID record.\<close>

theorem delete_lookup:
  assumes "zrec_delete E r w = (Inr (), w')"
  shows "(\<forall>s. s \<in> set (zrecs w') \<longleftrightarrow> s \<in> set (zrecs w) \<and> pk s \<noteq> pk r)
    \<and> (zmodel r \<noteq> M_DHCID \<longrightarrow> queue w' = queue w @ [UpdateFzone (r_zone r)])"
  using zrec_delete_cases[OF assms] by (auto simp: rows.rows_delete)

theorem delete_lookup_witness:
  "zrec_delete sample_ext (new_zrec (str ''a'') sample_zone (str ''x'') 60 (TXTRecord [])) empty_world
     = (Inr (), delay (UpdateFzone (str ''z1'')) empty_world)
   \<and> queue (delay (UpdateFzone (str ''z1'')) empty_world) = [UpdateFzone (str ''z1'')]"
proof -
  let ?r = "new_zrec (str ''a'') sample_zone (str ''x'') 60 (TXTRecord [])"
  have run: "zrec_delete sample_ext ?r empty_world = (Inr (), delay (UpdateFzone (str ''z1'')) empty_world)"
    by (simp add: zrec_delete_plain new_zrec_def sample_zone_def touch_zone_def row_delete_def act_defs
        delay_def empty_world_def remove_def)
  with delete_lookup[OF run] show ?thesis by (simp add: new_zrec_def sample_zone_def empty_world_def)
qed

text \<open>\<^verbatim>\<open>DHCIDRecord\<close> has no \<^verbatim>\<open>delete\<close> of its own: deleting one removes the row and queues nothing,
  so the published zone keeps the record.\<close>

theorem dhcid_delete_not_queued:
  "zrec_delete E \<lparr>r_id = i, r_zone = zid, record_name = n, ttl = l, body = DHCIDRecord d\<rparr> w =
     (Inr (), w\<lparr>zrecs := remove pk \<lparr>r_id = i, r_zone = zid, record_name = n, ttl = l, body = DHCIDRecord d\<rparr>
                  (zrecs w)\<rparr>)"
  by (simp add: zrec_delete_dhcid row_delete_def modify_def)

end
