(* ===== verification/Record_Props.thy ===== *)
theory Record_Props
  imports Record_Store
begin

text \<open>
  What the conversions and the validation of the record classes guarantee, and where they lose
  information or raise.
\<close>

section \<open>Chunks\<close>

lemma concat_chunks: "0 < n \<Longrightarrow> concat (chunks n xs) = xs"
  by (induction n xs rule: chunks.induct) auto

lemma chunks_length: "c \<in> set (chunks n xs) \<Longrightarrow> length c \<le> n"
  by (induction n xs rule: chunks.induct) (auto split: if_splits)

lemma chunks_subset: "c \<in> set (chunks n xs) \<Longrightarrow> set c \<subseteq> set xs"
proof (induction n xs rule: chunks.induct)
  case (2 n x xs)
  then show ?case
    using set_take_subset[of n "x # xs"] set_drop_subset[of n "x # xs"] by (auto split: if_splits)
qed simp

lemma map_chunks_id:
  "(\<And>c. c \<in> set (chunks n xs) \<Longrightarrow> f c = c) \<Longrightarrow> map f (chunks n xs) = chunks n xs"
  by (rule map_idI)

text \<open>
  The constructor \<^verbatim>\<open>dnslib.TXT\<close>: character strings of at most 255 bytes are kept, longer ones refused.
\<close>

definition txt_new_law :: "ext \<Rightarrow> bool" where
  "txt_new_law E \<longleftrightarrow>
     (\<forall>ds. txt_new E ds = (if list_all (\<lambda>d. length d \<le> 255) ds then Inr (RD_TXT ds) else Inl DNSError))"

lemma sample_txt_new_law: "txt_new_law sample_ext"
  by (simp add: txt_new_law_def sample_txt_new_def)

text \<open>C27: a TXT record whose text is ASCII, of any length, survives the way to a resource record and
  back: \<^verbatim>\<open>from_rr\<close> of \<^verbatim>\<open>to_rr\<close> gives the same text, and every character string sent has at most 255
  bytes.\<close>

theorem txt_roundtrip:
  assumes "txt_new_law E" "is_ascii data"
  shows "\<exists>ds. TXTRecord_to_rr E qn l data = Inr (mk_rr qn QT_TXT (RD_TXT ds) l)
    \<and> list_all (\<lambda>d. length d \<le> 255) ds
    \<and> TXTRecord_body (RD_TXT ds) = Inr (TXTRecord data)"
proof -
  have asc: "is_ascii c" if "c \<in> set (chunks 255 data)" for c
    using assms(2) chunks_subset[OF that] by (auto simp: is_ascii_def list_all_iff)
  have enc: "map utf8_encode (chunks 255 data) = chunks 255 data"
    using asc by (intro map_chunks_id) (simp add: utf8_encode_ascii)
  have dec: "map decode_replace (chunks 255 data) = chunks 255 data"
    using asc by (intro map_chunks_id) (simp add: decode_replace_strict utf8_decode_ascii)
  have len: "list_all (\<lambda>d. length d \<le> 255) (chunks 255 data)"
    by (auto simp: list_all_iff dest: chunks_length)
  show ?thesis
    using assms(1) len
    by (intro exI[of _ "chunks 255 data"])
      (simp add: TXTRecord_to_rr_def TXTRecord_body_def txt_new_law_def enc dec concat_chunks)
qed

theorem txt_roundtrip_witness:
  "\<exists>ds. TXTRecord_to_rr sample_ext [str ''a''] 60 (replicate 300 97) = Inr (mk_rr [str ''a''] QT_TXT (RD_TXT ds) 60)
    \<and> list_all (\<lambda>d. length d \<le> 255) ds \<and> TXTRecord_body (RD_TXT ds) = Inr (TXTRecord (replicate 300 97))"
  by (rule txt_roundtrip[OF sample_txt_new_law]) (simp add: is_ascii_def list_all_iff)

lemma utf8_encode_length_ge: "length s \<le> length (utf8_encode s)"
  by (induction s) (auto simp: utf8_encode_def utf8_cp_def)

lemma utf8_encode_longer: "\<not> is_ascii s \<Longrightarrow> length s < length (utf8_encode s)"
proof (induction s)
  case (Cons c s)
  then show ?case
    using utf8_encode_length_ge[of s] by (auto simp: utf8_encode_def utf8_cp_def)
qed simp

text \<open>the text is cut into pieces of 255 characters before it is encoded, so a TXT record whose
  first 255 characters include one beyond ASCII cannot be turned into a resource record:
  \<^verbatim>\<open>to_rr\<close> raises the error of \<^verbatim>\<open>dnslib.TXT\<close>.\<close>

theorem txt_non_ascii_raises:
  assumes "txt_new_law E" "255 \<le> length data" "\<not> is_ascii (take 255 data)"
  shows "TXTRecord_to_rr E qn l data = Inl DNSError"
proof -
  obtain x xs where d: "data = x # xs" using assms(2) by (cases data) auto
  then have "chunks 255 data = take 255 data # chunks 255 (drop 255 data)" by simp
  moreover have "255 < length (utf8_encode (take 255 data))"
    using utf8_encode_longer[OF assms(3)] assms(2) by simp
  ultimately show ?thesis
    using assms(1) by (simp add: TXTRecord_to_rr_def txt_new_law_def)
qed

theorem txt_non_ascii_raises_witness:
  "TXTRecord_to_rr sample_ext [str ''a''] 60 (233 # replicate 254 97) = Inl DNSError"
  by (rule txt_non_ascii_raises[OF sample_txt_new_law]) simp_all


section \<open>DS, DNSKEY, NAPTR\<close>

text \<open>a DS resource record that carries a digest cannot be read back: \<^verbatim>\<open>DSRecord.from_rr\<close> unpacks
  the whole rdata with a format of four bytes, which raises whenever anything follows them.\<close>

theorem ds_from_rr_raises:
  assumes "DS_pack key_tag algorithm digest_type digest = Inr data" "digest \<noteq> []"
    and "rdata rr = RD_raw data"
  shows "\<exists>e. DSRecord_from_rr E nid z rr = Inl e"
proof -
  have "4 < length data"
    using assms(1,2) by (auto simp: DS_pack_def pack_be_def res_simps split: if_splits)
  then have "unpack_HBB data = Inl StructError"
    by (auto simp: unpack_HBB_def split: list.splits)
  then show ?thesis
    using assms(3)
    by (cases "dns_label_to_record_name E (rname rr) z")
      (simp_all add: DSRecord_from_rr_def from_rr_frame_def DSRecord_body_def)
qed

theorem ds_from_rr_raises_witness:
  "\<exists>e. DSRecord_from_rr sample_ext [] sample_zone
     (mk_rr [str ''a''] QT_DS (RD_raw [0, 1, 13, 2, 171]) 60) = Inl e"
  by (rule ds_from_rr_raises[of 1 13 2 "[171]"])
    (simp_all add: DS_pack_def pack_be_def be_bytes_unfold mk_rr_def)

text \<open>the public key of a DNSKEY record read from a zone file is stored as the printed form of a
  bytes object: the column holds \<^verbatim>\<open>b'...'\<close> around the Base64 text and not the Base64 text.\<close>

theorem dnskey_stored_as_bytes_literal:
  assumes "rdata rr = RD_DNSKEY flags protocol algorithm key"
    and "DNSKEYRecord_from_rr E nid z rr = Inr r"
  shows "\<exists>row. written E r = Inr row
    \<and> body row = DNSKEYRecord flags protocol algorithm (PyStr (str ''b'' @ [39] @ b64encode key @ [39]))"
  using assms
  by (auto simp: DNSKEYRecord_from_rr_def from_rr_frame_def DNSKEYRecord_body_def res_simps new_zrec_def
      written_def stored_def)

theorem dnskey_stored_as_bytes_literal_witness:
  "\<exists>row. written sample_ext (new_zrec [] sample_zone (str ''@'') 60
       (DNSKEYRecord 257 3 13 (PyBytes (b64encode [1, 2, 3])))) = Inr row
    \<and> body row = DNSKEYRecord 257 3 13 (PyStr (str ''b'' @ [39] @ b64encode [1, 2, 3] @ [39]))"
  by (rule dnskey_stored_as_bytes_literal[of
        "mk_rr (sample_label (str ''ex.org'')) QT_DNSKEY (RD_DNSKEY 257 3 13 [1, 2, 3]) 60" _ _ _ _ sample_ext _ sample_zone])
    (simp_all add: mk_rr_def DNSKEYRecord_from_rr_def from_rr_frame_def DNSKEYRecord_body_def
      dns_label_to_record_name_def sample_zone_def)

text \<open>a dynamic update that matches an existing NAPTR record never succeeds: the tuples that
  \<^verbatim>\<open>update_from_rr\<close> stores make \<^verbatim>\<open>save\<close> raise, and the row stays as it was.\<close>

theorem naptr_update_raises:
  assumes "zmodel r = M_NAPTR" "zrec_update_from_rr E z rr r = Inr r'"
  shows "zrec_save E z' r' w = (Inl TypeError, delay (UpdateFzone (r_zone r)) w)"
proof -
  obtain o1 p f s g t where b: "body r' = NAPTRRecord o1 (Tuple1 p) f s g t" and z: "r_zone r' = r_zone r"
    using assms
    by (cases "body r")
      (auto simp: zrec_update_from_rr.simps NAPTRRecord_update_from_rr_def update_frame_def res_simps
        split: rdata.splits)
  have "written E r' = Inl TypeError" by (simp add: written_def b)
  then show ?thesis
    using b z by (simp add: zrec_save_plain touch_zone_def act_defs row_save_stored)
qed

theorem naptr_update_raises_witness:
  "zrec_save sample_ext sample_zone
     (new_zrec (str ''n'') sample_zone (str ''@'') 60
        (NAPTRRecord 1 (Tuple1 2) (Tuple1 []) (Tuple1 []) (Tuple1 []) (str ''.''))) empty_world
   = (Inl TypeError, delay (UpdateFzone (str ''z1'')) empty_world)"
  using naptr_update_raises[of
      "new_zrec (str ''n'') sample_zone (str ''@'') 60 (NAPTRRecord 1 (Plain 9) (Plain []) (Plain []) (Plain []) [])"
      sample_ext sample_zone
      "mk_rr (sample_label (str ''ex.org'')) QT_NAPTR (RD_NAPTR 1 2 [] [] [] []) 60"
      "new_zrec (str ''n'') sample_zone (str ''@'') 60
        (NAPTRRecord 1 (Tuple1 2) (Tuple1 []) (Tuple1 []) (Tuple1 []) (str ''.''))"
      sample_zone empty_world]
  by (simp add: zrec_update_from_rr.simps NAPTRRecord_update_from_rr_def update_frame_def
      dns_label_to_record_name_def sample_zone_def mk_rr_def new_zrec_def sample_label_str_def)


section \<open>CNAME records stand alone\<close>

text \<open>a CNAME record that passes validation has no record of the seventeen listed classes, no
  HTTPS record and no other CNAME record beside it under the name it is compared by.\<close>

theorem cname_validated_alone:
  assumes "CNAMERecord_validate_unique E w r (Some ex) = Inr ()" "str ''record_name'' \<notin> set ex"
    and "s \<in> set (zrecs w)" "r_zone s = r_zone r" "idna_label E (record_name r) = Some (record_name s)"
  shows "zmodel s \<notin> set cname_record_types \<and> (zmodel s = M_CNAME \<longrightarrow> r_id s = r_id r)"
proof -
  have "[c \<leftarrow> named M_CNAME (r_zone r) (idna_label E (record_name r)) w. r_id c \<noteq> r_id r] = []"
    and "\<not> list_ex (\<lambda>t. named t (r_zone r) (idna_label E (record_name r)) w \<noteq> []) cname_record_types"
    using assms(1,2) by (auto simp: CNAMERecord_validate_unique_def Let_def split: if_splits)
  then show ?thesis
    using assms(3-5) by (auto simp: named_def zone_set_def filter_empty_conv list_ex_iff)
qed

theorem cname_validated_alone_witness:
  "M_DNSKEY \<notin> set cname_record_types"
  using cname_validated_alone[of sample_ext
      "empty_world\<lparr>zrecs := [new_zrec (str ''k'') sample_zone (str ''www'') 60 (DNSKEYRecord 257 3 13 (PyStr []))]\<rparr>"
      "new_zrec (str ''c'') sample_zone (str ''www'') 60 (CNAMERecord (str ''x''))" "[]"
      "new_zrec (str ''k'') sample_zone (str ''www'') 60 (DNSKEYRecord 257 3 13 (PyStr []))"]
  by (simp add: CNAMERecord_validate_unique_def validate_unique_def named_def zone_set_def new_zrec_def
      idna_label_def py_strip_def is_space_def sample_idna_def cname_record_types_def)

text \<open>the comparison is between the IDNA form of the new name and the stored name, which is kept as
  it was typed: an address record under the same international name does not prevent the CNAME.\<close>

theorem cname_international_conflict_missed:
  assumes "idna_label E n = Some l" "l \<noteq> n"
    and "zrecs w = [new_zrec i z n t (AddressRecord a b)]"
  shows "CNAMERecord_validate_unique E w (new_zrec i' z n t' (CNAMERecord c)) (Some []) = Inr ()"
  using assms
  by (auto simp: CNAMERecord_validate_unique_def validate_unique_def named_def zone_set_def new_zrec_def
      cname_record_types_def)

theorem cname_international_conflict_missed_witness:
  "CNAMERecord_validate_unique (sample_ext\<lparr>idna_encode := \<lambda>_. Some (str ''xn--9ca'')\<rparr>)
     (empty_world\<lparr>zrecs := [new_zrec (str ''a'') sample_zone [233] 60 (AddressRecord (str ''192.0.2.1'') True)]\<rparr>)
     (new_zrec (str ''c'') sample_zone [233] 60 (CNAMERecord (str ''x''))) (Some []) = Inr ()"
  by (rule cname_international_conflict_missed[of _ _ "str ''xn--9ca''"])
    (simp_all add: idna_label_def py_strip_def is_space_def)


section \<open>Service bindings\<close>

lemma alpn_from_str_alpns: "alpn_from_str s = Inr d \<Longrightarrow> \<exists>l. d = ALPNData l"
  by (auto simp: alpn_from_str_def alpn_init_def res_simps split: if_splits)

lemma known_params:
  "svcb_param_init (str ''mandatory'') d = Inr \<lparr>p_key = 0, p_data = d\<rparr>"
  "svcb_param_init (str ''alpn'') d = Inr \<lparr>p_key = 1, p_data = d\<rparr>"
  "svcb_param_init (str ''no-default-alpn'') d = Inr \<lparr>p_key = 2, p_data = d\<rparr>"
  "svcb_param_init (str ''port'') d = Inr \<lparr>p_key = 3, p_data = d\<rparr>"
  "svcb_param_init (str ''ipv4hint'') d = Inr \<lparr>p_key = 4, p_data = d\<rparr>"
  "svcb_param_init (str ''ech'') d = Inr \<lparr>p_key = 5, p_data = d\<rparr>"
  "svcb_param_init (str ''ipv6hint'') d = Inr \<lparr>p_key = 6, p_data = d\<rparr>"
  by (simp_all add: svcb_param_init_def PARAM_MAPPING_def)

lemma alpn_getitem: "svcb_list_getitem ps (str ''alpn'') = find (\<lambda>v. p_key v = 1) ps"
  by (simp add: svcb_list_getitem_def PARAM_MAPPING_def)

lemma param_if_cases:
  "param_if c name d = Inr ps \<Longrightarrow>
     (c = False \<and> ps = []) \<or> (\<exists>v p. c \<and> d = Inr v \<and> svcb_param_init name v = Inr p \<and> ps = [p])"
  by (auto simp: param_if_def res_simps split: if_splits)

lemma check_ok [simp]: "check b = Inr u \<longleftrightarrow> \<not> b"
  by (simp add: check_def)

text \<open>What validation has established about the fields that rendering parses again.\<close>

lemma SVCBBase_clean_facts:
  assumes "SVCBBase_clean h = Inr h'"
  shows "h_extra_params h \<noteq> [] \<Longrightarrow> \<exists>ps. decode_svcb_param_list (h_extra_params h) = Inr ps"
    and "h_ipv4_hints h \<noteq> [] \<Longrightarrow> \<exists>d. ipv4_from_str (h_ipv4_hints h) = Inr d"
    and "h_ipv6_hints h \<noteq> [] \<Longrightarrow> \<exists>d. ipv6_from_str (h_ipv6_hints h) = Inr d"
    and "clean_alpn h = Inr h'" "clean_ech h = Inr ()"
  using assms
  by (auto simp: SVCBBase_clean_def Let_def clean_hints_def res_simps split: if_splits)

lemma clean_ech_b64: "clean_ech h = Inr () \<Longrightarrow> has (h_ech h) \<Longrightarrow> \<exists>b. b64decode (opt_str (h_ech h)) = Inr b"
  by (auto simp: clean_ech_def has_def truthy_def opt_str_def Let_def res_simps
      split: option.splits if_splits sum.splits exn.splits)

lemma clean_alpn_cache:
  assumes "clean_alpn h = Inr h'"
  shows "\<exists>c. h' = h\<lparr>h_alpn_cache := c\<rparr> \<and> (has (h_alpns h) \<longrightarrow> c \<noteq> None)"
proof (cases "truthy (h_alpns h)")
  case None
  then show ?thesis
    using assms by (auto simp: clean_alpn_def has_def Let_def res_simps intro!: exI[of _ "h_alpn_cache h"])
next
  case (Some s)
  then obtain d where "alpn_from_str s = Inr d"
    using assms by (auto simp: clean_alpn_def has_def Let_def res_simps)
  then show ?thesis
    using assms Some alpn_from_str_alpns[of s d] by (auto simp: clean_alpn_def has_def Let_def res_simps)
qed

text \<open>A parameter that is written when \<open>c\<close> holds, under a name that is not ALPN's.\<close>

lemma param_if_ok:
  assumes "c \<Longrightarrow> \<exists>v. d = Inr v" "\<And>v. svcb_param_init name v = Inr \<lparr>p_key = k, p_data = v\<rparr>" "k \<noteq> 1"
  shows "\<exists>ps. param_if c name d = Inr ps \<and> find (\<lambda>p. p_key p = 1) ps = None"
  using assms by (cases c) (auto simp: param_if_def)

lemma SVCBBase_svcb_data_ok:
  assumes "SVCBBase_clean h = Inr h'"
  shows "\<exists>ps mand. SVCBBase_svcb_data h' = Inr (ps, mand, h')
    \<and> (find (\<lambda>v. p_key v = 1) ps = None
       \<or> (\<exists>l. find (\<lambda>v. p_key v = 1) ps = Some \<lparr>p_key = 1, p_data = ALPNData l\<rparr>)
       \<or> (\<exists>ex. decode_svcb_param_list (h_extra_params h) = Inr ex \<and> (\<exists>p \<in> set ex. p_key p = 1)))"
proof -
  note f = SVCBBase_clean_facts[OF assms]
  obtain c where h': "h' = h\<lparr>h_alpn_cache := c\<rparr>" and c: "has (h_alpns h) \<longrightarrow> c \<noteq> None"
    using clean_alpn_cache[OF f(4)] by blast
  let ?A = "if has (h_alpns h) then [\<lparr>p_key = 1, p_data = ALPNData (case c of Some l \<Rightarrow> l | None \<Rightarrow> [])\<rparr>] else []"
  have "\<exists>ps. param_if (h_no_default_alpn h) (str ''no-default-alpn'') (Inr NullParamData) = Inr ps
      \<and> find (\<lambda>p. p_key p = 1) ps = None"
    by (rule param_if_ok[OF _ known_params(3)]) auto
  then obtain na where na: "param_if (h_no_default_alpn h) (str ''no-default-alpn'') (Inr NullParamData) = Inr na"
    "find (\<lambda>p. p_key p = 1) na = None" by blast
  have "\<exists>ps. param_if (h_ipv4_hints h \<noteq> []) (str ''ipv4hint'') (ipv4_from_str (h_ipv4_hints h)) = Inr ps
      \<and> find (\<lambda>p. p_key p = 1) ps = None"
    by (rule param_if_ok[OF f(2) known_params(5)]) auto
  then obtain v4 where v4: "param_if (h_ipv4_hints h \<noteq> []) (str ''ipv4hint'') (ipv4_from_str (h_ipv4_hints h)) = Inr v4"
    "find (\<lambda>p. p_key p = 1) v4 = None" by blast
  have "\<exists>ps. param_if (h_ipv6_hints h \<noteq> []) (str ''ipv6hint'') (ipv6_from_str (h_ipv6_hints h)) = Inr ps
      \<and> find (\<lambda>p. p_key p = 1) ps = None"
    by (rule param_if_ok[OF f(3) known_params(7)]) auto
  then obtain v6 where v6: "param_if (h_ipv6_hints h \<noteq> []) (str ''ipv6hint'') (ipv6_from_str (h_ipv6_hints h)) = Inr v6"
    "find (\<lambda>p. p_key p = 1) v6 = None" by blast
  let ?p = "Inr (IntegerParamData (case h_target_port h of Some p \<Rightarrow> int p | None \<Rightarrow> 0)) :: param_data res"
  have "\<exists>ps. param_if (num_set (h_target_port h)) (str ''port'') ?p = Inr ps \<and> find (\<lambda>p. p_key p = 1) ps = None"
    by (rule param_if_ok[OF _ known_params(4)]) auto
  then obtain po where po: "param_if (num_set (h_target_port h)) (str ''port'') ?p = Inr po"
    "find (\<lambda>p. p_key p = 1) po = None" by blast
  let ?e = "bind_res (b64decode (opt_str (h_ech h))) (\<lambda>b. Inr (OctetParamData b)) :: param_data res"
  have "\<exists>ps. param_if (has (h_ech h)) (str ''ech'') ?e = Inr ps \<and> find (\<lambda>p. p_key p = 1) ps = None"
    by (rule param_if_ok[OF _ known_params(6)]) (use clean_ech_b64[OF f(5)] in auto)
  then obtain ec where ec: "param_if (has (h_ech h)) (str ''ech'') ?e = Inr ec"
    "find (\<lambda>p. p_key p = 1) ec = None" by blast
  obtain ex where ex: "(if h_extra_params h = [] then Inr [] else decode_svcb_param_list (h_extra_params h)) = Inr ex"
    using f(1) by (cases "h_extra_params h = []") auto
  have cache: "(if has (h_alpns h) then alpn_data h' else Inr c) = Inr c"
    using c by (auto simp: h' alpn_data_def split: option.splits)
  have al: "param_if (has (h_alpns h)) (str ''alpn'') (Inr (ALPNData (case c of Some l \<Rightarrow> l | None \<Rightarrow> []))) = Inr ?A"
    by (simp add: param_if_def known_params del: str_simps)
  have run: "SVCBBase_svcb_data h' = Inr (?A @ na @ v4 @ v6 @ po @ ec @ ex, svcb_mandatory h', h')"
    using cache ex al
    by (cases "has (h_alpns h)"; cases "h_extra_params h = []")
      (simp_all add: SVCBBase_svcb_data_def h' na v4 v6 po ec del: str_simps)
  have "find (\<lambda>v. p_key v = 1) (?A @ na @ v4 @ v6 @ po @ ec @ ex) =
      (if has (h_alpns h) then Some \<lparr>p_key = 1, p_data = ALPNData (case c of Some l \<Rightarrow> l | None \<Rightarrow> [])\<rparr>
       else find (\<lambda>v. p_key v = 1) ex)"
    using na v4 v6 po ec by (simp add: find_append)
  then show ?thesis
    using run ex by (cases "find (\<lambda>v. p_key v = 1) ex") (auto simp: find_Some_iff split: if_splits; force)+
qed

lemma HTTPSRecord_clean_base:
  "HTTPSRecord_clean h = Inr h' \<Longrightarrow> SVCBBase_clean h = Inr h'"
  by (auto simp: HTTPSRecord_clean_def res_simps split: if_splits)

lemma svcb_record_of_data:
  "HTTPSRecord_svcb_data h = Inr (ps, mand, h') \<Longrightarrow> \<exists>m. svcb_record h =
     Inr (\<lparr>sv_priority = int (h_priority h), sv_target = h_target h, sv_params = ps @ m\<rparr>, h')
     \<and> (\<forall>p \<in> set m. p_key p = 0)"
  by (cases "mand = []") (simp_all add: svcb_record_def param_if_def known_params del: str_simps)

text \<open>C22: an HTTPS record that passes validation can be rendered: building its SVCB data succeeds,
  provided that no extra parameter bears the number of ALPN.\<close>

theorem https_validated_renders:
  assumes "HTTPSRecord_clean h = Inr h'"
    and "\<And>ex p. decode_svcb_param_list (h_extra_params h) = Inr ex \<Longrightarrow> p \<in> set ex \<Longrightarrow> p_key p \<noteq> 1"
  shows "\<exists>s h''. svcb_record h' = Inr (s, h'')"
proof -
  obtain ps mand where d: "SVCBBase_svcb_data h' = Inr (ps, mand, h')"
    and f: "find (\<lambda>v. p_key v = 1) ps = None
       \<or> (\<exists>l. find (\<lambda>v. p_key v = 1) ps = Some \<lparr>p_key = 1, p_data = ALPNData l\<rparr>)"
    using SVCBBase_svcb_data_ok[OF HTTPSRecord_clean_base[OF assms(1)]] assms(2) by metis
  then have "\<exists>ps' mand' h''. HTTPSRecord_svcb_data h' = Inr (ps', mand', h'')"
    by (auto simp: HTTPSRecord_svcb_data_def alpn_getitem alpn_init_def known_params simp del: str_simps)
  then show ?thesis using svcb_record_of_data by blast
qed

definition sample_https :: https_rec where
  "sample_https = \<lparr>h_port = Some 443, h_scheme = Some (str ''https''), h_priority = 1, h_target = str ''.'',
     h_target_port = None, h_target_port_mandatory = False, h_alpns = None, h_alpn_mandatory = False,
     h_no_default_alpn = False, h_no_default_alpn_mandatory = False, h_ech = None, h_ech_mandatory = False,
     h_ipv4_hints = [], h_ipv4_hints_mandatory = False, h_ipv6_hints = [], h_ipv6_hints_mandatory = False,
     h_extra_params = [], h_http2_support = True, h_alpn_cache = None\<rparr>"

lemma sample_https_clean: "HTTPSRecord_clean sample_https = Inr sample_https"
  by (simp add: HTTPSRecord_clean_def SVCBBase_clean_def sample_https_def clean_alpn_def clean_ech_def
      clean_hints_def check_def has_def truthy_def num_set_def alpn_data_def Let_def)

theorem https_validated_renders_witness:
  "\<exists>s h''. svcb_record sample_https = Inr (s, h'')"
  by (rule https_validated_renders[OF sample_https_clean])
    (simp add: sample_https_def decode_svcb_param_list_def utf8_encode_def decode_params.simps[of "[]" "[]"])

lemma key1_params: "decode_svcb_param_list (str ''key1=h2'') = Inr [\<lparr>p_key = 1, p_data = OctetParamData (str ''h2'')\<rparr>]"
  using param_list_text[of "[(str ''key1'', str ''h2'')]" "\<lambda>_. \<lparr>p_key = 1, p_data = OctetParamData (str ''h2'')\<rparr>"]
  by (simp add: param_text_def escape_char_str_def escape_octet_def is_non_special_char_def is_key_char_def
      is_digit_char_def svcb_param_init_def PARAM_MAPPING_def py_int_def py_strip_def is_space_def
      nat_of_digits_def is_digit_def)

text \<open>the proviso is needed. The text of the extra parameters is searched for the word alpn, but
  the parameter can be given by its number: such a record with HTTP/2 support passes validation, and
  rendering it, hence generating the zone file, raises.\<close>

theorem https_numbered_alpn_raises:
  "HTTPSRecord_clean (sample_https\<lparr>h_extra_params := str ''key1=h2''\<rparr>)
     = Inr (sample_https\<lparr>h_extra_params := str ''key1=h2''\<rparr>)
   \<and> svcb_record (sample_https\<lparr>h_extra_params := str ''key1=h2''\<rparr>) = Inl AttributeError"
proof
  note k = key1_params[simplified]
  show "HTTPSRecord_clean (sample_https\<lparr>h_extra_params := str ''key1=h2''\<rparr>)
     = Inr (sample_https\<lparr>h_extra_params := str ''key1=h2''\<rparr>)"
    by (simp add: HTTPSRecord_clean_def SVCBBase_clean_def sample_https_def clean_alpn_def clean_ech_def
        clean_hints_def check_def has_def truthy_def num_set_def alpn_data_def Let_def k)
  show "svcb_record (sample_https\<lparr>h_extra_params := str ''key1=h2''\<rparr>) = Inl AttributeError"
    by (simp add: svcb_record_def HTTPSRecord_svcb_data_def SVCBBase_svcb_data_def sample_https_def has_def
        truthy_def num_set_def param_if_def k alpn_getitem[simplified])
qed

lemma svcb_data_alpn_first:
  assumes "SVCBBase_svcb_data h = Inr (ps, mand, h')" "has (h_alpns h)" "alpn_data h = Inr (Some l)"
  shows "\<exists>qs. ps = \<lparr>p_key = 1, p_data = ALPNData l\<rparr> # qs \<and> h' = h\<lparr>h_alpn_cache := Some l\<rparr>"
  using assms
  by (auto simp: SVCBBase_svcb_data_def res_simps param_if_def known_params list_all2_Cons1 simp del: str_simps)

lemma svcb_record_h2:
  assumes "svcb_record h = Inr (s, h')" "h_http2_support h" "has (h_alpns h)" "alpn_data h = Inr (Some l)"
  shows "svcb_list_getitem (sv_params s) (str ''alpn'') = Some \<lparr>p_key = 1, p_data = ALPNData (l @ [str ''h2''])\<rparr>
    \<and> h' = h\<lparr>h_alpn_cache := Some (l @ [str ''h2''])\<rparr>"
proof -
  obtain ps mand h1 where d: "SVCBBase_svcb_data h = Inr (ps, mand, h1)"
    using assms(1) by (auto simp: svcb_record_def HTTPSRecord_svcb_data_def res_simps)
  obtain qs where q: "ps = \<lparr>p_key = 1, p_data = ALPNData l\<rparr> # qs" "h1 = h\<lparr>h_alpn_cache := Some l\<rparr>"
    using svcb_data_alpn_first[OF d assms(3,4)] by blast
  then have "HTTPSRecord_svcb_data h =
    Inr (\<lparr>p_key = 1, p_data = ALPNData (l @ [str ''h2''])\<rparr> # qs, mand, h\<lparr>h_alpn_cache := Some (l @ [str ''h2''])\<rparr>)"
    using d assms(2,3) by (simp add: HTTPSRecord_svcb_data_def alpn_getitem del: str_simps)
  from svcb_record_of_data[OF this] show ?thesis
    using assms(1) by (auto simp: alpn_getitem simp del: str_simps)
qed

text \<open>\<^verbatim>\<open>HTTPSRecord.svcb_data\<close> appends h2 to the cached ALPN list itself: the first rendering of a
  record object with HTTP/2 support lists h2 once, the second rendering of the same object twice.\<close>

theorem https_second_rendering_repeats_h2:
  assumes "h_http2_support h" "h_alpns h = Some t" "t \<noteq> []" "h_alpn_cache h = None"
    and "alpn_from_str t = Inr (ALPNData l)"
    and "svcb_record h = Inr (s1, h1)" "svcb_record h1 = Inr (s2, h2)"
  shows "svcb_list_getitem (sv_params s1) (str ''alpn'') = Some \<lparr>p_key = 1, p_data = ALPNData (l @ [str ''h2''])\<rparr>
    \<and> svcb_list_getitem (sv_params s2) (str ''alpn'')
        = Some \<lparr>p_key = 1, p_data = ALPNData (l @ [str ''h2'', str ''h2''])\<rparr>"
proof -
  have has: "has (h_alpns h)" using assms(2,3) by (simp add: has_def truthy_def)
  have "alpn_data h = Inr (Some l)" using assms(2-5) by (simp add: alpn_data_def truthy_def)
  note r1 = svcb_record_h2[OF assms(6,1) has this]
  have "alpn_data h1 = Inr (Some (l @ [str ''h2'']))" using r1 by (simp add: alpn_data_def)
  moreover have "h_http2_support h1" "has (h_alpns h1)" using r1 assms(1) has by simp_all
  ultimately show ?thesis using r1 svcb_record_h2[OF assms(7)] by simp
qed

lemma alpn_h3: "alpn_from_str (str ''h3'') = Inr (ALPNData [str ''h3''])"
proof -
  have "comma_list_from_str (escape_char_str (join [44] (map escape_item [str ''h3'']))) = Inr [str ''h3'']"
    by (rule comma_list_escaped) simp_all
  moreover have "escape_char_str (join [44] (map escape_item [str ''h3''])) = str ''h3''"
    by (simp add: escape_item_def escape_char_str_def escape_octet_def is_non_special_char_def)
  ultimately show ?thesis by (simp add: alpn_from_str_def alpn_init_def)
qed

theorem https_second_rendering_repeats_h2_witness:
  "\<exists>s1 h1 s2 h2. svcb_record (sample_https\<lparr>h_alpns := Some (str ''h3'')\<rparr>) = Inr (s1, h1)
    \<and> svcb_record h1 = Inr (s2, h2)
    \<and> svcb_list_getitem (sv_params s1) (str ''alpn'') = Some \<lparr>p_key = 1, p_data = ALPNData [str ''h3'', str ''h2'']\<rparr>
    \<and> svcb_list_getitem (sv_params s2) (str ''alpn'')
        = Some \<lparr>p_key = 1, p_data = ALPNData [str ''h3'', str ''h2'', str ''h2'']\<rparr>"
proof -
  let ?h = "sample_https\<lparr>h_alpns := Some (str ''h3'')\<rparr>"
  note defs = svcb_record_def HTTPSRecord_svcb_data_def SVCBBase_svcb_data_def sample_https_def has_def truthy_def
    num_set_def param_if_def known_params[simplified] alpn_getitem[simplified] alpn_data_def svcb_mandatory_def
  have "\<exists>s1 h1. svcb_record ?h = Inr (s1, h1)" by (simp add: defs alpn_h3[simplified])
  then obtain s1 h1 where r1: "svcb_record ?h = Inr (s1, h1)" by blast
  have "h_http2_support ?h" "has (h_alpns ?h)" "alpn_data ?h = Inr (Some [str ''h3''])"
    by (simp_all add: defs alpn_h3[simplified])
  then have "h1 = ?h\<lparr>h_alpn_cache := Some [str ''h3'', str ''h2'']\<rparr>"
    using svcb_record_h2[OF r1] by simp
  then have "\<exists>s2 h2. svcb_record h1 = Inr (s2, h2)" by (simp add: defs)
  then obtain s2 h2 where r2: "svcb_record h1 = Inr (s2, h2)" by blast
  show ?thesis
    using https_second_rendering_repeats_h2[OF _ _ _ _ alpn_h3 r1 r2] r1 r2
    by (intro exI[of _ s1] exI[of _ h1] exI[of _ s2] exI[of _ h2]) (simp add: sample_https_def)
qed

end
