(* ===== verification/Zone_Models.thy ===== *)
theory Zone_Models
  imports Record_Store
begin

text \<open>
  The zone classes of \<^verbatim>\<open>models.py\<close> with the rows that belong to them: \<^verbatim>\<open>DNSZone\<close> with its initial
  records and the import of zone files, \<^verbatim>\<open>ReverseDNSZone\<close> and its PTR and NS records,
  \<^verbatim>\<open>SecondaryDNSZone\<close>, additional CDS and CDNSKEY rows, custom name servers, transfer access lists.
\<close>

section \<open>Accounts and owners\<close>

definition account_of :: "world \<Rightarrow> pstr \<Rightarrow> account option" where
  "account_of w u = map_of (accounts w) u"

text \<open>\<^verbatim>\<open>create_user_profile\<close>: an account exists after every save of a user.\<close>

definition create_user_profile :: "user \<Rightarrow> bool \<Rightarrow> world \<Rightarrow> world" where
  "create_user_profile u created w =
     (if created \<or> account_of w (username u) = None
      then w\<lparr>accounts := accounts w
               @ [(username u, \<lparr>acc_id = length (accounts w), subscription_id = None, subscription_active = False\<rparr>)]\<rparr>
      else w)"

text \<open>\<^verbatim>\<open>zone.get_user().account\<close>\<close>

definition owner_account :: "ext \<Rightarrow> world \<Rightarrow> pstr option \<Rightarrow> account res" where
  "owner_account E w rid =
     bind_res (resource_owner E rid) (\<lambda>u. case u of
       None \<Rightarrow> Inl AttributeError
     | Some u \<Rightarrow> (case account_of w (username u) of None \<Rightarrow> Inl DoesNotExist | Some a \<Rightarrow> Inr a))"


section \<open>DNSZone\<close>

text \<open>
  \<^verbatim>\<open>sync_resource_to_keycloak\<close> stores the row through \<^verbatim>\<open>super_save\<close> and registers the zone as a
  resource with Keycloak. Its outcome is \<open>kc_resource\<close>, which may depend on what has happened before: the
  identifier that the stored row has for the resource, or an exception, before which the row has been
  stored or not.
\<close>

definition keycloak_resource :: "ext \<Rightarrow> pstr \<Rightarrow> pstr option \<Rightarrow> (pstr option \<Rightarrow> world \<Rightarrow> world) \<Rightarrow> unit io" where
  "keycloak_resource E i resource_id super_save = (\<lambda>w.
     case kc_resource E (events w) i resource_id of
       Inl (e, None) \<Rightarrow> (Inl e, emit (Keycloak_sync i) w)
     | Inl (e, Some r) \<Rightarrow> (Inl e, emit (Keycloak_sync i) (super_save r w))
     | Inr r \<Rightarrow> (Inr (), emit (Keycloak_sync i) (super_save r w)))"

definition DNSZone_save :: "ext \<Rightarrow> dnszone \<Rightarrow> unit io" where
  "DNSZone_save E z = keycloak_resource E (z_id z) (z_resource_id z) (\<lambda>r w.
     w\<lparr>dnszones := upsert z_id (z\<lparr>zone_root := lower E (zone_root z), z_resource_id := r\<rparr>) (dnszones w)\<rparr>)"

lemma keycloak_resource_cases:
  "keycloak_resource E i rid f w = (x, v) \<Longrightarrow>
    v = emit (Keycloak_sync i) w \<and> x \<noteq> Inr () \<or> (\<exists>r. v = emit (Keycloak_sync i) (f r w))"
  by (auto simp: keycloak_resource_def split: sum.splits option.splits)

text \<open>The rows that refer to a zone go with it (\<^verbatim>\<open>on_delete=CASCADE\<close>); their \<^verbatim>\<open>delete\<close> is not called.\<close>

definition DNSZone_cascade :: "pstr \<Rightarrow> world \<Rightarrow> world" where
  "DNSZone_cascade zid w =
     (let gone = map r_id (zone_set M_ANAME zid w) in
      w\<lparr>dnszones := [z \<leftarrow> dnszones w. z_id z \<noteq> zid],
        zrecs := [r \<leftarrow> zrecs w. r_zone r \<noteq> zid],
        aname_cache := [c \<leftarrow> aname_cache w. fst c \<notin> set gone],
        f_cds := [c \<leftarrow> f_cds w. cds_zone c \<noteq> zid],
        f_cdnskey := [c \<leftarrow> f_cdnskey w. ck_zone c \<noteq> zid],
        f_custom_ns := [n \<leftarrow> f_custom_ns w. ns_zone n \<noteq> zid],
        update_secrets := [s \<leftarrow> update_secrets w. us_zone s \<noteq> zid],
        f_axfr_acls := [a \<leftarrow> f_axfr_acls w. acl_zone a \<noteq> zid],
        f_axfr_secrets := [a \<leftarrow> f_axfr_secrets w. as_zone a \<noteq> zid],
        f_axfr_notifies := [a \<leftarrow> f_axfr_notifies w. an_zone a \<noteq> zid]\<rparr>)"

definition DNSZone_delete :: "ext \<Rightarrow> dnszone \<Rightarrow> unit io" where
  "DNSZone_delete E z = (\<lambda>w.
     (kc_delete E (events w) (z_resource_id z), emit (Keycloak_delete (z_id z)) (DNSZone_cascade (z_id z) w)))"

text \<open>A new object draws an identifier.\<close>

definition new_id :: "ext \<Rightarrow> pstr io" where
  "new_id E w = (Inr (uuid E (next_uuid w)), w\<lparr>next_uuid := next_uuid w + 1\<rparr>)"

definition create_txt :: "ext \<Rightarrow> dnszone \<Rightarrow> pstr \<Rightarrow> pstr \<Rightarrow> unit io" where
  "create_txt E z name text =
     bind_act (new_id E) (\<lambda>i. zrec_save E z (new_zrec i z name 86400 (TXTRecord text)))"

definition create_blank_spf :: "ext \<Rightarrow> dnszone \<Rightarrow> unit io" where
  "create_blank_spf E z = create_txt E z (str ''@'') (str ''v=spf1 -all'')"

definition create_blank_dmarc :: "ext \<Rightarrow> dnszone \<Rightarrow> unit io" where
  "create_blank_dmarc E z =
     create_txt E z (str ''_dmarc'') (str ''v=DMARC1;p=reject;sp=reject;adkim=s;aspf=s'')"

definition setup_initial_records :: "ext \<Rightarrow> dnszone \<Rightarrow> unit io" where
  "setup_initial_records E z =
     seq (create_blank_spf E z)
       (seq (create_blank_dmarc E z) (create_txt E z (str ''*._domainkey'') (str ''v=DKIM1; p='')))"

text \<open>
  The import of a zone file. \<^verbatim>\<open>transaction.atomic\<close> undoes the changes to the tables when its body
  raises; tasks already queued and calls already made remain. \<^verbatim>\<open>queryset.delete()\<close> removes rows
  without calling their \<^verbatim>\<open>delete\<close>.
\<close>

definition atomic :: "unit io \<Rightarrow> unit io" where
  "atomic m w =
     (case m w of
        (Inr u, w') \<Rightarrow> (Inr u, w')
      | (Inl e, w') \<Rightarrow> (Inl e, w\<lparr>queue := queue w', events := events w', next_uuid := next_uuid w'\<rparr>))"

definition queryset_delete :: "(zrec \<Rightarrow> bool) \<Rightarrow> unit io" where
  "queryset_delete P = modify (\<lambda>w. w\<lparr>zrecs := [r \<leftarrow> zrecs w. \<not> P r]\<rparr>)"

definition overwrite_models :: "model list" where
  "overwrite_models = [M_Address, M_CNAME, M_MX, M_NS, M_TXT, M_SRV, M_CAA, M_NAPTR, M_DNSKEY]"

definition import_model :: "nat \<Rightarrow> model option" where
  "import_model t =
     (if t = QT_A then Some M_Address else if t = QT_AAAA then Some M_Address
      else if t = QT_CNAME then Some M_CNAME else if t = QT_MX then Some M_MX
      else if t = QT_NS then Some M_NS else if t = QT_TXT then Some M_TXT
      else if t = QT_SRV then Some M_SRV else if t = QT_CAA then Some M_CAA
      else if t = QT_NAPTR then Some M_NAPTR else if t = QT_DNSKEY then Some M_DNSKEY else None)"

definition clamp_ttl :: "zrec \<Rightarrow> zrec" where
  "clamp_ttl r = (if ttl r \<le> 1 then r\<lparr>ttl := 3600\<rparr> else r)"

definition import_record :: "ext \<Rightarrow> dnszone \<Rightarrow> rr \<Rightarrow> unit io" where
  "import_record E z rr =
     (if rclass rr \<noteq> CL_IN then ret ()
      else case import_model (rtype rr) of
        None \<Rightarrow> ret ()
      | Some m \<Rightarrow>
          bind_act (new_id E) (\<lambda>i. bind_act (lift_res (model_from_rr E m i z rr)) (\<lambda>r.
            seq (if m = M_CNAME
                 then queryset_delete (\<lambda>s. zmodel s = M_CNAME \<and> r_zone s = z_id z \<and> record_name s = record_name r)
                 else ret ())
              (zrec_save E z (clamp_ttl r)))))"

definition import_zone_file :: "ext \<Rightarrow> dnszone \<Rightarrow> pstr \<Rightarrow> bool \<Rightarrow> unit io" where
  "import_zone_file E z zone_data overwrite =
     (case zone_parse E zone_data (DNSLabel E (zone_root z)) of
        Inl e \<Rightarrow> throw (if e \<in> {DNSError, ValueError, UnicodeError, BinasciiError, IndexError} then ValueError else e)
      | Inr records \<Rightarrow>
          atomic (seq
            (if overwrite then for_each overwrite_models (\<lambda>m. queryset_delete (\<lambda>r. zmodel r = m \<and> r_zone r = z_id z))
             else ret ())
            (for_each records (import_record E z))))"

definition hex_validator :: "pstr \<Rightarrow> unit res" where
  "hex_validator v = (case fromhex v of Inl _ \<Rightarrow> Inl ValidationError | Inr _ \<Rightarrow> Inr ())"

definition b64_validator :: "pstr \<Rightarrow> unit res" where
  "b64_validator v =
     (case b64decode v of Inl BinasciiError \<Rightarrow> Inl ValidationError | Inl e \<Rightarrow> Inl e | Inr _ \<Rightarrow> Inr ())"

definition AdditionalCDS_save :: "cds_row \<Rightarrow> unit io" where
  "AdditionalCDS_save c = seq (modify (delay (UpdateFzone (cds_zone c))))
     (modify (\<lambda>w. w\<lparr>f_cds := upsert cds_id c (f_cds w)\<rparr>))"

definition AdditionalCDS_delete :: "cds_row \<Rightarrow> unit io" where
  "AdditionalCDS_delete c = seq (modify (delay (UpdateFzone (cds_zone c))))
     (modify (\<lambda>w. w\<lparr>f_cds := remove cds_id c (f_cds w)\<rparr>))"

definition AdditionalCDNSKEY_save :: "cdnskey_row \<Rightarrow> unit io" where
  "AdditionalCDNSKEY_save c = seq (modify (delay (UpdateFzone (ck_zone c))))
     (modify (\<lambda>w. w\<lparr>f_cdnskey := upsert ck_id c (f_cdnskey w)\<rparr>))"

definition AdditionalCDNSKEY_delete :: "cdnskey_row \<Rightarrow> unit io" where
  "AdditionalCDNSKEY_delete c = seq (modify (delay (UpdateFzone (ck_zone c))))
     (modify (\<lambda>w. w\<lparr>f_cdnskey := remove ck_id c (f_cdnskey w)\<rparr>))"

definition CustomNS_save :: "ext \<Rightarrow> custom_ns_row \<Rightarrow> unit io" where
  "CustomNS_save E n =
     (let n' = n\<lparr>ns_nameserver := lower E (ns_nameserver n)\<rparr> in
      seq (modify (delay (UpdateFzone (ns_zone n'))))
        (modify (\<lambda>w. w\<lparr>f_custom_ns := upsert ns_id n' (f_custom_ns w)\<rparr>)))"

definition CustomNS_delete :: "custom_ns_row \<Rightarrow> unit io" where
  "CustomNS_delete n = seq (modify (delay (UpdateFzone (ns_zone n))))
     (modify (\<lambda>w. w\<lparr>f_custom_ns := remove ns_id n (f_custom_ns w)\<rparr>))"

definition secret_str :: "update_secret \<Rightarrow> pstr" where
  "secret_str s = b64encode (secret s)"

text \<open>
  \<^verbatim>\<open>ipaddress.ip_network((address, prefix))\<close> of the stored text; validation turns its error into a
  form error, the property \<^verbatim>\<open>network\<close> into None.
\<close>

definition network_of :: "pstr \<Rightarrow> nat \<Rightarrow> ip_network res" where
  "network_of address plen = bind_res (parse_ip address) (\<lambda>a. ip_network_of a plen)"

definition AXFRIPACL_clean :: "axfr_acl \<Rightarrow> unit res" where
  "AXFRIPACL_clean a =
     (case network_of (acl_address a) (acl_prefix a) of Inl _ \<Rightarrow> Inl ValidationError | Inr _ \<Rightarrow> Inr ())"

definition AXFRIPACL_network :: "axfr_acl \<Rightarrow> ip_network option" where
  "AXFRIPACL_network a =
     (case network_of (acl_address a) (acl_prefix a) of Inl _ \<Rightarrow> None | Inr n \<Rightarrow> Some n)"


section \<open>ReverseDNSZone\<close>

definition ReverseDNSZone_save :: "ext \<Rightarrow> rzone \<Rightarrow> unit io" where
  "ReverseDNSZone_save E z = keycloak_resource E (rz_id z) (rz_resource_id z) (\<lambda>r w.
     w\<lparr>rzones := upsert rz_id (z\<lparr>rz_resource_id := r\<rparr>) (rzones w)\<rparr>)"

definition ReverseDNSZone_delete :: "ext \<Rightarrow> rzone \<Rightarrow> unit io" where
  "ReverseDNSZone_delete E z = (\<lambda>w. (kc_delete E (events w) (rz_resource_id z), emit (Keycloak_delete (rz_id z))
     (w\<lparr>rzones := remove rz_id z (rzones w),
        ptrs := [p \<leftarrow> ptrs w. p_zone p \<noteq> rz_id z],
        rnss := [p \<leftarrow> rnss w. rn_zone p \<noteq> rz_id z],
        r_cds := [c \<leftarrow> r_cds w. cds_zone c \<noteq> rz_id z],
        r_cdnskey := [c \<leftarrow> r_cdnskey w. ck_zone c \<noteq> rz_id z],
        r_custom_ns := [n \<leftarrow> r_custom_ns w. ns_zone n \<noteq> rz_id z]\<rparr>)))"

definition ReverseDNSZone_clean :: "rzone \<Rightarrow> unit res" where
  "ReverseDNSZone_clean z =
     (case network_of (zone_root_address z) (zone_root_prefix z) of Inl _ \<Rightarrow> Inl ValidationError | Inr _ \<Rightarrow> Inr ())"

definition ReverseDNSZone_network :: "rzone \<Rightarrow> ip_network option" where
  "ReverseDNSZone_network z =
     (case network_of (zone_root_address z) (zone_root_prefix z) of Inl _ \<Rightarrow> None | Inr n \<Rightarrow> Some n)"

definition ReverseCDS_save :: "cds_row \<Rightarrow> unit io" where
  "ReverseCDS_save c = seq (modify (delay (UpdateRzone (cds_zone c))))
     (modify (\<lambda>w. w\<lparr>r_cds := upsert cds_id c (r_cds w)\<rparr>))"

definition ReverseCDS_delete :: "cds_row \<Rightarrow> unit io" where
  "ReverseCDS_delete c = seq (modify (delay (UpdateRzone (cds_zone c))))
     (modify (\<lambda>w. w\<lparr>r_cds := remove cds_id c (r_cds w)\<rparr>))"

definition ReverseCDNSKEY_save :: "cdnskey_row \<Rightarrow> unit io" where
  "ReverseCDNSKEY_save c = seq (modify (delay (UpdateRzone (ck_zone c))))
     (modify (\<lambda>w. w\<lparr>r_cdnskey := upsert ck_id c (r_cdnskey w)\<rparr>))"

definition ReverseCDNSKEY_delete :: "cdnskey_row \<Rightarrow> unit io" where
  "ReverseCDNSKEY_delete c = seq (modify (delay (UpdateRzone (ck_zone c))))
     (modify (\<lambda>w. w\<lparr>r_cdnskey := remove ck_id c (r_cdnskey w)\<rparr>))"

definition ReverseCustomNS_save :: "ext \<Rightarrow> custom_ns_row \<Rightarrow> unit io" where
  "ReverseCustomNS_save E n =
     (let n' = n\<lparr>ns_nameserver := lower E (ns_nameserver n)\<rparr> in
      seq (modify (delay (UpdateRzone (ns_zone n'))))
        (modify (\<lambda>w. w\<lparr>r_custom_ns := upsert ns_id n' (r_custom_ns w)\<rparr>)))"

definition ReverseCustomNS_delete :: "custom_ns_row \<Rightarrow> unit io" where
  "ReverseCustomNS_delete n = seq (modify (delay (UpdateRzone (ns_zone n))))
     (modify (\<lambda>w. w\<lparr>r_custom_ns := remove ns_id n (r_custom_ns w)\<rparr>))"

text \<open>\<^verbatim>\<open>ReverseDNSZoneRecord.clean\<close>: an address that cannot be read is let through.\<close>

definition ReverseRecord_clean :: "rzone \<Rightarrow> pstr \<Rightarrow> unit res" where
  "ReverseRecord_clean z record_address =
     (case parse_ip record_address of
        Inl _ \<Rightarrow> Inr ()
      | Inr a \<Rightarrow>
          bind_res (network_of (zone_root_address z) (zone_root_prefix z)) (\<lambda>n.
            if in_network a n then Inr () else Inl ValidationError))"

definition PTRRecord_save :: "ext \<Rightarrow> ptr_rec \<Rightarrow> unit io" where
  "PTRRecord_save E p =
     (let p' = p\<lparr>pointer := lower E (pointer p)\<rparr> in
      seq (modify (delay (UpdateRzone (p_zone p')))) (modify (\<lambda>w. w\<lparr>ptrs := upsert p_id p' (ptrs w)\<rparr>)))"

definition PTRRecord_delete :: "ptr_rec \<Rightarrow> unit io" where
  "PTRRecord_delete p = seq (modify (delay (UpdateRzone (p_zone p)))) (modify (\<lambda>w. w\<lparr>ptrs := remove p_id p (ptrs w)\<rparr>))"

definition ReverseNSRecord_network :: "rns_rec \<Rightarrow> ip_network option" where
  "ReverseNSRecord_network r =
     (case network_of (rn_address r) (rn_prefix r) of Inl _ \<Rightarrow> None | Inr n \<Rightarrow> Some n)"

definition ReverseNSRecord_save :: "ext \<Rightarrow> rns_rec \<Rightarrow> unit io" where
  "ReverseNSRecord_save E r =
     seq (modify (delay (UpdateRzone (rn_zone r))))
       (modify (\<lambda>w. w\<lparr>rnss := upsert rn_id (r\<lparr>rn_nameserver := lower E (rn_nameserver r)\<rparr>) (rnss w)\<rparr>))"

definition ReverseNSRecord_delete :: "rns_rec \<Rightarrow> unit io" where
  "ReverseNSRecord_delete r = seq (modify (delay (UpdateRzone (rn_zone r)))) (modify (\<lambda>w. w\<lparr>rnss := remove rn_id r (rnss w)\<rparr>))"


section \<open>SecondaryDNSZone\<close>

definition SecondaryDNSZone_save :: "ext \<Rightarrow> szone \<Rightarrow> unit io" where
  "SecondaryDNSZone_save E z = keycloak_resource E (sz_id z) (sz_resource_id z) (\<lambda>r w.
     w\<lparr>szones := upsert sz_id (z\<lparr>sz_zone_root := lower E (sz_zone_root z), sz_resource_id := r\<rparr>) (szones w)\<rparr>)"

definition SecondaryDNSZone_delete :: "ext \<Rightarrow> szone \<Rightarrow> unit io" where
  "SecondaryDNSZone_delete E z = (\<lambda>w. (kc_delete E (events w) (sz_resource_id z), emit (Keycloak_delete (sz_id z))
     (w\<lparr>szones := remove sz_id z (szones w), szone_records := [r \<leftarrow> szone_records w. sr_zone r \<noteq> sz_id z]\<rparr>)))"

end
