(* ===== verification/Lookup.thy ===== *)
theory Lookup
  imports Zone_Models
begin

text \<open>
  The lookups of \<^verbatim>\<open>DnsServiceServicer\<close> in \<^verbatim>\<open>grpc.py\<close>: from a name to its zone, from a name in a zone
  to its records, and the functions that fill a response for one type each. A response is a message
  that is passed on and extended; what is read of the database is the world.

  \<^verbatim>\<open>lookup_cname\<close> calls the lookup it was called from, in the zone of the alias. The first argument
  of the lookups is the depth of nested calls that the interpreter still allows; at depth 0 it raises
  \<^verbatim>\<open>RecursionError\<close>.
\<close>

type_synonym lookup =
  "ext \<Rightarrow> world \<Rightarrow> dns_msg \<Rightarrow> label \<Rightarrow> dnszone \<Rightarrow> label \<Rightarrow> bool \<Rightarrow> dns_msg res"

definition NAMESERVERS :: "pstr list" where
  "NAMESERVERS = [str ''ns1.as207960.net'', str ''ns2.as207960.net'', str ''ns3.as207960.net'', str ''ns4.as207960.net'']"

section \<open>Zones and records\<close>

text \<open>\<^verbatim>\<open>DNSZone.objects.order_by(Length("zone_root").desc())\<close>\<close>

definition zones_by_length :: "world \<Rightarrow> dnszone list" where
  "zones_by_length w = sort_key (\<lambda>z. - int (length (zone_root z))) (dnszones w)"

definition zone_active :: "ext \<Rightarrow> world \<Rightarrow> dnszone \<Rightarrow> bool res" where
  "zone_active E w z =
     (case owner_account E w (z_resource_id z) of
        Inl RequestError \<Rightarrow> Inr True
      | Inl e \<Rightarrow> Inl e
      | Inr a \<Rightarrow> Inr (subscription_active a))"

definition apex_label :: "ext \<Rightarrow> label \<Rightarrow> label" where
  "apex_label E l = (if l = [] then DNSLabel E (str ''@'') else l)"

definition find_zone :: "ext \<Rightarrow> world \<Rightarrow> label \<Rightarrow> (dnszone \<times> label) option res" where
  "find_zone E w qn =
     (case find (\<lambda>z. matchSuffix E qn (DNSLabel E (zone_root z))) (zones_by_length w) of
        None \<Rightarrow> Inr None
      | Some z \<Rightarrow>
          bind_res (zone_active E w z) (\<lambda>active.
            Inr (if active then Some (z, apex_label E (stripSuffix E qn (DNSLabel E (zone_root z)))) else None)))"

definition wildcard :: "label \<Rightarrow> label" where
  "wildcard l = (case l of [] \<Rightarrow> [] | _ # ls \<Rightarrow> str ''*'' # ls)"

definition find_records :: "world \<Rightarrow> model \<Rightarrow> label \<Rightarrow> dnszone \<Rightarrow> zrec list res" where
  "find_records w m rn z =
     bind_res (dotted rn) (\<lambda>search_name.
       let records = filter_name m (z_id z) search_name w in
       if records \<noteq> [] then Inr records
       else bind_res (dotted (wildcard rn)) (\<lambda>wild. Inr (filter_name m (z_id z) wild w)))"

definition parse_https_record_name :: "ext \<Rightarrow> label \<Rightarrow> int \<times> pstr \<times> label" where
  "parse_https_record_name E rn =
     (case rn of
        pp # ps # rest \<Rightarrow>
          if take 1 pp = str ''_'' \<and> take 1 ps = str ''_'' then
            (case (bind_res (py_decode (drop 1 pp)) py_int, py_decode (drop 1 ps)) of
               (Inr port, Inr scheme) \<Rightarrow>
                 (port, scheme, if rest \<noteq> [] then rest else DNSLabel E (str ''@''))
             | _ \<Rightarrow> (443, str ''https'', rn))
          else (443, str ''https'', rn)
      | _ \<Rightarrow> (443, str ''https'', rn))"

definition https_matches :: "int \<Rightarrow> pstr \<Rightarrow> zrec \<Rightarrow> bool" where
  "https_matches port scheme r =
     (case body r of
        HTTPSRecord h \<Rightarrow> h_scheme h = Some scheme \<and> (case h_port h of Some p \<Rightarrow> int p = port | None \<Rightarrow> False)
      | _ \<Rightarrow> False)"

definition any_models :: "bool \<Rightarrow> model list" where
  "any_models include_cname =
     [M_Address, M_DynamicAddress] @ (if include_cname then [M_CNAME] else [])
     @ [M_Redirect, M_MX, M_NS, M_TXT, M_SRV, M_CAA, M_NAPTR, M_SSHFP, M_DS, M_ANAME, M_LOC, M_HINFO, M_RP]"

definition any_records :: "ext \<Rightarrow> world \<Rightarrow> label \<Rightarrow> dnszone \<Rightarrow> bool \<Rightarrow> bool res" where
  "any_records E w rn z include_cname =
     bind_res (dotted rn) (\<lambda>search_name. bind_res (dotted (wildcard rn)) (\<lambda>wild.
       if list_ex (\<lambda>m. filter_name m (z_id z) search_name w \<noteq> [] \<or> filter_name m (z_id z) wild w \<noteq> [])
            (any_models include_cname)
       then Inr True
       else
         (case parse_https_record_name E rn of (port, scheme, rn') \<Rightarrow>
            bind_res (dotted (wildcard rn')) (\<lambda>wild'. bind_res (dotted rn') (\<lambda>name'.
              Inr (list_ex (https_matches port scheme)
                 (filter_name M_HTTPS (z_id z) name' w @ filter_name M_HTTPS (z_id z) wild' w)))))))"

definition qtype_model :: "nat \<Rightarrow> model option" where
  "qtype_model qt =
     (if qt = QT_MX then Some M_MX else if qt = QT_NS then Some M_NS else if qt = QT_TXT then Some M_TXT
      else if qt = QT_SRV then Some M_SRV else if qt = QT_CAA then Some M_CAA
      else if qt = QT_NAPTR then Some M_NAPTR else if qt = QT_SSHFP then Some M_SSHFP
      else if qt = QT_DS then Some M_DS else if qt = QT_LOC then Some M_LOC
      else if qt = QT_HINFO then Some M_HINFO else if qt = QT_RP then Some M_RP
      else if qt = QT_CNAME then Some M_CNAME else None)"

definition address_is :: "nat \<Rightarrow> pstr \<Rightarrow> bool res" where
  "address_is qt text =
     bind_res (parse_ip text) (\<lambda>a. Inr (if is_v4 a then qt = QT_A else qt = QT_AAAA))"

text \<open>The loop that returns True at the first address of the family asked for.\<close>

fun any_address :: "nat \<Rightarrow> pstr list \<Rightarrow> bool res" where
  "any_address qt [] = Inr False"
| "any_address qt (t # ts) = bind_res (address_is qt t) (\<lambda>b. if b then Inr True else any_address qt ts)"

definition any_record_type :: "ext \<Rightarrow> world \<Rightarrow> label \<Rightarrow> dnszone \<Rightarrow> nat \<Rightarrow> bool res" where
  "any_record_type E w rn z qt =
     bind_res (dotted rn) (\<lambda>search_name.
       if qt = QT_A \<or> qt = QT_AAAA then
         bind_res (find_records w M_Address rn z) (\<lambda>rs. any_address qt (map address_of rs))
       else if qt = QT_HTTPS then
         (case parse_https_record_name E rn of (port, scheme, rn') \<Rightarrow>
            bind_res (dotted rn') (\<lambda>name'.
              Inr (list_ex (https_matches port scheme) (filter_name M_HTTPS (z_id z) name' w))))
       else (case qtype_model qt of
               Some m \<Rightarrow> Inr (filter_name m (z_id z) search_name w \<noteq> [])
             | None \<Rightarrow> Inr False))"


section \<open>Answers\<close>

fun fold_res :: "('a \<Rightarrow> 'b \<Rightarrow> 'b res) \<Rightarrow> 'a list \<Rightarrow> 'b \<Rightarrow> 'b res" where
  "fold_res f [] b = Inr b"
| "fold_res f (x # xs) b = bind_res (f x b) (fold_res f xs)"

definition add_opt_ar :: "rr option \<Rightarrow> dns_msg \<Rightarrow> dns_msg" where
  "add_opt_ar x m = (case x of Some r \<Rightarrow> add_ar r m | None \<Rightarrow> m)"

text \<open>Adding what \<^verbatim>\<open>record.to_rr(query_name)\<close> returns; \<^verbatim>\<open>add_answer(None)\<close> would raise.\<close>

definition add_to_rr :: "(rr \<Rightarrow> dns_msg \<Rightarrow> dns_msg) \<Rightarrow> ext \<Rightarrow> label \<Rightarrow> zrec \<Rightarrow> dns_msg \<Rightarrow> dns_msg res" where
  "add_to_rr add E qn r m =
     bind_res (zrec_to_rr E qn r) (\<lambda>x. case x of Some rr \<Rightarrow> Inr (add rr m) | None \<Rightarrow> Inl AttributeError)"

definition additional_dynamic :: "label \<Rightarrow> zrec \<Rightarrow> dns_msg \<Rightarrow> dns_msg res" where
  "additional_dynamic qn r m =
     (case body r of
        DynamicAddressRecord v4 v6 _ \<Rightarrow>
          bind_res (DynamicAddressRecord_to_rr_v4 qn (ttl r) v4) (\<lambda>rr4.
            bind_res (DynamicAddressRecord_to_rr_v6 qn (ttl r) v6) (\<lambda>rr6.
              Inr (add_opt_ar rr6 (add_opt_ar rr4 m))))
      | _ \<Rightarrow> Inr m)"

definition aname_rrs :: "ext \<Rightarrow> world \<Rightarrow> dnszone \<Rightarrow> nat \<Rightarrow> label \<Rightarrow> zrec \<Rightarrow> rr list res" where
  "aname_rrs E w z qt qn r =
     (case body r of ANAMERecord alias \<Rightarrow> ANAMERecord_to_rrs E w z qt qn r alias | _ \<Rightarrow> Inr [])"

definition add_aname :: "ext \<Rightarrow> world \<Rightarrow> dnszone \<Rightarrow> label \<Rightarrow> zrec \<Rightarrow> dns_msg \<Rightarrow> dns_msg res" where
  "add_aname E w z qn r m =
     bind_res (aname_rrs E w z (qtype (msg_q m)) qn r) (\<lambda>rrs. Inr (fold add_answer rrs m))"

definition lookup_additional_addr :: "ext \<Rightarrow> world \<Rightarrow> dns_msg \<Rightarrow> label \<Rightarrow> dns_msg res" where
  "lookup_additional_addr E w m qn =
     bind_res (find_zone E w qn) (\<lambda>f. case f of
       None \<Rightarrow> Inr m
     | Some (z, rn) \<Rightarrow>
         bind_res (find_records w M_Address rn z) (\<lambda>addrs.
           bind_res (fold_res (add_to_rr add_ar E qn) addrs m) (\<lambda>m1.
             if addrs \<noteq> [] then Inr m1
             else
               bind_res (find_records w M_DynamicAddress rn z) (\<lambda>dyn.
                 bind_res (fold_res (additional_dynamic qn) dyn m1) (\<lambda>m2.
                   bind_res (find_records w M_ANAME rn z) (\<lambda>anames.
                     fold_res (add_aname E w z qn) anames m2))))))"

text \<open>
  \<^verbatim>\<open>lookup_referral\<close>. One name server that covers the name gives its NS record, with DNSSEC its DS
  records or the proof that there are none, and its addresses. \<open>ds_auth\<close> stops with \<^verbatim>\<open>SERVFAIL\<close>
  at a DS record without a digest, and the whole lookup with it (\<open>True\<close> in the result).
\<close>

definition ds_rr :: "label \<Rightarrow> zrec \<Rightarrow> rr option res" where
  "ds_rr n r =
     (case body r of
        DSRecord kt al dt dg \<Rightarrow>
          bind_res (pack_H (int kt)) (\<lambda>a. bind_res (pack_B (int al)) (\<lambda>b. bind_res (pack_B (int dt)) (\<lambda>c.
            bind_res (digest_bin dg) (\<lambda>d. case d of
              None \<Rightarrow> Inr None
            | Some bs \<Rightarrow> Inr (if bs = [] then None else Some (mk_rr n QT_DS (RD_raw (a @ b @ c @ bs)) (ttl r)))))))
      | _ \<Rightarrow> Inr None)"

fun ds_auth :: "label \<Rightarrow> zrec list \<Rightarrow> dns_msg \<Rightarrow> (dns_msg \<times> bool) res" where
  "ds_auth n [] m = Inr (m, False)"
| "ds_auth n (r # rs) m =
     bind_res (ds_rr n r) (\<lambda>x. case x of
       None \<Rightarrow> Inr (m\<lparr>rcode := RC_SERVFAIL\<rparr>, True)
     | Some rr \<Rightarrow> ds_auth n rs (add_auth rr m))"

definition referral_dnssec :: "ext \<Rightarrow> world \<Rightarrow> dnszone \<Rightarrow> pstr \<Rightarrow> dns_msg \<Rightarrow> (dns_msg \<times> bool) res" where
  "referral_dnssec E w z nsname m =
     bind_res (find_records w M_DS (DNSLabel E nsname) z) (\<lambda>records.
       let n = DNSLabel E (nsname @ str ''.'' @ zone_root z) in
       bind_res (ds_auth n records m) (\<lambda>(m', stop).
         if stop \<or> records \<noteq> [] then Inr (m', stop)
         else Inr (add_auth (mk_rr n QT_NSEC
                (RD_NSEC (DNSLabel E (nsname @ [0] @ str ''.'' @ zone_root z)) [str ''NS'', str ''RRSIG'', str ''NSEC''])
                86400) m', False)))"

fun referral_loop ::
  "ext \<Rightarrow> world \<Rightarrow> dnszone \<Rightarrow> label \<Rightarrow> bool \<Rightarrow> zrec list \<Rightarrow> bool \<Rightarrow> dns_msg \<Rightarrow> (dns_msg \<times> bool \<times> bool) res" where
  "referral_loop E w z rn dnssec [] found m = Inr (m, found, False)"
| "referral_loop E w z rn dnssec (r # rs) found m =
     (case body r of
        NSRecord nameserver \<Rightarrow>
          if matchSuffix E rn (DNSLabel E (record_name r)) then
            (let ns = DNSLabel E nameserver;
                 m1 = add_auth (mk_rr (DNSLabel E (record_name r @ str ''.'' @ zone_root z)) QT_NS (RD_NS ns) (ttl r)) m in
             bind_res (if dnssec then referral_dnssec E w z (record_name r) m1 else Inr (m1, False)) (\<lambda>(m2, stop).
               if stop then Inr (m2, True, True)
               else bind_res (lookup_additional_addr E w m2 ns) (referral_loop E w z rn dnssec rs True)))
          else referral_loop E w z rn dnssec rs found m
      | _ \<Rightarrow> referral_loop E w z rn dnssec rs found m)"

definition ns_by_length :: "world \<Rightarrow> dnszone \<Rightarrow> zrec list" where
  "ns_by_length w z = sort_key (\<lambda>r. - int (length (record_name r))) (zone_set M_NS (z_id z) w)"

definition lookup_referral :: "ext \<Rightarrow> world \<Rightarrow> dns_msg \<Rightarrow> label \<Rightarrow> dnszone \<Rightarrow> bool \<Rightarrow> dns_msg res" where
  "lookup_referral E w m rn z dnssec =
     bind_res (referral_loop E w z rn dnssec (ns_by_length w z) False m) (\<lambda>(m', found, stop).
       if stop then Inr m'
       else if \<not> found \<and> \<not> label_eq E rn (DNSLabel E (str ''@'')) then
         bind_res (any_records E w rn z True) (\<lambda>b. Inr (if b then m' else m'\<lparr>rcode := RC_NXDOMAIN\<rparr>))
       else Inr m')"

definition alias_of :: "zrec \<Rightarrow> pstr" where
  "alias_of r = (case body r of CNAMERecord alias \<Rightarrow> alias | _ \<Rightarrow> [])"

definition lookup_cname ::
  "ext \<Rightarrow> world \<Rightarrow> dns_msg \<Rightarrow> label \<Rightarrow> dnszone \<Rightarrow> label \<Rightarrow> bool
    \<Rightarrow> (dns_msg \<Rightarrow> label \<Rightarrow> dnszone \<Rightarrow> label \<Rightarrow> bool \<Rightarrow> dns_msg res) \<Rightarrow> dns_msg res" where
  "lookup_cname E w m rn z qn dnssec func =
     bind_res (any_records E w rn z False) (\<lambda>others.
       if others then lookup_referral E w m rn z dnssec
       else bind_res (find_records w M_CNAME rn z) (\<lambda>rs.
         case rs of
           [] \<Rightarrow> lookup_referral E w m rn z dnssec
         | r # _ \<Rightarrow>
             bind_res (add_to_rr add_answer E qn r m) (\<lambda>m1.
               bind_res (find_zone E w (DNSLabel E (alias_of r))) (\<lambda>f.
                 case f of
                   Some (z', rn') \<Rightarrow>
                     if z_id z' \<noteq> z_id z \<and> \<not> label_eq E rn rn'
                     then func m1 rn' z' (DNSLabel E (alias_of r)) dnssec else Inr m1
                 | None \<Rightarrow> Inr m1))))"

text \<open>The lookups that answer with the records of one model, or go on to the CNAME.\<close>

definition records_or ::
  "(zrec \<Rightarrow> dns_msg \<Rightarrow> dns_msg res) \<Rightarrow> model \<Rightarrow> world \<Rightarrow> dns_msg \<Rightarrow> label \<Rightarrow> dnszone
    \<Rightarrow> (dns_msg \<Rightarrow> dns_msg res) \<Rightarrow> dns_msg res" where
  "records_or add md w m rn z otherwise =
     bind_res (find_records w md rn z) (\<lambda>rs.
       bind_res (fold_res add rs m) (\<lambda>m'. if rs = [] then otherwise m' else Inr m'))"

primrec lookup_mx :: "nat \<Rightarrow> lookup" where
  "lookup_mx 0 = (\<lambda>E w m rn z qn d. Inl RecursionError)"
| "lookup_mx (Suc n) = (\<lambda>E w m rn z qn d.
     records_or (add_to_rr add_answer E qn) M_MX w m rn z (\<lambda>m'. lookup_cname E w m' rn z qn d (lookup_mx n E w)))"

definition zone_ns :: "ext \<Rightarrow> world \<Rightarrow> dnszone \<Rightarrow> label \<Rightarrow> dns_msg \<Rightarrow> dns_msg" where
  "zone_ns E w z qn m =
     (let custom = [n \<leftarrow> f_custom_ns w. ns_zone n = z_id z];
          names = (if custom \<noteq> [] then map ns_nameserver custom else NAMESERVERS) in
      fold (\<lambda>ns. add_answer (mk_rr qn QT_NS (RD_NS (DNSLabel E ns)) 86400)) names m)"

primrec lookup_ns :: "nat \<Rightarrow> lookup" where
  "lookup_ns 0 = (\<lambda>E w m rn z qn d. Inl RecursionError)"
| "lookup_ns (Suc n) = (\<lambda>E w m rn z qn d.
     bind_res (find_records w M_NS rn z) (\<lambda>rs.
       bind_res (fold_res (add_to_rr add_answer E qn) rs m) (\<lambda>m1.
         let m2 = (if label_eq E rn (DNSLabel E (str ''@'')) then zone_ns E w z qn m1 else m1) in
         if rs = [] then lookup_cname E w m2 rn z qn d (lookup_ns n E w) else Inr m2)))"

primrec lookup_txt :: "nat \<Rightarrow> lookup" where
  "lookup_txt 0 = (\<lambda>E w m rn z qn d. Inl RecursionError)"
| "lookup_txt (Suc n) = (\<lambda>E w m rn z qn d.
     records_or (add_to_rr add_answer E qn) M_TXT w m rn z (\<lambda>m'. lookup_cname E w m' rn z qn d (lookup_txt n E w)))"

primrec lookup_srv :: "nat \<Rightarrow> lookup" where
  "lookup_srv 0 = (\<lambda>E w m rn z qn d. Inl RecursionError)"
| "lookup_srv (Suc n) = (\<lambda>E w m rn z qn d.
     records_or (add_to_rr add_answer E qn) M_SRV w m rn z (\<lambda>m'. lookup_cname E w m' rn z qn d (lookup_srv n E w)))"

primrec lookup_caa :: "nat \<Rightarrow> lookup" where
  "lookup_caa 0 = (\<lambda>E w m rn z qn d. Inl RecursionError)"
| "lookup_caa (Suc n) = (\<lambda>E w m rn z qn d.
     records_or (add_to_rr add_answer E qn) M_CAA w m rn z (\<lambda>m'.
       bind_res (find_records w M_Redirect rn z) (\<lambda>redirects.
         case redirects of
           r # _ \<Rightarrow> Inr (add_answer (RedirectRecord_to_rr_caa qn (ttl r)) m')
         | [] \<Rightarrow> lookup_cname E w m' rn z qn d (lookup_caa n E w))))"

primrec lookup_naptr :: "nat \<Rightarrow> lookup" where
  "lookup_naptr 0 = (\<lambda>E w m rn z qn d. Inl RecursionError)"
| "lookup_naptr (Suc n) = (\<lambda>E w m rn z qn d.
     records_or (add_to_rr add_answer E qn) M_NAPTR w m rn z (\<lambda>m'. lookup_cname E w m' rn z qn d (lookup_naptr n E w)))"

definition add_sshfp :: "ext \<Rightarrow> label \<Rightarrow> zrec \<Rightarrow> dns_msg \<Rightarrow> dns_msg res" where
  "add_sshfp E qn r m =
     (case body r of
        SSHFPRecord key \<Rightarrow> bind_res (SSHFPRecord_to_rrs E qn (ttl r) key) (\<lambda>rrs. Inr (fold add_answer rrs m))
      | _ \<Rightarrow> Inr m)"

primrec lookup_sshfp :: "nat \<Rightarrow> lookup" where
  "lookup_sshfp 0 = (\<lambda>E w m rn z qn d. Inl RecursionError)"
| "lookup_sshfp (Suc n) = (\<lambda>E w m rn z qn d.
     records_or (add_sshfp E qn) M_SSHFP w m rn z (\<lambda>m'. lookup_cname E w m' rn z qn d (lookup_sshfp n E w)))"

definition add_ds :: "ext \<Rightarrow> label \<Rightarrow> zrec \<Rightarrow> dns_msg \<Rightarrow> dns_msg res" where
  "add_ds E qn r m =
     bind_res (zrec_to_rr E qn r) (\<lambda>x. case x of Some rr \<Rightarrow> Inr (add_answer rr m) | None \<Rightarrow> Inr m)"

primrec lookup_ds :: "nat \<Rightarrow> lookup" where
  "lookup_ds 0 = (\<lambda>E w m rn z qn d. Inl RecursionError)"
| "lookup_ds (Suc n) = (\<lambda>E w m rn z qn d.
     records_or (add_ds E qn) M_DS w m rn z (\<lambda>m'. lookup_cname E w m' rn z qn d (lookup_ds n E w)))"

primrec lookup_loc :: "nat \<Rightarrow> lookup" where
  "lookup_loc 0 = (\<lambda>E w m rn z qn d. Inl RecursionError)"
| "lookup_loc (Suc n) = (\<lambda>E w m rn z qn d.
     records_or (add_to_rr add_answer E qn) M_LOC w m rn z (\<lambda>m'. lookup_cname E w m' rn z qn d (lookup_loc n E w)))"

primrec lookup_hinfo :: "nat \<Rightarrow> lookup" where
  "lookup_hinfo 0 = (\<lambda>E w m rn z qn d. Inl RecursionError)"
| "lookup_hinfo (Suc n) = (\<lambda>E w m rn z qn d.
     records_or (add_to_rr add_answer E qn) M_HINFO w m rn z (\<lambda>m'. lookup_cname E w m' rn z qn d (lookup_hinfo n E w)))"

primrec lookup_rp :: "nat \<Rightarrow> lookup" where
  "lookup_rp 0 = (\<lambda>E w m rn z qn d. Inl RecursionError)"
| "lookup_rp (Suc n) = (\<lambda>E w m rn z qn d.
     records_or (add_to_rr add_answer E qn) M_RP w m rn z (\<lambda>m'. lookup_cname E w m' rn z qn d (lookup_rp n E w)))"

primrec lookup_dhcid :: "nat \<Rightarrow> lookup" where
  "lookup_dhcid 0 = (\<lambda>E w m rn z qn d. Inl RecursionError)"
| "lookup_dhcid (Suc n) = (\<lambda>E w m rn z qn d.
     records_or (add_to_rr add_answer E qn) M_DHCID w m rn z (\<lambda>m'. lookup_cname E w m' rn z qn d (lookup_dhcid n E w)))"

text \<open>\<^verbatim>\<open>lookup_https\<close> hands \<^verbatim>\<open>lookup_sshfp\<close> to \<^verbatim>\<open>lookup_cname\<close>.\<close>

definition lookup_https :: "nat \<Rightarrow> lookup" where
  "lookup_https n E w m rn z qn d =
     (case n of
        0 \<Rightarrow> Inl RecursionError
      | Suc n' \<Rightarrow>
          (case parse_https_record_name E rn of (port, scheme, rn') \<Rightarrow>
             bind_res (find_records w M_HTTPS rn' z) (\<lambda>rs0.
               let rs = [r \<leftarrow> rs0. https_matches port scheme r] in
               bind_res (fold_res (add_to_rr add_answer E qn) rs m) (\<lambda>m'.
                 if rs = [] then lookup_cname E w m' rn z qn d (lookup_sshfp n' E w) else Inr m'))))"

text \<open>
  \<^verbatim>\<open>lookup_addr\<close>: address records, then dynamic ones, then ANAME, then redirections, then CNAME; the
  first kind that yields an address ends the search. Each stage returns whether it did.
\<close>

definition addr_stage :: "label \<Rightarrow> zrec \<Rightarrow> dns_msg \<times> bool \<Rightarrow> (dns_msg \<times> bool) res" where
  "addr_stage qn r acc =
     (case body r of
        AddressRecord text _ \<Rightarrow>
          bind_res (address_is (qtype (msg_q (fst acc))) text) (\<lambda>b.
            if b then bind_res (AddressRecord_to_rr qn (ttl r) text) (\<lambda>rr. Inr (add_answer rr (fst acc), True))
            else Inr acc)
      | _ \<Rightarrow> Inr acc)"

definition dynamic_stage :: "label \<Rightarrow> zrec \<Rightarrow> dns_msg \<times> bool \<Rightarrow> (dns_msg \<times> bool) res" where
  "dynamic_stage qn r acc =
     (case body r of
        DynamicAddressRecord v4 v6 _ \<Rightarrow>
          let qt = qtype (msg_q (fst acc)) in
          bind_res (if qt = QT_A then DynamicAddressRecord_to_rr_v4 qn (ttl r) v4
                    else if qt = QT_AAAA then DynamicAddressRecord_to_rr_v6 qn (ttl r) v6 else Inr None)
            (\<lambda>x. Inr (case x of Some rr \<Rightarrow> (add_answer rr (fst acc), True) | None \<Rightarrow> acc))
      | _ \<Rightarrow> Inr acc)"

definition aname_stage :: "ext \<Rightarrow> world \<Rightarrow> dnszone \<Rightarrow> label \<Rightarrow> zrec \<Rightarrow> dns_msg \<times> bool \<Rightarrow> (dns_msg \<times> bool) res" where
  "aname_stage E w z qn r acc =
     bind_res (aname_rrs E w z (qtype (msg_q (fst acc))) qn r) (\<lambda>rrs.
       Inr (if rrs = [] then acc else (fold add_answer rrs (fst acc), True)))"

definition redirect_stage :: "label \<Rightarrow> zrec list \<Rightarrow> dns_msg \<times> bool \<Rightarrow> (dns_msg \<times> bool) res" where
  "redirect_stage qn rs acc =
     (case rs of
        [] \<Rightarrow> Inr acc
      | r # _ \<Rightarrow>
          let qt = qtype (msg_q (fst acc)) in
          if qt = QT_A then
            bind_res (RedirectRecord_to_rr_v4 qn (ttl r)) (\<lambda>rr. Inr (add_answer rr (fst acc), True))
          else if qt = QT_AAAA then
            bind_res (RedirectRecord_to_rr_v6 qn (ttl r)) (\<lambda>rr. Inr (add_answer rr (fst acc), True))
          else Inr acc)"

definition next_stage ::
  "world \<Rightarrow> model \<Rightarrow> label \<Rightarrow> dnszone \<Rightarrow> (zrec list \<Rightarrow> dns_msg \<times> bool \<Rightarrow> (dns_msg \<times> bool) res)
    \<Rightarrow> dns_msg \<times> bool \<Rightarrow> (dns_msg \<times> bool) res" where
  "next_stage w md rn z f acc =
     (if snd acc then Inr acc else bind_res (find_records w md rn z) (\<lambda>rs. f rs acc))"

primrec lookup_addr :: "nat \<Rightarrow> lookup" where
  "lookup_addr 0 = (\<lambda>E w m rn z qn d. Inl RecursionError)"
| "lookup_addr (Suc n) = (\<lambda>E w m rn z qn d.
     bind_res (next_stage w M_Address rn z (fold_res (addr_stage qn)) (m, False)) (\<lambda>a1.
     bind_res (next_stage w M_DynamicAddress rn z (fold_res (dynamic_stage qn)) a1) (\<lambda>a2.
     bind_res (next_stage w M_ANAME rn z (fold_res (aname_stage E w z qn)) a2) (\<lambda>a3.
     bind_res (next_stage w M_Redirect rn z (redirect_stage qn) a3) (\<lambda>(m', found).
       if found then Inr m' else lookup_cname E w m' rn z qn d (lookup_addr n E w))))))"

end
