(* ===== verification/Tsig.thy ===== *)
theory Tsig
  imports Sample
begin

text \<open>
  The class \<^verbatim>\<open>TSIG\<close> of \<^verbatim>\<open>grpc.py\<close>: the data of a TSIG record, its wire form and the variables that
  enter the message authentication code. Times are microseconds since 1970; the process runs in UTC
  (\<^verbatim>\<open>TIME_ZONE\<close> in \<^verbatim>\<open>settings.py\<close>), so \<^verbatim>\<open>datetime.timestamp\<close> of a naive time is its number of seconds.
\<close>

record tsig =
  alg_name :: label
  time_signed :: nat
  fudge :: nat
  mac :: bytes
  original_id :: nat
  ts_error :: nat
  other_data :: bytes

definition timestamp :: "nat \<Rightarrow> nat" where
  "timestamp t = t div 1000000"

text \<open>\<^verbatim>\<open>(int(time_signed.timestamp()) << 16) | (fudge & 0xFFFF)\<close>\<close>

definition time_word :: "tsig \<Rightarrow> nat" where
  "time_word t = timestamp (time_signed t) * 65536 + fudge t mod 65536"

text \<open>A format like \<^verbatim>\<open>!HHH\<close>: the fields one after another.\<close>

definition pack_seq :: "(nat \<times> nat) list \<Rightarrow> bytes res" where
  "pack_seq fs = bind_res (mapM_res (\<lambda>(w, v). pack_be w (int v)) fs) (\<lambda>bs. Inr (concat bs))"

definition make_tsig :: "ext \<Rightarrow> tsig \<Rightarrow> bytes res" where
  "make_tsig E t =
     bind_res (encode_name_nocompress E (alg_name t)) (\<lambda>n.
       bind_res (pack_seq [(8, time_word t), (2, length (mac t))]) (\<lambda>a.
         bind_res (pack_seq [(2, original_id t), (2, ts_error t), (2, length (other_data t))]) (\<lambda>b.
           Inr (n @ a @ mac t @ b @ other_data t))))"

definition make_variables :: "ext \<Rightarrow> tsig \<Rightarrow> bytes res" where
  "make_variables E t =
     bind_res (encode_name_nocompress E (alg_name t)) (\<lambda>n.
       bind_res (pack_seq [(8, time_word t), (2, ts_error t), (2, length (other_data t))]) (\<lambda>a.
         Inr (n @ a @ other_data t)))"

text \<open>The last second of the year 9999; \<^verbatim>\<open>utcfromtimestamp\<close> raises beyond it.\<close>

definition MAX_TIMESTAMP :: nat where
  "MAX_TIMESTAMP = 253402300799"

definition utcfromtimestamp :: "nat \<Rightarrow> nat res" where
  "utcfromtimestamp s = (if s \<le> MAX_TIMESTAMP then Inr (s * 1000000) else Inl ValueError)"

definition decode_tsig :: "ext \<Rightarrow> bytes \<Rightarrow> tsig res" where
  "decode_tsig E data =
     bind_res (decode_name E data 0) (\<lambda>(alg, off).
       bind_res (unpack_be 8 (drop off data)) (\<lambda>(ts, r1).
       bind_res (unpack_be 2 r1) (\<lambda>(mac_len, r2).
       bind_res (get_bytes mac_len r2) (\<lambda>(m, r3).
       bind_res (unpack_be 2 r3) (\<lambda>(oid, r4).
       bind_res (unpack_be 2 r4) (\<lambda>(err, r5).
       bind_res (unpack_be 2 r5) (\<lambda>(other_len, r6).
       bind_res (get_bytes other_len r6) (\<lambda>(other, r7).
       bind_res (utcfromtimestamp (ts div 65536)) (\<lambda>t.
         Inr \<lparr>alg_name = alg, time_signed = t, fudge = ts mod 65536, mac = m, original_id = oid,
              ts_error = err, other_data = other\<rparr>)))))))))"


section \<open>Round trip\<close>

lemma pack_seq_simps [codec_simps]:
  "pack_seq [] = Inr []"
  "pack_seq ((w, v) # fs) = bind_res (pack_be w (int v)) (\<lambda>b. bind_res (pack_seq fs) (\<lambda>bs. Inr (b @ bs)))"
  by (simp_all add: pack_seq_def bind_res_assoc)

text \<open>The law of \<^verbatim>\<open>dnslib\<close> for names: a written name is read back, whatever follows it.\<close>

definition name_codec :: "ext \<Rightarrow> label \<Rightarrow> bool" where
  "name_codec E l \<longleftrightarrow>
     (\<exists>n. encode_name_nocompress E l = Inr n \<and> (\<forall>rest. decode_name E (n @ rest) 0 = Inr (l, length n)))"

lemma decode_make_tsig:
  assumes "name_codec E (alg_name t)"
    and "timestamp (time_signed t) \<le> MAX_TIMESTAMP" "fudge t < 65536" "length (mac t) < 65536"
    and "original_id t < 65536" "ts_error t < 65536" "length (other_data t) < 65536"
  shows "\<exists>data. make_tsig E t = Inr data
    \<and> decode_tsig E data = Inr (t\<lparr>time_signed := timestamp (time_signed t) * 1000000\<rparr>)"
proof -
  obtain n where n: "encode_name_nocompress E (alg_name t) = Inr n"
    "\<And>rest. decode_name E (n @ rest) 0 = Inr (alg_name t, length n)"
    using assms(1) by (auto simp: name_codec_def)
  have tw: "time_word t < 256 ^ 8" using assms(2,3) by (simp add: time_word_def MAX_TIMESTAMP_def)
  have tw_div: "time_word t div 65536 = timestamp (time_signed t)" "time_word t mod 65536 = fudge t"
    using assms(3) by (simp_all add: time_word_def)
  let ?H = "be_bytes 2"
  let ?data = "n @ be_bytes 8 (time_word t) @ ?H (length (mac t)) @ mac t @ ?H (original_id t) @ ?H (ts_error t)
      @ ?H (length (other_data t)) @ other_data t"
  have "make_tsig E t = Inr ?data"
    using assms n tw by (simp add: make_tsig_def codec_simps)
  moreover have "decode_tsig E ?data = Inr (t\<lparr>time_signed := timestamp (time_signed t) * 1000000\<rparr>)"
    using assms n tw get_bytes_append[of "other_data t" "[]"]
    by (simp add: decode_tsig_def codec_simps utcfromtimestamp_def tw_div)
  ultimately show ?thesis by blast
qed

text \<open>C24: what \<^verbatim>\<open>make_tsig\<close> writes is read back by \<^verbatim>\<open>decode_tsig\<close>, field by field, for every TSIG whose
  fields fit: the time is cut to whole seconds, the fudge to 16 bits, the code and the other data may
  have any content.\<close>

theorem tsig_roundtrip:
  assumes "name_codec E (alg_name t)" "timestamp (time_signed t) \<le> MAX_TIMESTAMP" "fudge t < 65536"
    and "length (mac t) < 65536" "original_id t < 65536" "ts_error t < 65536" "length (other_data t) < 65536"
  shows "\<exists>data. make_tsig E t = Inr data
    \<and> decode_tsig E data = Inr (t\<lparr>time_signed := timestamp (time_signed t) * 1000000\<rparr>)"
  using assms by (rule decode_make_tsig)

theorem tsig_roundtrip_witness:
  "\<exists>data. make_tsig sample_ext \<lparr>alg_name = [], time_signed = 1700000000123456, fudge = 300, mac = [1, 2], original_id = 7,
      ts_error = 0, other_data = []\<rparr> = Inr data
    \<and> decode_tsig sample_ext data = Inr \<lparr>alg_name = [], time_signed = 1700000000000000, fudge = 300, mac = [1, 2],
      original_id = 7, ts_error = 0, other_data = []\<rparr>"
proof -
  have "sample_decode_label 128 (0 # rest) 0 = Inr ([], 1)" for rest
    using sample_decode_label.simps(2)[of 127 "0 # rest" 0] by simp
  then have "name_codec sample_ext []" by (simp add: name_codec_def sample_encode_name_def)
  then show ?thesis
    using tsig_roundtrip[of sample_ext "\<lparr>alg_name = [], time_signed = 1700000000123456, fudge = 300, mac = [1, 2],
      original_id = 7, ts_error = 0, other_data = []\<rparr>"]
    by (simp add: timestamp_def MAX_TIMESTAMP_def)
qed

end
