(* ===== verification/Update.thy ===== *)
theory Update
  imports Lookup Tsig
begin

text \<open>
  The two calls of the service in \<^verbatim>\<open>grpc.py\<close>: \<^verbatim>\<open>AXFRQuery\<close> and \<^verbatim>\<open>UpdateQuery\<close>, dynamic updates of
  RFC 2136 signed with TSIG. \<^verbatim>\<open>handle_update_query\<close> is one function with early returns; the model has
  a definition for each of its phases (request, key and algorithm, signature, time, zone,
  prerequisites, prescan, updates) and composes them in its order. A phase gives the response to
  return early (\<open>Inl\<close>) or what the next phase needs (\<open>Inr\<close>). Only the last phase writes.
\<close>

section \<open>Requests and their signature\<close>

definition TSIG_BADSIG :: nat where "TSIG_BADSIG = 16"
definition TSIG_BADKEY :: nat where "TSIG_BADKEY = 17"
definition TSIG_BADTIME :: nat where "TSIG_BADTIME = 18"

definition HMAC_NAMES :: "(pstr \<times> pstr) list" where
  "HMAC_NAMES =
     [(str ''hmac-md5.sig-alg.reg.int'', str ''md5''), (str ''hmac-sha1'', str ''sha1''),
      (str ''hmac-sha256'', str ''sha256''), (str ''hmac-sha384'', str ''sha384''),
      (str ''hmac-sha512'', str ''sha512'')]"

type_synonym 'a phase = "(dns_msg + 'a) res"

definition leave :: "dns_msg res \<Rightarrow> 'a phase" where
  "leave r = bind_res r (\<lambda>m. Inr (Inl m))"

definition go_on :: "'a phase \<Rightarrow> ('a \<Rightarrow> 'b phase) \<Rightarrow> 'b phase" where
  "go_on p f = bind_res p (\<lambda>x. case x of Inl m \<Rightarrow> Inr (Inl m) | Inr a \<Rightarrow> f a)"

text \<open>What the nested functions of the handler see of its variables.\<close>

record tsig_ctx =
  tc_name :: label
  tc_key :: update_secret
  tc_in :: tsig
  tc_digest :: pstr

definition lower_label :: "ext \<Rightarrow> label \<Rightarrow> label res" where
  "lower_label E l = mapM_res (\<lambda>n. bind_res (py_decode n) (\<lambda>s. Inr (utf8_encode (lower E s)))) l"

definition alg_label :: "ext \<Rightarrow> label \<Rightarrow> pstr res" where
  "alg_label E l =
     bind_res (mapM_res (\<lambda>n. bind_res (py_decode n) (\<lambda>s. Inr (lower E s))) l) (\<lambda>ps. Inr (join [46] ps))"

definition split_tsig :: "dns_msg \<Rightarrow> (rr \<times> dns_msg) option" where
  "split_tsig req =
     (if m_ar req \<noteq> [] \<and> rtype (last (m_ar req)) = QT_TSIG
      then Some (last (m_ar req), req\<lparr>m_ar := butlast (m_ar req)\<rparr>) else None)"

definition find_key :: "ext \<Rightarrow> world \<Rightarrow> label \<Rightarrow> label \<Rightarrow> update_secret option" where
  "find_key E w key_name zone_name =
     (if matchSuffix E key_name zone_name then
        (case typed_uuid E (strip_char 46 (label_str E (stripSuffix E key_name zone_name))) of
           None \<Rightarrow> None
         | Some i \<Rightarrow> find (\<lambda>k. us_id k = i) (update_secrets w))
      else None)"

definition tsig_rr :: "label \<Rightarrow> bytes \<Rightarrow> rr" where
  "tsig_rr n d = \<lparr>rname = n, rtype = QT_TSIG, rclass = CL_ANY, rr_ttl = 0, rdata = RD_raw d\<rparr>"

definition tsig_unsigned_error :: "ext \<Rightarrow> world \<Rightarrow> label \<Rightarrow> dns_msg \<Rightarrow> nat \<Rightarrow> dns_msg res" where
  "tsig_unsigned_error E w key_name res err =
     bind_res (make_tsig E \<lparr>alg_name = DNSLabel E (str ''.''), time_signed = now w, fudge = 300, mac = [],
         original_id = m_id res, ts_error = err, other_data = []\<rparr>)
       (\<lambda>d. Inr (add_ar (tsig_rr key_name d) (res\<lparr>rcode := RC_NOTAUTH\<rparr>)))"

text \<open>From the request to the key and the digest; the context and the request without its TSIG.\<close>

definition update_key :: "ext \<Rightarrow> world \<Rightarrow> dns_msg \<Rightarrow> dns_msg \<Rightarrow> (tsig_ctx \<times> dns_msg \<times> label) phase" where
  "update_key E w req res =
     (if opcode req \<noteq> OP_UPDATE \<or> qclass (msg_q req) \<noteq> CL_IN \<or> qtype (msg_q req) \<noteq> QT_SOA
      then Inr (Inl (res\<lparr>rcode := RC_REFUSED\<rparr>))
      else case split_tsig req of
        None \<Rightarrow> Inr (Inl (res\<lparr>rcode := RC_REFUSED\<rparr>))
      | Some (t, req') \<Rightarrow>
          bind_res (lower_label E (qname (msg_q req'))) (\<lambda>zone_name.
            case find_key E w (rname t) zone_name of
              None \<Rightarrow> leave (tsig_unsigned_error E w (rname t) res TSIG_BADKEY)
            | Some key \<Rightarrow>
                bind_res (case rdata t of RD_raw d \<Rightarrow> decode_tsig E d | _ \<Rightarrow> Inl AttributeError) (\<lambda>incoming.
                  bind_res (alg_label E (alg_name incoming)) (\<lambda>alg.
                    case map_of HMAC_NAMES alg of
                      None \<Rightarrow> leave (tsig_unsigned_error E w (rname t) res TSIG_BADSIG)
                    | Some digest \<Rightarrow>
                        Inr (Inr (\<lparr>tc_name = rname t, tc_key = key, tc_in = incoming, tc_digest = digest\<rparr>,
                                  req'\<lparr>m_id := original_id incoming\<rparr>, zone_name))))))"

definition fill_rdata :: "rr \<Rightarrow> rr" where
  "fill_rdata r = (if rdata r = RD_empty then r\<lparr>rdata := RD_raw []\<rparr> else r)"

definition unfill_rdata :: "rr \<Rightarrow> rr" where
  "unfill_rdata r = (if rdata r = RD_raw [] then r\<lparr>rdata := RD_empty\<rparr> else r)"

definition map_rrs :: "(rr \<Rightarrow> rr) \<Rightarrow> dns_msg \<Rightarrow> dns_msg" where
  "map_rrs f m = m\<lparr>m_rr := map f (m_rr m), m_auth := map f (m_auth m), m_ar := map f (m_ar m)\<rparr>"

definition buf_append :: "dnsbuffer \<Rightarrow> bytes \<Rightarrow> dnsbuffer" where
  "buf_append b d = (fst b @ d, snd b)"

definition put_name :: "ext \<Rightarrow> label \<Rightarrow> dnsbuffer \<Rightarrow> dnsbuffer res" where
  "put_name E l b = bind_res (encode_name_nocompress E l) (\<lambda>n. Inr (buf_append b n))"

definition put_fields :: "(nat \<times> nat) list \<Rightarrow> dnsbuffer \<Rightarrow> dnsbuffer res" where
  "put_fields fs b = bind_res (pack_seq fs) (\<lambda>d. Inr (buf_append b d))"

text \<open>
  The record data in \<^verbatim>\<open>pack_rr_canon\<close>. In \<^verbatim>\<open>dnslib\<close> the class \<^verbatim>\<open>NS\<close> is a subclass of \<^verbatim>\<open>CNAME\<close>.
\<close>

definition canon_rdata :: "ext \<Rightarrow> rr \<Rightarrow> dnsbuffer \<Rightarrow> dnsbuffer res" where
  "canon_rdata E r b =
     (if rtype r = QT_OPT then
        (case rdata r of RD_OPT opts \<Rightarrow> fold_res (\<lambda>x b'. opt_pack E b' x) opts b | _ \<Rightarrow> Inl TypeError)
      else case rdata r of
        RD_MX l p \<Rightarrow> bind_res (put_fields [(2, p)] b) (put_name E l)
      | RD_CNAME l \<Rightarrow> put_name E l b
      | RD_NS l \<Rightarrow> put_name E l b
      | RD_SOA mn rn ts \<Rightarrow>
          bind_res (put_name E mn b) (\<lambda>b1. bind_res (put_name E rn b1) (\<lambda>b2.
            if length ts = 5 then put_fields (map (Pair 4) ts) b2 else Inl StructError))
      | RD_SRV p wt pt t \<Rightarrow> bind_res (put_fields [(2, p), (2, wt), (2, pt)] b) (put_name E t)
      | RD_empty \<Rightarrow> Inl AttributeError
      | d \<Rightarrow> rd_pack E b d)"

definition pack_rr_canon :: "ext \<Rightarrow> rr \<Rightarrow> dnsbuffer \<Rightarrow> dnsbuffer res" where
  "pack_rr_canon E r b0 =
     bind_res (put_name E (rname r) b0) (\<lambda>b1.
     bind_res (put_fields [(2, rtype r), (2, rclass r), (4, rr_ttl r)] b1) (\<lambda>b2.
     bind_res (put_fields [(2, 0)] b2) (\<lambda>b3.
     bind_res (canon_rdata E r b3) (\<lambda>b4.
     bind_res (pack_H (int (length (fst b4)) - int (length (fst b3)))) (\<lambda>len.
       let ptr = length (fst b2) in
       Inr (take ptr (fst b4) @ len @ drop (ptr + 2) (fst b4), snd b4))))))"

definition pack_question :: "ext \<Rightarrow> question \<Rightarrow> dnsbuffer \<Rightarrow> dnsbuffer res" where
  "pack_question E q b = bind_res (encode_name E b (qname q)) (put_fields [(2, qtype q), (2, qclass q)])"

definition pack_canon :: "ext \<Rightarrow> dns_msg \<Rightarrow> bytes res" where
  "pack_canon E m =
     bind_res (header_pack E m) (\<lambda>h.
     bind_res (fold_res (pack_question E) (questions m) (h, [])) (\<lambda>b1.
     bind_res (fold_res (pack_rr_canon E) (m_rr m) b1) (\<lambda>b2.
     bind_res (fold_res (pack_rr_canon E) (m_auth m) b2) (\<lambda>b3.
     bind_res (fold_res (pack_rr_canon E) (m_ar m) b3) (\<lambda>b4. Inr (fst b4))))))"

definition tsig_name_data :: "ext \<Rightarrow> label \<Rightarrow> bytes res" where
  "tsig_name_data E n = bind_res (put_name E n ([], [])) (\<lambda>b. bind_res (put_fields [(2, CL_ANY), (4, 0)] b) (\<lambda>b'. Inr (fst b')))"

definition request_digests :: "ext \<Rightarrow> tsig_ctx \<Rightarrow> dns_msg \<Rightarrow> (bytes \<times> bytes) res" where
  "request_digests E c req =
     bind_res (msg_pack E req) (\<lambda>d.
     bind_res (pack_canon E req) (\<lambda>d2.
     bind_res (tsig_name_data E (tc_name c)) (\<lambda>t.
     bind_res (make_variables E (tc_in c)) (\<lambda>v.
       Inr (hmac E (tc_digest c) (secret (tc_key c)) (d @ t @ v),
            hmac E (tc_digest c) (secret (tc_key c)) (d2 @ t @ v))))))"

definition update_signature :: "ext \<Rightarrow> world \<Rightarrow> tsig_ctx \<Rightarrow> dns_msg \<Rightarrow> dns_msg \<Rightarrow> dns_msg phase" where
  "update_signature E w c req res =
     bind_res (request_digests E c (map_rrs fill_rdata req)) (\<lambda>(digest, digest2).
       if digest \<noteq> mac (tc_in c) \<and> digest2 \<noteq> mac (tc_in c)
       then leave (tsig_unsigned_error E w (tc_name c) res TSIG_BADSIG)
       else Inr (Inr (map_rrs unfill_rdata (map_rrs fill_rdata req))))"

definition sign_resp :: "ext \<Rightarrow> tsig_ctx \<Rightarrow> nat \<Rightarrow> bytes \<Rightarrow> nat \<Rightarrow> dns_msg \<Rightarrow> dns_msg res" where
  "sign_resp E c err other time_now res0 =
     (let res = (if err \<noteq> 0 then res0\<lparr>rcode := RC_NOTAUTH\<rparr> else res0);
          outgoing = \<lparr>alg_name = alg_name (tc_in c), time_signed = time_now, fudge = 300, mac = [],
            original_id = m_id res, ts_error = err, other_data = other\<rparr> in
      bind_res (pack_H (int (length (mac (tc_in c))))) (\<lambda>len.
      bind_res (msg_pack E res) (\<lambda>d.
      bind_res (tsig_name_data E (tc_name c)) (\<lambda>t.
      bind_res (make_variables E outgoing) (\<lambda>v.
      bind_res (make_tsig E (outgoing\<lparr>mac := hmac E (tc_digest c) (secret (tc_key c))
          (len @ mac (tc_in c) @ d @ t @ v)\<rparr>)) (\<lambda>rd.
        Inr (add_ar (tsig_rr (tc_name c) rd) res)))))))"

text \<open>\<^verbatim>\<open>dns_res.header.rcode = code; sign_resp(); return dns_res\<close>\<close>

definition signed_code :: "ext \<Rightarrow> world \<Rightarrow> tsig_ctx \<Rightarrow> dns_msg \<Rightarrow> nat \<Rightarrow> dns_msg res" where
  "signed_code E w c res code = sign_resp E c 0 [] (now w) (res\<lparr>rcode := code\<rparr>)"

definition MAX_TIME :: nat where
  "MAX_TIME = 253402300799999999"

definition update_time :: "ext \<Rightarrow> world \<Rightarrow> tsig_ctx \<Rightarrow> dns_msg \<Rightarrow> unit phase" where
  "update_time E w c res =
     (let signed = time_signed (tc_in c); slack = fudge (tc_in c) * 1000000 in
      if signed + slack > MAX_TIME then Inl OverflowError
      else if now w + slack < signed \<or> now w > signed + slack then
        (let server_timestamp = timestamp (now w) in
         bind_res (pack_seq [(2, server_timestamp div 2 ^ 32 mod 2 ^ 16), (4, server_timestamp mod 2 ^ 32)]) (\<lambda>other.
           leave (sign_resp E c TSIG_BADTIME other signed res)))
      else Inr (Inr ()))"

text \<open>The loop over the zones has no \<^verbatim>\<open>break\<close>: the last zone of that name is taken.\<close>

definition zone_named :: "ext \<Rightarrow> world \<Rightarrow> label \<Rightarrow> dnszone option" where
  "zone_named E w n =
     (case [z \<leftarrow> zones_by_length w. label_eq E n (DNSLabel E (zone_root z))] of [] \<Rightarrow> None | zs \<Rightarrow> Some (last zs))"

definition update_zone :: "ext \<Rightarrow> world \<Rightarrow> tsig_ctx \<Rightarrow> label \<Rightarrow> dns_msg \<Rightarrow> dnszone phase" where
  "update_zone E w c zone_name res =
     (case zone_named E w zone_name of
        None \<Rightarrow> leave (signed_code E w c res RC_NOTAUTH)
      | Some z \<Rightarrow>
          if us_zone (tc_key c) \<noteq> z_id z then leave (signed_code E w c res RC_NOTAUTH) else Inr (Inr z))"


section \<open>Prerequisites and prescan\<close>

type_synonym rrset_dict = "((label \<times> nat) \<times> rr list) list"

fun dict_append :: "ext \<Rightarrow> label \<times> nat \<Rightarrow> rr \<Rightarrow> rrset_dict \<Rightarrow> rrset_dict" where
  "dict_append E k r [] = [(k, [r])]"
| "dict_append E k r ((k', rs) # d) =
     (if label_eq E (fst k) (fst k') \<and> snd k = snd k' then (k', rs @ [r]) # d else (k', rs) # dict_append E k r d)"

text \<open>\<open>Inl code\<close> is an early return with that response code.\<close>

fun prereq_scan ::
  "ext \<Rightarrow> world \<Rightarrow> dnszone \<Rightarrow> label \<Rightarrow> nat \<Rightarrow> rr list \<Rightarrow> rrset_dict \<Rightarrow> (nat + rrset_dict) res" where
  "prereq_scan E w z zone_name qc [] d = Inr (Inr d)"
| "prereq_scan E w z zone_name qc (r # rs) d =
     (if rr_ttl r \<noteq> 0 then Inr (Inl RC_FORMERR)
      else if \<not> matchSuffix E (rname r) zone_name then Inr (Inl RC_NOTZONE)
      else
        let rn = apex_label E (stripSuffix E (rname r) zone_name);
            exists = (if rtype r = QT_ANY then any_records E w rn z True else any_record_type E w rn z (rtype r)) in
        if rclass r = CL_ANY then
          if rdata r \<noteq> RD_empty then Inr (Inl RC_FORMERR)
          else bind_res exists (\<lambda>b.
            if b then prereq_scan E w z zone_name qc rs d
            else Inr (Inl (if rtype r = QT_ANY then RC_NXDOMAIN else RC_NXRRSET)))
        else if rclass r = CL_NONE then
          if rdata r \<noteq> RD_empty then Inr (Inl RC_FORMERR)
          else bind_res exists (\<lambda>b.
            if b then Inr (Inl (if rtype r = QT_ANY then RC_YXDOMAIN else RC_YXRRSET))
            else prereq_scan E w z zone_name qc rs d)
        else if rclass r = qc then prereq_scan E w z zone_name qc rs (dict_append E (rname r, rtype r) r d)
        else Inr (Inl RC_FORMERR))"

definition lookup_of :: "nat \<Rightarrow> (nat \<Rightarrow> lookup) option" where
  "lookup_of rt =
     (if rt = QT_A \<or> rt = QT_AAAA then Some lookup_addr
      else if rt = QT_MX then Some lookup_mx else if rt = QT_NS then Some lookup_ns
      else if rt = QT_TXT then Some lookup_txt else if rt = QT_SRV then Some lookup_srv
      else if rt = QT_CAA then Some lookup_caa else if rt = QT_NAPTR then Some lookup_naptr
      else if rt = QT_SSHFP then Some lookup_sshfp else if rt = QT_DS then Some lookup_ds
      else if rt = QT_LOC then Some lookup_loc else if rt = QT_HINFO then Some lookup_hinfo
      else if rt = QT_RP then Some lookup_rp else if rt = QT_HTTPS then Some lookup_https
      else if rt = QT_DHCID then Some lookup_dhcid else None)"

text \<open>The records found for one RRset, and the response: a CNAME record is added to the response.\<close>

definition prereq_found ::
  "nat \<Rightarrow> ext \<Rightarrow> world \<Rightarrow> dnszone \<Rightarrow> label \<Rightarrow> label \<Rightarrow> nat \<Rightarrow> dns_msg \<Rightarrow> (rr list \<times> dns_msg) res" where
  "prereq_found n E w z rn name rt res =
     (let temp = (msg_new E)\<lparr>questions := questions (msg_new E) @ [\<lparr>qname = name, qtype = rt, qclass = CL_IN\<rparr>]\<rparr> in
      case lookup_of rt of
        Some f \<Rightarrow> bind_res (f n E w temp rn z name False) (\<lambda>m. Inr (m_rr m, res))
      | None \<Rightarrow>
          if rt = QT_CNAME then
            bind_res (find_records w M_CNAME rn z) (\<lambda>rs. case rs of
              [] \<Rightarrow> Inr (m_rr temp, res)
            | r # _ \<Rightarrow> Inr (m_rr temp, add_answer (mk_rr name QT_CNAME (RD_CNAME (DNSLabel E (alias_of r))) (ttl r)) res))
          else Inr (m_rr temp, res))"

text \<open>The response after the loop, and whether the values of every RRset were as required.\<close>

fun prereq_match ::
  "nat \<Rightarrow> ext \<Rightarrow> world \<Rightarrow> dnszone \<Rightarrow> label \<Rightarrow> rrset_dict \<Rightarrow> dns_msg \<Rightarrow> (dns_msg \<times> bool) res" where
  "prereq_match n E w z zone_name [] res = Inr (res, True)"
| "prereq_match n E w z zone_name (((name, rt), vals) # d) res =
     bind_res (prereq_found n E w z (apex_label E (stripSuffix E name zone_name)) name rt res) (\<lambda>(found, res').
     bind_res (sort_rrs E vals) (\<lambda>vals'.
     bind_res (sort_rrs E (map (\<lambda>r. r\<lparr>rr_ttl := 0\<rparr>) found)) (\<lambda>found'.
       if rr_list_eq E vals' found' then prereq_match n E w z zone_name d res' else Inr (res', False))))"

definition update_prereq ::
  "nat \<Rightarrow> ext \<Rightarrow> world \<Rightarrow> tsig_ctx \<Rightarrow> dnszone \<Rightarrow> label \<Rightarrow> dns_msg \<Rightarrow> dns_msg \<Rightarrow> dns_msg phase" where
  "update_prereq n E w c z zone_name req res =
     bind_res (prereq_scan E w z zone_name (qclass (msg_q req)) (m_rr req) []) (\<lambda>x. case x of
       Inl code \<Rightarrow> leave (signed_code E w c res code)
     | Inr d \<Rightarrow> bind_res (prereq_match n E w z zone_name d res) (\<lambda>(res', ok).
         if ok then Inr (Inr res') else leave (signed_code E w c res' RC_YXRRSET)))"

definition supported_types :: "nat list" where
  "supported_types = [QT_A, QT_AAAA, QT_MX, QT_NS, QT_TXT, QT_SRV, QT_CAA, QT_NAPTR, QT_DS, QT_LOC, QT_HINFO, QT_RP,
     QT_CNAME, QT_DHCID]"

fun prescan :: "ext \<Rightarrow> label \<Rightarrow> nat \<Rightarrow> rr list \<Rightarrow> nat option" where
  "prescan E zone_name qc [] = None"
| "prescan E zone_name qc (r # rs) =
     (if rclass r \<notin> {CL_ANY, CL_NONE, qc} then Some RC_YXRRSET
      else if \<not> matchSuffix E (rname r) zone_name then Some RC_NOTZONE
      else if rclass r = qc then
        if rtype r \<notin> set supported_types then Some RC_FORMERR else prescan E zone_name qc rs
      else if rclass r = CL_ANY then
        if rdata r \<noteq> RD_empty \<or> rtype r \<notin> set (supported_types @ [QT_ANY]) \<or> rr_ttl r \<noteq> 0
        then Some RC_FORMERR else prescan E zone_name qc rs
      else if rclass r = CL_NONE then
        if rr_ttl r \<noteq> 0 \<or> rtype r \<notin> set supported_types then Some RC_FORMERR else prescan E zone_name qc rs
      else Some RC_FORMERR)"


section \<open>Updates\<close>

definition update_model :: "nat \<Rightarrow> model option" where
  "update_model rt =
     (if rt = QT_A \<or> rt = QT_AAAA then Some M_Address
      else if rt = QT_MX then Some M_MX else if rt = QT_NS then Some M_NS
      else if rt = QT_TXT then Some M_TXT else if rt = QT_SRV then Some M_SRV
      else if rt = QT_CAA then Some M_CAA else if rt = QT_NAPTR then Some M_NAPTR
      else if rt = QT_DS then Some M_DS else if rt = QT_LOC then Some M_LOC
      else if rt = QT_HINFO then Some M_HINFO else if rt = QT_RP then Some M_RP
      else if rt = QT_DHCID then Some M_DHCID else if rt = QT_CNAME then Some M_CNAME else None)"

definition get_record_models :: "world \<Rightarrow> dnszone \<Rightarrow> nat \<Rightarrow> label \<Rightarrow> zrec list option res" where
  "get_record_models w z rt rn =
     (case update_model rt of
        None \<Rightarrow> Inr None
      | Some m \<Rightarrow> bind_res (find_records w m rn z) (\<lambda>rs. Inr (Some rs)))"

definition TYPE_UNLIMITED :: pstr where "TYPE_UNLIMITED = str ''U''"
definition TYPE_ACME_DNS01 :: pstr where "TYPE_ACME_DNS01 = str ''D''"

definition can_manage :: "ext \<Rightarrow> update_secret \<Rightarrow> nat \<Rightarrow> label \<Rightarrow> bool res" where
  "can_manage E key rt rn =
     (if restrict_to key \<noteq> str ''@'' \<and> \<not> matchSuffix E rn (DNSLabel E (restrict_to key)) then Inr False
      else if us_type key = TYPE_UNLIMITED then Inr True
      else if us_type key = TYPE_ACME_DNS01 then
        (case rn of [] \<Rightarrow> Inl IndexError | l # _ \<Rightarrow> Inr (l = str ''_acme-challenge'' \<and> rt = QT_TXT))
      else Inr False)"

text \<open>\<^verbatim>\<open>record.to_rr(rr.rname)\<close>, of which an attribute is read next.\<close>

definition row_rr :: "ext \<Rightarrow> label \<Rightarrow> zrec \<Rightarrow> rr io" where
  "row_rr E n r =
     bind_act (lift_res (zrec_to_rr E n r)) (\<lambda>x. case x of None \<Rightarrow> throw AttributeError | Some rr \<Rightarrow> ret rr)"

definition try_update :: "ext \<Rightarrow> dnszone \<Rightarrow> label \<Rightarrow> rr \<Rightarrow> bool io" where
  "try_update E z rn r =
     bind_act (asks_res (\<lambda>w. if rtype r = QT_CNAME then any_records E w rn z False
                             else any_record_type E w rn z QT_CNAME)) (\<lambda>conflict.
       if conflict then ret False
       else bind_act (asks_res (\<lambda>w. get_record_models w z (rtype r) rn)) (\<lambda>records. case records of
         None \<Rightarrow> ret True
       | Some rows \<Rightarrow>
           bind_act (for_until rows (\<lambda>row. bind_act (row_rr E (rname r) row) (\<lambda>row_rr.
             if rdata_eq E (rdata r) (rdata row_rr)
             then bind_act (lift_res (zrec_update_from_rr E z r row)) (\<lambda>row'. seq (zrec_save E z row') (ret (Some ())))
             else ret None)))
           (\<lambda>done. ret (done = None))))"

definition add_rr :: "ext \<Rightarrow> update_secret \<Rightarrow> dnszone \<Rightarrow> label \<Rightarrow> rr \<Rightarrow> nat option io" where
  "add_rr E key z rn r =
     bind_act (lift_res (can_manage E key (rtype r) rn)) (\<lambda>ok.
       if \<not> ok then ret (Some RC_NOTAUTH)
       else case update_model (rtype r) of
         None \<Rightarrow> ret None
       | Some m \<Rightarrow>
           bind_act (new_id E) (\<lambda>i. bind_act (lift_res (model_from_rr E m i z r)) (\<lambda>new_record.
             bind_act (try_update E z rn r) (\<lambda>fresh.
               if fresh then seq (zrec_save E z new_record) (ret None) else ret None))))"

definition any_delete_models :: "model list" where
  "any_delete_models = [M_Address, M_MX, M_NS, M_TXT, M_SRV, M_CAA, M_NAPTR, M_DS, M_LOC, M_HINFO, M_RP, M_CNAME, M_DHCID]"

definition delete_all :: "ext \<Rightarrow> update_secret \<Rightarrow> dnszone \<Rightarrow> label \<Rightarrow> rr \<Rightarrow> nat option io" where
  "delete_all E key z rn r =
     for_until any_delete_models (\<lambda>m.
       bind_act (asks_res (\<lambda>w. find_records w m rn z)) (\<lambda>rows. for_until rows (\<lambda>row.
         bind_act (row_rr E (rname r) row) (\<lambda>row_rr.
           bind_act (lift_res (can_manage E key (rtype row_rr) rn)) (\<lambda>ok.
             if \<not> ok then ret (Some RC_NOTAUTH) else seq (zrec_delete E row) (ret None))))))"

text \<open>The deletion of an RRset, and of the records of an RRset with the given data.\<close>

definition delete_matching ::
  "ext \<Rightarrow> update_secret \<Rightarrow> dnszone \<Rightarrow> label \<Rightarrow> rr \<Rightarrow> (rr \<Rightarrow> bool) \<Rightarrow> zrec list \<Rightarrow> nat option io" where
  "delete_matching E key z rn r P rows =
     bind_act (lift_res (can_manage E key (rtype r) rn)) (\<lambda>ok.
       if \<not> ok then ret (Some RC_NOTAUTH)
       else seq (for_each rows (\<lambda>row. bind_act (row_rr E (rname r) row) (\<lambda>row_rr.
              if P row_rr then zrec_delete E row else ret ())))
            (ret None))"

definition delete_rrset :: "ext \<Rightarrow> update_secret \<Rightarrow> dnszone \<Rightarrow> label \<Rightarrow> rr \<Rightarrow> nat option io" where
  "delete_rrset E key z rn r =
     bind_act (asks_res (\<lambda>w. get_record_models w z (rtype r) rn)) (\<lambda>records.
       delete_matching E key z rn r (\<lambda>row_rr. rtype row_rr = rtype r)
         (case records of None \<Rightarrow> [] | Some rows \<Rightarrow> rows))"

definition delete_rr :: "ext \<Rightarrow> update_secret \<Rightarrow> dnszone \<Rightarrow> label \<Rightarrow> rr \<Rightarrow> nat option io" where
  "delete_rr E key z rn r =
     bind_act (asks_res (\<lambda>w. get_record_models w z (rtype r) rn)) (\<lambda>records. case records of
       None \<Rightarrow> ret None
     | Some rows \<Rightarrow>
         delete_matching E key z rn r
           (\<lambda>row_rr. rdata_eq E (rdata r) (rdata row_rr) \<and> rtype row_rr = rtype r) rows)"

definition apply_update :: "ext \<Rightarrow> update_secret \<Rightarrow> dnszone \<Rightarrow> label \<Rightarrow> nat \<Rightarrow> rr \<Rightarrow> nat option io" where
  "apply_update E key z zone_name qc r =
     (let rn = stripSuffix E (rname r) zone_name in
      if rclass r = qc then add_rr E key z rn r
      else if rclass r = CL_ANY then
        if rtype r = QT_ANY then delete_all E key z rn r else delete_rrset E key z rn r
      else if rclass r = CL_NONE then delete_rr E key z rn r
      else ret None)"

definition apply_updates :: "ext \<Rightarrow> tsig_ctx \<Rightarrow> dnszone \<Rightarrow> label \<Rightarrow> dns_msg \<Rightarrow> dns_msg \<Rightarrow> dns_msg io" where
  "apply_updates E c z zone_name req res =
     bind_act (for_until (m_auth req) (apply_update E (tc_key c) z zone_name (qclass (msg_q req)))) (\<lambda>code.
       case code of
         Some x \<Rightarrow> asks_res (\<lambda>w. signed_code E w c res x)
       | None \<Rightarrow> asks_res (\<lambda>w. sign_resp E c 0 [] (now w) res))"


section \<open>The handlers\<close>

text \<open>All checks of \<^verbatim>\<open>handle_update_query\<close> before it writes, from the signature on.\<close>

definition update_checks ::
  "nat \<Rightarrow> ext \<Rightarrow> world \<Rightarrow> tsig_ctx \<Rightarrow> dns_msg \<Rightarrow> label \<Rightarrow> dns_msg \<Rightarrow> (dnszone \<times> dns_msg \<times> dns_msg) phase" where
  "update_checks n E w c req zone_name res =
     go_on (update_signature E w c req res) (\<lambda>req'.
     go_on (update_time E w c res) (\<lambda>_.
     go_on (update_zone E w c zone_name res) (\<lambda>z.
     go_on (update_prereq n E w c z zone_name req' res) (\<lambda>res'.
       case prescan E zone_name (qclass (msg_q req')) (m_auth req') of
         Some code \<Rightarrow> leave (signed_code E w c res' code)
       | None \<Rightarrow> Inr (Inr (z, req', res'))))))"

definition handle_update_query :: "nat \<Rightarrow> ext \<Rightarrow> dns_msg \<Rightarrow> dns_msg io" where
  "handle_update_query n E req =
     (let res = msg_reply E req in
      bind_act (asks_res (\<lambda>w.
          go_on (update_key E w req res) (\<lambda>(c, req', zone_name).
          go_on (update_checks n E w c req' zone_name res) (\<lambda>(z, req'', res').
            Inr (Inr (c, z, zone_name, req'', res'))))))
        (\<lambda>x. case x of
           Inl m \<Rightarrow> ret m
         | Inr (c, z, zone_name, req'', res') \<Rightarrow> apply_updates E c z zone_name req'' res'))"

text \<open>
  The handler changes the request it is given: from the check of the signature on it carries the
  identifier of the TSIG record. The response to an exception replies to the changed request.
\<close>

definition request_after :: "ext \<Rightarrow> world \<Rightarrow> dns_msg \<Rightarrow> dns_msg" where
  "request_after E w req =
     (case update_key E w req (msg_reply E req) of Inr (Inr (c, req', zone_name)) \<Rightarrow> req' | _ \<Rightarrow> req)"

definition UpdateQuery :: "nat \<Rightarrow> ext \<Rightarrow> bytes \<Rightarrow> bytes io" where
  "UpdateQuery n E data w =
     (case msg_parse E data of
        Inl DNSError \<Rightarrow> (msg_pack E ((msg_new E)\<lparr>rcode := RC_FORMERR\<rparr>), w)
      | Inl e \<Rightarrow> (Inl e, w)
      | Inr req \<Rightarrow>
          (case handle_update_query n E req w of
             (Inl e, w') \<Rightarrow> (msg_pack E ((msg_reply E (request_after E w req))\<lparr>rcode := RC_SERVFAIL\<rparr>), w')
           | (Inr res, w') \<Rightarrow> (msg_pack E res, w')))"

definition soa_answer :: "ext \<Rightarrow> dnszone \<Rightarrow> rr" where
  "soa_answer E z =
     mk_rr (DNSLabel E (zone_root z)) QT_SOA
       (RD_SOA (DNSLabel E (hd NAMESERVERS)) (DNSLabel E (str ''noc.as207960.net''))
          [timestamp (z_last_modified z), 86400, 7200, 3600000, 172800]) 86400"

definition handle_axfr_query :: "ext \<Rightarrow> world \<Rightarrow> dns_msg \<Rightarrow> dns_msg list res" where
  "handle_axfr_query E w req =
     (let res = msg_reply E req in
      if opcode req \<noteq> OP_QUERY then Inr [res\<lparr>rcode := RC_REFUSED\<rparr>]
      else bind_res (lower_label E (qname (msg_q req))) (\<lambda>query_name.
        case zone_named E w query_name of
          None \<Rightarrow> Inr [res\<lparr>rcode := RC_REFUSED\<rparr>]
        | Some z \<Rightarrow>
            let soa = add_answer (soa_answer E z) (msg_reply E req) in Inr [soa, res, soa]))"

text \<open>
  The packets that \<^verbatim>\<open>AXFRQuery\<close> yields, and the exception that ends the stream if one does:
  \<^verbatim>\<open>handle_axfr_query\<close> is a generator, so it runs in the loop after the \<^verbatim>\<open>try\<close> statement.
\<close>

fun pack_stream :: "ext \<Rightarrow> dns_msg list \<Rightarrow> bytes list \<times> exn option" where
  "pack_stream E [] = ([], None)"
| "pack_stream E (m # ms) =
     (case msg_pack E m of
        Inl e \<Rightarrow> ([], Some e)
      | Inr d \<Rightarrow> (case pack_stream E ms of (ds, e) \<Rightarrow> (d # ds, e)))"

definition AXFRQuery :: "ext \<Rightarrow> world \<Rightarrow> bytes \<Rightarrow> bytes list \<times> exn option" where
  "AXFRQuery E w data =
     (case msg_parse E data of
        Inl DNSError \<Rightarrow> pack_stream E [(msg_new E)\<lparr>rcode := RC_FORMERR\<rparr>]
      | Inl e \<Rightarrow> ([], Some e)
      | Inr req \<Rightarrow>
          (case handle_axfr_query E w req of
             Inl e \<Rightarrow> ([], Some e)
           | Inr ms \<Rightarrow> pack_stream E ms))"

end
