(* ===== verification/Zone_Frame.thy ===== *)
theory Zone_Frame
  imports Zone_Models
begin

text \<open>
  The frame of operations on the records of one zone: rows of other zones and all other tables stay,
  queued tasks are only added and concern this zone, row identifiers stay unique and fresh. The
  relation \<open>zone_step\<close> meets the contract \<open>step_rel\<close>, so it passes from the saving and deleting
  of single rows to whatever is composed of them.
\<close>

definition db_ok :: "ext \<Rightarrow> world \<Rightarrow> bool" where
  "db_ok E w \<longleftrightarrow> distinct (map pk (zrecs w))
     \<and> (\<forall>r \<in> set (zrecs w). \<forall>n \<ge> next_uuid w. r_id r \<noteq> uuid E n)"

definition frame :: "pstr \<Rightarrow> world \<Rightarrow> world \<Rightarrow> bool" where
  "frame zid w w' \<longleftrightarrow>
     [r \<leftarrow> zrecs w'. r_zone r \<noteq> zid] = [r \<leftarrow> zrecs w. r_zone r \<noteq> zid]
     \<and> next_uuid w \<le> next_uuid w'
     \<and> (\<exists>qs es. set qs \<subseteq> {UpdateFzone zid}
          \<and> w' = w\<lparr>zrecs := zrecs w', queue := queue w @ qs, events := events w @ es, next_uuid := next_uuid w'\<rparr>)"

definition zone_step :: "ext \<Rightarrow> pstr \<Rightarrow> world \<Rightarrow> world \<Rightarrow> bool" where
  "zone_step E zid w w' \<longleftrightarrow> (db_ok E w \<longrightarrow> db_ok E w' \<and> frame zid w w')"

lemma frame_refl: "frame zid w w"
  by (auto simp: frame_def intro!: exI[of _ "[]"])

lemma frame_trans:
  assumes "frame zid u v" "frame zid v w"
  shows "frame zid u w"
proof -
  obtain qs es where uv: "set qs \<subseteq> {UpdateFzone zid}"
    "v = u\<lparr>zrecs := zrecs v, queue := queue u @ qs, events := events u @ es, next_uuid := next_uuid v\<rparr>"
    using assms(1) by (auto simp: frame_def)
  obtain qs' es' where vw: "set qs' \<subseteq> {UpdateFzone zid}"
    "w = v\<lparr>zrecs := zrecs w, queue := queue v @ qs', events := events v @ es', next_uuid := next_uuid w\<rparr>"
    using assms(2) by (auto simp: frame_def)
  have "queue v = queue u @ qs" "events v = events u @ es" by (subst uv(2), simp)+
  then have "w = u\<lparr>zrecs := zrecs w, queue := queue u @ (qs @ qs'), events := events u @ (es @ es'),
      next_uuid := next_uuid w\<rparr>"
    by (subst vw(2), subst uv(2)) simp
  then show ?thesis
    using assms uv(1) vw(1) unfolding frame_def
    by (intro conjI exI[of _ "qs @ qs'"] exI[of _ "es @ es'"]) auto
qed

interpretation zstep: step_rel "zone_step E zid" for E zid
proof
  show "zone_step E zid s s" for s by (simp add: zone_step_def frame_refl)
  show "zone_step E zid s t \<Longrightarrow> zone_step E zid t u \<Longrightarrow> zone_step E zid s u" for s t u
    by (auto simp: zone_step_def intro: frame_trans)
qed

text \<open>The identifier of a record is not that of a row of another zone, nor one still to be drawn.\<close>

definition known :: "ext \<Rightarrow> pstr \<Rightarrow> zrec \<Rightarrow> world \<Rightarrow> bool" where
  "known E zid r w \<longleftrightarrow> db_ok E w \<and> (\<forall>s \<in> set (zrecs w). pk s = pk r \<longrightarrow> r_zone s = zid)
     \<and> (\<forall>n \<ge> next_uuid w. r_id r \<noteq> uuid E n)"

lemma known_stable: "known E zid r s \<Longrightarrow> zone_step E zid s t \<Longrightarrow> known E zid r t"
proof -
  assume k: "known E zid r s" and st: "zone_step E zid s t"
  then have f: "db_ok E t" "[r \<leftarrow> zrecs t. r_zone r \<noteq> zid] = [r \<leftarrow> zrecs s. r_zone r \<noteq> zid]"
    "next_uuid s \<le> next_uuid t"
    by (auto simp: known_def zone_step_def frame_def)
  have "r_zone x = zid" if "x \<in> set (zrecs t)" "pk x = pk r" for x
  proof (rule ccontr)
    assume "r_zone x \<noteq> zid"
    then have "x \<in> set [r \<leftarrow> zrecs t. r_zone r \<noteq> zid]" using that by simp
    then show False using that k \<open>r_zone x \<noteq> zid\<close> unfolding f(2) by (auto simp: known_def)
  qed
  then show ?thesis using k f by (auto simp: known_def)
qed

lemma known_cong: "pk r = pk r' \<Longrightarrow> known E zid r w \<longleftrightarrow> known E zid r' w"
  by (simp add: known_def pk_def)

lemma known_row: "db_ok E w \<Longrightarrow> r \<in> set (zrecs w) \<Longrightarrow> r_zone r = zid \<Longrightarrow> known E zid r w"
  unfolding known_def db_ok_def by (metis distinct_map inj_on_eq_iff)

lemma known_fresh:
  "inj (uuid E) \<Longrightarrow> db_ok E w \<Longrightarrow> r_id r = uuid E (next_uuid w) \<Longrightarrow>
     known E zid r (w\<lparr>next_uuid := next_uuid w + 1\<rparr>)"
  by (auto simp: known_def db_ok_def pk_def inj_eq)

lemma new_id_step: "obeys P (zone_step E zid) (new_id E)"
  by (auto simp: obeys_def new_id_def zone_step_def db_ok_def frame_def intro!: exI[of _ "[]"])

lemma frameI:
  "[s \<leftarrow> rs. r_zone s \<noteq> zid] = [s \<leftarrow> zrecs w. r_zone s \<noteq> zid] \<Longrightarrow> set qs \<subseteq> {UpdateFzone zid} \<Longrightarrow>
     frame zid w (w\<lparr>queue := queue w @ qs, events := events w @ es, zrecs := rs\<rparr>)"
  unfolding frame_def by (intro conjI exI[of _ qs] exI[of _ es]) simp_all

lemma upsert_frame:
  assumes "known E zid r w" "pk row = pk r" "r_zone row = zid" "set qs \<subseteq> {UpdateFzone zid}"
  shows "zone_step E zid w
    (w\<lparr>queue := queue w @ qs, events := events w @ es, zrecs := upsert pk row (zrecs w)\<rparr>)"
proof -
  have id: "r_id row = r_id r" using assms(2) by (simp add: pk_def)
  have "[s \<leftarrow> upsert pk row (zrecs w). r_zone s \<noteq> zid] = [s \<leftarrow> zrecs w. r_zone s \<noteq> zid]"
    using assms by (intro filter_upsert_outside) (auto simp: known_def)
  moreover have "\<forall>s \<in> set (upsert pk row (zrecs w)). \<forall>n \<ge> next_uuid w. r_id s \<noteq> uuid E n"
    using assms(1) id by (auto simp: set_upsert known_def db_ok_def)
  moreover have "distinct (map pk (upsert pk row (zrecs w)))"
    using assms(1) by (simp add: distinct_upsert known_def db_ok_def)
  ultimately show ?thesis
    unfolding zone_step_def using assms(4) by (simp add: db_ok_def frameI)
qed

lemma remove_frame:
  assumes "known E zid r w" "set qs \<subseteq> {UpdateFzone zid}"
  shows "zone_step E zid w
    (w\<lparr>queue := queue w @ qs, events := events w @ es, zrecs := remove pk r (zrecs w)\<rparr>)"
proof -
  have "[s \<leftarrow> remove pk r (zrecs w). r_zone s \<noteq> zid] = [s \<leftarrow> zrecs w. r_zone s \<noteq> zid]"
    using assms by (intro filter_remove_outside) (auto simp: known_def)
  moreover have "\<forall>s \<in> set (remove pk r (zrecs w)). \<forall>n \<ge> next_uuid w. r_id s \<noteq> uuid E n"
    using assms(1) by (auto simp: remove_def known_def db_ok_def)
  moreover have "distinct (map pk (remove pk r (zrecs w)))"
    using assms(1) by (simp add: distinct_remove known_def db_ok_def)
  ultimately show ?thesis
    unfolding zone_step_def using assms(2) by (simp add: db_ok_def frameI)
qed

lemma queue_frame:
  "set qs \<subseteq> {UpdateFzone zid} \<Longrightarrow>
     zone_step E zid w (w\<lparr>queue := queue w @ qs, events := events w @ es\<rparr>)"
  by (auto simp: zone_step_def frame_def db_ok_def intro!: exI[of _ qs] exI[of _ es])

lemma zrec_save_step:
  assumes "r_zone r = zid"
  shows "obeys (known E zid r) (zone_step E zid) (zrec_save E z r)"
  unfolding obeys_def
proof (intro allI impI)
  fix w
  assume k: "known E zid r w"
  obtain x w' where run: "zrec_save E z r w = (x, w')" by fastforce
  then show "zone_step E zid w (snd (zrec_save E z r w))"
    using zrec_save_cases[OF run] upsert_frame[OF k] queue_frame[of "[UpdateFzone zid]"] assms written_simps
    by (auto simp: run)
qed

lemma zrec_delete_step:
  assumes "r_zone r = zid"
  shows "obeys (known E zid r) (zone_step E zid) (zrec_delete E r)"
  unfolding obeys_def
proof (intro allI impI)
  fix w
  assume k: "known E zid r w"
  obtain x w' where run: "zrec_delete E r w = (x, w')" by fastforce
  then show "zone_step E zid w (snd (zrec_delete E r w))"
    using zrec_delete_cases[OF run] remove_frame[OF k, of "[UpdateFzone zid]"] remove_frame[OF k, of "[]"]
      queue_frame[of "[UpdateFzone zid]"] assms
    by (auto simp: run)
qed

lemma queryset_delete_step:
  assumes "\<And>r. P r \<Longrightarrow> r_zone r = zid"
  shows "obeys Q (zone_step E zid) (queryset_delete P)"
proof -
  have "[r \<leftarrow> [r \<leftarrow> zrecs w. \<not> P r]. r_zone r \<noteq> zid] = [r \<leftarrow> zrecs w. r_zone r \<noteq> zid]" for w
    using assms by (auto simp: filter_filter intro!: filter_cong)
  then show ?thesis
    by (auto simp: obeys_def queryset_delete_def modify_def zone_step_def frame_def db_ok_def
        distinct_map_filter intro!: exI[of _ "[]"])
qed

text \<open>Building and saving a new object of the zone.\<close>

lemma db_ok_stable: "db_ok E s \<Longrightarrow> zone_step E zid s t \<Longrightarrow> db_ok E t"
  by (simp add: zone_step_def)

lemma new_record_step:
  assumes "inj (uuid E)" "\<And>i r. f i = Inr r \<Longrightarrow> r_zone r = zid \<and> r_id r = i"
    and "\<And>r. r_zone r = zid \<Longrightarrow> obeys (known E zid r) (zone_step E zid) (g r)"
  shows "obeys (db_ok E) (zone_step E zid) (bind_act (new_id E) (\<lambda>i. bind_act (lift_res (f i)) g))"
proof (rule zstep.obeys_bind_strong[OF new_id_step])
  fix s i t
  assume "db_ok E s" "new_id E s = (Inr i, t)"
  then have i: "i = uuid E (next_uuid s)" and t: "t = s\<lparr>next_uuid := next_uuid s + 1\<rparr>"
    by (auto simp: new_id_def)
  show "zone_step E zid t (snd (bind_act (lift_res (f i)) g t))"
  proof (cases "f i")
    case (Inr r)
    note r = assms(2)[OF Inr]
    then have "known E zid r t" using known_fresh[OF assms(1) \<open>db_ok E s\<close>] i t by simp
    then show ?thesis
      using assms(3)[of r] r Inr by (simp add: obeys_def bind_act_def lift_res_def)
  qed (simp add: bind_act_def lift_res_def zstep.R_refl)
qed

end
