(* ===== verification/Zone_Props.thy ===== *)
theory Zone_Props
  imports Zone_Frame
begin

text \<open>
  What creating, importing and deleting zones guarantees. \<open>inv\<close> is the contract \<open>step_rel\<close> for the
  relation ``the invariant \<open>Q\<close>, if it held, still holds''.
\<close>

interpretation inv: step_rel "\<lambda>s t. Q s \<longrightarrow> Q t" for Q :: "world \<Rightarrow> bool"
  by unfold_locales auto

lemma new_id_bind: "bind_act (new_id E) f s = f (uuid E (next_uuid s)) (s\<lparr>next_uuid := next_uuid s + 1\<rparr>)"
  by (simp add: bind_act_def new_id_def)

lemma zrec_save_plain_run:
  assumes "zmodel r \<noteq> M_Redirect" "written E r = Inr row"
  shows "zrec_save E z r w = (Inr (), (delay (UpdateFzone (r_zone r)) w)\<lparr>zrecs := upsert pk row (zrecs w)\<rparr>)"
  using assms
  by (simp add: zrec_save_plain touch_zone_def seq_def bind_act_def modify_def row_save_stored)

section \<open>Import of zone files\<close>

lemma from_rr_frame_id: "from_rr_frame E i z rr b = Inr r \<Longrightarrow> r_zone r = z_id z \<and> r_id r = i"
  by (auto simp: from_rr_frame_def new_zrec_def res_simps)

lemma model_from_rr_id:
  "model_from_rr E m i z rr = Inr r \<Longrightarrow> r_zone r = z_id z \<and> r_id r = i"
  by (cases m) (auto simp: from_rr_defs dest: from_rr_frame_id)

lemma clamp_ttl_simps [simp]:
  "r_zone (clamp_ttl r) = r_zone r" "r_id (clamp_ttl r) = r_id r" "pk (clamp_ttl r) = pk r"
  by (simp_all add: clamp_ttl_def pk_def)

lemma import_record_step:
  assumes "inj (uuid E)"
  shows "obeys (db_ok E) (zone_step E (z_id z)) (import_record E z rr)"
proof (cases "import_model (rtype rr)")
  case (Some m)
  have save: "obeys (known E (z_id z) r) (zone_step E (z_id z)) (zrec_save E z (clamp_ttl r))"
    if "r_zone r = z_id z" for r
    using zrec_save_step[of "clamp_ttl r" "z_id z" E z] that
    by (auto elim!: obeys_pre simp: known_cong[of r "clamp_ttl r"])
  have "obeys (known E (z_id z) r) (zone_step E (z_id z))
      (seq (if m = M_CNAME
            then queryset_delete (\<lambda>s. zmodel s = M_CNAME \<and> r_zone s = z_id z \<and> record_name s = record_name r)
            else ret ())
        (zrec_save E z (clamp_ttl r)))" if "r_zone r = z_id z" for r
    by (rule zstep.obeys_seq[OF _ save[OF that] known_stable])
      (auto intro: queryset_delete_step zstep.obeys_pure)
  then have "obeys (db_ok E) (zone_step E (z_id z))
    (bind_act (new_id E) (\<lambda>i. bind_act (lift_res (model_from_rr E m i z rr)) (\<lambda>r.
       seq (if m = M_CNAME
            then queryset_delete (\<lambda>s. zmodel s = M_CNAME \<and> r_zone s = z_id z \<and> record_name s = record_name r)
            else ret ())
         (zrec_save E z (clamp_ttl r)))))"
    by (intro new_record_step[OF assms]) (auto dest: model_from_rr_id)
  then show ?thesis by (simp add: import_record_def Some zstep.obeys_pure)
qed (simp add: import_record_def zstep.obeys_pure)

lemma atomic_error:
  "atomic m w = (Inl e, w') \<Longrightarrow> \<exists>v. m w = (Inl e, v)
     \<and> w' = w\<lparr>queue := queue v, events := events v, next_uuid := next_uuid v\<rparr>"
  by (auto simp: atomic_def split: prod.splits sum.splits)

lemma atomic_step:
  assumes "obeys (db_ok E) (zone_step E zid) m"
  shows "obeys (db_ok E) (zone_step E zid) (atomic m)"
  unfolding obeys_def
proof (intro allI impI)
  fix w
  assume ok: "db_ok E w"
  obtain x v where m: "m w = (x, v)" by fastforce
  have st: "zone_step E zid w v" using obeysD[OF assms ok m] .
  show "zone_step E zid w (snd (atomic m w))"
  proof (cases x)
    case (Inl e)
    obtain qs es where f: "set qs \<subseteq> {UpdateFzone zid}" "next_uuid w \<le> next_uuid v"
      "v = w\<lparr>zrecs := zrecs v, queue := queue w @ qs, events := events w @ es, next_uuid := next_uuid v\<rparr>"
      using st ok by (auto simp: zone_step_def frame_def)
    have q: "queue v = queue w @ qs" "events v = events w @ es" by (subst f(3), simp)+
    have "frame zid w (w\<lparr>queue := queue v, events := events v, next_uuid := next_uuid v\<rparr>)"
      using f(1,2) unfolding frame_def q by (intro conjI exI[of _ qs] exI[of _ es]) simp_all
    then show ?thesis
      using ok f(2) by (auto simp: atomic_def m Inl zone_step_def db_ok_def)
  qed (use st m in \<open>simp add: atomic_def\<close>)
qed

lemma import_zone_file_step:
  assumes "inj (uuid E)"
  shows "obeys (db_ok E) (zone_step E (z_id z)) (import_zone_file E z text overwrite)"
proof (cases "zone_parse E text (DNSLabel E (zone_root z))")
  case (Inl e)
  then show ?thesis by (simp add: import_zone_file_def zstep.obeys_pure)
next
  case (Inr records)
  have "obeys (db_ok E) (zone_step E (z_id z))
    (if overwrite then for_each overwrite_models (\<lambda>m. queryset_delete (\<lambda>r. zmodel r = m \<and> r_zone r = z_id z))
     else ret ())"
  proof (cases overwrite)
    case True
    have "obeys (db_ok E) (zone_step E (z_id z))
      (for_each overwrite_models (\<lambda>m. queryset_delete (\<lambda>r. zmodel r = m \<and> r_zone r = z_id z)))"
      by (rule zstep.obeys_for_each[OF _ db_ok_stable]) (rule queryset_delete_step, simp)
    then show ?thesis using True by simp
  qed (simp add: zstep.obeys_pure)
  moreover have "obeys (db_ok E) (zone_step E (z_id z)) (for_each records (import_record E z))"
    by (rule zstep.obeys_for_each[OF import_record_step[OF assms(1)] db_ok_stable])
  ultimately show ?thesis
    unfolding import_zone_file_def Inr sum.case
    by (rule atomic_step[OF zstep.obeys_seq[OF _ _ db_ok_stable]])
qed

text \<open>C17: importing a zone file, with or without overwriting, changes rows of the zone it is imported
  into and of no other, queues only the regeneration of that zone, and keeps the keys of the rows
  unique.\<close>

theorem import_only_touches_zone:
  assumes "inj (uuid E)" "db_ok E w" "import_zone_file E z text overwrite w = (x, w')"
  shows "db_ok E w' \<and> frame (z_id z) w w'"
  using obeysD[OF import_zone_file_step[OF assms(1)] assms(2,3)] assms(2) by (simp add: zone_step_def)

lemma inj_sample_uuid: "inj (uuid sample_ext)"
  by (auto simp: inj_def) (metis nat_of_dec_str option.inject)

theorem import_only_touches_zone_witness:
  "db_ok sample_ext empty_world \<and> frame (str ''z1'') empty_world empty_world"
proof -
  have "import_zone_file sample_ext sample_zone (str ''bad'') True empty_world = (Inl ValueError, empty_world)"
    by (simp add: import_zone_file_def throw_def sample_zone_parse_def)
  from import_only_touches_zone[OF inj_sample_uuid _ this] show ?thesis
    by (simp add: db_ok_def empty_world_def sample_zone_def)
qed

text \<open>an import that fails leaves every table as it was, whatever part of the file had already been
  read; only tasks and identifiers may have been used up.\<close>

theorem import_failure_keeps_tables:
  assumes "import_zone_file E z text overwrite w = (Inl e, w')"
  shows "w' = w\<lparr>queue := queue w', events := events w', next_uuid := next_uuid w'\<rparr>"
proof (cases "zone_parse E text (DNSLabel E (zone_root z))")
  case (Inl e')
  then show ?thesis using assms by (auto simp: import_zone_file_def throw_def)
next
  case (Inr records)
  from assms have "atomic (seq
      (if overwrite then for_each overwrite_models (\<lambda>m. queryset_delete (\<lambda>r. zmodel r = m \<and> r_zone r = z_id z))
       else ret ())
      (for_each records (import_record E z))) w = (Inl e, w')"
    by (simp add: import_zone_file_def Inr)
  from atomic_error[OF this] show ?thesis by auto
qed

theorem import_failure_keeps_tables_witness:
  "let w = empty_world\<lparr>zrecs := [new_zrec (str ''a'') sample_zone (str ''@'') 60 (TXTRecord [])]\<rparr> in
   import_zone_file sample_ext sample_zone (str ''bad'') True w = (Inl ValueError, w)
   \<and> w = w\<lparr>queue := queue w, events := events w, next_uuid := next_uuid w\<rparr>"
  unfolding Let_def
proof
  let ?w = "empty_world\<lparr>zrecs := [new_zrec (str ''a'') sample_zone (str ''@'') 60 (TXTRecord [])]\<rparr>"
  show run: "import_zone_file sample_ext sample_zone (str ''bad'') True ?w = (Inl ValueError, ?w)"
    by (simp add: import_zone_file_def throw_def sample_zone_parse_def)
  show "?w = ?w\<lparr>queue := queue ?w, events := events ?w, next_uuid := next_uuid ?w\<rparr>"
    by (rule import_failure_keeps_tables[OF run])
qed

definition only_new :: "ext \<Rightarrow> nat \<Rightarrow> pstr \<Rightarrow> world \<Rightarrow> bool" where
  "only_new E n0 zid w \<longleftrightarrow> n0 \<le> next_uuid w
     \<and> (\<forall>r \<in> set (zrecs w). r_zone r = zid \<and> zmodel r \<in> set overwrite_models \<longrightarrow> (\<exists>n \<ge> n0. r_id r = uuid E n))"

lemma only_new_save:
  assumes "\<exists>n \<ge> n0. r_id r = uuid E n"
  shows "obeys (\<lambda>_. True) (\<lambda>s t. only_new E n0 zid s \<longrightarrow> only_new E n0 zid t) (zrec_save E z r)"
  unfolding obeys_def
proof (intro allI impI)
  fix w
  assume o: "only_new E n0 zid w"
  obtain x w' where run: "zrec_save E z r w = (x, w')" by fastforce
  show "only_new E n0 zid (snd (zrec_save E z r w))"
    using zrec_save_cases[OF run] o assms written_simps
    by (auto simp: run only_new_def set_upsert) blast
qed

lemma only_new_import_record:
  "obeys (\<lambda>_. True) (\<lambda>s t. only_new E n0 zid s \<longrightarrow> only_new E n0 zid t) (import_record E z rr)"
proof (cases "import_model (rtype rr)")
  case (Some m)
  let ?R = "\<lambda>s t. only_new E n0 zid s \<longrightarrow> only_new E n0 zid t"
  let ?rest = "\<lambda>i. bind_act (lift_res (model_from_rr E m i z rr)) (\<lambda>r.
       seq (if m = M_CNAME
            then queryset_delete (\<lambda>s. zmodel s = M_CNAME \<and> r_zone s = z_id z \<and> record_name s = record_name r)
            else ret ())
         (zrec_save E z (clamp_ttl r)))"
  have del: "obeys (\<lambda>_. True) ?R (queryset_delete P)" for P
    by (auto simp: obeys_def queryset_delete_def modify_def only_new_def)
  have rest: "obeys (\<lambda>_. True) ?R (?rest (uuid E n))" if n: "n0 \<le> n" for n
  proof (rule inv.obeys_bind_strong[OF inv.obeys_pure(3)])
    fix s r and t :: world
    assume "lift_res (model_from_rr E m (uuid E n) z rr) s = (Inr r, t)"
    then have "r_id r = uuid E n" by (auto simp: lift_res_def dest: model_from_rr_id)
    then have "obeys (\<lambda>_. True) ?R (zrec_save E z (clamp_ttl r))"
      using n by (intro only_new_save) auto
    then have "obeys (\<lambda>_. True) ?R (seq (if m = M_CNAME
            then queryset_delete (\<lambda>s. zmodel s = M_CNAME \<and> r_zone s = z_id z \<and> record_name s = record_name r)
            else ret ()) (zrec_save E z (clamp_ttl r)))"
      by (intro inv.obeys_seq) (auto intro: del inv.obeys_pure)
    then show "only_new E n0 zid t \<longrightarrow> only_new E n0 zid (snd (seq (if m = M_CNAME
            then queryset_delete (\<lambda>s. zmodel s = M_CNAME \<and> r_zone s = z_id z \<and> record_name s = record_name r)
            else ret ()) (zrec_save E z (clamp_ttl r)) t))"
      by (simp add: obeys_def)
  qed
  have "obeys (\<lambda>_. True) ?R (bind_act (new_id E) ?rest)"
    unfolding obeys_def
  proof (intro allI impI)
    fix s
    assume o: "only_new E n0 zid s"
    let ?t = "s\<lparr>next_uuid := next_uuid s + 1\<rparr>"
    have "only_new E n0 zid ?t" using o by (auto simp: only_new_def)
    moreover have "n0 \<le> next_uuid s" using o by (simp add: only_new_def)
    ultimately show "only_new E n0 zid (snd (bind_act (new_id E) ?rest s))"
      using rest[of "next_uuid s"] unfolding obeys_def new_id_bind by blast
  qed
  then show ?thesis by (simp add: import_record_def Some inv.obeys_pure)
qed (simp add: import_record_def inv.obeys_pure)

lemma overwrite_clears:
  "for_each ms (\<lambda>m. queryset_delete (\<lambda>r. zmodel r = m \<and> r_zone r = zid)) w
     = (Inr (), w\<lparr>zrecs := [r \<leftarrow> zrecs w. \<not> (zmodel r \<in> set ms \<and> r_zone r = zid)]\<rparr>)"
  by (induction ms arbitrary: w)
    (auto simp: act_defs queryset_delete_def filter_filter intro!: arg_cong2[where f = zrecs_update] filter_cong)

text \<open>C26: after an overwriting import that succeeds, no row that the zone had before is left in the
  nine tables that are overwritten: every row there has an identifier drawn during the import.\<close>

theorem overwrite_replaces_rows:
  assumes "import_zone_file E z text True w = (Inr (), w')"
    and "r \<in> set (zrecs w')" "r_zone r = z_id z" "zmodel r \<in> set overwrite_models"
  shows "\<exists>n \<ge> next_uuid w. r_id r = uuid E n"
proof -
  let ?w1 = "w\<lparr>zrecs := [r \<leftarrow> zrecs w. \<not> (zmodel r \<in> set overwrite_models \<and> r_zone r = z_id z)]\<rparr>"
  obtain records where rec: "zone_parse E text (DNSLabel E (zone_root z)) = Inr records"
    using assms(1) by (auto simp: import_zone_file_def throw_def split: sum.splits)
  have run: "for_each records (import_record E z) ?w1 = (Inr (), w')"
    using assms(1)
    by (auto simp: import_zone_file_def rec atomic_def seq_def bind_act_def overwrite_clears
        split: prod.splits sum.splits)
  have "obeys (\<lambda>_. True) (\<lambda>s t. only_new E (next_uuid w) (z_id z) s \<longrightarrow> only_new E (next_uuid w) (z_id z) t)
      (for_each records (import_record E z))"
    by (intro inv.obeys_for_each only_new_import_record)
  from obeysD[OF this _ run] have "only_new E (next_uuid w) (z_id z) w'"
    by (auto simp: only_new_def)
  then show ?thesis using assms(2-4) by (auto simp: only_new_def)
qed

theorem overwrite_replaces_rows_witness:
  "\<exists>w'. import_zone_file sample_ext sample_zone (str ''x'') True
       (empty_world\<lparr>zrecs := [new_zrec (str ''t'') sample_zone (str ''@'') 60 (TXTRecord [])]\<rparr>) = (Inr (), w')
     \<and> new_zrec (str ''u0'') sample_zone (str ''x'') 3600 (TXTRecord (str ''hi'')) \<in> set (zrecs w')
     \<and> (\<exists>n \<ge> 0. str ''u0'' = uuid sample_ext n)"
proof -
  let ?w = "empty_world\<lparr>zrecs := [new_zrec (str ''t'') sample_zone (str ''@'') 60 (TXTRecord [])]\<rparr>"
  let ?r = "new_zrec (str ''u0'') sample_zone (str ''x'') 3600 (TXTRecord (str ''hi''))"
  have w: "written sample_ext ?r = Inr ?r"
    by (simp add: written_def stored_def new_zrec_def lower_sample)
  have rr: "model_from_rr sample_ext M_TXT (str ''u0'') sample_zone
      (mk_rr (str ''x'' # sample_label (zone_root sample_zone)) QT_TXT (RD_TXT [str ''hi'']) 0)
    = Inr (?r\<lparr>ttl := 0\<rparr>)"
    by (simp add: TXTRecord_from_rr_def from_rr_frame_def TXTRecord_body_def dns_label_to_record_name_def
        sample_zone_def sample_label_def sample_strip_def sample_match_def py_decode_def lower_sample new_zrec_def mk_rr_def)
  have "import_record sample_ext sample_zone
      (mk_rr (str ''x'' # sample_label (zone_root sample_zone)) QT_TXT (RD_TXT [str ''hi'']) 0) empty_world
    = zrec_save sample_ext sample_zone ?r (empty_world\<lparr>next_uuid := 1\<rparr>)"
    using rr unfolding import_record_def
    by (simp add: import_model_def new_id_bind)
      (simp add: seq_def bind_act_def ret_def lift_res_def clamp_ttl_def
        empty_world_def dec_str_small mk_rr_def new_zrec_def)
  moreover have "for_each overwrite_models (\<lambda>m. queryset_delete (\<lambda>r. zmodel r = m \<and> r_zone r = z_id sample_zone)) ?w
      = (Inr (), empty_world)"
    unfolding overwrite_clears by (simp add: new_zrec_def overwrite_models_def empty_world_def)
  moreover have "zrec_save sample_ext sample_zone ?r (empty_world\<lparr>next_uuid := 1\<rparr>)
      = (Inr (), (delay (UpdateFzone (r_zone ?r)) (empty_world\<lparr>next_uuid := 1\<rparr>))
          \<lparr>zrecs := upsert pk ?r (zrecs (empty_world\<lparr>next_uuid := 1\<rparr>))\<rparr>)"
    by (rule zrec_save_plain_run[OF _ w]) (simp add: new_zrec_def)
  ultimately have "import_zone_file sample_ext sample_zone (str ''x'') True ?w
      = (Inr (), (delay (UpdateFzone (r_zone ?r)) (empty_world\<lparr>next_uuid := 1\<rparr>))
          \<lparr>zrecs := upsert pk ?r (zrecs (empty_world\<lparr>next_uuid := 1\<rparr>))\<rparr>)"
    by (simp add: import_zone_file_def atomic_def seq_def bind_act_def sample_zone_parse_def ret_def)
  then have "\<exists>w'. import_zone_file sample_ext sample_zone (str ''x'') True ?w = (Inr (), w') \<and> ?r \<in> set (zrecs w')"
    by (simp add: set_upsert)
  then obtain w' where run: "import_zone_file sample_ext sample_zone (str ''x'') True ?w = (Inr (), w')"
    and r: "?r \<in> set (zrecs w')" by blast
  from overwrite_replaces_rows[OF run r] have "\<exists>n \<ge> 0. str ''u0'' = uuid sample_ext n"
    by (simp add: new_zrec_def overwrite_models_def empty_world_def)
  with run r show ?thesis by blast
qed


section \<open>New zones, deleted zones\<close>

definition initial_records :: "(pstr \<times> pstr) list" where
  "initial_records =
     [(str ''@'', str ''v=spf1 -all''),
      (str ''_dmarc'', str ''v=DMARC1;p=reject;sp=reject;adkim=s;aspf=s''),
      (str ''*._domainkey'', str ''v=DKIM1; p='')]"

lemma lower_ascii:
  "is_ascii s \<Longrightarrow> list_all (\<lambda>c. c < 65 \<or> 90 < c) s \<Longrightarrow> lower E s = s"
  by (induction s) (auto simp: lower_def py_lower_def lower_cp_def is_ascii_def)

lemma set_upsert_new: "(\<And>s. s \<in> set rs \<Longrightarrow> key s \<noteq> key r) \<Longrightarrow> set (upsert key r rs) = insert r (set rs)"
  by (auto simp: set_upsert)

lemma create_txt_run:
  assumes "is_ascii name" "list_all (\<lambda>c. c < 65 \<or> 90 < c) name"
  shows "create_txt E z name text w =
    (Inr (), (delay (UpdateFzone (z_id z)) w)\<lparr>next_uuid := next_uuid w + 1,
       zrecs := upsert pk (new_zrec (uuid E (next_uuid w)) z name 86400 (TXTRecord text)) (zrecs w)\<rparr>)"
proof -
  let ?r = "new_zrec (uuid E (next_uuid w)) z name 86400 (TXTRecord text)"
  have "written E ?r = Inr ?r"
    using lower_ascii[OF assms] by (simp add: written_def stored_def new_zrec_def)
  moreover have "zmodel ?r \<noteq> M_Redirect" by (simp add: new_zrec_def)
  ultimately have "zrec_save E z ?r (w\<lparr>next_uuid := next_uuid w + 1\<rparr>) = (Inr (),
      (delay (UpdateFzone (r_zone ?r)) (w\<lparr>next_uuid := next_uuid w + 1\<rparr>))
        \<lparr>zrecs := upsert pk ?r (zrecs (w\<lparr>next_uuid := next_uuid w + 1\<rparr>))\<rparr>)"
    using zrec_save_plain_run by blast
  then show ?thesis
    by (simp add: create_txt_def new_id_bind delay_def) (simp add: new_zrec_def)
qed

text \<open>\<^verbatim>\<open>setup_initial_records\<close> never fails and leaves in the zone, under their names, the SPF record
  that authorises no sender, the rejecting DMARC record and the empty DKIM key, each with a new
  identifier; no row that was there is changed.\<close>

theorem initial_records_created:
  assumes "inj (uuid E)" "db_ok E w"
  shows "\<exists>w'. setup_initial_records E z w = (Inr (), w')
    \<and> (\<forall>(name, text) \<in> set initial_records. \<exists>i.
         new_zrec i z name 86400 (TXTRecord text) \<in> set (filter_name M_TXT (z_id z) name w'))
    \<and> set (zrecs w) \<subseteq> set (zrecs w')"
proof -
  define r where "r = (\<lambda>k. new_zrec (uuid E (next_uuid w + k)) z (fst (initial_records ! k)) 86400
    (TXTRecord (snd (initial_records ! k))))"
  have pks: "pk (r j) \<noteq> pk (r k)" if "j \<noteq> k" for j k
    using assms(1) that by (simp add: pk_def new_zrec_def inj_eq r_def)
  have old: "pk s \<noteq> pk (r k)" if "s \<in> set (zrecs w)" for s k
    using that assms(2) by (auto simp: db_ok_def pk_def new_zrec_def r_def)
  have "\<exists>w'. setup_initial_records E z w = (Inr (), w')
      \<and> zrecs w' = upsert pk (r 2) (upsert pk (r 1) (upsert pk (r 0) (zrecs w)))"
    by (simp add: setup_initial_records_def create_blank_spf_def create_blank_dmarc_def seq_def bind_act_def
        create_txt_run initial_records_def r_def)
  then obtain w' where w': "setup_initial_records E z w = (Inr (), w')"
    "zrecs w' = upsert pk (r 2) (upsert pk (r 1) (upsert pk (r 0) (zrecs w)))" by blast
  have r0: "set (upsert pk (r 0) (zrecs w)) = insert (r 0) (set (zrecs w))"
    by (rule set_upsert_new) (rule old)
  have r1: "set (upsert pk (r 1) (upsert pk (r 0) (zrecs w))) = {r 1, r 0} \<union> set (zrecs w)"
    by (subst set_upsert_new) (use r0 old pks[of 0 1] in auto)
  have rows: "set (zrecs w') = {r 2, r 1, r 0} \<union> set (zrecs w)"
    unfolding w'(2) by (subst set_upsert_new) (use r1 old pks[of 0 2] pks[of 1 2] in auto)
  have "\<exists>i. new_zrec i z name 86400 (TXTRecord text) \<in> set (filter_name M_TXT (z_id z) name w')"
    if m: "(name, text) \<in> set initial_records" for name "text"
  proof -
    have "length initial_records = 3" by (simp add: initial_records_def)
    with m obtain k where "k < 3" "(name, text) = initial_records ! k"
      unfolding in_set_conv_nth by metis
    then have "new_zrec (uuid E (next_uuid w + k)) z name 86400 (TXTRecord text) = r k" "k \<in> {0, 1, 2}"
      by (auto simp: r_def prod_eq_iff)
    then have "new_zrec (uuid E (next_uuid w + k)) z name 86400 (TXTRecord text) \<in> set (zrecs w')"
      using rows by auto
    then show ?thesis by (auto simp: filter_name_def new_zrec_def)
  qed
  then show ?thesis using w'(1) rows by (intro exI[of _ w']) auto
qed

theorem initial_records_created_witness:
  "\<exists>w' i. setup_initial_records sample_ext sample_zone empty_world = (Inr (), w')
    \<and> new_zrec i sample_zone (str ''@'') 86400 (TXTRecord (str ''v=spf1 -all''))
        \<in> set (filter_name M_TXT (z_id sample_zone) (str ''@'') w')"
proof -
  have "db_ok sample_ext empty_world" by (simp add: db_ok_def empty_world_def)
  from initial_records_created[OF inj_sample_uuid this, of sample_zone] show ?thesis
    by (auto simp: initial_records_def)
qed

text \<open>deleting a zone, even when Keycloak does not answer, removes every row that refers to it and no row of another zone; the Kubernetes
  ingresses of its redirect records are not deleted, because the rows go by cascade: the only call to
  another system is the removal of the Keycloak resource.\<close>

theorem zone_delete_cascades:
  "\<exists>w'. DNSZone_delete E z w = (kc_delete E (events w) (z_resource_id z), w')
    \<and> zrecs w' = [r \<leftarrow> zrecs w. r_zone r \<noteq> z_id z]
    \<and> z_id z \<notin> z_id ` set (dnszones w')
    \<and> z_id z \<notin> us_zone ` set (update_secrets w')
    \<and> events w' = events w @ [Keycloak_delete (z_id z)]
    \<and> queue w' = queue w"
  by (auto simp: DNSZone_delete_def DNSZone_cascade_def emit_def Let_def)

text \<open>validation of a reverse record accepts a readable address exactly when it lies in the network
  of its zone.\<close>

theorem reverse_record_in_zone:
  assumes "parse_ip text = Inr a" "network_of (zone_root_address z) (zone_root_prefix z) = Inr n"
  shows "ReverseRecord_clean z text = Inr () \<longleftrightarrow> in_network a n"
  using assms by (simp add: ReverseRecord_clean_def)

theorem reverse_record_in_zone_witness:
  "ReverseRecord_clean \<lparr>rz_id = [], zone_root_address = str ''192.0.2.0'', zone_root_prefix = 24, rz_last_modified = 0,
      rz_charged = True, rz_active = True, rz_num_check_fails = 0, rz_resource_id = None, rz_cds_disable = False\<rparr>
     (str ''192.0.2.7'') = Inr () \<longleftrightarrow> in_network (IPv4 3221225991) (Net4 3221225984 24)"
  by (rule reverse_record_in_zone)
    (simp_all add: network_of_def parse_ip_def parse_v4_def parse_octet_def is_digit_def nat_of_digits_def)

end
