(* ===== verification/Update_Sample.thy ===== *)
theory Update_Sample
  imports Update Zone_Props
begin

text \<open>
  A signed update request in the sample environment: the key may change the names below
  \<^verbatim>\<open>a.ex.org\<close>; the request deletes the TXT records of \<^verbatim>\<open>a.ex.org\<close> and then those of \<^verbatim>\<open>b.ex.org\<close>.
\<close>

definition sample_key :: update_secret where
  "sample_key = \<lparr>us_id = str ''k1'', us_zone = str ''z1'', us_name = [], us_type = str ''U'',
     restrict_to = str ''a'', secret = [1, 2, 3]\<rparr>"

definition sample_txt :: "pstr \<Rightarrow> pstr \<Rightarrow> zrec" where
  "sample_txt i n = \<lparr>r_id = i, r_zone = str ''z1'', record_name = n, ttl = 60, body = TXTRecord (str ''hi'')\<rparr>"

definition sample_update_world :: world where
  "sample_update_world = empty_world\<lparr>dnszones := [sample_zone], update_secrets := [sample_key],
     zrecs := [sample_txt (str ''t1'') (str ''a''), sample_txt (str ''t2'') (str ''b'')], now := 1000000000\<rparr>"

definition delete_txt :: "pstr \<Rightarrow> rr" where
  "delete_txt n = \<lparr>rname = [n, str ''ex'', str ''org''], rtype = QT_TXT, rclass = CL_ANY, rr_ttl = 0, rdata = RD_empty\<rparr>"

definition sample_body :: dns_msg where
  "sample_body = empty_msg\<lparr>m_id := 7, opcode := OP_UPDATE,
     questions := [\<lparr>qname = [str ''ex'', str ''org''], qtype = QT_SOA, qclass = CL_IN\<rparr>],
     m_auth := [delete_txt (str ''a''), delete_txt (str ''b'')]\<rparr>"

definition sample_tsig :: tsig where
  "sample_tsig = \<lparr>alg_name = [str ''hmac-sha256''], time_signed = 1000000000, fudge = 300, mac = [],
     original_id = 7, ts_error = 0, other_data = []\<rparr>"

definition sample_key_name :: label where
  "sample_key_name = [str ''k1'', str ''ex'', str ''org'']"

definition sample_ctx :: "tsig \<Rightarrow> tsig_ctx" where
  "sample_ctx t = \<lparr>tc_name = sample_key_name, tc_key = sample_key, tc_in = t, tc_digest = str ''sha256''\<rparr>"

definition sample_mac :: bytes where
  "sample_mac = (case request_digests sample_ext (sample_ctx sample_tsig) (map_rrs fill_rdata sample_body) of
     Inr (d, d2) \<Rightarrow> d | Inl e \<Rightarrow> [])"

definition signed_tsig :: tsig where
  "signed_tsig = sample_tsig\<lparr>mac := sample_mac\<rparr>"

definition sample_request :: dns_msg where
  "sample_request = sample_body\<lparr>m_ar := [tsig_rr sample_key_name
     (case make_tsig sample_ext signed_tsig of Inr d \<Rightarrow> d | Inl e \<Rightarrow> [])]\<rparr>"

lemmas sample_update_defs = sample_key_def sample_txt_def sample_update_world_def delete_txt_def sample_body_def
  sample_key_name_def sample_ctx_def empty_msg_def

lemma sample_decode_encode:
  assumes "length l < n" "\<forall>b \<in> set l. b \<noteq> []" "length pre = off"
  shows "sample_decode_label n (pre @ sample_encode_name l @ rest) off = Inr (l, off + length (sample_encode_name l))"
  using assms
proof (induction l arbitrary: n pre off)
  case Nil
  then show ?case by (cases n) (simp_all add: sample_encode_name_def)
next
  case (Cons b l)
  then obtain k where n: "n = Suc k" and k: "length l < k" by (cases n) auto
  have "sample_decode_label k ((pre @ (length b # b)) @ sample_encode_name l @ rest) (off + 1 + length b)
      = Inr (l, off + 1 + length b + length (sample_encode_name l))"
    using Cons.prems k by (intro Cons.IH) auto
  then show ?case
    using Cons.prems n by (simp add: sample_encode_name_def)
qed

lemma sample_name_codec: "length l < 128 \<Longrightarrow> \<forall>b \<in> set l. b \<noteq> [] \<Longrightarrow> name_codec sample_ext l"
  using sample_decode_encode[of l 128 "[]" 0] by (simp add: name_codec_def)

lemma sample_pack_seq:
  "list_all (\<lambda>(w, v). v < 256 ^ w) fs \<Longrightarrow> pack_seq fs = Inr (concat (map (\<lambda>(w, v). be_bytes w v) fs))"
  by (induction fs) (auto simp: codec_simps)

lemma sample_variables:
  "make_variables sample_ext (sample_tsig\<lparr>mac := m\<rparr>) =
     Inr (sample_encode_name [str ''hmac-sha256''] @ be_bytes 8 65536300 @ be_bytes 2 0 @ be_bytes 2 0)"
  by (simp add: make_variables_def sample_tsig_def sample_pack_seq time_word_def timestamp_def)

lemma sample_rr_canon: "\<exists>b'. pack_rr_canon sample_ext (fill_rdata (delete_txt n)) b = Inr b'"
  by (simp add: pack_rr_canon_def put_name_def put_fields_def sample_pack_seq canon_rdata_def buf_append_def Let_def
      pack_be_def fill_rdata_def delete_txt_def)

lemma sample_fold_canon: "\<exists>b'. fold_res (pack_rr_canon sample_ext) (map (\<lambda>n. fill_rdata (delete_txt n)) ns) b = Inr b'"
proof (induction ns arbitrary: b)
  case (Cons n ns)
  obtain b1 where "pack_rr_canon sample_ext (fill_rdata (delete_txt n)) b = Inr b1" using sample_rr_canon by blast
  then show ?case using Cons by simp
qed simp

lemma fold_res_single: "fold_res f [x] b = f x b"
  by (cases "f x b") simp_all

lemma sample_digests:
  "\<exists>d2. request_digests sample_ext (sample_ctx (sample_tsig\<lparr>mac := m\<rparr>)) (map_rrs fill_rdata sample_body) =
     Inr ([1, 2, 3, 7, 5, 0, 2] @ sample_encode_name sample_key_name @ be_bytes 2 255 @ be_bytes 4 0
       @ sample_encode_name [str ''hmac-sha256''] @ be_bytes 8 65536300 @ be_bytes 2 0 @ be_bytes 2 0, d2)"
proof -
  have "\<exists>d2. pack_canon sample_ext (map_rrs fill_rdata sample_body) = Inr d2"
  proof -
    have "\<exists>b. pack_canon sample_ext (map_rrs fill_rdata sample_body) =
        bind_res (fold_res (pack_rr_canon sample_ext)
          (map (\<lambda>n. fill_rdata (delete_txt n)) [str ''a'', str ''b'']) b) (\<lambda>b'. Inr (fst b'))"
      by (simp add: pack_canon_def sample_body_def map_rrs_def sample_pack_def empty_msg_def pack_question_def
          put_fields_def sample_pack_seq buf_append_def fold_res_single del: str_simps fold_res.simps(2)) blast
    then obtain b where b: "pack_canon sample_ext (map_rrs fill_rdata sample_body) =
        bind_res (fold_res (pack_rr_canon sample_ext)
          (map (\<lambda>n. fill_rdata (delete_txt n)) [str ''a'', str ''b'']) b) (\<lambda>b'. Inr (fst b'))" by blast
    obtain b' where "fold_res (pack_rr_canon sample_ext)
        (map (\<lambda>n. fill_rdata (delete_txt n)) [str ''a'', str ''b'']) b = Inr b'"
      using sample_fold_canon by blast
    then show ?thesis unfolding b by simp
  qed
  then show ?thesis
    using sample_variables[of m]
    by (auto simp: request_digests_def sample_ctx_def tsig_name_data_def put_name_def put_fields_def
        sample_pack_seq buf_append_def sample_key_def sample_body_def map_rrs_def sample_pack_def empty_msg_def
        simp del: str_simps)
qed


lemma sample_mac_eq:
  "\<exists>d2. request_digests sample_ext (sample_ctx signed_tsig) (map_rrs fill_rdata sample_body) = Inr (sample_mac, d2)"
  using sample_digests[of "[]"] sample_digests[of sample_mac]
  by (auto simp: sample_mac_def signed_tsig_def sample_tsig_def)

lemma length_sample_mac [simp]: "length sample_mac = 49"
  using sample_digests[of "[]"]
  by (auto simp: sample_mac_def sample_tsig_def sample_encode_name_def sample_key_name_def)

lemma sample_tsig_data:
  "\<exists>data. make_tsig sample_ext signed_tsig = Inr data \<and> decode_tsig sample_ext data = Inr signed_tsig"
  using decode_make_tsig[of sample_ext signed_tsig] length_sample_mac
    sample_name_codec[of "[str ''hmac-sha256'']"]
  by (simp add: signed_tsig_def sample_tsig_def timestamp_def MAX_TIMESTAMP_def)

lemma sample_update_key:
  "update_key sample_ext sample_update_world sample_request (sample_reply sample_request) =
     Inr (Inr (sample_ctx signed_tsig, sample_body, [str ''ex'', str ''org'']))"
proof -
  obtain data where d: "make_tsig sample_ext signed_tsig = Inr data" "decode_tsig sample_ext data = Inr signed_tsig"
    using sample_tsig_data by blast
  have t: "split_tsig sample_request = Some (tsig_rr sample_key_name data, sample_body)"
    by (simp add: split_tsig_def sample_request_def d(1) sample_body_def empty_msg_def tsig_rr_def)
  have q: "msg_q sample_request = msg_q sample_body" by (simp add: msg_q_def sample_request_def)
  have zn: "lower_label sample_ext [str ''ex'', str ''org''] = Inr [str ''ex'', str ''org'']"
    by (simp add: lower_label_def codec_simps lower_sample)
  have key: "find_key sample_ext sample_update_world sample_key_name [str ''ex'', str ''org''] = Some sample_key"
    by (simp add: find_key_def sample_update_defs sample_match_def sample_strip_def sample_label_str_def strip_char_def)
  have alg: "alg_label sample_ext [str ''hmac-sha256''] = Inr (str ''hmac-sha256'')"
    by (simp add: alg_label_def codec_simps lower_sample)
  have "alg_name signed_tsig = [str ''hmac-sha256'']" "original_id signed_tsig = 7"
    by (simp_all add: signed_tsig_def sample_tsig_def)
  then show ?thesis
    unfolding update_key_def t q option.case prod.case
    by (simp add: sample_request_def sample_body_def msg_q_def empty_msg_def zn key alg tsig_rr_def d(2) sample_ctx_def
        del: str_simps) (simp add: HMAC_NAMES_def tsig_rr_def sample_body_def empty_msg_def)
qed


lemma sample_update_checks:
  "update_checks n sample_ext sample_update_world (sample_ctx signed_tsig) sample_body [str ''ex'', str ''org'']
     (sample_reply sample_request) =
     Inr (Inr (sample_zone, sample_body, sample_reply sample_request))"
proof -
  let ?c = "sample_ctx signed_tsig" and ?r = "sample_reply sample_request" and ?w = sample_update_world
  have mac: "mac (tc_in ?c) = sample_mac" by (simp add: sample_ctx_def signed_tsig_def)
  have body: "map_rrs unfill_rdata (map_rrs fill_rdata sample_body) = sample_body"
    by (simp add: map_rrs_def sample_body_def empty_msg_def fill_rdata_def unfill_rdata_def delete_txt_def)
  have 1: "update_signature sample_ext ?w ?c sample_body ?r = Inr (Inr sample_body)"
    using sample_mac_eq by (auto simp: update_signature_def mac body)
  have 2: "update_time sample_ext ?w ?c ?r = Inr (Inr ())"
    by (simp add: update_time_def sample_ctx_def signed_tsig_def sample_tsig_def MAX_TIME_def sample_update_world_def)
  have 3: "update_zone sample_ext ?w ?c [str ''ex'', str ''org''] ?r = Inr (Inr sample_zone)"
    by (simp add: update_zone_def zone_named_def zones_by_length_def sample_update_defs sample_zone_def sample_label_def)
  have 4: "update_prereq n sample_ext ?w ?c sample_zone [str ''ex'', str ''org''] sample_body ?r = Inr (Inr ?r)"
    by (simp add: update_prereq_def sample_body_def empty_msg_def)
  have 5: "prescan sample_ext [str ''ex'', str ''org''] (qclass (msg_q sample_body)) (m_auth sample_body) = None"
    by (simp add: sample_body_def empty_msg_def msg_q_def delete_txt_def supported_types_def sample_match_def)
  show ?thesis by (simp add: update_checks_def go_on_def 1 2 3 4 5 del: str_simps)
qed

lemma sample_handle:
  "handle_update_query n sample_ext sample_request sample_update_world =
     apply_updates sample_ext (sample_ctx signed_tsig) sample_zone [str ''ex'', str ''org''] sample_body
       (sample_reply sample_request) sample_update_world"
  unfolding handle_update_query_def Let_def bind_act_def asks_res_def sample_ext_simps sample_update_key
  by (simp add: go_on_def sample_update_checks del: str_simps)


definition sample_world_after :: world where
  "sample_world_after = sample_update_world\<lparr>queue := [UpdateFzone (str ''z1'')],
     zrecs := [sample_txt (str ''t2'') (str ''b'')]\<rparr>"

lemma sample_txt_rr:
  "zrec_to_rr sample_ext qn (sample_txt i n) = Inr (Some (mk_rr qn QT_TXT (RD_TXT [str ''hi'']) 60))"
  by (simp add: zrec_to_rr.simps sample_txt_def some_res_def TXTRecord_to_rr_def sample_txt_new_def codec_simps)

lemma sample_delete_a:
  "apply_update sample_ext sample_key sample_zone [str ''ex'', str ''org''] CL_IN (delete_txt (str ''a'')) sample_update_world
     = (Inr None, sample_world_after)"
proof -
  let ?row = "sample_txt (str ''t1'') (str ''a'')"
  have rn: "stripSuffix sample_ext (rname (delete_txt (str ''a''))) [str ''ex'', str ''org''] = [str ''a'']"
    by (simp add: delete_txt_def sample_strip_def sample_match_def)
  have rows: "get_record_models sample_update_world sample_zone QT_TXT [str ''a''] = Inr (Some [?row])"
    by (simp add: get_record_models_def update_model_def find_records_def dotted_def codec_simps filter_name_def
        sample_update_defs sample_zone_def)
  have can: "can_manage sample_ext sample_key QT_TXT [str ''a''] = Inr True"
    by (simp add: can_manage_def sample_key_def sample_match_def sample_label_def TYPE_UNLIMITED_def)
  have del: "zrec_delete sample_ext ?row sample_update_world = (Inr (), sample_world_after)"
    by (simp add: zrec_delete_plain touch_zone_def row_delete_def act_defs sample_world_after_def sample_update_defs
        delay_def remove_def pk_def empty_world_def)
  have "apply_update sample_ext sample_key sample_zone [str ''ex'', str ''org''] CL_IN (delete_txt (str ''a''))
      = delete_rrset sample_ext sample_key sample_zone [str ''a''] (delete_txt (str ''a''))"
    unfolding apply_update_def Let_def rn by (simp add: delete_txt_def)
  moreover have "delete_rrset sample_ext sample_key sample_zone [str ''a''] (delete_txt (str ''a'')) sample_update_world
      = (Inr None, sample_world_after)"
    using rows can del
    by (simp add: delete_rrset_def delete_matching_def row_rr_def act_defs delete_txt_def sample_txt_rr mk_rr_def
        del: str_simps)
  ultimately show ?thesis by simp
qed

lemma sample_delete_b:
  "apply_update sample_ext sample_key sample_zone [str ''ex'', str ''org''] CL_IN (delete_txt (str ''b'')) sample_world_after
     = (Inr (Some RC_NOTAUTH), sample_world_after)"
proof -
  have rn: "stripSuffix sample_ext (rname (delete_txt (str ''b''))) [str ''ex'', str ''org''] = [str ''b'']"
    by (simp add: delete_txt_def sample_strip_def sample_match_def)
  have rows: "get_record_models sample_world_after sample_zone QT_TXT [str ''b''] = Inr (Some [sample_txt (str ''t2'') (str ''b'')])"
    by (simp add: get_record_models_def update_model_def find_records_def dotted_def codec_simps filter_name_def
        sample_update_defs sample_world_after_def sample_zone_def)
  have can: "can_manage sample_ext sample_key QT_TXT [str ''b''] = Inr False"
    by (simp add: can_manage_def sample_key_def sample_match_def sample_label_def)
  show ?thesis
    unfolding apply_update_def Let_def rn using rows can
    by (simp add: delete_rrset_def delete_matching_def act_defs delete_txt_def del: str_simps)
qed

lemma sample_sign:
  assumes "m_id res < 65536"
  shows "\<exists>m. sign_resp sample_ext (sample_ctx signed_tsig) 0 [] 1000000000 res = Inr m
    \<and> rcode m = rcode res \<and> m_rr m = m_rr res"
proof -
  have t: "tsig_name_data sample_ext sample_key_name = Inr (sample_encode_name sample_key_name @ be_bytes 2 255 @ be_bytes 4 0)"
    by (simp add: tsig_name_data_def put_name_def put_fields_def sample_pack_seq buf_append_def)
  show ?thesis
    using assms
    by (simp add: pack_be_def sample_key_def sample_encode_name_def sample_key_name_def t[unfolded sample_key_name_def sample_encode_name_def, simplified]
        sign_resp_def sample_ctx_def signed_tsig_def sample_tsig_def sample_pack_def make_variables_def
        make_tsig_def sample_pack_seq time_word_def timestamp_def)
qed

lemma sample_run:
  "\<exists>m. handle_update_query n sample_ext sample_request sample_update_world = (Inr m, sample_world_after)
     \<and> rcode m = RC_NOTAUTH"
proof -
  have "qclass (msg_q sample_body) = CL_IN" "m_auth sample_body = [delete_txt (str ''a''), delete_txt (str ''b'')]"
    by (simp_all add: sample_body_def msg_q_def empty_msg_def)
  moreover have "tc_key (sample_ctx signed_tsig) = sample_key" by (simp add: sample_ctx_def)
  ultimately have "for_until (m_auth sample_body) (apply_update sample_ext (tc_key (sample_ctx signed_tsig)) sample_zone
      [str ''ex'', str ''org''] (qclass (msg_q sample_body))) sample_update_world = (Inr (Some RC_NOTAUTH), sample_world_after)"
    using sample_delete_a sample_delete_b by (simp add: bind_act_def ret_def del: str_simps)
  moreover have "now sample_world_after = 1000000000" by (simp add: sample_world_after_def sample_update_world_def)
  moreover obtain m where "sign_resp sample_ext (sample_ctx signed_tsig) 0 [] 1000000000
      ((sample_reply sample_request)\<lparr>rcode := RC_NOTAUTH\<rparr>) = Inr m" "rcode m = RC_NOTAUTH"
    using sample_sign[of "(sample_reply sample_request)\<lparr>rcode := RC_NOTAUTH\<rparr>"]
    by (auto simp: sample_reply_def sample_request_def sample_body_def)
  ultimately show ?thesis
    by (simp add: sample_handle apply_updates_def bind_act_def[of "for_until xs f" for xs f] asks_res_def signed_code_def
        del: str_simps)
qed

end
