(* ===== verification/Lookup_Props.thy ===== *)
theory Lookup_Props
  imports Lookup Record_Props
begin

text \<open>
  The lookups keep the response they are given and only add to it: this is the contract
  \<open>lookup_handler\<close> between \<^verbatim>\<open>lookup_cname\<close> and the function it is handed, and every lookup of the
  service meets it. Further: which zone and which records are found, and how far nested calls go.
\<close>

section \<open>Choice of the zone and of the records\<close>

lemma find_first_sorted:
  assumes "find P (sort_key f xs) = Some x"
  shows "x \<in> set xs \<and> P x \<and> (\<forall>y \<in> set xs. P y \<longrightarrow> f x \<le> f y)"
proof -
  obtain i where i: "i < length (sort_key f xs)" "P (sort_key f xs ! i)" "x = sort_key f xs ! i"
    "\<forall>j<i. \<not> P (sort_key f xs ! j)"
    using assms by (auto simp: find_Some_iff)
  have "f x \<le> f y" if "y \<in> set xs" "P y" for y
  proof -
    have "y \<in> set (sort_key f xs)" using that(1) by simp
    then obtain j where j: "j < length (sort_key f xs)" "y = sort_key f xs ! j"
      unfolding in_set_conv_nth by blast
    then have "\<not> j < i" using i(4) that(2) by auto
    then have "i \<le> j" by simp
    then show ?thesis
      using sorted_nth_mono[OF sorted_sort_key[of f xs], of i j] i j by simp
  qed
  moreover have "x \<in> set xs" using nth_mem[OF i(1)] i(3) by simp
  ultimately show ?thesis using i by auto
qed

text \<open>C23: \<^verbatim>\<open>find_zone\<close> answers with the zone whose root is the longest of all zones that the name falls
  under, with an active subscription or an unreachable billing owner; when it answers with no zone,
  either no zone matches or the longest one is inactive: a shorter zone is never used instead.\<close>

theorem find_zone_longest:
  assumes "find_zone E w qn = Inr res"
  shows "(\<forall>z rn. res = Some (z, rn) \<longrightarrow>
      z \<in> set (dnszones w) \<and> matchSuffix E qn (DNSLabel E (zone_root z)) \<and> zone_active E w z = Inr True
      \<and> (\<forall>y \<in> set (dnszones w). matchSuffix E qn (DNSLabel E (zone_root y)) \<longrightarrow>
           length (zone_root y) \<le> length (zone_root z)))
    \<and> (res = None \<longrightarrow>
      (\<forall>y \<in> set (dnszones w). \<not> matchSuffix E qn (DNSLabel E (zone_root y)))
      \<or> (\<exists>z \<in> set (dnszones w). zone_active E w z = Inr False
           \<and> (\<forall>y \<in> set (dnszones w). matchSuffix E qn (DNSLabel E (zone_root y)) \<longrightarrow>
                length (zone_root y) \<le> length (zone_root z))))"
proof (cases "find (\<lambda>z. matchSuffix E qn (DNSLabel E (zone_root z))) (zones_by_length w)")
  case None
  then have "res = None" using assms by (simp add: find_zone_def)
  moreover have "\<forall>y \<in> set (dnszones w). \<not> matchSuffix E qn (DNSLabel E (zone_root y))"
    using None by (auto simp: find_None_iff zones_by_length_def)
  ultimately show ?thesis by simp
next
  case (Some z)
  from find_first_sorted[OF Some[unfolded zones_by_length_def]]
  have z: "z \<in> set (dnszones w)" "matchSuffix E qn (DNSLabel E (zone_root z))"
    "\<forall>y \<in> set (dnszones w). matchSuffix E qn (DNSLabel E (zone_root y)) \<longrightarrow>
       length (zone_root y) \<le> length (zone_root z)"
    by auto
  obtain active where a: "zone_active E w z = Inr active"
    "res = (if active then Some (z, apex_label E (stripSuffix E qn (DNSLabel E (zone_root z)))) else None)"
    using assms Some by (auto simp: find_zone_def res_simps)
  show ?thesis
  proof (cases active)
    case True
    then show ?thesis using a z by auto
  next
    case False
    then have "\<exists>z \<in> set (dnszones w). zone_active E w z = Inr False
       \<and> (\<forall>y \<in> set (dnszones w). matchSuffix E qn (DNSLabel E (zone_root y)) \<longrightarrow>
            length (zone_root y) \<le> length (zone_root z))"
      using a z by (intro bexI[of _ z]) simp_all
    then show ?thesis using False a by simp
  qed
qed

text \<open>\<^verbatim>\<open>find_records\<close> answers with all rows of the model and the zone under the exact name; only if
  there is none, with all rows under the name whose first label is replaced by an asterisk.\<close>

theorem find_records_exact_first:
  assumes "find_records w md rn z = Inr rs"
  shows "\<exists>name. dotted rn = Inr name \<and>
    (if filter_name md (z_id z) name w \<noteq> [] then rs = filter_name md (z_id z) name w
     else \<exists>wild. dotted (wildcard rn) = Inr wild \<and> rs = filter_name md (z_id z) wild w)"
  using assms by (auto simp: find_records_def res_simps Let_def split: if_splits)

definition sample_lookup_world :: world where
  "sample_lookup_world = empty_world\<lparr>
     dnszones := [sample_zone, sample_zone\<lparr>z_id := str ''z2'', zone_root := str ''sub.ex.org''\<rparr>],
     accounts := [(str ''alice'', \<lparr>acc_id = 1, subscription_id = None, subscription_active = True\<rparr>)],
     zrecs := [\<lparr>r_id = str ''t1'', r_zone = str ''z1'', record_name = str ''*'', ttl = 60, body = TXTRecord (str ''hi'')\<rparr>]\<rparr>"

theorem find_zone_longest_witness:
  "\<exists>z rn. find_zone sample_ext sample_lookup_world [str ''a'', str ''sub'', str ''ex'', str ''org''] = Inr (Some (z, rn))
     \<and> z_id z = str ''z2'' \<and> zone_active sample_ext sample_lookup_world z = Inr True"
proof -
  let ?z = "sample_zone\<lparr>z_id := str ''z2'', zone_root := str ''sub.ex.org''\<rparr>"
  have run: "find_zone sample_ext sample_lookup_world [str ''a'', str ''sub'', str ''ex'', str ''org'']
      = Inr (Some (?z, [str ''a'']))"
    by (simp add: find_zone_def zones_by_length_def sample_lookup_world_def sample_zone_def sample_label_def sample_match_def
        sample_strip_def apex_label_def zone_active_def owner_account_def account_of_def empty_world_def)
  from find_zone_longest[OF this] have "zone_active sample_ext sample_lookup_world ?z = Inr True" by simp
  then show ?thesis using run by (intro exI[of _ ?z] exI[of _ "[str ''a'']"]) simp
qed

theorem find_records_exact_first_witness:
  "\<exists>name wild. dotted [str ''a''] = Inr name \<and> dotted (wildcard [str ''a'']) = Inr wild
     \<and> find_records sample_lookup_world M_TXT [str ''a''] sample_zone
         = Inr (filter_name M_TXT (str ''z1'') wild sample_lookup_world)"
proof -
  have "find_records sample_lookup_world M_TXT [str ''a''] sample_zone = Inr (zrecs sample_lookup_world)"
    by (simp add: find_records_def dotted_def wildcard_def codec_simps filter_name_def sample_lookup_world_def
        sample_zone_def)
  from find_records_exact_first[OF this] this show ?thesis
    by (simp add: dotted_def wildcard_def codec_simps filter_name_def sample_lookup_world_def sample_zone_def)
qed

lemma find_records_mem:
  "find_records w md rn z = Inr rs \<Longrightarrow> r \<in> set rs \<Longrightarrow> r \<in> set (zrecs w) \<and> zmodel r = md \<and> r_zone r = z_id z"
  by (auto simp: find_records_def filter_name_def res_simps Let_def split: if_splits)


section \<open>Responses are only extended\<close>

definition extends :: "dns_msg \<Rightarrow> dns_msg \<Rightarrow> bool" where
  "extends m m' \<longleftrightarrow> prefix (m_rr m) (m_rr m') \<and> prefix (m_auth m) (m_auth m') \<and> prefix (m_ar m) (m_ar m')
     \<and> questions m' = questions m \<and> m_id m' = m_id m \<and> opcode m' = opcode m"

lemma extends_refl [simp]: "extends m m"
  by (simp add: extends_def)

lemma extends_trans: "extends a b \<Longrightarrow> extends b c \<Longrightarrow> extends a c"
  by (auto simp: extends_def intro: prefix_order.trans)

lemma extends_add [simp]:
  "extends m (add_answer r m)" "extends m (add_auth r m)" "extends m (add_ar r m)"
  "extends m (add_opt_ar x m)" "extends m (m\<lparr>rcode := c\<rparr>)"
  by (auto simp: extends_def add_answer_def add_auth_def add_ar_def add_opt_ar_def split: option.splits)

lemma extends_fold: "(\<And>x m. extends m (f x m)) \<Longrightarrow> extends m (fold f xs m)"
  by (induction xs arbitrary: m) (auto intro: extends_trans)

lemma fold_res_rel:
  assumes "\<And>a. R a a" "\<And>a b c. R a b \<Longrightarrow> R b c \<Longrightarrow> R a c" "\<And>x a a'. f x a = Inr a' \<Longrightarrow> R a a'"
  shows "fold_res f xs a = Inr a' \<Longrightarrow> R a a'"
proof (induction xs arbitrary: a)
  case (Cons x xs)
  then obtain b where "f x a = Inr b" "fold_res f xs b = Inr a'" by (auto simp: res_simps)
  then show ?case using Cons.IH assms(2,3) by blast
qed (simp add: assms(1))

lemma extends_fold_res:
  "(\<And>x m m'. f x m = Inr m' \<Longrightarrow> extends m m') \<Longrightarrow> fold_res f xs m = Inr m' \<Longrightarrow> extends m m'"
  by (rule fold_res_rel[where R = extends]) (auto intro: extends_trans)

lemma extends_fold_res_pair:
  "(\<And>x a a'. f x a = Inr a' \<Longrightarrow> extends (fst a) (fst a')) \<Longrightarrow> fold_res f xs a = Inr a' \<Longrightarrow> extends (fst a) (fst a')"
  by (rule fold_res_rel[where R = "\<lambda>a b. extends (fst a) (fst b)"]) (auto intro: extends_trans)

lemma add_to_rr_extends:
  "(\<And>rr m. extends m (add rr m)) \<Longrightarrow> add_to_rr add E qn r m = Inr m' \<Longrightarrow> extends m m'"
  by (auto simp: add_to_rr_def res_simps split: option.splits)

lemma additional_dynamic_extends: "additional_dynamic qn r m = Inr m' \<Longrightarrow> extends m m'"
  by (auto simp: additional_dynamic_def res_simps split: body.splits)
    (meson extends_add(4) extends_trans)

lemma add_aname_extends: "add_aname E w z qn r m = Inr m' \<Longrightarrow> extends m m'"
  by (auto simp: add_aname_def res_simps intro: extends_fold)

lemma lookup_additional_addr_extends:
  assumes "lookup_additional_addr E w m qn = Inr m'"
  shows "extends m m'"
proof -
  consider "m' = m" | addrs where "fold_res (add_to_rr add_ar E qn) addrs m = Inr m'"
    | z dyn m2 anames where "fold_res (additional_dynamic qn) dyn m = Inr m2"
         "fold_res (add_aname E w z qn) anames m2 = Inr m'"
    using assms
    by (auto simp: lookup_additional_addr_def res_simps split: option.splits prod.splits if_splits)
  then show ?thesis
  proof cases
    case 2
    show ?thesis by (rule extends_fold_res[OF _ 2]) (auto dest: add_to_rr_extends[rotated])
  next
    case 3
    have "extends m m2" by (rule extends_fold_res[OF _ 3(1)]) (rule additional_dynamic_extends)
    moreover have "extends m2 m'" by (rule extends_fold_res[OF _ 3(2)]) (rule add_aname_extends)
    ultimately show ?thesis by (rule extends_trans)
  qed simp
qed

lemma ds_auth_extends: "ds_auth n rs m = Inr (m', stop) \<Longrightarrow> extends m m'"
  by (induction n rs m rule: ds_auth.induct)
    (auto simp: res_simps split: option.splits intro: extends_trans[OF extends_add(2)])

lemma referral_dnssec_extends: "referral_dnssec E w z n m = Inr (m', stop) \<Longrightarrow> extends m m'"
  by (auto simp: referral_dnssec_def Let_def res_simps split: if_splits dest!: ds_auth_extends
      intro: extends_trans)

lemma referral_loop_extends:
  "referral_loop E w z rn d rs found m = Inr (m', found', stop) \<Longrightarrow> extends m m'"
proof (induction rs arbitrary: found m)
  case (Cons r rs)
  show ?case
  proof (cases "\<exists>nm. body r = NSRecord nm \<and> matchSuffix E rn (DNSLabel E (record_name r))")
    case False
    then have "referral_loop E w z rn d (r # rs) found m = referral_loop E w z rn d rs found m"
      by (auto split: body.splits)
    then show ?thesis using Cons by simp
  next
    case True
    then obtain nm where nm: "body r = NSRecord nm" "matchSuffix E rn (DNSLabel E (record_name r))" by blast
    let ?m1 = "add_auth (mk_rr (DNSLabel E (record_name r @ str ''.'' @ zone_root z)) QT_NS
      (RD_NS (DNSLabel E nm)) (ttl r)) m"
    let ?A = "if d then referral_dnssec E w z (record_name r) ?m1 else Inr (?m1, False)"
    have eq: "referral_loop E w z rn d (r # rs) found m = bind_res ?A (\<lambda>(m2, st).
        if st then Inr (m2, True, True)
        else bind_res (lookup_additional_addr E w m2 (DNSLabel E nm)) (referral_loop E w z rn d rs True))"
      using nm by (simp add: Let_def)
    obtain m2 st where m2: "?A = Inr (m2, st)" using Cons.prems unfolding eq bind_res_Inr_iff by auto
    have rest: "if st then m' = m2 else \<exists>m3. lookup_additional_addr E w m2 (DNSLabel E nm) = Inr m3
         \<and> referral_loop E w z rn d rs True m3 = Inr (m', found', stop)"
      using Cons.prems unfolding eq m2 by (auto simp: res_simps split: if_splits)
    have "extends ?m1 m2" using m2 by (auto split: if_splits dest: referral_dnssec_extends)
    then have "extends m m2" using extends_trans extends_add(2) by blast
    moreover have "extends m2 m'"
      using rest Cons.IH lookup_additional_addr_extends extends_trans
      by (cases st) (simp only: if_True extends_refl, simp only: if_False, blast)
    ultimately show ?thesis by (rule extends_trans)
  qed
qed simp

lemma lookup_referral_extends: "lookup_referral E w m rn z d = Inr m' \<Longrightarrow> extends m m'"
  by (auto simp: lookup_referral_def res_simps split: if_splits dest!: referral_loop_extends
      intro: extends_trans)

text \<open>The contract of the functions that are handed to \<^verbatim>\<open>lookup_cname\<close>.\<close>

locale lookup_handler =
  fixes f :: "dns_msg \<Rightarrow> label \<Rightarrow> dnszone \<Rightarrow> label \<Rightarrow> bool \<Rightarrow> dns_msg res"
  assumes f_extends: "f m rn z qn d = Inr m' \<Longrightarrow> extends m m'"
begin

lemma cname_extends:
  assumes "lookup_cname E w m rn z qn d f = Inr m'"
  shows "extends m m'"
proof -
  obtain others where o: "any_records E w rn z False = Inr others"
    using assms by (auto simp: lookup_cname_def res_simps)
  show ?thesis
  proof (cases others)
    case True
    then show ?thesis using assms o by (simp add: lookup_cname_def lookup_referral_extends)
  next
    case False
    then obtain rs where rs: "find_records w M_CNAME rn z = Inr rs"
      using assms o by (auto simp: lookup_cname_def res_simps)
    show ?thesis
    proof (cases rs)
      case Nil
      then show ?thesis using assms o False rs by (simp add: lookup_cname_def lookup_referral_extends)
    next
      case (Cons r rs')
      then obtain m1 fz where m1: "add_to_rr add_answer E qn r m = Inr m1"
        and fz: "find_zone E w (DNSLabel E (alias_of r)) = Inr fz"
        using assms o False rs by (auto simp: lookup_cname_def res_simps)
      have "m' = m1 \<or> (\<exists>rn' z' qn'. f m1 rn' z' qn' d = Inr m')"
        using assms by (auto simp: lookup_cname_def o False rs Cons m1 fz split: option.splits if_splits)
      moreover have "extends m m1" using add_to_rr_extends[OF extends_add(1) m1] .
      ultimately show ?thesis using f_extends extends_trans by blast
    qed
  qed
qed

lemma records_or_extends:
  assumes "\<And>r m m'. add r m = Inr m' \<Longrightarrow> extends m m'"
    and "records_or add md w m rn z (\<lambda>m'. lookup_cname E w m' rn z qn d f) = Inr m'"
  shows "extends m m'"
proof -
  obtain rs m1 where m1: "fold_res add rs m = Inr m1"
    and r: "m' = m1 \<or> lookup_cname E w m1 rn z qn d f = Inr m'"
    using assms(2) that[of "[]" m] by (auto simp: records_or_def res_simps split: if_splits)
  have "extends m m1" by (rule extends_fold_res[OF assms(1) m1])
  then show ?thesis using r cname_extends extends_trans by blast
qed

end

lemma add_answers_extend:
  "add_to_rr add_answer E qn r m = Inr m' \<Longrightarrow> extends m m'"
  "add_sshfp E qn r m = Inr m' \<Longrightarrow> extends m m'"
  "add_ds E qn r m = Inr m' \<Longrightarrow> extends m m'"
  by (auto simp: add_to_rr_def add_sshfp_def add_ds_def res_simps split: option.splits body.splits intro: extends_fold)

lemma handler_zero: "lookup_handler (\<lambda>m rn z qn d. Inl e)"
  by unfold_locales simp

lemma handler_records_or:
  assumes "lookup_handler f" "\<And>qn r m m'. add qn r m = Inr m' \<Longrightarrow> extends m m'"
  shows "lookup_handler (\<lambda>m rn z qn d. records_or (add qn) md w m rn z (\<lambda>m'. lookup_cname E w m' rn z qn d f))"
  by unfold_locales (rule lookup_handler.records_or_extends[OF assms(1)], rule assms(2))

text \<open>The lookups meet the contract.\<close>

interpretation mx: lookup_handler "lookup_mx n E w" for n E w
  by (induction n) (simp_all add: handler_zero handler_records_or add_answers_extend)

interpretation txts: lookup_handler "lookup_txt n E w" for n E w
  by (induction n) (simp_all add: handler_zero handler_records_or add_answers_extend)

interpretation srv: lookup_handler "lookup_srv n E w" for n E w
  by (induction n) (simp_all add: handler_zero handler_records_or add_answers_extend)

interpretation naptr: lookup_handler "lookup_naptr n E w" for n E w
  by (induction n) (simp_all add: handler_zero handler_records_or add_answers_extend)

interpretation sshfp: lookup_handler "lookup_sshfp n E w" for n E w
  by (induction n) (simp_all add: handler_zero handler_records_or add_answers_extend)

interpretation ds: lookup_handler "lookup_ds n E w" for n E w
  by (induction n) (simp_all add: handler_zero handler_records_or add_answers_extend)

interpretation loc: lookup_handler "lookup_loc n E w" for n E w
  by (induction n) (simp_all add: handler_zero handler_records_or add_answers_extend)

interpretation hinfo: lookup_handler "lookup_hinfo n E w" for n E w
  by (induction n) (simp_all add: handler_zero handler_records_or add_answers_extend)

interpretation rp: lookup_handler "lookup_rp n E w" for n E w
  by (induction n) (simp_all add: handler_zero handler_records_or add_answers_extend)

interpretation dhcid: lookup_handler "lookup_dhcid n E w" for n E w
  by (induction n) (simp_all add: handler_zero handler_records_or add_answers_extend)

lemma zone_ns_extends [simp]: "extends m (zone_ns E w z qn m)"
  by (simp add: zone_ns_def Let_def extends_fold)

definition adds :: "dns_msg \<Rightarrow> dns_msg res \<Rightarrow> bool" where
  "adds m R \<longleftrightarrow> (\<forall>m'. R = Inr m' \<longrightarrow> extends m m')"

lemma adds_bind: "adds m R \<Longrightarrow> (\<And>m'. adds m' (f m')) \<Longrightarrow> adds m (bind_res R f)"
  by (cases R) (auto simp: adds_def intro: extends_trans)

lemma adds_read: "(\<And>a. adds m (f a)) \<Longrightarrow> adds m (bind_res R f)"
  by (cases R) (auto simp: adds_def)

lemma adds_from: "extends m m1 \<Longrightarrow> adds m1 R \<Longrightarrow> adds m R"
  by (auto simp: adds_def intro: extends_trans)

lemma adds_ret: "extends m m' \<Longrightarrow> adds m (Inr m')"
  by (simp add: adds_def)

lemma adds_answers: "adds m (fold_res (add_to_rr add_answer E qn) rs m)"
  by (auto simp: adds_def intro: extends_fold_res[OF add_answers_extend(1)])

lemma handler_adds: "lookup_handler f \<longleftrightarrow> (\<forall>m rn z qn d. adds m (f m rn z qn d))"
  by (simp add: lookup_handler_def adds_def)

lemma handler_cname: "lookup_handler f \<Longrightarrow> adds m (lookup_cname E w m rn z qn d f)"
  using lookup_handler.cname_extends by (auto simp: adds_def)

lemma handler_ns:
  assumes "lookup_handler (lookup_ns n E w)"
  shows "lookup_handler (lookup_ns (Suc n) E w)"
  unfolding handler_adds lookup_ns.simps Let_def
proof (intro allI, rule adds_read, rule adds_bind[OF adds_answers])
  fix m1 rn z qn d and rs :: "zrec list"
  let ?m2 = "if label_eq E rn (DNSLabel E (str ''@'')) then zone_ns E w z qn m1 else m1"
  have "extends m1 ?m2" by simp
  then show "adds m1 (if rs = [] then lookup_cname E w ?m2 rn z qn d (lookup_ns n E w) else Inr ?m2)"
    using handler_cname[OF assms] by (cases rs) (auto intro: adds_ret adds_from)
qed

lemma handler_caa:
  assumes "lookup_handler (lookup_caa n E w)"
  shows "lookup_handler (lookup_caa (Suc n) E w)"
  unfolding handler_adds lookup_caa.simps records_or_def
proof (intro allI, rule adds_read, rule adds_bind[OF adds_answers])
  fix m1 rn z qn d and rs :: "zrec list"
  show "adds m1 (if rs = [] then bind_res (find_records w M_Redirect rn z) (\<lambda>redirects.
       case redirects of [] \<Rightarrow> lookup_cname E w m1 rn z qn d (lookup_caa n E w)
       | r # x \<Rightarrow> Inr (add_answer (RedirectRecord_to_rr_caa qn (ttl r)) m1)) else Inr m1)"
    using handler_cname[OF assms] by (cases rs) (auto intro!: adds_ret adds_read split: list.split)
qed

interpretation ns: lookup_handler "lookup_ns n E w" for n E w
  by (induction n) (simp_all only: handler_ns lookup_ns.simps(1) handler_zero)

interpretation caa: lookup_handler "lookup_caa n E w" for n E w
  by (induction n) (simp_all only: handler_caa lookup_caa.simps(1) handler_zero)

interpretation https: lookup_handler "lookup_https n E w" for n E w
proof (cases n)
  case (Suc k)
  have "adds m (lookup_https (Suc k) E w m rn z qn d)" for m rn z qn d
  proof (cases "parse_https_record_name E rn")
    case (fields port scheme rn')
    show ?thesis
      unfolding lookup_https_def nat.case fields prod.case Let_def
    proof (rule adds_read, rule adds_bind[OF adds_answers])
      fix rs m1
      show "adds m1 (if filter (https_matches port scheme) rs = []
          then lookup_cname E w m1 rn z qn d (lookup_sshfp k E w) else Inr m1)"
        by (simp add: handler_cname adds_ret sshfp.lookup_handler_axioms)
    qed
  qed
  then show "lookup_handler (lookup_https n E w)" by (simp add: handler_adds Suc)
qed (simp add: handler_adds lookup_https_def adds_def)

lemma addr_stages_extend:
  "addr_stage qn r a = Inr a' \<Longrightarrow> extends (fst a) (fst a')"
  "dynamic_stage qn r a = Inr a' \<Longrightarrow> extends (fst a) (fst a')"
  "aname_stage E w z qn r a = Inr a' \<Longrightarrow> extends (fst a) (fst a')"
  "redirect_stage qn rs a = Inr a' \<Longrightarrow> extends (fst a) (fst a')"
proof -
  show "addr_stage qn r a = Inr a' \<Longrightarrow> extends (fst a) (fst a')"
    by (cases "body r") (auto simp: addr_stage_def res_simps split: if_splits)
  show "dynamic_stage qn r a = Inr a' \<Longrightarrow> extends (fst a) (fst a')"
    by (cases "body r") (auto simp: dynamic_stage_def res_simps Let_def split: option.splits)
  show "aname_stage E w z qn r a = Inr a' \<Longrightarrow> extends (fst a) (fst a')"
    by (auto simp: aname_stage_def res_simps extends_fold)
  show "redirect_stage qn rs a = Inr a' \<Longrightarrow> extends (fst a) (fst a')"
    by (cases rs) (auto simp: redirect_stage_def res_simps Let_def split: if_splits)
qed

lemma next_stage_extends:
  "(\<And>rs a a'. f rs a = Inr a' \<Longrightarrow> extends (fst a) (fst a')) \<Longrightarrow> next_stage w md rn z f a = Inr a'
    \<Longrightarrow> extends (fst a) (fst a')"
  unfolding next_stage_def by (cases "snd a") (simp, simp add: res_simps, blast)

lemma handler_addr:
  assumes "lookup_handler (lookup_addr n E w)"
  shows "lookup_handler (lookup_addr (Suc n) E w)"
proof
  fix m rn z qn d m'
  assume "lookup_addr (Suc n) E w m rn z qn d = Inr m'"
  then obtain a1 a2 a3 a4 where
    a1: "next_stage w M_Address rn z (fold_res (addr_stage qn)) (m, False) = Inr a1"
    and a2: "next_stage w M_DynamicAddress rn z (fold_res (dynamic_stage qn)) a1 = Inr a2"
    and a3: "next_stage w M_ANAME rn z (fold_res (aname_stage E w z qn)) a2 = Inr a3"
    and a4: "next_stage w M_Redirect rn z (redirect_stage qn) a3 = Inr a4"
    and r: "m' = fst a4 \<or> lookup_cname E w (fst a4) rn z qn d (lookup_addr n E w) = Inr m'"
    by (auto simp: res_simps split: if_splits)
  have "extends (fst (m, False)) (fst a1)"
    by (rule next_stage_extends[OF _ a1], erule extends_fold_res_pair[rotated], rule addr_stages_extend(1))
  moreover have "extends (fst a1) (fst a2)"
    by (rule next_stage_extends[OF _ a2], erule extends_fold_res_pair[rotated], rule addr_stages_extend(2))
  moreover have "extends (fst a2) (fst a3)"
    by (rule next_stage_extends[OF _ a3], erule extends_fold_res_pair[rotated], rule addr_stages_extend(3))
  moreover have "extends (fst a3) (fst a4)"
    by (rule next_stage_extends[OF _ a4]) (rule addr_stages_extend(4))
  moreover have "extends (fst a4) m'" using r lookup_handler.cname_extends[OF assms] by auto
  ultimately show "extends m m'" by (simp, meson extends_trans)
qed

interpretation addr: lookup_handler "lookup_addr n E w" for n E w
  by (induction n) (simp_all only: handler_addr lookup_addr.simps(1) handler_zero)


section \<open>Depth of nested calls\<close>

lemma find_zone_mem: "find_zone E w n = Inr (Some (z, rn)) \<Longrightarrow> z \<in> set (dnszones w)"
  by (cases "find (\<lambda>y. matchSuffix E n (DNSLabel E (zone_root y))) (zones_by_length w)")
    (auto simp: find_zone_def zones_by_length_def res_simps split: if_splits dest: find_first_sorted)

lemma cname_tail_no_call:
  assumes "\<forall>z' \<in> set (dnszones w). z_id z' = z_id z"
  shows "bind_res (find_zone E w n) (\<lambda>fz. case fz of
      Some (z', rn') \<Rightarrow> if z_id z' \<noteq> z_id z \<and> \<not> label_eq E rn rn' then h z' rn' else Inr m1 | None \<Rightarrow> Inr m1)
    = bind_res (find_zone E w n) (\<lambda>_. Inr m1)"
  using assms find_zone_mem[of E w n]
  by (cases "find_zone E w n") (auto split: option.splits)

lemma cname_no_call:
  assumes "\<forall>z' \<in> set (dnszones w). z_id z' = z_id z"
    and "NO_MATCH (\<lambda>(_::dns_msg) (_::label) (_::dnszone) (_::label) (_::bool). (Inl RecursionError :: dns_msg res)) f"
  shows "lookup_cname E w m rn z qn d f = lookup_cname E w m rn z qn d (\<lambda>_ _ _ _ _. Inl RecursionError)"
  unfolding lookup_cname_def cname_tail_no_call[OF assms(1)] ..

text \<open>
  A name in one zone that is an alias for a name in another, and back. The hypotheses describe the two
  names: neither has other records, each has a CNAME record whose alias is the other, and their parts
  before the zones differ, for the code does not follow an alias to the same name in another zone.
\<close>

definition cname_loop ::
  "ext \<Rightarrow> world \<Rightarrow> model \<Rightarrow> (bool \<Rightarrow> label) \<Rightarrow> (bool \<Rightarrow> dnszone) \<Rightarrow> (bool \<Rightarrow> pstr) \<Rightarrow> bool \<Rightarrow> bool" where
  "cname_loop E w md rn z alias b \<longleftrightarrow>
     find_records w md (rn b) (z b) = Inr [] \<and> any_records E w (rn b) (z b) False = Inr False
     \<and> (\<exists>r rs. find_records w M_CNAME (rn b) (z b) = Inr (r # rs) \<and> body r = CNAMERecord (alias b))
     \<and> find_zone E w (DNSLabel E (alias b)) = Inr (Some (z (\<not> b), rn (\<not> b)))
     \<and> z_id (z b) \<noteq> z_id (z (\<not> b)) \<and> \<not> label_eq E (rn b) (rn (\<not> b))"

text \<open>C28: a lookup follows aliases from zone to zone without remembering where it has been: if two names in
  two zones are aliases for each other, have no other records, and differ in the part before the zone (so not
  www in both), the lookup of a TXT record exhausts the stack whatever its size and raises \<^verbatim>\<open>RecursionError\<close>.\<close>

theorem cname_loop_raises:
  assumes "\<And>b. cname_loop E w M_TXT rn z alias b"
  shows "lookup_txt n E w m (rn b) (z b) qn d = Inl RecursionError"
proof (induction n arbitrary: m b qn)
  case (Suc n)
  obtain r rs where r: "find_records w M_CNAME (rn b) (z b) = Inr (r # rs)" "body r = CNAMERecord (alias b)"
    using assms[of b] by (auto simp: cname_loop_def)
  have "alias_of r = alias b" "\<exists>rr. zrec_to_rr E qn r = Inr (Some rr)"
    using r(2) by (simp_all add: alias_of_def zrec_to_rr.simps)
  then obtain rr where "alias_of r = alias b" "zrec_to_rr E qn r = Inr (Some rr)" by blast
  then have "lookup_cname E w m (rn b) (z b) qn d (lookup_txt n E w) =
      lookup_txt n E w (add_answer rr m) (rn (\<not> b)) (z (\<not> b)) (DNSLabel E (alias b)) d"
    using assms[of b] r(1) by (auto simp: lookup_cname_def cname_loop_def add_to_rr_def)
  then show ?case
    using assms[of b] Suc by (simp add: records_or_def cname_loop_def)
qed simp

definition sample_loop_zone :: "bool \<Rightarrow> dnszone" where
  "sample_loop_zone b = (if b then sample_zone else sample_zone\<lparr>z_id := str ''z2'', zone_root := str ''ex.net''\<rparr>)"

definition sample_loop_alias :: "bool \<Rightarrow> pstr" where
  "sample_loop_alias b = (if b then str ''b.ex.net'' else str ''a.ex.org'')"

definition sample_loop_name :: "bool \<Rightarrow> label" where
  "sample_loop_name b = (if b then [str ''a''] else [str ''b''])"

definition sample_loop_world :: world where
  "sample_loop_world = empty_world\<lparr>dnszones := [sample_loop_zone True, sample_loop_zone False],
     accounts := [(str ''alice'', \<lparr>acc_id = 1, subscription_id = None, subscription_active = True\<rparr>)],
     zrecs := [\<lparr>r_id = str ''c1'', r_zone = str ''z1'', record_name = str ''a'', ttl = 60, body = CNAMERecord (str ''b.ex.net'')\<rparr>,
       \<lparr>r_id = str ''c2'', r_zone = str ''z2'', record_name = str ''b'', ttl = 60, body = CNAMERecord (str ''a.ex.org'')\<rparr>]\<rparr>"

lemmas sample_loop_defs = sample_loop_zone_def sample_loop_alias_def sample_loop_name_def sample_loop_world_def

lemma sample_loop: "cname_loop sample_ext sample_loop_world M_TXT sample_loop_name sample_loop_zone sample_loop_alias b"
proof -
  have names: "dotted (sample_loop_name b) = Inr (if b then str ''a'' else str ''b'')"
    "dotted (wildcard (sample_loop_name b)) = Inr (str ''*'')"
    by (simp_all add: sample_loop_name_def dotted_def wildcard_def codec_simps)
  have rows: "filter_name md (z_id (sample_loop_zone b)) n sample_loop_world = []"
    if "md \<noteq> M_CNAME \<or> n = str ''*''" for md n
    using that by (auto simp: filter_name_def sample_loop_defs sample_zone_def)
  have https: "parse_https_record_name sample_ext (sample_loop_name b) = (443, str ''https'', sample_loop_name b)"
    by (simp add: sample_loop_name_def parse_https_record_name_def)
  have any: "any_records sample_ext sample_loop_world (sample_loop_name b) (sample_loop_zone b) False = Inr False"
    by (simp add: any_records_def names rows https any_models_def)
  have cname: "find_records sample_loop_world M_CNAME (sample_loop_name b) (sample_loop_zone b) =
      Inr [\<lparr>r_id = if b then str ''c1'' else str ''c2'', r_zone = if b then str ''z1'' else str ''z2'',
        record_name = if b then str ''a'' else str ''b'', ttl = 60, body = CNAMERecord (sample_loop_alias b)\<rparr>]"
    unfolding find_records_def names by (cases b) (simp_all add: filter_name_def sample_loop_defs sample_zone_def)
  have zone: "find_zone sample_ext sample_loop_world (DNSLabel sample_ext (sample_loop_alias b)) =
      Inr (Some (sample_loop_zone (\<not> b), sample_loop_name (\<not> b)))"
    by (cases b) (simp_all add: find_zone_def zones_by_length_def sample_loop_defs sample_zone_def sample_label_def
        sample_match_def sample_strip_def apex_label_def zone_active_def owner_account_def account_of_def empty_world_def)
  show ?thesis
    using any cname zone rows[of M_TXT]
    by (simp add: cname_loop_def find_records_def[of _ M_TXT] names del: str_simps)
      (simp add: sample_loop_defs sample_zone_def)
qed

theorem cname_loop_raises_witness:
  "lookup_txt 1000 sample_ext sample_loop_world empty_msg [str ''a''] (sample_loop_zone True)
     [str ''a'', str ''ex'', str ''org''] False = Inl RecursionError"
  using cname_loop_raises[OF sample_loop, of 1000 empty_msg True "[str ''a'', str ''ex'', str ''org'']" False]
  by (simp add: sample_loop_name_def del: str_simps)

end
