(* ===== verification/Update_Props.thy ===== *)
theory Update_Props
  imports Update_Sample Lookup_Props
begin

text \<open>
  What dynamic updates guarantee: nothing is written without a key of the zone, a matching message
  authentication code and a time in the window; what is written stays inside the zone and, for keys
  that are restricted to ACME challenges, inside the TXT records; every answer to a known key is
  signed.
\<close>

section \<open>Phases\<close>

lemma go_on_Inr_iff [res_simps]: "go_on p f = Inr (Inr b) \<longleftrightarrow> (\<exists>a. p = Inr (Inr a) \<and> f a = Inr (Inr b))"
  by (cases p) (auto simp: go_on_def split: sum.splits)

lemma leave_not_Inr [simp]: "leave r = Inr (Inr b) \<longleftrightarrow> False"
  by (auto simp: leave_def res_simps)

text \<open>All checks that come before the writing, from the request on.\<close>

definition update_ready :: "nat \<Rightarrow> ext \<Rightarrow> world \<Rightarrow> dns_msg \<Rightarrow> (tsig_ctx \<times> dnszone \<times> label \<times> dns_msg \<times> dns_msg) phase" where
  "update_ready n E w req =
     go_on (update_key E w req (msg_reply E req)) (\<lambda>(c, req', zone_name).
       go_on (update_checks n E w c req' zone_name (msg_reply E req)) (\<lambda>(z, req'', res').
         Inr (Inr (c, z, zone_name, req'', res'))))"

lemma handle_update_eq:
  "handle_update_query n E req w =
     (case update_ready n E w req of
        Inl e \<Rightarrow> (Inl e, w)
      | Inr (Inl m) \<Rightarrow> (Inr m, w)
      | Inr (Inr (c, z, zn, req', res)) \<Rightarrow> apply_updates E c z zn req' res w)"
  unfolding handle_update_query_def Let_def update_ready_def[symmetric] bind_act_def asks_res_def
  by (cases "update_ready n E w req") (auto simp: ret_def split: sum.splits)

lemma update_ready_Inr:
  assumes "update_ready n E w req = Inr (Inr (c, z, zn, req2, res))"
  shows "\<exists>req1. update_key E w req (msg_reply E req) = Inr (Inr (c, req1, zn))
      \<and> update_checks n E w c req1 zn (msg_reply E req) = Inr (Inr (z, req2, res))"
  using assms unfolding update_ready_def go_on_Inr_iff by (auto simp: go_on_Inr_iff)

lemma handle_update_run:
  assumes "handle_update_query n E req w = (x, w')"
  shows "w' = w \<or> (\<exists>c req1 zn z req2 res.
      update_key E w req (msg_reply E req) = Inr (Inr (c, req1, zn))
      \<and> update_checks n E w c req1 zn (msg_reply E req) = Inr (Inr (z, req2, res))
      \<and> apply_updates E c z zn req2 res w = (x, w'))"
proof (cases "\<exists>c z zn req2 res. update_ready n E w req = Inr (Inr (c, z, zn, req2, res))")
  case True
  then obtain c z zn req2 res where p: "update_ready n E w req = Inr (Inr (c, z, zn, req2, res))" by blast
  then have "apply_updates E c z zn req2 res w = (x, w')" using assms by (simp add: handle_update_eq)
  then show ?thesis using update_ready_Inr[OF p] by blast
next
  case False
  then have "snd (handle_update_query n E req w) = w"
    unfolding handle_update_eq by (auto split: sum.splits)
  then show ?thesis using assms by simp
qed

lemma update_key_Inr:
  assumes "update_key E w req res = Inr (Inr (c, req1, zn))"
  shows "\<exists>t req'. opcode req = OP_UPDATE \<and> split_tsig req = Some (t, req') \<and> tc_name c = rname t
    \<and> lower_label E (qname (msg_q req)) = Inr zn \<and> find_key E w (rname t) zn = Some (tc_key c)
    \<and> req1 = req'\<lparr>m_id := original_id (tc_in c)\<rparr>
    \<and> (\<exists>raw alg. rdata t = RD_raw raw \<and> decode_tsig E raw = Inr (tc_in c) \<and> alg_label E (alg_name (tc_in c)) = Inr alg
         \<and> map_of HMAC_NAMES alg = Some (tc_digest c))"
proof -
  obtain t req' where t: "split_tsig req = Some (t, req')" and o: "opcode req = OP_UPDATE"
    using assms by (auto simp: update_key_def split: if_splits option.splits)
  have q: "msg_q req' = msg_q req" using t by (auto simp: split_tsig_def msg_q_def split: if_splits)
  show ?thesis
    using assms t o q by (auto simp: update_key_def res_simps split: if_splits option.splits rdata.splits)
qed

lemma request_digests_Inr:
  assumes "request_digests E c req = Inr (d, d2)" "m \<in> {d, d2}"
  shows "\<exists>p n v. (msg_pack E req = Inr p \<or> pack_canon E req = Inr p) \<and> tsig_name_data E (tc_name c) = Inr n
    \<and> make_variables E (tc_in c) = Inr v \<and> m = hmac E (tc_digest c) (secret (tc_key c)) (p @ n @ v)"
  using assms by (auto simp: request_digests_def res_simps)

lemma update_signature_Inr:
  assumes "update_signature E w c req res = Inr (Inr req')"
  shows "\<exists>d d2. request_digests E c (map_rrs fill_rdata req) = Inr (d, d2) \<and> mac (tc_in c) \<in> {d, d2}
    \<and> req' = map_rrs unfill_rdata (map_rrs fill_rdata req)"
  using assms by (auto simp: update_signature_def res_simps split: if_splits)

lemma update_time_Inr:
  "update_time E w c res = Inr (Inr u) \<Longrightarrow>
     now w \<le> time_signed (tc_in c) + fudge (tc_in c) * 1000000
     \<and> time_signed (tc_in c) \<le> now w + fudge (tc_in c) * 1000000"
  by (auto simp: update_time_def Let_def res_simps split: if_splits)

lemma update_zone_Inr:
  "update_zone E w c zn res = Inr (Inr z) \<Longrightarrow> zone_named E w zn = Some z \<and> us_zone (tc_key c) = z_id z"
  by (auto simp: update_zone_def split: option.splits if_splits)

lemma update_checks_Inr:
  assumes "update_checks n E w c req zn res = Inr (Inr (z, req2, res2))"
  shows "update_signature E w c req res = Inr (Inr req2)" "update_time E w c res = Inr (Inr ())"
    "update_zone E w c zn res = Inr (Inr z)" "update_prereq n E w c z zn req2 res = Inr (Inr res2)"
    "prescan E zn (qclass (msg_q req2)) (m_auth req2) = None"
  using assms by (auto simp: update_checks_def res_simps split: option.splits)

text \<open>The request is signed, in time, with a key of the zone \<open>z\<close>, which it names: its last additional record is a
  TSIG record \<open>t\<close>, whose data \<open>raw\<close> decodes to \<open>sig\<close>; the name of \<open>t\<close> selects the key; the code in \<open>sig\<close> is the HMAC,
  by the algorithm that \<open>sig\<close> names, of a packed form of the rest of the request, the name and the variables.\<close>

definition signed_update :: "ext \<Rightarrow> world \<Rightarrow> dns_msg \<Rightarrow> dnszone \<Rightarrow> bool" where
  "signed_update E w req z \<longleftrightarrow> (\<exists>t req' zn key raw sig alg digest p n v.
    opcode req = OP_UPDATE \<and> split_tsig req = Some (t, req')
    \<and> lower_label E (qname (msg_q req)) = Inr zn \<and> find_key E w (rname t) zn = Some key
    \<and> rdata t = RD_raw raw \<and> decode_tsig E raw = Inr sig
    \<and> alg_label E (alg_name sig) = Inr alg \<and> map_of HMAC_NAMES alg = Some digest
    \<and> (let body = map_rrs fill_rdata (req'\<lparr>m_id := original_id sig\<rparr>) in msg_pack E body = Inr p \<or> pack_canon E body = Inr p)
    \<and> tsig_name_data E (rname t) = Inr n \<and> make_variables E sig = Inr v
    \<and> mac sig = hmac E digest (secret key) (p @ n @ v)
    \<and> now w \<le> time_signed sig + fudge sig * 1000000 \<and> time_signed sig \<le> now w + fudge sig * 1000000
    \<and> zone_named E w zn = Some z \<and> us_zone key = z_id z)"

lemma update_run_signed:
  assumes "update_key E w req (msg_reply E req) = Inr (Inr (c, req1, zn))"
    "update_checks n E w c req1 zn (msg_reply E req) = Inr (Inr (z, req2, res))"
  shows "signed_update E w req z"
proof -
  note ch = update_checks_Inr[OF assms(2)]
  obtain d d2 where d: "request_digests E c (map_rrs fill_rdata req1) = Inr (d, d2)" "mac (tc_in c) \<in> {d, d2}"
    using update_signature_Inr[OF ch(1)] by blast
  obtain t req' raw alg where k: "opcode req = OP_UPDATE" "split_tsig req = Some (t, req')" "tc_name c = rname t"
      "lower_label E (qname (msg_q req)) = Inr zn" "find_key E w (rname t) zn = Some (tc_key c)"
      "req1 = req'\<lparr>m_id := original_id (tc_in c)\<rparr>" "rdata t = RD_raw raw" "decode_tsig E raw = Inr (tc_in c)"
      "alg_label E (alg_name (tc_in c)) = Inr alg" "map_of HMAC_NAMES alg = Some (tc_digest c)"
    using update_key_Inr[OF assms(1)] by blast
  show ?thesis
    unfolding signed_update_def Let_def k(6)[symmetric]
    using k request_digests_Inr[OF d] update_time_Inr[OF ch(2)] update_zone_Inr[OF ch(3)] by metis
qed

text \<open>C4: an update request changes the state (rows, queued tasks, anything) only if it is signed: it ends with
  a TSIG record, the name of that record selects a key stored for the zone that the request names,
  the code that this record carries is the HMAC of the request under the secret of that key, by the algorithm
  that the record names (over the message as \<^verbatim>\<open>dnslib\<close> packs it, or over its form without compression,
  followed by the name of the key and the variables of the record), and the clock is within
  the fudge of the signing time in the record.\<close>

theorem update_requires_signature:
  assumes "handle_update_query n E req w = (x, w')" "w' \<noteq> w"
  shows "\<exists>t req' zn key raw sig alg digest body p tn v z.
    opcode req = OP_UPDATE \<and> split_tsig req = Some (t, req')
    \<and> lower_label E (qname (msg_q req)) = Inr zn \<and> find_key E w (rname t) zn = Some key
    \<and> rdata t = RD_raw raw \<and> decode_tsig E raw = Inr sig
    \<and> alg_label E (alg_name sig) = Inr alg \<and> map_of HMAC_NAMES alg = Some digest
    \<and> body = map_rrs fill_rdata (req'\<lparr>m_id := original_id sig\<rparr>) \<and> (msg_pack E body = Inr p \<or> pack_canon E body = Inr p)
    \<and> tsig_name_data E (rname t) = Inr tn \<and> make_variables E sig = Inr v
    \<and> mac sig = hmac E digest (secret key) (p @ tn @ v)
    \<and> now w \<le> time_signed sig + fudge sig * 1000000 \<and> time_signed sig \<le> now w + fudge sig * 1000000
    \<and> zone_named E w zn = Some z \<and> us_zone key = z_id z"
proof -
  obtain z where "signed_update E w req z" using handle_update_run[OF assms(1)] assms(2) update_run_signed by blast
  then show ?thesis unfolding signed_update_def Let_def by metis
qed

theorem update_requires_signature_witness:
  "sample_world_after \<noteq> sample_update_world
    \<and> (\<exists>t req' zn key. split_tsig sample_request = Some (t, req')
        \<and> lower_label sample_ext (qname (msg_q sample_request)) = Inr zn
        \<and> find_key sample_ext sample_update_world (rname t) zn = Some key)"
proof -
  have ne: "sample_world_after \<noteq> sample_update_world"
    by (simp add: sample_world_after_def sample_update_world_def empty_world_def)
  obtain m where "handle_update_query 1 sample_ext sample_request sample_update_world = (Inr m, sample_world_after)"
    using sample_run by blast
  from update_requires_signature[OF this ne] show ?thesis using ne by auto
qed


section \<open>Updates stay in the zone\<close>

lemma body_models:
  "MXRecord_body E d = Inr b \<Longrightarrow> model_of b = M_MX" "TXTRecord_body d = Inr b \<Longrightarrow> model_of b = M_TXT"
  "SRVRecord_body E d = Inr b \<Longrightarrow> model_of b = M_SRV" "CAARecord_body d = Inr b \<Longrightarrow> model_of b = M_CAA"
  "DSRecord_body d = Inr b \<Longrightarrow> model_of b = M_DS" "DNSKEYRecord_body d = Inr b \<Longrightarrow> model_of b = M_DNSKEY"
  "LOCRecord_body d = Inr b \<Longrightarrow> model_of b = M_LOC"
  "RPRecord_body E d = Inr b \<Longrightarrow> model_of b = M_RP" "DHCIDRecord_body d = Inr b \<Longrightarrow> model_of b = M_DHCID"
  by (cases d; auto simp: MXRecord_body_def TXTRecord_body_def SRVRecord_body_def CAARecord_body_def
      DSRecord_body_def DNSKEYRecord_body_def LOCRecord_body_def RPRecord_body_def
      DHCIDRecord_body_def res_simps split: list.splits; fail)+

lemma HINFO_body_model: "HINFORecord_body E d = Inr b \<Longrightarrow> model_of b = M_HINFO"
  unfolding HINFORecord_body_def bind_res_Inr_iff by clarify (auto split: list.splits)

lemma update_frame_model:
  "update_frame E z rr r b = Inr r' \<Longrightarrow> (\<And>b'. b = Inr b' \<Longrightarrow> model_of b' = m) \<Longrightarrow> zmodel r' = m"
  by (auto simp: update_frame_def res_simps)

lemma from_rr_frame_model:
  "from_rr_frame E i z rr b = Inr r \<Longrightarrow> (\<And>b'. b = Inr b' \<Longrightarrow> model_of b' = m) \<Longrightarrow> zmodel r = m"
  by (auto simp: from_rr_frame_def new_zrec_def res_simps)

lemma update_from_rr_pk:
  assumes "zrec_update_from_rr E z rr r = Inr r'"
  shows "pk r' = pk r \<and> r_zone r' = r_zone r"
proof -
  have "r_id r' = r_id r \<and> r_zone r' = r_zone r"
    using assms
    by (cases "body r") (auto simp: zrec_update_from_rr.simps Record_Store.update_defs update_frame_def res_simps)
  moreover have "zmodel r' = zmodel r"
    using assms
    by (cases "body r")
      (auto simp: zrec_update_from_rr.simps Record_Store.update_defs res_simps
        elim!: update_frame_model body_models HINFO_body_model split: rdata.splits)
  ultimately show ?thesis by (simp add: pk_def)
qed

lemma model_from_rr_model: "model_from_rr E m i z rr = Inr r \<Longrightarrow> zmodel r = m"
  by (cases m)
    (auto simp: from_rr_defs res_simps elim!: from_rr_frame_model body_models HINFO_body_model split: rdata.splits)

lemma row_rr_pure [simp]: "snd (row_rr E n r w) = w"
  by (simp add: row_rr_def act_defs split: sum.splits option.splits)

lemma row_rr_Inr: "row_rr E n r w = (Inr rr, w') \<Longrightarrow> w' = w \<and> zrec_to_rr E n r = Inr (Some rr)"
  by (auto simp: row_rr_def act_defs split: sum.splits option.splits)

text \<open>Rows that were read from the zone stay rows of the zone while others are saved or deleted.\<close>

lemma rows_step:
  assumes "\<And>row. r_zone row = zid \<Longrightarrow> obeys (known E zid row) (zone_step E zid) (f row)"
    and "\<forall>row \<in> set rows. row \<in> set (zrecs w) \<and> r_zone row = zid" "db_ok E w"
  shows "zone_step E zid w (snd (for_until rows f w))"
proof -
  let ?P = "\<lambda>w. db_ok E w \<and> (\<forall>row \<in> set rows. known E zid row w)"
  have "obeys ?P (zone_step E zid) (for_until rows f)"
  proof (rule zstep.obeys_for_until)
    show "obeys ?P (zone_step E zid) (f row)" if "row \<in> set rows" for row
      by (rule obeys_pre[OF assms(1)]) (use that assms(2) in auto)
    show "?P t" if "?P s" "zone_step E zid s t" for s t
      using that known_stable db_ok_stable by blast
  qed
  moreover have "?P w" using assms(2,3) known_row by blast
  ultimately show ?thesis by (simp add: obeys_def)
qed

lemma for_each_until: "for_each xs f = bind_act (for_until xs (\<lambda>x. seq (f x) (ret (None :: unit option)))) (\<lambda>_. ret ())"
proof (induction xs)
  case (Cons x xs)
  show ?case by (simp add: seq_def bind_act_assoc Cons)
qed (simp add: act_defs fun_eq_iff)

lemma rows_step_each:
  assumes "\<And>row. r_zone row = zid \<Longrightarrow> obeys (known E zid row) (zone_step E zid) (f row)"
    and "\<forall>row \<in> set rows. row \<in> set (zrecs w) \<and> r_zone row = zid" "db_ok E w"
  shows "zone_step E zid w (snd (for_each rows f w))"
proof -
  have "snd (for_each rows f w) = snd (for_until rows (\<lambda>x. seq (f x) (ret (None :: unit option))) w)"
    unfolding for_each_until by (simp add: bind_act_def ret_def split: prod.splits sum.splits)
  moreover have "obeys (known E zid row) (zone_step E zid) (seq (f row) (ret (None :: unit option)))"
    if "r_zone row = zid" for row
    by (rule zstep.obeys_seq[OF assms(1)[OF that] zstep.obeys_pure(1) known_stable])
  ultimately show ?thesis
    using rows_step[where f = "\<lambda>x. seq (f x) (ret (None :: unit option))", OF _ assms(2,3)] by simp
qed

lemma get_record_models_rows:
  "get_record_models w z rt rn = Inr (Some rows) \<Longrightarrow>
     \<forall>row \<in> set rows. row \<in> set (zrecs w) \<and> r_zone row = z_id z \<and> update_model rt = Some (zmodel row)"
  by (auto simp: get_record_models_def res_simps dest: find_records_mem split: option.splits)

lemma asks_res_bind_Inr:
  "bind_act (asks_res f) g w = (case f w of Inl e \<Rightarrow> (Inl e, w) | Inr a \<Rightarrow> g a w)"
  by (simp add: bind_act_def asks_res_def split: sum.splits)

lemma try_update_row_step:
  assumes "r_zone row = zid"
  shows "obeys (known E zid row) (zone_step E zid) (bind_act (row_rr E n row) (\<lambda>rr.
     if P rr then bind_act (lift_res (zrec_update_from_rr E z r row)) (\<lambda>row'. seq (zrec_save E z row') (ret (Some ())))
     else ret None))"
proof -
  have save: "obeys (known E zid row) (zone_step E zid) (seq (zrec_save E z row') (ret (Some ())))"
    if "zrec_update_from_rr E z r row = Inr row'" for row'
  proof -
    have "pk row' = pk row" "r_zone row' = zid" using update_from_rr_pk[OF that] assms by simp_all
    then have "obeys (known E zid row) (zone_step E zid) (zrec_save E z row')"
      using zrec_save_step[of row' zid E z] known_cong[of row' row] by (auto elim!: obeys_pre)
    then show ?thesis by (rule zstep.obeys_seq[OF _ zstep.obeys_pure(1) known_stable])
  qed
  have upd: "obeys (known E zid row) (zone_step E zid)
      (bind_act (lift_res (zrec_update_from_rr E z r row)) (\<lambda>row'. seq (zrec_save E z row') (ret (Some ()))))"
    using save
    by (cases "zrec_update_from_rr E z r row")
      (auto simp: obeys_def bind_act_def lift_res_def zstep.R_refl)
  have "obeys (known E zid row) (zone_step E zid) (row_rr E n row)"
    by (simp add: obeys_def zstep.R_refl)
  then show ?thesis
    by (rule zstep.obeys_bind[OF _ _ known_stable]) (auto simp: upd zstep.obeys_pure)
qed

lemma try_update_step: "obeys (db_ok E) (zone_step E (z_id z)) (try_update E z rn r)"
  unfolding obeys_def
proof (intro allI impI)
  fix w
  assume ok: "db_ok E w"
  let ?c = "if rtype r = QT_CNAME then any_records E w rn z False else any_record_type E w rn z QT_CNAME"
  show "zone_step E (z_id z) w (snd (try_update E z rn r w))"
  proof (cases "\<exists>rows. ?c = Inr False \<and> get_record_models w z (rtype r) rn = Inr (Some rows)")
    case True
    then obtain rows where c: "?c = Inr False" and g: "get_record_models w z (rtype r) rn = Inr (Some rows)" by blast
    let ?f = "\<lambda>row. bind_act (row_rr E (rname r) row) (\<lambda>row_rr.
             if rdata_eq E (rdata r) (rdata row_rr)
             then bind_act (lift_res (zrec_update_from_rr E z r row)) (\<lambda>row'. seq (zrec_save E z row') (ret (Some ())))
             else ret None)"
    have "snd (try_update E z rn r w) = snd (for_until rows ?f w)"
      using c g by (simp add: try_update_def asks_res_bind_Inr bind_act_def[of "for_until rows ?f"] ret_def
          split: prod.splits sum.splits if_splits)
    then show ?thesis
      using rows_step[where f = ?f, OF try_update_row_step _ ok] get_record_models_rows[OF g] by auto
  next
    case False
    then have "snd (try_update E z rn r w) = w"
      by (auto simp: try_update_def asks_res_bind_Inr ret_def split: sum.splits option.splits)
    then show ?thesis by (simp add: zstep.R_refl)
  qed
qed

lemma add_rr_step:
  assumes "inj (uuid E)"
  shows "obeys (db_ok E) (zone_step E (z_id z)) (add_rr E key z rn r)"
proof -
  have nr: "obeys (known E (z_id z) nr) (zone_step E (z_id z)) (bind_act (try_update E z rn r) (\<lambda>fresh.
      if fresh then seq (zrec_save E z nr) (ret None) else ret None))" if "r_zone nr = z_id z" for nr
  proof (rule zstep.obeys_bind[OF _ _ known_stable])
    show "obeys (known E (z_id z) nr) (zone_step E (z_id z)) (try_update E z rn r)"
      by (rule obeys_pre[OF try_update_step]) (simp add: known_def)
    show "obeys (known E (z_id z) nr) (zone_step E (z_id z))
        (if fresh then seq (zrec_save E z nr) (ret None) else ret None)" for fresh
      using zstep.obeys_seq[OF zrec_save_step[OF that] zstep.obeys_pure(1) known_stable]
      by (cases fresh) (simp_all add: zstep.obeys_pure)
  qed
  have "obeys (db_ok E) (zone_step E (z_id z))
     (case update_model (rtype r) of None \<Rightarrow> ret None
      | Some m \<Rightarrow> bind_act (new_id E) (\<lambda>i. bind_act (lift_res (model_from_rr E m i z r)) (\<lambda>new_record.
             bind_act (try_update E z rn r) (\<lambda>fresh.
               if fresh then seq (zrec_save E z new_record) (ret None) else ret None))))"
    by (cases "update_model (rtype r)")
      (auto simp: zstep.obeys_pure intro!: new_record_step[OF assms] nr dest: model_from_rr_id)
  then show ?thesis
    unfolding add_rr_def by (intro zstep.obeys_bind[OF _ _ db_ok_stable]) (auto simp: zstep.obeys_pure)
qed

lemma delete_row_step:
  assumes "r_zone row = zid"
  shows "obeys (known E zid row) (zone_step E zid) (bind_act (row_rr E n row) (\<lambda>rr.
      if P rr then zrec_delete E row else ret ()))"
    and "obeys (known E zid row) (zone_step E zid) (bind_act (row_rr E n row) (\<lambda>rr.
      bind_act (lift_res (can_manage E key (rtype rr) rn)) (\<lambda>ok.
        if \<not> ok then ret (Some RC_NOTAUTH) else seq (zrec_delete E row) (ret None))))"
proof -
  have rr: "obeys (known E zid row) (zone_step E zid) (row_rr E n row)"
    by (simp add: obeys_def zstep.R_refl)
  note del = zrec_delete_step[OF assms, of E]
  show "obeys (known E zid row) (zone_step E zid) (bind_act (row_rr E n row) (\<lambda>rr.
      if P rr then zrec_delete E row else ret ()))"
    by (rule zstep.obeys_bind[OF rr _ known_stable]) (auto simp: del zstep.obeys_pure)
  have "obeys (known E zid row) (zone_step E zid) (bind_act (lift_res (can_manage E key t rn)) (\<lambda>ok.
        if \<not> ok then ret (Some RC_NOTAUTH) else seq (zrec_delete E row) (ret None)))" for t
    by (rule zstep.obeys_bind[OF zstep.obeys_pure(3) _ known_stable])
      (auto simp: zstep.obeys_pure intro: zstep.obeys_seq[OF del zstep.obeys_pure(1) known_stable])
  then show "obeys (known E zid row) (zone_step E zid) (bind_act (row_rr E n row) (\<lambda>rr.
      bind_act (lift_res (can_manage E key (rtype rr) rn)) (\<lambda>ok.
        if \<not> ok then ret (Some RC_NOTAUTH) else seq (zrec_delete E row) (ret None))))"
    by (rule zstep.obeys_bind[OF rr _ known_stable])
qed

lemma delete_all_step: "obeys (db_ok E) (zone_step E (z_id z)) (delete_all E key z rn r)"
  unfolding delete_all_def
proof (rule zstep.obeys_for_until[OF _ db_ok_stable])
  fix m
  let ?f = "\<lambda>row. bind_act (row_rr E (rname r) row) (\<lambda>row_rr.
      bind_act (lift_res (can_manage E key (rtype row_rr) rn)) (\<lambda>ok.
        if \<not> ok then ret (Some RC_NOTAUTH) else seq (zrec_delete E row) (ret None)))"
  show "obeys (db_ok E) (zone_step E (z_id z))
      (bind_act (asks_res (\<lambda>w. find_records w m rn z)) (\<lambda>rows. for_until rows ?f))"
    unfolding obeys_def asks_res_bind_Inr
  proof (intro allI impI)
    fix w
    assume ok: "db_ok E w"
    show "zone_step E (z_id z) w (snd (case find_records w m rn z of Inl e \<Rightarrow> (Inl e, w) | Inr rows \<Rightarrow> for_until rows ?f w))"
      using rows_step[where f = ?f, OF delete_row_step(2) _ ok] find_records_mem[of w m rn z]
      by (auto simp: zstep.R_refl split: sum.split)
  qed
qed

lemma delete_matching_step:
  assumes "\<forall>row \<in> set rows. row \<in> set (zrecs w) \<and> r_zone row = z_id z" "db_ok E w"
  shows "zone_step E (z_id z) w (snd (delete_matching E key z rn r P rows w))"
proof -
  let ?f = "\<lambda>row. bind_act (row_rr E (rname r) row) (\<lambda>row_rr. if P row_rr then zrec_delete E row else ret ())"
  have "snd (delete_matching E key z rn r P rows w) \<in> {w, snd (for_each rows ?f w)}"
    by (auto simp: delete_matching_def bind_act_def lift_res_def seq_def ret_def split: sum.splits prod.splits)
  then show ?thesis
    using rows_step_each[where f = ?f, OF delete_row_step(1) assms] by (auto simp: zstep.R_refl)
qed

lemma apply_update_step:
  assumes "inj (uuid E)"
  shows "obeys (db_ok E) (zone_step E (z_id z)) (apply_update E key z zn qc r)"
proof -
  have set: "obeys (db_ok E) (zone_step E (z_id z)) (delete_rrset E key z rn r)" for rn
    unfolding obeys_def delete_rrset_def asks_res_bind_Inr
    using delete_matching_step get_record_models_rows
    by (auto simp: zstep.R_refl split: sum.split option.split)
  have one: "obeys (db_ok E) (zone_step E (z_id z)) (delete_rr E key z rn r)" for rn
    unfolding obeys_def delete_rr_def asks_res_bind_Inr
    using delete_matching_step get_record_models_rows
    by (auto simp: zstep.R_refl ret_def split: sum.split option.split)
  show ?thesis
    using add_rr_step[OF assms] delete_all_step set one zstep.obeys_pure(1)
    by (auto simp: apply_update_def Let_def)
qed

lemma handle_update_step:
  assumes "inj (uuid E)" "db_ok E w" "handle_update_query n E req w = (x, w')" "w' \<noteq> w"
  shows "\<exists>z zn. lower_label E (qname (msg_q req)) = Inr zn \<and> zone_named E w zn = Some z
    \<and> signed_update E w req z \<and> zone_step E (z_id z) w w'"
proof -
  obtain c req1 zn z req2 res where k: "update_key E w req (msg_reply E req) = Inr (Inr (c, req1, zn))"
    and ch: "update_checks n E w c req1 zn (msg_reply E req) = Inr (Inr (z, req2, res))"
    and ap: "apply_updates E c z zn req2 res w = (x, w')"
    using handle_update_run[OF assms(3)] assms(4) by blast
  let ?loop = "for_until (m_auth req2) (apply_update E (tc_key c) z zn (qclass (msg_q req2)))"
  have "w' = snd (?loop w)"
    using ap by (auto simp: apply_updates_def bind_act_def asks_res_def split: prod.splits sum.splits option.splits)
  moreover have "obeys (db_ok E) (zone_step E (z_id z)) ?loop"
    by (rule zstep.obeys_for_until[OF apply_update_step[OF assms(1)] db_ok_stable])
  ultimately have "zone_step E (z_id z) w w'" using assms(2) by (simp add: obeys_def)
  moreover have "lower_label E (qname (msg_q req)) = Inr zn" using update_key_Inr[OF k] by blast
  moreover have "zone_named E w zn = Some z" using update_zone_Inr update_checks_Inr(3)[OF ch] by blast
  ultimately show ?thesis using update_run_signed[OF k ch] by blast
qed

text \<open>C5: a dynamic update changes no row of a zone other than the one it names, no other table, queues
  only the regeneration of that zone, and keeps the keys of the rows unique, whether it succeeds, is
  refused half-way or raises.\<close>

theorem update_only_touches_zone:
  assumes "inj (uuid E)" "db_ok E w" "handle_update_query n E req w = (x, w')"
  shows "db_ok E w' \<and> (w' = w \<or>
    (\<exists>z zn. lower_label E (qname (msg_q req)) = Inr zn \<and> zone_named E w zn = Some z \<and> frame (z_id z) w w'))"
  using handle_update_step[OF assms] assms(2) by (cases "w' = w") (auto simp: zone_step_def)

lemma sample_db_ok: "db_ok sample_ext sample_update_world"
  by (simp add: db_ok_def sample_update_world_def sample_txt_def pk_def empty_world_def)

theorem update_only_touches_zone_witness: "db_ok sample_ext sample_world_after"
proof -
  obtain m where "handle_update_query 1 sample_ext sample_request sample_update_world = (Inr m, sample_world_after)"
    using sample_run by blast
  from update_only_touches_zone[OF inj_sample_uuid sample_db_ok this] show ?thesis by simp
qed


section \<open>Keys restricted to ACME challenges\<close>

definition other_rows :: "world \<Rightarrow> zrec list" where
  "other_rows w = [r \<leftarrow> zrecs w. zmodel r \<noteq> M_TXT]"

lemma save_txt_keeps:
  assumes "zmodel r = M_TXT"
  shows "obeys P (\<lambda>s t. other_rows t = other_rows s) (zrec_save E z r)"
  unfolding obeys_def
proof (intro allI impI)
  fix w
  obtain x w' where run: "zrec_save E z r w = (x, w')" by fastforce
  have "other_rows (w\<lparr>queue := q, events := es, zrecs := upsert pk row (zrecs w)\<rparr>) = other_rows w"
    if "written E r = Inr row" for row q es
    using written_simps[OF that] assms by (simp add: other_rows_def, intro filter_upsert_outside) (auto simp: pk_def)
  then show "other_rows (snd (zrec_save E z r w)) = other_rows w"
    using zrec_save_cases[OF run] by (auto simp: run other_rows_def)
qed

lemma delete_txt_keeps:
  assumes "zmodel r = M_TXT"
  shows "obeys P (\<lambda>s t. other_rows t = other_rows s) (zrec_delete E r)"
  unfolding obeys_def
proof (intro allI impI)
  fix w
  obtain x w' where run: "zrec_delete E r w = (x, w')" by fastforce
  have "[s \<leftarrow> remove pk r (zrecs w). zmodel s \<noteq> M_TXT] = other_rows w"
    using assms unfolding other_rows_def by (intro filter_remove_outside) (auto simp: pk_def)
  then show "other_rows (snd (zrec_delete E r w)) = other_rows w"
    using zrec_delete_cases[OF run] by (auto simp: run other_rows_def)
qed

lemma to_rr_types:
  "AddressRecord_to_rr qn l a = Inr rr \<Longrightarrow> rtype rr \<in> {QT_A, QT_AAAA}"
  "DSRecord_to_rr qn l kt al dt dg = Inr (Some rr) \<Longrightarrow> rtype rr = QT_DS"
  "DNSKEYRecord_to_rr qn l fl pr al key = Inr rr \<Longrightarrow> rtype rr = QT_DS"
  "HINFORecord_to_rr E qn l cpu os = Inr rr \<Longrightarrow> rtype rr = QT_HINFO"
  "HTTPSRecord_to_rr qn l h = Inr rr \<Longrightarrow> rtype rr = QT_HTTPS"
  unfolding AddressRecord_to_rr_def DSRecord_to_rr_def DNSKEYRecord_to_rr_def HINFORecord_to_rr_def
    HTTPSRecord_to_rr_def bind_res_Inr_iff
  by (clarify, simp add: mk_rr_def split: ip_addr.splits option.splits if_splits prod.splits; fastforce?)+

lemma some_res_Some: "some_res m = Inr (Some rr) \<longleftrightarrow> m = Inr rr"
  by (cases m) (simp_all add: some_res_def)

lemma to_rr_txt: "zrec_to_rr E n r = Inr (Some rr) \<Longrightarrow> rtype rr = QT_TXT \<Longrightarrow> zmodel r = M_TXT"
  by (cases "body r")
    (auto simp: zrec_to_rr.simps some_res_Some CNAMERecord_to_rr_def MXRecord_to_rr_def
      NSRecord_to_rr_def SRVRecord_to_rr_def CAARecord_to_rr_def NAPTRRecord_to_rr_def
      LOCRecord_to_rr_def RPRecord_to_rr_def DHCIDRecord_to_rr_def mk_rr_def dest: to_rr_types)

lemma acme_manage: "us_type key = TYPE_ACME_DNS01 \<Longrightarrow> can_manage E key rt rn = Inr True \<Longrightarrow> rt = QT_TXT"
  by (auto simp: can_manage_def TYPE_UNLIMITED_def TYPE_ACME_DNS01_def split: if_splits list.splits)

lemma update_model_txt [simp]: "update_model QT_TXT = Some M_TXT"
  by (simp add: update_model_def)

abbreviation acme_ok :: "'a io \<Rightarrow> bool" where
  "acme_ok m \<equiv> obeys (\<lambda>_. True) (\<lambda>s t. other_rows t = other_rows s) m"

interpretation others: step_rel "\<lambda>s t. other_rows t = other_rows s"
  by unfold_locales auto

lemmas acme_bind = others.obeys_bind[where P = "\<lambda>_. True", OF _ _ TrueI]
lemmas acme_pure = others.obeys_pure[where P = "\<lambda>_. True"]
lemmas acme_until = others.obeys_for_until[where P = "\<lambda>_. True", OF _ TrueI]
lemmas acme_each = others.obeys_for_each[where P = "\<lambda>_. True", OF _ TrueI]

lemma acme_row_rr: "acme_ok (row_rr E n row)"
  by (simp add: obeys_def)

lemma acme_seq: "acme_ok m \<Longrightarrow> acme_ok m' \<Longrightarrow> acme_ok (seq m m')"
  unfolding seq_def by (rule acme_bind)

lemma acme_asks_res: "(\<And>w a. f w = Inr a \<Longrightarrow> acme_ok (g a)) \<Longrightarrow> acme_ok (bind_act (asks_res f) g)"
  unfolding obeys_def asks_res_bind_Inr by (auto split: sum.splits)

lemma acme_lift: "(\<And>a. r = Inr a \<Longrightarrow> acme_ok (g a)) \<Longrightarrow> acme_ok (bind_act (lift_res r) g)"
  unfolding obeys_def bind_act_def lift_res_def by (cases r) auto

lemma try_update_acme:
  assumes "rtype r = QT_TXT"
  shows "acme_ok (try_update E z rn r)"
proof -
  have row: "acme_ok (bind_act (row_rr E (rname r) row) (\<lambda>rr.
      if rdata_eq E (rdata r) (rdata rr)
      then bind_act (lift_res (zrec_update_from_rr E z r row)) (\<lambda>row'. seq (zrec_save E z row') (ret (Some ())))
      else ret None))" if "zmodel row = M_TXT" for row
  proof -
    have "zmodel row' = M_TXT" if "zrec_update_from_rr E z r row = Inr row'" for row'
      using update_from_rr_pk[OF that] \<open>zmodel row = M_TXT\<close> by (simp add: pk_def)
    then show ?thesis
      by (auto intro!: acme_bind acme_row_rr acme_lift acme_seq save_txt_keeps acme_pure)
  qed
  have "acme_ok (case records of None \<Rightarrow> ret True
       | Some rows \<Rightarrow> bind_act (for_until rows (\<lambda>row. bind_act (row_rr E (rname r) row) (\<lambda>rr.
             if rdata_eq E (rdata r) (rdata rr)
             then bind_act (lift_res (zrec_update_from_rr E z r row)) (\<lambda>row'. seq (zrec_save E z row') (ret (Some ())))
             else ret None))) (\<lambda>done. ret (done = None)))"
    if "get_record_models w z (rtype r) rn = Inr records" for w records
    using get_record_models_rows[of w z "rtype r" rn] that assms
    by (cases records) (auto intro!: acme_pure acme_bind acme_until row)
  then show ?thesis
    unfolding try_update_def by (auto intro!: acme_asks_res acme_pure)
qed

lemma txt_from_rr_model: "TXTRecord_from_rr E i z rr = Inr r \<Longrightarrow> zmodel r = M_TXT"
  using model_from_rr_model[of E M_TXT i z rr r] by simp

lemma add_rr_acme:
  assumes "us_type key = TYPE_ACME_DNS01"
  shows "acme_ok (add_rr E key z rn r)"
proof (cases "can_manage E key (rtype r) rn = Inr True")
  case True
  then have t: "rtype r = QT_TXT" using acme_manage assms by blast
  have "acme_ok (new_id E)" by (simp add: obeys_def new_id_def other_rows_def)
  then show ?thesis
    unfolding add_rr_def True t update_model_txt option.case
    by (auto simp: t intro!: acme_lift acme_bind acme_pure try_update_acme acme_seq save_txt_keeps
        dest!: txt_from_rr_model)
next
  case False
  then show ?thesis unfolding add_rr_def by (auto intro!: acme_lift acme_pure)
qed

lemma delete_matching_acme:
  assumes "us_type key = TYPE_ACME_DNS01" "rtype r = QT_TXT \<Longrightarrow> \<forall>row \<in> set rows. zmodel row = M_TXT"
  shows "acme_ok (delete_matching E key z rn r P rows)"
proof (cases "can_manage E key (rtype r) rn = Inr True")
  case True
  then have "\<forall>row \<in> set rows. zmodel row = M_TXT" using acme_manage assms by blast
  then show ?thesis
    unfolding delete_matching_def True
    by (auto intro!: acme_lift acme_seq acme_each acme_bind acme_row_rr acme_pure delete_txt_keeps)
next
  case False
  then show ?thesis unfolding delete_matching_def by (auto intro!: acme_lift acme_pure)
qed

lemma delete_all_row_acme:
  assumes "us_type key = TYPE_ACME_DNS01"
  shows "acme_ok (bind_act (row_rr E n row) (\<lambda>rr. bind_act (lift_res (can_manage E key (rtype rr) rn)) (\<lambda>ok.
      if \<not> ok then ret (Some RC_NOTAUTH) else seq (zrec_delete E row) (ret None))))"
proof (cases "zmodel row = M_TXT")
  case True
  then show ?thesis by (auto intro!: acme_bind acme_row_rr acme_lift acme_pure acme_seq delete_txt_keeps)
next
  case False
  have "other_rows (snd (bind_act (row_rr E n row) (\<lambda>rr. bind_act (lift_res (can_manage E key (rtype rr) rn)) (\<lambda>ok.
      if \<not> ok then ret (Some RC_NOTAUTH) else seq (zrec_delete E row) (ret None))) w)) = other_rows w" for w
  proof (cases "row_rr E n row w")
    case (Pair x w1)
    then have w1: "w1 = w" using row_rr_pure[of E n row w] by simp
    show ?thesis
    proof (cases x)
      case (Inr rr)
      then have "rtype rr \<noteq> QT_TXT" using row_rr_Inr Pair to_rr_txt False by blast
      then have "can_manage E key (rtype rr) rn \<noteq> Inr True" using acme_manage assms by blast
      then show ?thesis
        using Pair Inr w1 by (cases "can_manage E key (rtype rr) rn") (auto simp: bind_act_def lift_res_def ret_def)
    qed (use Pair w1 in \<open>simp add: bind_act_def\<close>)
  qed
  then show ?thesis by (simp add: obeys_def)
qed

lemma apply_update_acme:
  assumes "us_type key = TYPE_ACME_DNS01"
  shows "acme_ok (apply_update E key z zn qc r)"
proof -
  have all: "acme_ok (delete_all E key z rn r)" for rn
    unfolding delete_all_def by (intro acme_until acme_asks_res delete_all_row_acme assms)
  have rows: "\<forall>row \<in> set rows. zmodel row = M_TXT"
    if "get_record_models w z QT_TXT rn = Inr (Some rows)" for w rn rows
    using get_record_models_rows[OF that] by auto
  have set: "acme_ok (delete_rrset E key z rn r)" for rn
    unfolding delete_rrset_def
    by (rule acme_asks_res, rule delete_matching_acme[OF assms]) (auto split: option.splits dest: rows)
  have one: "acme_ok (delete_rr E key z rn r)" for rn
    unfolding delete_rr_def
    by (rule acme_asks_res)
      (auto split: option.splits intro!: acme_pure delete_matching_acme[OF assms] intro: rows[THEN bspec])
  show ?thesis
    using add_rr_acme[OF assms] all set one acme_pure(1) by (auto simp: apply_update_def Let_def)
qed

text \<open>C15: a key of the type for ACME DNS-01 challenges changes no row other than rows of TXT records,
  whatever the request asks for: deletions of all records of a name included.\<close>

theorem acme_key_only_changes_txt:
  assumes "handle_update_query n E req w = (x, w')" "split_tsig req = Some (t, req')"
    and "lower_label E (qname (msg_q req)) = Inr zn" "find_key E w (rname t) zn = Some key"
    and "us_type key = TYPE_ACME_DNS01"
  shows "[r \<leftarrow> zrecs w'. zmodel r \<noteq> M_TXT] = [r \<leftarrow> zrecs w. zmodel r \<noteq> M_TXT]"
proof (cases "w' = w")
  case False
  then obtain c req1 zn' z req2 res where k: "update_key E w req (msg_reply E req) = Inr (Inr (c, req1, zn'))"
    and ap: "apply_updates E c z zn' req2 res w = (x, w')"
    using handle_update_run[OF assms(1)] by blast
  have key: "us_type (tc_key c) = TYPE_ACME_DNS01" using update_key_Inr[OF k] assms by auto
  let ?loop = "for_until (m_auth req2) (apply_update E (tc_key c) z zn' (qclass (msg_q req2)))"
  have "w' = snd (?loop w)"
    using ap by (auto simp: apply_updates_def bind_act_def asks_res_def split: prod.splits sum.splits option.splits)
  moreover have "acme_ok ?loop" by (intro acme_until apply_update_acme key)
  ultimately have "other_rows w' = other_rows w" by (simp add: obeys_def)
  then show ?thesis by (simp add: other_rows_def)
qed simp

definition sample_acme_world :: world where
  "sample_acme_world = sample_update_world\<lparr>update_secrets := [sample_key\<lparr>us_type := str ''D'', restrict_to := str ''@''\<rparr>]\<rparr>"

theorem acme_key_only_changes_txt_witness:
  "[r \<leftarrow> zrecs (snd (handle_update_query 1 sample_ext sample_request sample_acme_world)). zmodel r \<noteq> M_TXT]
     = [r \<leftarrow> zrecs sample_acme_world. zmodel r \<noteq> M_TXT]"
proof (rule acme_key_only_changes_txt)
  show "handle_update_query 1 sample_ext sample_request sample_acme_world =
    (fst (handle_update_query 1 sample_ext sample_request sample_acme_world),
     snd (handle_update_query 1 sample_ext sample_request sample_acme_world))" by simp
  show "split_tsig sample_request = Some (last (m_ar sample_request), sample_request\<lparr>m_ar := []\<rparr>)"
    by (simp add: split_tsig_def sample_request_def tsig_rr_def)
  show "lower_label sample_ext (qname (msg_q sample_request)) = Inr [str ''ex'', str ''org'']"
    by (simp add: lower_label_def codec_simps lower_sample sample_request_def sample_body_def msg_q_def)
  show "find_key sample_ext sample_acme_world (rname (last (m_ar sample_request))) [str ''ex'', str ''org''] =
    Some (sample_key\<lparr>us_type := str ''D'', restrict_to := str ''@''\<rparr>)"
    by (simp add: find_key_def sample_acme_world_def sample_request_def tsig_rr_def sample_update_defs sample_match_def
        sample_strip_def sample_label_str_def strip_char_def)
qed (simp add: TYPE_ACME_DNS01_def)


section \<open>Responses\<close>

definition ends_with_tsig :: "label \<Rightarrow> dns_msg \<Rightarrow> bool" where
  "ends_with_tsig n m \<longleftrightarrow> (\<exists>rd ar. m_ar m = ar @ [tsig_rr n rd])"

lemma unsigned_error_tsig: "tsig_unsigned_error E w n res err = Inr m \<Longrightarrow> ends_with_tsig n m"
  by (auto simp: tsig_unsigned_error_def ends_with_tsig_def res_simps)

lemma sign_resp_tsig: "sign_resp E c err other t res = Inr m \<Longrightarrow> ends_with_tsig (tc_name c) m"
  by (auto simp: sign_resp_def ends_with_tsig_def Let_def res_simps)

lemma signed_code_tsig: "signed_code E w c res code = Inr m \<Longrightarrow> ends_with_tsig (tc_name c) m"
  by (auto simp: signed_code_def dest: sign_resp_tsig)

definition signed_phase :: "tsig_ctx \<Rightarrow> 'a phase \<Rightarrow> bool" where
  "signed_phase c p \<longleftrightarrow> (\<forall>m. p = Inr (Inl m) \<longrightarrow> ends_with_tsig (tc_name c) m)"

lemma signed_phase_simps [simp]: "signed_phase c (Inr (Inr a))" "signed_phase c (Inl e)"
  by (simp_all add: signed_phase_def)

lemma signed_phase_bind: "(\<And>a. signed_phase c (f a)) \<Longrightarrow> signed_phase c (bind_res r f)"
  by (cases r) simp_all

lemma signed_phase_go_on: "signed_phase c p \<Longrightarrow> (\<And>a. signed_phase c (f a)) \<Longrightarrow> signed_phase c (go_on p f)"
  by (cases p) (auto simp: go_on_def signed_phase_def split: sum.splits)

lemma signed_phase_leave:
  "signed_phase c (leave (tsig_unsigned_error E w (tc_name c) res err))"
  "signed_phase c (leave (sign_resp E c err other t res))"
  "signed_phase c (leave (signed_code E w c res code))"
  by (auto simp: signed_phase_def leave_def res_simps dest: unsigned_error_tsig sign_resp_tsig signed_code_tsig)

lemma update_checks_signed: "signed_phase c (update_checks n E w c req zn res)"
proof -
  have "signed_phase c (update_signature E w c req res)"
    unfolding update_signature_def by (auto intro!: signed_phase_bind signed_phase_leave split: prod.split)
  moreover have "signed_phase c (update_time E w c res)"
    unfolding update_time_def Let_def by (auto intro!: signed_phase_bind signed_phase_leave)
  moreover have "signed_phase c (update_zone E w c zn res)"
    unfolding update_zone_def by (auto intro!: signed_phase_leave split: option.split)
  moreover have "signed_phase c (update_prereq n E w c z zn req' res)" for z req'
    unfolding update_prereq_def
    by (auto intro!: signed_phase_bind signed_phase_leave split: sum.split prod.split)
  ultimately show ?thesis
    unfolding update_checks_def by (auto intro!: signed_phase_go_on signed_phase_leave split: option.split)
qed

text \<open>C16: once the key and the algorithm of a request are known, every response that the handler returns
  ends with a TSIG record under the name of the key, whatever check fails and wherever the update
  stops.\<close>

theorem update_response_signed:
  assumes "handle_update_query n E req w = (Inr m, w')"
    and "update_key E w req (msg_reply E req) = Inr (Inr (c, req1, zn))"
  shows "ends_with_tsig (tc_name c) m"
proof (cases "update_checks n E w c req1 zn (msg_reply E req)")
  case (Inl e)
  then show ?thesis using assms by (simp add: handle_update_eq update_ready_def go_on_def)
next
  case (Inr p)
  show ?thesis
  proof (cases p)
    case (Inl m')
    then have "m = m'" using assms Inr by (simp add: handle_update_eq update_ready_def go_on_def)
    then show ?thesis using update_checks_signed[of c n E w req1 zn "msg_reply E req"] Inr Inl
      by (simp add: signed_phase_def)
  next
    case (Inr q)
    obtain z req2 res where q: "q = (z, req2, res)" by (cases q)
    then have "apply_updates E c z zn req2 res w = (Inr m, w')"
      using assms Inr \<open>update_checks n E w c req1 zn (msg_reply E req) = Inr p\<close>
      by (simp add: handle_update_eq update_ready_def go_on_def)
    then show ?thesis
      by (auto simp: apply_updates_def bind_act_def asks_res_def split: prod.splits sum.splits option.splits
          dest: signed_code_tsig sign_resp_tsig)
  qed
qed

theorem update_response_signed_witness:
  "\<exists>m. handle_update_query 1 sample_ext sample_request sample_update_world = (Inr m, sample_world_after)
     \<and> ends_with_tsig sample_key_name m"
proof -
  obtain m where m: "handle_update_query 1 sample_ext sample_request sample_update_world = (Inr m, sample_world_after)"
    using sample_run by blast
  have "ends_with_tsig (tc_name (sample_ctx signed_tsig)) m"
    by (rule update_response_signed[OF m]) (simp add: sample_update_key del: str_simps)
  then show ?thesis using m by (simp add: sample_ctx_def)
qed

text \<open>\<^verbatim>\<open>AXFRQuery\<close> calls its handler under a guard like that of \<^verbatim>\<open>UpdateQuery\<close>, but the handler is a generator that runs after the guard: a query
  for a name with a label that is not UTF-8 ends the stream with an exception and without a
  packet.\<close>

theorem axfr_exception_escapes:
  assumes "msg_parse E data = Inr req" "opcode req = OP_QUERY"
    and "l \<in> set (qname (msg_q req))" "utf8_decode l = None"
  shows "\<exists>e. AXFRQuery E w data = ([], Some e)"
proof -
  have "\<exists>e. mapM_res (\<lambda>n. bind_res (py_decode n) (\<lambda>s. Inr (utf8_encode (lower E s)))) ls = Inl e"
    if "l \<in> set ls" for ls
    using that assms(4)
  proof (induction ls)
    case (Cons a ls)
    show ?case
    proof (cases "a = l")
      case True
      then show ?thesis using assms(4) by (simp add: py_decode_def)
    next
      case False
      then obtain e where "mapM_res (\<lambda>n. bind_res (py_decode n) (\<lambda>s. Inr (utf8_encode (lower E s)))) ls = Inl e"
        using Cons by auto
      then show ?thesis by (cases "py_decode a") simp_all
    qed
  qed simp
  then obtain e where "lower_label E (qname (msg_q req)) = Inl e" using assms(3) by (auto simp: lower_label_def)
  then show ?thesis using assms(1,2) by (simp add: AXFRQuery_def handle_axfr_query_def Let_def)
qed

definition sample_axfr_query :: dns_msg where
  "sample_axfr_query = empty_msg\<lparr>questions := [\<lparr>qname = [[255]], qtype = 252, qclass = CL_IN\<rparr>]\<rparr>"

theorem axfr_exception_escapes_witness:
  "\<exists>e. AXFRQuery (sample_ext\<lparr>msg_parse := \<lambda>_. Inr sample_axfr_query\<rparr>) empty_world [] = ([], Some e)"
  by (rule axfr_exception_escapes[where l = "[255]" and req = sample_axfr_query])
    (simp_all add: sample_axfr_query_def empty_msg_def msg_q_def)

text \<open>a prerequisite that a CNAME RRset has given values is never satisfied, whether or not it holds:
  the record that is found goes into the response instead of the comparison.\<close>

theorem cname_prerequisite_fails:
  assumes "m_rr (msg_new E) = []" "sort_rrs E [] = Inr []"
    and "\<And>vs vs'. sort_rrs E vs = Inr vs' \<Longrightarrow> length vs' = length vs"
    and "\<And>vs. rr_list_eq E vs [] \<longleftrightarrow> vs = []"
    and "prereq_match n E w z zn (((name, QT_CNAME), v # vs) # d) res = Inr (res', ok)"
  shows "\<not> ok \<and> (\<forall>r rs. find_records w M_CNAME (apex_label E (stripSuffix E name zn)) z = Inr (r # rs)
    \<longrightarrow> m_rr res' = m_rr res @ [mk_rr name QT_CNAME (RD_CNAME (DNSLabel E (alias_of r))) (ttl r)])"
proof -
  obtain found res1 vals' where f: "prereq_found n E w z (apex_label E (stripSuffix E name zn)) name QT_CNAME res
      = Inr (found, res1)" and v: "sort_rrs E (v # vs) = Inr vals'"
    using assms(5) by (auto simp: res_simps)
  have found: "found = []"
    using f assms(1) by (cases "find_records w M_CNAME (apex_label E (stripSuffix E name zn)) z")
      (auto simp: prereq_found_def lookup_of_def Let_def split: list.splits)
  have "vals' \<noteq> []" using assms(3)[OF v] by auto
  then have "\<not> ok \<and> res' = res1" using assms(2,4,5) f found v by (simp add: res_simps)
  moreover have "m_rr res1 = m_rr res @ [mk_rr name QT_CNAME (RD_CNAME (DNSLabel E (alias_of r))) (ttl r)]"
    if "find_records w M_CNAME (apex_label E (stripSuffix E name zn)) z = Inr (r # rs)" for r rs
    using f that by (auto simp: prereq_found_def lookup_of_def Let_def)
  ultimately show ?thesis by simp
qed

theorem cname_prerequisite_fails_witness:
  "\<exists>res'. prereq_match 1 sample_ext
      (empty_world\<lparr>zrecs := [\<lparr>r_id = str ''c1'', r_zone = str ''z1'', record_name = str ''a'', ttl = 60,
         body = CNAMERecord (str ''b'')\<rparr>]\<rparr>)
      sample_zone [str ''ex'', str ''org'']
      [(([str ''a'', str ''ex'', str ''org''], QT_CNAME),
        [mk_rr [str ''a'', str ''ex'', str ''org''] QT_CNAME (RD_CNAME [str ''b'']) 0])] empty_msg
    = Inr (res', False)
    \<and> m_rr res' = [mk_rr [str ''a'', str ''ex'', str ''org''] QT_CNAME (RD_CNAME [str ''b'']) 60]"
proof -
  let ?w = "empty_world\<lparr>zrecs := [\<lparr>r_id = str ''c1'', r_zone = str ''z1'', record_name = str ''a'', ttl = 60,
         body = CNAMERecord (str ''b'')\<rparr>]\<rparr>"
  let ?n = "[str ''a'', str ''ex'', str ''org'']"
  have f: "find_records ?w M_CNAME (apex_label sample_ext (stripSuffix sample_ext ?n [str ''ex'', str ''org''])) sample_zone =
      Inr [\<lparr>r_id = str ''c1'', r_zone = str ''z1'', record_name = str ''a'', ttl = 60, body = CNAMERecord (str ''b'')\<rparr>]"
    by (simp add: find_records_def dotted_def codec_simps filter_name_def empty_world_def sample_zone_def apex_label_def
        sample_strip_def sample_match_def)
  have "\<exists>res' ok. prereq_match 1 sample_ext ?w sample_zone [str ''ex'', str ''org'']
      [((?n, QT_CNAME), [mk_rr ?n QT_CNAME (RD_CNAME [str ''b'']) 0])] empty_msg = Inr (res', ok)"
    unfolding prereq_match.simps prereq_found_def f by (auto simp: lookup_of_def Let_def empty_msg_def)
  then obtain res' ok where run: "prereq_match 1 sample_ext ?w sample_zone [str ''ex'', str ''org'']
      [((?n, QT_CNAME), [mk_rr ?n QT_CNAME (RD_CNAME [str ''b'']) 0])] empty_msg = Inr (res', ok)" by blast
  have "\<not> ok \<and> m_rr res' = m_rr empty_msg @ [mk_rr ?n QT_CNAME (RD_CNAME (sample_label (str ''b''))) 60]"
    using cname_prerequisite_fails[OF _ _ _ _ run] f by (simp add: empty_msg_def alias_of_def del: str_simps)
  then show ?thesis using run by (simp add: empty_msg_def sample_label_def del: str_simps) (simp add: sample_label_def)
qed

end
