(* ===== verification/Update_Effects.thy ===== *)
theory Update_Effects
  imports Update_Props
begin

text \<open>
  What single updates do to the rows: additions, deletions of an RRset, the names they reach (an
  exact name, else the wildcard at its first label), the apex, and what remains of an update that is
  refused half-way.
\<close>

section \<open>Deletions\<close>

lemma zrec_delete_rows:
  assumes "zmodel r \<noteq> M_Redirect"
  shows "\<exists>w'. zrec_delete E r w = (Inr (), w') \<and> zrecs w' = remove pk r (zrecs w)"
proof -
  obtain x w' where run: "zrec_delete E r w = (x, w')" by fastforce
  show ?thesis using zrec_delete_cases[OF run] assms run by auto
qed

lemma bind_run: "m w = (Inr a, w1) \<Longrightarrow> bind_act m f w = f a w1"
  by (simp add: bind_act_def)

lemma row_rr_run: "zrec_to_rr E n row = Inr (Some rr) \<Longrightarrow> row_rr E n row w = (Inr rr, w)"
  by (simp add: row_rr_def act_defs)

definition converts :: "ext \<Rightarrow> label \<Rightarrow> (rr \<Rightarrow> bool) \<Rightarrow> zrec \<Rightarrow> bool" where
  "converts E n P row \<longleftrightarrow> (\<exists>rr. zrec_to_rr E n row = Inr (Some rr) \<and> P rr)"

lemma delete_rows:
  assumes "\<forall>row \<in> set rows. zmodel row \<noteq> M_Redirect \<and> converts E n (\<lambda>_. True) row"
  shows "\<exists>w'. for_each rows (\<lambda>row. bind_act (row_rr E n row) (\<lambda>rr. if P rr then zrec_delete E row else ret ())) w
      = (Inr (), w') \<and> zrecs w' = [s \<leftarrow> zrecs w. pk s \<notin> pk ` {row \<in> set rows. converts E n P row}]"
  using assms
proof (induction rows arbitrary: w)
  case (Cons row rows)
  let ?del = "\<lambda>row. bind_act (row_rr E n row) (\<lambda>rr. if P rr then zrec_delete E row else ret ())"
  obtain rr where rr: "zrec_to_rr E n row = Inr (Some rr)" using Cons.prems by (auto simp: converts_def)
  then have c: "converts E n P row \<longleftrightarrow> P rr" by (simp add: converts_def)
  obtain w1 where w1: "?del row w = (Inr (), w1)"
      "zrecs w1 = [s \<leftarrow> zrecs w. pk s \<notin> pk ` {r \<in> {row}. converts E n P r}]"
  proof (cases "P rr")
    case True
    obtain w1 where "zrec_delete E row w = (Inr (), w1)" "zrecs w1 = remove pk row (zrecs w)"
      using zrec_delete_rows Cons.prems by (metis list.set_intros(1))
    moreover have "{r. r = row \<and> converts E n P r} = {row}" using True c by auto
    ultimately show ?thesis using that[of w1] True row_rr_run[OF rr] by (simp add: bind_run remove_def)
  next
    case False
    then have none: "\<not> converts E n P row" using c by simp
    have "zrecs w = [s \<leftarrow> zrecs w. pk s \<notin> pk ` {r \<in> {row}. converts E n P r}]"
      by (rule filter_True[symmetric]) (use none in auto)
    moreover have "?del row w = (Inr (), w)" using False row_rr_run[OF rr] by (simp add: bind_run ret_def)
    ultimately show ?thesis by (rule that[rotated])
  qed
  obtain w' where w': "for_each rows ?del w1 = (Inr (), w')"
      "zrecs w' = [s \<leftarrow> zrecs w1. pk s \<notin> pk ` {row \<in> set rows. converts E n P row}]"
    using Cons.IH[of w1] Cons.prems by auto
  have "{r \<in> set (row # rows). converts E n P r} = {r \<in> {row}. converts E n P r} \<union> {r \<in> set rows. converts E n P r}" by auto
  then have "zrecs w' = [s \<leftarrow> zrecs w. pk s \<notin> pk ` {r \<in> set (row # rows). converts E n P r}]"
    using w'(2) w1(2) by (simp add: image_Un)
  then show ?case using w1(1) w'(1) by (simp add: seq_def bind_run)
qed (simp add: ret_def)

lemma update_model_plain: "update_model rt = Some m \<Longrightarrow> m \<noteq> M_Redirect"
  by (auto simp: update_model_def split: if_splits)

text \<open>C18: the deletion of an RRset reaches the rows of its model in the zone under the exact name, or, if there are
  none, those under the wildcard at its first label. It removes exactly those of them that are records of
  the requested type (an address row is an A or an AAAA record) and no other row of any zone or class: a name that
  only a wildcard covers deletes the wildcard itself. Only the rows of the class under these two names must convert to a
  record; what else the tables hold does not matter.\<close>

theorem delete_rrset_removes:
  assumes "db_ok E w" "update_model (rtype r) = Some m" "can_manage E key (rtype r) rn = Inr True"
    and "dotted rn = Inr name" "dotted (wildcard rn) = Inr wild"
    and "\<And>row. row \<in> set (zrecs w) \<Longrightarrow> zmodel row = m \<Longrightarrow> r_zone row = z_id z \<Longrightarrow> record_name row \<in> {name, wild}
           \<Longrightarrow> \<exists>rr. zrec_to_rr E (rname r) row = Inr (Some rr)"
  shows "\<exists>w'. delete_rrset E key z rn r w = (Inr None, w')
    \<and> zrecs w' = [s \<leftarrow> zrecs w. \<not> (zmodel s = m \<and> r_zone s = z_id z
         \<and> record_name s = (if \<exists>row \<in> set (zrecs w). zmodel row = m \<and> r_zone row = z_id z \<and> record_name row = name then name else wild)
         \<and> (\<exists>rr. zrec_to_rr E (rname r) s = Inr (Some rr) \<and> rtype rr = rtype r))]"
proof -
  define target where "target = (if \<exists>row \<in> set (zrecs w). zmodel row = m \<and> r_zone row = z_id z \<and> record_name row = name then name else wild)"
  define rows where "rows = filter_name m (z_id z) target w"
  let ?typed = "converts E (rname r) (\<lambda>rr. rtype rr = rtype r)"
  have exact: "filter_name m (z_id z) name w = [] \<longleftrightarrow> \<not> (\<exists>row \<in> set (zrecs w). zmodel row = m \<and> r_zone row = z_id z \<and> record_name row = name)"
    by (auto simp: filter_name_def filter_empty_conv)
  have g: "get_record_models w z (rtype r) rn = Inr (Some rows)"
    using assms(2,4,5) exact by (auto simp: get_record_models_def find_records_def rows_def target_def)
  have mem: "row \<in> set (zrecs w)" "zmodel row = m" "r_zone row = z_id z" "record_name row \<in> {name, wild}" if "row \<in> set rows" for row
    using that by (auto simp: rows_def filter_name_def target_def split: if_splits)
  then have "\<forall>row \<in> set rows. zmodel row \<noteq> M_Redirect \<and> converts E (rname r) (\<lambda>_. True) row"
    using assms(6) update_model_plain[OF assms(2)] by (auto simp: converts_def)
  from delete_rows[OF this, of "\<lambda>rr. rtype rr = rtype r"] obtain w' where
    d: "for_each rows (\<lambda>row. bind_act (row_rr E (rname r) row) (\<lambda>rr. if rtype rr = rtype r then zrec_delete E row else ret ())) w
        = (Inr (), w')" and z: "zrecs w' = [s \<leftarrow> zrecs w. pk s \<notin> pk ` {row \<in> set rows. ?typed row}]" by blast
  have inj: "inj_on pk (set (zrecs w))" using assms(1) by (simp add: db_ok_def distinct_map)
  have "pk s \<in> pk ` {row \<in> set rows. ?typed row} \<longleftrightarrow> s \<in> {row \<in> set rows. ?typed row}" if "s \<in> set (zrecs w)" for s
    using inj_on_image_mem_iff[OF inj that] mem(1) by blast
  then have "zrecs w' = [s \<leftarrow> zrecs w. \<not> (zmodel s = m \<and> r_zone s = z_id z \<and> record_name s = target \<and> ?typed s)]"
    unfolding z by (auto simp: rows_def filter_name_def intro: filter_cong)
  then show ?thesis
    using d g assms(3)
    by (simp add: delete_rrset_def delete_matching_def asks_res_bind_Inr bind_act_def[of "lift_res x" for x]
        lift_res_def seq_def bind_act_def[of "for_each xs f" for xs f] ret_def[of None] target_def converts_def)
qed

theorem delete_rrset_removes_witness:
  "\<exists>w'. delete_rrset sample_ext (sample_key\<lparr>restrict_to := str ''@''\<rparr>) sample_zone [str ''x''] (delete_txt (str ''x''))
      (sample_update_world\<lparr>zrecs := [sample_txt (str ''t1'') (str ''*''), sample_txt (str ''t2'') (str ''b'')]\<rparr>) = (Inr None, w')
    \<and> zrecs w' = [sample_txt (str ''t2'') (str ''b'')]"
proof -
  let ?w = "sample_update_world\<lparr>zrecs := [sample_txt (str ''t1'') (str ''*''), sample_txt (str ''t2'') (str ''b'')]\<rparr>"
  have ok: "db_ok sample_ext ?w"
    by (simp add: db_ok_def sample_update_world_def sample_txt_def pk_def empty_world_def)
  have can: "can_manage sample_ext (sample_key\<lparr>restrict_to := str ''@''\<rparr>) (rtype (delete_txt (str ''x''))) [str ''x''] = Inr True"
    by (simp add: can_manage_def sample_key_def TYPE_UNLIMITED_def)
  have rr: "\<exists>rr. zrec_to_rr sample_ext (rname (delete_txt (str ''x''))) row = Inr (Some rr)" if "row \<in> set (zrecs ?w)" for row
    using that by (auto simp: sample_txt_rr mk_rr_def)
  have names: "dotted [str ''x''] = Inr (str ''x'')" "dotted (wildcard [str ''x'']) = Inr (str ''*'')"
    by (simp_all add: dotted_def wildcard_def codec_simps)
  have "update_model (rtype (delete_txt (str ''x''))) = Some M_TXT" by (simp add: delete_txt_def)
  from delete_rrset_removes[OF ok this can names rr, of sample_zone] show ?thesis
    by (simp add: sample_txt_rr mk_rr_def delete_txt_def) (simp add: sample_txt_def sample_zone_def)
qed

text \<open>deletions at the apex of a zone have no effect. The rows of the apex are stored under the name
  \<^verbatim>\<open>@\<close>; an update looks for them under the empty name. The answer says that all went well.\<close>

theorem apex_delete_ignored:
  assumes "stripSuffix E (rname r) zn = []" "rclass r \<in> {CL_ANY, CL_NONE}" "rclass r \<noteq> qc"
    and "us_type key = TYPE_UNLIMITED" "restrict_to key = str ''@''"
    and "\<And>s. s \<in> set (zrecs w) \<Longrightarrow> record_name s \<noteq> []"
  shows "apply_update E key z zn qc r w = (Inr None, w)"
proof -
  have f: "find_records w m [] z = Inr []" for m
    using assms(6) by (auto simp: find_records_def dotted_def wildcard_def filter_name_def Let_def)
  have can: "can_manage E key rt [] = Inr True" for rt using assms(4,5) by (simp add: can_manage_def)
  have all: "for_until ms (\<lambda>m. bind_act (asks_res (\<lambda>w. find_records w m [] z)) (\<lambda>rows. for_until rows (g m))) w = (Inr None, w)"
    for ms :: "model list" and g :: "model \<Rightarrow> zrec \<Rightarrow> nat option io"
    by (induction ms) (simp_all add: act_defs f)
  have g: "get_record_models w z rt [] \<in> {Inr None, Inr (Some [])}" for rt
    by (cases "update_model rt") (simp_all add: get_record_models_def f)
  have dm: "delete_matching E key z [] r P [] w = (Inr None, w)" for P
    by (simp add: delete_matching_def act_defs can)
  have "delete_rrset E key z [] r w = (Inr None, w)" "delete_rr E key z [] r w = (Inr None, w)"
    using g[of "rtype r"] dm by (auto simp: delete_rrset_def delete_rr_def asks_res_bind_Inr ret_def)
  then show ?thesis
    using assms(1-3) all by (auto simp: apply_update_def Let_def delete_all_def)
qed

theorem apex_delete_ignored_witness:
  "apply_update sample_ext (sample_key\<lparr>restrict_to := str ''@''\<rparr>) sample_zone [str ''ex'', str ''org''] CL_IN
     ((delete_txt [])\<lparr>rname := [str ''ex'', str ''org'']\<rparr>)
     (sample_update_world\<lparr>zrecs := [sample_txt (str ''t1'') (str ''@'')]\<rparr>)
   = (Inr None, sample_update_world\<lparr>zrecs := [sample_txt (str ''t1'') (str ''@'')]\<rparr>)"
  by (rule apex_delete_ignored)
    (auto simp: sample_strip_def sample_match_def delete_txt_def sample_key_def TYPE_UNLIMITED_def sample_txt_def)


section \<open>Refusals\<close>

lemma for_until_stop:
  "for_until us f w = (Inr None, w1) \<Longrightarrow> f u w1 = (Inr (Some b), w2) \<Longrightarrow>
     for_until (us @ u # vs) f w = (Inr (Some b), w2)"
  by (induction us arbitrary: w) (auto simp: bind_act_def ret_def split: prod.splits sum.splits option.splits)

text \<open>an update that is refused at one of its records keeps what it did for the records before it: the
  response code says that nothing was done, the rows and the queue say otherwise.\<close>

theorem refused_update_keeps_changes:
  assumes "update_ready n E w req = Inr (Inr (c, z, zn, req2, res))" "m_auth req2 = us @ u # vs"
    and "for_until us (apply_update E (tc_key c) z zn (qclass (msg_q req2))) w = (Inr None, w1)"
    and "apply_update E (tc_key c) z zn (qclass (msg_q req2)) u w1 = (Inr (Some code), w2)"
  shows "handle_update_query n E req w = (signed_code E w2 c res code, w2)"
  using assms(1,2) for_until_stop[OF assms(3,4), of vs]
  by (simp add: handle_update_eq apply_updates_def bind_act_def[of "for_until xs f" for xs f] asks_res_def)

theorem refused_update_keeps_changes_witness:
  "\<exists>m. handle_update_query 1 sample_ext sample_request sample_update_world = (Inr m, sample_world_after)
     \<and> rcode m = RC_NOTAUTH \<and> zrecs sample_world_after \<noteq> zrecs sample_update_world"
proof -
  have ready: "update_ready 1 sample_ext sample_update_world sample_request = Inr (Inr
     (sample_ctx signed_tsig, sample_zone, [str ''ex'', str ''org''], sample_body, sample_reply sample_request))"
    unfolding update_ready_def sample_ext_simps sample_update_key
    by (simp add: go_on_def sample_update_checks del: str_simps)
  have b: "qclass (msg_q sample_body) = CL_IN" "m_auth sample_body = [delete_txt (str ''a'')] @ delete_txt (str ''b'') # []"
    "tc_key (sample_ctx signed_tsig) = sample_key"
    by (simp_all add: sample_body_def msg_q_def empty_msg_def sample_ctx_def)
  have "for_until [delete_txt (str ''a'')] (apply_update sample_ext (tc_key (sample_ctx signed_tsig)) sample_zone
      [str ''ex'', str ''org''] (qclass (msg_q sample_body))) sample_update_world = (Inr None, sample_world_after)"
    using sample_delete_a by (simp add: b bind_act_def ret_def del: str_simps)
  from refused_update_keeps_changes[OF ready b(2) this, of RC_NOTAUTH] sample_delete_b
  have "handle_update_query 1 sample_ext sample_request sample_update_world =
      (signed_code sample_ext sample_world_after (sample_ctx signed_tsig) (sample_reply sample_request) RC_NOTAUTH,
       sample_world_after)"
    by (simp add: b del: str_simps)
  moreover have "zrecs sample_world_after \<noteq> zrecs sample_update_world"
    by (simp add: sample_world_after_def sample_update_world_def)
  ultimately show ?thesis using sample_run[of 1] by auto
qed


section \<open>Lookups of the prerequisites\<close>

text \<open>C29: a lookup of any type, through whatever aliases and referrals, only adds to the response it is given: answers, authority and additional
  records that are there stay there, in their order, and so do the question and the identifier.\<close>

theorem lookup_only_extends:
  assumes "lookup_of rt = Some f" "f n E w m rn z qn d = Inr m'"
  shows "prefix (m_rr m) (m_rr m') \<and> prefix (m_auth m) (m_auth m') \<and> prefix (m_ar m) (m_ar m')
    \<and> questions m' = questions m \<and> m_id m' = m_id m \<and> opcode m' = opcode m"
proof -
  have "extends m m'"
    using assms
    by (auto simp: lookup_of_def split: if_splits
        dest: addr.f_extends mx.f_extends ns.f_extends txts.f_extends srv.f_extends caa.f_extends naptr.f_extends
          sshfp.f_extends ds.f_extends loc.f_extends hinfo.f_extends rp.f_extends https.f_extends dhcid.f_extends)
  then show ?thesis by (simp add: extends_def)
qed

theorem lookup_only_extends_witness:
  "\<exists>m'. lookup_txt 1 sample_ext sample_update_world empty_msg [str ''a''] sample_zone [str ''a'', str ''ex'', str ''org''] False
       = Inr m' \<and> prefix (m_rr empty_msg) (m_rr m')"
proof -
  have "\<exists>m'. lookup_txt 1 sample_ext sample_update_world empty_msg [str ''a''] sample_zone
      [str ''a'', str ''ex'', str ''org''] False = Inr m'"
    by (simp add: records_or_def find_records_def dotted_def codec_simps filter_name_def sample_update_world_def
        sample_zone_def add_to_rr_def sample_txt_rr) (simp add: sample_txt_def add_to_rr_def zrec_to_rr.simps some_res_def
          TXTRecord_to_rr_def sample_txt_new_def codec_simps)
  then obtain m' where "lookup_txt 1 sample_ext sample_update_world empty_msg [str ''a''] sample_zone
      [str ''a'', str ''ex'', str ''org''] False = Inr m'" by blast
  from lookup_only_extends[where f = lookup_txt and rt = QT_TXT, OF _ this] this show ?thesis
    by (simp add: lookup_of_def del: lookup_txt.simps)
qed

text \<open>where all zones are one, no lookup calls itself: depth 1 gives the same result as any larger
  depth, the stack is never exhausted.\<close>

theorem lookup_one_zone_depth:
  assumes "lookup_of rt = Some f" "\<forall>z' \<in> set (dnszones w). z_id z' = z_id z"
  shows "f (Suc n) E w m rn z qn d = f (Suc 0) E w m rn z qn d"
  using assms(1)
  by (auto simp: lookup_of_def records_or_def lookup_https_def cname_no_call[OF assms(2)] Let_def
      cong: if_cong split: if_splits prod.split)

theorem lookup_one_zone_depth_witness:
  "lookup_mx 9 sample_ext sample_update_world empty_msg [str ''a''] sample_zone [str ''a''] False
     = lookup_mx 1 sample_ext sample_update_world empty_msg [str ''a''] sample_zone [str ''a''] False"
  using lookup_one_zone_depth[of QT_MX lookup_mx sample_update_world sample_zone 8]
  by (simp add: lookup_of_def sample_update_world_def del: lookup_mx.simps)

end
