(* ===== verification/Arpa.thy ===== *)
theory Arpa
  imports Dns_Types Py_Ipaddress "HOL-Library.Sublist"
begin

text \<open>
  The names of the reverse tree in \<^verbatim>\<open>tasks.py\<close>: \<^verbatim>\<open>network_to_apra\<close> gives the name of a reverse zone,
  \<^verbatim>\<open>address_to_apra\<close> the owner name of a PTR record. An IPv6 name has a label for each hexadecimal
  digit, an IPv4 name one for each octet, in reversed order. Only as many labels of a network are
  used as its prefix touches, so the name of a network whose prefix does not end at a label boundary
  is that of the first block inside it.
\<close>

section \<open>Names\<close>

definition nibble_texts :: "nat \<Rightarrow> pstr list" where
  "nibble_texts v = map (\<lambda>c. [c]) (replace_cp 58 [] (v6_exploded v))"

definition octet_texts :: "nat \<Rightarrow> pstr list" where
  "octet_texts v = split_on 46 (v4_str v)"

fun network_to_apra :: "ip_network \<Rightarrow> label" where
  "network_to_apra (Net6 a p) =
     map utf8_encode (rev (take ((p + 3) div 4) (nibble_texts a)) @ [str ''ip6'', str ''arpa''])"
| "network_to_apra (Net4 a p) =
     map utf8_encode (rev (take ((p + 7) div 8) (octet_texts a)) @ [str ''in-addr'', str ''arpa''])"

fun address_to_apra :: "ip_addr \<Rightarrow> label" where
  "address_to_apra (IPv6 v) = map utf8_encode (rev (nibble_texts v) @ [str ''ip6'', str ''arpa''])"
| "address_to_apra (IPv4 v) = map utf8_encode (rev (octet_texts v) @ [str ''in-addr'', str ''arpa''])"


section \<open>The name of a network is a suffix of the names of its addresses\<close>

text \<open>A network whose prefix ends at a label boundary.\<close>

fun label_aligned :: "ip_network \<Rightarrow> bool" where
  "label_aligned (Net6 a p) \<longleftrightarrow> 4 dvd p"
| "label_aligned (Net4 a p) \<longleftrightarrow> 8 dvd p"

lemma nibble_texts_eq: "nibble_texts v = map (\<lambda>d. [hex_digit d]) (v6_nibbles v)"
  by (simp add: nibble_texts_def v6_exploded_replace comp_def)

lemma octet_texts_eq: "octet_texts v = map dec_str (v4_octets v)"
proof -
  have "46 \<notin> set (dec_str n)" for n using dec_str_digits[of n] by force
  then have "split_on 46 (join [46] (map dec_str (v4_octets v))) = map dec_str (v4_octets v)"
    by (intro split_on_join) (auto simp: v4_octets_def digits_be_def)
  then show ?thesis by (simp add: octet_texts_def v4_str_def)
qed

lemma digits_prefix_eq:
  assumes "0 < b" "k \<le> n" "u < b ^ n" "v < b ^ n"
  shows "take k (digits_be b n u) = take k (digits_be b n v) \<longleftrightarrow> u div b ^ (n - k) = v div b ^ (n - k)"
  using assms(2)
proof (induction k)
  case 0
  then show ?case using assms by simp
next
  case (Suc k)
  have step: "x div b ^ (n - k) = x div b ^ (n - Suc k) div b" for x
  proof -
    have "b ^ (n - k) = b ^ (n - Suc k) * b"
      using Suc.prems by (metis Suc_diff_le diff_Suc_Suc power_Suc2)
    then show ?thesis by (simp add: div_mult2_eq)
  qed
  have split: "take (Suc k) (digits_be b n x) = take k (digits_be b n x) @ [x div b ^ (n - Suc k) mod b]" for x
    using Suc.prems by (simp add: take_Suc_conv_app_nth nth_digits_be)
  let ?x = "u div b ^ (n - Suc k)" and ?y = "v div b ^ (n - Suc k)"
  have "?x = ?y \<longleftrightarrow> ?x div b = ?y div b \<and> ?x mod b = ?y mod b"
    by (metis div_mult_mod_eq)
  then show ?case
    using Suc by (simp add: split step)
qed

lemma reversed_suffix:
  assumes "inj f" "length xs = length ys"
  shows "suffix (rev (take k (map f xs)) @ t) (rev (map f ys) @ t) \<longleftrightarrow> take k xs = take k ys"
proof -
  have same: "prefix (take k zs) zs' \<longleftrightarrow> take k zs = take k zs'" if "length zs = length zs'" for zs zs' :: "'b list"
  proof
    assume "prefix (take k zs) zs'"
    then have "take k zs = take (length (take k zs)) zs'" by (metis append_eq_conv_conj prefix_def)
    then show "take k zs = take k zs'" using that by (cases "k \<le> length zs") (auto simp: min_def)
  next
    assume "take k zs = take k zs'"
    then show "prefix (take k zs) zs'" by (simp add: take_is_prefix)
  qed
  have "suffix (rev (take k (map f xs)) @ t) (rev (map f ys) @ t)
      \<longleftrightarrow> prefix (take k (map f xs)) (map f ys)"
    by (simp add: suffix_to_prefix)
  also have "\<dots> \<longleftrightarrow> map f (take k xs) = map f (take k ys)"
    using assms(2) by (simp add: same del: take_map) (simp add: take_map)
  finally show ?thesis using assms(1) by (simp add: inj_map_eq_map)
qed

lemma inj_dec_str: "inj dec_str"
  by (metis injI nat_of_dec_str option.inject)

lemma inj_hex_label: "inj (\<lambda>d. [hex_digit d])"
  by (auto simp: inj_on_def hex_digit_def split: if_splits)

lemma ascii_labels:
  "map utf8_encode (map dec_str ds) = map dec_str ds"
  "map utf8_encode (map (\<lambda>d. [hex_digit d]) (v6_nibbles v)) = map (\<lambda>d. [hex_digit d]) (v6_nibbles v)"
proof -
  show "map utf8_encode (map dec_str ds) = map dec_str ds"
    by (simp add: utf8_encode_ascii)
  have "hex_digit d < 128" if "d \<in> set (v6_nibbles v)" for d
    using digits_be_bound[of 16 d 32 v] that by (simp add: v6_nibbles_def hex_digit_def)
  then show "map utf8_encode (map (\<lambda>d. [hex_digit d]) (v6_nibbles v)) = map (\<lambda>d. [hex_digit d]) (v6_nibbles v)"
    by (simp add: utf8_encode_ascii)
qed

lemma apra_eq:
  "network_to_apra (Net6 a p) =
     rev (take ((p + 3) div 4) (map (\<lambda>d. [hex_digit d]) (v6_nibbles a))) @ [str ''ip6'', str ''arpa'']"
  "network_to_apra (Net4 a p) =
     rev (take ((p + 7) div 8) (map dec_str (v4_octets a))) @ [str ''in-addr'', str ''arpa'']"
  "address_to_apra (IPv6 v) = rev (map (\<lambda>d. [hex_digit d]) (v6_nibbles v)) @ [str ''ip6'', str ''arpa'']"
  "address_to_apra (IPv4 v) = rev (map dec_str (v4_octets v)) @ [str ''in-addr'', str ''arpa'']"
  by (simp_all only: network_to_apra.simps address_to_apra.simps nibble_texts_eq octet_texts_eq map_append
      rev_map[symmetric] take_map[symmetric] ascii_labels)
    (simp_all add: utf8_encode_ascii)

text \<open>For a network whose prefix ends at a label boundary, an address is in the network exactly if the
  name of its PTR record ends with the name of the zone of the network: the records of a reverse zone
  are names of the zone, and no others.\<close>

theorem apra_suffix:
  assumes "ip_wf a" "net_wf n" "label_aligned n"
  shows "in_network a n \<longleftrightarrow> suffix (network_to_apra n) (address_to_apra a)"
proof (cases a; cases n)
  fix v b p
  assume [simp]: "a = IPv6 v" "n = Net6 b p"
  obtain k where [simp]: "p = 4 * k" using assms(3) by auto
  have k: "k \<le> 32" and wf: "v < 16 ^ 32" "b < 16 ^ 32" using assms by simp_all
  have "(2::nat) ^ (128 - 4 * k) = 16 ^ (32 - k)"
    using power_mult[of "2::nat" 4 "32 - k"] by (simp add: diff_mult_distrib2)
  then show ?thesis
    using digits_prefix_eq[of 16 k 32 b v] k wf reversed_suffix[OF inj_hex_label, of "v6_nibbles b" "v6_nibbles v" k]
    by (auto simp: apra_eq v6_nibbles_def simp del: network_to_apra.simps address_to_apra.simps str_simps)
next
  fix v b p
  assume [simp]: "a = IPv4 v" "n = Net4 b p"
  obtain k where [simp]: "p = 8 * k" using assms(3) by auto
  have k: "k \<le> 4" and wf: "v < 256 ^ 4" "b < 256 ^ 4" using assms by simp_all
  have "(2::nat) ^ (32 - 8 * k) = 256 ^ (4 - k)"
    using power_mult[of "2::nat" 8 "4 - k"] by (simp add: diff_mult_distrib2)
  then show ?thesis
    using digits_prefix_eq[of 256 k 4 b v] k wf reversed_suffix[OF inj_dec_str, of "v4_octets b" "v4_octets v" k]
    by (auto simp: apra_eq v4_octets_def simp del: network_to_apra.simps address_to_apra.simps str_simps)
next
  fix v b p
  assume "a = IPv6 v" "n = Net4 b p"
  then show ?thesis by (simp add: apra_eq suffix_def append_eq_append_conv2 del: network_to_apra.simps address_to_apra.simps)
next
  fix v b p
  assume "a = IPv4 v" "n = Net6 b p"
  then show ?thesis by (simp add: apra_eq suffix_def append_eq_append_conv2 del: network_to_apra.simps address_to_apra.simps)
qed

theorem apra_suffix_witness:
  "in_network (IPv4 3221225985) (Net4 3221225984 24)
   \<and> suffix (network_to_apra (Net4 3221225984 24)) (address_to_apra (IPv4 3221225985))"
  using apra_suffix[of "IPv4 3221225985" "Net4 3221225984 24"] by simp

end
