(* ===== verification/Dnssec_Key.thy ===== *)
theory Dnssec_Key
  imports Sample
begin

text \<open>
  The signing key of the service: \<^verbatim>\<open>get_dnskey\<close> and \<^verbatim>\<open>make_zone_digest\<close> of \<^verbatim>\<open>utils.py\<close> and
  \<^verbatim>\<open>make_key_tag\<close> of \<^verbatim>\<open>tasks.py\<close>. The public key is the pair of its coordinates. The key tag is
  compared with the loop of RFC 4034, appendix B, over the bytes of the record data.
\<close>

section \<open>Operations\<close>

definition to_bytes :: "nat \<Rightarrow> nat \<Rightarrow> bytes res" where
  "to_bytes n v = (if v < 256 ^ n then Inr (be_bytes n v) else Inl OverflowError)"

definition key_bytes :: "nat \<times> nat \<Rightarrow> bytes res" where
  "key_bytes k = bind_res (to_bytes 32 (fst k)) (\<lambda>x. bind_res (to_bytes 32 (snd k)) (\<lambda>y. Inr (x @ y)))"

definition get_dnskey :: "ext \<Rightarrow> rdata res" where
  "get_dnskey E = bind_res (key_bytes (dnssec_pubkey E)) (\<lambda>k. Inr (RD_DNSKEY 257 3 13 k))"

text \<open>The loop over the pairs of bytes, and the odd byte at the end.\<close>

definition tag_sum :: "bytes \<Rightarrow> nat" where
  "tag_sum data =
     (let tag = fold (\<lambda>i t. t + (data ! (2 * i) * 2 ^ 8 + data ! (2 * i + 1))) [0..<length data div 2] 0 in
      if length data mod 2 \<noteq> 0 then tag + data ! (length data - 1) * 2 ^ 8 else tag)"

definition fold_tag :: "nat \<Rightarrow> nat" where
  "fold_tag t = (t + t div 2 ^ 16 mod 2 ^ 16) mod 2 ^ 16"

definition make_key_tag :: "ext \<Rightarrow> nat \<times> nat \<Rightarrow> nat \<Rightarrow> nat res" where
  "make_key_tag E public_key flags =
     bind_res (key_bytes public_key) (\<lambda>k.
     bind_res (rd_pack E ([], []) (RD_DNSKEY flags 3 13 k)) (\<lambda>b. Inr (fold_tag (tag_sum (fst b)))))"

definition make_zone_digest :: "ext \<Rightarrow> label \<Rightarrow> (pstr \<times> nat) res" where
  "make_zone_digest E zone_name =
     bind_res (get_dnskey E) (\<lambda>rd.
     bind_res (encode_name E ([], []) zone_name) (\<lambda>b.
     bind_res (rd_pack E b rd) (\<lambda>b'.
     bind_res (make_key_tag E (dnssec_pubkey E) 257) (\<lambda>tag. Inr (hexlify (sha256 E (fst b')), tag)))))"


section \<open>The key tag\<close>

text \<open>The loop of the RFC: one byte at a time, bytes at even positions shifted by eight bits.\<close>

fun rfc_tag_sum :: "nat \<Rightarrow> bytes \<Rightarrow> nat" where
  "rfc_tag_sum i [] = 0"
| "rfc_tag_sum i (b # bs) = (if even i then b * 2 ^ 8 else b) + rfc_tag_sum (i + 1) bs"

lemma fold_sum_list: "fold (\<lambda>i t. t + f i) xs (a::nat) = a + sum_list (map f xs)"
  by (induction xs arbitrary: a) simp_all

lemma tag_sum_Cons2: "tag_sum (a # b # data) = a * 2 ^ 8 + b + tag_sum data"
proof -
  define f where "f d i = d ! (2 * i) * 2 ^ 8 + d ! (2 * i + 1)" for d :: bytes and i
  have "f (a # b # data) 0 = a * 2 ^ 8 + b" "f (a # b # data) (Suc i) = f data i" for i
    by (simp_all add: f_def)
  then have "sum_list (map (f (a # b # data)) [0..<Suc n]) = a * 2 ^ 8 + b + sum_list (map (f data) [0..<n])" for n
    by (simp add: map_upt_Suc del: upt_Suc)
  then show ?thesis
    unfolding tag_sum_def Let_def fold_sum_list f_def[symmetric] by (cases data) (simp_all del: upt_Suc)
qed

lemma rfc_tag_sum_shift: "rfc_tag_sum (Suc (Suc i)) bs = rfc_tag_sum i bs"
  by (induction bs arbitrary: i) simp_all

lemma tag_sum_rfc: "tag_sum data = rfc_tag_sum 0 data"
proof (induction data rule: induct_list012)
  case (3 a b data)
  then show ?case by (simp add: tag_sum_Cons2 rfc_tag_sum_shift)
qed (simp_all add: tag_sum_def)

text \<open>C32: The key tag is that of RFC 4034 for the record data of the key, and a 16-bit number. The code
  adds the bytes in pairs, the RFC one at a time.\<close>

theorem key_tag_rfc4034:
  assumes "make_key_tag E k flags = Inr tag"
  shows "\<exists>key b. key_bytes k = Inr key \<and> rd_pack E ([], []) (RD_DNSKEY flags 3 13 key) = Inr b
    \<and> tag = (rfc_tag_sum 0 (fst b) + rfc_tag_sum 0 (fst b) div 2 ^ 16 mod 2 ^ 16) mod 2 ^ 16 \<and> tag < 65536"
  using assms by (auto simp: make_key_tag_def fold_tag_def tag_sum_rfc res_simps)

theorem key_tag_rfc4034_witness:
  "\<exists>b. make_key_tag (sample_ext\<lparr>rd_pack := \<lambda>b d. Inr ([1, 1, 3, 13, 255, 200, 7], [])\<rparr>) (0, 0) 257 = Inr b \<and> b < 65536"
proof -
  let ?E = "sample_ext\<lparr>rd_pack := \<lambda>b d. Inr ([1, 1, 3, 13, 255, 200, 7], [])\<rparr>"
  obtain t where t: "make_key_tag ?E (0, 0) 257 = Inr t"
    by (simp add: make_key_tag_def key_bytes_def to_bytes_def)
  then show ?thesis using key_tag_rfc4034[OF t] by blast
qed

end
