(* ===== verification/Py_Float.thy ===== *)
theory Py_Float
  imports Hex_Prelude "HOL-Library.Log_Nat"
begin

text \<open>
  Floating point numbers as far as \<^verbatim>\<open>dd_to_dms\<close> of \<^verbatim>\<open>tasks.py\<close> needs them. A finite double is
  its exact rational value; an operation computes the exact result and rounds it to the nearest
  double, ties to even. \<^verbatim>\<open>round(x, 3)\<close> rounds the exact value to thousandths, ties to even; the
  double nearest to a number of thousandths prints as that decimal number. Overflow to infinity
  does not arise from the operations used here and is not modelled.
\<close>

section \<open>Doubles\<close>

definition two_to :: "int \<Rightarrow> rat" where
  "two_to i = (if 0 \<le> i then 2 ^ nat i else 1 / 2 ^ nat (- i))"

text \<open>The value of a 64-bit pattern. \<^verbatim>\<open>int(x)\<close> raises for infinities and for NaN.\<close>

definition f_val :: "nat \<Rightarrow> rat res" where
  "f_val b =
     (let s = (if b div 2 ^ 63 mod 2 = 1 then - 1 else 1); e = b div 2 ^ 52 mod 2048; m = b mod 2 ^ 52 in
      if e = 2047 then Inl (if m = 0 then OverflowError else ValueError)
      else if e = 0 then Inr (s * of_nat m * two_to (- 1074))
      else Inr (s * of_nat (2 ^ 52 + m) * two_to (int e - 1075)))"

definition round_even :: "rat \<Rightarrow> int" where
  "round_even x =
     (let f = \<lfloor>x\<rfloor>; d = x - of_int f in
      if d < 1 / 2 then f else if 1 / 2 < d then f + 1 else if even f then f else f + 1)"

text \<open>The exponent of a positive number: the largest \<open>e\<close> with \<open>2 ^ e \<le> x\<close>.\<close>

definition f_exponent :: "rat \<Rightarrow> int" where
  "f_exponent x =
     (let (n, d) = quotient_of x; k = int (floorlog 2 (nat n)) - int (floorlog 2 (nat d)) in
      if two_to k \<le> x then k else k - 1)"

definition f_round :: "rat \<Rightarrow> rat" where
  "f_round x =
     (if x = 0 then 0
      else let u = two_to (max (f_exponent \<bar>x\<bar> - 52) (- 1074)) in of_int (round_even (x / u)) * u)"

definition trunc :: "rat \<Rightarrow> int" where
  "trunc x = (if x < 0 then \<lceil>x\<rceil> else \<lfloor>x\<rfloor>)"

definition round3 :: "rat \<Rightarrow> int" where
  "round3 x = round_even (x * 1000)"

text \<open>The text of a number of thousandths: at least one digit after the point.\<close>

definition thousandths_str :: "nat \<Rightarrow> pstr" where
  "thousandths_str n =
     dec_str (n div 1000) @ str ''.'' @
       (let f = n mod 1000 in
        if f mod 100 = 0 then dec_str (f div 100)
        else if f mod 10 = 0 then dec_str (f div 100) @ dec_str (f div 10 mod 10)
        else dec_str (f div 100) @ dec_str (f div 10 mod 10) @ dec_str (f mod 10))"


section \<open>Degrees, minutes, seconds\<close>

definition dd_to_dms :: "rat \<Rightarrow> nat \<times> nat \<times> nat" where
  "dd_to_dms dd =
     (let d1 = trunc dd;
          m1 = trunc (f_round (f_round (dd - of_int d1) * 60));
          s1 = round3 \<bar>f_round (f_round (f_round (dd - of_int d1) - f_round (of_int m1 / 60)) * 3600)\<bar> in
      (nat \<bar>d1\<bar>, nat \<bar>m1\<bar>, nat s1))"


section \<open>Rounding\<close>

lemma two_to_pos [simp]: "0 < two_to i"
  by (simp add: two_to_def)

lemma two_to_minus: "two_to (- int k) = 1 / 2 ^ k"
  by (simp add: two_to_def)

lemma two_to_add: "two_to (i + j) = two_to i * two_to j"
proof -
  have eq: "two_to i = 2 powi i" for i
    by (simp add: two_to_def power_int_def inverse_eq_divide power_one_over)
  show ?thesis by (simp add: eq power_int_add)
qed

lemma two_to_mono: "i \<le> j \<Longrightarrow> two_to i \<le> two_to j"
proof -
  assume "i \<le> j"
  then have "two_to j = two_to i * 2 ^ nat (j - i)"
    using two_to_add[of i "j - i"] by (simp add: two_to_def[of "j - i"])
  moreover have "(1::rat) \<le> 2 ^ nat (j - i)" by simp
  ultimately show ?thesis using mult_left_mono[of 1 "2 ^ nat (j - i)" "two_to i"] two_to_pos[of i] by simp
qed

lemma round_even_int [simp]: "round_even (of_int i) = i"
  by (simp add: round_even_def)

lemma f_exponent_le:
  assumes "0 < x"
  shows "two_to (f_exponent x) \<le> x"
proof -
  obtain n d where q: "quotient_of x = (n, d)" by (cases "quotient_of x")
  have d: "0 < d" and x: "x = of_int n / of_int d" using q quotient_of_denom_pos quotient_of_div by blast+
  have n: "0 < n" using assms d x by (simp add: zero_less_divide_iff)
  define a b where "a = floorlog 2 (nat n)" and "b = floorlog 2 (nat d)"
  have a: "(2::nat) ^ (a - 1) \<le> nat n" "0 < a" and b: "nat d < 2 ^ b"
    using floorlog_bounds[of "nat n" 2] floorlog_bounds[of "nat d" 2] n d
    by (auto simp: a_def b_def floorlog_def)
  have "(2::rat) ^ (a - 1) \<le> of_int n" using a(1) n
    by (metis (mono_tags) of_int_le_iff of_int_numeral of_int_power of_nat_le_iff of_nat_numeral of_nat_power int_nat_eq order_less_imp_le)
  moreover have "of_int d \<le> (2::rat) ^ b" using b d
    by (metis (mono_tags) of_int_le_iff of_int_numeral of_int_power less_imp_le nat_less_iff of_nat_numeral of_nat_power order_less_imp_le)
  ultimately have "2 ^ (a - 1) / 2 ^ b \<le> x"
    unfolding x using d n by (intro frac_le) simp_all
  moreover have "two_to (int a - int b - 1) = 2 ^ (a - 1) / 2 ^ b"
  proof -
    have "two_to (int (a - 1) + - int b) = 2 ^ (a - 1) / 2 ^ b"
      unfolding two_to_add by (simp add: two_to_def)
    then show ?thesis using a(2) by (simp add: of_nat_diff algebra_simps)
  qed
  ultimately have low: "two_to (int a - int b - 1) \<le> x" by simp
  show ?thesis using low by (simp add: f_exponent_def q a_def b_def Let_def)
qed

text \<open>A number with at most 53 significant bits is not changed by rounding.\<close>

lemma f_round_exact:
  assumes "\<bar>m\<bar> < 2 ^ 53" "k \<le> 1074"
  shows "f_round (of_int m / 2 ^ k) = of_int m / 2 ^ k"
proof (cases "m = 0")
  case False
  define x where "x = (of_int m / 2 ^ k :: rat)"
  have ax: "\<bar>x\<bar> = of_int \<bar>m\<bar> / 2 ^ k" "0 < \<bar>x\<bar>" using False by (simp_all add: x_def)
  define e where "e = f_exponent \<bar>x\<bar>"
  have "e - 52 \<le> - int k"
  proof (rule ccontr)
    assume "\<not> ?thesis"
    then have "two_to (53 + - int k) \<le> two_to e" by (intro two_to_mono) simp
    also have "\<dots> \<le> \<bar>x\<bar>" unfolding e_def by (rule f_exponent_le[OF ax(2)])
    finally have "2 ^ 53 / 2 ^ k \<le> \<bar>x\<bar>" unfolding two_to_add two_to_minus by (simp add: two_to_def)
    then have "(2::rat) ^ 53 \<le> of_int \<bar>m\<bar>" by (simp add: ax divide_le_cancel)
    then have "(2::int) ^ 53 \<le> \<bar>m\<bar>" by (metis of_int_le_iff of_int_numeral of_int_power)
    then show False using assms(1) by simp
  qed
  then have "max (e - 52) (- 1074) \<le> - int k" using assms(2) by simp
  then obtain j where "- int k - max (e - 52) (- 1074) = int j"
    by (metis diff_ge_0_iff_ge nonneg_int_cases)
  then have j: "max (e - 52) (- 1074) = - int k - int j" by linarith
  have "two_to (- int k - int j) = 1 / 2 ^ k / 2 ^ j"
    using two_to_add[of "- int k" "- int j"] by (simp add: two_to_def)
  then have "x / two_to (- int k - int j) = of_int (m * 2 ^ j)" by (simp add: x_def)
  then have "round_even (x / two_to (- int k - int j)) = m * 2 ^ j" by (metis round_even_int)
  then have "f_round x = of_int (m * 2 ^ j) * two_to (- int k - int j)"
    using ax(2) by (simp add: f_round_def Let_def j[unfolded e_def])
  then show ?thesis using \<open>two_to (- int k - int j) = 1 / 2 ^ k / 2 ^ j\<close> by (simp add: x_def)
qed (simp add: f_round_def)

text \<open>The seconds are rounded after the minutes have been split off, so they can be 60: for
  139810/8388608 degrees, a double just below one minute of arc, the result is 0 degrees, 0 minutes,
  60.0 seconds, which is not a value of the seconds field of a LOC record.\<close>

theorem dms_sixty_seconds:
  "dd_to_dms (139810 / 8388608) = (0, 0, 60000) \<and> thousandths_str 60000 = str ''60.0''"
proof -
  let ?x = "139810 / 8388608 :: rat"
  have x: "f_round ?x = ?x" using f_round_exact[of 139810 23] by simp
  have "f_round (?x * 60) = ?x * 60" using f_round_exact[of 8388600 23] by simp
  then have m: "trunc (f_round (?x * 60)) = 0" by (simp add: trunc_def floor_eq_iff)
  have s: "f_round (?x * 3600) = ?x * 3600" using f_round_exact[of 503316000 23] by simp
  have "\<lfloor>?x * 3600 * 1000\<rfloor> = 59999" by (simp add: floor_eq_iff)
  then have r: "round3 \<bar>?x * 3600\<bar> = 60000" by (simp add: round3_def round_even_def Let_def)
  have t: "trunc ?x = 0" by (simp add: trunc_def floor_eq_iff)
  have z: "f_round 0 = 0" by (simp add: f_round_def)
  have "dd_to_dms ?x = (0, 0, 60000)"
    unfolding dd_to_dms_def Let_def t of_int_0 diff_zero x m div_0 z s r by simp
  then show ?thesis by (simp add: thousandths_str_def dec_str.simps)
qed

end
