(* ===== verification/Zonefile.thy ===== *)
theory Zonefile
  imports Zone_Models Arpa Dnssec_Key Py_Float "HOL-Library.List_Lexorder"
begin

text \<open>
  The zone files that \<^verbatim>\<open>tasks.py\<close> writes for the name servers: \<^verbatim>\<open>generate_zone_header\<close>,
  \<^verbatim>\<open>generate_fzone\<close>, \<^verbatim>\<open>generate_rzone\<close>, \<^verbatim>\<open>generate_szone\<close>. A zone file is the text the code
  concatenates; each loop of the code over the rows of one class is one definition here. Records of
  a class come ordered by name, reverse records by address, as the \<^verbatim>\<open>ordering\<close> of their classes says;
  other rows come in the order of the table.
\<close>

section \<open>Lines\<close>

definition NAMESERVERS_dot :: "pstr list" where
  "NAMESERVERS_dot =
     [str ''ns1.as207960.net.'', str ''ns2.as207960.net.'', str ''ns3.as207960.net.'', str ''ns4.as207960.net.'']"

definition encode_str :: "pstr \<Rightarrow> pstr" where
  "encode_str data =
     concat (map (\<lambda>c. if c < 128 then [c] else concat (map (\<lambda>b. [92] @ dec_str b) (utf8_encode [c])))
       (replace_cp 34 [92, 34] data))"

definition quoted :: "pstr \<Rightarrow> pstr" where
  "quoted s = [34] @ s @ [34]"

definition line :: "pstr list \<Rightarrow> pstr" where
  "line ps = join [32] ps @ [10]"

definition rr_line :: "pstr \<Rightarrow> nat \<Rightarrow> string \<Rightarrow> pstr list \<Rightarrow> pstr" where
  "rr_line n l t ps = line ([n, dec_str l, str ''IN'', str t] @ ps)"

definition comment_line :: "string \<Rightarrow> pstr \<Rightarrow> pstr" where
  "comment_line what i = str ''; '' @ str what @ [32] @ i @ [10]"

definition zone_rows :: "model \<Rightarrow> pstr \<Rightarrow> world \<Rightarrow> zrec list" where
  "zone_rows m zid w = sort_key record_name (zone_set m zid w)"

text \<open>A loop over rows that adds to the file for every row with a usable name.\<close>

definition rows_text :: "(zrec \<Rightarrow> pstr res) \<Rightarrow> zrec list \<Rightarrow> pstr res" where
  "rows_text f rs = bind_res (mapM_res f rs) (\<lambda>ts. Inr (concat ts))"

definition with_name :: "ext \<Rightarrow> (pstr \<Rightarrow> zrec \<Rightarrow> pstr res) \<Rightarrow> zrec \<Rightarrow> pstr res" where
  "with_name E f r = (case truthy (idna_label E (record_name r)) of None \<Rightarrow> Inr [] | Some n \<Rightarrow> f n r)"


section \<open>The header\<close>

definition zone_cds :: "ext \<Rightarrow> pstr \<Rightarrow> label \<Rightarrow> cds_row list \<Rightarrow> cdnskey_row list \<Rightarrow> pstr res" where
  "zone_cds E owner root_label cds cdnskeys =
     bind_res (make_zone_digest E root_label) (\<lambda>(digest, tag).
     bind_res (key_bytes (dnssec_pubkey E)) (\<lambda>dnskey_bytes.
       Inr (rr_line owner 86400 ''CDS'' [dec_str tag, str ''13'', str ''2'', digest]
         @ concat (map (\<lambda>c. comment_line ''Additional CDS'' (cds_id c)
             @ rr_line owner 86400 ''CDS''
                 [dec_str (cds_key_tag c), dec_str (cds_algorithm c), dec_str (cds_digest_type c), cds_digest c]) cds)
         @ rr_line owner 86400 ''CDNSKEY'' [str ''257'', str ''3'', str ''13'', b64encode dnskey_bytes]
         @ concat (map (\<lambda>k. comment_line ''Additional CDNSKEY'' (ck_id k)
             @ rr_line owner 86400 ''CDNSKEY''
                 [dec_str (ck_flags k), dec_str (ck_protocol k), dec_str (ck_algorithm k), ck_public_key k]) cdnskeys))))"

definition cds_off :: "pstr \<Rightarrow> pstr" where
  "cds_off owner =
     rr_line owner 86400 ''CDS'' [str ''0'', str ''0'', str ''0'', str ''00'']
     @ rr_line owner 86400 ''CDNSKEY'' [str ''0'', str ''3'', str ''0'', str ''AA=='']"

text \<open>\<^verbatim>\<open>first()\<close> takes the row with the smallest primary key.\<close>

definition primary_ns :: "ext \<Rightarrow> custom_ns_row list \<Rightarrow> pstr" where
  "primary_ns E customs =
     (case sort_key ns_id customs of
        n # _ \<Rightarrow> label_str E (DNSLabel E (ns_nameserver n))
      | [] \<Rightarrow> hd NAMESERVERS_dot)"

definition generate_zone_header ::
  "ext \<Rightarrow> nat \<Rightarrow> custom_ns_row list \<Rightarrow> bool \<Rightarrow> cds_row list \<Rightarrow> cdnskey_row list \<Rightarrow> label \<Rightarrow> pstr res" where
  "generate_zone_header E time customs cds_disable cds cdnskeys root_label =
     bind_res (if cds_disable then Inr (cds_off (str ''@''))
               else zone_cds E (str ''@'') root_label cds cdnskeys) (\<lambda>cds_text.
       Inr (line [str ''$ORIGIN'', label_str E root_label]
         @ rr_line (str ''@'') 86400 ''SOA''
             [primary_ns E customs, str ''noc.as207960.net.'', dec_str (time div 1000000), str ''86400 3600 86400 3600'']
         @ (if customs \<noteq> []
            then concat (map (\<lambda>n. rr_line (str ''@'') 86400 ''NS'' [label_str E (DNSLabel E (ns_nameserver n))]) customs)
            else concat (map (\<lambda>n. rr_line (str ''@'') 86400 ''NS'' [n]) NAMESERVERS_dot))
         @ cds_text))"

definition fzone_header :: "ext \<Rightarrow> world \<Rightarrow> dnszone \<Rightarrow> pstr res" where
  "fzone_header E w z =
     generate_zone_header E (now w) [n \<leftarrow> f_custom_ns w. ns_zone n = z_id z] (z_cds_disable z)
       [c \<leftarrow> f_cds w. cds_zone c = z_id z] [k \<leftarrow> f_cdnskey w. ck_zone k = z_id z] (DNSLabel E (zone_root z))"


section \<open>Forward zones\<close>

definition address_line :: "pstr \<Rightarrow> nat \<Rightarrow> ip_addr \<Rightarrow> pstr" where
  "address_line n l a = rr_line n l (case a of IPv4 _ \<Rightarrow> ''A'' | IPv6 _ \<Rightarrow> ''AAAA'') [ip_str a]"

text \<open>\<^verbatim>\<open>inet a << inet b/p\<close>: strict containment, so not for a network of one address.\<close>

fun inet_within :: "ip_addr \<Rightarrow> ip_addr \<Rightarrow> nat \<Rightarrow> bool" where
  "inet_within (IPv4 v) (IPv4 a) p \<longleftrightarrow> p < 32 \<and> v div 2 ^ (32 - p) = a div 2 ^ (32 - p)"
| "inet_within (IPv6 v) (IPv6 a) p \<longleftrightarrow> p < 128 \<and> v div 2 ^ (128 - p) = a div 2 ^ (128 - p)"
| "inet_within _ _ p \<longleftrightarrow> False"

definition rzones_of :: "world \<Rightarrow> ip_addr \<Rightarrow> pstr list res" where
  "rzones_of w a =
     bind_res (mapM_res (\<lambda>rz. bind_res (parse_ip (zone_root_address rz)) (\<lambda>net_root.
         Inr (if inet_within a net_root (zone_root_prefix rz) then [rz_id rz] else []))) (rzones w))
       (\<lambda>is. Inr (concat is))"

definition address_text :: "ext \<Rightarrow> world \<Rightarrow> zrec \<Rightarrow> (pstr \<times> pstr list) res" where
  "address_text E w r =
     (case (truthy (idna_label E (record_name r)), body r) of
        (Some n, AddressRecord addr auto_reverse) \<Rightarrow>
          bind_res (parse_ip addr) (\<lambda>a.
          bind_res (if auto_reverse then rzones_of w a else Inr []) (\<lambda>rzs.
            Inr (comment_line ''Address record'' (r_id r) @ address_line n (ttl r) a, rzs)))
      | _ \<Rightarrow> Inr ([], []))"

definition dynamic_text :: "pstr \<Rightarrow> zrec \<Rightarrow> pstr res" where
  "dynamic_text n r =
     (case body r of
        DynamicAddressRecord v4 v6 _ \<Rightarrow>
          Inr (comment_line ''Dynamic address record'' (r_id r)
            @ (case truthy v4 of Some a \<Rightarrow> rr_line n (ttl r) ''A'' [a] | None \<Rightarrow> [])
            @ (case truthy v6 of Some a \<Rightarrow> rr_line n (ttl r) ''AAAA'' [a] | None \<Rightarrow> []))
      | _ \<Rightarrow> Inr [])"

definition aname_text :: "ext \<Rightarrow> world \<Rightarrow> dnszone \<Rightarrow> pstr \<Rightarrow> zrec \<Rightarrow> pstr res" where
  "aname_text E w z n r =
     (case body r of
        ANAMERecord alias \<Rightarrow>
          bind_res (alias_addresses E w z r alias) (\<lambda>addrs.
          bind_res (mapM_res parse_ip addrs) (\<lambda>as.
            Inr (comment_line ''ANAME record'' (r_id r) @ concat (map (address_line n (ttl r)) as))))
      | _ \<Rightarrow> Inr [])"

definition github_text :: "pstr \<Rightarrow> zrec \<Rightarrow> pstr res" where
  "github_text n r =
     Inr (comment_line ''Github pages record'' (r_id r)
       @ concat (map (\<lambda>a. rr_line n (ttl r) ''A'' [a]) GitHubPages_v4)
       @ concat (map (\<lambda>a. rr_line n (ttl r) ''AAAA'' [a])
           [str ''2606:50c0:8000::153'', str ''2606:50c0:8001::153'', str ''2606:50c0:8002::153'', str ''2606:50c0:8003::153'']))"

definition is_printable :: "nat \<Rightarrow> bool" where
  "is_printable c \<longleftrightarrow> (9 \<le> c \<and> c \<le> 13) \<or> (32 \<le> c \<and> c \<le> 126)"

definition cname_target :: "ext \<Rightarrow> dnszone \<Rightarrow> pstr \<Rightarrow> label option" where
  "cname_target E z alias =
     (if alias = str ''@'' then Some (DNSLabel E (zone_root z))
      else case idna_encode E alias of
        Some a \<Rightarrow> Some (DNSLabel E a)
      | None \<Rightarrow> if list_all is_printable alias then Some (DNSLabel E alias) else None)"

definition cname_text :: "ext \<Rightarrow> dnszone \<Rightarrow> pstr \<Rightarrow> zrec \<Rightarrow> pstr res" where
  "cname_text E z n r =
     (case body r of
        CNAMERecord alias \<Rightarrow>
          (case cname_target E z alias of
             None \<Rightarrow> Inr []
           | Some a \<Rightarrow> Inr (comment_line ''CNAME record'' (r_id r) @ rr_line n (ttl r) ''CNAME'' [label_str E a]))
      | _ \<Rightarrow> Inr [])"

definition redirect_text :: "pstr \<Rightarrow> zrec \<Rightarrow> pstr res" where
  "redirect_text n r =
     Inr (comment_line ''Redirect record'' (r_id r)
       @ rr_line n (ttl r) ''A'' [str ''45.129.95.254'']
       @ rr_line n (ttl r) ''AAAA'' [str ''2a0e:1cc1:1::1:7'']
       @ rr_line n (ttl r) ''CAA'' [str ''0'', str ''iodef'', quoted (str ''mailto:noc@as207960.net'')]
       @ rr_line n (ttl r) ''CAA'' [str ''0'', str ''issue'', quoted (str ''pki.goog'')]
       @ rr_line n (ttl r) ''CAA'' [str ''0'', str ''issue'', quoted (str ''letsencrypt.org'')])"

text \<open>The classes with one line for a row: what the line holds after the type.\<close>

definition simple_line :: "string \<Rightarrow> string \<Rightarrow> pstr list \<Rightarrow> pstr \<Rightarrow> zrec \<Rightarrow> pstr res" where
  "simple_line what t ps n r = Inr (comment_line what (r_id r) @ rr_line n (ttl r) t ps)"

definition mx_text :: "ext \<Rightarrow> pstr \<Rightarrow> zrec \<Rightarrow> pstr res" where
  "mx_text E n r =
     (case body r of
        MXRecord exchange priority \<Rightarrow>
          simple_line ''MX record'' ''MX'' [dec_str priority, label_str E (DNSLabel E exchange)] n r
      | _ \<Rightarrow> Inr [])"

definition ns_text :: "ext \<Rightarrow> pstr \<Rightarrow> zrec \<Rightarrow> pstr res" where
  "ns_text E n r =
     (case body r of
        NSRecord nameserver \<Rightarrow> simple_line ''NS record'' ''NS'' [label_str E (DNSLabel E nameserver)] n r
      | _ \<Rightarrow> Inr [])"

definition txt_text :: "pstr \<Rightarrow> zrec \<Rightarrow> pstr res" where
  "txt_text n r =
     (case body r of
        TXTRecord data \<Rightarrow> simple_line ''TXT record'' ''TXT'' [quoted (encode_str data)] n r
      | _ \<Rightarrow> Inr [])"

definition srv_text :: "ext \<Rightarrow> pstr \<Rightarrow> zrec \<Rightarrow> pstr res" where
  "srv_text E n r =
     (case body r of
        SRVRecord priority weight port target \<Rightarrow>
          simple_line ''SRV record'' ''SRV''
            [dec_str priority, dec_str weight, dec_str port, label_str E (DNSLabel E target)] n r
      | _ \<Rightarrow> Inr [])"

definition caa_text :: "pstr \<Rightarrow> zrec \<Rightarrow> pstr res" where
  "caa_text n r =
     (case body r of
        CAARecord flag tag value \<Rightarrow>
          simple_line ''CAA record'' ''CAA'' [dec_str flag, quoted (encode_str tag), quoted (encode_str value)] n r
      | _ \<Rightarrow> Inr [])"

definition naptr_text :: "ext \<Rightarrow> pstr \<Rightarrow> zrec \<Rightarrow> pstr res" where
  "naptr_text E n r =
     (case body r of
        NAPTRRecord ord pref flags service regexp replacement \<Rightarrow>
          simple_line ''NAPTR record'' ''NAPTR''
            [dec_str ord, dec_str (pyval_get pref), quoted (encode_str (pyval_get flags)),
             quoted (encode_str (pyval_get service)), quoted (encode_str (pyval_get regexp)),
             label_str E (DNSLabel E replacement)] n r
      | _ \<Rightarrow> Inr [])"

definition sshfp_text :: "ext \<Rightarrow> pstr \<Rightarrow> zrec \<Rightarrow> pstr res" where
  "sshfp_text E n r =
     (case body r of
        SSHFPRecord host_key \<Rightarrow>
          bind_res (ssh_parse E host_key) (\<lambda>(key_type, decoded_key).
            case ssh_algo_num key_type of
              None \<Rightarrow> Inr []
            | Some a \<Rightarrow>
                Inr (comment_line ''SSHFP record'' (r_id r)
                  @ rr_line n (ttl r) ''SSHFP'' [dec_str a, str ''1'', hexlify (sha1 E decoded_key)]
                  @ rr_line n (ttl r) ''SSHFP'' [dec_str a, str ''2'', hexlify (sha256 E decoded_key)]))
      | _ \<Rightarrow> Inr [])"

definition ds_text :: "pstr \<Rightarrow> zrec \<Rightarrow> pstr res" where
  "ds_text n r =
     (case body r of
        DSRecord key_tag algorithm digest_type digest \<Rightarrow>
          simple_line ''DS record'' ''DS'' [dec_str key_tag, dec_str algorithm, dec_str digest_type, digest] n r
      | _ \<Rightarrow> Inr [])"

definition dnskey_text :: "pstr \<Rightarrow> zrec \<Rightarrow> pstr res" where
  "dnskey_text n r =
     (case body r of
        DNSKEYRecord flags protocol algorithm public_key \<Rightarrow>
          simple_line ''DNSKEY record'' ''DNSKEY''
            [dec_str flags, dec_str protocol, dec_str algorithm, pytext_raw public_key] n r
      | _ \<Rightarrow> Inr [])"

definition dms_str :: "nat \<times> nat \<times> nat \<Rightarrow> pstr list" where
  "dms_str p = (case p of (d, m, s) \<Rightarrow> [dec_str d, dec_str m, thousandths_str s])"

definition loc_text :: "ext \<Rightarrow> pstr \<Rightarrow> zrec \<Rightarrow> pstr res" where
  "loc_text E n r =
     (case body r of
        LOCRecord latitude longitude altitude size_m hp vp \<Rightarrow>
          bind_res (f_val latitude) (\<lambda>lat.
          bind_res (f_val longitude) (\<lambda>lon.
            simple_line ''LOC record'' ''LOC''
              (dms_str (dd_to_dms lat) @ [if lat < 0 then str ''S'' else str ''N'']
               @ dms_str (dd_to_dms lon) @ [if lon < 0 then str ''W'' else str ''E'']
               @ map (\<lambda>x. float_str E x @ str ''m'') [altitude, size_m, hp, vp]) n r))
      | _ \<Rightarrow> Inr [])"

definition hinfo_text :: "pstr \<Rightarrow> zrec \<Rightarrow> pstr res" where
  "hinfo_text n r =
     (case body r of
        HINFORecord cpu os \<Rightarrow>
          simple_line ''HINFO record'' ''HINFO'' [quoted (encode_str cpu), quoted (encode_str os)] n r
      | _ \<Rightarrow> Inr [])"

definition rp_text :: "ext \<Rightarrow> pstr \<Rightarrow> zrec \<Rightarrow> pstr res" where
  "rp_text E n r =
     (case body r of
        RPRecord mailbox txt_name \<Rightarrow>
          simple_line ''RP record'' ''RP'' [label_str E (DNSLabel E mailbox), label_str E (DNSLabel E txt_name)] n r
      | _ \<Rightarrow> Inr [])"

text \<open>The rows of this class have no test of the name: the name of the line is \<^verbatim>\<open>svcb_record_name\<close>.\<close>

definition https_text :: "ext \<Rightarrow> zrec \<Rightarrow> pstr res" where
  "https_text E r =
     (case body r of
        HTTPSRecord h \<Rightarrow>
          bind_res (svcb_record h) (\<lambda>(sv, _).
          bind_res (pack_H (sv_priority sv)) (\<lambda>_.
          bind_res (encode_name_nocompress E (DNSLabel E (sv_target sv))) (\<lambda>target.
          bind_res (svcb_pack (\<lambda>_. target) sv) (\<lambda>data.
            Inr (comment_line ''HTTPS record'' (r_id r)
              @ rr_line (opt_str (HTTPSRecord_record_name E (record_name r) h)) (ttl r) ''TYPE65''
                  [[92, 35], dec_str (length data), hexlify data])))))
      | _ \<Rightarrow> Inr [])"

definition dhcid_text :: "pstr \<Rightarrow> zrec \<Rightarrow> pstr res" where
  "dhcid_text n r =
     (case body r of DHCIDRecord data \<Rightarrow> simple_line ''DHCID record'' ''DHCID'' [b64encode data] n r | _ \<Rightarrow> Inr [])"

text \<open>The loops after the one over the addresses, in the order of the code.\<close>

definition fzone_loops :: "ext \<Rightarrow> world \<Rightarrow> dnszone \<Rightarrow> (model \<times> (zrec \<Rightarrow> pstr res)) list" where
  "fzone_loops E w z =
     [(M_DynamicAddress, with_name E dynamic_text),
      (M_ANAME, with_name E (aname_text E w z)),
      (M_GitHubPages, with_name E github_text),
      (M_CNAME, with_name E (cname_text E z)),
      (M_Redirect, with_name E redirect_text),
      (M_MX, with_name E (mx_text E)),
      (M_NS, with_name E (ns_text E)),
      (M_TXT, with_name E txt_text),
      (M_SRV, with_name E (srv_text E)),
      (M_CAA, with_name E caa_text),
      (M_NAPTR, with_name E (naptr_text E)),
      (M_SSHFP, with_name E (sshfp_text E)),
      (M_DS, with_name E ds_text),
      (M_DNSKEY, with_name E dnskey_text),
      (M_LOC, with_name E (loc_text E)),
      (M_HINFO, with_name E hinfo_text),
      (M_RP, with_name E (rp_text E)),
      (M_HTTPS, https_text E),
      (M_DHCID, with_name E dhcid_text)]"

definition fzone_rest :: "ext \<Rightarrow> world \<Rightarrow> dnszone \<Rightarrow> pstr res" where
  "fzone_rest E w z =
     bind_res (mapM_res (\<lambda>(m, f). rows_text f (zone_rows m (z_id z) w)) (fzone_loops E w z)) (\<lambda>ts. Inr (concat ts))"

text \<open>
  The identifiers of the reverse zones are a set in the code; here each is queued once, in the order
  in which the addresses lead to it.
\<close>

definition generate_fzone :: "ext \<Rightarrow> dnszone \<Rightarrow> pstr io" where
  "generate_fzone E z =
     bind_act (asks_res (\<lambda>w. fzone_header E w z)) (\<lambda>header.
     bind_act (asks_res (\<lambda>w. mapM_res (address_text E w) (zone_rows M_Address (z_id z) w))) (\<lambda>ps.
     seq (for_each (remdups (concat (map snd ps))) (\<lambda>i. modify (delay (UpdateRzone i))))
     (bind_act (asks_res (\<lambda>w. fzone_rest E w z)) (\<lambda>rest.
       ret (header @ concat (map fst ps) @ rest)))))"


section \<open>Reverse and secondary zones\<close>

text \<open>The order of addresses in the database: IPv4 before IPv6, then by value.\<close>

definition inet_key :: "pstr \<Rightarrow> nat" where
  "inet_key s = (case parse_ip s of Inr (IPv4 v) \<Rightarrow> v | Inr (IPv6 v) \<Rightarrow> 2 ^ 32 + v | Inl _ \<Rightarrow> 0)"

definition ptr_text :: "ext \<Rightarrow> label \<Rightarrow> ptr_rec \<Rightarrow> pstr res" where
  "ptr_text E root_label p =
     bind_res (parse_ip (p_address p)) (\<lambda>a.
       let target = (if pointer p = str ''@'' then root_label else DNSLabel E (pointer p)) in
       Inr (comment_line ''PTR record'' (p_id p)
         @ rr_line (label_str E (address_to_apra a)) (p_ttl p) ''PTR'' [label_str E target]))"

definition reverse_ns_text :: "ext \<Rightarrow> label \<Rightarrow> rns_rec \<Rightarrow> pstr" where
  "reverse_ns_text E root_label n =
     comment_line ''NS record'' (rn_id n)
     @ rr_line (dec_str (rn_prefix n) @ str ''.'' @ label_str E root_label) (rn_ttl n) ''NS''
         [label_str E (DNSLabel E (rn_nameserver n))]"

text \<open>The address records with \<^verbatim>\<open>auto_reverse\<close> inside the network, of whatever zone.\<close>

definition auto_reverse_rows :: "world \<Rightarrow> ip_addr \<Rightarrow> nat \<Rightarrow> zrec list res" where
  "auto_reverse_rows w net_root p =
     bind_res (mapM_res (\<lambda>r. case body r of
         AddressRecord addr True \<Rightarrow> bind_res (parse_ip addr) (\<lambda>a. Inr (if inet_within a net_root p then [r] else []))
       | _ \<Rightarrow> Inr []) (zrecs w)) (\<lambda>rs. Inr (concat rs))"

definition zone_account :: "ext \<Rightarrow> world \<Rightarrow> dnszone \<Rightarrow> nat res" where
  "zone_account E w z = bind_res (owner_account E w (z_resource_id z)) (\<lambda>a. Inr (acc_id a))"

definition auto_ptr_line :: "ext \<Rightarrow> dnszone \<Rightarrow> zrec \<Rightarrow> pstr res" where
  "auto_ptr_line E z r =
     bind_res (parse_ip (address_of r)) (\<lambda>a.
       let zone_ptr = DNSLabel E (if record_name r = str ''@'' then zone_root z
                                  else record_name r @ str ''.'' @ zone_root z) in
       Inr (comment_line ''Address record'' (r_id r)
         @ rr_line (label_str E (address_to_apra a)) (ttl r) ''PTR'' [label_str E zone_ptr]))"

text \<open>The loop keeps the accounts of the zones it has seen in the dictionary \<^verbatim>\<open>zones\<close>.\<close>

fun auto_ptrs :: "ext \<Rightarrow> world \<Rightarrow> nat \<Rightarrow> (pstr \<times> nat) list \<Rightarrow> zrec list \<Rightarrow> pstr res" where
  "auto_ptrs E w account seen [] = Inr []"
| "auto_ptrs E w account seen (r # rs) =
     (case find (\<lambda>z. z_id z = r_zone r) (dnszones w) of
        None \<Rightarrow> Inl DoesNotExist
      | Some z \<Rightarrow>
          bind_res (case map_of seen (r_zone r) of Some a \<Rightarrow> Inr a | None \<Rightarrow> zone_account E w z) (\<lambda>account2.
          bind_res (if account2 = account then auto_ptr_line E z r else Inr []) (\<lambda>t.
          bind_res (auto_ptrs E w account ((r_zone r, account2) # seen) rs) (\<lambda>ts. Inr (t @ ts)))))"

definition rzone_header :: "ext \<Rightarrow> world \<Rightarrow> rzone \<Rightarrow> label \<Rightarrow> pstr res" where
  "rzone_header E w z root_label =
     generate_zone_header E (now w) [n \<leftarrow> r_custom_ns w. ns_zone n = rz_id z] (rz_cds_disable z)
       [c \<leftarrow> r_cds w. cds_zone c = rz_id z] [k \<leftarrow> r_cdnskey w. ck_zone k = rz_id z] root_label"

definition generate_rzone :: "ext \<Rightarrow> world \<Rightarrow> rzone \<Rightarrow> pstr res" where
  "generate_rzone E w z =
     bind_res (parse_ip (zone_root_address z)) (\<lambda>net_root.
     bind_res (ip_network_of net_root (zone_root_prefix z)) (\<lambda>zone_network.
     let root_label = network_to_apra zone_network in
     bind_res (rzone_header E w z root_label) (\<lambda>header.
     bind_res (owner_account E w (rz_resource_id z)) (\<lambda>owner.
     bind_res (mapM_res (ptr_text E root_label)
         (sort_key (\<lambda>p. inet_key (p_address p)) [p \<leftarrow> ptrs w. p_zone p = rz_id z])) (\<lambda>pts.
     bind_res (auto_reverse_rows w net_root (zone_root_prefix z)) (\<lambda>rows.
     bind_res (auto_ptrs E w (acc_id owner) [] rows) (\<lambda>autos.
       Inr (header @ concat pts
         @ concat (map (reverse_ns_text E root_label)
             (sort_key (\<lambda>n. inet_key (rn_address n)) [n \<leftarrow> rnss w. rn_zone n = rz_id z]))
         @ autos))))))))"

definition generate_szone :: "ext \<Rightarrow> world \<Rightarrow> szone \<Rightarrow> pstr" where
  "generate_szone E w z =
     line [str ''$ORIGIN'', label_str E (DNSLabel E (sz_zone_root z))]
     @ concat (map (\<lambda>r. comment_line ''Record'' (sr_id r) @ record_text r @ [10])
         [r \<leftarrow> szone_records w. sr_zone r = sz_id z])"

end
