(* ===== verification/Zonefile_Props.thy ===== *)
theory Zonefile_Props
  imports Zonefile
begin

text \<open>
  Theorems about the text of zone files: what a reader of the master file format gets back from a
  quoted string, and that the names of a reverse zone are names of that zone.
\<close>

section \<open>Quoted strings\<close>

text \<open>A character string in quotes, as RFC 1035, section 5.1, says it is read: a backslash and three
  digits stand for the byte with that number, a backslash and another character for that character.
  The result is the bytes and what follows the closing quote.\<close>

fun unescape :: "pstr \<Rightarrow> (nat \<times> pstr) option" where
  "unescape [] = None"
| "unescape (x # r) =
     (if is_digit x then
        (case r of
           y # z # r' \<Rightarrow>
             if is_digit y \<and> is_digit z then Some (100 * (x - 48) + 10 * (y - 48) + (z - 48), r') else None
         | _ \<Rightarrow> None)
      else Some (x, r))"

lemma unescape_shorter: "unescape cs = Some (b, r) \<Longrightarrow> length r < length cs"
  by (cases cs) (auto split: if_splits list.splits)

text \<open>The text up to the closing quote. The limit of 255 bytes that RFC 1035 sets for one character string is not
  part of the reader: whether a text is short enough is a matter of its length only.\<close>

function read_quoted :: "pstr \<Rightarrow> (bytes \<times> pstr) option" where
  "read_quoted [] = None"
| "read_quoted (c # cs) =
     (if c = 34 then Some ([], cs)
      else if c = 92 then
        (case unescape cs of
           None \<Rightarrow> None
         | Some (b, r) \<Rightarrow> map_option (apfst ((#) b)) (read_quoted r))
      else map_option (apfst ((#) c)) (read_quoted cs))"
  by pat_completeness auto
termination
  by (relation "measure length") (auto dest: unescape_shorter)

declare read_quoted.simps(2) [simp del]

lemma read_escape:
  "unescape cs = Some (b, r) \<Longrightarrow> read_quoted r = Some (bs, rest) \<Longrightarrow> read_quoted (92 # cs) = Some (b # bs, rest)"
  by (simp add: read_quoted.simps(2))

lemma read_plain:
  "c \<noteq> 34 \<Longrightarrow> c \<noteq> 92 \<Longrightarrow> read_quoted r = Some (bs, rest) \<Longrightarrow> read_quoted (c # r) = Some (c # bs, rest)"
  by (simp add: read_quoted.simps(2))

lemma dec_str_three:
  assumes "100 \<le> b" "b < 1000"
  shows "dec_str b = [48 + b div 100, 48 + b div 10 mod 10, 48 + b mod 10]"
proof -
  have "dec_str (b div 10 div 10) = [48 + b div 100]"
    using assms by (subst dec_str_small) (simp_all add: div_mult2_eq[symmetric])
  then show ?thesis using assms by (simp add: dec_str.simps[of b] dec_str.simps[of "b div 10"])
qed

lemma read_byte:
  assumes "128 \<le> b" "b < 256" "read_quoted r = Some (bs, rest)"
  shows "read_quoted (92 # dec_str b @ r) = Some (b # bs, rest)"
proof (rule read_escape[OF _ assms(3)])
  have "b div 100 = b div 10 div 10" by (simp add: div_mult2_eq[symmetric])
  then have "b = 100 * (b div 100) + 10 * (b div 10 mod 10) + b mod 10"
    using mult_div_mod_eq[of 10 b] mult_div_mod_eq[of 10 "b div 10"] by linarith
  moreover have "b div 100 < 10" using assms by simp
  moreover have "x mod 10 \<le> 9" for x :: nat using mod_less_divisor[of 10 x] by linarith
  ultimately show "unescape (dec_str b @ r) = Some (b, r)"
    using assms by (simp add: dec_str_three is_digit_def)
qed

lemma read_bytes:
  assumes "\<forall>b \<in> set bs. 128 \<le> b \<and> b < 256" "read_quoted r = Some (cs, rest)"
  shows "read_quoted (concat (map (\<lambda>b. [92] @ dec_str b) bs) @ r) = Some (bs @ cs, rest)"
  using assms
proof (induction bs)
  case (Cons b bs)
  then have "read_quoted (concat (map (\<lambda>b. [92] @ dec_str b) bs) @ r) = Some (bs @ cs, rest)" by simp
  from read_byte[OF _ _ this, of b] Cons.prems(1) show ?case by simp
qed simp

lemma read_escaped_quote: "read_quoted r = Some (bs, rest) \<Longrightarrow> read_quoted (92 # 34 # r) = Some (34 # bs, rest)"
  by (rule read_escape) (simp_all add: is_digit_def)

lemma utf8_cp_high: "128 \<le> c \<Longrightarrow> valid_cp c \<Longrightarrow> b \<in> set (utf8_cp c) \<Longrightarrow> 128 \<le> b \<and> b < 256"
  by (auto simp: utf8_cp_def valid_cp_def split: if_splits)

lemma encode_str_Cons:
  "encode_str (c # s) =
     (if c = 34 then [92, 34] else if c < 128 then [c] else concat (map (\<lambda>b. [92] @ dec_str b) (utf8_cp c)))
     @ encode_str s"
  by (simp add: encode_str_def replace_cp_def utf8_encode_def)

text \<open>C30: A text without backslashes that stands in quotes in a zone file (a TXT, CAA, NAPTR or HINFO
  value) is read back as its UTF-8 bytes, and the reader stops at the closing quote. (Whether these are at most 255,
  as one string may have, is left to the caller.)\<close>

theorem encode_str_roundtrip:
  assumes "list_all valid_cp s" "92 \<notin> set s"
  shows "read_quoted (encode_str s @ [34] @ rest) = Some (utf8_encode s, rest)"
  using assms
proof (induction s)
  case Nil
  then show ?case by (simp add: encode_str_def replace_cp_def utf8_encode_def read_quoted.simps(2))
next
  case (Cons c s)
  then have ih: "read_quoted (encode_str s @ [34] @ rest) = Some (utf8_encode s, rest)" by simp
  consider "c = 34" | "c \<noteq> 34" "c < 128" | "128 \<le> c" by linarith
  then show ?case
  proof cases
    case 1
    then show ?thesis using read_escaped_quote[OF ih] by (simp add: encode_str_Cons utf8_encode_def utf8_cp_def)
  next
    case 2
    then show ?thesis using read_plain[OF _ _ ih, of c] Cons.prems by (simp add: encode_str_Cons utf8_encode_def utf8_cp_def)
  next
    case 3
    have "\<forall>b \<in> set (utf8_cp c). 128 \<le> b \<and> b < 256" using utf8_cp_high[OF 3] Cons.prems by simp
    from read_bytes[OF this ih] show ?thesis using 3 by (simp add: encode_str_Cons utf8_encode_def)
  qed
qed

theorem encode_str_roundtrip_witness:
  "read_quoted (encode_str (str ''say '' @ [34, 233, 34]) @ [34] @ [10]) = Some (utf8_encode (str ''say '' @ [34, 233, 34]), [10])"
  using encode_str_roundtrip[of "str ''say '' @ [34, 233, 34]" "[10]"] by (simp add: valid_cp_def)

text \<open>A backslash is not escaped: the quote that closes the text of a value that ends with one is read
  as part of the text, and the value does not end on its line. A backslash and three digits
  in a value are read as one byte.\<close>

theorem encode_str_backslash:
  "read_quoted (encode_str [92] @ [34] @ [10]) = None
   \<and> read_quoted (encode_str [92, 48, 52, 50] @ [34] @ [10]) = Some ([42], [10])"
  by (simp add: encode_str_def replace_cp_def read_quoted.simps(2) is_digit_def)


section \<open>Reverse zones\<close>

lemma inet_within_network:
  "ip_network_of r p = Inr n \<Longrightarrow> inet_within a r p \<Longrightarrow> in_network a n"
  by (cases a; cases r) (auto split: if_splits)

lemma parse_v4_bound: "parse_v4 s = Some v \<Longrightarrow> v < 2 ^ 32"
proof -
  have oct: "x < 256" if "parse_octet t = Some x" for t x
    using that by (auto simp: parse_octet_def split: if_splits option.splits)
  assume "parse_v4 s = Some v"
  then obtain a b c d where "map parse_octet (split_on 46 s) = [Some a, Some b, Some c, Some d]"
    and v: "v = ((a * 256 + b) * 256 + c) * 256 + d"
    by (auto simp: parse_v4_def split: list.splits option.splits)
  then have "a < 256" "b < 256" "c < 256" "d < 256"
    using oct by (auto simp: map_eq_Cons_conv)
  then show ?thesis using v by simp
qed

lemma hex_number_bound: "hex_number acc s = Some v \<Longrightarrow> v < (acc + 1) * 16 ^ length s"
proof (induction s arbitrary: acc)
  case (Cons c s)
  then obtain h where h: "hex_val c = Some h" "hex_number (acc * 16 + h) s = Some v"
    by (auto split: option.splits)
  have "v < (acc * 16 + h + 1) * 16 ^ length s" using Cons.IH[OF h(2)] .
  also have "\<dots> \<le> ((acc + 1) * 16) * 16 ^ length s" using hex_val_bound[OF h(1)] by (intro mult_right_mono) auto
  finally show ?case by (simp only: list.size power_Suc One_nat_def add_0_right add_Suc_right mult.assoc)
qed simp

lemma parse_hextet_bound: "parse_hextet s = Some h \<Longrightarrow> h < 65536"
proof -
  assume "parse_hextet s = Some h"
  then have "length s \<le> 4" "h < 16 ^ length s" using hex_number_bound[of 0 s h] by (auto simp: parse_hextet_def split: if_splits)
  then show ?thesis using power_increasing[of "length s" 4 "16::nat"] by simp
qed

lemma hextets_val_bound: "hextets_val acc ps = Some v \<Longrightarrow> v < (acc + 1) * 65536 ^ length ps"
proof (induction ps arbitrary: acc)
  case (Cons p ps)
  then obtain h where h: "parse_hextet p = Some h" "hextets_val (acc * 65536 + h) ps = Some v"
    by (auto split: option.splits)
  have "v < (acc * 65536 + h + 1) * 65536 ^ length ps" using Cons.IH[OF h(2)] .
  also have "\<dots> \<le> ((acc + 1) * 65536) * 65536 ^ length ps"
    using parse_hextet_bound[OF h(1)] by (intro mult_right_mono) auto
  finally show ?case by (simp only: list.size power_Suc One_nat_def add_0_right add_Suc_right mult.assoc)
qed simp

lemma parse_v6_bound: "parse_v6 s = Some v \<Longrightarrow> v < 2 ^ 128"
proof -
  have short: "v < 65536 ^ 8" if "hextets_val 0 (take hi ps) = Some u"
    "hextets_val (u * 65536 ^ (8 - (hi + lo))) (drop (length ps - lo) ps) = Some v" "hi + lo < 8" for hi lo ps u v
  proof -
    have "u < 65536 ^ length (take hi ps)" using hextets_val_bound[OF that(1)] by simp
    also have "\<dots> \<le> 65536 ^ hi" by (rule power_increasing) simp_all
    finally have u: "u + 1 \<le> 65536 ^ hi" by simp
    have "v < (u * 65536 ^ (8 - (hi + lo)) + 1) * 65536 ^ length (drop (length ps - lo) ps)"
      by (rule hextets_val_bound[OF that(2)])
    also have "\<dots> \<le> (u * 65536 ^ (8 - (hi + lo)) + 1) * 65536 ^ lo"
      by (intro mult_left_mono power_increasing) simp_all
    also have "\<dots> \<le> ((u + 1) * 65536 ^ (8 - (hi + lo))) * 65536 ^ lo"
      by (intro mult_right_mono) (simp_all add: add_mult_distrib)
    also have "\<dots> \<le> (65536 ^ hi * 65536 ^ (8 - (hi + lo))) * 65536 ^ lo"
      using u by (intro mult_right_mono) simp_all
    also have "\<dots> = 65536 ^ 8" using that(3) by (simp only: power_add[symmetric]) simp
    finally show ?thesis .
  qed
  assume v: "parse_v6 s = Some v"
  then obtain ps where ps: "v6_parts s = Some ps" by (auto simp: parse_v6_def split: option.splits)
  have "v < 65536 ^ 8"
  proof (cases "inner_empties ps")
    case Nil
    then have "length ps = 8" "hextets_val 0 ps = Some v" using v ps by (auto simp: parse_v6_def split: if_splits)
    then show ?thesis using hextets_val_bound[of 0 ps v] by simp
  next
    case (Cons k ks)
    define hi where "hi = (if hd ps = [] then k - 1 else k)"
    define lo where "lo = (if last ps = [] then length ps - k - 1 - 1 else length ps - k - 1)"
    have "ks = []" using v ps Cons by (cases ks) (auto simp: parse_v6_def split: if_splits)
    then obtain u where "hextets_val 0 (take hi ps) = Some u" "hi + lo < 8"
      "hextets_val (u * 65536 ^ (8 - (hi + lo))) (drop (length ps - lo) ps) = Some v"
      using v ps Cons unfolding parse_v6_def hi_def lo_def Let_def
      by (auto simp del: hextets_val.simps split: if_splits option.splits)
    then show ?thesis by (intro short)
  qed
  then show ?thesis by simp
qed

lemma parse_ip_wf: "parse_ip s = Inr a \<Longrightarrow> ip_wf a"
  by (auto simp: parse_ip_def dest: parse_v4_bound parse_v6_bound split: option.splits)

lemma auto_reverse_row:
  assumes "auto_reverse_rows w net_root p = Inr rows" "r \<in> set rows"
  shows "\<exists>a. parse_ip (address_of r) = Inr a \<and> inet_within a net_root p \<and> r \<in> set (zrecs w)"
proof -
  let ?f = "\<lambda>r. case body r of
    AddressRecord addr True \<Rightarrow> bind_res (parse_ip addr) (\<lambda>a. Inr (if inet_within a net_root p then [r] else []))
  | _ \<Rightarrow> Inr []"
  have one: "\<exists>a. parse_ip (address_of r) = Inr a \<and> inet_within a net_root p" if "?f s = Inr xs" "r \<in> set xs" for s xs
    using that by (auto simp: address_of_def bind_res_Inr_iff split: body.splits bool.splits if_splits)
  have same: "r = s" if "?f s = Inr xs" "r \<in> set xs" for s xs
    using that by (auto simp: bind_res_Inr_iff split: body.splits bool.splits if_splits)
  have "\<exists>s xs. s \<in> set zs \<and> ?f s = Inr xs \<and> r \<in> set xs" if "mapM_res ?f zs = Inr iss" "r \<in> set (concat iss)" for zs iss
    using that
  proof (induction zs arbitrary: iss)
    case (Cons z zs)
    then obtain y ys where y: "?f z = Inr y" "mapM_res ?f zs = Inr ys" "iss = y # ys" by (auto simp: bind_res_Inr_iff)
    then show ?case using Cons.IH[OF y(2)] Cons.prems(2) by auto
  qed simp
  moreover obtain iss where "mapM_res ?f (zrecs w) = Inr iss" "rows = concat iss"
    using assms(1) unfolding auto_reverse_rows_def bind_res_Inr_iff by blast
  ultimately show ?thesis using assms(2) one same by blast
qed

text \<open>C31: The records that \<^verbatim>\<open>generate_rzone\<close> adds by itself, for address records with \<^verbatim>\<open>auto_reverse\<close>, are
  records of the zone: the owner name of each ends with the name of the zone, if the prefix of the
  zone ends at a label boundary.\<close>

theorem auto_ptr_in_zone:
  assumes "ip_network_of net_root p = Inr n" "ip_wf net_root" "label_aligned n"
    and "auto_reverse_rows w net_root p = Inr rows" "r \<in> set rows"
  shows "\<exists>a. parse_ip (address_of r) = Inr a \<and> in_network a n \<and> suffix (network_to_apra n) (address_to_apra a)"
proof -
  obtain a where a: "parse_ip (address_of r) = Inr a" "inet_within a net_root p"
    using auto_reverse_row[OF assms(4,5)] by blast
  have "in_network a n" using inet_within_network[OF assms(1) a(2)] .
  then show ?thesis
    using a(1) apra_suffix[OF parse_ip_wf[OF a(1)] conjunct1[OF ip_network_of_wf[OF assms(2,1)]] assms(3)] by blast
qed

theorem auto_ptr_in_zone_witness:
  "suffix (network_to_apra (Net4 3221225984 24)) (address_to_apra (IPv4 3221225985))"
proof -
  let ?r = "new_zrec (str ''a'') sample_zone (str ''www'') 60 (AddressRecord (str ''192.0.2.1'') True)"
  have p: "parse_ip (str ''192.0.2.1'') = Inr (IPv4 3221225985)"
    by (simp add: parse_ip_def parse_v4_def parse_octet_def is_digit_def nat_of_digits_def)
  have rows: "auto_reverse_rows (empty_world\<lparr>zrecs := [?r]\<rparr>) (IPv4 3221225984) 24 = Inr [?r]"
    by (simp add: auto_reverse_rows_def new_zrec_def p del: str_simps)
  have "ip_network_of (IPv4 3221225984) 24 = Inr (Net4 3221225984 24)" by simp
  from auto_ptr_in_zone[OF this _ _ rows, of ?r] show ?thesis
    by (simp add: address_of_def new_zrec_def p del: str_simps network_to_apra.simps address_to_apra.simps)
qed

text \<open>A prefix inside a label is rounded up to the next boundary: the zone of a network of 128 addresses
  has the name of its first address, and no other address of the network is in it.\<close>

theorem unaligned_zone_name:
  "in_network (IPv4 3221226113) (Net4 3221226112 25)
   \<and> \<not> suffix (network_to_apra (Net4 3221226112 25)) (address_to_apra (IPv4 3221226113))
   \<and> network_to_apra (Net4 3221226112 25) = address_to_apra (IPv4 3221226112)"
proof -
  have o: "v4_octets 3221226112 = [192, 0, 2, 128]" "v4_octets 3221226113 = [192, 0, 2, 129]"
    by (simp_all add: v4_octets_def digits_be_def upt_rec)
  have d: "dec_str 128 = [49, 50, 56]" "dec_str 129 = [49, 50, 57]" by (simp_all add: dec_str_three)
  show ?thesis
    by (simp add: apra_eq o d suffix_def del: network_to_apra.simps address_to_apra.simps)
qed

end
