(* ===== verification/Publish.thy ===== *)
theory Publish
  imports Sample
begin

text \<open>
  How the tasks reach other systems: the message broker through \<^verbatim>\<open>PikaClient\<close> of \<^verbatim>\<open>apps.py\<close>, the
  storage of zone files, the secondary name service of \<^verbatim>\<open>netnod.py\<close>. Every call is an event of the
  world, whether it succeeds or raises; its result is a function \<open>storage\<close>, \<open>amqp\<close>, \<open>http\<close> of the
  environment, of the calls made before.
\<close>

section \<open>Message broker\<close>

definition amqp_call :: "ext \<Rightarrow> amqp_op \<Rightarrow> unit io" where
  "amqp_call E op w = (amqp E (events w) op, emit (Amqp op) w)"

definition ignore_amqp_error :: "unit io \<Rightarrow> unit io" where
  "ignore_amqp_error m w =
     (case m w of
        (Inl AMQPChannelError, w') \<Rightarrow> (Inr (), w')
      | (Inl AMQPConnectionError, w') \<Rightarrow> (Inr (), w')
      | other \<Rightarrow> other)"

definition setup_connection :: "ext \<Rightarrow> bool \<Rightarrow> unit io" where
  "setup_connection E connected =
     seq (if connected then ignore_amqp_error (amqp_call E ConnClose) else ret ()) (amqp_call E ConnOpen)"

definition get_client :: "ext \<Rightarrow> unit io" where
  "get_client E =
     bind_act (asks pika_client) (\<lambda>existing.
       if existing then ret ()
       else seq (setup_connection E False) (modify (\<lambda>w. w\<lparr>pika_client := True\<rparr>)))"

text \<open>After \<^verbatim>\<open>setup_connection\<close> on a closed channel stands the expression \<^verbatim>\<open>c\<close>, a name nothing defines.\<close>

definition get_channel :: "ext \<Rightarrow> unit io \<Rightarrow> unit io" where
  "get_channel E cb =
     seq (get_client E)
       (bind_act (asks (\<lambda>w. amqp_open E (events w))) (\<lambda>is_open.
          if \<not> is_open then seq (setup_connection E True) (throw NameError)
          else (\<lambda>w. case cb w of
                 (Inl AMQPChannelError, w') \<Rightarrow> seq (setup_connection E True) cb w'
               | other \<Rightarrow> other)))"

definition RELOAD_EXCHANGE :: pstr where
  "RELOAD_EXCHANGE = str ''hexdns_primary_reload''"

definition send_reload_message :: "ext \<Rightarrow> label \<Rightarrow> unit io" where
  "send_reload_message E l =
     get_channel E (seq (amqp_call E (ExchangeDeclare RELOAD_EXCHANGE))
       (amqp_call E (BasicPublish RELOAD_EXCHANGE (utf8_encode (label_str E l)))))"


section \<open>Storage of zone files\<close>

definition write_zone_file :: "ext \<Rightarrow> pstr \<Rightarrow> pstr \<Rightarrow> unit io" where
  "write_zone_file E zone_contents zone_name w =
     (storage E (events w) (zone_name @ str ''zone''),
      emit (Storage_save (zone_name @ str ''zone'') (utf8_encode zone_contents)) w)"


section \<open>Netnod\<close>

definition URL_ROOT :: pstr where
  "URL_ROOT = str ''https://dnsnodeapi.netnod.se/apiv3''"

definition PRODUCT :: pstr where
  "PRODUCT = str ''standard-europe-a''"

definition PRIMARY_SERVERS :: "(pstr \<times> pstr) list" where
  "PRIMARY_SERVERS = map (\<lambda>ip. (str ip, str ''netnod-cyfyngedig-1.''))
     [''2a0e:1cc1:1::1:1b'', ''2001:678:fc8:2::18'', ''2001:678:fc8:2::19'', ''2001:678:fc8:2::1a'', ''2001:678:fc8:2::1b'']"

definition zone_url :: "pstr \<Rightarrow> pstr" where
  "zone_url zone_name = URL_ROOT @ str ''/zone/'' @ zone_name"

definition http_call :: "ext \<Rightarrow> http_req \<Rightarrow> http_resp io" where
  "http_call E q w = (http E (events w) q, emit (Http q) w)"

definition raise_for_status :: "http_resp \<Rightarrow> unit res" where
  "raise_for_status r = (if 400 \<le> status r \<and> status r < 600 then Inl RequestError else Inr ())"

definition check_zone_registered :: "ext \<Rightarrow> pstr \<Rightarrow> bool io" where
  "check_zone_registered E zone_name =
     bind_act (http_call E (NetnodGet (zone_url zone_name))) (\<lambda>r.
       if status r = 404 then ret False else seq (lift_res (raise_for_status r)) (ret True))"

definition register_zone :: "ext \<Rightarrow> pstr \<Rightarrow> pstr \<Rightarrow> unit io" where
  "register_zone E zone_name end_user =
     bind_act (http_call E (NetnodPost (zone_url []) zone_name PRIMARY_SERVERS PRODUCT end_user))
       (\<lambda>r. lift_res (raise_for_status r))"

definition deregister_zone :: "ext \<Rightarrow> pstr \<Rightarrow> unit io" where
  "deregister_zone E zone_name =
     bind_act (http_call E (NetnodDelete (zone_url zone_name))) (\<lambda>r. lift_res (raise_for_status r))"

lemmas call_defs = amqp_call_def http_call_def write_zone_file_def


section \<open>Messages\<close>

text \<open>A channel that has been closed fails every time: the reconnection succeeds, and the stray name
  raises \<^verbatim>\<open>NameError\<close> before the message is sent. The task is retried, with the new channel.\<close>

theorem closed_channel_raises:
  assumes "pika_client w" "\<not> amqp_open E (events w)"
    and "\<And>h. amqp E h ConnClose = Inr ()" "\<And>h. amqp E h ConnOpen = Inr ()"
  shows "fst (send_reload_message E l w) = Inl NameError
    \<and> events (snd (send_reload_message E l w)) = events w @ [Amqp ConnClose, Amqp ConnOpen]"
  using assms
  by (simp add: send_reload_message_def get_channel_def get_client_def setup_connection_def
      ignore_amqp_error_def act_defs amqp_call_def)

theorem closed_channel_raises_witness:
  "fst (send_reload_message (sample_ext\<lparr>amqp_open := \<lambda>h. False\<rparr>) [] (empty_world\<lparr>pika_client := True\<rparr>)) = Inl NameError"
  using closed_channel_raises[of "empty_world\<lparr>pika_client := True\<rparr>" "sample_ext\<lparr>amqp_open := \<lambda>h. False\<rparr>" "[]"]
  by simp

end
