(* ===== verification/Tasks.thy ===== *)
theory Tasks
  imports Zonefile Publish
begin

text \<open>
  The background tasks of \<^verbatim>\<open>tasks.py\<close>: writing the file of a zone and telling the name servers to
  reload it, the signal zones, the catalog of all zones, the synchronisation with Netnod; and the
  worker that runs them. Every task is declared with \<^verbatim>\<open>autoretry_for=(Exception,)\<close> and
  \<^verbatim>\<open>max_retries=None\<close>: a task that raises goes back into the queue. The worker may take any task of
  the queue; a task runs as one step.
\<close>

section \<open>Zone tasks\<close>

text \<open>\<^verbatim>\<open>^[a-zA-Z0-9-.]+$\<close>; the dollar also matches before a newline at the end.\<close>

definition root_char :: "nat \<Rightarrow> bool" where
  "root_char c \<longleftrightarrow> (97 \<le> c \<and> c \<le> 122) \<or> (65 \<le> c \<and> c \<le> 90) \<or> is_digit c \<or> c = 45 \<or> c = 46"

definition root_pattern :: "pstr \<Rightarrow> bool" where
  "root_pattern s \<longleftrightarrow>
     (s \<noteq> [] \<and> list_all root_char s)
     \<or> (s \<noteq> [] \<and> last s = 10 \<and> butlast s \<noteq> [] \<and> list_all root_char (butlast s))"

definition get_fzone :: "world \<Rightarrow> pstr \<Rightarrow> dnszone option" where
  "get_fzone w i = find (\<lambda>z. z_id z = i) (dnszones w)"

definition get_rzone :: "world \<Rightarrow> pstr \<Rightarrow> rzone option" where
  "get_rzone w i = find (\<lambda>z. rz_id z = i) (rzones w)"

definition get_szone :: "world \<Rightarrow> pstr \<Rightarrow> szone option" where
  "get_szone w i = find (\<lambda>z. sz_id z = i) (szones w)"

definition add_fzone :: "ext \<Rightarrow> pstr \<Rightarrow> unit io" where
  "add_fzone E i =
     bind_act (asks (\<lambda>w. get_fzone w i)) (\<lambda>found. case found of
       None \<Rightarrow> ret ()
     | Some z \<Rightarrow>
         if root_pattern (zone_root z) then
           bind_act (generate_fzone E z) (\<lambda>zone_file.
             seq (write_zone_file E zone_file (label_str E (DNSLabel E (zone_root z))))
               (modify (delay UpdateCatalog)))
         else ret ())"

definition update_fzone :: "ext \<Rightarrow> pstr \<Rightarrow> unit io" where
  "update_fzone E i =
     bind_act (asks (\<lambda>w. get_fzone w i)) (\<lambda>found. case found of
       None \<Rightarrow> ret ()
     | Some z \<Rightarrow>
         if root_pattern (zone_root z) then
           bind_act (generate_fzone E z) (\<lambda>zone_file.
             seq (write_zone_file E zone_file (label_str E (DNSLabel E (zone_root z))))
               (send_reload_message E (DNSLabel E (zone_root z))))
         else ret ())"

definition rzone_root :: "rzone \<Rightarrow> label res" where
  "rzone_root z =
     bind_res (network_of (zone_root_address z) (zone_root_prefix z)) (\<lambda>n. Inr (network_to_apra n))"

definition add_rzone :: "ext \<Rightarrow> pstr \<Rightarrow> unit io" where
  "add_rzone E i =
     bind_act (asks (\<lambda>w. get_rzone w i)) (\<lambda>found. case found of
       None \<Rightarrow> ret ()
     | Some z \<Rightarrow>
         bind_act (asks_res (\<lambda>w. generate_rzone E w z)) (\<lambda>zone_file.
         bind_act (lift_res (rzone_root z)) (\<lambda>root_label.
           seq (write_zone_file E zone_file (label_str E root_label)) (modify (delay UpdateCatalog)))))"

definition update_rzone :: "ext \<Rightarrow> pstr \<Rightarrow> unit io" where
  "update_rzone E i =
     bind_act (asks (\<lambda>w. get_rzone w i)) (\<lambda>found. case found of
       None \<Rightarrow> ret ()
     | Some z \<Rightarrow>
         bind_act (asks_res (\<lambda>w. generate_rzone E w z)) (\<lambda>zone_file.
         bind_act (lift_res (rzone_root z)) (\<lambda>root_label.
           seq (write_zone_file E zone_file (label_str E root_label)) (send_reload_message E root_label))))"

definition add_szone :: "ext \<Rightarrow> pstr \<Rightarrow> unit io" where
  "add_szone E i =
     bind_act (asks (\<lambda>w. get_szone w i)) (\<lambda>found. case found of
       None \<Rightarrow> ret ()
     | Some z \<Rightarrow>
         bind_act (asks (\<lambda>w. generate_szone E w z)) (\<lambda>zone_file.
           seq (write_zone_file E zone_file (label_str E (DNSLabel E (sz_zone_root z))))
             (modify (delay UpdateCatalog))))"

definition update_szone :: "ext \<Rightarrow> pstr \<Rightarrow> unit io" where
  "update_szone E i =
     bind_act (asks (\<lambda>w. get_szone w i)) (\<lambda>found. case found of
       None \<Rightarrow> ret ()
     | Some z \<Rightarrow>
         bind_act (asks (\<lambda>w. generate_szone E w z)) (\<lambda>zone_file.
           seq (write_zone_file E zone_file (label_str E (DNSLabel E (sz_zone_root z))))
             (send_reload_message E (DNSLabel E (sz_zone_root z)))))"


section \<open>Catalog and signal zones\<close>

definition get_user :: "ext \<Rightarrow> pstr option \<Rightarrow> user option res" where
  "get_user E rid =
     (case resource_owner E rid of
        Inl e \<Rightarrow> if e \<in> {KeycloakError, RequestError} then Inr None else Inl e
      | Inr u \<Rightarrow> Inr u)"

definition is_active :: "world \<Rightarrow> user option \<Rightarrow> bool" where
  "is_active w u =
     (case u of
        None \<Rightarrow> False
      | Some v \<Rightarrow> (case account_of w (username v) of None \<Rightarrow> False | Some a \<Rightarrow> subscription_active a))"

definition signal_entry :: "ext \<Rightarrow> world \<Rightarrow> dnszone \<Rightarrow> pstr res" where
  "signal_entry E w z =
     (if root_pattern (zone_root z) then
        (let cds_zone_root = DNSLabel E (zone_root z);
             owner = str ''_dsboot.'' @ label_str E cds_zone_root @ str ''_signal'' in
         bind_res (if z_cds_disable z then Inr (cds_off owner)
                   else zone_cds E owner cds_zone_root [c \<leftarrow> f_cds w. cds_zone c = z_id z]
                          [k \<leftarrow> f_cdnskey w. ck_zone k = z_id z])
           (\<lambda>t. Inr (comment_line ''Zone'' (z_id z) @ t)))
      else Inr [])"

definition signal_zone_text :: "ext \<Rightarrow> world \<Rightarrow> label \<Rightarrow> pstr res" where
  "signal_zone_text E w root_label =
     bind_res (mapM_res (signal_entry E w) (dnszones w)) (\<lambda>entries.
       Inr (line [str ''$ORIGIN'', label_str E root_label]
         @ rr_line (str ''@'') 86400 ''SOA''
             [hd NAMESERVERS_dot, str ''noc.as207960.net.'', dec_str (now w div 1000000), str ''86400 3600 3600000 3600'']
         @ concat (map (\<lambda>n. rr_line (str ''@'') 86400 ''NS'' [n]) NAMESERVERS_dot)
         @ concat entries))"

definition update_signal_zones :: "ext \<Rightarrow> unit io" where
  "update_signal_zones E =
     for_each NAMESERVERS_dot (\<lambda>ns.
       let root_label = DNSLabel E (str ''_signal.'' @ ns) in
       bind_act (asks_res (\<lambda>w. signal_zone_text E w root_label)) (\<lambda>zone_file.
         seq (write_zone_file E zone_file (label_str E root_label)) (send_reload_message E root_label)))"

text \<open>What one zone adds: to the file, to the active zones, to the inactive zones.\<close>

type_synonym catalog_part = "pstr \<times> (pstr \<times> pstr) list \<times> pstr list"

definition catalog_entry :: "ext \<Rightarrow> world \<Rightarrow> pstr \<Rightarrow> label \<Rightarrow> pstr option \<Rightarrow> string \<Rightarrow> catalog_part res" where
  "catalog_entry E w i root_label rid grp =
     bind_res (get_user E rid) (\<lambda>u. case u of
       Some owner \<Rightarrow>
         if is_active w (Some owner) then
           Inr (line [i @ str ''.zones'', str ''0 IN PTR'', label_str E root_label]
                @ line [str ''group.'' @ i @ str ''.zones'', str ''0 IN TXT'', quoted (str grp)],
                [(label_str E root_label, username owner)], [])
         else Inr ([], [], [label_str E root_label])
     | None \<Rightarrow> Inr ([], [], [label_str E root_label]))"

definition fzone_entry :: "ext \<Rightarrow> world \<Rightarrow> dnszone \<Rightarrow> catalog_part res" where
  "fzone_entry E w z =
     (if root_pattern (zone_root z)
      then catalog_entry E w (z_id z) (DNSLabel E (zone_root z)) (z_resource_id z)
             (if z_cds_disable z then ''zone-cds-disable'' else ''zone'')
      else Inr ([], [], []))"

definition rzone_entry :: "ext \<Rightarrow> world \<Rightarrow> rzone \<Rightarrow> catalog_part res" where
  "rzone_entry E w z =
     bind_res (rzone_root z) (\<lambda>root_label.
       catalog_entry E w (rz_id z) root_label (rz_resource_id z)
         (if rz_cds_disable z then ''zone-cds-disable'' else ''zone''))"

definition szone_entry :: "ext \<Rightarrow> world \<Rightarrow> szone \<Rightarrow> catalog_part res" where
  "szone_entry E w z =
     (if root_pattern (sz_zone_root z)
      then catalog_entry E w (sz_id z) (DNSLabel E (sz_zone_root z)) (sz_resource_id z) ''zone-secondary''
      else Inr ([], [], []))"

definition catalog_entries :: "ext \<Rightarrow> world \<Rightarrow> catalog_part list res" where
  "catalog_entries E w =
     bind_res (mapM_res (fzone_entry E w) (dnszones w)) (\<lambda>fs.
     bind_res (mapM_res (rzone_entry E w) (rzones w)) (\<lambda>rs.
     bind_res (mapM_res (szone_entry E w) (szones w)) (\<lambda>ss. Inr (fs @ rs @ ss))))"

definition fixed_zone :: "string \<Rightarrow> string \<Rightarrow> pstr \<Rightarrow> pstr" where
  "fixed_zone owner group_owner target =
     line [str owner, str ''0 IN PTR'', target] @ line [str group_owner, str ''0 IN TXT'', quoted (str ''zone'')]"

definition catalog_header :: "world \<Rightarrow> pstr" where
  "catalog_header w =
     line [str ''$ORIGIN'', str ''catalog.dns.as207960.ltd.uk.'']
     @ line [str ''@ 0 IN SOA invalid. noc.as207960.net'', dec_str (now w div 1000000), str ''3600 600 2147483646 0'']
     @ line [str ''@ 0 IN NS invalid.'']
     @ line [str ''version 0 IN TXT'', quoted (str ''2'')]
     @ concat (map (\<lambda>(i, ns).
         line [str ''signal'' @ dec_str i @ str ''.zones'', str ''0 IN PTR'', str ''_signal.'' @ ns]
         @ line [str ''group.signal'' @ dec_str i @ str ''.zones'', str ''0 IN TXT'', quoted (str ''zone'')])
         (zip [0..<length NAMESERVERS_dot] NAMESERVERS_dot))
     @ fixed_zone ''kube-cluster-fwd.zones'' ''group.kube-cluster-fwd1.zones'' (str ''kube-cluster.as207960.net.'')
     @ fixed_zone ''kube-cluster-rvs1.zones'' ''group.kube-cluster-rvs1.zones''
         (str ''0.0.0.8.c.f.0.8.7.6.0.1.0.0.2.ip6.arpa.'')
     @ fixed_zone ''kube-cluster-rvs2.zones'' ''group.kube-cluster-rvs2.zones''
         (str ''0.0.0.0.1.0.0.0.1.c.c.1.e.0.a.2.ip6.arpa.'')"

definition update_catalog :: "ext \<Rightarrow> unit io" where
  "update_catalog E =
     bind_act (asks_res (catalog_entries E)) (\<lambda>parts.
     bind_act (asks catalog_header) (\<lambda>header.
     seq (write_zone_file E (header @ concat (map fst parts)) (str ''catalog.''))
     (seq (send_reload_message E (DNSLabel E (str ''catalog.dns.as207960.ltd.uk.'')))
     (seq (modify (delay UpdateSignalZones))
       (modify (delay (SyncNetnodZones (concat (map (fst \<circ> snd) parts)) (concat (map (snd \<circ> snd) parts)))))))))"

text \<open>\<^verbatim>\<open>except Exception\<close>: the error is logged and the loop goes on.\<close>

definition log_error :: "unit io \<Rightarrow> unit io" where
  "log_error m w = (case m w of (Inl e, w') \<Rightarrow> (Inr (), w') | other \<Rightarrow> other)"

definition sync_active :: "ext \<Rightarrow> pstr \<times> pstr \<Rightarrow> unit io" where
  "sync_active E z =
     bind_act (check_zone_registered E (fst z)) (\<lambda>registered.
       if \<not> registered then log_error (register_zone E (fst z) (snd z)) else ret ())"

definition sync_inactive :: "ext \<Rightarrow> pstr \<Rightarrow> unit io" where
  "sync_inactive E z =
     bind_act (check_zone_registered E z) (\<lambda>registered.
       if registered then log_error (deregister_zone E z) else ret ())"

definition sync_netnod_zones :: "ext \<Rightarrow> (pstr \<times> pstr) list \<Rightarrow> pstr list \<Rightarrow> unit io" where
  "sync_netnod_zones E active inactive =
     seq (for_each active (sync_active E)) (for_each inactive (sync_inactive E))"


section \<open>The worker\<close>

fun run_task :: "ext \<Rightarrow> task \<Rightarrow> unit io" where
  "run_task E (AddFzone i) = add_fzone E i"
| "run_task E (UpdateFzone i) = update_fzone E i"
| "run_task E (AddRzone i) = add_rzone E i"
| "run_task E (UpdateRzone i) = update_rzone E i"
| "run_task E (AddSzone i) = add_szone E i"
| "run_task E (UpdateSzone i) = update_szone E i"
| "run_task E UpdateCatalog = update_catalog E"
| "run_task E UpdateSignalZones = update_signal_zones E"
| "run_task E (SyncNetnodZones active inactive) = sync_netnod_zones E active inactive"

inductive worker_done :: "ext \<Rightarrow> task \<Rightarrow> world \<Rightarrow> world \<Rightarrow> bool" for E where
  "queue w = q1 @ t # q2 \<Longrightarrow> run_task E t (w\<lparr>queue := q1 @ q2\<rparr>) = (Inr (), w') \<Longrightarrow> worker_done E t w w'"

inductive worker_retry :: "ext \<Rightarrow> task \<Rightarrow> world \<Rightarrow> world \<Rightarrow> bool" for E where
  "queue w = q1 @ t # q2 \<Longrightarrow> run_task E t (w\<lparr>queue := q1 @ q2\<rparr>) = (Inl e, w') \<Longrightarrow> worker_retry E t w (delay t w')"

inductive worker :: "ext \<Rightarrow> world \<Rightarrow> world \<Rightarrow> bool" for E where
  stop: "worker E w w"
| finished: "worker_done E t w w' \<Longrightarrow> worker E w' w'' \<Longrightarrow> worker E w w''"
| retried: "worker_retry E t w w' \<Longrightarrow> worker E w' w'' \<Longrightarrow> worker E w w''"

end
