(* ===== verification/Task_Frame.thy ===== *)
theory Task_Frame
  imports Tasks
begin

text \<open>
  What a task leaves alone. \<open>tables\<close> is the world without what tasks change: the queue, the calls to
  other systems, the client of the message broker. \<open>quiet\<close> is what talking to another system obeys,
  \<open>grows\<close> what every task obeys: both are instances of \<open>step_rel\<close>.
\<close>

definition tables :: "world \<Rightarrow> world" where
  "tables w = w\<lparr>queue := [], events := [], pika_client := False\<rparr>"

definition quiet :: "world \<Rightarrow> world \<Rightarrow> bool" where
  "quiet w w' \<longleftrightarrow> tables w' = tables w \<and> queue w' = queue w \<and> prefix (events w) (events w')"

definition grows :: "world \<Rightarrow> world \<Rightarrow> bool" where
  "grows w w' \<longleftrightarrow> tables w' = tables w \<and> prefix (queue w) (queue w') \<and> prefix (events w) (events w')"

interpretation qt: step_rel quiet
  by unfold_locales (auto simp: quiet_def)

interpretation gr: step_rel grows
  by unfold_locales (auto simp: grows_def)

lemma quiet_grows: "quiet w w' \<Longrightarrow> grows w w'"
  by (simp add: quiet_def grows_def)

lemma obeys_quiet_grows: "obeys P quiet m \<Longrightarrow> obeys P grows m"
  by (simp add: obeys_def quiet_grows)

lemma tables_simps [simp]:
  "tables (emit e w) = tables w" "tables (delay t w) = tables w" "tables (w\<lparr>queue := q\<rparr>) = tables w"
  "tables (w\<lparr>pika_client := b\<rparr>) = tables w"
  by (simp_all add: tables_def emit_def delay_def)

lemma tables_eqD:
  assumes "tables w' = tables w"
  shows "dnszones w' = dnszones w" "rzones w' = rzones w" "szones w' = szones w"
  using arg_cong[OF assms, of dnszones] arg_cong[OF assms, of rzones] arg_cong[OF assms, of szones]
  by (simp_all add: tables_def)

section \<open>Talking to other systems\<close>

named_theorems quiet_acts \<open>operations that only call other systems\<close>

lemma quiet_calls [quiet_acts]:
  "obeys P quiet (amqp_call E op)" "obeys P quiet (http_call E q)" "obeys P quiet (write_zone_file E s n)"
  by (simp_all add: obeys_def call_defs quiet_def)

lemma quiet_set_client [quiet_acts]: "obeys (\<lambda>_. True) quiet (modify (\<lambda>w. w\<lparr>pika_client := b\<rparr>))"
  by (simp add: obeys_def modify_def quiet_def)

lemma quiet_bind [quiet_acts]:
  "obeys (\<lambda>_. True) quiet m \<Longrightarrow> (\<And>a. obeys (\<lambda>_. True) quiet (f a)) \<Longrightarrow> obeys (\<lambda>_. True) quiet (bind_act m f)"
  by (rule qt.obeys_bind) simp_all

lemma quiet_seq [quiet_acts]:
  "obeys (\<lambda>_. True) quiet m \<Longrightarrow> obeys (\<lambda>_. True) quiet n \<Longrightarrow> obeys (\<lambda>_. True) quiet (seq m n)"
  by (rule qt.obeys_seq) simp_all

lemma quiet_for_each [quiet_acts]:
  "(\<And>x. obeys (\<lambda>_. True) quiet (f x)) \<Longrightarrow> obeys (\<lambda>_. True) quiet (for_each xs f)"
  by (rule qt.obeys_for_each) simp_all

lemma quiet_ignore [quiet_acts]: "obeys P quiet m \<Longrightarrow> obeys P quiet (ignore_amqp_error m)"
  by (erule obeys_catch) (auto simp: ignore_amqp_error_def split: prod.splits sum.splits exn.splits)

lemma quiet_log_error [quiet_acts]: "obeys P quiet m \<Longrightarrow> obeys P quiet (log_error m)"
  by (erule obeys_catch) (auto simp: log_error_def split: prod.splits sum.splits)

lemma quiet_setup [quiet_acts]: "obeys (\<lambda>_. True) quiet (setup_connection E b)"
  by (auto simp: setup_connection_def intro!: quiet_acts qt.obeys_pure)

lemma quiet_again:
  assumes "obeys (\<lambda>_. True) quiet m" "obeys (\<lambda>_. True) quiet n"
  shows "obeys (\<lambda>_. True) quiet (\<lambda>w. case m w of (Inl AMQPChannelError, w') \<Rightarrow> n w' | other \<Rightarrow> other)"
  using assms unfolding obeys_def
  by (auto split: prod.splits sum.splits exn.splits) (metis qt.R_trans snd_conv)+

lemma quiet_get_channel [quiet_acts]:
  "obeys (\<lambda>_. True) quiet cb \<Longrightarrow> obeys (\<lambda>_. True) quiet (get_channel E cb)"
  by (auto simp: get_channel_def get_client_def intro!: quiet_acts qt.obeys_pure quiet_again)

lemma quiet_reload [quiet_acts]: "obeys (\<lambda>_. True) quiet (send_reload_message E l)"
  by (simp add: send_reload_message_def quiet_acts)

lemma quiet_netnod [quiet_acts]:
  "obeys (\<lambda>_. True) quiet (check_zone_registered E z)" "obeys (\<lambda>_. True) quiet (register_zone E z u)"
  "obeys (\<lambda>_. True) quiet (deregister_zone E z)"
  by (auto simp: check_zone_registered_def register_zone_def deregister_zone_def
      intro!: quiet_acts qt.obeys_pure)

lemma quiet_sync [quiet_acts]:
  "obeys (\<lambda>_. True) quiet (sync_active E a)" "obeys (\<lambda>_. True) quiet (sync_inactive E z)"
  by (auto simp: sync_active_def sync_inactive_def intro!: quiet_acts qt.obeys_pure)

lemma quiet_sync_netnod [quiet_acts]: "obeys (\<lambda>_. True) quiet (sync_netnod_zones E as is)"
  by (simp add: sync_netnod_zones_def quiet_acts)

lemma quiet_signal [quiet_acts]: "obeys (\<lambda>_. True) quiet (update_signal_zones E)"
  unfolding update_signal_zones_def Let_def by (intro quiet_acts qt.obeys_pure)

lemma quietD: "obeys (\<lambda>_. True) quiet m \<Longrightarrow> m w = (r, w') \<Longrightarrow> quiet w w'"
  by (erule obeysD) simp_all

section \<open>The text of a zone depends on the tables only\<close>

lemma select_tables:
  "zrecs (tables w) = zrecs w" "rzones (tables w) = rzones w" "now (tables w) = now w"
  "f_custom_ns (tables w) = f_custom_ns w" "f_cds (tables w) = f_cds w" "f_cdnskey (tables w) = f_cdnskey w"
  "aname_cache (tables w) = aname_cache w"
  by (simp_all add: tables_def)

lemma text_tables:
  "fzone_header E (tables w) z = fzone_header E w z" "address_text E (tables w) = address_text E w"
  "zone_rows m i (tables w) = zone_rows m i w" "fzone_rest E (tables w) z = fzone_rest E w z"
  unfolding fun_eq_iff fzone_header_def address_text_def rzones_of_def zone_rows_def zone_set_def fzone_rest_def
    fzone_loops_def aname_text_def alias_addresses_def filter_name_def select_tables by simp_all

definition fzone_text :: "ext \<Rightarrow> world \<Rightarrow> dnszone \<Rightarrow> (pstr \<times> pstr list) res" where
  "fzone_text E w z =
     bind_res (fzone_header E w z) (\<lambda>header.
     bind_res (mapM_res (address_text E w) (zone_rows M_Address (z_id z) w)) (\<lambda>ps.
     bind_res (fzone_rest E w z) (\<lambda>rest.
       Inr (header @ concat (map fst ps) @ rest, remdups (concat (map snd ps))))))"

lemma fzone_text_tables: "tables w' = tables w \<Longrightarrow> fzone_text E w' z = fzone_text E w z"
proof -
  have "fzone_text E (tables w) z = fzone_text E w z" for w
    by (simp add: fzone_text_def text_tables)
  then show "tables w' = tables w \<Longrightarrow> fzone_text E w' z = fzone_text E w z" by metis
qed

end
