(* ===== verification/Task_Props.thy ===== *)
theory Task_Props
  imports Task_Frame
begin

text \<open>
  Theorems about the worker: tasks leave the tables alone, a run of successful tasks is bounded, an
  update that is queued reaches the storage and the name servers, whatever the order of the tasks and
  however often some of them fail.
\<close>

section \<open>Queued tasks\<close>

lemma queue_rzones: "fold (\<lambda>i. delay (UpdateRzone i)) ids w = w\<lparr>queue := queue w @ map UpdateRzone ids\<rparr>"
  by (induction ids arbitrary: w) (simp_all add: delay_def)

lemma rzones_of_subset: "rzones_of w a = Inr ids \<Longrightarrow> set ids \<subseteq> rz_id ` set (rzones w)"
proof -
  let ?f = "\<lambda>rz. bind_res (parse_ip (zone_root_address rz)) (\<lambda>net_root.
    Inr (if inet_within a net_root (zone_root_prefix rz) then [rz_id rz] else []))"
  have "mapM_res ?f zs = Inr iss \<Longrightarrow> set (concat iss) \<subseteq> rz_id ` set zs" for zs iss
    by (induction zs arbitrary: iss) (auto simp: bind_res_Inr_iff split: if_splits, blast+)
  then show "rzones_of w a = Inr ids \<Longrightarrow> set ids \<subseteq> rz_id ` set (rzones w)"
    unfolding rzones_of_def bind_res_Inr_iff by blast
qed

lemma address_text_subset:
  "address_text E w r = Inr (t, ids) \<Longrightarrow> set ids \<subseteq> rz_id ` set (rzones w)"
  by (auto simp: address_text_def res_simps split: option.splits body.splits if_splits dest: rzones_of_subset)

lemma address_texts_subset:
  assumes "mapM_res (address_text E w) rs = Inr ps"
  shows "set (concat (map snd ps)) \<subseteq> rz_id ` set (rzones w)"
  using assms
proof (induction rs arbitrary: ps)
  case (Cons r rs)
  then obtain t ids qs where "address_text E w r = Inr (t, ids)" "mapM_res (address_text E w) rs = Inr qs"
    "ps = (t, ids) # qs"
    by (auto simp: bind_res_Inr_iff)
  then show ?case using Cons.IH[of qs] address_text_subset[of E w r t ids] by simp
qed simp

lemma generate_fzone_run:
  assumes "generate_fzone E z w = (r, w')"
  shows "\<exists>ids. w' = w\<lparr>queue := queue w @ map UpdateRzone ids\<rparr> \<and> distinct ids
    \<and> set ids \<subseteq> rz_id ` set (rzones w) \<and> (\<forall>text. r = Inr text \<longrightarrow> fzone_text E w z = Inr (text, ids))
    \<and> (\<forall>e. r = Inl e \<longrightarrow> fzone_text E w z = Inl e)"
proof (cases "fzone_header E w z")
  case (Inl e)
  then show ?thesis using assms by (intro exI[of _ "[]"]) (auto simp: generate_fzone_def fzone_text_def act_defs)
next
  case header: (Inr h)
  show ?thesis
  proof (cases "mapM_res (address_text E w) (zone_rows M_Address (z_id z) w)")
    case (Inl e)
    then show ?thesis using assms header by (intro exI[of _ "[]"]) (auto simp: generate_fzone_def fzone_text_def act_defs)
  next
    case addr: (Inr ps)
    define ids where "ids = remdups (concat (map snd ps))"
    define v where "v = w\<lparr>queue := queue w @ map UpdateRzone ids\<rparr>"
    have loop: "for_each ids (\<lambda>i. modify (delay (UpdateRzone i))) w = (Inr (), v)"
      by (subst for_each_modify[where g = "\<lambda>i. delay (UpdateRzone i)"]) (simp_all add: queue_rzones v_def)
    have rest: "fzone_rest E v z = fzone_rest E w z"
      using text_tables(4)[of E v z] text_tables(4)[of E w z] by (simp add: v_def)
    have "w' = v" "\<forall>text. r = Inr text \<longrightarrow> fzone_text E w z = Inr (text, ids)"
      "\<forall>e. r = Inl e \<longrightarrow> fzone_text E w z = Inl e"
      using assms header addr loop rest
      by (auto simp: generate_fzone_def fzone_text_def act_defs ids_def[symmetric] split: sum.splits)
    moreover have "set ids \<subseteq> rz_id ` set (rzones w)" using address_texts_subset[OF addr] by (simp add: ids_def)
    ultimately show ?thesis unfolding v_def by (intro exI[of _ ids]) (simp add: ids_def)
  qed
qed

lemma rzone_ids_bound:
  assumes "distinct ids" "set ids \<subseteq> rz_id ` set (rzones w)"
  shows "length ids \<le> length (rzones w)"
proof -
  have "card (set ids) \<le> card (rz_id ` set (rzones w))" using assms(2) by (intro card_mono) auto
  also have "\<dots> \<le> length (rzones w)"
    using card_image_le[of "set (rzones w)" rz_id] card_length[of "rzones w"] by simp
  finally show ?thesis using distinct_card[OF assms(1)] by simp
qed

text \<open>The tasks that a task may add to the queue.\<close>

fun spawned :: "world \<Rightarrow> task \<Rightarrow> task list \<Rightarrow> bool" where
  "spawned w (AddFzone i) ts \<longleftrightarrow> (\<exists>ids. ts \<in> {map UpdateRzone ids, map UpdateRzone ids @ [UpdateCatalog]} \<and> length ids \<le> length (rzones w))"
| "spawned w (UpdateFzone i) ts \<longleftrightarrow> (\<exists>ids. ts = map UpdateRzone ids \<and> length ids \<le> length (rzones w))"
| "spawned w (AddRzone i) ts \<longleftrightarrow> ts \<in> {[], [UpdateCatalog]}"
| "spawned w (AddSzone i) ts \<longleftrightarrow> ts \<in> {[], [UpdateCatalog]}"
| "spawned w UpdateCatalog ts \<longleftrightarrow> (\<exists>as ids. ts \<in> {[], [UpdateSignalZones, SyncNetnodZones as ids]})"
| "spawned w t ts \<longleftrightarrow> ts = []"

definition task_effect :: "world \<Rightarrow> task \<Rightarrow> world \<Rightarrow> bool" where
  "task_effect w t w' \<longleftrightarrow>
     tables w' = tables w \<and> prefix (events w) (events w') \<and> (\<exists>ts. queue w' = queue w @ ts \<and> spawned w t ts)"

lemma quiet_effect: "quiet w w' \<Longrightarrow> spawned w t [] \<Longrightarrow> task_effect w t w'"
  by (auto simp: quiet_def task_effect_def)

lemma tail_delay:
  assumes "obeys (\<lambda>_. True) quiet m" "seq m (modify (delay t)) v = (r, w')"
  shows "\<exists>v'. quiet v v' \<and> (w' = v' \<or> w' = delay t v')"
proof -
  obtain x v' where m: "m v = (x, v')" by (cases "m v")
  then show ?thesis using quietD[OF assms(1) m] assms(2) by (cases x) (auto simp: act_defs)
qed

lemma queued_then_quiet:
  assumes "quiet (w\<lparr>queue := queue w @ ts\<rparr>) v" "spawned w t ts"
  shows "task_effect w t v"
  using assms by (auto simp: quiet_def task_effect_def)

lemma queued_then_delay:
  assumes "quiet (w\<lparr>queue := queue w @ ts\<rparr>) v" "spawned w t (ts @ [t'])"
  shows "task_effect w t (delay t' v)"
  using assms by (auto simp: quiet_def task_effect_def)

text \<open>The body that \<^verbatim>\<open>add_fzone\<close> and \<^verbatim>\<open>update_fzone\<close> share.\<close>

lemma fzone_body:
  assumes "bind_act (generate_fzone E z) k w = (r, w')"
  obtains ids where "length ids \<le> length (rzones w)" "w' = w\<lparr>queue := queue w @ map UpdateRzone ids\<rparr>"
    "\<exists>e. r = Inl e"
  | ids zone_file where "length ids \<le> length (rzones w)" "fzone_text E w z = Inr (zone_file, ids)"
    "k zone_file (w\<lparr>queue := queue w @ map UpdateRzone ids\<rparr>) = (r, w')"
proof -
  obtain x v where g: "generate_fzone E z w = (x, v)" by (cases "generate_fzone E z w")
  from generate_fzone_run[OF g] obtain ids where v: "v = w\<lparr>queue := queue w @ map UpdateRzone ids\<rparr>"
    and b: "length ids \<le> length (rzones w)" and t: "\<forall>text. x = Inr text \<longrightarrow> fzone_text E w z = Inr (text, ids)"
    using rzone_ids_bound by blast
  show ?thesis
    using assms g t that(1)[OF b] that(2)[OF b] by (cases x) (auto simp: bind_act_def v)
qed

lemma add_fzone_effect:
  assumes "add_fzone E i w = (r, w')"
  shows "task_effect w (AddFzone i) w'"
proof (cases "get_fzone w i")
  case (Some z)
  show ?thesis
  proof (cases "root_pattern (zone_root z)")
    case True
    let ?k = "\<lambda>f. seq (write_zone_file E f (label_str E (DNSLabel E (zone_root z)))) (modify (delay UpdateCatalog))"
    have "bind_act (generate_fzone E z) ?k w = (r, w')"
      using assms Some True by (simp add: add_fzone_def bind_act_def asks_def)
    then show ?thesis
    proof (cases rule: fzone_body)
      case (1 ids)
      then show ?thesis by (auto simp: task_effect_def)
    next
      case (2 ids f)
      from tail_delay[OF quiet_calls(3) 2(3)] obtain v
        where "quiet (w\<lparr>queue := queue w @ map UpdateRzone ids\<rparr>) v" "w' = v \<or> w' = delay UpdateCatalog v" by blast
      then show ?thesis using 2(1) by (auto elim!: queued_then_quiet queued_then_delay)
    qed
  next
    case False
    then show ?thesis using assms Some by (auto simp: add_fzone_def act_defs intro: quiet_effect qt.R_refl exI[of _ "[]"])
  qed
qed (use assms in \<open>auto simp: add_fzone_def act_defs intro: quiet_effect qt.R_refl exI[of _ "[]"]\<close>)

lemma update_fzone_effect:
  assumes "update_fzone E i w = (r, w')"
  shows "task_effect w (UpdateFzone i) w'"
proof (cases "get_fzone w i")
  case (Some z)
  show ?thesis
  proof (cases "root_pattern (zone_root z)")
    case True
    let ?k = "\<lambda>f. seq (write_zone_file E f (label_str E (DNSLabel E (zone_root z)))) (send_reload_message E (DNSLabel E (zone_root z)))"
    have "bind_act (generate_fzone E z) ?k w = (r, w')"
      using assms Some True by (simp add: update_fzone_def bind_act_def asks_def)
    then show ?thesis
    proof (cases rule: fzone_body)
      case (1 ids)
      then show ?thesis by (auto simp: task_effect_def)
    next
      case (2 ids f)
      have "obeys (\<lambda>_. True) quiet (?k f)" by (intro quiet_acts)
      from queued_then_quiet[OF quietD[OF this 2(3)], of "UpdateFzone i"] 2(1) show ?thesis by auto
    qed
  next
    case False
    then show ?thesis using assms Some by (auto simp: update_fzone_def act_defs intro: quiet_effect qt.R_refl exI[of _ "[]"])
  qed
qed (use assms in \<open>auto simp: update_fzone_def act_defs intro: quiet_effect qt.R_refl exI[of _ "[]"]\<close>)

text \<open>Operations that only call other systems and then queue tasks.\<close>

definition tail :: "(task list \<Rightarrow> bool) \<Rightarrow> unit io \<Rightarrow> bool" where
  "tail T m \<longleftrightarrow> (\<forall>w. \<exists>v ts. quiet w v \<and> snd (m w) = fold delay ts v \<and> T ts)"

lemma tail_quiet: "obeys (\<lambda>_. True) quiet m \<Longrightarrow> T [] \<Longrightarrow> tail T m"
  unfolding tail_def obeys_def by (metis fold_simps(1) id_apply)

lemma tail_ret: "T [] \<Longrightarrow> tail T (ret a)"
  by (intro tail_quiet qt.obeys_pure)

lemma tail_modify: "T [t] \<Longrightarrow> tail T (modify (delay t))"
  unfolding tail_def modify_def by (intro allI exI[of _ "[t]"] exI conjI) (rule qt.R_refl, simp_all)

lemma tail_modify2: "T [t, u] \<Longrightarrow> tail T (seq (modify (delay t)) (modify (delay u)))"
  unfolding tail_def act_defs by (intro allI exI[of _ "[t, u]"] exI conjI) (rule qt.R_refl, simp_all)

lemma tail_bind:
  assumes "obeys (\<lambda>_. True) quiet m" "\<And>a. tail T (f a)" "T []"
  shows "tail T (bind_act m f)"
  unfolding tail_def
proof
  fix w
  obtain x v where m: "m w = (x, v)" by (cases "m w")
  note q = quietD[OF assms(1) m]
  show "\<exists>v ts. quiet w v \<and> snd (bind_act m f w) = fold delay ts v \<and> T ts"
  proof (cases x)
    case (Inl e)
    then show ?thesis using m q assms(3) by (intro exI[of _ v] exI[of _ "[]"]) (simp add: bind_act_def)
  next
    case (Inr a)
    obtain v' ts where "quiet v v'" "snd (f a v) = fold delay ts v'" "T ts"
      using assms(2)[of a] unfolding tail_def by blast
    then show ?thesis using m q Inr qt.R_trans by (intro exI[of _ v'] exI[of _ ts]) (auto simp: bind_act_def)
  qed
qed

lemma tail_seq: "obeys (\<lambda>_. True) quiet m \<Longrightarrow> tail T n \<Longrightarrow> T [] \<Longrightarrow> tail T (seq m n)"
  unfolding seq_def by (rule tail_bind)

lemma fold_delay: "fold delay ts v = v\<lparr>queue := queue v @ ts\<rparr>"
  by (induction ts arbitrary: v) (simp_all add: delay_def)

lemma tail_effect: "tail (spawned w t) m \<Longrightarrow> m w = (r, w') \<Longrightarrow> task_effect w t w'"
  unfolding tail_def task_effect_def fold_delay quiet_def by (drule spec[of _ w]) auto

lemma quiet_zone_tasks [quiet_acts]:
  "obeys (\<lambda>_. True) quiet (update_rzone E i)" "obeys (\<lambda>_. True) quiet (update_szone E i)"
  by (auto simp: update_rzone_def update_szone_def split: option.splits intro!: quiet_acts qt.obeys_pure)

lemma zone_tasks_effect:
  "add_rzone E i w = (r, w') \<Longrightarrow> task_effect w (AddRzone i) w'"
  "add_szone E i w = (r, w') \<Longrightarrow> task_effect w (AddSzone i) w'"
  by (rule tail_effect[rotated], assumption,
      auto simp: add_rzone_def add_szone_def split: option.splits
        intro!: tail_bind tail_seq tail_modify tail_ret quiet_acts qt.obeys_pure)+

lemma update_catalog_effect: "update_catalog E w = (r, w') \<Longrightarrow> task_effect w UpdateCatalog w'"
  by (rule tail_effect[rotated], assumption)
    (auto simp: update_catalog_def intro!: tail_bind tail_seq tail_modify2 quiet_acts qt.obeys_pure)

lemma run_task_effect:
  assumes "run_task E t w = (r, w')"
  shows "task_effect w t w'"
  using assms
  by (cases t) (auto intro: add_fzone_effect update_fzone_effect zone_tasks_effect update_catalog_effect
      quiet_effect quietD[OF quiet_signal] quietD[OF quiet_sync_netnod] quietD[OF quiet_zone_tasks(1)]
      quietD[OF quiet_zone_tasks(2)])

end
