(* ===== verification/Worker_Props.thy ===== *)
theory Worker_Props
  imports Task_Props
begin

text \<open>
  Runs of the worker: what every run keeps, why successful runs end, and that a queued update is
  carried out. A run may take the tasks in any order and may retry any number of failures.
\<close>

section \<open>Steps\<close>

inductive_cases worker_doneE: "worker_done E t w w'"
inductive_cases worker_retryE: "worker_retry E t w w'"

lemma worker_done_effect:
  assumes "worker_done E t w w'"
  shows "\<exists>q1 q2 ts. queue w = q1 @ t # q2 \<and> queue w' = q1 @ q2 @ ts \<and> spawned w t ts"
    "tables w' = tables w" "prefix (events w) (events w')"
proof -
  obtain q1 q2 where q: "queue w = q1 @ t # q2" and r: "run_task E t (w\<lparr>queue := q1 @ q2\<rparr>) = (Inr (), w')"
    using assms by (rule worker_doneE)
  have sp: "spawned (w\<lparr>queue := q1 @ q2\<rparr>) t ts = spawned w t ts" for ts by (cases t) simp_all
  show "\<exists>q1 q2 ts. queue w = q1 @ t # q2 \<and> queue w' = q1 @ q2 @ ts \<and> spawned w t ts"
    "tables w' = tables w" "prefix (events w) (events w')"
    using run_task_effect[OF r] q unfolding task_effect_def sp by auto
qed

lemma worker_retry_effect:
  assumes "worker_retry E t w w'"
  shows "set (queue w) \<subseteq> set (queue w')" "tables w' = tables w" "prefix (events w) (events w')"
proof -
  obtain q1 q2 e v where q: "queue w = q1 @ t # q2" and r: "run_task E t (w\<lparr>queue := q1 @ q2\<rparr>) = (Inl e, v)"
    and w': "w' = delay t v"
    using assms by (rule worker_retryE)
  show "set (queue w) \<subseteq> set (queue w')" "tables w' = tables w" "prefix (events w) (events w')"
    using run_task_effect[OF r] q unfolding task_effect_def w' by auto
qed

lemma worker_tables: "worker E w w' \<Longrightarrow> tables w' = tables w \<and> prefix (events w) (events w')"
  by (induction rule: worker.induct) (auto dest: worker_done_effect(2-3) worker_retry_effect(2-3))


section \<open>Successful runs end\<close>

fun weight :: "nat \<Rightarrow> task \<Rightarrow> nat" where
  "weight n (AddFzone i) = n + 4"
| "weight n (UpdateFzone i) = n + 1"
| "weight n (AddRzone i) = 4"
| "weight n (AddSzone i) = 4"
| "weight n UpdateCatalog = 3"
| "weight n t = 1"

text \<open>The number of tasks that the tasks of the queue lead to.\<close>

definition load :: "world \<Rightarrow> nat" where
  "load w = sum_list (map (weight (length (rzones w))) (queue w))"

lemma weight_rzones: "sum_list (map (weight n) (map UpdateRzone ids)) = length ids"
  by (induction ids) simp_all

lemma spawned_weight: "spawned w t ts \<Longrightarrow> sum_list (map (weight (length (rzones w))) ts) < weight (length (rzones w)) t"
  using weight_rzones by (cases t) (auto simp: comp_def simp del: map_map)

lemma worker_done_load: "worker_done E t w w' \<Longrightarrow> load w' < load w"
  using worker_done_effect[of E t w w'] spawned_weight tables_eqD(2)[of w' w] by (fastforce simp: load_def)

lemma successful_steps_bounded: "((\<lambda>a b. \<exists>t. worker_done E t a b) ^^ n) w w' \<Longrightarrow> n + load w' \<le> load w"
  by (induction n arbitrary: w') (fastforce dest: worker_done_load)+

lemma successful_run:
  assumes "\<And>t v. tables v = tables w \<Longrightarrow> \<exists>v'. run_task E t v = (Inr (), v')"
  shows "\<exists>w'. worker E w w' \<and> queue w' = []"
  using assms
proof (induction "load w" arbitrary: w rule: less_induct)
  case less
  show ?case
  proof (cases "queue w")
    case Nil
    then show ?thesis using worker.stop by blast
  next
    case (Cons t q)
    obtain w1 where w1: "run_task E t (w\<lparr>queue := q\<rparr>) = (Inr (), w1)" using less.prems[of "w\<lparr>queue := q\<rparr>"] by auto
    have d: "worker_done E t w w1" using worker_done.intros[of w "[]" t q E w1] Cons w1 by simp
    have "\<exists>w'. worker E w1 w' \<and> queue w' = []"
      using less.hyps[OF worker_done_load[OF d]] less.prems worker_done_effect(2)[OF d] by simp
    then show ?thesis using worker.finished[OF d] by blast
  qed
qed


section \<open>A queued update is carried out\<close>

text \<open>A call that was accepted: it stands in the events, and the answer to it was no exception.\<close>

definition saved :: "ext \<Rightarrow> world \<Rightarrow> pstr \<Rightarrow> bytes \<Rightarrow> bool" where
  "saved E w n d \<longleftrightarrow> (\<exists>h k. events w = h @ Storage_save n d # k \<and> storage E h n = Inr ())"

definition published :: "ext \<Rightarrow> world \<Rightarrow> pstr \<Rightarrow> bytes \<Rightarrow> bool" where
  "published E w x d \<longleftrightarrow> (\<exists>h k. events w = h @ Amqp (BasicPublish x d) # k \<and> amqp E h (BasicPublish x d) = Inr ())"

lemma saved_mono: "saved E w n d \<Longrightarrow> prefix (events w) (events w') \<Longrightarrow> saved E w' n d"
  unfolding saved_def prefix_def by (metis append_Cons append_assoc)

lemma published_mono: "published E w n d \<Longrightarrow> prefix (events w) (events w') \<Longrightarrow> published E w' n d"
  unfolding published_def prefix_def by (metis append_Cons append_assoc)

lemma write_saved:
  "write_zone_file E s n w = (Inr (), w') \<Longrightarrow> saved E w' (n @ str ''zone'') (utf8_encode s)"
  unfolding write_zone_file_def saved_def by (rule exI[of _ "events w"], rule exI[of _ "[]"]) auto

lemma publish_published:
  assumes "seq (amqp_call E op) (amqp_call E (BasicPublish x d)) w = (Inr (), w')"
  shows "published E w' x d"
  unfolding published_def
  using assms by (intro exI[of _ "events w @ [Amqp op]"] exI[of _ "[]"])
    (auto simp: act_defs amqp_call_def split: sum.splits)

lemma get_channel_called:
  assumes "get_channel E cb w = (Inr (), w')"
  shows "\<exists>v. cb v = (Inr (), w')"
  using assms
  by (auto simp: get_channel_def act_defs split: prod.splits sum.splits if_splits exn.splits)

lemma reload_published:
  "send_reload_message E l w = (Inr (), w') \<Longrightarrow> published E w' RELOAD_EXCHANGE (utf8_encode (label_str E l))"
  unfolding send_reload_message_def by (drule get_channel_called) (blast intro: publish_published)

lemma update_fzone_done:
  assumes "update_fzone E i w = (Inr (), w')" "get_fzone w i = Some z" "root_pattern (zone_root z)"
  defines "l \<equiv> DNSLabel E (zone_root z)"
  shows "\<exists>zone_file ids. fzone_text E w z = Inr (zone_file, ids)
    \<and> saved E w' (label_str E l @ str ''zone'') (utf8_encode zone_file)
    \<and> published E w' RELOAD_EXCHANGE (utf8_encode (label_str E l))"
proof -
  let ?k = "\<lambda>f. seq (write_zone_file E f (label_str E l)) (send_reload_message E l)"
  have "bind_act (generate_fzone E z) ?k w = (Inr (), w')"
    using assms by (simp add: update_fzone_def bind_act_def asks_def)
  then show ?thesis
  proof (cases rule: fzone_body)
    case (2 ids f)
    then obtain v u where 1: "write_zone_file E f (label_str E l) u = (Inr (), v)"
      and r: "send_reload_message E l v = (Inr (), w')"
      by (auto simp: seq_def bind_act_def split: prod.splits sum.splits)
    have "prefix (events v) (events w')" using quietD[OF quiet_reload r] by (simp add: quiet_def)
    then show ?thesis using 2(2) saved_mono[OF write_saved[OF 1]] reload_published[OF r] by blast
  qed auto
qed

lemma generate_fzone_text: "fzone_text E w z = Inr (t, ids) \<Longrightarrow> fst (generate_fzone E z w) = Inr t"
  using generate_fzone_run[of E z w] by (cases "generate_fzone E z w"; cases "fst (generate_fzone E z w)") force+

lemma update_done_step:
  assumes "worker_done E (UpdateFzone i) w w'" "get_fzone w i = Some z" "root_pattern (zone_root z)"
  shows "\<exists>zone_file ids. fzone_text E w z = Inr (zone_file, ids)
    \<and> saved E w' (label_str E (DNSLabel E (zone_root z)) @ str ''zone'') (utf8_encode zone_file)
    \<and> published E w' RELOAD_EXCHANGE (utf8_encode (label_str E (DNSLabel E (zone_root z))))"
proof -
  obtain q1 q2 where r: "run_task E (UpdateFzone i) (w\<lparr>queue := q1 @ q2\<rparr>) = (Inr (), w')"
    using assms(1) by (rule worker_doneE)
  have "get_fzone (w\<lparr>queue := q1 @ q2\<rparr>) i = Some z" using assms(2) by (simp add: get_fzone_def)
  from update_fzone_done[OF r[unfolded run_task.simps] this assms(3)] show ?thesis
    using fzone_text_tables[of "w\<lparr>queue := q1 @ q2\<rparr>" w] by simp
qed

lemma worker_carries_out:
  assumes "worker E w w'" "UpdateFzone i \<in> set (queue w)" "get_fzone w i = Some z" "root_pattern (zone_root z)"
  shows "UpdateFzone i \<in> set (queue w') \<or> (\<exists>zone_file ids. fzone_text E w z = Inr (zone_file, ids)
    \<and> saved E w' (label_str E (DNSLabel E (zone_root z)) @ str ''zone'') (utf8_encode zone_file)
    \<and> published E w' RELOAD_EXCHANGE (utf8_encode (label_str E (DNSLabel E (zone_root z)))))"
  using assms
proof (induction rule: worker.induct)
  case (finished t w w1 w2)
  note d = worker_done_effect[OF finished.hyps(1)]
  have same: "get_fzone w1 i = Some z" "fzone_text E w1 z = fzone_text E w z"
    using finished.prems(2) tables_eqD[OF d(2)] fzone_text_tables[OF d(2)] by (simp_all add: get_fzone_def)
  show ?case
  proof (cases "t = UpdateFzone i")
    case True
    have "prefix (events w1) (events w2)" using worker_tables[OF finished.hyps(2)] by simp
    then show ?thesis
      using update_done_step[OF finished.hyps(1)[unfolded True] finished.prems(2,3)] saved_mono published_mono by blast
  next
    case False
    then have "UpdateFzone i \<in> set (queue w1)" using d(1) finished.prems(1) by auto
    from finished.IH[OF this same(1) finished.prems(3)] show ?thesis unfolding same(2) .
  qed
next
  case (retried t w w1 w2)
  note d = worker_retry_effect[OF retried.hyps(1)]
  have same: "get_fzone w1 i = Some z" "fzone_text E w1 z = fzone_text E w z"
    using retried.prems(2) tables_eqD[OF d(2)] fzone_text_tables[OF d(2)] by (simp_all add: get_fzone_def)
  have "UpdateFzone i \<in> set (queue w1)" using d(1) retried.prems(1) by auto
  from retried.IH[OF this same(1) retried.prems(3)] show ?case unfolding same(2) .
qed simp


section \<open>The lines of a record\<close>

definition row_text :: "ext \<Rightarrow> world \<Rightarrow> dnszone \<Rightarrow> zrec \<Rightarrow> pstr res" where
  "row_text E w z r =
     (if zmodel r = M_Address then bind_res (address_text E w r) (\<lambda>(t, _). Inr t)
      else case map_of (fzone_loops E w z) (zmodel r) of Some f \<Rightarrow> f r | None \<Rightarrow> Inr [])"

lemma concat_sublist: "x \<in> set xs \<Longrightarrow> sublist x (concat xs)"
  by (metis concat.simps(2) concat_append in_set_conv_decomp sublist_appendI)

lemma mapM_res_in:
  assumes "mapM_res f xs = Inr ys" "x \<in> set xs"
  shows "\<exists>y. f x = Inr y \<and> y \<in> set ys"
  using assms by (induction xs arbitrary: ys) (auto simp: bind_res_Inr_iff)

lemma loop_contains:
  assumes "fzone_rest E w z = Inr t" "(m, f) \<in> set (fzone_loops E w z)" "r \<in> set (zone_set m (z_id z) w)"
  shows "\<exists>s. f r = Inr s \<and> sublist s t"
proof -
  obtain ts where ts: "mapM_res (\<lambda>(m, f). rows_text f (zone_rows m (z_id z) w)) (fzone_loops E w z) = Inr ts"
    and t: "t = concat ts"
    using assms(1) by (auto simp: fzone_rest_def bind_res_Inr_iff)
  obtain u where u: "rows_text f (zone_rows m (z_id z) w) = Inr u" "u \<in> set ts"
    using mapM_res_in[OF ts assms(2)] by auto
  obtain us where us: "mapM_res f (zone_rows m (z_id z) w) = Inr us" "u = concat us"
    using u(1) by (auto simp: rows_text_def bind_res_Inr_iff)
  have "r \<in> set (zone_rows m (z_id z) w)" using assms(3) by (simp add: zone_rows_def)
  from mapM_res_in[OF us(1) this] obtain s where "f r = Inr s" "s \<in> set us" by blast
  then show ?thesis using concat_sublist us(2) u(2) t sublist_order.order.trans by blast
qed

lemma row_text_in_file:
  assumes "fzone_text E w z = Inr (t, ids)" "r \<in> set (zrecs w)" "r_zone r = z_id z"
  shows "\<exists>s. row_text E w z r = Inr s \<and> sublist s t"
proof -
  obtain h ps rest where ps: "mapM_res (address_text E w) (zone_rows M_Address (z_id z) w) = Inr ps"
    and rest: "fzone_rest E w z = Inr rest" and t: "t = h @ concat (map fst ps) @ rest"
    using assms(1) by (auto simp: fzone_text_def bind_res_Inr_iff)
  show ?thesis
  proof (cases "zmodel r = M_Address")
    case True
    then have "r \<in> set (zone_rows M_Address (z_id z) w)" using assms(2,3) by (simp add: zone_rows_def zone_set_def)
    from mapM_res_in[OF ps this] obtain p where p: "address_text E w r = Inr p" "p \<in> set ps" by blast
    have "sublist (fst p) (concat (map fst ps))" using p(2) by (intro concat_sublist) simp
    then have "sublist (fst p) t" unfolding t by (metis sublist_appendI sublist_order.order.trans)
    then show ?thesis using True p(1) by (auto simp: row_text_def split: prod.splits)
  next
    case False
    then obtain f where f: "map_of (fzone_loops E w z) (zmodel r) = Some f"
      by (cases "zmodel r") (auto simp: fzone_loops_def)
    have "r \<in> set (zone_set (zmodel r) (z_id z) w)" using assms(2,3) by (simp add: zone_set_def)
    from loop_contains[OF rest map_of_SomeD[OF f] this] obtain s where "f r = Inr s" "sublist s rest" by blast
    moreover have "sublist rest t" unfolding t by (metis append.assoc append_Nil2 sublist_appendI)
    ultimately show ?thesis using False f sublist_order.order.trans by (auto simp: row_text_def)
  qed
qed

end
