(* ===== verification/Publication.thy ===== *)
theory Publication
  imports Worker_Props
begin

text \<open>
  From a saved record to the published zone: the theorems that join the record classes, the generation
  of zone files and the worker. The witnesses run the model on a world with one zone, in the
  environment of \<open>Sample\<close>, where no call fails.
\<close>

section \<open>A concrete run\<close>

text \<open>\<open>fine T m\<close>: on the tables \<open>T\<close> the operation succeeds and keeps them.\<close>

definition fine :: "world \<Rightarrow> 'a io \<Rightarrow> bool" where
  "fine T m \<longleftrightarrow> (\<forall>v. tables v = T \<longrightarrow> (\<exists>a v'. m v = (Inr a, v') \<and> tables v' = T))"

lemma fine_bind: "fine T m \<Longrightarrow> (\<And>a. fine T (f a)) \<Longrightarrow> fine T (bind_act m f)"
  unfolding fine_def bind_act_def by fastforce

lemma fine_pick: "(\<And>v. tables v = T \<Longrightarrow> fine T (f (g v))) \<Longrightarrow> fine T (bind_act (asks g) f)"
  unfolding fine_def bind_act_def asks_def by fastforce

lemma fine_seq: "fine T m \<Longrightarrow> fine T n \<Longrightarrow> fine T (seq m n)"
  unfolding seq_def by (rule fine_bind)

lemma fine_for_each: "(\<And>x. fine T (f x)) \<Longrightarrow> fine T (for_each xs f)"
  by (induction xs) (auto intro: fine_seq, simp add: fine_def ret_def)

lemma fine_basic:
  "fine T (ret a)" "fine T (asks f)" "fine T (modify (delay t))" "fine T (modify (\<lambda>w. w\<lparr>pika_client := b\<rparr>))"
  "fine T (amqp_call sample_ext op)" "fine T (write_zone_file sample_ext s n)" "fine T (http_call sample_ext q)"
  by (simp_all add: fine_def act_defs call_defs)

lemma fine_asks_res: "(\<And>v. tables v = T \<Longrightarrow> \<exists>a. f v = Inr a) \<Longrightarrow> fine T (asks_res f)"
  unfolding fine_def asks_res_def by simp

lemma fine_reload: "fine T (send_reload_message sample_ext l)"
proof -
  have client: "fine T (get_client sample_ext)"
    unfolding get_client_def setup_connection_def by (auto intro!: fine_bind fine_seq fine_basic split: if_splits)
  have "fine T cb \<Longrightarrow> fine T (get_channel sample_ext cb)" for cb
    using client unfolding get_channel_def fine_def seq_def bind_act_def asks_def by fastforce
  then show ?thesis unfolding send_reload_message_def by (blast intro: fine_seq fine_basic)
qed

lemma fine_sync: "fine T (sync_netnod_zones sample_ext as bs)"
proof -
  have resp: "http_call sample_ext q v = (Inr \<lparr>status = 200, resp_id = [], resp_redirect = [], resp_text = []\<rparr>, emit (Http q) v)" for q v
    by (simp add: http_call_def)
  have "fine T (sync_active sample_ext a)" "fine T (sync_inactive sample_ext z)" for a z
    by (simp_all add: fine_def sync_active_def sync_inactive_def check_zone_registered_def deregister_zone_def
        log_error_def raise_for_status_def act_defs resp)
  then show ?thesis unfolding sync_netnod_zones_def by (intro fine_seq fine_for_each)
qed

definition sample_pub_zone :: dnszone where
  "sample_pub_zone = sample_zone\<lparr>z_cds_disable := True\<rparr>"

definition sample_row :: zrec where
  "sample_row = new_zrec (str ''r1'') sample_zone (str ''www'') 300 (TXTRecord (str ''hi''))"

definition sample_pub_world :: world where
  "sample_pub_world = empty_world\<lparr>dnszones := [sample_pub_zone]\<rparr>"

definition sample_saved_world :: world where
  "sample_saved_world = sample_pub_world\<lparr>zrecs := [sample_row], queue := [UpdateFzone (str ''z1'')]\<rparr>"


lemma sample_root: "root_pattern (zone_root sample_pub_zone)"
  by (simp add: sample_pub_zone_def sample_zone_def root_pattern_def root_char_def is_digit_def)


lemma sample_tables:
  assumes "tables v = tables sample_saved_world"
  shows "dnszones v = [sample_pub_zone]" "rzones v = []" "szones v = []"
    "\<exists>p. fzone_text sample_ext v sample_pub_zone = Inr p"
proof -
  show "dnszones v = [sample_pub_zone]" "rzones v = []" "szones v = []"
    using tables_eqD[OF assms] by (simp_all add: sample_saved_world_def sample_pub_world_def empty_world_def)
  have "\<exists>p. fzone_text sample_ext sample_saved_world sample_pub_zone = Inr p"
    by (simp add: fzone_text_def fzone_header_def generate_zone_header_def sample_saved_world_def sample_pub_world_def
        empty_world_def zone_rows_def zone_set_def sample_row_def new_zrec_def fzone_rest_def fzone_loops_def rows_text_def
        sample_pub_zone_def with_name_def txt_text_def simple_line_def split: option.splits del: str_simps)
  then show "\<exists>p. fzone_text sample_ext v sample_pub_zone = Inr p" by (simp add: fzone_text_tables[OF assms])
qed

lemma sample_fzone:
  assumes "tables v = tables sample_saved_world"
  shows "\<exists>a v'. generate_fzone sample_ext sample_pub_zone v = (Inr a, v') \<and> tables v' = tables sample_saved_world"
proof -
  obtain t ids where t: "fzone_text sample_ext v sample_pub_zone = Inr (t, ids)" using sample_tables(4)[OF assms] by auto
  obtain r v' where g: "generate_fzone sample_ext sample_pub_zone v = (r, v')" by fastforce
  then show ?thesis using generate_fzone_run[OF g] generate_fzone_text[OF t] assms by auto
qed

lemma sample_task: "fine (tables sample_saved_world) (run_task sample_ext t)"
proof -
  let ?T = "tables sample_saved_world"
  have fz: "fine ?T (generate_fzone sample_ext sample_pub_zone)" unfolding fine_def using sample_fzone by simp
  have get: "get_fzone v i \<in> {None, Some sample_pub_zone}" "get_rzone v i = None" "get_szone v i = None"
    if "tables v = ?T" for v i
    using sample_tables[OF that] by (auto simp: get_fzone_def get_rzone_def get_szone_def)
  have found: "fine ?T (bind_act (asks (\<lambda>w. get_fzone w i)) (\<lambda>x. case x of None \<Rightarrow> ret () | Some z \<Rightarrow> k z))"
    if "fine ?T (k sample_pub_zone)" for k i
  proof (rule fine_pick)
    fix v
    assume "tables v = ?T"
    from get(1)[OF this, of i] that
    show "fine ?T (case get_fzone v i of None \<Rightarrow> ret () | Some z \<Rightarrow> k z)" by (auto simp: fine_basic)
  qed
  have f: "fine ?T (add_fzone sample_ext i)" "fine ?T (update_fzone sample_ext i)" for i
    unfolding add_fzone_def update_fzone_def
    by (rule found, simp add: sample_root, intro fine_bind fine_seq fine_basic fine_reload fz)+
  have rs: "fine ?T (add_rzone sample_ext i)" "fine ?T (update_rzone sample_ext i)" "fine ?T (add_szone sample_ext i)"
    "fine ?T (update_szone sample_ext i)" for i
    unfolding add_rzone_def update_rzone_def add_szone_def update_szone_def
    by (rule fine_pick, simp add: get fine_basic)+
  have "\<exists>t. signal_zone_text sample_ext v l = Inr t" "\<exists>ps. catalog_entries sample_ext v = Inr ps"
    if "tables v = ?T" for v l
    using sample_tables[OF that]
    by (auto simp: signal_zone_text_def signal_entry_def catalog_entries_def fzone_entry_def catalog_entry_def
        get_user_def sample_pub_zone_def Let_def simp del: str_simps)
  then have "fine ?T (update_signal_zones sample_ext)" "fine ?T (update_catalog sample_ext)"
    unfolding update_signal_zones_def update_catalog_def Let_def
    by (auto intro!: fine_bind fine_seq fine_basic fine_reload fine_asks_res fine_for_each)
  then show ?thesis using f rs fine_sync by (cases t) auto
qed

lemma sample_drained: "\<exists>w'. worker sample_ext sample_saved_world w' \<and> queue w' = []"
  by (rule successful_run) (metis sample_task fine_def unit.exhaust)


section \<open>Theorems\<close>




text \<open>C14: Whatever tasks run, the tables of the database stay as they are and nothing that has been sent to
  another system is taken back: a run changes the queue, the calls to other systems and the client of
  the message broker only.\<close>

theorem worker_keeps_tables:
  assumes "worker E w w'"
  shows "w'\<lparr>queue := [], events := [], pika_client := False\<rparr> = w\<lparr>queue := [], events := [], pika_client := False\<rparr>
    \<and> prefix (events w) (events w')"
  using worker_tables[OF assms] by (simp add: tables_def)

theorem worker_keeps_tables_witness:
  "\<exists>w'. worker sample_ext sample_saved_world w' \<and> queue w' = [] \<and> zrecs w' = [sample_row]"
proof -
  obtain w' where w': "worker sample_ext sample_saved_world w'" "queue w' = []" using sample_drained by blast
  have "zrecs (w'\<lparr>queue := [], events := [], pika_client := False\<rparr>) = [sample_row]"
    unfolding conjunct1[OF worker_keeps_tables[OF w'(1)]] by (simp add: sample_saved_world_def)
  then show ?thesis using w' by auto
qed

text \<open>C7: The queue drains. If no task raises, the worker reaches an empty queue, and no schedule can
  prevent it: a run of successful tasks has at most as many steps as the queue leads to tasks, which
  \<open>load\<close> counts (an update of a zone queues at most one task for each reverse zone, an addition also
  the catalog, the catalog two more).\<close>

theorem queue_drains:
  assumes "\<And>t v. tables v = tables w \<Longrightarrow> \<exists>v'. run_task E t v = (Inr (), v')"
  shows "(\<exists>w'. worker E w w' \<and> queue w' = [])
    \<and> (\<forall>n w'. ((\<lambda>a b. \<exists>t. worker_done E t a b) ^^ n) w w' \<longrightarrow> n + load w' \<le> load w)"
  using successful_run[of w E] assms successful_steps_bounded by blast

theorem queue_drains_witness: "\<exists>w'. worker sample_ext sample_saved_world w' \<and> queue w' = []"
  using queue_drains[of sample_saved_world sample_ext] sample_task unfolding fine_def by fastforce

text \<open>\<^verbatim>\<open>save\<close> queues the update of the zone before it writes the row. A worker that carries out the
  update in between publishes the zone without the row, and after the row has been written no task
  is queued that would publish it.\<close>

theorem early_worker_misses_row:
  assumes "zmodel r \<noteq> M_Redirect" "written E r = Inr row"
    and "worker E (snd (touch_zone r w)) v" "queue v = []"
  shows "zrec_save E z r = seq (touch_zone r) (row_save (stored E r))
    \<and> fst (row_save (stored E r) v) = Inr ()
    \<and> row \<in> set (zrecs (snd (row_save (stored E r) v)))
    \<and> queue (snd (row_save (stored E r) v)) = []
    \<and> events (snd (row_save (stored E r) v)) = events v \<and> zrecs v = zrecs w"
proof -
  have "tables v = tables w" using worker_tables[OF assms(3)] by (simp add: touch_zone_def modify_def)
  then have "zrecs (tables v) = zrecs (tables w)" by simp
  then show ?thesis
    using assms by (simp add: zrec_save_plain row_save_stored rows.save_found select_tables)
qed

theorem early_worker_misses_row_witness:
  "\<exists>v. worker sample_ext sample_saved_world v
    \<and> queue (snd (row_save (stored sample_ext (sample_row\<lparr>ttl := 600\<rparr>)) v)) = []
    \<and> sample_row\<lparr>ttl := 600\<rparr> \<in> set (zrecs (snd (row_save (stored sample_ext (sample_row\<lparr>ttl := 600\<rparr>)) v)))"
proof -
  let ?r = "sample_row\<lparr>ttl := 600\<rparr>"
  obtain v where v: "worker sample_ext sample_saved_world v" "queue v = []" using sample_drained by blast
  have wr: "written sample_ext ?r = Inr ?r"
    by (simp add: written_def stored_def sample_row_def new_zrec_def lower_sample)
  have tz: "snd (touch_zone ?r (sample_saved_world\<lparr>queue := []\<rparr>)) = sample_saved_world"
    by (simp add: touch_zone_def modify_def delay_def sample_row_def new_zrec_def sample_zone_def sample_saved_world_def)
  have "zmodel ?r \<noteq> M_Redirect" by (simp add: sample_row_def new_zrec_def)
  from early_worker_misses_row[OF this wr, of "sample_saved_world\<lparr>queue := []\<rparr>" v] show ?thesis
    unfolding tz using v by blast
qed

end
