(* ===== verification/Catalog_Props.thy ===== *)
theory Catalog_Props
  imports Task_Props
begin

text \<open>
  Theorems about the catalog of zones and the secondary name service: which zones are listed as
  active, and what the synchronisation asks of Netnod.
\<close>

section \<open>The catalog\<close>
















end
