(* ===== verification/Netnod_Props.thy ===== *)
theory Netnod_Props
  imports Task_Props
begin

text \<open>
  What \<^verbatim>\<open>sync_netnod_zones\<close> asks of Netnod: that active zones are registered and inactive ones are not,
  and nothing else. A failed registration or deregistration is logged and the loop goes on.
\<close>

abbreviation get_req :: "pstr \<Rightarrow> http_req" where
  "get_req z \<equiv> NetnodGet (zone_url z)"

abbreviation post_req :: "pstr \<Rightarrow> pstr \<Rightarrow> http_req" where
  "post_req z u \<equiv> NetnodPost (zone_url []) z PRIMARY_SERVERS PRODUCT u"

abbreviation delete_req :: "pstr \<Rightarrow> http_req" where
  "delete_req z \<equiv> NetnodDelete (zone_url z)"

text \<open>The zone was found registered, or was not and its registration was requested at once.\<close>

definition registered_or_posted :: "ext \<Rightarrow> event list \<Rightarrow> pstr \<Rightarrow> pstr \<Rightarrow> bool" where
  "registered_or_posted E ev z u \<longleftrightarrow>
     (\<exists>h k resp. ev = h @ Http (get_req z) # k \<and> http E h (get_req z) = Inr resp
        \<and> (if status resp = 404 then prefix [Http (post_req z u)] k else raise_for_status resp = Inr ()))"

text \<open>The zone was found not registered, or was and its removal was requested at once.\<close>

definition absent_or_deleted :: "ext \<Rightarrow> event list \<Rightarrow> pstr \<Rightarrow> bool" where
  "absent_or_deleted E ev z \<longleftrightarrow>
     (\<exists>h k resp. ev = h @ Http (get_req z) # k \<and> http E h (get_req z) = Inr resp
        \<and> (status resp \<noteq> 404 \<longrightarrow> raise_for_status resp = Inr () \<and> prefix [Http (delete_req z)] k))"

lemma extend_event: "prefix (h @ e # k) ev \<Longrightarrow> \<exists>k'. ev = h @ e # k' \<and> prefix k k'"
  by (auto simp: prefix_def)

lemma registeredI:
  "ev = h @ Http (get_req z) # k \<Longrightarrow> http E h (get_req z) = Inr resp
   \<Longrightarrow> (status resp = 404 \<Longrightarrow> prefix [Http (post_req z u)] k) \<Longrightarrow> (status resp \<noteq> 404 \<Longrightarrow> raise_for_status resp = Inr ())
   \<Longrightarrow> registered_or_posted E ev z u"
  unfolding registered_or_posted_def by (intro exI[of _ h] exI[of _ k] exI[of _ resp]) simp

lemma absentI:
  "ev = h @ Http (get_req z) # k \<Longrightarrow> http E h (get_req z) = Inr resp
   \<Longrightarrow> (status resp \<noteq> 404 \<Longrightarrow> raise_for_status resp = Inr () \<and> prefix [Http (delete_req z)] k)
   \<Longrightarrow> absent_or_deleted E ev z"
  unfolding absent_or_deleted_def by (intro exI[of _ h] exI[of _ k] exI[of _ resp]) simp

lemma registered_mono:
  assumes "registered_or_posted E ev z u" "prefix ev ev'"
  shows "registered_or_posted E ev' z u"
proof -
  obtain h k resp where 1: "ev = h @ Http (get_req z) # k" "http E h (get_req z) = Inr resp"
    "if status resp = 404 then prefix [Http (post_req z u)] k else raise_for_status resp = Inr ()"
    using assms(1) unfolding registered_or_posted_def by blast
  have "prefix (h @ Http (get_req z) # k) ev'" using assms(2) 1(1) by simp
  from extend_event[OF this] obtain k' where k': "ev' = h @ Http (get_req z) # k'" "prefix k k'" by blast
  show ?thesis
    by (rule registeredI[OF k'(1) 1(2)]) (use 1(3) k'(2) in \<open>auto simp: prefix_def split: if_splits\<close>)
qed

lemma absent_mono:
  assumes "absent_or_deleted E ev z" "prefix ev ev'"
  shows "absent_or_deleted E ev' z"
proof -
  obtain h k resp where 1: "ev = h @ Http (get_req z) # k" "http E h (get_req z) = Inr resp"
    "status resp \<noteq> 404 \<longrightarrow> raise_for_status resp = Inr () \<and> prefix [Http (delete_req z)] k"
    using assms(1) unfolding absent_or_deleted_def by blast
  have "prefix (h @ Http (get_req z) # k) ev'" using assms(2) 1(1) by simp
  from extend_event[OF this] obtain k' where k': "ev' = h @ Http (get_req z) # k'" "prefix k k'" by blast
  show ?thesis by (rule absentI[OF k'(1) 1(2)]) (use 1(3) k'(2) in \<open>auto simp: prefix_def\<close>)
qed

lemma check_run:
  assumes "check_zone_registered E z w = (x, v)"
  shows "v = emit (Http (get_req z)) w \<and> (\<forall>b. x = Inr b \<longrightarrow> (\<exists>resp. http E (events w) (get_req z) = Inr resp
    \<and> (if b then status resp \<noteq> 404 \<and> raise_for_status resp = Inr () else status resp = 404)))"
  using assms by (auto simp: check_zone_registered_def http_call_def act_defs split: sum.splits if_splits)

lemma sync_active_run:
  assumes "sync_active E (z, u) w = (x, w')"
  shows "events w' \<in> {events w @ [Http (get_req z)], events w @ [Http (get_req z), Http (post_req z u)]}
    \<and> (x = Inr () \<longrightarrow> registered_or_posted E (events w') z u)"
proof -
  obtain y v where c: "check_zone_registered E z w = (y, v)" by fastforce
  note r = check_run[OF c]
  show ?thesis
  proof (cases y)
    case (Inl e)
    then show ?thesis using assms r c by (auto simp: sync_active_def bind_act_def)
  next
    case (Inr b)
    then obtain resp where resp: "http E (events w) (get_req z) = Inr resp"
      "if b then status resp \<noteq> 404 \<and> raise_for_status resp = Inr () else status resp = 404"
      using r by blast
    have "snd (log_error (register_zone E z u) v) = emit (Http (post_req z u)) v"
      by (auto simp: log_error_def register_zone_def http_call_def act_defs split: sum.splits prod.splits)
    then have "events w' = events w @ (if b then [Http (get_req z)] else [Http (get_req z), Http (post_req z u)])"
      using assms Inr c r by (auto simp: sync_active_def bind_act_def ret_def)
    then show ?thesis using resp registeredI[of "events w'" "events w" z _ E resp u] by (cases b) auto
  qed
qed

lemma sync_inactive_run:
  assumes "sync_inactive E z w = (x, w')"
  shows "events w' \<in> {events w @ [Http (get_req z)], events w @ [Http (get_req z), Http (delete_req z)]}
    \<and> (x = Inr () \<longrightarrow> absent_or_deleted E (events w') z)"
proof -
  obtain y v where c: "check_zone_registered E z w = (y, v)" by fastforce
  note r = check_run[OF c]
  show ?thesis
  proof (cases y)
    case (Inl e)
    then show ?thesis using assms r c by (auto simp: sync_inactive_def bind_act_def)
  next
    case (Inr b)
    then obtain resp where resp: "http E (events w) (get_req z) = Inr resp"
      "if b then status resp \<noteq> 404 \<and> raise_for_status resp = Inr () else status resp = 404"
      using r by blast
    have "snd (log_error (deregister_zone E z) v) = emit (Http (delete_req z)) v"
      by (auto simp: log_error_def deregister_zone_def http_call_def act_defs split: sum.splits prod.splits)
    then have "events w' = events w @ (if b then [Http (get_req z), Http (delete_req z)] else [Http (get_req z)])"
      using assms Inr c r by (auto simp: sync_inactive_def bind_act_def ret_def)
    then show ?thesis using resp absentI[of "events w'" "events w" z _ E resp] by (cases b) auto
  qed
qed

text \<open>Loops: what each round does, of the events before and after.\<close>

lemma loop_events:
  assumes "for_each xs f w = (r, w')"
    and "\<And>x w r w'. x \<in> set xs \<Longrightarrow> f x w = (r, w') \<Longrightarrow> \<exists>es. events w' = events w @ es \<and> set es \<subseteq> A x"
  shows "\<exists>es. events w' = events w @ es \<and> set es \<subseteq> (\<Union>x \<in> set xs. A x)"
  using assms
proof (induction xs arbitrary: w)
  case (Cons x xs)
  obtain y v where y: "f x w = (y, v)" by fastforce
  obtain es where es: "events v = events w @ es" "set es \<subseteq> A x" using Cons.prems(2)[of x w y v] y by auto
  show ?case
  proof (cases y)
    case (Inl e)
    then have "w' = v" using Cons.prems(1) y by (simp add: seq_def bind_act_def)
    then show ?thesis using es by auto
  next
    case (Inr u)
    then have "for_each xs f v = (r, w')" using Cons.prems(1) y by (simp add: seq_def bind_act_def)
    from Cons.IH[OF this] Cons.prems(2) obtain es' where
      "events w' = events v @ es'" "set es' \<subseteq> (\<Union>x \<in> set xs. A x)" by auto
    then show ?thesis using es by auto
  qed
qed (simp add: ret_def)

lemma loop_all:
  assumes "for_each xs f w = (Inr (), w')" "x \<in> set xs"
    and "\<And>x w w'. x \<in> set xs \<Longrightarrow> f x w = (Inr (), w') \<Longrightarrow> P x (events w')"
    and "\<And>x e e'. P x e \<Longrightarrow> prefix e e' \<Longrightarrow> P x e'"
    and "\<And>x. obeys (\<lambda>_. True) quiet (f x)"
  shows "P x (events w')"
  using assms(1-3)
proof (induction xs arbitrary: w)
  case (Cons y ys)
  obtain v where v: "f y w = (Inr (), v)" and rest: "for_each ys f v = (Inr (), w')"
    using Cons.prems(1) by (auto simp: seq_def bind_act_def split: prod.splits sum.splits)
  have "prefix (events v) (events w')"
    using quietD[OF quiet_for_each[OF assms(5)] rest] by (simp add: quiet_def)
  then have "P y (events w')" using assms(4) Cons.prems(3)[OF _ v] by simp
  then show ?case using Cons.IH[OF rest] Cons.prems(2,3) by auto
qed simp

text \<open>C21: The synchronisation registers the active zones and removes the inactive ones. If it returns, every
  active zone was found registered or its registration was requested with its owner, and every
  inactive zone was found not registered or its removal was requested. Whether it returns or raises,
  registrations are requested for active zones only and removals for inactive zones only.\<close>

theorem sync_netnod_complete:
  assumes "sync_netnod_zones E active inactive w = (r, w')"
  shows "(r = Inr () \<longrightarrow> (\<forall>(z, u) \<in> set active. registered_or_posted E (events w') z u)
      \<and> (\<forall>z \<in> set inactive. absent_or_deleted E (events w') z))
    \<and> (\<exists>es. events w' = events w @ es \<and> set es \<subseteq> (\<Union>(z, u) \<in> set active. {Http (get_req z), Http (post_req z u)})
        \<union> (\<Union>z \<in> set inactive. {Http (get_req z), Http (delete_req z)}))"
proof -
  obtain x v where a: "for_each active (sync_active E) w = (x, v)" by fastforce
  have one: "\<exists>es. events b = events a @ es \<and> set es \<subseteq> (case p of (z, u) \<Rightarrow> {Http (get_req z), Http (post_req z u)})"
    if "sync_active E p a = (y, b)" for p a y b
    using sync_active_run[of E "fst p" "snd p" a y b] that by (cases p) auto
  have two: "\<exists>es. events b = events a @ es \<and> set es \<subseteq> {Http (get_req z), Http (delete_req z)}"
    if "sync_inactive E z a = (y, b)" for z a y b
    using sync_inactive_run[of E z a y b] that by auto
  have first: "\<exists>es. events v = events w @ es
      \<and> set es \<subseteq> (\<Union>p \<in> set active. case p of (z, u) \<Rightarrow> {Http (get_req z), Http (post_req z u)})"
    by (rule loop_events[OF a]) (rule one)
  show ?thesis
  proof (cases x)
    case (Inl e)
    then show ?thesis using assms a first by (auto simp: sync_netnod_zones_def seq_def bind_act_def)
  next
    case (Inr y)
    then have b: "for_each inactive (sync_inactive E) v = (r, w')" using assms a
      by (simp add: sync_netnod_zones_def seq_def bind_act_def)
    have a': "for_each active (sync_active E) w = (Inr (), v)" using a Inr by simp
    have mono: "prefix (events v) (events w')" using quietD[OF quiet_for_each[OF quiet_sync(2)] b] by (simp add: quiet_def)
    have "registered_or_posted E (events v) (fst p) (snd p)" if "p \<in> set active" for p
      by (rule loop_all[OF a' that]) (use sync_active_run registered_mono quiet_sync(1) in \<open>fastforce+\<close>)
    then have "\<forall>(z, u) \<in> set active. registered_or_posted E (events w') z u" using registered_mono[OF _ mono] by fastforce
    moreover have "absent_or_deleted E (events w') z" if "r = Inr ()" "z \<in> set inactive" for z
      by (rule loop_all[OF b[unfolded that(1)] that(2)]) (use sync_inactive_run absent_mono quiet_sync(2) in \<open>fastforce+\<close>)
    moreover have "\<exists>es. events w' = events v @ es \<and> set es \<subseteq> (\<Union>z \<in> set inactive. {Http (get_req z), Http (delete_req z)})"
      by (rule loop_events[OF b]) (rule two)
    then have "\<exists>es. events w' = events w @ es
        \<and> set es \<subseteq> (\<Union>p \<in> set active. case p of (z, u) \<Rightarrow> {Http (get_req z), Http (post_req z u)})
          \<union> (\<Union>z \<in> set inactive. {Http (get_req z), Http (delete_req z)})"
      using first by (metis (no_types, lifting) append.assoc set_append sup.mono)
    ultimately show ?thesis by blast
  qed
qed

theorem sync_netnod_complete_witness:
  "\<exists>w'. sync_netnod_zones sample_ext [(str ''a.'', str ''alice'')] [str ''b.''] empty_world = (Inr (), w')
    \<and> registered_or_posted sample_ext (events w') (str ''a.'') (str ''alice'') \<and> absent_or_deleted sample_ext (events w') (str ''b.'')"
proof -
  have "\<exists>w'. sync_netnod_zones sample_ext [(str ''a.'', str ''alice'')] [str ''b.''] empty_world = (Inr (), w')"
    by (simp add: sync_netnod_zones_def sync_active_def sync_inactive_def check_zone_registered_def deregister_zone_def
        http_call_def log_error_def raise_for_status_def act_defs del: str_simps)
  then obtain w' where w': "sync_netnod_zones sample_ext [(str ''a.'', str ''alice'')] [str ''b.''] empty_world = (Inr (), w')" by blast
  show ?thesis using sync_netnod_complete[OF w'] w' by simp
qed

end
