(* ===== verification/Billing.thy ===== *)
theory Billing
  imports Zone_Models Publish
begin

text \<open>
  \<^verbatim>\<open>log_usage\<close> and \<^verbatim>\<open>valid_zone\<close> of \<^verbatim>\<open>utils.py\<close>: the number of charged zones that is reported to the
  billing service, what its answer changes, and which names may become zones.
\<close>

datatype usage = Redirect pstr | Ok | Error

definition charged_count :: "world \<Rightarrow> pstr list \<Rightarrow> nat" where
  "charged_count w resources =
     length [z \<leftarrow> dnszones w. z_resource_id z \<in> Some ` set resources \<and> z_charged z]
     + length [z \<leftarrow> szones w. sz_resource_id z \<in> Some ` set resources \<and> sz_charged z]
     + length [z \<leftarrow> rzones w. rz_resource_id z \<in> Some ` set resources \<and> rz_charged z]"

definition set_account :: "pstr \<Rightarrow> account \<Rightarrow> world \<Rightarrow> world" where
  "set_account u a w = w\<lparr>accounts := map (\<lambda>(v, b). if v = u then (v, a) else (v, b)) (accounts w)\<rparr>"

definition usage_of :: "http_resp \<Rightarrow> usage" where
  "usage_of r = (if status r = 302 then Redirect (resp_redirect r) else if status r = 200 then Ok else Error)"

definition log_usage :: "ext \<Rightarrow> user \<Rightarrow> int \<Rightarrow> bool \<Rightarrow> bool \<Rightarrow> pstr option \<Rightarrow> usage io" where
  "log_usage E u extra can_reject off_session redirect_uri =
     bind_act (lift_res (resources_of E (username u))) (\<lambda>resources.
     bind_act (asks (\<lambda>w. int (charged_count w resources) + extra)) (\<lambda>user_zone_count.
     bind_act (asks_res (\<lambda>w. case account_of w (username u) of None \<Rightarrow> Inl DoesNotExist | Some a \<Rightarrow> Inr a)) (\<lambda>a.
       case truthy (subscription_id a) of
         None \<Rightarrow>
           bind_act (http_call E (SubscribeUser (username u) user_zone_count can_reject off_session redirect_uri)) (\<lambda>r.
             if status r \<in> {200, 302}
             then seq (modify (set_account (username u)
                        (a\<lparr>subscription_id := Some (resp_id r), subscription_active := True\<rparr>)))
                    (ret (usage_of r))
             else ret Error)
       | Some sid \<Rightarrow>
           bind_act (http_call E (LogUsage sid user_zone_count can_reject off_session redirect_uri)) (\<lambda>r.
             ret (usage_of r)))))"

datatype zone_refusal = NotRegistrable | AlreadyExists

definition valid_zone :: "ext \<Rightarrow> world \<Rightarrow> pstr \<Rightarrow> zone_refusal option" where
  "valid_zone E w zone_root_txt =
     (let root_label = DNSLabel E zone_root_txt; other_zones = map zone_root (dnszones w) @ map sz_zone_root (szones w) in
      if \<not> psl_is_private E zone_root_txt then Some NotRegistrable
      else if list_ex (\<lambda>other. matchSuffix E root_label (DNSLabel E (lower E other))) other_zones then Some AlreadyExists
      else None)"

lemma valid_zone_None:
  "valid_zone E w n = None \<longleftrightarrow> psl_is_private E n
     \<and> (\<forall>z \<in> set (dnszones w). \<not> matchSuffix E (DNSLabel E n) (DNSLabel E (lower E (zone_root z))))
     \<and> (\<forall>z \<in> set (szones w). \<not> matchSuffix E (DNSLabel E n) (DNSLabel E (lower E (sz_zone_root z))))"
  by (auto simp: valid_zone_def Let_def list_ex_iff)

text \<open>A subscription is only ever made active, and only by an answer with status 200 or 302 to the
  request for the user's own account; no other account and no other table changes.\<close>

lemma log_usage_accounts:
  assumes "log_usage E u extra cr os rd w = (r, w')"
  shows "\<exists>es. w'\<lparr>accounts := []\<rparr> = w\<lparr>events := events w @ es, accounts := []\<rparr>
    \<and> (\<forall>v. v \<noteq> username u \<longrightarrow> account_of w' v = account_of w v)
    \<and> (r \<in> {Inr Error} \<union> range Inl \<longrightarrow> accounts w' = accounts w)"
proof -
  have other: "map_of (map (\<lambda>(v, b). if v = x then (v, a) else (v, b)) xs) v = map_of xs v" if "v \<noteq> x" for v x a and xs :: "(pstr \<times> account) list"
    using that by (induction xs) auto
  show ?thesis
    using assms
    by (auto simp: log_usage_def act_defs http_call_def emit_def set_account_def usage_of_def account_of_def other
        split: sum.splits option.splits if_splits intro: exI[of _ "[]"])
qed

end
