(* ===== verification/Zone_Checks.thy ===== *)
theory Zone_Checks
  imports Zone_Props
begin

text \<open>
  The checks of \<^verbatim>\<open>views/zone_checks.py\<close>, which the page of a zone shows: whether its SPF and DMARC records
  protect it. The enumerations have a constructor for each member of the classes \<^verbatim>\<open>SPFStatus\<close> and
  \<^verbatim>\<open>DMARCStatus\<close>; the loops are recursion over the terms of a record. The theorems compare both checks
  with a grammar of the records that does not use the code, and with what a safe record says.
\<close>

section \<open>SPF\<close>

datatype spf_status =
    SPF_NotPresent | SPF_MultiplePresent | SPF_PassAll | SPF_InvalidNet | SPF_LargeV4Net | SPF_LargeV6Net
  | SPF_AllNotLast | SPF_OK

definition txt_data :: "zrec \<Rightarrow> pstr" where
  "txt_data r = (case body r of TXTRecord data \<Rightarrow> data | _ \<Rightarrow> [])"

definition is_spf :: "pstr \<Rightarrow> bool" where
  "is_spf data \<longleftrightarrow> prefix (str ''v=spf1 '') data \<or> data = str ''v=spf1''"

text \<open>A term without a qualifier has the qualifier +.\<close>

definition spf_directive :: "pstr \<Rightarrow> nat \<times> pstr" where
  "spf_directive t = (case t of
       [] \<Rightarrow> (43, [])
     | c # cs \<Rightarrow> if c \<in> {43, 45, 63, 126} then (c, cs) else (43, t))"

definition spf_terms :: "pstr \<Rightarrow> pstr list" where
  "spf_terms data = [t \<leftarrow> split_on 32 (py_strip (drop 6 data)). t \<noteq> []]"

definition spf_directives :: "pstr list \<Rightarrow> (nat \<times> pstr) list" where
  "spf_directives terms = map spf_directive [t \<leftarrow> terms. 61 \<notin> set t]"

definition spf_modifiers :: "pstr list \<Rightarrow> pstr list list" where
  "spf_modifiers terms = map (split1_on 61) [t \<leftarrow> terms. 61 \<in> set t]"

definition spf_net :: "pstr \<Rightarrow> spf_status option" where
  "spf_net d =
     (if prefix (str ''ip4:'') d then
        (case parse_net4 (drop 4 d) of
           Inl _ \<Rightarrow> Some SPF_InvalidNet
         | Inr net \<Rightarrow> if prefixlen net < 14 then Some SPF_LargeV4Net else None)
      else if prefix (str ''ip6:'') d then
        (case parse_net6 (drop 4 d) of
           Inl _ \<Rightarrow> Some SPF_InvalidNet
         | Inr net \<Rightarrow> if prefixlen net < 32 then Some SPF_LargeV6Net else None)
      else None)"

fun spf_scan :: "(nat \<times> pstr) list \<Rightarrow> spf_status" where
  "spf_scan [] = SPF_OK"
| "spf_scan ((q, d) # ds) =
     (if d = str ''all'' \<and> q \<in> {43, 63} then SPF_PassAll
      else if d = str ''all'' \<and> ds \<noteq> [] then SPF_AllNotLast
      else case spf_net d of Some s \<Rightarrow> s | None \<Rightarrow> spf_scan ds)"

definition spf_record :: "pstr \<Rightarrow> spf_status" where
  "spf_record data =
     (let ts = spf_terms data in
      if spf_directives ts = [] \<and> \<not> list_ex (\<lambda>m. hd m = str ''redirect'') (spf_modifiers ts) then SPF_AllNotLast
      else spf_scan (spf_directives ts))"

definition check_spf :: "dnszone \<Rightarrow> world \<Rightarrow> spf_status" where
  "check_spf z w =
     (case [d \<leftarrow> map txt_data (filter_name M_TXT (z_id z) (str ''@'') w). is_spf d] of
        [] \<Rightarrow> SPF_NotPresent
      | [d] \<Rightarrow> spf_record d
      | _ \<Rightarrow> SPF_MultiplePresent)"


section \<open>DMARC\<close>

datatype dmarc_status =
    DMARC_NotPresent | DMARC_MultiplePresent | DMARC_Invalid | DMARC_NoneRequest | DMARC_PartialPercentage
  | DMARC_OK

definition dmarc_tag :: "pstr \<Rightarrow> (pstr \<times> pstr) option" where
  "dmarc_tag p = (case split1_on 61 p of [t, v] \<Rightarrow> Some (py_strip t, py_strip v) | _ \<Rightarrow> None)"

text \<open>The tags of a record, or None when a part has no equals sign.\<close>

definition dmarc_tags :: "pstr \<Rightarrow> (pstr \<times> pstr) list option" where
  "dmarc_tags data =
     (let ts = map dmarc_tag [p \<leftarrow> split_on 59 (py_strip data). py_strip p \<noteq> []]
      in if None \<in> set ts then None else Some (map the ts))"

definition dmarc_record :: "pstr \<Rightarrow> dmarc_status" where
  "dmarc_record data =
     (case dmarc_tags data of
        Some (v_tag # p_tag # tags) \<Rightarrow>
          if v_tag \<noteq> (str ''v'', str ''DMARC1'') then DMARC_Invalid
          else if fst p_tag \<noteq> str ''p'' then DMARC_Invalid
          else if snd p_tag = str ''none'' then DMARC_NoneRequest
          else if snd p_tag \<notin> {str ''quarantine'', str ''reject''} then DMARC_Invalid
          else (case find (\<lambda>t. fst t = str ''pct'') tags of
                  Some t \<Rightarrow> if snd t \<noteq> str ''100'' then DMARC_PartialPercentage else DMARC_OK
                | None \<Rightarrow> DMARC_OK)
      | _ \<Rightarrow> DMARC_Invalid)"

definition check_dmarc :: "dnszone \<Rightarrow> world \<Rightarrow> dmarc_status" where
  "check_dmarc z w =
     (case map txt_data (filter_name M_TXT (z_id z) (str ''_dmarc'') w) of
        [] \<Rightarrow> DMARC_NotPresent
      | [d] \<Rightarrow> dmarc_record d
      | _ \<Rightarrow> DMARC_MultiplePresent)"


section \<open>A grammar of the two records\<close>

text \<open>
  What the records say is defined apart from the code that reads them, by a grammar of their texts:
  \<open>stripped\<close> takes the white space off both ends of a text, \<open>spf_words\<close> relates a text to its words, and
  \<open>dmarc_text\<close> relates it to its tags. The codes are 32 for the blank, 59 for the semicolon and 61 for the
  equals sign.
\<close>

definition white :: "pstr \<Rightarrow> bool" where
  "white s \<longleftrightarrow> (\<forall>c \<in> set s. is_space c)"

definition stripped :: "pstr \<Rightarrow> pstr \<Rightarrow> bool" where
  "stripped s m \<longleftrightarrow> (\<exists>a b. s = a @ m @ b \<and> white a \<and> white b)
     \<and> (m \<noteq> [] \<longrightarrow> \<not> is_space (hd m) \<and> \<not> is_space (last m))"

inductive spf_words :: "pstr \<Rightarrow> pstr list \<Rightarrow> bool" where
  no_word: "\<forall>c \<in> set s. c = 32 \<Longrightarrow> spf_words s []"
| a_word: "\<forall>c \<in> set s. c = 32 \<Longrightarrow> t \<noteq> [] \<Longrightarrow> 32 \<notin> set t \<Longrightarrow> rest = [] \<or> hd rest = 32 \<Longrightarrow>
    spf_words rest ts \<Longrightarrow> spf_words (s @ t @ rest) (t # ts)"

inductive dmarc_part :: "pstr \<Rightarrow> (pstr \<times> pstr) list \<Rightarrow> bool" where
  no_tag: "white s \<Longrightarrow> dmarc_part s []"
| a_tag: "61 \<notin> set x \<Longrightarrow> stripped x t \<Longrightarrow> stripped y v \<Longrightarrow> dmarc_part (x @ 61 # y) [(t, v)]"

inductive dmarc_text :: "pstr \<Rightarrow> (pstr \<times> pstr) list \<Rightarrow> bool" where
  last_part: "59 \<notin> set p \<Longrightarrow> dmarc_part p ts \<Longrightarrow> dmarc_text p ts"
| more_parts: "59 \<notin> set p \<Longrightarrow> dmarc_part p ts \<Longrightarrow> dmarc_text s us \<Longrightarrow> dmarc_text (p @ 59 # s) (ts @ us)"

lemma stripped_eq: "stripped s m \<longleftrightarrow> m = py_strip s"
proof
  assume "stripped s m"
  then obtain a b where s: "s = a @ m @ b" "white a" "white b"
    and m: "m \<noteq> [] \<longrightarrow> \<not> is_space (hd m) \<and> \<not> is_space (last m)"
    by (auto simp: stripped_def)
  have drop: "dropWhile is_space (x @ y) = dropWhile is_space y" if "white x" for x y
    using that by (simp add: white_def dropWhile_append2)
  have all: "dropWhile is_space x = []" if "white x" for x
    using that by (simp add: white_def)
  have rev: "white (rev x) = white x" for x by (simp add: white_def)
  have keep: "dropWhile is_space (x @ y) = x @ y" if "x \<noteq> []" "\<not> is_space (hd x)" for x y
    using that by (cases x) simp_all
  show "m = py_strip s"
  proof (cases "m = []")
    case True
    then show ?thesis using s by (simp add: py_strip_def drop all)
  next
    case False
    then have "hd (rev m) = last m" "rev m \<noteq> []" by (simp_all add: hd_rev)
    with False m s show ?thesis
      using keep[of m b] keep[of "rev m" "[]"] by (simp add: py_strip_def drop rev)
  qed
next
  assume m: "m = py_strip s"
  define t where "t = dropWhile is_space s"
  have t: "s = takeWhile is_space s @ t" by (simp add: t_def)
  have rm: "rev m = dropWhile is_space (rev t)" by (simp add: m py_strip_def t_def)
  then have "rev t = takeWhile is_space (rev t) @ rev m" by simp
  then have tm: "t = m @ rev (takeWhile is_space (rev t))" by (metis rev_append rev_rev_ident)
  have white: "white (takeWhile is_space s)" "white (rev (takeWhile is_space (rev t)))"
    by (auto simp: white_def dest: set_takeWhileD)
  have "\<not> is_space (last m)" if "m \<noteq> []"
    using that rm hd_dropWhile[of is_space "rev t"] by (metis Nil_is_rev_conv hd_rev)
  moreover have "\<not> is_space (hd m)" if "m \<noteq> []"
  proof -
    have "t \<noteq> []" using that tm by auto
    then have "\<not> is_space (hd t)" unfolding t_def by (rule hd_dropWhile)
    then show ?thesis using that tm by (metis hd_append2)
  qed
  moreover have "s = takeWhile is_space s @ m @ rev (takeWhile is_space (rev t))" using t tm by simp
  ultimately show "stripped s m" unfolding stripped_def using white by blast
qed

lemma stripped_exists: "stripped s (py_strip s)"
  by (simp add: stripped_eq)

lemma white_eq: "white s \<longleftrightarrow> py_strip s = []"
proof
  assume "white s"
  then have "stripped s []" unfolding stripped_def by (intro conjI exI[of _ s] exI[of _ "[]"]) (simp_all add: white_def)
  then show "py_strip s = []" by (simp add: stripped_eq)
next
  assume "py_strip s = []"
  then have "stripped s []" by (simp add: stripped_eq)
  then show "white s" by (auto simp: stripped_def white_def)
qed


section \<open>What the check of SPF accepts\<close>

text \<open>
  A term spells a mechanism with a qualifier or without one. The words of a record are safe when none
  lets every host pass, a failing \<^verbatim>\<open>all\<close> is followed by modifiers only (the words with an equals sign),
  every network can be read and is not larger than the limit, and there is a mechanism or a redirection.
\<close>

definition spells :: "pstr \<Rightarrow> pstr \<Rightarrow> bool" where
  "spells t d \<longleftrightarrow> t = d \<or> (\<exists>q \<in> set (str ''+-?~''). t = q # d)"

definition networks_small :: "pstr \<Rightarrow> bool" where
  "networks_small t \<longleftrightarrow>
     (\<forall>net. spells t (str ''ip4:'' @ net) \<longrightarrow> (\<exists>n. parse_net4 net = Inr n \<and> 14 \<le> prefixlen n))
     \<and> (\<forall>net. spells t (str ''ip6:'' @ net) \<longrightarrow> (\<exists>n. parse_net6 net = Inr n \<and> 32 \<le> prefixlen n))"

definition spf_safe :: "pstr list \<Rightarrow> bool" where
  "spf_safe ts \<longleftrightarrow>
     str ''all'' \<notin> set ts \<and> str ''+all'' \<notin> set ts \<and> str ''?all'' \<notin> set ts
     \<and> (\<forall>us t vs. ts = us @ t # vs \<and> t \<in> {str ''-all'', str ''~all''} \<longrightarrow> (\<forall>v \<in> set vs. 61 \<in> set v))
     \<and> (\<forall>t \<in> set ts. 61 \<notin> set t \<longrightarrow> networks_small t)
     \<and> (\<exists>t \<in> set ts. 61 \<notin> set t \<or> prefix (str ''redirect='') t)"

lemma spells_directive:
  assumes "d \<noteq> []" "hd d \<notin> set (str ''+-?~'')"
  shows "spells t d \<longleftrightarrow> snd (spf_directive t) = d"
  using assms by (cases t) (auto simp: spells_def spf_directive_def)

lemma spells_net: "networks_small t \<longleftrightarrow> spf_net (snd (spf_directive t)) = None"
proof -
  have "spells t (str ''ip4:'' @ net) \<longleftrightarrow> snd (spf_directive t) = str ''ip4:'' @ net"
    "spells t (str ''ip6:'' @ net) \<longleftrightarrow> snd (spf_directive t) = str ''ip6:'' @ net" for net
    by (rule spells_directive; simp)+
  moreover have "str ''ip4:'' \<noteq> str ''ip6:''" by simp
  ultimately show ?thesis
    by (auto simp: networks_small_def spf_net_def prefix_def not_less simp del: str_simps split: sum.splits)
qed

lemma spf_net_not_ok: "spf_net d \<noteq> Some SPF_OK"
  by (auto simp: spf_net_def split: sum.splits)

lemma directive_all:
  "snd (spf_directive t) = str ''all'' \<and> fst (spf_directive t) \<in> {43, 63}
     \<longleftrightarrow> t \<in> {str ''all'', str ''+all'', str ''?all''}"
  "snd (spf_directive t) = str ''all'' \<longleftrightarrow>
     t \<in> {str ''all'', str ''+all'', str ''?all'', str ''-all'', str ''~all''}"
  by (auto simp: spf_directive_def split: list.split)

lemma split_positions:
  "(\<forall>us t vs. x # xs = us @ t # vs \<longrightarrow> Q t vs) \<longleftrightarrow> Q x xs \<and> (\<forall>us t vs. xs = us @ t # vs \<longrightarrow> Q t vs)"
  by (auto simp: Cons_eq_append_conv)

lemma directives_Cons:
  "spf_directives (t # ts) = (if 61 \<in> set t then spf_directives ts else spf_directive t # spf_directives ts)"
  "spf_directives ts = [] \<longleftrightarrow> (\<forall>v \<in> set ts. 61 \<in> set v)"
  by (auto simp: spf_directives_def filter_empty_conv)

lemma spf_scan_safe:
  "spf_scan (spf_directives ts) = SPF_OK \<longleftrightarrow>
     (\<forall>t \<in> set ts. t \<notin> {str ''all'', str ''+all'', str ''?all''})
     \<and> (\<forall>us t vs. ts = us @ t # vs \<longrightarrow> t \<in> {str ''-all'', str ''~all''} \<longrightarrow> (\<forall>v \<in> set vs. 61 \<in> set v))
     \<and> (\<forall>t \<in> set ts. 61 \<notin> set t \<longrightarrow> networks_small t)"
proof (induction ts)
  case (Cons t ts)
  show ?case
  proof (cases "61 \<in> set t")
    case True
    then have "t \<notin> {str ''all'', str ''+all'', str ''?all'', str ''-all'', str ''~all''}" by auto
    then show ?thesis unfolding split_positions using True Cons.IH by (simp add: directives_Cons)
  next
    case False
    obtain q d where qd: "spf_directive t = (q, d)" by fastforce
    have scan: "spf_scan ((q, d) # ds) = SPF_OK \<longleftrightarrow>
        \<not> (d = str ''all'' \<and> q \<in> {43, 63}) \<and> (d = str ''all'' \<longrightarrow> ds = []) \<and> spf_net d = None
        \<and> spf_scan ds = SPF_OK" for ds
      using spf_net_not_ok[of d] by (auto split: option.split simp del: str_simps)
    show ?thesis
      unfolding split_positions directives_Cons if_not_P[OF False] qd scan Cons.IH
      using directive_all[of t] spells_net[of t] False by (auto simp: qd directives_Cons simp del: str_simps)
  qed
qed (simp add: spf_directives_def)

lemma words_blank: "\<forall>c \<in> set s. c = 32 \<Longrightarrow> [t \<leftarrow> split_on 32 (s @ x). t \<noteq> []] = [t \<leftarrow> split_on 32 x. t \<noteq> []]"
  by (induction s) auto

lemma words_word:
  assumes "t \<noteq> []" "32 \<notin> set t" "rest = [] \<or> hd rest = 32"
  shows "[t \<leftarrow> split_on 32 (t @ rest). t \<noteq> []] = t # [t \<leftarrow> split_on 32 rest. t \<noteq> []]"
  using assms by (cases rest) (auto simp: split_on_no_sep split_on_append_sep)

lemma spf_words_split: "spf_words m ts \<Longrightarrow> ts = [t \<leftarrow> split_on 32 m. t \<noteq> []]"
proof (induction rule: spf_words.induct)
  case (no_word s)
  then show ?case using words_blank[of s "[]"] by simp
next
  case (a_word s t rest ts)
  then show ?case by (simp add: words_blank words_word)
qed

lemma split_spf_words: "spf_words m [t \<leftarrow> split_on 32 m. t \<noteq> []]"
proof (induction m rule: length_induct)
  case (1 m)
  define s where "s = takeWhile ((=) 32) m"
  define r where "r = dropWhile ((=) 32) m"
  define t where "t = takeWhile ((\<noteq>) 32) r"
  define rest where "rest = dropWhile ((\<noteq>) 32) r"
  have m: "m = s @ r" and r: "r = t @ rest" by (simp_all add: s_def r_def t_def rest_def)
  have s: "\<forall>c \<in> set s. c = 32" by (auto simp: s_def dest: set_takeWhileD)
  have t: "32 \<notin> set t" by (auto simp: t_def dest: set_takeWhileD)
  have rest: "rest = [] \<or> hd rest = 32" using hd_dropWhile[of "(\<noteq>) 32" r] by (auto simp: rest_def)
  show ?case
  proof (cases "t = []")
    case True
    have "r = []"
    proof (rule ccontr)
      assume "r \<noteq> []"
      then have "hd r \<noteq> 32" using hd_dropWhile[of "(=) 32" m] by (auto simp: r_def)
      with True \<open>r \<noteq> []\<close> show False by (cases r) (auto simp: t_def)
    qed
    then show ?thesis using m s words_blank[OF s, of "[]"] by (simp add: no_word)
  next
    case False
    then have "length rest < length m" by (simp add: m r)
    then have "spf_words rest [t \<leftarrow> split_on 32 rest. t \<noteq> []]" using 1 by blast
    from a_word[OF s False t rest this] show ?thesis
      using words_blank[OF s, of r] words_word[OF False t rest] by (simp add: m r)
  qed
qed

lemma spf_terms_words: "spf_words m ts \<and> stripped (drop 6 data) m \<longleftrightarrow> m = py_strip (drop 6 data) \<and> ts = spf_terms data"
  using spf_words_split[of m ts] split_spf_words[of m] by (auto simp: stripped_eq spf_terms_def)

lemma split1_sep: "c \<notin> set x \<Longrightarrow> split1_on c (x @ c # y) = [x, y]"
  by (induction x) auto

lemma split1_no_sep: "c \<notin> set x \<Longrightarrow> split1_on c x = [x]"
  by (induction x) auto

lemma redirect_modifier:
  "list_ex (\<lambda>m. hd m = str ''redirect'') (spf_modifiers ts) \<longleftrightarrow> (\<exists>t \<in> set ts. prefix (str ''redirect='') t)"
proof -
  have eq: "str ''redirect='' = str ''redirect'' @ [61]" and sep: "61 \<notin> set (str ''redirect'')" by simp_all
  have "61 \<in> set t \<and> hd (split1_on 61 t) = str ''redirect'' \<longleftrightarrow> prefix (str ''redirect='') t" for t
  proof
    assume a: "61 \<in> set t \<and> hd (split1_on 61 t) = str ''redirect''"
    then obtain x y where t: "t = x @ 61 # y" "61 \<notin> set x" using split_list_first by metis
    with a show "prefix (str ''redirect='') t"
      unfolding eq prefix_def by (intro exI[of _ y]) (simp add: split1_sep del: str_simps)
  next
    assume "prefix (str ''redirect='') t"
    then obtain y where "t = str ''redirect'' @ 61 # y" unfolding eq prefix_def by auto
    then show "61 \<in> set t \<and> hd (split1_on 61 t) = str ''redirect''"
      using split1_sep[OF sep, of y] by (simp del: str_simps)
  qed
  then show ?thesis by (auto simp: list_ex_iff spf_modifiers_def simp del: str_simps)
qed

lemma spf_record_safe: "spf_record data = SPF_OK \<longleftrightarrow> spf_safe (spf_terms data)"
proof -
  have "spf_scan (spf_directives ts) = SPF_OK
      \<and> \<not> (spf_directives ts = [] \<and> \<not> list_ex (\<lambda>m. hd m = str ''redirect'') (spf_modifiers ts)) \<longleftrightarrow> spf_safe ts" for ts
    unfolding spf_scan_safe redirect_modifier directives_Cons(2) spf_safe_def
    by (auto simp del: str_simps)
  then show ?thesis by (auto simp: spf_record_def Let_def)
qed

lemma singleton_case:
  "(case xs of [] \<Rightarrow> a | [d] \<Rightarrow> f d | x # y # zs \<Rightarrow> b) = c \<longleftrightarrow> (\<exists>d. xs = [d] \<and> f d = c)" if "a \<noteq> c" "b \<noteq> c"
  using that by (auto split: list.splits)

lemma is_spf_text: "is_spf data \<Longrightarrow> data = str ''v=spf1'' @ drop 6 data"
  by (auto simp: is_spf_def prefix_def)

text \<open>C33: The page of a zone reports SPF as in order exactly if the zone has one SPF record at its apex and the
  words of that record, by the grammar above, are safe: no term lets every host pass, with the qualifier + or
  ? or without one; a failing \<^verbatim>\<open>all\<close> is followed by modifiers only; every network can be read and is not larger
  than a /14 or /32; and there is a mechanism or a redirection.\<close>

theorem check_spf_ok:
  "check_spf z w = SPF_OK \<longleftrightarrow>
    (\<exists>s m ts. [d \<leftarrow> map txt_data [r \<leftarrow> zrecs w. zmodel r = M_TXT \<and> r_zone r = z_id z \<and> record_name r = str ''@''].
                 prefix (str ''v=spf1 '') d \<or> d = str ''v=spf1''] = [str ''v=spf1'' @ s]
       \<and> stripped s m \<and> spf_words m ts \<and> spf_safe ts)" (is "_ \<longleftrightarrow> (\<exists>s m ts. ?rows = _ \<and> _)")
proof -
  have rows: "[d \<leftarrow> map txt_data (filter_name M_TXT (z_id z) (str ''@'') w). is_spf d] = ?rows"
    unfolding is_spf_def filter_name_def by (rule refl)
  have "check_spf z w = SPF_OK \<longleftrightarrow> (\<exists>data. ?rows = [data] \<and> spf_safe (spf_terms data))"
    unfolding check_spf_def rows spf_record_safe[symmetric] by (rule singleton_case) simp_all
  also have "\<dots> \<longleftrightarrow> (\<exists>s. ?rows = [str ''v=spf1'' @ s] \<and> spf_safe (spf_terms (str ''v=spf1'' @ s)))"
  proof -
    have "is_spf data" if "?rows = [data]" for data
    proof -
      have "data \<in> set [d \<leftarrow> map txt_data (filter_name M_TXT (z_id z) (str ''@'') w). is_spf d]"
        unfolding rows that by simp
      then show ?thesis unfolding set_filter by blast
    qed
    then have whole: "data = str ''v=spf1'' @ drop 6 data" if "?rows = [data]" for data
      by (rule is_spf_text) (rule that)
    show ?thesis
    proof (intro iffI; elim exE conjE)
      fix data
      assume a: "?rows = [data]" "spf_safe (spf_terms data)"
      show "\<exists>s. ?rows = [str ''v=spf1'' @ s] \<and> spf_safe (spf_terms (str ''v=spf1'' @ s))"
        by (intro exI[of _ "drop 6 data"]) (simp only: whole[OF a(1), symmetric] a simp_thms)
    qed blast
  qed
  also have "\<dots> \<longleftrightarrow> (\<exists>s m ts. ?rows = [str ''v=spf1'' @ s] \<and> stripped s m \<and> spf_words m ts \<and> spf_safe ts)"
  proof -
    have "spf_safe (spf_terms (str ''v=spf1'' @ s)) \<longleftrightarrow> (\<exists>m ts. stripped s m \<and> spf_words m ts \<and> spf_safe ts)" for s
    proof -
      have cut: "drop 6 (str ''v=spf1'' @ s) = s" by simp
      note eq = spf_terms_words[of _ _ "str ''v=spf1'' @ s", unfolded cut]
      show ?thesis by (metis eq)
    qed
    then show ?thesis by blast
  qed
  finally show ?thesis .
qed


section \<open>What the check of DMARC accepts\<close>

lemma dmarc_part_blank: "dmarc_part p ts \<Longrightarrow> py_strip p = [] \<longleftrightarrow> ts = []"
proof (induction rule: dmarc_part.induct)
  case (a_tag x t y v)
  have "61 \<in> set (x @ 61 # y)" "\<not> is_space 61" by (simp_all add: is_space_def)
  then show ?case unfolding white_eq[symmetric] white_def by blast
qed (simp add: white_eq)

lemma dmarc_part_tags: "dmarc_part p ts \<longleftrightarrow> map dmarc_tag [p \<leftarrow> [p]. py_strip p \<noteq> []] = map Some ts"
proof
  assume part: "dmarc_part p ts"
  show "map dmarc_tag [p \<leftarrow> [p]. py_strip p \<noteq> []] = map Some ts"
    using part
  proof cases
    case (a_tag x t y v)
    then show ?thesis
      using dmarc_part_blank[OF part] by (simp add: dmarc_tag_def split1_sep stripped_eq)
  qed (simp add: white_eq)
next
  assume tags: "map dmarc_tag [p \<leftarrow> [p]. py_strip p \<noteq> []] = map Some ts"
  show "dmarc_part p ts"
  proof (cases "py_strip p = []")
    case True
    then show ?thesis using tags by (simp add: white_eq no_tag)
  next
    case False
    then obtain tv where ts: "ts = [tv]" "dmarc_tag p = Some tv" using tags by auto
    have "61 \<in> set p"
      using ts(2) by (cases "61 \<in> set p") (simp_all add: dmarc_tag_def split1_no_sep)
    then obtain x y where p: "p = x @ 61 # y" "61 \<notin> set x" using split_list_first by metis
    then have "tv = (py_strip x, py_strip y)" using ts(2) by (simp add: dmarc_tag_def split1_sep)
    then show ?thesis using p ts(1) a_tag[OF p(2) stripped_exists stripped_exists] by simp
  qed
qed

text \<open>A record whose first tags are the version and a policy that quarantines or rejects, and whose first
  percentage after them, if there is one, is 100.\<close>

definition dmarc_enforced :: "(pstr \<times> pstr) list \<Rightarrow> bool" where
  "dmarc_enforced tags \<longleftrightarrow>
     (\<exists>p others. tags = (str ''v'', str ''DMARC1'') # (str ''p'', p) # others
        \<and> p \<in> {str ''quarantine'', str ''reject''}
        \<and> (\<forall>us v vs. others = us @ (str ''pct'', v) # vs \<and> str ''pct'' \<notin> fst ` set us \<longrightarrow> v = str ''100''))"

lemma dmarc_text_tags:
  "dmarc_text s tags \<longleftrightarrow> map dmarc_tag [p \<leftarrow> split_on 59 s. py_strip p \<noteq> []] = map Some tags"
proof
  show "dmarc_text s tags \<Longrightarrow> map dmarc_tag [p \<leftarrow> split_on 59 s. py_strip p \<noteq> []] = map Some tags"
  proof (induction rule: dmarc_text.induct)
    case (last_part p ts)
    then show ?case unfolding split_on_no_sep[OF last_part(1)] dmarc_part_tags by simp
  next
    case (more_parts p ts s us)
    then show ?case unfolding split_on_append_sep[OF more_parts(1)] dmarc_part_tags by (auto split: if_splits)
  qed
next
  show "map dmarc_tag [p \<leftarrow> split_on 59 s. py_strip p \<noteq> []] = map Some tags \<Longrightarrow> dmarc_text s tags"
  proof (induction s arbitrary: tags rule: length_induct)
    case (1 s)
    show ?case
    proof (cases "59 \<in> set s")
      case False
      then show ?thesis using 1(2) by (intro last_part) (simp_all add: dmarc_part_tags split_on_no_sep)
    next
      case True
      then obtain p r where s: "s = p @ 59 # r" "59 \<notin> set p" using split_list_first by metis
      have "map dmarc_tag [p \<leftarrow> [p]. py_strip p \<noteq> []] @ map dmarc_tag [p \<leftarrow> split_on 59 r. py_strip p \<noteq> []]
          = map Some tags"
        using 1(2) unfolding s(1) split_on_append_sep[OF s(2)] by (cases "py_strip p = []") simp_all
      then obtain ts us where tags: "tags = ts @ us" "map dmarc_tag [p \<leftarrow> [p]. py_strip p \<noteq> []] = map Some ts"
        "map dmarc_tag [p \<leftarrow> split_on 59 r. py_strip p \<noteq> []] = map Some us"
        unfolding append_eq_map_conv by blast
      have "dmarc_text r us" using 1(1) tags(3) s(1) by simp
      moreover have "dmarc_part p ts" using tags(2) by (simp only: dmarc_part_tags)
      ultimately show ?thesis unfolding s(1) tags(1) by (intro more_parts s(2))
    qed
  qed
qed

lemma dmarc_tags_text: "dmarc_tags data = Some tags \<longleftrightarrow> dmarc_text (py_strip data) tags"
proof -
  have "(if None \<in> set ts then None else Some (map the ts)) = Some tags \<longleftrightarrow> ts = map Some tags"
    for ts :: "(pstr \<times> pstr) option list"
  proof (cases "None \<in> set ts")
    case False
    have "map Some (map the ts) = ts" unfolding map_map by (rule map_idI) (metis False comp_apply option.collapse)
    then show ?thesis using False by force
  qed auto
  then show ?thesis unfolding dmarc_tags_def Let_def dmarc_text_tags .
qed

lemma find_first:
  "(\<forall>t. find (\<lambda>t. fst t = k) xs = Some t \<longrightarrow> snd t = x) \<longleftrightarrow>
     (\<forall>us v vs. xs = us @ (k, v) # vs \<and> k \<notin> fst ` set us \<longrightarrow> v = x)"
proof (induction xs)
  case (Cons y ys)
  show ?case
  proof (cases "fst y = k")
    case True
    then obtain b where y: "y = (k, b)" by (cases y) simp
    have "b = x" if "\<forall>us v vs. y # ys = us @ (k, v) # vs \<and> k \<notin> fst ` set us \<longrightarrow> v = x"
      using that[rule_format, of "[]" b ys] by (simp add: y)
    then show ?thesis by (auto simp: y Cons_eq_append_conv)
  next
    case False
    have "(\<forall>us v vs. y # ys = us @ (k, v) # vs \<and> k \<notin> fst ` set us \<longrightarrow> v = x) \<longleftrightarrow>
        (\<forall>us v vs. ys = us @ (k, v) # vs \<and> k \<notin> fst ` set us \<longrightarrow> v = x)"
    proof (intro iffI allI impI)
      fix us v vs
      assume all: "\<forall>us v vs. y # ys = us @ (k, v) # vs \<and> k \<notin> fst ` set us \<longrightarrow> v = x"
        and ys: "ys = us @ (k, v) # vs \<and> k \<notin> fst ` set us"
      show "v = x" by (rule all[rule_format, of "y # us" v vs]) (use ys False in auto)
    next
      fix us v vs
      assume all: "\<forall>us v vs. ys = us @ (k, v) # vs \<and> k \<notin> fst ` set us \<longrightarrow> v = x"
        and ys: "y # ys = us @ (k, v) # vs \<and> k \<notin> fst ` set us"
      obtain us' where "us = y # us'" using ys False by (cases us) auto
      then show "v = x" using ys by (intro all[rule_format, of us' v vs]) auto
    qed
    with Cons.IH False show ?thesis by simp
  qed
qed simp

lemma dmarc_record_enforced: "dmarc_record data = DMARC_OK \<longleftrightarrow> (\<exists>tags. dmarc_tags data = Some tags \<and> dmarc_enforced tags)"
proof (cases "dmarc_tags data")
  case (Some tags)
  have names: "str ''quarantine'' \<noteq> str ''none''" "str ''reject'' \<noteq> str ''none''" by simp_all
  show ?thesis
  proof (cases "length tags < 2")
    case True
    then show ?thesis using Some
      by (auto simp: dmarc_record_def dmarc_enforced_def less_Suc_eq numeral_2_eq_2 length_Suc_conv simp del: str_simps)
  next
    case False
    then obtain v p rest where "tags = v # p # rest"
      by (metis One_nat_def Suc_1 length_Cons less_Suc_eq list.exhaust list.size(3) zero_less_Suc)
    then show ?thesis using Some
      unfolding dmarc_enforced_def find_first[symmetric]
      by (cases v; cases p)
        (auto simp: dmarc_record_def names simp del: str_simps split: option.split)
  qed
qed (simp add: dmarc_record_def)

text \<open>C34: The page of a zone reports DMARC as in order exactly if the zone has one TXT record under the name of
  the policy whose tags, by the grammar above, ask receivers to quarantine or to reject all failing mail of the
  domain itself: the version, the policy, and no first percentage other than 100. The policy of subdomains,
  the tag \<^verbatim>\<open>sp\<close>, is not looked at.\<close>

theorem check_dmarc_ok:
  "check_dmarc z w = DMARC_OK \<longleftrightarrow>
    (\<exists>data m tags. map txt_data [r \<leftarrow> zrecs w. zmodel r = M_TXT \<and> r_zone r = z_id z \<and> record_name r = str ''_dmarc'']
         = [data]
       \<and> stripped data m \<and> dmarc_text m tags \<and> dmarc_enforced tags)"
proof -
  have "check_dmarc z w = DMARC_OK \<longleftrightarrow>
      (\<exists>data. map txt_data (filter_name M_TXT (z_id z) (str ''_dmarc'') w) = [data]
        \<and> (\<exists>tags. dmarc_tags data = Some tags \<and> dmarc_enforced tags))"
    unfolding check_dmarc_def dmarc_record_enforced[symmetric] by (rule singleton_case) simp_all
  then show ?thesis unfolding dmarc_tags_text stripped_eq filter_name_def by auto
qed

end
