(* ===== verification/Web.thy ===== *)
theory Web
  imports Billing Zone_Checks
begin

text \<open>
  What the web views share: requests and responses, the permission check against Keycloak, looking
  an object up by the identifier in the path, and the model forms of \<^verbatim>\<open>forms.py\<close> with the validation
  of \<^verbatim>\<open>models.py\<close> behind them.

  The argument \<open>W :: web\<close> stands for the code outside the repository that views rely on: the client
  of Keycloak (\<open>access_token\<close>, \<open>eval_permission\<close>, \<open>eval_class_permission\<close>), the random
  secrets, the verification of signed tokens, the printing of resource records by \<^verbatim>\<open>dnslib\<close>, and Django's conversion of the submitted fields of each
  form to values (None where a field is missing or malformed). A view shows a page or
  redirects; pages are named by their template, with the values that the view computes for them; their
  text is not modelled.
\<close>

section \<open>Requests and responses\<close>

type_synonym fields = "(pstr \<times> pstr) list"

record request =
  req_user :: "user option"
  is_post :: bool
  form_data :: fields
  query :: fields
  remote_addr :: pstr
  authorization :: "pstr option"
  req_path :: pstr
  session_key :: pstr
  raw_body :: bytes
  hub_signature :: "pstr option"

datatype response =
    Login | Render pstr | RedirectTo pstr "pstr list" | RedirectUrl pstr | Attachment pstr pstr
  | ZoneList pstr "pstr list" bool bool | ZonePage pstr nat "pstr option" spf_status dmarc_status
  | DomainList "(pstr \<times> zone_refusal option) list" | Answer nat pstr

abbreviation (input) post_is :: "request \<Rightarrow> string \<Rightarrow> bool" where
  "post_is req f \<equiv> map_of (form_data req) (str f) = Some (str ''true'')"

record dmarc_data =
  policy :: pstr
  subdomain_policy :: "pstr option"
  percentage :: "nat option"
  dkim_alignment :: "pstr option"
  spf_alignment :: "pstr option"
  report_interval :: "nat option"
  aggregate_feedback :: "pstr option"
  failure_feedback :: "pstr option"

record domain_token =
  dt_sub :: pstr
  dt_domain :: pstr
  dt_domain_id :: "pstr option"

record web =
  access_token :: "user \<Rightarrow> pstr res"
  eval_permission :: "pstr \<Rightarrow> pstr option \<Rightarrow> pstr \<Rightarrow> bool res"
  eval_class_permission :: "pstr \<Rightarrow> pstr \<Rightarrow> pstr \<Rightarrow> bool res"
  object_ids :: "pstr \<Rightarrow> pstr \<Rightarrow> pstr \<Rightarrow> pstr list res"
  has_perm :: "user \<Rightarrow> pstr \<Rightarrow> bool"
  token_hex :: "nat \<Rightarrow> pstr"
  token_bytes :: "nat \<Rightarrow> bytes"
  external_url :: "pstr \<Rightarrow> pstr"
  jwt_decode :: "pstr option \<Rightarrow> domain_token option"
  resp_domains :: "http_resp \<Rightarrow> pstr list"
  rr_to_zone :: "rr \<Rightarrow> pstr"
  record_fields :: "model \<Rightarrow> fields \<Rightarrow> (pstr \<times> nat \<times> body) option"
  cds_fields :: "fields \<Rightarrow> (nat \<times> nat \<times> nat \<times> pstr) option"
  cdnskey_fields :: "fields \<Rightarrow> (nat \<times> nat \<times> nat \<times> pstr) option"
  secret_fields :: "fields \<Rightarrow> (pstr \<times> pstr \<times> pstr) option"
  axfr_secret_fields :: "fields \<Rightarrow> pstr option"
  acl_fields :: "fields \<Rightarrow> (pstr \<times> pstr \<times> nat) option"
  notify_fields :: "fields \<Rightarrow> (pstr \<times> pstr \<times> nat) option"
  custom_ns_fields :: "fields \<Rightarrow> pstr option"
  ptr_fields :: "fields \<Rightarrow> (pstr \<times> nat \<times> pstr) option"
  rns_fields :: "fields \<Rightarrow> (pstr \<times> nat \<times> nat \<times> pstr) option"
  zone_fields :: "fields \<Rightarrow> pstr option"
  szone_fields :: "fields \<Rightarrow> (pstr \<times> pstr) option"
  primary_field :: "fields \<Rightarrow> pstr option"
  admin_zone_fields :: "fields \<Rightarrow> (pstr \<times> user) option"
  admin_rzone_fields :: "fields \<Rightarrow> (pstr \<times> nat \<times> user) option"
  admin_szone_fields :: "fields \<Rightarrow> (pstr \<times> pstr \<times> user) option"
  import_fields :: "fields \<Rightarrow> (pstr \<times> bool) option"
  dmarc_fields :: "fields \<Rightarrow> dmarc_data option"
  icloud_fields :: "fields \<Rightarrow> (pstr \<times> pstr) option"


section \<open>Permissions and objects\<close>

definition DNSZone_has_scope :: "web \<Rightarrow> pstr \<Rightarrow> dnszone \<Rightarrow> pstr \<Rightarrow> bool res" where
  "DNSZone_has_scope W tok z action = eval_permission W tok (z_resource_id z) (action @ str ''-zone'')"

definition DNSZone_has_class_scope :: "web \<Rightarrow> pstr \<Rightarrow> pstr \<Rightarrow> bool res" where
  "DNSZone_has_class_scope W tok action = eval_class_permission W tok (str ''zone'') (action @ str ''-zone'')"

definition ReverseDNSZone_has_scope :: "web \<Rightarrow> pstr \<Rightarrow> rzone \<Rightarrow> pstr \<Rightarrow> bool res" where
  "ReverseDNSZone_has_scope W tok z action = eval_permission W tok (rz_resource_id z) (action @ str ''-reverse-zone'')"

definition SecondaryDNSZone_has_scope :: "web \<Rightarrow> pstr \<Rightarrow> szone \<Rightarrow> pstr \<Rightarrow> bool res" where
  "SecondaryDNSZone_has_scope W tok z action = eval_permission W tok (sz_resource_id z) (action @ str ''-secondary-zone'')"

definition SecondaryDNSZone_has_class_scope :: "web \<Rightarrow> pstr \<Rightarrow> pstr \<Rightarrow> bool res" where
  "SecondaryDNSZone_has_class_scope W tok action =
     eval_class_permission W tok (str ''secondary-zone'') (action @ str ''-secondary-zone'')"

text \<open>\<^verbatim>\<open>get_object_or_404(Model, id=...)\<close>: the identifier column refuses a malformed text.\<close>

definition get_or_404 :: "ext \<Rightarrow> ('r \<Rightarrow> pstr) \<Rightarrow> (world \<Rightarrow> 'r list) \<Rightarrow> pstr \<Rightarrow> 'r io" where
  "get_or_404 E key rows i = asks_res (\<lambda>w.
     case typed_uuid E i of
       None \<Rightarrow> Inl ValidationError
     | Some k \<Rightarrow> (case find (\<lambda>r. key r = k) (rows w) of None \<Rightarrow> Inl Http404 | Some r \<Rightarrow> Inr r))"

text \<open>The object behind a foreign key.\<close>

definition foreign :: "('r \<Rightarrow> pstr) \<Rightarrow> (world \<Rightarrow> 'r list) \<Rightarrow> pstr \<Rightarrow> 'r io" where
  "foreign key rows i = asks_res (\<lambda>w.
     case find (\<lambda>r. key r = i) (rows w) of None \<Rightarrow> Inl DoesNotExist | Some r \<Rightarrow> Inr r)"

definition login_required :: "request \<Rightarrow> (user \<Rightarrow> response io) \<Rightarrow> response io" where
  "login_required req k = (case req_user req of None \<Rightarrow> ret Login | Some u \<Rightarrow> k u)"

definition require :: "bool res \<Rightarrow> unit io" where
  "require r = bind_act (lift_res r) (\<lambda>ok. if ok then ret () else throw PermissionDenied)"

text \<open>The opening lines of every view of a zone, and of every view of an object that belongs to a zone.\<close>

definition zone_view :: "web \<Rightarrow> ext \<Rightarrow> pstr \<Rightarrow> request \<Rightarrow> pstr \<Rightarrow> (user \<Rightarrow> dnszone \<Rightarrow> response io) \<Rightarrow> response io" where
  "zone_view W E action req zone_id k =
     login_required req (\<lambda>u.
       bind_act (lift_res (access_token W u)) (\<lambda>tok.
       bind_act (get_or_404 E z_id dnszones zone_id) (\<lambda>z.
       seq (require (DNSZone_has_scope W tok z action)) (k u z))))"

definition row_view ::
  "web \<Rightarrow> ext \<Rightarrow> ('r \<Rightarrow> pstr) \<Rightarrow> (world \<Rightarrow> 'r list) \<Rightarrow> ('r \<Rightarrow> pstr) \<Rightarrow> request \<Rightarrow> pstr
     \<Rightarrow> (dnszone \<Rightarrow> 'r \<Rightarrow> response io) \<Rightarrow> response io" where
  "row_view W E key rows zone_of req record_id k =
     login_required req (\<lambda>u.
       bind_act (lift_res (access_token W u)) (\<lambda>tok.
       bind_act (get_or_404 E key rows record_id) (\<lambda>r.
       bind_act (foreign z_id dnszones (zone_of r)) (\<lambda>z.
       seq (require (DNSZone_has_scope W tok z (str ''edit''))) (k z r)))))"

text \<open>\<^verbatim>\<open>zone.last_modified = timezone.now(); zone.save()\<close>\<close>

definition save_zone_now :: "ext \<Rightarrow> dnszone \<Rightarrow> unit io" where
  "save_zone_now E z = bind_act (asks now) (\<lambda>t. DNSZone_save E (z\<lparr>z_last_modified := t\<rparr>))"


section \<open>Sessions\<close>

definition get_session :: "request \<Rightarrow> world \<Rightarrow> session" where
  "get_session req w =
     (case map_of (sessions w) (session_key req) of
        None \<Rightarrow> \<lparr>github_state_id = None, google_state_id = None, zone_notice = None\<rparr>
      | Some s \<Rightarrow> s)"

definition set_session :: "request \<Rightarrow> (session \<Rightarrow> session) \<Rightarrow> unit io" where
  "set_session req f = modify (\<lambda>w. w\<lparr>sessions :=
     (session_key req, f (get_session req w)) # [s \<leftarrow> sessions w. fst s \<noteq> session_key req]\<rparr>)"

text \<open>\<^verbatim>\<open>request.session.pop("zone_notice", None)\<close>\<close>

definition pop_notice :: "request \<Rightarrow> pstr option io" where
  "pop_notice req =
     bind_act (asks (\<lambda>w. zone_notice (get_session req w))) (\<lambda>n.
       seq (set_session req (\<lambda>s. s\<lparr>zone_notice := None\<rparr>)) (ret n))"


section \<open>Model forms of the record classes\<close>

text \<open>
  The fields a form leaves out: identifier and zone of every record class, and the addresses, the
  password and the identifier of a dynamic address (excluded or disabled), which therefore keep the
  values of the instance.
\<close>

definition form_exclude :: "pstr list" where
  "form_exclude = [str ''id'', str ''zone'']"

fun form_body :: "body option \<Rightarrow> body \<Rightarrow> body" where
  "form_body (Some (DynamicAddressRecord v4 v6 password)) b = DynamicAddressRecord v4 v6 password"
| "form_body None (DynamicAddressRecord v4 v6 password) = DynamicAddressRecord None None []"
| "form_body old b = b"

text \<open>The validators of the number columns. (Those of the columns of a LOC record, which are floating
  point numbers, belong to the conversion of the fields.)\<close>

definition num_le :: "nat \<Rightarrow> nat option \<Rightarrow> bool" where
  "num_le m x = (case x of None \<Rightarrow> True | Some n \<Rightarrow> n \<le> m)"

fun in_range :: "body \<Rightarrow> bool" where
  "in_range (MXRecord exchange priority) = (priority \<le> 65535)"
| "in_range (SRVRecord priority weight port target) = (priority \<le> 65535 \<and> weight \<le> 65535 \<and> port \<le> 65535)"
| "in_range (CAARecord flag tag v) = (flag \<le> 255)"
| "in_range (NAPTRRecord ord preference flags service regexp replacement) =
     (ord \<le> 65535 \<and> pyval_get preference \<le> 65535)"
| "in_range (DSRecord key_tag algorithm digest_type digest) = (key_tag \<le> 65535)"
| "in_range (DNSKEYRecord flags protocol algorithm key) = (flags \<le> 65535 \<and> 1 \<le> protocol \<and> protocol \<le> 255)"
| "in_range (HTTPSRecord h) =
     (num_le 65535 (h_port h) \<and> h_priority h \<le> 65535 \<and> num_le 65535 (h_target_port h))"
| "in_range b = True"

text \<open>Django collects the \<^verbatim>\<open>ValidationError\<close>s of several checks; any other exception leaves at once.\<close>

definition caught :: "'a res \<Rightarrow> 'a option res" where
  "caught m = (case m of Inl ValidationError \<Rightarrow> Inr None | Inl e \<Rightarrow> Inl e | Inr a \<Rightarrow> Inr (Some a))"

definition all_checks :: "unit res list \<Rightarrow> unit res" where
  "all_checks cs = bind_res (mapM_res caught cs) (\<lambda>xs. check (None \<in> set xs))"

definition field_validators :: "body \<Rightarrow> unit res" where
  "field_validators b =
     all_checks
       [check (\<not> in_range b),
        (case b of
           DSRecord _ _ _ digest \<Rightarrow> hex_validator digest
         | DNSKEYRecord _ _ _ (PyStr key) \<Rightarrow> b64_validator key
         | _ \<Rightarrow> Inr ())]"

text \<open>
  The steps of \<^verbatim>\<open>full_clean\<close>: the overridden \<^verbatim>\<open>clean_fields\<close>, \<^verbatim>\<open>clean\<close> and \<^verbatim>\<open>validate_unique\<close> of the record
  classes. Django turns a \<^verbatim>\<open>ValidationError\<close> of any step into an error of the form and goes on with
  the next; every other exception leaves the view.
\<close>

definition record_clean_fields :: "zrec \<Rightarrow> pstr list \<Rightarrow> unit res" where
  "record_clean_fields r ex =
     bind_res
       (case body r of
          CNAMERecord _ \<Rightarrow> CNAMERecord_clean_fields r (Some ex)
        | DSRecord _ _ _ _ \<Rightarrow> DSRecord_clean_fields r (Some ex)
        | RPRecord mailbox txt \<Rightarrow> RPRecord_clean_fields mailbox txt (Some ex)
        | _ \<Rightarrow> Inr ())
       (\<lambda>_. field_validators (body r))"

definition record_clean :: "ext \<Rightarrow> zrec \<Rightarrow> zrec res" where
  "record_clean E r =
     (case body r of
        SSHFPRecord host_key \<Rightarrow> bind_res (SSHFPRecord_clean E host_key) (\<lambda>_. Inr r)
      | HTTPSRecord h \<Rightarrow> bind_res (HTTPSRecord_clean h) (\<lambda>h'. Inr (r\<lparr>body := HTTPSRecord h'\<rparr>))
      | _ \<Rightarrow> Inr r)"

definition record_validate_unique :: "ext \<Rightarrow> world \<Rightarrow> zrec \<Rightarrow> pstr list \<Rightarrow> unit res" where
  "record_validate_unique E w r ex =
     (case body r of
        CNAMERecord _ \<Rightarrow> CNAMERecord_validate_unique E w r (Some ex)
      | _ \<Rightarrow> validate_unique E w r (https_label E r) (Some ex))"

definition form_full_clean :: "ext \<Rightarrow> world \<Rightarrow> zrec \<Rightarrow> zrec option res" where
  "form_full_clean E w r =
     bind_res (caught (record_clean_fields r form_exclude)) (\<lambda>a.
     bind_res (caught (record_clean E r)) (\<lambda>b.
     bind_res (caught (record_validate_unique E w r form_exclude)) (\<lambda>c.
       Inr (if a = None \<or> c = None then None else b))))"

text \<open>\<^verbatim>\<open>Form(request.POST, instance=...)\<close> and \<^verbatim>\<open>is_valid\<close>: the instance with the submitted values, or None
  for an invalid form. \<open>old\<close> are the columns of an instance that was stored before.\<close>

definition record_form :: "web \<Rightarrow> ext \<Rightarrow> model \<Rightarrow> fields \<Rightarrow> pstr \<Rightarrow> pstr \<Rightarrow> body option \<Rightarrow> zrec option io" where
  "record_form W E m post rid zid old =
     (case record_fields W m post of
        None \<Rightarrow> ret None
      | Some (n, l, b) \<Rightarrow>
          asks_res (\<lambda>w. form_full_clean E w
            \<lparr>r_id = rid, r_zone = zid, record_name = n, ttl = l, body = form_body old b\<rparr>))"

text \<open>
  What the conversion of submitted fields guarantees: the values of a model form are columns of the
  class of the form.
\<close>

definition forms_typed :: "web \<Rightarrow> bool" where
  "forms_typed W \<longleftrightarrow> (\<forall>m post n l b. record_fields W m post = Some (n, l, b) \<longrightarrow> model_of b = m)"


section \<open>Model forms of the other rows of a zone\<close>

definition form_of :: "unit res list \<Rightarrow> 'r \<Rightarrow> 'r option res" where
  "form_of checks r = bind_res (caught (all_checks checks)) (\<lambda>c. Inr (if c = None then None else Some r))"

definition AdditionalCDSForm :: "web \<Rightarrow> fields \<Rightarrow> pstr \<Rightarrow> pstr \<Rightarrow> cds_row option res" where
  "AdditionalCDSForm W post i zid =
     (case cds_fields W post of
        None \<Rightarrow> Inr None
      | Some (kt, al, dt, dg) \<Rightarrow>
          form_of [check (\<not> (kt \<le> 65535 \<and> 1 \<le> al \<and> al \<le> 255 \<and> 1 \<le> dt \<and> dt \<le> 255)), hex_validator dg]
            \<lparr>cds_id = i, cds_zone = zid, cds_key_tag = kt, cds_algorithm = al, cds_digest_type = dt, cds_digest = dg\<rparr>)"

definition AdditionalCDNSKEYForm :: "web \<Rightarrow> fields \<Rightarrow> pstr \<Rightarrow> pstr \<Rightarrow> cdnskey_row option res" where
  "AdditionalCDNSKEYForm W post i zid =
     (case cdnskey_fields W post of
        None \<Rightarrow> Inr None
      | Some (fl, pr, al, key) \<Rightarrow>
          form_of [check (\<not> (fl \<le> 65535 \<and> 1 \<le> pr \<and> pr \<le> 255 \<and> 1 \<le> al \<and> al \<le> 255)), b64_validator key]
            \<lparr>ck_id = i, ck_zone = zid, ck_flags = fl, ck_protocol = pr, ck_algorithm = al, ck_public_key = key\<rparr>)"

definition CustomNSForm :: "web \<Rightarrow> fields \<Rightarrow> pstr \<Rightarrow> pstr \<Rightarrow> custom_ns_row option" where
  "CustomNSForm W post i zid =
     map_option (\<lambda>n. \<lparr>ns_id = i, ns_zone = zid, ns_nameserver = n\<rparr>) (custom_ns_fields W post)"

text \<open>The secret of a key is excluded from its form, so an existing row keeps it.\<close>

definition UpdateSecretForm :: "web \<Rightarrow> fields \<Rightarrow> update_secret \<Rightarrow> update_secret option" where
  "UpdateSecretForm W post inst =
     map_option (\<lambda>(n, t, r). inst\<lparr>us_name := n, us_type := t, restrict_to := r\<rparr>) (secret_fields W post)"

definition AXFRSecretForm :: "web \<Rightarrow> fields \<Rightarrow> axfr_secret \<Rightarrow> axfr_secret option" where
  "AXFRSecretForm W post inst = map_option (\<lambda>n. inst\<lparr>as_name := n\<rparr>) (axfr_secret_fields W post)"

definition AXFRIPAClForm :: "web \<Rightarrow> fields \<Rightarrow> pstr \<Rightarrow> pstr \<Rightarrow> nat option \<Rightarrow> axfr_acl option res" where
  "AXFRIPAClForm W post i zid used =
     (case acl_fields W post of
        None \<Rightarrow> Inr None
      | Some (n, a, p) \<Rightarrow>
          (let r = \<lparr>acl_id = i, acl_zone = zid, acl_name = n, acl_address = a, acl_prefix = p, acl_last_used = used\<rparr>
           in form_of [check (128 < p), AXFRIPACL_clean r] r))"

definition AXFRNotifyForm :: "web \<Rightarrow> fields \<Rightarrow> pstr \<Rightarrow> pstr \<Rightarrow> axfr_notify option res" where
  "AXFRNotifyForm W post i zid =
     (case notify_fields W post of
        None \<Rightarrow> Inr None
      | Some (n, s, p) \<Rightarrow>
          form_of [check (65535 < p)] \<lparr>an_id = i, an_zone = zid, an_name = n, an_server = s, an_port = p\<rparr>)"

definition ReversePTRRecordForm :: "web \<Rightarrow> fields \<Rightarrow> pstr \<Rightarrow> rzone \<Rightarrow> ptr_rec option res" where
  "ReversePTRRecordForm W post i z =
     (case ptr_fields W post of
        None \<Rightarrow> Inr None
      | Some (a, l, p) \<Rightarrow>
          form_of [ReverseRecord_clean z a] \<lparr>p_id = i, p_zone = rz_id z, p_address = a, p_ttl = l, pointer = p\<rparr>)"

definition ReverseNSRecordForm :: "web \<Rightarrow> fields \<Rightarrow> pstr \<Rightarrow> rzone \<Rightarrow> rns_rec option res" where
  "ReverseNSRecordForm W post i z =
     (case rns_fields W post of
        None \<Rightarrow> Inr None
      | Some (a, l, p, ns) \<Rightarrow>
          form_of [check (128 < p), ReverseRecord_clean z a]
            \<lparr>rn_id = i, rn_zone = rz_id z, rn_address = a, rn_ttl = l, rn_prefix = p, rn_nameserver = ns\<rparr>)"

definition ICloudForm :: "web \<Rightarrow> fields \<Rightarrow> (pstr \<times> pstr) option" where
  "ICloudForm W post =
     (case icloud_fields W post of
        None \<Rightarrow> None
      | Some (n, t) \<Rightarrow> if Sublist.prefix (str ''apple-domain='') t then Some (n, t) else None)"


section \<open>What valid forms satisfy\<close>

lemma record_clean_keeps:
  assumes "record_clean E r = Inr r'"
  shows "r_id r' = r_id r" "r_zone r' = r_zone r" "zmodel r' = zmodel r" "record_name r' = record_name r"
    "pk r' = pk r"
  using assms by (auto simp: record_clean_def res_simps pk_def split: body.splits)

lemma caught_Some: "caught m = Inr (Some a) \<longleftrightarrow> m = Inr a"
  by (auto simp: caught_def split: sum.splits exn.splits)

lemma form_full_clean_valid:
  assumes "form_full_clean E w r = Inr (Some r')"
  shows "record_clean_fields r form_exclude = Inr ()" "record_clean E r = Inr r'"
    "record_validate_unique E w r form_exclude = Inr ()"
  using assms by (auto simp: form_full_clean_def res_simps caught_Some split: if_splits)



section \<open>A sample\<close>

text \<open>A service that lets the user \<^verbatim>\<open>alice\<close> do everything and others nothing; the form for TXT records reads one
  fixed record, the form for DMARC one fixed policy.\<close>

definition sample_record_fields :: "model \<Rightarrow> fields \<Rightarrow> (pstr \<times> nat \<times> body) option" where
  "sample_record_fields m post = (if m = M_TXT then Some (str ''www'', 60, TXTRecord (str ''hi'')) else None)"

definition sample_dmarc :: dmarc_data where
  "sample_dmarc = \<lparr>policy = str ''reject'', subdomain_policy = None, percentage = Some 0, dkim_alignment = Some (str ''r''),
     spf_alignment = Some (str ''s''), report_interval = None, aggregate_feedback = None, failure_feedback = None\<rparr>"

definition sample_web :: web where
  "sample_web = \<lparr>
     access_token = (\<lambda>u. Inr (username u)),
     eval_permission = (\<lambda>tok rid scope. Inr (tok = str ''alice'')),
     eval_class_permission = (\<lambda>tok res scope. Inr (tok = str ''alice'')),
     object_ids = (\<lambda>tok typ action. Inr []),
     has_perm = (\<lambda>u p. False),
     token_hex = dec_str, token_bytes = (\<lambda>n. replicate 64 n),
     external_url = (\<lambda>s. s),
     jwt_decode = (\<lambda>t. None),
     resp_domains = (\<lambda>r. []),
     rr_to_zone = (\<lambda>r. []),
     record_fields = sample_record_fields,
     cds_fields = (\<lambda>p. None), cdnskey_fields = (\<lambda>p. None), secret_fields = (\<lambda>p. None), axfr_secret_fields = (\<lambda>p. None),
     acl_fields = (\<lambda>p. None), notify_fields = (\<lambda>p. None), custom_ns_fields = (\<lambda>p. None), ptr_fields = (\<lambda>p. None),
     rns_fields = (\<lambda>p. None), zone_fields = (\<lambda>p. Some (str ''new.org'')), szone_fields = (\<lambda>p. None),
     primary_field = (\<lambda>p. None),
     admin_zone_fields = (\<lambda>p. None), admin_rzone_fields = (\<lambda>p. None), admin_szone_fields = (\<lambda>p. None),
     import_fields = (\<lambda>p. None), dmarc_fields = (\<lambda>p. Some sample_dmarc), icloud_fields = (\<lambda>p. None)\<rparr>"

lemma sample_web_simps [simp]:
  "access_token sample_web = (\<lambda>u. Inr (username u))"
  "eval_permission sample_web = (\<lambda>tok rid scope. Inr (tok = str ''alice''))"
  "eval_class_permission sample_web = (\<lambda>tok res scope. Inr (tok = str ''alice''))"
  "jwt_decode sample_web = (\<lambda>t. None)" "record_fields sample_web = sample_record_fields"
  "zone_fields sample_web = (\<lambda>p. Some (str ''new.org''))" "dmarc_fields sample_web = (\<lambda>p. Some sample_dmarc)"
  by (simp_all add: sample_web_def del: str_simps)

definition sample_request :: "string \<Rightarrow> request" where
  "sample_request name = \<lparr>req_user = Some \<lparr>username = str name\<rparr>, is_post = True,
     form_data = [(str ''delete'', str ''true'')], query = [],
     remote_addr = str ''192.0.2.1'', authorization = None, req_path = str ''/'', session_key = str ''s'',
     raw_body = [], hub_signature = None\<rparr>"

lemma sample_forms_typed: "forms_typed sample_web"
  by (simp add: forms_typed_def sample_record_fields_def split: if_splits)

end
