(* ===== verification/Forward_Views.thy ===== *)
theory Forward_Views
  imports Web
begin

text \<open>
  The views of \<^verbatim>\<open>views/fzone.py\<close> that change something: zones are created and deleted, records of the
  eighteen classes with a form are created, edited and deleted, and so are CDS and CDNSKEY rows, keys for
  dynamic update and transfer, access lists, notify targets and custom name servers; whole groups of
  records are set up by the import of a zone file, the DMARC form and the e-mail assistants.
\<close>

section \<open>Records\<close>

text \<open>
  The bodies of \<^verbatim>\<open>create_..._record\<close>, \<^verbatim>\<open>edit_..._record\<close> and \<^verbatim>\<open>delete_..._record\<close>, which the source repeats
  for every class. Building the instance draws its identifier.
\<close>

definition create_record :: "web \<Rightarrow> ext \<Rightarrow> model \<Rightarrow> request \<Rightarrow> pstr \<Rightarrow> response io" where
  "create_record W E m req zone_id =
     zone_view W E (str ''edit'') req zone_id (\<lambda>u z.
       bind_act (new_id E) (\<lambda>i.
         if is_post req then
           bind_act (record_form W E m (form_data req) i (z_id z) None) (\<lambda>f. case f of
             Some r \<Rightarrow>
               seq (zrec_save E z r) (seq (save_zone_now E z) (ret (RedirectTo (str ''edit_zone'') [z_id z])))
           | None \<Rightarrow> ret (Render (str ''dns_grpc/fzone/edit_record.html'')))
         else ret (Render (str ''dns_grpc/fzone/edit_record.html''))))"

text \<open>Saving the zone lower-cases the name in the object that the record refers to.\<close>

definition lowered :: "ext \<Rightarrow> dnszone \<Rightarrow> dnszone" where
  "lowered E z = z\<lparr>zone_root := lower E (zone_root z)\<rparr>"

definition edit_record :: "web \<Rightarrow> ext \<Rightarrow> model \<Rightarrow> request \<Rightarrow> pstr \<Rightarrow> response io" where
  "edit_record W E m req record_id =
     row_view W E r_id (objects m) r_zone req record_id (\<lambda>z r.
       if is_post req then
         bind_act (record_form W E m (form_data req) (r_id r) (r_zone r) (Some (body r))) (\<lambda>f. case f of
           Some r' \<Rightarrow>
             seq (save_zone_now E z) (seq (zrec_save E (lowered E z) r') (ret (RedirectTo (str ''edit_zone'') [z_id z])))
         | None \<Rightarrow> ret (Render (str ''dns_grpc/fzone/edit_record.html'')))
       else ret (Render (str ''dns_grpc/fzone/edit_record.html'')))"

definition delete_record :: "web \<Rightarrow> ext \<Rightarrow> model \<Rightarrow> request \<Rightarrow> pstr \<Rightarrow> response io" where
  "delete_record W E m req record_id =
     row_view W E r_id (objects m) r_zone req record_id (\<lambda>z r.
       if is_post req \<and> post_is req ''delete'' then
         seq (save_zone_now E z) (seq (zrec_delete E r) (ret (RedirectTo (str ''edit_zone'') [z_id z])))
       else ret (Render (str ''dns_grpc/fzone/delete_record.html'')))"

definition set_password :: "pstr \<Rightarrow> zrec \<Rightarrow> zrec" where
  "set_password pw r =
     (case body r of DynamicAddressRecord v4 v6 _ \<Rightarrow> r\<lparr>body := DynamicAddressRecord v4 v6 pw\<rparr> | _ \<Rightarrow> r)"

definition create_dynamic_address_record :: "web \<Rightarrow> ext \<Rightarrow> request \<Rightarrow> pstr \<Rightarrow> response io" where
  "create_dynamic_address_record W E req zone_id =
     zone_view W E (str ''edit'') req zone_id (\<lambda>u z.
       bind_act (new_id E) (\<lambda>i.
         if is_post req then
           bind_act (record_form W E M_DynamicAddress (form_data req) i (z_id z) None) (\<lambda>f. case f of
             Some r \<Rightarrow>
               bind_act (asks (\<lambda>w. token_hex W (next_uuid w))) (\<lambda>pw.
                 seq (zrec_save E z (set_password pw r))
                   (seq (save_zone_now E z) (ret (RedirectTo (str ''edit_zone'') [z_id z]))))
           | None \<Rightarrow> ret (Render (str ''dns_grpc/fzone/edit_record.html'')))
         else ret (Render (str ''dns_grpc/fzone/edit_record.html''))))"

definition create_address_record :: "web \<Rightarrow> ext \<Rightarrow> request \<Rightarrow> pstr \<Rightarrow> response io" where
  "create_address_record W E = create_record W E M_Address"

definition edit_address_record :: "web \<Rightarrow> ext \<Rightarrow> request \<Rightarrow> pstr \<Rightarrow> response io" where
  "edit_address_record W E = edit_record W E M_Address"

definition delete_address_record :: "web \<Rightarrow> ext \<Rightarrow> request \<Rightarrow> pstr \<Rightarrow> response io" where
  "delete_address_record W E = delete_record W E M_Address"

definition edit_dynamic_address_record :: "web \<Rightarrow> ext \<Rightarrow> request \<Rightarrow> pstr \<Rightarrow> response io" where
  "edit_dynamic_address_record W E = edit_record W E M_DynamicAddress"

definition delete_dynamic_address_record :: "web \<Rightarrow> ext \<Rightarrow> request \<Rightarrow> pstr \<Rightarrow> response io" where
  "delete_dynamic_address_record W E = delete_record W E M_DynamicAddress"

definition create_aname_record :: "web \<Rightarrow> ext \<Rightarrow> request \<Rightarrow> pstr \<Rightarrow> response io" where
  "create_aname_record W E = create_record W E M_ANAME"

definition edit_aname_record :: "web \<Rightarrow> ext \<Rightarrow> request \<Rightarrow> pstr \<Rightarrow> response io" where
  "edit_aname_record W E = edit_record W E M_ANAME"

definition delete_aname_record :: "web \<Rightarrow> ext \<Rightarrow> request \<Rightarrow> pstr \<Rightarrow> response io" where
  "delete_aname_record W E = delete_record W E M_ANAME"

definition create_redirect_record :: "web \<Rightarrow> ext \<Rightarrow> request \<Rightarrow> pstr \<Rightarrow> response io" where
  "create_redirect_record W E = create_record W E M_Redirect"

definition edit_redirect_record :: "web \<Rightarrow> ext \<Rightarrow> request \<Rightarrow> pstr \<Rightarrow> response io" where
  "edit_redirect_record W E = edit_record W E M_Redirect"

definition delete_redirect_record :: "web \<Rightarrow> ext \<Rightarrow> request \<Rightarrow> pstr \<Rightarrow> response io" where
  "delete_redirect_record W E = delete_record W E M_Redirect"

definition create_cname_record :: "web \<Rightarrow> ext \<Rightarrow> request \<Rightarrow> pstr \<Rightarrow> response io" where
  "create_cname_record W E = create_record W E M_CNAME"

definition edit_cname_record :: "web \<Rightarrow> ext \<Rightarrow> request \<Rightarrow> pstr \<Rightarrow> response io" where
  "edit_cname_record W E = edit_record W E M_CNAME"

definition delete_cname_record :: "web \<Rightarrow> ext \<Rightarrow> request \<Rightarrow> pstr \<Rightarrow> response io" where
  "delete_cname_record W E = delete_record W E M_CNAME"

definition create_mx_record :: "web \<Rightarrow> ext \<Rightarrow> request \<Rightarrow> pstr \<Rightarrow> response io" where
  "create_mx_record W E = create_record W E M_MX"

definition edit_mx_record :: "web \<Rightarrow> ext \<Rightarrow> request \<Rightarrow> pstr \<Rightarrow> response io" where
  "edit_mx_record W E = edit_record W E M_MX"

definition delete_mx_record :: "web \<Rightarrow> ext \<Rightarrow> request \<Rightarrow> pstr \<Rightarrow> response io" where
  "delete_mx_record W E = delete_record W E M_MX"

definition create_ns_record :: "web \<Rightarrow> ext \<Rightarrow> request \<Rightarrow> pstr \<Rightarrow> response io" where
  "create_ns_record W E = create_record W E M_NS"

definition edit_ns_record :: "web \<Rightarrow> ext \<Rightarrow> request \<Rightarrow> pstr \<Rightarrow> response io" where
  "edit_ns_record W E = edit_record W E M_NS"

definition delete_ns_record :: "web \<Rightarrow> ext \<Rightarrow> request \<Rightarrow> pstr \<Rightarrow> response io" where
  "delete_ns_record W E = delete_record W E M_NS"

definition create_txt_record :: "web \<Rightarrow> ext \<Rightarrow> request \<Rightarrow> pstr \<Rightarrow> response io" where
  "create_txt_record W E = create_record W E M_TXT"

definition edit_txt_record :: "web \<Rightarrow> ext \<Rightarrow> request \<Rightarrow> pstr \<Rightarrow> response io" where
  "edit_txt_record W E = edit_record W E M_TXT"

definition delete_txt_record :: "web \<Rightarrow> ext \<Rightarrow> request \<Rightarrow> pstr \<Rightarrow> response io" where
  "delete_txt_record W E = delete_record W E M_TXT"

definition create_srv_record :: "web \<Rightarrow> ext \<Rightarrow> request \<Rightarrow> pstr \<Rightarrow> response io" where
  "create_srv_record W E = create_record W E M_SRV"

definition edit_srv_record :: "web \<Rightarrow> ext \<Rightarrow> request \<Rightarrow> pstr \<Rightarrow> response io" where
  "edit_srv_record W E = edit_record W E M_SRV"

definition delete_srv_record :: "web \<Rightarrow> ext \<Rightarrow> request \<Rightarrow> pstr \<Rightarrow> response io" where
  "delete_srv_record W E = delete_record W E M_SRV"

definition create_caa_record :: "web \<Rightarrow> ext \<Rightarrow> request \<Rightarrow> pstr \<Rightarrow> response io" where
  "create_caa_record W E = create_record W E M_CAA"

definition edit_caa_record :: "web \<Rightarrow> ext \<Rightarrow> request \<Rightarrow> pstr \<Rightarrow> response io" where
  "edit_caa_record W E = edit_record W E M_CAA"

definition delete_caa_record :: "web \<Rightarrow> ext \<Rightarrow> request \<Rightarrow> pstr \<Rightarrow> response io" where
  "delete_caa_record W E = delete_record W E M_CAA"

definition create_naptr_record :: "web \<Rightarrow> ext \<Rightarrow> request \<Rightarrow> pstr \<Rightarrow> response io" where
  "create_naptr_record W E = create_record W E M_NAPTR"

definition edit_naptr_record :: "web \<Rightarrow> ext \<Rightarrow> request \<Rightarrow> pstr \<Rightarrow> response io" where
  "edit_naptr_record W E = edit_record W E M_NAPTR"

definition delete_naptr_record :: "web \<Rightarrow> ext \<Rightarrow> request \<Rightarrow> pstr \<Rightarrow> response io" where
  "delete_naptr_record W E = delete_record W E M_NAPTR"

definition create_sshfp_record :: "web \<Rightarrow> ext \<Rightarrow> request \<Rightarrow> pstr \<Rightarrow> response io" where
  "create_sshfp_record W E = create_record W E M_SSHFP"

definition edit_sshfp_record :: "web \<Rightarrow> ext \<Rightarrow> request \<Rightarrow> pstr \<Rightarrow> response io" where
  "edit_sshfp_record W E = edit_record W E M_SSHFP"

definition delete_sshfp_record :: "web \<Rightarrow> ext \<Rightarrow> request \<Rightarrow> pstr \<Rightarrow> response io" where
  "delete_sshfp_record W E = delete_record W E M_SSHFP"

definition create_ds_record :: "web \<Rightarrow> ext \<Rightarrow> request \<Rightarrow> pstr \<Rightarrow> response io" where
  "create_ds_record W E = create_record W E M_DS"

definition edit_ds_record :: "web \<Rightarrow> ext \<Rightarrow> request \<Rightarrow> pstr \<Rightarrow> response io" where
  "edit_ds_record W E = edit_record W E M_DS"

definition delete_ds_record :: "web \<Rightarrow> ext \<Rightarrow> request \<Rightarrow> pstr \<Rightarrow> response io" where
  "delete_ds_record W E = delete_record W E M_DS"

definition create_dnskey_record :: "web \<Rightarrow> ext \<Rightarrow> request \<Rightarrow> pstr \<Rightarrow> response io" where
  "create_dnskey_record W E = create_record W E M_DNSKEY"

definition edit_dnskey_record :: "web \<Rightarrow> ext \<Rightarrow> request \<Rightarrow> pstr \<Rightarrow> response io" where
  "edit_dnskey_record W E = edit_record W E M_DNSKEY"

definition delete_dnskey_record :: "web \<Rightarrow> ext \<Rightarrow> request \<Rightarrow> pstr \<Rightarrow> response io" where
  "delete_dnskey_record W E = delete_record W E M_DNSKEY"

definition create_loc_record :: "web \<Rightarrow> ext \<Rightarrow> request \<Rightarrow> pstr \<Rightarrow> response io" where
  "create_loc_record W E = create_record W E M_LOC"

definition edit_loc_record :: "web \<Rightarrow> ext \<Rightarrow> request \<Rightarrow> pstr \<Rightarrow> response io" where
  "edit_loc_record W E = edit_record W E M_LOC"

definition delete_loc_record :: "web \<Rightarrow> ext \<Rightarrow> request \<Rightarrow> pstr \<Rightarrow> response io" where
  "delete_loc_record W E = delete_record W E M_LOC"

definition create_hinfo_record :: "web \<Rightarrow> ext \<Rightarrow> request \<Rightarrow> pstr \<Rightarrow> response io" where
  "create_hinfo_record W E = create_record W E M_HINFO"

definition edit_hinfo_record :: "web \<Rightarrow> ext \<Rightarrow> request \<Rightarrow> pstr \<Rightarrow> response io" where
  "edit_hinfo_record W E = edit_record W E M_HINFO"

definition delete_hinfo_record :: "web \<Rightarrow> ext \<Rightarrow> request \<Rightarrow> pstr \<Rightarrow> response io" where
  "delete_hinfo_record W E = delete_record W E M_HINFO"

definition create_rp_record :: "web \<Rightarrow> ext \<Rightarrow> request \<Rightarrow> pstr \<Rightarrow> response io" where
  "create_rp_record W E = create_record W E M_RP"

definition edit_rp_record :: "web \<Rightarrow> ext \<Rightarrow> request \<Rightarrow> pstr \<Rightarrow> response io" where
  "edit_rp_record W E = edit_record W E M_RP"

definition delete_rp_record :: "web \<Rightarrow> ext \<Rightarrow> request \<Rightarrow> pstr \<Rightarrow> response io" where
  "delete_rp_record W E = delete_record W E M_RP"

definition create_https_record :: "web \<Rightarrow> ext \<Rightarrow> request \<Rightarrow> pstr \<Rightarrow> response io" where
  "create_https_record W E = create_record W E M_HTTPS"

definition edit_https_record :: "web \<Rightarrow> ext \<Rightarrow> request \<Rightarrow> pstr \<Rightarrow> response io" where
  "edit_https_record W E = edit_record W E M_HTTPS"

definition delete_https_record :: "web \<Rightarrow> ext \<Rightarrow> request \<Rightarrow> pstr \<Rightarrow> response io" where
  "delete_https_record W E = delete_record W E M_HTTPS"

lemmas record_view_defs =
  create_address_record_def edit_address_record_def delete_address_record_def
  edit_dynamic_address_record_def delete_dynamic_address_record_def
  create_aname_record_def edit_aname_record_def delete_aname_record_def
  create_redirect_record_def edit_redirect_record_def delete_redirect_record_def
  create_cname_record_def edit_cname_record_def delete_cname_record_def
  create_mx_record_def edit_mx_record_def delete_mx_record_def
  create_ns_record_def edit_ns_record_def delete_ns_record_def
  create_txt_record_def edit_txt_record_def delete_txt_record_def
  create_srv_record_def edit_srv_record_def delete_srv_record_def
  create_caa_record_def edit_caa_record_def delete_caa_record_def
  create_naptr_record_def edit_naptr_record_def delete_naptr_record_def
  create_sshfp_record_def edit_sshfp_record_def delete_sshfp_record_def
  create_ds_record_def edit_ds_record_def delete_ds_record_def
  create_dnskey_record_def edit_dnskey_record_def delete_dnskey_record_def
  create_loc_record_def edit_loc_record_def delete_loc_record_def
  create_hinfo_record_def edit_hinfo_record_def delete_hinfo_record_def
  create_rp_record_def edit_rp_record_def delete_rp_record_def
  create_https_record_def edit_https_record_def delete_https_record_def


section \<open>CDS and CDNSKEY\<close>

definition disable_zone_cds :: "web \<Rightarrow> ext \<Rightarrow> request \<Rightarrow> pstr \<Rightarrow> response io" where
  "disable_zone_cds W E req zone_id =
     zone_view W E (str ''edit'') req zone_id (\<lambda>u z.
       if is_post req \<and> post_is req ''disable'' then
         seq (save_zone_now E (z\<lparr>z_cds_disable := True\<rparr>)) (ret (RedirectTo (str ''edit_zone_cds'') [z_id z]))
       else ret (Render (str ''dns_grpc/fzone/disable_cds.html'')))"

definition enable_zone_cds :: "web \<Rightarrow> ext \<Rightarrow> request \<Rightarrow> pstr \<Rightarrow> response io" where
  "enable_zone_cds W E req zone_id =
     zone_view W E (str ''edit'') req zone_id (\<lambda>u z.
       seq (save_zone_now E (z\<lparr>z_cds_disable := False\<rparr>)) (ret (RedirectTo (str ''edit_zone_cds'') [z_id z])))"

definition create_zone_cds :: "web \<Rightarrow> ext \<Rightarrow> request \<Rightarrow> pstr \<Rightarrow> response io" where
  "create_zone_cds W E req zone_id =
     zone_view W E (str ''edit'') req zone_id (\<lambda>u z.
       bind_act (new_id E) (\<lambda>i.
         if is_post req then
           bind_act (lift_res (AdditionalCDSForm W (form_data req) i (z_id z))) (\<lambda>f. case f of
             Some c \<Rightarrow>
               seq (save_zone_now E z) (seq (AdditionalCDS_save c) (ret (RedirectTo (str ''edit_zone_cds'') [z_id z])))
           | None \<Rightarrow> ret (Render (str ''dns_grpc/fzone/edit_record.html'')))
         else ret (Render (str ''dns_grpc/fzone/edit_record.html''))))"

definition create_zone_cdnskey :: "web \<Rightarrow> ext \<Rightarrow> request \<Rightarrow> pstr \<Rightarrow> response io" where
  "create_zone_cdnskey W E req zone_id =
     zone_view W E (str ''edit'') req zone_id (\<lambda>u z.
       bind_act (new_id E) (\<lambda>i.
         if is_post req then
           bind_act (lift_res (AdditionalCDNSKEYForm W (form_data req) i (z_id z))) (\<lambda>f. case f of
             Some c \<Rightarrow>
               seq (save_zone_now E z)
                 (seq (AdditionalCDNSKEY_save c) (ret (RedirectTo (str ''edit_zone_cds'') [z_id z])))
           | None \<Rightarrow> ret (Render (str ''dns_grpc/fzone/edit_record.html'')))
         else ret (Render (str ''dns_grpc/fzone/edit_record.html''))))"

text \<open>The two deletions look both objects up first and refuse a row of another zone.\<close>

definition zone_row_view ::
  "web \<Rightarrow> ext \<Rightarrow> ('r \<Rightarrow> pstr) \<Rightarrow> (world \<Rightarrow> 'r list) \<Rightarrow> ('r \<Rightarrow> pstr) \<Rightarrow> request \<Rightarrow> pstr \<Rightarrow> pstr
     \<Rightarrow> (dnszone \<Rightarrow> 'r \<Rightarrow> response io) \<Rightarrow> response io" where
  "zone_row_view W E key rows zone_of req zone_id row_id k =
     login_required req (\<lambda>u.
       bind_act (lift_res (access_token W u)) (\<lambda>tok.
       bind_act (get_or_404 E z_id dnszones zone_id) (\<lambda>z.
       bind_act (get_or_404 E key rows row_id) (\<lambda>r.
       seq (require (DNSZone_has_scope W tok z (str ''edit'')))
         (if zone_of r \<noteq> z_id z then throw PermissionDenied else k z r)))))"

definition delete_zone_cds :: "web \<Rightarrow> ext \<Rightarrow> request \<Rightarrow> pstr \<Rightarrow> pstr \<Rightarrow> response io" where
  "delete_zone_cds W E req zone_id row_id =
     zone_row_view W E cds_id f_cds cds_zone req zone_id row_id (\<lambda>z c.
       if is_post req \<and> post_is req ''delete'' then
         seq (save_zone_now E z) (seq (AdditionalCDS_delete c) (ret (RedirectTo (str ''edit_zone_cds'') [z_id z])))
       else ret (Render (str ''dns_grpc/fzone/delete_cds.html'')))"

definition delete_zone_cdnskey :: "web \<Rightarrow> ext \<Rightarrow> request \<Rightarrow> pstr \<Rightarrow> pstr \<Rightarrow> response io" where
  "delete_zone_cdnskey W E req zone_id row_id =
     zone_row_view W E ck_id f_cdnskey ck_zone req zone_id row_id (\<lambda>z c.
       if is_post req \<and> post_is req ''delete'' then
         seq (save_zone_now E z) (seq (AdditionalCDNSKEY_delete c) (ret (RedirectTo (str ''edit_zone_cds'') [z_id z])))
       else ret (Render (str ''dns_grpc/fzone/delete_cds.html'')))"

end
