(* ===== verification/Key_Views.thy ===== *)
theory Key_Views
  imports Forward_Views
begin

text \<open>
  The views of \<^verbatim>\<open>views/fzone.py\<close> for keys, access lists, notify targets and custom name servers. The
  rows other than custom name servers use Django's own \<^verbatim>\<open>save\<close> and \<^verbatim>\<open>delete\<close>, and none of these views
  touches the zone.
\<close>

section \<open>Keys for dynamic update\<close>

definition UpdateSecret_save :: "update_secret \<Rightarrow> unit io" where
  "UpdateSecret_save s = modify (\<lambda>w. w\<lparr>update_secrets := upsert us_id s (update_secrets w)\<rparr>)"

definition UpdateSecret_delete :: "update_secret \<Rightarrow> unit io" where
  "UpdateSecret_delete s = modify (\<lambda>w. w\<lparr>update_secrets := remove us_id s (update_secrets w)\<rparr>)"

text \<open>\<^verbatim>\<open>make_update_secret\<close>: the default of the column, drawn with the object.\<close>

definition make_update_secret :: "web \<Rightarrow> bytes io" where
  "make_update_secret W = asks (\<lambda>w. token_bytes W (next_uuid w))"

definition edit_zone_tsig :: "web \<Rightarrow> ext \<Rightarrow> request \<Rightarrow> pstr \<Rightarrow> response io" where
  "edit_zone_tsig W E req zone_id =
     zone_view W E (str ''edit'') req zone_id (\<lambda>u z. ret (Render (str ''dns_grpc/fzone/zone_tsig.html'')))"

definition create_zone_secret :: "web \<Rightarrow> ext \<Rightarrow> request \<Rightarrow> pstr \<Rightarrow> response io" where
  "create_zone_secret W E req zone_id =
     zone_view W E (str ''edit'') req zone_id (\<lambda>u z.
       bind_act (new_id E) (\<lambda>i. bind_act (make_update_secret W) (\<lambda>key.
         if is_post req then
           (case UpdateSecretForm W (form_data req)
                   \<lparr>us_id = i, us_zone = z_id z, us_name = [], us_type = [], restrict_to = str ''@'', secret = key\<rparr> of
              Some s \<Rightarrow> seq (UpdateSecret_save s) (ret (RedirectTo (str ''edit_zone_secrets'') [z_id z]))
            | None \<Rightarrow> ret (Render (str ''dns_grpc/fzone/edit_record.html'')))
         else ret (Render (str ''dns_grpc/fzone/edit_record.html'')))))"

definition edit_zone_secret :: "web \<Rightarrow> ext \<Rightarrow> request \<Rightarrow> pstr \<Rightarrow> response io" where
  "edit_zone_secret W E req record_id =
     row_view W E us_id update_secrets us_zone req record_id (\<lambda>z r.
       if is_post req then
         (case UpdateSecretForm W (form_data req) r of
            Some r' \<Rightarrow> seq (UpdateSecret_save r') (ret (RedirectTo (str ''edit_zone_secrets'') [z_id z]))
          | None \<Rightarrow> ret (Render (str ''dns_grpc/fzone/edit_record.html'')))
       else ret (Render (str ''dns_grpc/fzone/edit_record.html'')))"

definition delete_zone_secret :: "web \<Rightarrow> ext \<Rightarrow> request \<Rightarrow> pstr \<Rightarrow> response io" where
  "delete_zone_secret W E req record_id =
     row_view W E us_id update_secrets us_zone req record_id (\<lambda>z r.
       if is_post req \<and> post_is req ''delete'' then
         seq (UpdateSecret_delete r) (ret (RedirectTo (str ''edit_zone_secrets'') [z_id z]))
       else ret (Render (str ''dns_grpc/fzone/delete_record.html'')))"


section \<open>Zone transfer: keys, access lists, notify targets\<close>

definition AXFRSecret_save :: "axfr_secret \<Rightarrow> unit io" where
  "AXFRSecret_save s = modify (\<lambda>w. w\<lparr>f_axfr_secrets := upsert as_id s (f_axfr_secrets w)\<rparr>)"

definition AXFRSecret_delete :: "axfr_secret \<Rightarrow> unit io" where
  "AXFRSecret_delete s = modify (\<lambda>w. w\<lparr>f_axfr_secrets := remove as_id s (f_axfr_secrets w)\<rparr>)"

definition AXFRIPACL_save :: "axfr_acl \<Rightarrow> unit io" where
  "AXFRIPACL_save a = modify (\<lambda>w. w\<lparr>f_axfr_acls := upsert acl_id a (f_axfr_acls w)\<rparr>)"

definition AXFRIPACL_delete :: "axfr_acl \<Rightarrow> unit io" where
  "AXFRIPACL_delete a = modify (\<lambda>w. w\<lparr>f_axfr_acls := remove acl_id a (f_axfr_acls w)\<rparr>)"

definition AXFRNotify_save :: "axfr_notify \<Rightarrow> unit io" where
  "AXFRNotify_save n = modify (\<lambda>w. w\<lparr>f_axfr_notifies := upsert an_id n (f_axfr_notifies w)\<rparr>)"

definition AXFRNotify_delete :: "axfr_notify \<Rightarrow> unit io" where
  "AXFRNotify_delete n = modify (\<lambda>w. w\<lparr>f_axfr_notifies := remove an_id n (f_axfr_notifies w)\<rparr>)"

definition edit_zone_axfr :: "web \<Rightarrow> ext \<Rightarrow> request \<Rightarrow> pstr \<Rightarrow> response io" where
  "edit_zone_axfr W E req zone_id =
     zone_view W E (str ''edit'') req zone_id (\<lambda>u z. ret (Render (str ''dns_grpc/fzone/zone_axfr.html'')))"

definition create_zone_axfr_secret :: "web \<Rightarrow> ext \<Rightarrow> request \<Rightarrow> pstr \<Rightarrow> response io" where
  "create_zone_axfr_secret W E req zone_id =
     zone_view W E (str ''edit'') req zone_id (\<lambda>u z.
       bind_act (new_id E) (\<lambda>i. bind_act (make_update_secret W) (\<lambda>key.
         if is_post req then
           (case AXFRSecretForm W (form_data req) \<lparr>as_id = i, as_zone = z_id z, as_name = [], as_secret = key, as_last_used = None\<rparr> of
              Some s \<Rightarrow> seq (AXFRSecret_save s) (ret (RedirectTo (str ''edit_zone_axfr'') [z_id z]))
            | None \<Rightarrow> ret (Render (str ''dns_grpc/fzone/edit_record.html'')))
         else ret (Render (str ''dns_grpc/fzone/edit_record.html'')))))"

definition edit_zone_axfr_secret :: "web \<Rightarrow> ext \<Rightarrow> request \<Rightarrow> pstr \<Rightarrow> response io" where
  "edit_zone_axfr_secret W E req record_id =
     row_view W E as_id f_axfr_secrets as_zone req record_id (\<lambda>z r.
       if is_post req then
         (case AXFRSecretForm W (form_data req) r of
            Some r' \<Rightarrow> seq (AXFRSecret_save r') (ret (RedirectTo (str ''edit_zone_axfr'') [z_id z]))
          | None \<Rightarrow> ret (Render (str ''dns_grpc/fzone/edit_record.html'')))
       else ret (Render (str ''dns_grpc/fzone/edit_record.html'')))"

definition delete_zone_axfr_secret :: "web \<Rightarrow> ext \<Rightarrow> request \<Rightarrow> pstr \<Rightarrow> response io" where
  "delete_zone_axfr_secret W E req record_id =
     row_view W E as_id f_axfr_secrets as_zone req record_id (\<lambda>z r.
       if is_post req \<and> post_is req ''delete'' then
         seq (AXFRSecret_delete r) (ret (RedirectTo (str ''edit_zone_axfr'') [z_id z]))
       else ret (Render (str ''dns_grpc/fzone/delete_record.html'')))"

definition create_zone_axfr_ip_acl :: "web \<Rightarrow> ext \<Rightarrow> request \<Rightarrow> pstr \<Rightarrow> response io" where
  "create_zone_axfr_ip_acl W E req zone_id =
     zone_view W E (str ''edit'') req zone_id (\<lambda>u z.
       bind_act (new_id E) (\<lambda>i.
         if is_post req then
           bind_act (lift_res (AXFRIPAClForm W (form_data req) i (z_id z) None)) (\<lambda>f. case f of
             Some a \<Rightarrow> seq (AXFRIPACL_save a) (ret (RedirectTo (str ''edit_zone_axfr'') [z_id z]))
           | None \<Rightarrow> ret (Render (str ''dns_grpc/fzone/edit_record.html'')))
         else ret (Render (str ''dns_grpc/fzone/edit_record.html''))))"

definition edit_zone_axfr_ip_acl :: "web \<Rightarrow> ext \<Rightarrow> request \<Rightarrow> pstr \<Rightarrow> response io" where
  "edit_zone_axfr_ip_acl W E req record_id =
     row_view W E acl_id f_axfr_acls acl_zone req record_id (\<lambda>z r.
       if is_post req then
         bind_act (lift_res (AXFRIPAClForm W (form_data req) (acl_id r) (acl_zone r) (acl_last_used r))) (\<lambda>f. case f of
           Some a \<Rightarrow> seq (AXFRIPACL_save a) (ret (RedirectTo (str ''edit_zone_axfr'') [z_id z]))
         | None \<Rightarrow> ret (Render (str ''dns_grpc/fzone/edit_record.html'')))
       else ret (Render (str ''dns_grpc/fzone/edit_record.html'')))"

definition delete_zone_axfr_ip_acl :: "web \<Rightarrow> ext \<Rightarrow> request \<Rightarrow> pstr \<Rightarrow> response io" where
  "delete_zone_axfr_ip_acl W E req record_id =
     row_view W E acl_id f_axfr_acls acl_zone req record_id (\<lambda>z r.
       if is_post req \<and> post_is req ''delete'' then
         seq (AXFRIPACL_delete r) (ret (RedirectTo (str ''edit_zone_axfr'') [z_id z]))
       else ret (Render (str ''dns_grpc/fzone/delete_record.html'')))"

definition create_zone_axfr_notify :: "web \<Rightarrow> ext \<Rightarrow> request \<Rightarrow> pstr \<Rightarrow> response io" where
  "create_zone_axfr_notify W E req zone_id =
     zone_view W E (str ''edit'') req zone_id (\<lambda>u z.
       bind_act (new_id E) (\<lambda>i.
         if is_post req then
           bind_act (lift_res (AXFRNotifyForm W (form_data req) i (z_id z))) (\<lambda>f. case f of
             Some n \<Rightarrow> seq (AXFRNotify_save n) (ret (RedirectTo (str ''edit_zone_axfr'') [z_id z]))
           | None \<Rightarrow> ret (Render (str ''dns_grpc/fzone/edit_record.html'')))
         else ret (Render (str ''dns_grpc/fzone/edit_record.html''))))"

definition edit_zone_axfr_notify :: "web \<Rightarrow> ext \<Rightarrow> request \<Rightarrow> pstr \<Rightarrow> response io" where
  "edit_zone_axfr_notify W E req record_id =
     row_view W E an_id f_axfr_notifies an_zone req record_id (\<lambda>z r.
       if is_post req then
         bind_act (lift_res (AXFRNotifyForm W (form_data req) (an_id r) (an_zone r))) (\<lambda>f. case f of
           Some n \<Rightarrow> seq (AXFRNotify_save n) (ret (RedirectTo (str ''edit_zone_axfr'') [z_id z]))
         | None \<Rightarrow> ret (Render (str ''dns_grpc/fzone/edit_record.html'')))
       else ret (Render (str ''dns_grpc/fzone/edit_record.html'')))"

definition delete_zone_axfr_notify :: "web \<Rightarrow> ext \<Rightarrow> request \<Rightarrow> pstr \<Rightarrow> response io" where
  "delete_zone_axfr_notify W E req record_id =
     row_view W E an_id f_axfr_notifies an_zone req record_id (\<lambda>z r.
       if is_post req \<and> post_is req ''delete'' then
         seq (AXFRNotify_delete r) (ret (RedirectTo (str ''edit_zone_axfr'') [z_id z]))
       else ret (Render (str ''dns_grpc/fzone/delete_record.html'')))"


section \<open>Custom name servers\<close>

definition edit_zone_custom_ns :: "web \<Rightarrow> ext \<Rightarrow> request \<Rightarrow> pstr \<Rightarrow> response io" where
  "edit_zone_custom_ns W E req zone_id =
     zone_view W E (str ''edit'') req zone_id (\<lambda>u z. ret (Render (str ''dns_grpc/fzone/zone_ns.html'')))"

definition create_zone_custom_ns :: "web \<Rightarrow> ext \<Rightarrow> request \<Rightarrow> pstr \<Rightarrow> response io" where
  "create_zone_custom_ns W E req zone_id =
     zone_view W E (str ''edit'') req zone_id (\<lambda>u z.
       bind_act (new_id E) (\<lambda>i.
         if is_post req then
           (case CustomNSForm W (form_data req) i (z_id z) of
              Some n \<Rightarrow> seq (CustomNS_save E n) (ret (RedirectTo (str ''edit_custom_ns'') [z_id z]))
            | None \<Rightarrow> ret (Render (str ''dns_grpc/fzone/edit_record.html'')))
         else ret (Render (str ''dns_grpc/fzone/edit_record.html''))))"

definition edit_zone_custom_ns_record :: "web \<Rightarrow> ext \<Rightarrow> request \<Rightarrow> pstr \<Rightarrow> response io" where
  "edit_zone_custom_ns_record W E req record_id =
     row_view W E ns_id f_custom_ns ns_zone req record_id (\<lambda>z r.
       if is_post req then
         (case CustomNSForm W (form_data req) (ns_id r) (ns_zone r) of
            Some n \<Rightarrow> seq (CustomNS_save E n) (ret (RedirectTo (str ''edit_custom_ns'') [z_id z]))
          | None \<Rightarrow> ret (Render (str ''dns_grpc/fzone/edit_record.html'')))
       else ret (Render (str ''dns_grpc/fzone/edit_record.html'')))"

definition delete_zone_custom_ns_record :: "web \<Rightarrow> ext \<Rightarrow> request \<Rightarrow> pstr \<Rightarrow> response io" where
  "delete_zone_custom_ns_record W E req record_id =
     row_view W E ns_id f_custom_ns ns_zone req record_id (\<lambda>z r.
       if is_post req \<and> post_is req ''delete'' then
         seq (CustomNS_delete r) (ret (RedirectTo (str ''edit_custom_ns'') [z_id z]))
       else ret (Render (str ''dns_grpc/fzone/delete_custom_ns.html'')))"

end
