(* ===== verification/Zone_Views.thy ===== *)
theory Zone_Views
  imports Key_Views Dnssec_Key Arpa
begin

text \<open>
  The views of \<^verbatim>\<open>views/fzone.py\<close> that act on a whole zone: creating it (for a charge, or free of charge
  for a domain of the same company), deleting it, importing and exporting its records, and the
  assistants that write groups of records. The application's own access token, which calls to other
  services carry, is taken as part of the call.
\<close>

section \<open>Pages\<close>

definition DNSZone_get_object_list :: "web \<Rightarrow> pstr \<Rightarrow> pstr \<Rightarrow> dnszone list io" where
  "DNSZone_get_object_list W tok action =
     bind_act (lift_res (object_ids W tok (str ''zone'') action)) (\<lambda>ids.
       asks (\<lambda>w. [z \<leftarrow> dnszones w. z_resource_id z \<in> Some ` set ids]))"

text \<open>\<^verbatim>\<open>request.user.account\<close>\<close>

definition user_account :: "user \<Rightarrow> account io" where
  "user_account u = asks_res (\<lambda>w. case account_of w (username u) of None \<Rightarrow> Inl DoesNotExist | Some a \<Rightarrow> Inr a)"

text \<open>The list of the zones of a user, with the notices about the subscription.\<close>

definition zone_list :: "string \<Rightarrow> user \<Rightarrow> pstr list \<Rightarrow> response io" where
  "zone_list template u ids =
     bind_act (user_account u) (\<lambda>a.
       ret (ZoneList (str template) ids (ids \<noteq> [] \<and> truthy (subscription_id a) = None) (ids \<noteq> [] \<and> \<not> subscription_active a)))"

definition zones :: "web \<Rightarrow> request \<Rightarrow> response io" where
  "zones W req =
     login_required req (\<lambda>u.
       bind_act (lift_res (access_token W u)) (\<lambda>tok.
       bind_act (DNSZone_get_object_list W tok (str ''view'')) (\<lambda>user_zones.
         zone_list ''dns_grpc/fzone/zones.html'' u (map z_id user_zones))))"

definition create_domain_zone_list :: "web \<Rightarrow> ext \<Rightarrow> request \<Rightarrow> response io" where
  "create_domain_zone_list W E req =
     login_required req (\<lambda>u.
       bind_act (http_call E (DomainsAll (username u))) (\<lambda>r.
         if status r = 404 then ret (DomainList [])
         else seq (lift_res (raise_for_status r))
           (bind_act (asks (\<lambda>w. map (\<lambda>d. (d, valid_zone E w d)) (resp_domains W r))) (\<lambda>ds. ret (DomainList ds)))))"

definition edit_zone :: "web \<Rightarrow> ext \<Rightarrow> request \<Rightarrow> pstr \<Rightarrow> response io" where
  "edit_zone W E req zone_id =
     zone_view W E (str ''edit'') req zone_id (\<lambda>u z.
       bind_act (lift_res (make_zone_digest E (DNSLabel E (zone_root z)))) (\<lambda>(digest, tag).
       seq (lift_res (get_dnskey E))
         (seq (lift_res (resource_owner E (z_resource_id z)))
           (bind_act (pop_notice req) (\<lambda>notice.
             bind_act (asks (\<lambda>w. ZonePage digest tag notice (check_spf z w) (check_dmarc z w))) ret)))))"

definition edit_zone_cds :: "web \<Rightarrow> ext \<Rightarrow> request \<Rightarrow> pstr \<Rightarrow> response io" where
  "edit_zone_cds W E req zone_id =
     zone_view W E (str ''edit'') req zone_id (\<lambda>u z.
       seq (lift_res (make_zone_digest E (DNSLabel E (zone_root z))))
         (seq (lift_res (get_dnskey E)) (ret (Render (str ''dns_grpc/fzone/zone_cds.html'')))))"


section \<open>Subscription, creating and deleting a zone\<close>

definition setup_subscription :: "web \<Rightarrow> ext \<Rightarrow> request \<Rightarrow> response io" where
  "setup_subscription W E req =
     login_required req (\<lambda>u.
       bind_act (user_account u) (\<lambda>a.
         if truthy (subscription_id a) \<noteq> None then ret (RedirectTo (str ''zones'') [])
         else bind_act (log_usage E u 0 True False (Some (external_url W (str ''zones'')))) (\<lambda>usage.
           case usage of
             Error \<Rightarrow> ret (Render (str ''dns_grpc/fzone/setup_subscription.html''))
           | Redirect uri \<Rightarrow> ret (RedirectUrl uri)
           | Ok \<Rightarrow> ret (RedirectTo (str ''zones'') []))))"

definition new_dnszone :: "pstr \<Rightarrow> pstr \<Rightarrow> nat \<Rightarrow> dnszone" where
  "new_dnszone i n t = \<lparr>z_id = i, zone_root = n, z_last_modified = t, z_charged = True, z_active = False,
     z_num_check_fails = 0, z_resource_id = None, z_cds_disable = False\<rparr>"

definition redirect_after :: "usage \<Rightarrow> response \<Rightarrow> response" where
  "redirect_after usage other = (case usage of Redirect uri \<Rightarrow> RedirectUrl uri | _ \<Rightarrow> other)"

definition create_zone :: "web \<Rightarrow> ext \<Rightarrow> request \<Rightarrow> response io" where
  "create_zone W E req =
     login_required req (\<lambda>u.
       bind_act (lift_res (access_token W u)) (\<lambda>tok.
       seq (require (DNSZone_has_class_scope W tok (str ''create'')))
         (if \<not> is_post req then ret (Render (str ''dns_grpc/fzone/create_zone.html''))
          else case zone_fields W (form_data req) of
            None \<Rightarrow> ret (Render (str ''dns_grpc/fzone/create_zone.html''))
          | Some text \<Rightarrow>
              (let zone_root_txt = lower E text in
               bind_act (asks (\<lambda>w. valid_zone E w zone_root_txt)) (\<lambda>zone_error.
                 if zone_error \<noteq> None then ret (Render (str ''dns_grpc/fzone/create_zone.html''))
                 else bind_act (log_usage E u 1 True False (Some (external_url W (str ''zones'')))) (\<lambda>usage.
                   if usage = Error then ret (Render (str ''dns_grpc/fzone/create_zone.html''))
                   else bind_act (new_id E) (\<lambda>i. bind_act (asks now) (\<lambda>t.
                     let z = new_dnszone i zone_root_txt t in
                     seq (DNSZone_save E z) (seq (setup_initial_records E (lowered E z))
                       (seq (modify (delay (AddFzone i)))
                          (ret (redirect_after usage (RedirectTo (str ''edit_zone'') [i])))))))))))))"

text \<open>\<^verbatim>\<open>request.session["zone_notice"] = ...\<close>\<close>

definition DNS_UPDATED :: pstr where
  "DNS_UPDATED = str ''We've updated the DNS servers for your domain to point to HexDNS. ''
     @ str ''It may take up to 24 hours for the updates to propagate.''"

definition notice_updated :: "request \<Rightarrow> unit io" where
  "notice_updated req = set_session req (\<lambda>s. s\<lparr>zone_notice := Some DNS_UPDATED\<rparr>)"

definition create_domains_zone :: "web \<Rightarrow> ext \<Rightarrow> request \<Rightarrow> response io" where
  "create_domains_zone W E req =
     login_required req (\<lambda>u.
       case jwt_decode W (map_of (query req) (str ''domain_token'')) of
         None \<Rightarrow> ret (Render (str ''dns_grpc/error.html''))
       | Some dt \<Rightarrow>
           if username u \<noteq> dt_sub dt then ret (Render (str ''dns_grpc/error.html''))
           else case dt_domain_id dt of
             None \<Rightarrow> throw KeyError
           | Some domain_id \<Rightarrow>
               bind_act (http_call E (SetDns domain_id)) (\<lambda>r.
               seq (lift_res (raise_for_status r))
                 (bind_act (asks (\<lambda>w. find (\<lambda>z. zone_root z = dt_domain dt) (dnszones w))) (\<lambda>existing.
                    case existing of
                      Some z \<Rightarrow>
                        seq (DNSZone_save E (z\<lparr>z_active := True\<rparr>)) (seq (notice_updated req) (ret (RedirectTo (str ''edit_zone'') [z_id z])))
                    | None \<Rightarrow>
                        bind_act (asks (\<lambda>w. valid_zone E w (lower E (dt_domain dt)))) (\<lambda>zone_error.
                          if zone_error \<noteq> None then ret (Render (str ''dns_grpc/error.html''))
                          else bind_act (log_usage E u 0 True False (Some (external_url W (str ''zones'')))) (\<lambda>usage.
                            if usage = Error then ret (Render (str ''dns_grpc/error.html''))
                            else bind_act (new_id E) (\<lambda>i. bind_act (asks now) (\<lambda>t.
                              seq (DNSZone_save E ((new_dnszone i (dt_domain dt) t)\<lparr>z_charged := False, z_active := True\<rparr>))
                                (seq (modify (delay (AddFzone i))) (seq (notice_updated req)
                                   (ret (redirect_after usage (RedirectTo (str ''edit_zone'') [i])))))))))))))"

definition owner_log_usage :: "ext \<Rightarrow> pstr option \<Rightarrow> int \<Rightarrow> bool \<Rightarrow> bool \<Rightarrow> pstr option \<Rightarrow> usage io" where
  "owner_log_usage E rid extra can_reject off_session uri =
     bind_act (lift_res (resource_owner E rid)) (\<lambda>owner. case owner of
       None \<Rightarrow> throw AttributeError
     | Some u \<Rightarrow> log_usage E u extra can_reject off_session uri)"

definition delete_zone :: "web \<Rightarrow> ext \<Rightarrow> request \<Rightarrow> pstr \<Rightarrow> response io" where
  "delete_zone W E req zone_id =
     zone_view W E (str ''delete'') req zone_id (\<lambda>u z.
       if is_post req \<and> post_is req ''delete'' then
         bind_act (owner_log_usage E (z_resource_id z) (if z_charged z then - 1 else 0) True False
                     (Some (external_url W (str ''zones'')))) (\<lambda>usage.
           if usage = Error then ret (Render (str ''dns_grpc/fzone/delete_zone.html''))
           else seq (DNSZone_delete E z) (seq (modify (delay UpdateCatalog))
                  (ret (redirect_after usage (RedirectTo (str ''zones'') [])))))
       else ret (Render (str ''dns_grpc/fzone/delete_zone.html'')))"


section \<open>Import and export\<close>

definition import_zone_file_view :: "web \<Rightarrow> ext \<Rightarrow> request \<Rightarrow> pstr \<Rightarrow> response io" where
  "import_zone_file_view W E req zone_id =
     zone_view W E (str ''edit'') req zone_id (\<lambda>u z.
       if is_post req then
         (case import_fields W (form_data req) of
            None \<Rightarrow> ret (Render (str ''dns_grpc/fzone/edit_record.html''))
          | Some (zone_data, overwrite) \<Rightarrow>
              (\<lambda>w. case import_zone_file E z zone_data overwrite w of
                 (Inl ValueError, w') \<Rightarrow> (Inr (Render (str ''dns_grpc/fzone/edit_record.html'')), w')
               | (Inl e, w') \<Rightarrow> (Inl e, w')
               | (Inr _, w') \<Rightarrow> (Inr (RedirectTo (str ''edit_zone'') [zone_id]), w')))
       else ret (Render (str ''dns_grpc/fzone/edit_record.html'')))"

definition export_models :: "model list" where
  "export_models = [M_Address, M_CNAME, M_MX, M_NS, M_TXT, M_SRV, M_CAA, M_NAPTR, M_DS, M_LOC, M_HINFO, M_RP, M_HTTPS]"

definition opt_line :: "web \<Rightarrow> rr option \<Rightarrow> pstr list" where
  "opt_line W x = (case x of None \<Rightarrow> [] | Some r \<Rightarrow> [rr_to_zone W r])"

text \<open>Both lines of a dynamic address come from \<^verbatim>\<open>to_rr_v4\<close>.\<close>

definition export_dynamic :: "web \<Rightarrow> ext \<Rightarrow> dnszone \<Rightarrow> zrec \<Rightarrow> pstr list res" where
  "export_dynamic W E z r =
     (case body r of
        DynamicAddressRecord v4 v6 pw \<Rightarrow>
          bind_res (DynamicAddressRecord_to_rr_v4 (dns_label E z (record_name r)) (ttl r) v4) (\<lambda>v4_rr.
          bind_res (DynamicAddressRecord_to_rr_v4 (dns_label E z (record_name r)) (ttl r) v4) (\<lambda>v6_rr.
            Inr (opt_line W v4_rr @ opt_line W v6_rr)))
      | _ \<Rightarrow> Inr [])"

definition export_record :: "web \<Rightarrow> ext \<Rightarrow> dnszone \<Rightarrow> zrec \<Rightarrow> pstr res" where
  "export_record W E z r =
     bind_res (zrec_to_rr E (dns_label E z (record_name r)) r) (\<lambda>rr. case rr of
       None \<Rightarrow> Inl AttributeError
     | Some x \<Rightarrow> Inr (rr_to_zone W x))"

definition export_sshfp :: "web \<Rightarrow> ext \<Rightarrow> dnszone \<Rightarrow> zrec \<Rightarrow> pstr list res" where
  "export_sshfp W E z r =
     (case body r of
        SSHFPRecord host_key \<Rightarrow>
          bind_res (SSHFPRecord_to_rrs E (dns_label E z (record_name r)) (ttl r) host_key) (\<lambda>rrs. Inr (map (rr_to_zone W) rrs))
      | _ \<Rightarrow> Inr [])"

definition export_github :: "web \<Rightarrow> ext \<Rightarrow> dnszone \<Rightarrow> zrec \<Rightarrow> pstr list res" where
  "export_github W E z r =
     (let l = dns_label E z (record_name r) in
      bind_res (GitHubPagesRecord_to_rrs_v4 l (ttl r)) (\<lambda>v4.
        Inr (map (rr_to_zone W) v4 @ map (rr_to_zone W) (GitHubPagesRecord_to_rrs_v6 l))))"

definition export_lines :: "web \<Rightarrow> ext \<Rightarrow> dnszone \<Rightarrow> world \<Rightarrow> pstr list res" where
  "export_lines W E z w =
     bind_res (mapM_res (export_dynamic W E z) (zone_set M_DynamicAddress (z_id z) w)) (\<lambda>dyn.
     bind_res (mapM_res (export_record W E z) (concat (map (\<lambda>m. zone_set m (z_id z) w) export_models))) (\<lambda>recs.
     bind_res (mapM_res (export_sshfp W E z) (zone_set M_SSHFP (z_id z) w)) (\<lambda>ssh.
     bind_res (mapM_res (export_github W E z) (zone_set M_GitHubPages (z_id z) w)) (\<lambda>gh.
       Inr ([str ''$ORIGIN '' @ zone_root z]
         @ map (\<lambda>n. rr_to_zone W (mk_rr (DNSLabel E (str ''@'')) QT_NS (RD_NS (DNSLabel E (ns_nameserver n))) 86400))
             [n \<leftarrow> f_custom_ns w. ns_zone n = z_id z]
         @ concat dyn @ recs @ concat ssh @ concat gh)))))"

definition export_zone_file :: "web \<Rightarrow> ext \<Rightarrow> request \<Rightarrow> pstr \<Rightarrow> response io" where
  "export_zone_file W E req zone_id =
     zone_view W E (str ''view'') req zone_id (\<lambda>u z.
       bind_act (asks_res (export_lines W E z)) (\<lambda>ls.
         ret (Attachment (zone_root z @ str ''.txt'') (join [10] ls))))"


section \<open>Assistants\<close>

definition opt_part :: "string \<Rightarrow> pstr option \<Rightarrow> pstr" where
  "opt_part tag x = (case truthy x of None \<Rightarrow> [] | Some s \<Rightarrow> str tag @ s)"

text \<open>A number in a condition is false when it is missing and when it is 0.\<close>

definition num_part :: "string \<Rightarrow> nat option \<Rightarrow> pstr" where
  "num_part tag x = (if num_set x then str tag @ num_str x else [])"

definition dmarc_text :: "dmarc_data \<Rightarrow> pstr" where
  "dmarc_text d = str ''v=DMARC1; p='' @ policy d
     @ opt_part ''; sp='' (subdomain_policy d) @ num_part ''; pct='' (percentage d)
     @ opt_part ''; adkim='' (dkim_alignment d) @ opt_part ''; aspf='' (spf_alignment d)
     @ num_part ''; ri='' (report_interval d) @ opt_part ''; rua='' (aggregate_feedback d)
     @ opt_part ''; ruf='' (failure_feedback d)"

definition generate_dmarc :: "web \<Rightarrow> ext \<Rightarrow> request \<Rightarrow> pstr \<Rightarrow> response io" where
  "generate_dmarc W E req zone_id =
     zone_view W E (str ''edit'') req zone_id (\<lambda>u z.
       if is_post req then
         (case dmarc_fields W (form_data req) of
            None \<Rightarrow> ret (Render (str ''dns_grpc/fzone/edit_record.html''))
          | Some d \<Rightarrow>
              seq (create_txt E z (str ''_dmarc'') (dmarc_text d)) (ret (RedirectTo (str ''edit_zone'') [zone_id])))
       else ret (Render (str ''dns_grpc/fzone/edit_record.html'')))"

definition create_blank_spf_view :: "web \<Rightarrow> ext \<Rightarrow> request \<Rightarrow> pstr \<Rightarrow> response io" where
  "create_blank_spf_view W E req zone_id =
     zone_view W E (str ''edit'') req zone_id (\<lambda>u z.
       seq (create_blank_spf E z) (ret (RedirectTo (str ''edit_zone'') [zone_id])))"

definition create_blank_dmarc_view :: "web \<Rightarrow> ext \<Rightarrow> request \<Rightarrow> pstr \<Rightarrow> response io" where
  "create_blank_dmarc_view W E req zone_id =
     zone_view W E (str ''edit'') req zone_id (\<lambda>u z.
       seq (create_blank_dmarc E z) (ret (RedirectTo (str ''edit_zone'') [zone_id])))"

definition add_record :: "ext \<Rightarrow> dnszone \<Rightarrow> pstr \<Rightarrow> nat \<Rightarrow> body \<Rightarrow> unit io" where
  "add_record E z name l b = bind_act (new_id E) (\<lambda>i. zrec_save E z (new_zrec i z name l b))"

definition add_mx :: "ext \<Rightarrow> dnszone \<Rightarrow> pstr \<Rightarrow> string \<times> nat \<Rightarrow> unit io" where
  "add_mx E z name = (\<lambda>(exchange, priority). add_record E z name 3600 (MXRecord (str exchange) priority))"

definition delete_named :: "model \<Rightarrow> dnszone \<Rightarrow> pstr \<Rightarrow> (zrec \<Rightarrow> bool) \<Rightarrow> unit io" where
  "delete_named m z name P =
     queryset_delete (\<lambda>r. zmodel r = m \<and> r_zone r = z_id z \<and> record_name r = name \<and> P r)"

definition gsuite_mx :: "(string \<times> nat) list" where
  "gsuite_mx = [(''aspmx.l.google.com'', 1), (''alt1.aspmx.l.google.com'', 5), (''alt2.aspmx.l.google.com'', 5),
     (''alt3.aspmx.l.google.com'', 10), (''alt4.aspmx.l.google.com'', 10)]"

definition setup_gsuite :: "web \<Rightarrow> ext \<Rightarrow> request \<Rightarrow> pstr \<Rightarrow> response io" where
  "setup_gsuite W E req zone_id =
     zone_view W E (str ''edit'') req zone_id (\<lambda>u z.
       if is_post req \<and> post_is req ''setup'' then
         seq (delete_named M_MX z (str ''@'') (\<lambda>_. True))
           (seq (for_each gsuite_mx (add_mx E z (str ''@''))) (ret (RedirectTo (str ''edit_zone'') [z_id z])))
       else ret (Render (str ''dns_grpc/fzone/setup_gsuite.html'')))"

definition icloud_mx :: "(string \<times> nat) list" where
  "icloud_mx = [(''mx01.mail.icloud.com'', 1), (''mx02.mail.icloud.com'', 2)]"

definition is_spf_text :: "zrec \<Rightarrow> bool" where
  "is_spf_text r = (case body r of TXTRecord data \<Rightarrow> Sublist.prefix (str ''v=spf1'') data | _ \<Rightarrow> False)"

definition setup_icloud :: "web \<Rightarrow> ext \<Rightarrow> request \<Rightarrow> pstr \<Rightarrow> response io" where
  "setup_icloud W E req zone_id =
     zone_view W E (str ''edit'') req zone_id (\<lambda>u z.
       if is_post req then
         (case ICloudForm W (form_data req) of
            None \<Rightarrow> ret (Render (str ''dns_grpc/fzone/setup_icloud.html''))
          | Some (name, verification_txt) \<Rightarrow>
              (let dkim_root = (if name = str ''@'' then [] else str ''.'' @ name);
                   dkim_label = str ''sig1._domainkey'' @ dkim_root in
               seq (delete_named M_MX z name (\<lambda>_. True))
               (seq (for_each icloud_mx (add_mx E z name))
               (seq (add_record E z name 3600 (TXTRecord verification_txt))
               (seq (delete_named M_CNAME z dkim_label (\<lambda>_. True))
               (seq (add_record E z dkim_label 3600
                       (CNAMERecord (str ''sig1.dkim'' @ dkim_root @ str ''.'' @ zone_root z @ str ''.at.icloudmailadmin.com.'')))
               (seq (delete_named M_TXT z name is_spf_text)
               (seq (add_record E z name 3600 (TXTRecord (str ''v=spf1 redirect=icloud.com'')))
                 (ret (RedirectTo (str ''edit_zone'') [z_id z]))))))))))
       else ret (Render (str ''dns_grpc/fzone/setup_icloud.html'')))"

end
