(* ===== verification/View_Frame.thy ===== *)
theory View_Frame
  imports Zone_Views Zone_Props
begin

text \<open>
  What a request leaves alone. \<open>same_zone zid w w'\<close> says that every row that belongs to the zone \<open>zid\<close>,
  be it a forward, a reverse or a secondary zone, is the same in both worlds. \<open>tables_ok\<close> is the
  integrity of the database: identifiers are unique and not yet to be drawn, and every row refers to a
  zone that exists. \<open>touches E Z\<close> relates worlds that differ in the zones of the set \<open>Z\<close> only and keep
  the integrity; \<open>builds E Z\<close> moreover deletes no zone. The locale \<open>zone_table\<close> is what all tables of
  rows of zones have in common: the laws of reading and replacing one of them, from which follow the
  effects of saving a row; \<open>row_table\<close> adds the tables from which rows may be deleted alone.
\<close>

section \<open>Integrity\<close>

definition fresh :: "ext \<Rightarrow> ('r \<Rightarrow> 'k) \<Rightarrow> ('r \<Rightarrow> pstr) \<Rightarrow> 'r list \<Rightarrow> nat \<Rightarrow> bool" where
  "fresh E key ident rows n \<longleftrightarrow> distinct (map key rows) \<and> (\<forall>r \<in> set rows. \<forall>k \<ge> n. ident r \<noteq> uuid E k)"

definition ids_ok :: "ext \<Rightarrow> world \<Rightarrow> bool" where
  "ids_ok E w \<longleftrightarrow> fresh E z_id z_id (dnszones w) (next_uuid w) \<and> fresh E rz_id rz_id (rzones w) (next_uuid w)
     \<and> fresh E sz_id sz_id (szones w) (next_uuid w) \<and> fresh E pk r_id (zrecs w) (next_uuid w)
     \<and> fresh E cds_id cds_id (f_cds w) (next_uuid w) \<and> fresh E ck_id ck_id (f_cdnskey w) (next_uuid w)
     \<and> fresh E ns_id ns_id (f_custom_ns w) (next_uuid w) \<and> fresh E us_id us_id (update_secrets w) (next_uuid w)
     \<and> fresh E acl_id acl_id (f_axfr_acls w) (next_uuid w) \<and> fresh E as_id as_id (f_axfr_secrets w) (next_uuid w)
     \<and> fresh E an_id an_id (f_axfr_notifies w) (next_uuid w) \<and> fresh E p_id p_id (ptrs w) (next_uuid w)
     \<and> fresh E rn_id rn_id (rnss w) (next_uuid w)"

definition zone_ids :: "world \<Rightarrow> pstr set" where
  "zone_ids w = z_id ` set (dnszones w)"

definition rzone_ids :: "world \<Rightarrow> pstr set" where
  "rzone_ids w = rz_id ` set (rzones w)"

definition szone_ids :: "world \<Rightarrow> pstr set" where
  "szone_ids w = sz_id ` set (szones w)"

definition refs_ok :: "world \<Rightarrow> bool" where
  "refs_ok w \<longleftrightarrow> r_zone ` set (zrecs w) \<subseteq> zone_ids w \<and> cds_zone ` set (f_cds w) \<subseteq> zone_ids w
     \<and> ck_zone ` set (f_cdnskey w) \<subseteq> zone_ids w \<and> ns_zone ` set (f_custom_ns w) \<subseteq> zone_ids w
     \<and> us_zone ` set (update_secrets w) \<subseteq> zone_ids w \<and> acl_zone ` set (f_axfr_acls w) \<subseteq> zone_ids w
     \<and> as_zone ` set (f_axfr_secrets w) \<subseteq> zone_ids w \<and> an_zone ` set (f_axfr_notifies w) \<subseteq> zone_ids w
     \<and> p_zone ` set (ptrs w) \<subseteq> rzone_ids w \<and> rn_zone ` set (rnss w) \<subseteq> rzone_ids w
     \<and> cds_zone ` set (r_cds w) \<subseteq> rzone_ids w \<and> ck_zone ` set (r_cdnskey w) \<subseteq> rzone_ids w
     \<and> ns_zone ` set (r_custom_ns w) \<subseteq> rzone_ids w \<and> sr_zone ` set (szone_records w) \<subseteq> szone_ids w"

definition tables_ok :: "ext \<Rightarrow> world \<Rightarrow> bool" where
  "tables_ok E w \<longleftrightarrow> ids_ok E w \<and> refs_ok w"

definition grown :: "world \<Rightarrow> world \<Rightarrow> bool" where
  "grown w w' \<longleftrightarrow> zone_ids w \<subseteq> zone_ids w' \<and> rzone_ids w \<subseteq> rzone_ids w' \<and> szone_ids w \<subseteq> szone_ids w'"


section \<open>Rows of one zone\<close>

definition same_zone :: "pstr \<Rightarrow> world \<Rightarrow> world \<Rightarrow> bool" where
  "same_zone zid w w' \<longleftrightarrow>
     [z \<leftarrow> dnszones w'. z_id z = zid] = [z \<leftarrow> dnszones w. z_id z = zid]
     \<and> [z \<leftarrow> rzones w'. rz_id z = zid] = [z \<leftarrow> rzones w. rz_id z = zid]
     \<and> [z \<leftarrow> szones w'. sz_id z = zid] = [z \<leftarrow> szones w. sz_id z = zid]
     \<and> [r \<leftarrow> zrecs w'. r_zone r = zid] = [r \<leftarrow> zrecs w. r_zone r = zid]
     \<and> [c \<leftarrow> f_cds w'. cds_zone c = zid] = [c \<leftarrow> f_cds w. cds_zone c = zid]
     \<and> [c \<leftarrow> f_cdnskey w'. ck_zone c = zid] = [c \<leftarrow> f_cdnskey w. ck_zone c = zid]
     \<and> [n \<leftarrow> f_custom_ns w'. ns_zone n = zid] = [n \<leftarrow> f_custom_ns w. ns_zone n = zid]
     \<and> [s \<leftarrow> update_secrets w'. us_zone s = zid] = [s \<leftarrow> update_secrets w. us_zone s = zid]
     \<and> [a \<leftarrow> f_axfr_acls w'. acl_zone a = zid] = [a \<leftarrow> f_axfr_acls w. acl_zone a = zid]
     \<and> [s \<leftarrow> f_axfr_secrets w'. as_zone s = zid] = [s \<leftarrow> f_axfr_secrets w. as_zone s = zid]
     \<and> [n \<leftarrow> f_axfr_notifies w'. an_zone n = zid] = [n \<leftarrow> f_axfr_notifies w. an_zone n = zid]
     \<and> [p \<leftarrow> ptrs w'. p_zone p = zid] = [p \<leftarrow> ptrs w. p_zone p = zid]
     \<and> [n \<leftarrow> rnss w'. rn_zone n = zid] = [n \<leftarrow> rnss w. rn_zone n = zid]
     \<and> [c \<leftarrow> r_cds w'. cds_zone c = zid] = [c \<leftarrow> r_cds w. cds_zone c = zid]
     \<and> [c \<leftarrow> r_cdnskey w'. ck_zone c = zid] = [c \<leftarrow> r_cdnskey w. ck_zone c = zid]
     \<and> [n \<leftarrow> r_custom_ns w'. ns_zone n = zid] = [n \<leftarrow> r_custom_ns w. ns_zone n = zid]
     \<and> [r \<leftarrow> szone_records w'. sr_zone r = zid] = [r \<leftarrow> szone_records w. sr_zone r = zid]"

definition touches :: "ext \<Rightarrow> pstr set \<Rightarrow> world \<Rightarrow> world \<Rightarrow> bool" where
  "touches E Z w w' \<longleftrightarrow> (tables_ok E w \<longrightarrow>
     tables_ok E w' \<and> next_uuid w \<le> next_uuid w' \<and> (\<forall>zid. zid \<notin> Z \<longrightarrow> same_zone zid w w'))"

definition builds :: "ext \<Rightarrow> pstr set \<Rightarrow> world \<Rightarrow> world \<Rightarrow> bool" where
  "builds E Z w w' \<longleftrightarrow> touches E Z w w' \<and> grown w w'"

lemma same_zone_refl: "same_zone zid w w"
  by (simp add: same_zone_def)

lemma same_zone_trans: "same_zone zid s t \<Longrightarrow> same_zone zid t u \<Longrightarrow> same_zone zid s u"
  by (simp add: same_zone_def)

interpretation tch: step_rel "touches E Z" for E Z
  by unfold_locales (auto simp: touches_def intro: same_zone_refl same_zone_trans)

interpretation bld: step_rel "builds E Z" for E Z
  by unfold_locales (auto simp: builds_def grown_def intro: tch.R_refl tch.R_trans)

lemma builds_touches: "builds E Z w w' \<Longrightarrow> touches E Z w w'"
  by (simp add: builds_def)

lemma builds_ok: "tables_ok E s \<Longrightarrow> builds E Z s t \<Longrightarrow> tables_ok E t"
  by (simp add: builds_def touches_def)

text \<open>A condition on the world that holds on after whatever builds on zones of \<open>Z\<close> only.\<close>

definition stable :: "ext \<Rightarrow> pstr set \<Rightarrow> (world \<Rightarrow> bool) \<Rightarrow> bool" where
  "stable E Z P \<longleftrightarrow> (\<forall>s t. P s \<longrightarrow> tables_ok E s \<and> (builds E Z s t \<longrightarrow> P t))"

lemma fresh_upsert:
  "fresh E key ident rows n \<Longrightarrow> (\<And>k. k \<ge> n \<Longrightarrow> ident r \<noteq> uuid E k) \<Longrightarrow> fresh E key ident (upsert key r rows) n"
  by (auto simp: fresh_def distinct_upsert set_upsert)

lemma fresh_filter: "fresh E key ident rows n \<Longrightarrow> fresh E key ident (filter P rows) n"
  by (auto simp: fresh_def distinct_map_filter)

lemma fresh_later: "fresh E key ident rows n \<Longrightarrow> n \<le> m \<Longrightarrow> fresh E key ident rows m"
  by (auto simp: fresh_def)


section \<open>Tables of rows of zones\<close>

text \<open>\<open>home zid w\<close> says that a row may refer to the zone \<open>zid\<close>.\<close>

locale zone_table =
  fixes E :: ext
    and key :: "'r \<Rightarrow> 'k"
    and ident :: "'r \<Rightarrow> pstr"
    and zone_of :: "'r \<Rightarrow> pstr"
    and home :: "pstr \<Rightarrow> world \<Rightarrow> bool"
    and rows :: "world \<Rightarrow> 'r list"
    and put :: "'r list \<Rightarrow> world \<Rightarrow> world"
  assumes rows_fresh: "tables_ok E w \<Longrightarrow> fresh E key ident (rows w) (next_uuid w)"
    and rows_home: "tables_ok E w \<Longrightarrow> r \<in> set (rows w) \<Longrightarrow> home (zone_of r) w"
    and home_grown: "home zid w \<Longrightarrow> grown w w' \<Longrightarrow> home zid w'"
    and put_ok: "tables_ok E w \<Longrightarrow> fresh E key ident rs (next_uuid w) \<Longrightarrow> (\<And>r. r \<in> set rs \<Longrightarrow> home (zone_of r) w)
      \<Longrightarrow> grown w (put rs w) \<Longrightarrow> tables_ok E (put rs w)"
    and put_same:
      "[r \<leftarrow> rs. zone_of r = zid] = [r \<leftarrow> rows w. zone_of r = zid] \<Longrightarrow> same_zone zid w (put rs w)"
    and put_next: "next_uuid (put rs w) = next_uuid w"
    and upsert_grown: "grown w (put (upsert key r (rows w)) w)"
    and rows_same: "same_zone zid w w' \<Longrightarrow> [r \<leftarrow> rows w'. zone_of r = zid] = [r \<leftarrow> rows w. zone_of r = zid]"
begin

text \<open>A row that may be written: its key is that of no row of a zone outside \<open>Z\<close>, nor one still to be drawn,
  and its zone exists.\<close>

definition owned :: "pstr set \<Rightarrow> 'r \<Rightarrow> world \<Rightarrow> bool" where
  "owned Z r w \<longleftrightarrow> tables_ok E w \<and> (\<forall>s \<in> set (rows w). key s = key r \<longrightarrow> zone_of s \<in> Z)
     \<and> (\<forall>n \<ge> next_uuid w. ident r \<noteq> uuid E n) \<and> home (zone_of r) w"

lemma owned_stable: "owned Z r s \<Longrightarrow> builds E Z s t \<Longrightarrow> owned Z r t"
proof -
  assume o: "owned Z r s" and b: "builds E Z s t"
  have t: "touches E Z s t" and g: "grown s t" using b by (simp_all add: builds_def)
  have "zone_of x \<in> Z" if x: "x \<in> set (rows t)" "key x = key r" for x
  proof (rule ccontr)
    assume out: "zone_of x \<notin> Z"
    then have "same_zone (zone_of x) s t" using o t by (auto simp: owned_def touches_def)
    then have "x \<in> set [r \<leftarrow> rows s. zone_of r = zone_of x]" using x(1) rows_same by (metis (mono_tags) mem_Collect_eq set_filter)
    then show False using o x(2) out by (auto simp: owned_def)
  qed
  then show "owned Z r t" using o t home_grown[OF _ g] by (auto simp: owned_def touches_def)
qed

lemma owned_ok: "owned Z r w \<Longrightarrow> tables_ok E w"
  by (simp add: owned_def)

lemma stable_owned: "stable E Z (owned Z r)"
  unfolding stable_def using owned_stable owned_ok by blast

lemma owned_cong: "key r = key r' \<Longrightarrow> ident r = ident r' \<Longrightarrow> zone_of r = zone_of r' \<Longrightarrow> owned Z r w \<longleftrightarrow> owned Z r' w"
  by (simp add: owned_def)

lemma owned_row: "tables_ok E w \<Longrightarrow> r \<in> set (rows w) \<Longrightarrow> zone_of r \<in> Z \<Longrightarrow> owned Z r w"
  using rows_fresh[of w] rows_home[of w r] unfolding owned_def fresh_def
  by (metis distinct_map inj_on_eq_iff)

lemma owned_edit:
  "tables_ok E w \<Longrightarrow> r \<in> set (rows w) \<Longrightarrow> zone_of r \<in> Z \<Longrightarrow> key r' = key r \<Longrightarrow> ident r' = ident r \<Longrightarrow> zone_of r' = zone_of r
    \<Longrightarrow> owned Z r' w"
  using owned_row[of w r Z] by (simp add: owned_def)

lemma upsert_builds:
  assumes "owned Z r w" "zone_of r \<in> Z"
  shows "builds E Z w (put (upsert key r (rows w)) w)"
proof -
  have ok: "tables_ok E w" using assms(1) by (rule owned_ok)
  have "same_zone zid w (put (upsert key r (rows w)) w)" if "zid \<notin> Z" for zid
    by (rule put_same, rule filter_upsert_outside) (use assms that in \<open>auto simp: owned_def\<close>)
  moreover have "tables_ok E (put (upsert key r (rows w)) w)"
  proof (rule put_ok[OF ok fresh_upsert[OF rows_fresh[OF ok]] _ upsert_grown])
    show "ident r \<noteq> uuid E k" if "next_uuid w \<le> k" for k using assms(1) that by (simp add: owned_def)
    show "home (zone_of s) w" if "s \<in> set (upsert key r (rows w))" for s
      using that assms(1) rows_home[OF ok] by (auto simp: set_upsert owned_def)
  qed
  ultimately show ?thesis using upsert_grown by (simp add: builds_def touches_def put_next)
qed

lemma save_act:
  "zone_of r \<in> Z \<Longrightarrow> obeys (owned Z r) (builds E Z) (modify (\<lambda>w. put (upsert key r (rows w)) w))"
  by (simp add: obeys_def modify_def upsert_builds)

end

locale row_table = zone_table +
  assumes put_grown: "grown w (put rs w)"
begin

lemma filter_builds:
  assumes "tables_ok E w" "\<And>r. r \<in> set (rows w) \<Longrightarrow> \<not> P r \<Longrightarrow> zone_of r \<in> Z"
  shows "builds E Z w (put (filter P (rows w)) w)"
proof -
  have "same_zone zid w (put (filter P (rows w)) w)" if "zid \<notin> Z" for zid
    by (rule put_same) (use assms(2) that in \<open>auto simp: filter_filter intro!: filter_cong\<close>)
  moreover have "tables_ok E (put (filter P (rows w)) w)"
    using put_ok[OF assms(1) fresh_filter[OF rows_fresh[OF assms(1)]] _ put_grown] rows_home[OF assms(1)] by simp
  ultimately show ?thesis using put_grown by (simp add: builds_def touches_def put_next)
qed

lemma remove_builds: "owned Z r w \<Longrightarrow> builds E Z w (put (remove key r (rows w)) w)"
  unfolding remove_def by (rule filter_builds) (auto simp: owned_def)

lemma delete_act: "obeys (owned Z r) (builds E Z) (modify (\<lambda>w. put (remove key r (rows w)) w))"
  by (simp add: obeys_def modify_def remove_builds)

end

lemmas integrity_defs = tables_ok_def ids_ok_def refs_ok_def
lemmas zone_id_defs = zone_ids_def rzone_ids_def szone_ids_def
lemmas zone_table_defs = integrity_defs same_zone_def grown_def zone_id_defs

interpretation zt: zone_table E z_id z_id z_id "\<lambda>zid w. True" dnszones "\<lambda>rs w. w\<lparr>dnszones := rs\<rparr>" for E
  by unfold_locales
    ((simp add: zone_table_defs; fail) | (simp add: zone_table_defs; meson subset_trans) | (auto simp: zone_table_defs set_upsert image_iff; fail))+

interpretation rzt: zone_table E rz_id rz_id rz_id "\<lambda>zid w. True" rzones "\<lambda>rs w. w\<lparr>rzones := rs\<rparr>" for E
  by unfold_locales
    ((simp add: zone_table_defs; fail) | (simp add: zone_table_defs; meson subset_trans) | (auto simp: zone_table_defs set_upsert image_iff; fail))+

interpretation szt: zone_table E sz_id sz_id sz_id "\<lambda>zid w. True" szones "\<lambda>rs w. w\<lparr>szones := rs\<rparr>" for E
  by unfold_locales
    ((simp add: zone_table_defs; fail) | (simp add: zone_table_defs; meson subset_trans) | (auto simp: zone_table_defs set_upsert image_iff; fail))+

interpretation rt: row_table E pk r_id r_zone "\<lambda>zid w. zid \<in> zone_ids w" zrecs "\<lambda>rs w. w\<lparr>zrecs := rs\<rparr>" for E
  by unfold_locales (auto simp: zone_table_defs)

interpretation ct: row_table E cds_id cds_id cds_zone "\<lambda>zid w. zid \<in> zone_ids w" f_cds "\<lambda>rs w. w\<lparr>f_cds := rs\<rparr>" for E
  by unfold_locales (auto simp: zone_table_defs)

interpretation kt: row_table E ck_id ck_id ck_zone "\<lambda>zid w. zid \<in> zone_ids w" f_cdnskey "\<lambda>rs w. w\<lparr>f_cdnskey := rs\<rparr>" for E
  by unfold_locales (auto simp: zone_table_defs)

interpretation nt: row_table E ns_id ns_id ns_zone "\<lambda>zid w. zid \<in> zone_ids w" f_custom_ns "\<lambda>rs w. w\<lparr>f_custom_ns := rs\<rparr>" for E
  by unfold_locales (auto simp: zone_table_defs)

interpretation st: row_table E us_id us_id us_zone "\<lambda>zid w. zid \<in> zone_ids w" update_secrets "\<lambda>rs w. w\<lparr>update_secrets := rs\<rparr>" for E
  by unfold_locales (auto simp: zone_table_defs)

interpretation at: row_table E acl_id acl_id acl_zone "\<lambda>zid w. zid \<in> zone_ids w" f_axfr_acls "\<lambda>rs w. w\<lparr>f_axfr_acls := rs\<rparr>" for E
  by unfold_locales (auto simp: zone_table_defs)

interpretation xt: row_table E as_id as_id as_zone "\<lambda>zid w. zid \<in> zone_ids w" f_axfr_secrets "\<lambda>rs w. w\<lparr>f_axfr_secrets := rs\<rparr>" for E
  by unfold_locales (auto simp: zone_table_defs)

interpretation yt: row_table E an_id an_id an_zone "\<lambda>zid w. zid \<in> zone_ids w" f_axfr_notifies "\<lambda>rs w. w\<lparr>f_axfr_notifies := rs\<rparr>" for E
  by unfold_locales (auto simp: zone_table_defs)

interpretation pt: row_table E p_id p_id p_zone "\<lambda>zid w. zid \<in> rzone_ids w" ptrs "\<lambda>rs w. w\<lparr>ptrs := rs\<rparr>" for E
  by unfold_locales (auto simp: zone_table_defs)

interpretation rnt: row_table E rn_id rn_id rn_zone "\<lambda>zid w. zid \<in> rzone_ids w" rnss "\<lambda>rs w. w\<lparr>rnss := rs\<rparr>" for E
  by unfold_locales (auto simp: zone_table_defs)

end
