(* ===== verification/Reverse_Views.thy ===== *)
theory Reverse_Views
  imports Zone_Views
begin

text \<open>
  The views of \<^verbatim>\<open>views/rzone.py\<close> and \<^verbatim>\<open>views/szone.py\<close>: reverse zones with their PTR and NS records, and
  secondary zones, which are copied from another name server.
\<close>

section \<open>Reverse zones\<close>

definition ReverseDNSZone_get_object_list :: "web \<Rightarrow> pstr \<Rightarrow> pstr \<Rightarrow> rzone list io" where
  "ReverseDNSZone_get_object_list W tok action =
     bind_act (lift_res (object_ids W tok (str ''reverse-zone'') action)) (\<lambda>ids.
       asks (\<lambda>w. [z \<leftarrow> rzones w. rz_resource_id z \<in> Some ` set ids]))"

definition list_rzones :: "web \<Rightarrow> request \<Rightarrow> response io" where
  "list_rzones W req =
     login_required req (\<lambda>u.
       bind_act (lift_res (access_token W u)) (\<lambda>tok.
       bind_act (ReverseDNSZone_get_object_list W tok (str ''view'')) (\<lambda>user_zones.
         zone_list ''dns_grpc/rzone/rzones.html'' u (map rz_id user_zones))))"

text \<open>The opening lines of the views of a reverse zone, and of those of a record of one.\<close>

definition rzone_view :: "web \<Rightarrow> ext \<Rightarrow> request \<Rightarrow> pstr \<Rightarrow> (rzone \<Rightarrow> response io) \<Rightarrow> response io" where
  "rzone_view W E req zone_id k =
     login_required req (\<lambda>u.
       bind_act (lift_res (access_token W u)) (\<lambda>tok.
       bind_act (get_or_404 E rz_id rzones zone_id) (\<lambda>z.
       seq (require (ReverseDNSZone_has_scope W tok z (str ''edit''))) (k z))))"

definition rrow_view ::
  "web \<Rightarrow> ext \<Rightarrow> ('r \<Rightarrow> pstr) \<Rightarrow> (world \<Rightarrow> 'r list) \<Rightarrow> ('r \<Rightarrow> pstr) \<Rightarrow> request \<Rightarrow> pstr
     \<Rightarrow> (rzone \<Rightarrow> 'r \<Rightarrow> response io) \<Rightarrow> response io" where
  "rrow_view W E key rows zone_of req record_id k =
     login_required req (\<lambda>u.
       bind_act (lift_res (access_token W u)) (\<lambda>tok.
       bind_act (get_or_404 E key rows record_id) (\<lambda>r.
       bind_act (foreign rz_id rzones (zone_of r)) (\<lambda>z.
       seq (require (ReverseDNSZone_has_scope W tok z (str ''edit''))) (k z r)))))"

definition save_rzone_now :: "ext \<Rightarrow> rzone \<Rightarrow> unit io" where
  "save_rzone_now E z = bind_act (asks now) (\<lambda>t. ReverseDNSZone_save E (z\<lparr>rz_last_modified := t\<rparr>))"

definition edit_rzone :: "web \<Rightarrow> ext \<Rightarrow> request \<Rightarrow> pstr \<Rightarrow> response io" where
  "edit_rzone W E req zone_id =
     rzone_view W E req zone_id (\<lambda>z.
       bind_act (lift_res (network_of (zone_root_address z) (zone_root_prefix z))) (\<lambda>zone_network.
       seq (lift_res (make_zone_digest E (network_to_apra zone_network)))
         (seq (lift_res (resource_owner E (rz_resource_id z)))
           (ret (Render (str ''dns_grpc/rzone/rzone.html''))))))"

definition create_r_ptr_record :: "web \<Rightarrow> ext \<Rightarrow> request \<Rightarrow> pstr \<Rightarrow> response io" where
  "create_r_ptr_record W E req zone_id =
     rzone_view W E req zone_id (\<lambda>z.
       bind_act (new_id E) (\<lambda>i.
         if is_post req then
           bind_act (lift_res (ReversePTRRecordForm W (form_data req) i z)) (\<lambda>f. case f of
             Some p \<Rightarrow>
               seq (PTRRecord_save E p) (seq (save_rzone_now E z) (ret (RedirectTo (str ''edit_rzone'') [rz_id z])))
           | None \<Rightarrow> ret (Render (str ''dns_grpc/fzone/edit_record.html'')))
         else ret (Render (str ''dns_grpc/fzone/edit_record.html''))))"

definition edit_r_ptr_record :: "web \<Rightarrow> ext \<Rightarrow> request \<Rightarrow> pstr \<Rightarrow> response io" where
  "edit_r_ptr_record W E req record_id =
     rrow_view W E p_id ptrs p_zone req record_id (\<lambda>z r.
       if is_post req then
         bind_act (lift_res (ReversePTRRecordForm W (form_data req) (p_id r) z)) (\<lambda>f. case f of
           Some p \<Rightarrow>
             seq (save_rzone_now E z) (seq (PTRRecord_save E p) (ret (RedirectTo (str ''edit_rzone'') [rz_id z])))
         | None \<Rightarrow> ret (Render (str ''dns_grpc/fzone/edit_record.html'')))
       else ret (Render (str ''dns_grpc/fzone/edit_record.html'')))"

definition delete_r_ptr_record :: "web \<Rightarrow> ext \<Rightarrow> request \<Rightarrow> pstr \<Rightarrow> response io" where
  "delete_r_ptr_record W E req record_id =
     rrow_view W E p_id ptrs p_zone req record_id (\<lambda>z r.
       if is_post req \<and> post_is req ''delete'' then
         seq (save_rzone_now E z) (seq (PTRRecord_delete r) (ret (RedirectTo (str ''edit_rzone'') [rz_id z])))
       else ret (Render (str ''dns_grpc/rzone/delete_rrecord.html'')))"

definition create_r_ns_record :: "web \<Rightarrow> ext \<Rightarrow> request \<Rightarrow> pstr \<Rightarrow> response io" where
  "create_r_ns_record W E req zone_id =
     rzone_view W E req zone_id (\<lambda>z.
       bind_act (new_id E) (\<lambda>i.
         if is_post req then
           bind_act (lift_res (ReverseNSRecordForm W (form_data req) i z)) (\<lambda>f. case f of
             Some n \<Rightarrow>
               seq (ReverseNSRecord_save E n) (seq (save_rzone_now E z) (ret (RedirectTo (str ''edit_rzone'') [rz_id z])))
           | None \<Rightarrow> ret (Render (str ''dns_grpc/fzone/edit_record.html'')))
         else ret (Render (str ''dns_grpc/fzone/edit_record.html''))))"

definition edit_r_ns_record :: "web \<Rightarrow> ext \<Rightarrow> request \<Rightarrow> pstr \<Rightarrow> response io" where
  "edit_r_ns_record W E req record_id =
     rrow_view W E rn_id rnss rn_zone req record_id (\<lambda>z r.
       if is_post req then
         bind_act (lift_res (ReverseNSRecordForm W (form_data req) (rn_id r) z)) (\<lambda>f. case f of
           Some n \<Rightarrow>
             seq (save_rzone_now E z) (seq (ReverseNSRecord_save E n) (ret (RedirectTo (str ''edit_rzone'') [rz_id z])))
         | None \<Rightarrow> ret (Render (str ''dns_grpc/fzone/edit_record.html'')))
       else ret (Render (str ''dns_grpc/fzone/edit_record.html'')))"

definition delete_r_ns_record :: "web \<Rightarrow> ext \<Rightarrow> request \<Rightarrow> pstr \<Rightarrow> response io" where
  "delete_r_ns_record W E req record_id =
     rrow_view W E rn_id rnss rn_zone req record_id (\<lambda>z r.
       if is_post req \<and> post_is req ''delete'' then
         seq (save_rzone_now E z) (seq (ReverseNSRecord_delete r) (ret (RedirectTo (str ''edit_rzone'') [rz_id z])))
       else ret (Render (str ''dns_grpc/rzone/delete_rrecord.html'')))"


section \<open>Secondary zones\<close>

definition SecondaryDNSZone_get_object_list :: "web \<Rightarrow> pstr \<Rightarrow> pstr \<Rightarrow> szone list io" where
  "SecondaryDNSZone_get_object_list W tok action =
     bind_act (lift_res (object_ids W tok (str ''secondary-zone'') action)) (\<lambda>ids.
       asks (\<lambda>w. [z \<leftarrow> szones w. sz_resource_id z \<in> Some ` set ids]))"

definition list_szones :: "web \<Rightarrow> request \<Rightarrow> response io" where
  "list_szones W req =
     login_required req (\<lambda>u.
       bind_act (lift_res (access_token W u)) (\<lambda>tok.
       bind_act (SecondaryDNSZone_get_object_list W tok (str ''view'')) (\<lambda>user_zones.
         zone_list ''dns_grpc/szone/szones.html'' u (map sz_id user_zones))))"

definition szone_view :: "web \<Rightarrow> ext \<Rightarrow> string \<Rightarrow> request \<Rightarrow> pstr \<Rightarrow> (szone \<Rightarrow> response io) \<Rightarrow> response io" where
  "szone_view W E action req zone_id k =
     login_required req (\<lambda>u.
       bind_act (lift_res (access_token W u)) (\<lambda>tok.
       bind_act (get_or_404 E sz_id szones zone_id) (\<lambda>z.
       seq (require (SecondaryDNSZone_has_scope W tok z (str action))) (k z))))"

definition new_szone :: "pstr \<Rightarrow> pstr \<Rightarrow> pstr \<Rightarrow> szone" where
  "new_szone i n primary = \<lparr>sz_id = i, sz_zone_root = n, sz_serial = None, sz_primary = primary, sz_charged = True,
     sz_active = False, sz_error = False, sz_error_message = None, sz_num_check_fails = 0, sz_resource_id = None\<rparr>"

definition create_szone :: "web \<Rightarrow> ext \<Rightarrow> request \<Rightarrow> response io" where
  "create_szone W E req =
     login_required req (\<lambda>u.
       bind_act (lift_res (access_token W u)) (\<lambda>tok.
       seq (require (SecondaryDNSZone_has_class_scope W tok (str ''create'')))
         (if \<not> is_post req then ret (Render (str ''dns_grpc/fzone/create_zone.html''))
          else case szone_fields W (form_data req) of
            None \<Rightarrow> ret (Render (str ''dns_grpc/fzone/create_zone.html''))
          | Some (zone_text, server) \<Rightarrow>
              bind_act (asks (\<lambda>w. valid_zone E w (lower E zone_text))) (\<lambda>zone_error.
                if zone_error \<noteq> None then ret (Render (str ''dns_grpc/fzone/create_zone.html''))
                else bind_act (log_usage E u 1 True False (Some (external_url W (str ''szones'')))) (\<lambda>usage.
                  if usage = Error then ret (Render (str ''dns_grpc/fzone/create_zone.html''))
                  else bind_act (new_id E) (\<lambda>i.
                    seq (SecondaryDNSZone_save E (new_szone i (lower E zone_text) (lower E server)))
                      (seq (modify (delay (AddSzone i)))
                         (ret (redirect_after usage (RedirectTo (str ''edit_szone'') [i]))))))))))"

definition view_szone :: "web \<Rightarrow> ext \<Rightarrow> request \<Rightarrow> pstr \<Rightarrow> response io" where
  "view_szone W E req zone_id =
     szone_view W E ''view'' req zone_id (\<lambda>z.
       seq (lift_res (resource_owner E (sz_resource_id z))) (ret (Render (str ''dns_grpc/szone/szone.html''))))"

text \<open>The name of the zone is disabled in the form: it keeps its value, and only the server counts.\<close>

definition edit_szone :: "web \<Rightarrow> ext \<Rightarrow> request \<Rightarrow> pstr \<Rightarrow> response io" where
  "edit_szone W E req zone_id =
     szone_view W E ''edit'' req zone_id (\<lambda>z.
       if is_post req then
         (case primary_field W (form_data req) of
            None \<Rightarrow> ret (Render (str ''dns_grpc/szone/edit_szone.html''))
          | Some server \<Rightarrow>
              seq (SecondaryDNSZone_save E (z\<lparr>sz_primary := lower E server\<rparr>))
                (ret (RedirectTo (str ''view_szone'') [sz_id z])))
       else ret (Render (str ''dns_grpc/szone/edit_szone.html'')))"

definition delete_szone :: "web \<Rightarrow> ext \<Rightarrow> request \<Rightarrow> pstr \<Rightarrow> response io" where
  "delete_szone W E req zone_id =
     szone_view W E ''delete'' req zone_id (\<lambda>z.
       if is_post req \<and> post_is req ''delete'' then
         bind_act (owner_log_usage E (sz_resource_id z) (if sz_charged z then - 1 else 0) True False
                     (Some (external_url W (str ''szones'')))) (\<lambda>usage.
           if usage = Error then ret (Render (str ''dns_grpc/szone/delete_szone.html''))
           else seq (SecondaryDNSZone_delete E z) (seq (modify (delay UpdateCatalog))
                  (ret (redirect_after usage (RedirectTo (str ''szones'') [])))))
       else ret (Render (str ''dns_grpc/szone/delete_szone.html'')))"

end
