(* ===== verification/Admin_Views.thy ===== *)
theory Admin_Views
  imports Reverse_Views
begin

text \<open>
  The views of \<^verbatim>\<open>views/admin.py\<close>: users with the permission \<^verbatim>\<open>dns_grpc.access_admin\<close> create and delete zones
  of all three kinds for other users. Unlike the views for users they check no name, set up no
  initial records, and charge after the zone exists.
\<close>

definition admin_view :: "web \<Rightarrow> request \<Rightarrow> response io \<Rightarrow> response io" where
  "admin_view W req k =
     login_required req (\<lambda>u. if has_perm W u (str ''dns_grpc.access_admin'') then k else throw PermissionDenied)"

definition admin_index :: "web \<Rightarrow> request \<Rightarrow> response io" where
  "admin_index W req = admin_view W req (ret (Render (str ''dns_grpc/admin/index.html'')))"

definition admin_create_zone :: "web \<Rightarrow> ext \<Rightarrow> request \<Rightarrow> response io" where
  "admin_create_zone W E req =
     admin_view W req
       (if \<not> is_post req then ret (Render (str ''dns_grpc/fzone/create_zone.html''))
        else case admin_zone_fields W (form_data req) of
          None \<Rightarrow> ret (Render (str ''dns_grpc/fzone/create_zone.html''))
        | Some (zone_text, user) \<Rightarrow>
            bind_act (new_id E) (\<lambda>i. bind_act (asks now) (\<lambda>t.
              seq (DNSZone_save E (new_dnszone i (lower E zone_text) t))
                (seq (modify (delay (AddFzone i)))
                  (seq (log_usage E user 0 True True None) (ret (RedirectTo (str ''admin_index'') [])))))))"

definition admin_delete_zone :: "web \<Rightarrow> ext \<Rightarrow> request \<Rightarrow> pstr \<Rightarrow> response io" where
  "admin_delete_zone W E req zone_id =
     admin_view W req
       (bind_act (get_or_404 E z_id dnszones zone_id) (\<lambda>z.
          if is_post req \<and> post_is req ''delete'' then
            seq (owner_log_usage E (z_resource_id z) (- 1) True True None)
              (seq (DNSZone_delete E z) (seq (modify (delay UpdateCatalog)) (ret (RedirectTo (str ''admin_index'') []))))
          else ret (Render (str ''dns_grpc/fzone/delete_zone.html''))))"

definition new_rzone :: "pstr \<Rightarrow> pstr \<Rightarrow> nat \<Rightarrow> nat \<Rightarrow> rzone" where
  "new_rzone i address p t = \<lparr>rz_id = i, zone_root_address = address, zone_root_prefix = p, rz_last_modified = t,
     rz_charged = True, rz_active = True, rz_num_check_fails = 0, rz_resource_id = None, rz_cds_disable = False\<rparr>"

definition admin_create_rzone :: "web \<Rightarrow> ext \<Rightarrow> request \<Rightarrow> response io" where
  "admin_create_rzone W E req =
     admin_view W req
       (if \<not> is_post req then ret (Render (str ''dns_grpc/fzone/create_zone.html''))
        else case admin_rzone_fields W (form_data req) of
          None \<Rightarrow> ret (Render (str ''dns_grpc/fzone/create_zone.html''))
        | Some (address, p, user) \<Rightarrow>
            bind_act (new_id E) (\<lambda>i. bind_act (asks now) (\<lambda>t.
              seq (ReverseDNSZone_save E (new_rzone i address p t))
                (seq (modify (delay (AddRzone i)))
                  (seq (log_usage E user 0 True True None) (ret (RedirectTo (str ''admin_index'') [])))))))"

definition admin_delete_rzone :: "web \<Rightarrow> ext \<Rightarrow> request \<Rightarrow> pstr \<Rightarrow> response io" where
  "admin_delete_rzone W E req zone_id =
     admin_view W req
       (bind_act (get_or_404 E rz_id rzones zone_id) (\<lambda>z.
          if is_post req \<and> post_is req ''delete'' then
            seq (owner_log_usage E (rz_resource_id z) (- 1) True True None)
              (seq (ReverseDNSZone_delete E z) (seq (modify (delay UpdateCatalog)) (ret (RedirectTo (str ''admin_index'') []))))
          else ret (Render (str ''dns_grpc/rzone/delete_rzone.html''))))"

definition admin_create_szone :: "web \<Rightarrow> ext \<Rightarrow> request \<Rightarrow> response io" where
  "admin_create_szone W E req =
     admin_view W req
       (if \<not> is_post req then ret (Render (str ''dns_grpc/fzone/create_zone.html''))
        else case admin_szone_fields W (form_data req) of
          None \<Rightarrow> ret (Render (str ''dns_grpc/fzone/create_zone.html''))
        | Some (zone_text, server, user) \<Rightarrow>
            bind_act (new_id E) (\<lambda>i.
              seq (SecondaryDNSZone_save E (new_szone i (lower E zone_text) server))
                (seq (log_usage E user 0 True True None) (ret (RedirectTo (str ''admin_index'') [])))))"

definition admin_delete_szone :: "web \<Rightarrow> ext \<Rightarrow> request \<Rightarrow> pstr \<Rightarrow> response io" where
  "admin_delete_szone W E req zone_id =
     admin_view W req
       (bind_act (get_or_404 E sz_id szones zone_id) (\<lambda>z.
          if is_post req \<and> post_is req ''delete'' then
            seq (owner_log_usage E (sz_resource_id z) (- 1) True True None)
              (seq (SecondaryDNSZone_delete E z) (seq (modify (delay UpdateCatalog)) (ret (RedirectTo (str ''admin_index'') []))))
          else ret (Render (str ''dns_grpc/szone/delete_szone.html''))))"

end
