(* ===== verification/Dyndns.thy ===== *)
theory Dyndns
  imports Web
begin

text \<open>
  The two addresses that routers call, \<^verbatim>\<open>views/dyndns.py\<close>: \<^verbatim>\<open>check_ip\<close> tells the caller its address, and
  \<^verbatim>\<open>update_ip\<close> stores an address in a dynamic address record. The record is named by the user name of
  the basic authentication, and its password authorises the change.
\<close>

section \<open>The address of the caller\<close>

text \<open>2a0d:1a40:7900:6::/80, behind which callers without IPv6 come in.\<close>

definition net64_net :: ip_network where
  "net64_net = Net6 0x2a0d1a40790000060000000000000000 80"

fun client_addr :: "ip_addr \<Rightarrow> ip_addr" where
  "client_addr (IPv4 v) = IPv4 v"
| "client_addr (IPv6 v) =
     (case ipv4_mapped v of
        Some m \<Rightarrow> IPv4 m
      | None \<Rightarrow> if in_network (IPv6 v) net64_net then IPv4 (v mod 2 ^ 32) else IPv6 v)"

definition get_ip :: "request \<Rightarrow> ip_addr res" where
  "get_ip req = bind_res (parse_ip (remote_addr req)) (\<lambda>addr. Inr (client_addr addr))"

definition check_ip :: "request \<Rightarrow> response io" where
  "check_ip req = bind_act (lift_res (get_ip req)) (\<lambda>addr. ret (Answer 200 (ip_str addr)))"


section \<open>Authentication\<close>

definition get_header_auth :: "request \<Rightarrow> (pstr \<times> pstr) option res" where
  "get_header_auth req =
     (case truthy (authorization req) of
        None \<Rightarrow> Inr None
      | Some auth_header \<Rightarrow> (case split1_on 32 auth_header of
          [scheme, credentials] \<Rightarrow>
            if scheme \<noteq> str ''Basic'' then Inr None
            else bind_res (b64decode credentials) (\<lambda>raw. bind_res (py_decode raw) (\<lambda>decoded.
              case split1_on 58 decoded of [u, p] \<Rightarrow> Inr (Some (u, p)) | _ \<Rightarrow> Inr None))
        | _ \<Rightarrow> Inr None))"

definition request_data :: "request \<Rightarrow> string \<Rightarrow> pstr option" where
  "request_data req name = map_of (if is_post req then form_data req else query req) (str name)"

text \<open>\<^verbatim>\<open>DynamicAddressRecord.objects.filter(id=...).first()\<close>\<close>

definition dynamic_record :: "ext \<Rightarrow> pstr \<Rightarrow> zrec option io" where
  "dynamic_record E i = asks_res (\<lambda>w.
     case typed_uuid E i of
       None \<Rightarrow> Inl ValidationError
     | Some k \<Rightarrow> Inr (find (\<lambda>r. r_id r = k) (objects M_DynamicAddress w)))"

definition dyn_password :: "zrec \<Rightarrow> pstr" where
  "dyn_password r = (case body r of DynamicAddressRecord v4 v6 p \<Rightarrow> p | _ \<Rightarrow> [])"

definition hostname_matches :: "zrec \<Rightarrow> dnszone \<Rightarrow> pstr option \<Rightarrow> bool" where
  "hostname_matches r z hostname \<longleftrightarrow>
     hostname = Some (record_name r @ str ''.'' @ zone_root z)
     \<or> record_name r = str ''@'' \<and> hostname = Some (zone_root z)"

text \<open>The address column of the kind of an address, and the row with a new address in it.\<close>

definition current_ip :: "zrec \<Rightarrow> ip_addr \<Rightarrow> pstr option" where
  "current_ip r a = (case body r of DynamicAddressRecord v4 v6 p \<Rightarrow> (if is_v4 a then v4 else v6) | _ \<Rightarrow> None)"

definition with_ip :: "ip_addr \<Rightarrow> zrec \<Rightarrow> zrec" where
  "with_ip a r = (case body r of
       DynamicAddressRecord v4 v6 p \<Rightarrow>
         r\<lparr>body := (if is_v4 a then DynamicAddressRecord (Some (ip_str a)) v6 p
                    else DynamicAddressRecord v4 (Some (ip_str a)) p)\<rparr>
     | _ \<Rightarrow> r)"

definition store_ip :: "ext \<Rightarrow> dnszone \<Rightarrow> zrec \<Rightarrow> ip_addr \<Rightarrow> response io" where
  "store_ip E z r client_ip =
     seq (zrec_save E z (with_ip client_ip r))
       (seq (save_zone_now E z) (ret (Answer 200 (str ''good '' @ ip_str client_ip))))"

definition update_ip :: "ext \<Rightarrow> request \<Rightarrow> response io" where
  "update_ip E req =
     bind_act (lift_res (get_header_auth req)) (\<lambda>auth. case auth of
       None \<Rightarrow> ret (Answer 400 [])
     | Some (user_name, password) \<Rightarrow>
         bind_act (dynamic_record E user_name) (\<lambda>dyn_obj. case dyn_obj of
           None \<Rightarrow> ret (Answer 400 (str ''nohost''))
         | Some r \<Rightarrow>
             if dyn_password r \<noteq> password then ret (Answer 403 (str ''badauth''))
             else bind_act (foreign z_id dnszones (r_zone r)) (\<lambda>z.
               if \<not> hostname_matches r z (request_data req ''hostname'') then ret (Answer 400 (str ''nohost''))
               else bind_act (lift_res (get_ip req)) (\<lambda>remote.
                 case (case truthy (request_data req ''myip'') of None \<Rightarrow> Inr remote | Some t \<Rightarrow> parse_ip t) of
                   Inl _ \<Rightarrow> ret (Answer 400 [])
                 | Inr client_ip \<Rightarrow>
                     if current_ip r client_ip = Some (ip_str client_ip)
                     then ret (Answer 200 (str ''nochg '' @ ip_str client_ip))
                     else store_ip E z r client_ip))))"


section \<open>The address that is stored\<close>

lemma low_part: "v < n \<Longrightarrow> (k * n + v) div n = k \<and> (k * n + v) mod n = v" for k n v :: nat
  by simp

lemma client_addr_mapped: "v < 2 ^ 32 \<Longrightarrow> client_addr (IPv6 (65535 * 2 ^ 32 + v)) = IPv4 v"
  using low_part[of v "2 ^ 32" 65535] by (simp add: ipv4_mapped_def)

lemma client_addr_net64:
  assumes "v < 2 ^ 32"
  shows "client_addr (IPv6 (0x2a0d1a40790000060000000000000000 + v)) = IPv4 v"
proof -
  let ?n = "0x2a0d1a40790000060000000000000000 + v"
  have "?n = 0x2a0d1a407900000600000000 * 2 ^ 32 + v" "?n = 0x2a0d1a40790000060000 * 2 ^ 48 + v" "v < 2 ^ 48"
    using assms by simp_all
  then have "?n div 2 ^ 32 = 0x2a0d1a407900000600000000" "?n mod 2 ^ 32 = v" "?n div 2 ^ 48 = 0x2a0d1a40790000060000"
    using low_part[of v "2 ^ 32" "0x2a0d1a407900000600000000"] low_part[of v "2 ^ 48" "0x2a0d1a40790000060000"] assms by metis+
  then show ?thesis by (simp add: ipv4_mapped_def net64_net_def)
qed

lemma client_addr_wf: "ip_wf a \<Longrightarrow> ip_wf (client_addr a)"
  by (cases a) (auto simp: ipv4_mapped_def)

text \<open>C35: The address that an update stores is in the range of its kind, and the IPv4 address of a caller who
  comes in over IPv6, mapped or through the translator, is recovered.\<close>

theorem client_address_recovered:
  assumes "ip_wf a" "v < 2 ^ 32"
  shows "ip_wf (client_addr a) \<and> client_addr (IPv6 (65535 * 2 ^ 32 + v)) = IPv4 v
    \<and> client_addr (IPv6 (0x2a0d1a40790000060000000000000000 + v)) = IPv4 v"
  using client_addr_wf[OF assms(1)] client_addr_mapped[OF assms(2)] client_addr_net64[OF assms(2)] by blast

theorem client_address_recovered_witness:
  "client_addr (IPv6 (0x2a0d1a40790000060000000000000000 + 3221225985)) = IPv4 3221225985"
  using client_address_recovered[of "IPv4 0" 3221225985] by simp

end
