(* ===== verification/Urls.thy ===== *)
theory Urls
  imports Admin_Views Dyndns
begin

text \<open>
  The paths of \<^verbatim>\<open>urls.py\<close>, grouped by the part of the interface they belong to, and the view that answers
  each. A request for a record class without such views finds no path. The paths of the GitHub and
  Google integrations and of the REST interface are not among them.
\<close>

type_synonym id_view = "web \<Rightarrow> ext \<Rightarrow> request \<Rightarrow> pstr \<Rightarrow> response io"

definition no_view :: id_view where
  "no_view W E req i = throw Http404"

fun create_record_url :: "model \<Rightarrow> id_view" where
  "create_record_url M_Address = create_address_record"
| "create_record_url M_DynamicAddress = create_dynamic_address_record"
| "create_record_url M_ANAME = create_aname_record"
| "create_record_url M_Redirect = create_redirect_record"
| "create_record_url M_CNAME = create_cname_record"
| "create_record_url M_MX = create_mx_record"
| "create_record_url M_NS = create_ns_record"
| "create_record_url M_TXT = create_txt_record"
| "create_record_url M_SRV = create_srv_record"
| "create_record_url M_CAA = create_caa_record"
| "create_record_url M_NAPTR = create_naptr_record"
| "create_record_url M_SSHFP = create_sshfp_record"
| "create_record_url M_DS = create_ds_record"
| "create_record_url M_DNSKEY = create_dnskey_record"
| "create_record_url M_LOC = create_loc_record"
| "create_record_url M_HINFO = create_hinfo_record"
| "create_record_url M_RP = create_rp_record"
| "create_record_url M_HTTPS = create_https_record"
| "create_record_url m = no_view"

fun edit_record_url :: "model \<Rightarrow> id_view" where
  "edit_record_url M_Address = edit_address_record"
| "edit_record_url M_DynamicAddress = edit_dynamic_address_record"
| "edit_record_url M_ANAME = edit_aname_record"
| "edit_record_url M_Redirect = edit_redirect_record"
| "edit_record_url M_CNAME = edit_cname_record"
| "edit_record_url M_MX = edit_mx_record"
| "edit_record_url M_NS = edit_ns_record"
| "edit_record_url M_TXT = edit_txt_record"
| "edit_record_url M_SRV = edit_srv_record"
| "edit_record_url M_CAA = edit_caa_record"
| "edit_record_url M_NAPTR = edit_naptr_record"
| "edit_record_url M_SSHFP = edit_sshfp_record"
| "edit_record_url M_DS = edit_ds_record"
| "edit_record_url M_DNSKEY = edit_dnskey_record"
| "edit_record_url M_LOC = edit_loc_record"
| "edit_record_url M_HINFO = edit_hinfo_record"
| "edit_record_url M_RP = edit_rp_record"
| "edit_record_url M_HTTPS = edit_https_record"
| "edit_record_url m = no_view"

fun delete_record_url :: "model \<Rightarrow> id_view" where
  "delete_record_url M_Address = delete_address_record"
| "delete_record_url M_DynamicAddress = delete_dynamic_address_record"
| "delete_record_url M_ANAME = delete_aname_record"
| "delete_record_url M_Redirect = delete_redirect_record"
| "delete_record_url M_CNAME = delete_cname_record"
| "delete_record_url M_MX = delete_mx_record"
| "delete_record_url M_NS = delete_ns_record"
| "delete_record_url M_TXT = delete_txt_record"
| "delete_record_url M_SRV = delete_srv_record"
| "delete_record_url M_CAA = delete_caa_record"
| "delete_record_url M_NAPTR = delete_naptr_record"
| "delete_record_url M_SSHFP = delete_sshfp_record"
| "delete_record_url M_DS = delete_ds_record"
| "delete_record_url M_DNSKEY = delete_dnskey_record"
| "delete_record_url M_LOC = delete_loc_record"
| "delete_record_url M_HINFO = delete_hinfo_record"
| "delete_record_url M_RP = delete_rp_record"
| "delete_record_url M_HTTPS = delete_https_record"
| "delete_record_url m = no_view"

datatype zone_path =
    P_setup_subscription | P_create_zone | P_create_domains_zone | P_delete_zone pstr
  | P_create_record model pstr | P_edit_record model pstr | P_delete_record model pstr
  | P_import_zone_file pstr | P_export_zone_file pstr | P_generate_dmarc pstr | P_create_blank_spf pstr
  | P_create_blank_dmarc pstr | P_setup_gsuite pstr | P_setup_icloud pstr | P_zones | P_create_domain_zone_list | P_edit_zone pstr

fun respond_zone :: "web \<Rightarrow> ext \<Rightarrow> zone_path \<Rightarrow> request \<Rightarrow> response io" where
  "respond_zone W E P_setup_subscription req = setup_subscription W E req"
| "respond_zone W E P_create_zone req = create_zone W E req"
| "respond_zone W E P_create_domains_zone req = create_domains_zone W E req"
| "respond_zone W E (P_delete_zone i) req = delete_zone W E req i"
| "respond_zone W E (P_create_record m i) req = create_record_url m W E req i"
| "respond_zone W E (P_edit_record m i) req = edit_record_url m W E req i"
| "respond_zone W E (P_delete_record m i) req = delete_record_url m W E req i"
| "respond_zone W E (P_import_zone_file i) req = import_zone_file_view W E req i"
| "respond_zone W E (P_export_zone_file i) req = export_zone_file W E req i"
| "respond_zone W E (P_generate_dmarc i) req = generate_dmarc W E req i"
| "respond_zone W E (P_create_blank_spf i) req = create_blank_spf_view W E req i"
| "respond_zone W E (P_create_blank_dmarc i) req = create_blank_dmarc_view W E req i"
| "respond_zone W E (P_setup_gsuite i) req = setup_gsuite W E req i"
| "respond_zone W E (P_setup_icloud i) req = setup_icloud W E req i"
| "respond_zone W E P_zones req = zones W req"
| "respond_zone W E P_create_domain_zone_list req = create_domain_zone_list W E req"
| "respond_zone W E (P_edit_zone i) req = edit_zone W E req i"

datatype key_path =
    P_disable_zone_cds pstr | P_enable_zone_cds pstr | P_create_zone_cds pstr | P_delete_zone_cds pstr pstr
  | P_edit_zone_secrets pstr | P_create_zone_secret pstr | P_edit_zone_secret pstr
  | P_delete_zone_secret pstr | P_edit_zone_axfr pstr | P_create_zone_axfr_secret pstr
  | P_edit_zone_axfr_secret pstr | P_delete_zone_axfr_secret pstr | P_create_zone_axfr_ip_acl pstr
  | P_edit_zone_axfr_ip_acl pstr | P_delete_zone_axfr_ip_acl pstr | P_create_zone_axfr_notify pstr
  | P_edit_zone_axfr_notify pstr | P_delete_zone_axfr_notify pstr | P_edit_custom_ns pstr
  | P_create_zone_custom_ns pstr | P_edit_custom_ns_record pstr | P_delete_custom_ns_record pstr
  | P_edit_zone_cds pstr | P_create_zone_cdnskey pstr | P_delete_zone_cdnskey pstr pstr

fun respond_key :: "web \<Rightarrow> ext \<Rightarrow> key_path \<Rightarrow> request \<Rightarrow> response io" where
  "respond_key W E (P_disable_zone_cds i) req = disable_zone_cds W E req i"
| "respond_key W E (P_enable_zone_cds i) req = enable_zone_cds W E req i"
| "respond_key W E (P_create_zone_cds i) req = create_zone_cds W E req i"
| "respond_key W E (P_delete_zone_cds i j) req = delete_zone_cds W E req i j"
| "respond_key W E (P_edit_zone_secrets i) req = edit_zone_tsig W E req i"
| "respond_key W E (P_create_zone_secret i) req = create_zone_secret W E req i"
| "respond_key W E (P_edit_zone_secret i) req = edit_zone_secret W E req i"
| "respond_key W E (P_delete_zone_secret i) req = delete_zone_secret W E req i"
| "respond_key W E (P_edit_zone_axfr i) req = edit_zone_axfr W E req i"
| "respond_key W E (P_create_zone_axfr_secret i) req = create_zone_axfr_secret W E req i"
| "respond_key W E (P_edit_zone_axfr_secret i) req = edit_zone_axfr_secret W E req i"
| "respond_key W E (P_delete_zone_axfr_secret i) req = delete_zone_axfr_secret W E req i"
| "respond_key W E (P_create_zone_axfr_ip_acl i) req = create_zone_axfr_ip_acl W E req i"
| "respond_key W E (P_edit_zone_axfr_ip_acl i) req = edit_zone_axfr_ip_acl W E req i"
| "respond_key W E (P_delete_zone_axfr_ip_acl i) req = delete_zone_axfr_ip_acl W E req i"
| "respond_key W E (P_create_zone_axfr_notify i) req = create_zone_axfr_notify W E req i"
| "respond_key W E (P_edit_zone_axfr_notify i) req = edit_zone_axfr_notify W E req i"
| "respond_key W E (P_delete_zone_axfr_notify i) req = delete_zone_axfr_notify W E req i"
| "respond_key W E (P_edit_custom_ns i) req = edit_zone_custom_ns W E req i"
| "respond_key W E (P_create_zone_custom_ns i) req = create_zone_custom_ns W E req i"
| "respond_key W E (P_edit_custom_ns_record i) req = edit_zone_custom_ns_record W E req i"
| "respond_key W E (P_delete_custom_ns_record i) req = delete_zone_custom_ns_record W E req i"
| "respond_key W E (P_edit_zone_cds i) req = edit_zone_cds W E req i"
| "respond_key W E (P_create_zone_cdnskey i) req = create_zone_cdnskey W E req i"
| "respond_key W E (P_delete_zone_cdnskey i j) req = delete_zone_cdnskey W E req i j"

datatype reverse_path =
    P_rzones | P_edit_rzone pstr | P_create_r_ptr_record pstr | P_create_r_ns_record pstr
  | P_edit_r_ptr_record pstr | P_delete_r_ptr_record pstr | P_edit_r_ns_record pstr
  | P_delete_r_ns_record pstr

fun respond_reverse :: "web \<Rightarrow> ext \<Rightarrow> reverse_path \<Rightarrow> request \<Rightarrow> response io" where
  "respond_reverse W E P_rzones req = list_rzones W req"
| "respond_reverse W E (P_edit_rzone i) req = edit_rzone W E req i"
| "respond_reverse W E (P_create_r_ptr_record i) req = create_r_ptr_record W E req i"
| "respond_reverse W E (P_create_r_ns_record i) req = create_r_ns_record W E req i"
| "respond_reverse W E (P_edit_r_ptr_record i) req = edit_r_ptr_record W E req i"
| "respond_reverse W E (P_delete_r_ptr_record i) req = delete_r_ptr_record W E req i"
| "respond_reverse W E (P_edit_r_ns_record i) req = edit_r_ns_record W E req i"
| "respond_reverse W E (P_delete_r_ns_record i) req = delete_r_ns_record W E req i"

datatype secondary_path =
    P_view_szone pstr | P_edit_szone pstr | P_delete_szone pstr | P_new_szone | P_szones

fun respond_secondary :: "web \<Rightarrow> ext \<Rightarrow> secondary_path \<Rightarrow> request \<Rightarrow> response io" where
  "respond_secondary W E (P_view_szone i) req = view_szone W E req i"
| "respond_secondary W E (P_edit_szone i) req = edit_szone W E req i"
| "respond_secondary W E (P_delete_szone i) req = delete_szone W E req i"
| "respond_secondary W E P_new_szone req = create_szone W E req"
| "respond_secondary W E P_szones req = list_szones W req"

datatype admin_path =
    P_admin_delete_zone pstr | P_admin_delete_rzone pstr | P_admin_delete_szone pstr | P_admin_index
  | P_admin_create_zone | P_admin_create_rzone | P_admin_create_szone

fun respond_admin :: "web \<Rightarrow> ext \<Rightarrow> admin_path \<Rightarrow> request \<Rightarrow> response io" where
  "respond_admin W E (P_admin_delete_zone i) req = admin_delete_zone W E req i"
| "respond_admin W E (P_admin_delete_rzone i) req = admin_delete_rzone W E req i"
| "respond_admin W E (P_admin_delete_szone i) req = admin_delete_szone W E req i"
| "respond_admin W E P_admin_index req = admin_index W req"
| "respond_admin W E P_admin_create_zone req = admin_create_zone W E req"
| "respond_admin W E P_admin_create_rzone req = admin_create_rzone W E req"
| "respond_admin W E P_admin_create_szone req = admin_create_szone W E req"

datatype path =
    Zone_path zone_path | Key_path key_path | Reverse_path reverse_path | Secondary_path secondary_path
  | Admin_path admin_path | P_check_ip | P_update_ip

fun respond :: "web \<Rightarrow> ext \<Rightarrow> path \<Rightarrow> request \<Rightarrow> response io" where
  "respond W E (Zone_path p) req = respond_zone W E p req"
| "respond W E (Key_path p) req = respond_key W E p req"
| "respond W E (Reverse_path p) req = respond_reverse W E p req"
| "respond W E (Secondary_path p) req = respond_secondary W E p req"
| "respond W E (Admin_path p) req = respond_admin W E p req"
| "respond W E P_check_ip req = check_ip req"
| "respond W E P_update_ip req = update_ip E req"

end
