(* ===== verification/View_Ops.thy ===== *)
theory View_Ops
  imports View_Frame Urls
begin

text \<open>
  Which zones the operations touch that views are made of: drawing identifiers, queueing tasks,
  talking to other systems, saving and deleting zones, records and the other rows of a zone.
\<close>

named_theorems touch_acts \<open>operations and the zones they touch\<close>

section \<open>Operations that touch no zone\<close>

lemma builds_silent:
  assumes "\<And>w. f w = w\<lparr>queue := queue (f w), events := events (f w), accounts := accounts (f w),
    gh_states := gh_states (f w), gh_installs := gh_installs (f w), gg_states := gg_states (f w),
    gg_installs := gg_installs (f w), sessions := sessions (f w)\<rparr>"
  shows "builds E Z w (f w)"
proof -
  have "builds E Z w (w\<lparr>queue := q, events := e, accounts := a, gh_states := s1, gh_installs := i1, gg_states := s2,
      gg_installs := i2, sessions := ss\<rparr>)" for q e a s1 i1 s2 i2 ss
    by (simp add: builds_def touches_def zone_table_defs)
  then show ?thesis using assms[of w] by metis
qed

lemma touch_delay [touch_acts]: "obeys P (builds E Z) (modify (delay t))"
  by (simp add: obeys_def modify_def delay_def builds_silent)

lemma touch_http [touch_acts]: "obeys P (builds E Z) (http_call E' q)"
  by (simp add: obeys_def http_call_def emit_def builds_silent)

lemma touch_session [touch_acts]: "obeys P (builds E Z) (set_session req f)"
  by (simp add: obeys_def set_session_def modify_def builds_silent)

lemma touch_new_id [touch_acts]: "obeys P (builds E Z) (new_id E)"
  by (auto simp: obeys_def new_id_def builds_def touches_def zone_table_defs elim!: fresh_later)

lemma touch_log_usage [touch_acts]: "obeys P (builds E Z) (log_usage E' u extra cr os uri)"
  unfolding obeys_def
proof (intro allI impI)
  fix w
  obtain r w' where run: "log_usage E' u extra cr os uri w = (r, w')" by fastforce
  then obtain es where "w'\<lparr>accounts := []\<rparr> = w\<lparr>events := events w @ es, accounts := []\<rparr>"
    using log_usage_accounts by blast
  then have "w' = w\<lparr>queue := queue w', events := events w', accounts := accounts w'\<rparr>"
    by (cases w'; cases w) simp
  then show "builds E Z w (snd (log_usage E' u extra cr os uri w))"
    using builds_silent[of "\<lambda>v. v\<lparr>queue := queue w', events := events w', accounts := accounts w'\<rparr>" E Z w]
    by (simp add: run)
qed

lemma touch_owner_usage [touch_acts]: "obeys (tables_ok E) (builds E Z) (owner_log_usage E' rid extra cr os uri)"
proof -
  have "obeys (tables_ok E) (builds E Z)
      (case x of None \<Rightarrow> throw AttributeError | Some u \<Rightarrow> log_usage E' u extra cr os uri)" for x
    by (cases x) (simp_all add: bld.obeys_pure touch_acts)
  then show ?thesis
    unfolding owner_log_usage_def by (intro bld.obeys_bind[OF _ _ builds_ok]) (rule bld.obeys_pure)
qed


section \<open>Zones and their records\<close>

lemma emit_builds: "builds E Z w v \<Longrightarrow> builds E Z w (emit e v)"
  by (rule bld.R_trans) (auto intro: builds_silent simp: emit_def)

lemma emit_touches: "touches E Z w v \<Longrightarrow> touches E Z w (emit e v)"
  by (rule tch.R_trans[OF _ builds_touches[OF emit_builds[OF bld.R_refl]]])

lemma touch_keycloak:
  assumes "\<And>r w. P w \<Longrightarrow> builds E Z w (f r w)"
  shows "obeys P (builds E Z) (keycloak_resource E' i rid f)"
  unfolding obeys_def
proof (intro allI impI)
  fix w assume P: "P w"
  obtain x v where run: "keycloak_resource E' i rid f w = (x, v)" by fastforce
  then have "builds E Z w v"
    using keycloak_resource_cases[OF run] emit_builds[OF assms[OF P]] emit_builds[OF bld.R_refl] by blast
  then show "builds E Z w (snd (keycloak_resource E' i rid f w))" using run by simp
qed

lemma touch_zone_save [touch_acts]:
  "z_id z \<in> Z \<Longrightarrow> obeys (zt.owned E Z z) (builds E Z) (DNSZone_save E' z)"
  using zt.upsert_builds[of E Z "z\<lparr>zone_root := n, z_resource_id := i\<rparr>" for n i]
  unfolding DNSZone_save_def by (intro touch_keycloak) (auto simp: zt.owned_def)

lemma touch_save_zone_now [touch_acts]:
  assumes "z_id z \<in> Z"
  shows "obeys (zt.owned E Z z) (builds E Z) (save_zone_now E' z)"
  unfolding save_zone_now_def
proof (intro bld.obeys_bind[OF bld.obeys_pure(4)])
  show "obeys (zt.owned E Z z) (builds E Z) (DNSZone_save E' (z\<lparr>z_last_modified := t\<rparr>))" for t
    by (rule obeys_pre[OF touch_zone_save[of "z\<lparr>z_last_modified := t\<rparr>" Z E E']])
      (use assms in \<open>simp_all add: zt.owned_def\<close>)
qed (rule zt.owned_stable)

lemma touch_rzone_save [touch_acts]:
  "rz_id z \<in> Z \<Longrightarrow> obeys (rzt.owned E Z z) (builds E Z) (ReverseDNSZone_save E' z)"
  using rzt.upsert_builds[of E Z "z\<lparr>rz_resource_id := i\<rparr>" for i]
  unfolding ReverseDNSZone_save_def by (intro touch_keycloak) (auto simp: rzt.owned_def)

lemma touch_save_rzone_now [touch_acts]:
  assumes "rz_id z \<in> Z"
  shows "obeys (rzt.owned E Z z) (builds E Z) (save_rzone_now E' z)"
  unfolding save_rzone_now_def
proof (intro bld.obeys_bind[OF bld.obeys_pure(4)])
  show "obeys (rzt.owned E Z z) (builds E Z) (ReverseDNSZone_save E' (z\<lparr>rz_last_modified := t\<rparr>))" for t
    by (rule obeys_pre[OF touch_rzone_save[of "z\<lparr>rz_last_modified := t\<rparr>" Z E E']])
      (use assms in \<open>simp_all add: rzt.owned_def\<close>)
qed (rule rzt.owned_stable)

lemma touch_szone_save [touch_acts]:
  "sz_id z \<in> Z \<Longrightarrow> obeys (szt.owned E Z z) (builds E Z) (SecondaryDNSZone_save E' z)"
  using szt.upsert_builds[of E Z "z\<lparr>sz_zone_root := n, sz_resource_id := i\<rparr>" for n i]
  unfolding SecondaryDNSZone_save_def by (intro touch_keycloak) (auto simp: szt.owned_def)

lemma queue_events_builds:
  "builds E Z w (v\<lparr>queue := q, events := e\<rparr>) \<longleftrightarrow> builds E Z w v"
  "builds E Z w (v\<lparr>queue := q, zrecs := rs\<rparr>) \<longleftrightarrow> builds E Z w (v\<lparr>zrecs := rs\<rparr>)"
  "builds E Z w (v\<lparr>events := e, zrecs := rs\<rparr>) \<longleftrightarrow> builds E Z w (v\<lparr>zrecs := rs\<rparr>)"
  unfolding builds_def touches_def zone_table_defs by simp_all

lemma touch_zrec_save [touch_acts]:
  assumes "r_zone r \<in> Z"
  shows "obeys (rt.owned E Z r) (builds E Z) (zrec_save E z r)"
  unfolding obeys_def
proof (intro allI impI)
  fix w
  assume o: "rt.owned E Z r w"
  obtain x w' where run: "zrec_save E z r w = (x, w')" by fastforce
  have "builds E Z w (w\<lparr>zrecs := upsert pk row (zrecs w)\<rparr>)" if "written E r = Inr row" for row
    using rt.upsert_builds[of E Z row w] o assms written_simps[OF that] rt.owned_cong[of row r E Z w]
    by (simp add: pk_def)
  moreover have "builds E Z w w" by (rule bld.R_refl)
  ultimately show "builds E Z w (snd (zrec_save E z r w))"
    using zrec_save_cases[OF run] run by (auto simp: queue_events_builds)
qed

lemma touch_zrec_delete [touch_acts]: "obeys (rt.owned E Z r) (builds E Z) (zrec_delete E r)"
  unfolding obeys_def
proof (intro allI impI)
  fix w
  assume o: "rt.owned E Z r w"
  obtain x w' where run: "zrec_delete E r w = (x, w')" by fastforce
  show "builds E Z w (snd (zrec_delete E r w))"
    using zrec_delete_cases[OF run] run rt.remove_builds[OF o] bld.R_refl[of E Z w]
    by (auto simp: queue_events_builds)
qed

text \<open>What only changes the records of an existing zone builds on that zone.\<close>

lemma tables_db_ok: "tables_ok E w \<Longrightarrow> db_ok E w"
  by (auto simp: integrity_defs db_ok_def fresh_def)

lemma filter_other:
  assumes "[r \<leftarrow> rs. f r \<noteq> b] = [r \<leftarrow> ss. f r \<noteq> b]" "a \<noteq> b"
  shows "[r \<leftarrow> rs. f r = a] = [r \<leftarrow> ss. f r = a]"
proof -
  have "[r \<leftarrow> us. f r = a] = [r \<leftarrow> [r \<leftarrow> us. f r \<noteq> b]. f r = a]" for us
    using assms(2) by (auto simp: filter_filter intro!: filter_cong)
  then show ?thesis using assms(1) by metis
qed

lemma zone_step_builds:
  assumes "tables_ok E w" "zone_step E zid w w'" "zid \<in> Z" "zid \<in> zone_ids w"
  shows "builds E Z w w'"
proof -
  have db: "db_ok E w'" and f: "frame zid w w'"
    using assms(1,2) tables_db_ok by (auto simp: zone_step_def)
  then obtain qs es where rows: "[r \<leftarrow> zrecs w'. r_zone r \<noteq> zid] = [r \<leftarrow> zrecs w. r_zone r \<noteq> zid]"
    and n: "next_uuid w \<le> next_uuid w'"
    and w': "w' = w\<lparr>zrecs := zrecs w', queue := queue w @ qs, events := events w @ es, next_uuid := next_uuid w'\<rparr>"
    by (auto simp: frame_def)
  have "same_zone z w (w\<lparr>zrecs := zrecs w', queue := q, events := e, next_uuid := k\<rparr>)" if "z \<noteq> zid" for z q e k
    using filter_other[OF rows that] by (simp add: same_zone_def)
  then have same: "same_zone z w w'" if "z \<noteq> zid" for z using that w' by metis
  have "r_zone r \<in> zone_ids w" if r: "r \<in> set (zrecs w')" for r
  proof (cases "r_zone r = zid")
    case False
    then have "r \<in> set [r \<leftarrow> zrecs w. r_zone r \<noteq> zid]" using r rows by (metis (mono_tags) mem_Collect_eq set_filter)
    then show ?thesis using rt.rows_home[OF assms(1)] by simp
  qed (use assms(4) in simp)
  then have refs: "r_zone ` set (zrecs w') \<subseteq> zone_ids w" by blast
  have "tables_ok E (w\<lparr>zrecs := zrecs w', queue := q, events := e, next_uuid := next_uuid w'\<rparr>)" for q e
    using assms(1) db n refs by (auto simp: integrity_defs db_ok_def fresh_def zone_id_defs)
  then have "tables_ok E w'" using w' by metis
  moreover have "\<forall>z. z \<notin> Z \<longrightarrow> same_zone z w w'" using same assms(3) by metis
  moreover have "grown w (w\<lparr>zrecs := rs, queue := q, events := e, next_uuid := k\<rparr>)" for rs q e k
    by (simp add: grown_def zone_id_defs)
  then have "grown w w'" using w' by metis
  ultimately show ?thesis using n by (simp add: builds_def touches_def)
qed

lemma touch_zone_step:
  "obeys P (zone_step E zid) m \<Longrightarrow> zid \<in> Z \<Longrightarrow> (\<And>w. Q w \<Longrightarrow> tables_ok E w \<and> P w \<and> zid \<in> zone_ids w)
    \<Longrightarrow> obeys Q (builds E Z) m"
  unfolding obeys_def by (blast intro: zone_step_builds)

text \<open>Deleting a zone takes all its rows with it.\<close>

lemma filter_del_other: "a \<noteq> b \<Longrightarrow> [x \<leftarrow> xs. f x \<noteq> b \<and> f x = a] = [x \<leftarrow> xs. f x = a]"
  by (rule filter_cong) auto

lemma refs_cascade: "f ` set xs \<subseteq> g ` set ys \<Longrightarrow> f ` {x \<in> set xs. f x \<noteq> b} \<subseteq> g ` {y \<in> set ys. g y \<noteq> b}"
  by auto

lemmas cascade_simps = zone_table_defs fresh_filter remove_def refs_cascade

lemma touch_zone_delete [touch_acts]:
  assumes "z_id z \<in> Z"
  shows "obeys (tables_ok E) (touches E Z) (DNSZone_delete E' z)"
proof -
  have other: "zid \<noteq> z_id z" if "zid \<notin> Z" for zid using that assms by blast
  have "touches E Z w (DNSZone_cascade (z_id z) w)" for w
    by (simp add: touches_def DNSZone_cascade_def Let_def cascade_simps filter_del_other[OF other])
  then show ?thesis by (simp add: obeys_def DNSZone_delete_def emit_touches)
qed

lemma touch_rzone_delete [touch_acts]:
  assumes "rz_id z \<in> Z"
  shows "obeys (tables_ok E) (touches E Z) (ReverseDNSZone_delete E' z)"
proof -
  have other: "zid \<noteq> rz_id z" if "zid \<notin> Z" for zid using that assms by blast
  have "touches E Z w (w\<lparr>rzones := remove rz_id z (rzones w),
        ptrs := [p \<leftarrow> ptrs w. p_zone p \<noteq> rz_id z],
        rnss := [p \<leftarrow> rnss w. rn_zone p \<noteq> rz_id z],
        r_cds := [c \<leftarrow> r_cds w. cds_zone c \<noteq> rz_id z],
        r_cdnskey := [c \<leftarrow> r_cdnskey w. ck_zone c \<noteq> rz_id z],
        r_custom_ns := [n \<leftarrow> r_custom_ns w. ns_zone n \<noteq> rz_id z]\<rparr>)" for w
    by (simp add: touches_def cascade_simps filter_del_other[OF other])
  then show ?thesis by (simp add: obeys_def ReverseDNSZone_delete_def emit_touches)
qed

lemma touch_szone_delete [touch_acts]:
  assumes "sz_id z \<in> Z"
  shows "obeys (tables_ok E) (touches E Z) (SecondaryDNSZone_delete E' z)"
proof -
  have other: "zid \<noteq> sz_id z" if "zid \<notin> Z" for zid using that assms by blast
  have "touches E Z w (w\<lparr>szones := remove sz_id z (szones w),
        szone_records := [r \<leftarrow> szone_records w. sr_zone r \<noteq> sz_id z]\<rparr>)" for w
    by (simp add: touches_def cascade_simps filter_del_other[OF other])
  then show ?thesis by (simp add: obeys_def SecondaryDNSZone_delete_def emit_touches)
qed

end
