(* ===== verification/View_Props.thy ===== *)
theory View_Props
  imports View_Ops Urls
begin

text \<open>
  Who may change a zone through the web interface: the views of forward zones touch only zones for which
  the request is \<open>permitted\<close> (Keycloak grants the user the scope \<^verbatim>\<open>edit\<close> or \<^verbatim>\<open>delete\<close>, the user presents a
  signed token for the domain, administrates the service, or gives the password of a dynamic address)
  and zones they create.
\<close>

section \<open>Permission\<close>

definition granted :: "web \<Rightarrow> request \<Rightarrow> dnszone \<Rightarrow> bool" where
  "granted W req z \<longleftrightarrow> (\<exists>u tok action. req_user req = Some u \<and> access_token W u = Inr tok
     \<and> action \<in> {str ''edit'', str ''delete''} \<and> DNSZone_has_scope W tok z action = Inr True)"

definition domain_token_for :: "web \<Rightarrow> request \<Rightarrow> dnszone \<Rightarrow> bool" where
  "domain_token_for W req z \<longleftrightarrow> (\<exists>u dt. req_user req = Some u
     \<and> jwt_decode W (map_of (query req) (str ''domain_token'')) = Some dt
     \<and> dt_sub dt = username u \<and> dt_domain dt = zone_root z)"

definition granted_reverse :: "web \<Rightarrow> request \<Rightarrow> rzone \<Rightarrow> bool" where
  "granted_reverse W req z \<longleftrightarrow> (\<exists>u tok. req_user req = Some u \<and> access_token W u = Inr tok
     \<and> ReverseDNSZone_has_scope W tok z (str ''edit'') = Inr True)"

definition granted_secondary :: "web \<Rightarrow> request \<Rightarrow> szone \<Rightarrow> bool" where
  "granted_secondary W req z \<longleftrightarrow> (\<exists>u tok action. req_user req = Some u \<and> access_token W u = Inr tok
     \<and> action \<in> {str ''edit'', str ''delete''} \<and> SecondaryDNSZone_has_scope W tok z action = Inr True)"

definition is_admin :: "web \<Rightarrow> request \<Rightarrow> bool" where
  "is_admin W req \<longleftrightarrow> (\<exists>u. req_user req = Some u \<and> has_perm W u (str ''dns_grpc.access_admin''))"

text \<open>The request carries the identifier and the password of a dynamic address record.\<close>

definition password_for :: "ext \<Rightarrow> request \<Rightarrow> zrec \<Rightarrow> bool" where
  "password_for E req r \<longleftrightarrow> zmodel r = M_DynamicAddress
     \<and> (\<exists>i. get_header_auth req = Inr (Some (i, dyn_password r)) \<and> typed_uuid E i = Some (r_id r))"

definition permitted :: "web \<Rightarrow> ext \<Rightarrow> request \<Rightarrow> world \<Rightarrow> pstr \<Rightarrow> bool" where
  "permitted W E req w zid \<longleftrightarrow> is_admin W req
     \<or> (\<exists>z \<in> set (dnszones w). z_id z = zid \<and> (granted W req z \<or> domain_token_for W req z))
     \<or> (\<exists>z \<in> set (rzones w). rz_id z = zid \<and> granted_reverse W req z)
     \<or> (\<exists>z \<in> set (szones w). sz_id z = zid \<and> granted_secondary W req z)
     \<or> (\<exists>r \<in> set (zrecs w). r_zone r = zid \<and> password_for E req r)"

definition allowed :: "web \<Rightarrow> ext \<Rightarrow> request \<Rightarrow> world \<Rightarrow> pstr set" where
  "allowed W E req w = {zid. permitted W E req w zid} \<union> uuid E ` {n. next_uuid w \<le> n}"

definition confined :: "web \<Rightarrow> ext \<Rightarrow> request \<Rightarrow> response io \<Rightarrow> bool" where
  "confined W E req m \<longleftrightarrow> (\<forall>w. touches E (allowed W E req w) w (snd (m w)))"


section \<open>Composing operations\<close>

lemma stable_tables_ok: "stable E Z (tables_ok E)"
  using builds_ok by (auto simp: stable_def)

lemmas stable_rules = stable_tables_ok zt.stable_owned rt.stable_owned ct.stable_owned kt.stable_owned nt.stable_owned
  st.stable_owned at.stable_owned xt.stable_owned yt.stable_owned rzt.stable_owned szt.stable_owned pt.stable_owned
  rnt.stable_owned

lemma stable_conj: "stable E Z P \<Longrightarrow> stable E Z Q \<Longrightarrow> stable E Z (\<lambda>s. P s \<and> Q s)"
  by (auto simp: stable_def)

lemma touch_seq:
  "stable E Z P \<Longrightarrow> obeys P (builds E Z) m \<Longrightarrow> obeys P (builds E Z) n \<Longrightarrow> obeys P (builds E Z) (seq m n)"
  by (rule bld.obeys_seq) (auto simp: stable_def)

lemma touch_bind:
  "stable E Z P \<Longrightarrow> obeys P (builds E Z) m \<Longrightarrow> (\<And>a. obeys P (builds E Z) (f a))
     \<Longrightarrow> obeys P (builds E Z) (bind_act m f)"
  by (rule bld.obeys_bind) (auto simp: stable_def)

lemma touch_ret: "obeys P (builds E Z) (ret a)"
  by (rule bld.obeys_pure)

lemma touch_finish:
  "stable E Z P \<Longrightarrow> obeys P (builds E Z) m \<Longrightarrow> obeys P (builds E Z) (seq m (ret a))"
  by (rule touch_seq[OF _ _ touch_ret])

lemma obeys_conj1: "obeys P R m \<Longrightarrow> obeys (\<lambda>s. P s \<and> Q s) R m"
  by (simp add: obeys_def)

lemma obeys_conj2: "obeys Q R m \<Longrightarrow> obeys (\<lambda>s. P s \<and> Q s) R m"
  by (simp add: obeys_def)

text \<open>An operation that only reads, and what is known of its result.\<close>

lemma touch_read:
  assumes "\<And>s. snd (m s) = s" "\<And>s a. P s \<Longrightarrow> m s = (Inr a, s) \<Longrightarrow> builds E Z s (snd (f a s))"
  shows "obeys P (builds E Z) (bind_act m f)"
proof (rule bld.obeys_bind_strong)
  show "obeys P (builds E Z) m" by (simp add: obeys_def assms(1) bld.R_refl)
  show "builds E Z t (snd (f a t))" if "P s" "m s = (Inr a, t)" for s a t
    using assms(1)[of s] assms(2)[of s a] that by auto
qed

lemma touch_form:
  assumes "\<And>s. snd (form s) = s" "\<And>s r. P s \<Longrightarrow> form s = (Inr (Some r), s) \<Longrightarrow> builds E Z s (snd (save r s))"
  shows "obeys P (builds E Z) (bind_act form (\<lambda>f. case f of Some r \<Rightarrow> save r | None \<Rightarrow> ret page))"
  by (rule touch_read[OF assms(1)]) (use assms(2) in \<open>auto simp: ret_def bld.R_refl split: option.split\<close>)

lemma touch_asks: "(\<And>a. obeys P (builds E Z) (f a)) \<Longrightarrow> obeys P (builds E Z) (bind_act (asks g) f)"
  by (simp add: obeys_def bind_act_def asks_def)

lemma touch_cond:
  "(c \<Longrightarrow> obeys P (builds E Z) m) \<Longrightarrow> (\<not> c \<Longrightarrow> obeys P (builds E Z) n) \<Longrightarrow> obeys P (builds E Z) (if c then m else n)"
  by simp

lemma touch_option:
  "(x = None \<Longrightarrow> obeys P (builds E Z) m) \<Longrightarrow> (\<And>a. x = Some a \<Longrightarrow> obeys P (builds E Z) (f a))
     \<Longrightarrow> obeys P (builds E Z) (case x of None \<Rightarrow> m | Some a \<Rightarrow> f a)"
  by (cases x) simp_all

lemma obeys_at: "obeys P R m \<Longrightarrow> P s \<Longrightarrow> R s (snd (m s))"
  by (simp add: obeys_def)

text \<open>A zone that exists and may be changed.\<close>

definition held :: "ext \<Rightarrow> pstr set \<Rightarrow> dnszone \<Rightarrow> world \<Rightarrow> bool" where
  "held E Z z w \<longleftrightarrow> zt.owned E Z z w \<and> z_id z \<in> zone_ids w"

definition rheld :: "ext \<Rightarrow> pstr set \<Rightarrow> rzone \<Rightarrow> world \<Rightarrow> bool" where
  "rheld E Z z w \<longleftrightarrow> rzt.owned E Z z w \<and> rz_id z \<in> rzone_ids w"

lemma held_owned: "held E Z z w \<Longrightarrow> zt.owned E Z z w" "rheld E Z y w \<Longrightarrow> rzt.owned E Z y w"
  by (simp_all add: held_def rheld_def)

lemma held_ok: "held E Z z w \<Longrightarrow> tables_ok E w" "rheld E Z y w \<Longrightarrow> tables_ok E w"
  by (simp_all add: held_def rheld_def zt.owned_def rzt.owned_def)

lemma held_zone: "held E Z z w \<Longrightarrow> z_id z \<in> zone_ids w" "rheld E Z y w \<Longrightarrow> rz_id y \<in> rzone_ids w"
  by (simp_all add: held_def rheld_def)

lemma held_row:
  "tables_ok E w \<Longrightarrow> z \<in> set (dnszones w) \<Longrightarrow> z_id z \<in> Z \<Longrightarrow> held E Z z w"
  "tables_ok E w \<Longrightarrow> y \<in> set (rzones w) \<Longrightarrow> rz_id y \<in> Z \<Longrightarrow> rheld E Z y w"
  by (simp_all add: held_def rheld_def zt.owned_row rzt.owned_row zone_id_defs)

lemma stable_held: "stable E Z (held E Z z)" "stable E Z (rheld E Z y)"
  using zt.owned_stable rzt.owned_stable zt.owned_ok rzt.owned_ok
  unfolding stable_def held_def rheld_def by (fastforce simp: builds_def grown_def)+

lemma held_save_now:
  "z_id z \<in> Z \<Longrightarrow> obeys (held E Z z) (builds E Z) (save_zone_now E' z)"
  "rz_id y \<in> Z \<Longrightarrow> obeys (rheld E Z y) (builds E Z) (save_rzone_now E' y)"
  by (rule obeys_pre[OF touch_save_zone_now] obeys_pre[OF touch_save_rzone_now]; simp add: held_owned)+

text \<open>A newly drawn identifier is that of no row.\<close>

definition drawn :: "ext \<Rightarrow> pstr \<Rightarrow> world \<Rightarrow> bool" where
  "drawn E i w \<longleftrightarrow> tables_ok E w \<and> (\<forall>n \<ge> next_uuid w. i \<noteq> uuid E n)
     \<and> (\<forall>r \<in> set (zrecs w). r_id r \<noteq> i) \<and> (\<forall>c \<in> set (f_cds w). cds_id c \<noteq> i)
     \<and> (\<forall>c \<in> set (f_cdnskey w). ck_id c \<noteq> i) \<and> (\<forall>n \<in> set (f_custom_ns w). ns_id n \<noteq> i)
     \<and> (\<forall>s \<in> set (update_secrets w). us_id s \<noteq> i) \<and> (\<forall>a \<in> set (f_axfr_acls w). acl_id a \<noteq> i)
     \<and> (\<forall>s \<in> set (f_axfr_secrets w). as_id s \<noteq> i) \<and> (\<forall>n \<in> set (f_axfr_notifies w). an_id n \<noteq> i)
     \<and> (\<forall>z \<in> set (dnszones w). z_id z \<noteq> i) \<and> (\<forall>z \<in> set (rzones w). rz_id z \<noteq> i)
     \<and> (\<forall>z \<in> set (szones w). sz_id z \<noteq> i) \<and> (\<forall>p \<in> set (ptrs w). p_id p \<noteq> i)
     \<and> (\<forall>n \<in> set (rnss w). rn_id n \<noteq> i)"

lemma drawn_owned:
  assumes "drawn E i w"
  shows "r_id r = i \<Longrightarrow> r_zone r \<in> zone_ids w \<Longrightarrow> rt.owned E Z r w"
    "cds_id c = i \<Longrightarrow> cds_zone c \<in> zone_ids w \<Longrightarrow> ct.owned E Z c w"
    "ck_id k = i \<Longrightarrow> ck_zone k \<in> zone_ids w \<Longrightarrow> kt.owned E Z k w"
    "ns_id n = i \<Longrightarrow> ns_zone n \<in> zone_ids w \<Longrightarrow> nt.owned E Z n w"
    "us_id s = i \<Longrightarrow> us_zone s \<in> zone_ids w \<Longrightarrow> st.owned E Z s w"
    "acl_id a = i \<Longrightarrow> acl_zone a \<in> zone_ids w \<Longrightarrow> at.owned E Z a w"
    "as_id x = i \<Longrightarrow> as_zone x \<in> zone_ids w \<Longrightarrow> xt.owned E Z x w"
    "an_id y = i \<Longrightarrow> an_zone y \<in> zone_ids w \<Longrightarrow> yt.owned E Z y w"
    "p_id p = i \<Longrightarrow> p_zone p \<in> rzone_ids w \<Longrightarrow> pt.owned E Z p w"
    "rn_id b = i \<Longrightarrow> rn_zone b \<in> rzone_ids w \<Longrightarrow> rnt.owned E Z b w"
    "z_id z = i \<Longrightarrow> zt.owned E Z z w" "rz_id v = i \<Longrightarrow> rzt.owned E Z v w" "sz_id u = i \<Longrightarrow> szt.owned E Z u w"
  using assms
  by (auto simp: drawn_def rt.owned_def ct.owned_def kt.owned_def nt.owned_def st.owned_def at.owned_def
      xt.owned_def yt.owned_def zt.owned_def rzt.owned_def szt.owned_def pt.owned_def rnt.owned_def pk_def)

lemma held_drawn:
  assumes "held E Z z w" "drawn E i w"
  shows "r_id r = i \<Longrightarrow> r_zone r = z_id z \<Longrightarrow> rt.owned E Z r w"
    "cds_id c = i \<Longrightarrow> cds_zone c = z_id z \<Longrightarrow> ct.owned E Z c w"
    "ck_id k = i \<Longrightarrow> ck_zone k = z_id z \<Longrightarrow> kt.owned E Z k w"
    "ns_id n = i \<Longrightarrow> ns_zone n = z_id z \<Longrightarrow> nt.owned E Z n w"
    "us_id s = i \<Longrightarrow> us_zone s = z_id z \<Longrightarrow> st.owned E Z s w"
    "acl_id a = i \<Longrightarrow> acl_zone a = z_id z \<Longrightarrow> at.owned E Z a w"
    "as_id x = i \<Longrightarrow> as_zone x = z_id z \<Longrightarrow> xt.owned E Z x w"
    "an_id y = i \<Longrightarrow> an_zone y = z_id z \<Longrightarrow> yt.owned E Z y w"
  by (rule drawn_owned[OF assms(2)]; use held_zone(1)[OF assms(1)] in simp)+

lemma rheld_drawn:
  assumes "rheld E Z z w" "drawn E i w"
  shows "p_id p = i \<Longrightarrow> p_zone p = rz_id z \<Longrightarrow> pt.owned E Z p w"
    "rn_id b = i \<Longrightarrow> rn_zone b = rz_id z \<Longrightarrow> rnt.owned E Z b w"
  by (rule drawn_owned[OF assms(2)]; use held_zone(2)[OF assms(1)] in simp)+

lemma drawn_new:
  assumes "inj (uuid E)" "tables_ok E w"
  shows "drawn E (uuid E (next_uuid w)) (w\<lparr>next_uuid := next_uuid w + 1\<rparr>)"
  using assms unfolding drawn_def integrity_defs fresh_def zone_id_defs
  by (simp add: inj_eq)

lemma touch_new_row:
  assumes "inj (uuid E)" "stable E Z P"
    "\<And>i. obeys (\<lambda>s. P s \<and> drawn E i s) (builds E Z) (k i)"
  shows "obeys P (builds E Z) (bind_act (new_id E) k)"
proof (rule bld.obeys_bind_strong[OF touch_new_id])
  fix s i t
  assume P: "P s" and run: "new_id E s = (Inr i, t)"
  then have ok: "tables_ok E s" using assms(2) by (simp add: stable_def)
  have "builds E Z s t" using obeysD[OF touch_new_id[of "\<lambda>_. True"] _ run] by simp
  then have "P t" using assms(2) P by (simp add: stable_def)
  moreover have "drawn E i t" using drawn_new[OF assms(1) ok] run by (auto simp: new_id_def)
  ultimately show "builds E Z t (snd (k i t))" using assms(3) by (simp add: obeys_def)
qed


section \<open>The frames of the views\<close>

lemma in_allowed: "z \<in> set (dnszones w) \<Longrightarrow> granted W req z \<Longrightarrow> z_id z \<in> allowed W E req w"
  by (auto simp: allowed_def permitted_def)

lemma require_cases: "require r w = (if r = Inr True then Inr () else (case r of Inl e \<Rightarrow> Inl e | Inr _ \<Rightarrow> Inl PermissionDenied), w)"
  by (cases r) (auto simp: require_def act_defs)

lemma get_or_404_cases:
  "get_or_404 E key rows i w = (x, w') \<Longrightarrow> w' = w \<and> (\<forall>r. x = Inr r \<longrightarrow> r \<in> set (rows w))"
  by (auto simp: get_or_404_def asks_res_def find_Some_iff split: option.splits)

lemma foreign_cases:
  "foreign key rows i w = (x, w') \<Longrightarrow> w' = w \<and> (\<forall>r. x = Inr r \<longrightarrow> r \<in> set (rows w) \<and> key r = i)"
  by (auto simp: foreign_def asks_res_def find_Some_iff split: option.splits)

lemma find_in: "find P xs = Some x \<Longrightarrow> x \<in> set xs \<and> P x"
  by (auto simp: find_Some_iff)

lemmas frame_defs = zone_view_def row_view_def zone_row_view_def login_required_def get_or_404_def foreign_def
  require_def act_defs

text \<open>A view either changes nothing, or Keycloak has granted the scope it asks for and its body runs.\<close>

lemma zone_view_cases:
  assumes "zone_view W E action req zone_id k w = (x, w')"
  obtains "w' = w"
  | u tok z where "req_user req = Some u" "access_token W u = Inr tok" "z \<in> set (dnszones w)"
      "typed_uuid E zone_id = Some (z_id z)" "DNSZone_has_scope W tok z action = Inr True" "k u z w = (x, w')"
  using assms
  by (auto simp: frame_defs dest: find_in split: option.splits sum.splits if_splits)

lemma row_view_cases:
  assumes "row_view W E key rows zone_of req record_id k w = (x, w')"
  obtains "w' = w"
  | u tok z r where "req_user req = Some u" "access_token W u = Inr tok" "r \<in> set (rows w)"
      "typed_uuid E record_id = Some (key r)" "z \<in> set (dnszones w)" "z_id z = zone_of r"
      "DNSZone_has_scope W tok z (str ''edit'') = Inr True" "k z r w = (x, w')"
  using assms
  by (auto simp: frame_defs dest!: find_in split: option.splits sum.splits if_splits)

lemma zone_row_view_cases:
  assumes "zone_row_view W E key rows zone_of req zone_id row_id k w = (x, w')"
  obtains "w' = w"
  | u tok z r where "req_user req = Some u" "access_token W u = Inr tok" "r \<in> set (rows w)"
      "z \<in> set (dnszones w)" "z_id z = zone_of r"
      "DNSZone_has_scope W tok z (str ''edit'') = Inr True" "k z r w = (x, w')"
  using assms
  by (auto simp: frame_defs dest!: find_in split: option.splits sum.splits if_splits)

lemma confinedI:
  assumes "\<And>w x w'. tables_ok E w \<Longrightarrow> m w = (x, w') \<Longrightarrow> w' \<noteq> w \<Longrightarrow> touches E (allowed W E req w) w w'"
  shows "confined W E req m"
  unfolding confined_def
proof
  fix w
  obtain x w' where run: "m w = (x, w')" by fastforce
  show "touches E (allowed W E req w) w (snd (m w))"
    using assms[OF _ run] run by (cases "tables_ok E w"; cases "w' = w") (auto simp: tch.R_refl touches_def)
qed

lemma zone_view_touches:
  assumes "action \<in> {str ''edit'', str ''delete''}"
    "\<And>u z Z. z_id z \<in> Z \<Longrightarrow> obeys (held E Z z) (touches E Z) (k u z)"
  shows "confined W E req (zone_view W E action req zone_id k)"
proof (rule confinedI)
  fix w x w'
  assume ok: "tables_ok E w" and "zone_view W E action req zone_id k w = (x, w')" "w' \<noteq> w"
  then obtain u tok z where g: "req_user req = Some u" "access_token W u = Inr tok"
      "DNSZone_has_scope W tok z action = Inr True" and z: "z \<in> set (dnszones w)" and k: "k u z w = (x, w')"
    using zone_view_cases by blast
  have "granted W req z" using g assms(1) by (auto simp: granted_def)
  then have Z: "z_id z \<in> allowed W E req w" using z by (rule in_allowed[rotated])
  show "touches E (allowed W E req w) w w'"
    by (rule obeysD[OF assms(2)[OF Z] held_row(1)[OF ok z Z] k])
qed

lemma obeys_touches: "obeys P (builds E Z) m \<Longrightarrow> obeys P (touches E Z) m"
  by (simp add: obeys_def builds_def)

lemma zone_view_confined:
  assumes "action \<in> {str ''edit'', str ''delete''}"
    "\<And>u z Z. z_id z \<in> Z \<Longrightarrow> obeys (held E Z z) (builds E Z) (k u z)"
  shows "confined W E req (zone_view W E action req zone_id k)"
  by (intro zone_view_touches obeys_touches assms)

lemma row_granted:
  assumes "req_user req = Some u" "access_token W u = Inr tok" "z \<in> set (dnszones w)"
    "DNSZone_has_scope W tok z (str ''edit'') = Inr True"
  shows "z_id z \<in> allowed W E req w"
  using assms by (intro in_allowed) (auto simp: granted_def)

lemma row_view_confined:
  assumes "\<And>z r Z. z_id z \<in> Z \<Longrightarrow> zone_of r = z_id z \<Longrightarrow>
    obeys (\<lambda>w. held E Z z w \<and> r \<in> set (rows w)) (builds E Z) (k z r)"
  shows "confined W E req (row_view W E key rows zone_of req record_id k)"
proof (rule confinedI)
  fix w x w'
  assume ok: "tables_ok E w" and "row_view W E key rows zone_of req record_id k w = (x, w')" "w' \<noteq> w"
  then obtain u tok z r where g: "req_user req = Some u" "access_token W u = Inr tok" "z \<in> set (dnszones w)"
      "DNSZone_has_scope W tok z (str ''edit'') = Inr True"
    and r: "r \<in> set (rows w)" "z_id z = zone_of r" and k: "k z r w = (x, w')"
    using row_view_cases[of W E key rows zone_of req record_id k w x w'] by metis
  note Z = row_granted[OF g]
  show "touches E (allowed W E req w) w w'"
    using builds_touches[OF obeysD[OF assms[OF Z r(2)[symmetric]] _ k]] held_row(1)[OF ok g(3) Z] r(1) by simp
qed

lemma zone_row_view_confined:
  assumes "\<And>z r Z. z_id z \<in> Z \<Longrightarrow> zone_of r = z_id z \<Longrightarrow>
    obeys (\<lambda>w. held E Z z w \<and> r \<in> set (rows w)) (builds E Z) (k z r)"
  shows "confined W E req (zone_row_view W E key rows zone_of req zone_id row_id k)"
proof (rule confinedI)
  fix w x w'
  assume ok: "tables_ok E w" and "zone_row_view W E key rows zone_of req zone_id row_id k w = (x, w')" "w' \<noteq> w"
  then obtain u tok z r where g: "req_user req = Some u" "access_token W u = Inr tok" "z \<in> set (dnszones w)"
      "DNSZone_has_scope W tok z (str ''edit'') = Inr True"
    and r: "r \<in> set (rows w)" "z_id z = zone_of r" and k: "k z r w = (x, w')"
    using zone_row_view_cases[of W E key rows zone_of req zone_id row_id k w x w'] by metis
  note Z = row_granted[OF g]
  show "touches E (allowed W E req w) w w'"
    using builds_touches[OF obeysD[OF assms[OF Z r(2)[symmetric]] _ k]] held_row(1)[OF ok g(3) Z] r(1) by simp
qed


section \<open>Views of records\<close>

lemma record_form_result:
  assumes "forms_typed W" "record_form W E m post rid zid old s = (Inr (Some r), s')"
    "\<And>b. old = Some b \<Longrightarrow> model_of b = m"
  shows "s' = s" "r_id r = rid" "r_zone r = zid" "zmodel r = m"
proof -
  obtain n l b where f: "record_fields W m post = Some (n, l, b)"
    using assms(2) by (auto simp: record_form_def ret_def split: option.splits)
  then have m: "model_of b = m" using assms(1) by (auto simp: forms_typed_def)
  have b: "model_of (form_body old b) = m"
    using m assms(3) by (cases "(old, b)" rule: form_body.cases) auto
  have c: "form_full_clean E s \<lparr>r_id = rid, r_zone = zid, record_name = n, ttl = l, body = form_body old b\<rparr> = Inr (Some r)"
    and "s' = s"
    using assms(2) f by (auto simp: record_form_def asks_res_def)
  then show "s' = s" by simp
  show "r_id r = rid" "r_zone r = zid" "zmodel r = m"
    using record_clean_keeps[OF form_full_clean_valid(2)[OF c]] b by simp_all
qed

lemma record_form_reads: "snd (record_form W E m post rid zid old s) = s"
  by (auto simp: record_form_def act_defs split: option.splits)

lemma touch_save_both:
  assumes "z_id z \<in> Z" "r_zone r \<in> Z"
  shows "obeys (\<lambda>s. held E Z z s \<and> rt.owned E Z r s) (builds E Z)
      (seq (zrec_save E z' r) (seq (save_zone_now E z) (ret x)))"
    "obeys (\<lambda>s. held E Z z s \<and> rt.owned E Z r s) (builds E Z)
      (seq (save_zone_now E z) (seq (zrec_save E z' r) (ret x)))"
  by (intro touch_seq touch_finish stable_conj stable_rules stable_held obeys_conj1[OF held_save_now(1)]
      obeys_conj2[OF touch_zrec_save] assms)+

lemma create_record_confined:
  assumes "inj (uuid E)" "forms_typed W"
  shows "confined W E req (create_record W E m req zone_id)"
  unfolding create_record_def
proof (intro zone_view_confined touch_new_row[OF assms(1) stable_held(1)] touch_cond touch_ret touch_form[OF record_form_reads])
  fix u z Z i s r
  assume a: "z_id z \<in> Z" "held E Z z s \<and> drawn E i s"
    "record_form W E m (form_data req) i (z_id z) None s = (Inr (Some r), s)"
  have "r_id r = i" "r_zone r = z_id z" using record_form_result[OF assms(2) a(3)] by simp_all
  then show "builds E Z s (snd (seq (zrec_save E z r)
      (seq (save_zone_now E z) (ret (RedirectTo (str ''edit_zone'') [z_id z]))) s))"
    using a held_zone(1)[of E Z z s] drawn_owned(1)[of E i s r] by (intro obeys_at[OF touch_save_both(1)]) simp_all
qed simp

lemma set_password_keeps: "r_id (set_password pw r) = r_id r" "r_zone (set_password pw r) = r_zone r"
  by (auto simp: set_password_def split: body.splits)

lemma create_dynamic_confined:
  assumes "inj (uuid E)" "forms_typed W"
  shows "confined W E req (create_dynamic_address_record W E req zone_id)"
  unfolding create_dynamic_address_record_def
proof (intro zone_view_confined touch_new_row[OF assms(1) stable_held(1)] touch_cond touch_ret touch_form[OF record_form_reads])
  fix u z Z i s r
  assume a: "z_id z \<in> Z" "held E Z z s \<and> drawn E i s"
    "record_form W E M_DynamicAddress (form_data req) i (z_id z) None s = (Inr (Some r), s)"
  let ?r = "set_password (token_hex W (next_uuid s)) r"
  have "r_id ?r = i" "r_zone ?r = z_id z"
    using record_form_result[OF assms(2) a(3)] by (simp_all add: set_password_keeps)
  then have "builds E Z s (snd (seq (zrec_save E z ?r)
      (seq (save_zone_now E z) (ret (RedirectTo (str ''edit_zone'') [z_id z]))) s))"
    using a held_zone(1)[of E Z z s] drawn_owned(1)[of E i s ?r] by (intro obeys_at[OF touch_save_both(1)]) simp_all
  then show "builds E Z s (snd (bind_act (asks (\<lambda>w. token_hex W (next_uuid w))) (\<lambda>pw. seq (zrec_save E z (set_password pw r))
      (seq (save_zone_now E z) (ret (RedirectTo (str ''edit_zone'') [z_id z])))) s))"
    by (simp add: bind_act_def asks_def)
qed simp

lemma edit_record_confined:
  assumes "forms_typed W"
  shows "confined W E req (edit_record W E m req record_id)"
  unfolding edit_record_def
proof (intro row_view_confined touch_cond touch_ret touch_form[OF record_form_reads])
  fix z r Z s r'
  assume a: "z_id z \<in> Z" "r_zone r = z_id z" "held E Z z s \<and> r \<in> set (objects m s)"
    "record_form W E m (form_data req) (r_id r) (r_zone r) (Some (body r)) s = (Inr (Some r'), s)"
  then have r: "r \<in> set (zrecs s)" "zmodel r = m" by (simp_all add: objects_def)
  note f = record_form_result[OF assms a(4)]
  have "rt.owned E Z r s" using a r(1) held_ok(1) by (intro rt.owned_row) auto
  moreover have "pk r' = pk r" "r_id r' = r_id r" "r_zone r' = z_id z" using f r(2) a(2) by (simp_all add: pk_def)
  ultimately show "builds E Z s (snd (seq (save_zone_now E z)
      (seq (zrec_save E (lowered E z) r') (ret (RedirectTo (str ''edit_zone'') [z_id z]))) s))"
    using a rt.owned_cong[of r' r E Z s] by (intro obeys_at[OF touch_save_both(2)]) auto
qed

lemma delete_record_confined: "confined W E req (delete_record W E m req record_id)"
  unfolding delete_record_def
proof (intro row_view_confined touch_cond touch_ret)
  fix z :: dnszone and r :: zrec and Z
  assume a: "z_id z \<in> Z" "r_zone r = z_id z"
  have "obeys (\<lambda>s. held E Z z s \<and> rt.owned E Z r s) (builds E Z)
      (seq (save_zone_now E z) (seq (zrec_delete E r) (ret (RedirectTo (str ''edit_zone'') [z_id z]))))"
    by (intro touch_seq touch_finish stable_conj stable_rules stable_held obeys_conj1[OF held_save_now(1)]
        obeys_conj2[OF touch_zrec_delete] a)
  then show "obeys (\<lambda>w. held E Z z w \<and> r \<in> set (objects m w)) (builds E Z)
      (seq (save_zone_now E z) (seq (zrec_delete E r) (ret (RedirectTo (str ''edit_zone'') [z_id z]))))"
    by (rule obeys_pre) (use a held_ok(1) rt.owned_row in \<open>auto simp: objects_def\<close>)
qed



section \<open>Views of the other rows of a zone\<close>

lemma form_of_Some: "form_of cs r = Inr (Some r') \<Longrightarrow> r' = r"
  by (auto simp: form_of_def res_simps split: if_splits)

lemma form_results:
  "AdditionalCDSForm W post i zid = Inr (Some c) \<Longrightarrow> cds_id c = i \<and> cds_zone c = zid"
  "AdditionalCDNSKEYForm W post i zid = Inr (Some k) \<Longrightarrow> ck_id k = i \<and> ck_zone k = zid"
  "AXFRIPAClForm W post i zid used = Inr (Some a) \<Longrightarrow> acl_id a = i \<and> acl_zone a = zid"
  "AXFRNotifyForm W post i zid = Inr (Some y) \<Longrightarrow> an_id y = i \<and> an_zone y = zid"
  "CustomNSForm W post i zid = Some n \<Longrightarrow> ns_id n = i \<and> ns_zone n = zid"
  "UpdateSecretForm W post s = Some s' \<Longrightarrow> us_id s' = us_id s \<and> us_zone s' = us_zone s"
  "AXFRSecretForm W post x = Some x' \<Longrightarrow> as_id x' = as_id x \<and> as_zone x' = as_zone x"
  by (auto simp: AdditionalCDSForm_def AdditionalCDNSKEYForm_def AXFRIPAClForm_def AXFRNotifyForm_def CustomNSForm_def
      UpdateSecretForm_def AXFRSecretForm_def Let_def dest!: form_of_Some split: option.splits)

lemma touch_row_saves [touch_acts]:
  "cds_zone c \<in> Z \<Longrightarrow> obeys (ct.owned E Z c) (builds E Z) (AdditionalCDS_save c)"
  "ck_zone k \<in> Z \<Longrightarrow> obeys (kt.owned E Z k) (builds E Z) (AdditionalCDNSKEY_save k)"
  "us_zone s \<in> Z \<Longrightarrow> obeys (st.owned E Z s) (builds E Z) (UpdateSecret_save s)"
  "as_zone x \<in> Z \<Longrightarrow> obeys (xt.owned E Z x) (builds E Z) (AXFRSecret_save x)"
  "acl_zone a \<in> Z \<Longrightarrow> obeys (at.owned E Z a) (builds E Z) (AXFRIPACL_save a)"
  "an_zone y \<in> Z \<Longrightarrow> obeys (yt.owned E Z y) (builds E Z) (AXFRNotify_save y)"
  unfolding AdditionalCDS_save_def AdditionalCDNSKEY_save_def UpdateSecret_save_def AXFRSecret_save_def
    AXFRIPACL_save_def AXFRNotify_save_def
  by (intro touch_seq stable_rules touch_delay ct.save_act kt.save_act st.save_act xt.save_act at.save_act yt.save_act;
      assumption)+

lemma touch_custom_ns_save [touch_acts]:
  assumes "ns_zone n \<in> Z"
  shows "obeys (nt.owned E Z n) (builds E Z) (CustomNS_save E' n)"
proof -
  let ?n = "n\<lparr>ns_nameserver := lower E' (ns_nameserver n)\<rparr>"
  have "obeys (nt.owned E Z ?n) (builds E Z) (CustomNS_save E' n)"
    unfolding CustomNS_save_def Let_def using assms by (intro touch_seq stable_rules touch_delay nt.save_act) simp
  then show ?thesis by (rule obeys_pre) (simp add: nt.owned_def)
qed

lemma touch_row_deletes [touch_acts]:
  "obeys (ct.owned E Z c) (builds E Z) (AdditionalCDS_delete c)"
  "obeys (kt.owned E Z k) (builds E Z) (AdditionalCDNSKEY_delete k)"
  "obeys (nt.owned E Z n) (builds E Z) (CustomNS_delete n)"
  "obeys (st.owned E Z s) (builds E Z) (UpdateSecret_delete s)"
  "obeys (xt.owned E Z x) (builds E Z) (AXFRSecret_delete x)"
  "obeys (at.owned E Z a) (builds E Z) (AXFRIPACL_delete a)"
  "obeys (yt.owned E Z y) (builds E Z) (AXFRNotify_delete y)"
  unfolding AdditionalCDS_delete_def AdditionalCDNSKEY_delete_def CustomNS_delete_def UpdateSecret_delete_def
    AXFRSecret_delete_def AXFRIPACL_delete_def AXFRNotify_delete_def
  by (intro touch_seq stable_rules touch_delay ct.delete_act kt.delete_act nt.delete_act st.delete_act xt.delete_act
      at.delete_act yt.delete_act)+

text \<open>The shapes of these views: save what a form gives, or delete a row.\<close>

lemma lift_form:
  assumes "\<And>r. form = Inr (Some r) \<Longrightarrow> obeys P (builds E Z) (save r)"
  shows "obeys P (builds E Z) (bind_act (lift_res form) (\<lambda>f. case f of Some r \<Rightarrow> save r | None \<Rightarrow> ret page))"
  by (rule touch_form) (use assms in \<open>auto simp: lift_res_def obeys_def\<close>)

lemma touch_row:
  assumes "obeys Q (builds E Z) m" "stable E Z Q" "z_id z \<in> Z" "\<And>s. held E Z z s \<Longrightarrow> R s \<Longrightarrow> Q s"
  shows "obeys (\<lambda>s. held E Z z s \<and> R s) (builds E Z) (seq (save_zone_now E z) (seq m (ret x)))"
    "obeys (\<lambda>s. held E Z z s \<and> R s) (builds E Z) (seq m (ret x))"
proof -
  have "obeys (\<lambda>s. held E Z z s \<and> Q s) (builds E Z) (seq (save_zone_now E z) (seq m (ret x)))"
    "obeys (\<lambda>s. held E Z z s \<and> Q s) (builds E Z) (seq m (ret x))"
    by (intro touch_seq touch_finish stable_conj stable_held(1) assms obeys_conj1[OF held_save_now(1)] obeys_conj2)+
  with assms(4) show "obeys (\<lambda>s. held E Z z s \<and> R s) (builds E Z) (seq (save_zone_now E z) (seq m (ret x)))"
    "obeys (\<lambda>s. held E Z z s \<and> R s) (builds E Z) (seq m (ret x))"
    by (simp_all add: obeys_def)
qed

lemma create_cds_confined:
  assumes "inj (uuid E)"
  shows "confined W E req (create_zone_cds W E req zone_id)" "confined W E req (create_zone_cdnskey W E req zone_id)"
  unfolding create_zone_cds_def create_zone_cdnskey_def
  by (intro zone_view_confined touch_new_row[OF assms stable_held(1)] touch_cond touch_ret lift_form
      touch_row(1)[OF touch_row_saves(1) ct.stable_owned] touch_row(1)[OF touch_row_saves(2) kt.stable_owned];
      auto dest!: form_results intro: held_drawn)+

lemma delete_cds_confined:
  "confined W E req (delete_zone_cds W E req zone_id row_id)"
  "confined W E req (delete_zone_cdnskey W E req zone_id row_id)"
  unfolding delete_zone_cds_def delete_zone_cdnskey_def
  by (intro zone_row_view_confined touch_cond touch_ret touch_row(1)[OF touch_row_deletes(1) ct.stable_owned]
      touch_row(1)[OF touch_row_deletes(2) kt.stable_owned];
      auto intro: held_ok(1) ct.owned_row kt.owned_row)+

lemma switch_cds_confined:
  "confined W E req (disable_zone_cds W E req zone_id)" "confined W E req (enable_zone_cds W E req zone_id)"
  unfolding disable_zone_cds_def enable_zone_cds_def
  by (intro zone_view_confined touch_cond touch_ret touch_finish stable_held(1);
      (rule obeys_pre[OF held_save_now(1)])?; simp add: held_def zt.owned_def)+

lemma create_rows_confined:
  assumes "inj (uuid E)"
  shows "confined W E req (create_zone_secret W E req zone_id)" "confined W E req (create_zone_axfr_secret W E req zone_id)"
    "confined W E req (create_zone_axfr_ip_acl W E req zone_id)" "confined W E req (create_zone_axfr_notify W E req zone_id)"
    "confined W E req (create_zone_custom_ns W E req zone_id)"
  unfolding create_zone_secret_def create_zone_axfr_secret_def create_zone_axfr_ip_acl_def create_zone_axfr_notify_def
    create_zone_custom_ns_def make_update_secret_def
  by (intro zone_view_confined touch_new_row[OF assms stable_held(1)] touch_asks touch_cond touch_ret lift_form touch_option
      touch_row(2)[OF touch_row_saves(3) st.stable_owned] touch_row(2)[OF touch_row_saves(4) xt.stable_owned]
      touch_row(2)[OF touch_row_saves(5) at.stable_owned] touch_row(2)[OF touch_row_saves(6) yt.stable_owned]
      touch_row(2)[OF touch_custom_ns_save nt.stable_owned];
      auto dest!: form_results intro: held_drawn)+

lemma edit_rows_confined:
  "confined W E req (edit_zone_secret W E req i)" "confined W E req (edit_zone_axfr_secret W E req i)"
  "confined W E req (edit_zone_axfr_ip_acl W E req i)" "confined W E req (edit_zone_axfr_notify W E req i)"
  "confined W E req (edit_zone_custom_ns_record W E req i)"
  unfolding edit_zone_secret_def edit_zone_axfr_secret_def edit_zone_axfr_ip_acl_def edit_zone_axfr_notify_def
    edit_zone_custom_ns_record_def
  by (intro row_view_confined touch_cond touch_ret lift_form touch_option
      touch_row(2)[OF touch_row_saves(3) st.stable_owned] touch_row(2)[OF touch_row_saves(4) xt.stable_owned]
      touch_row(2)[OF touch_row_saves(5) at.stable_owned] touch_row(2)[OF touch_row_saves(6) yt.stable_owned]
      touch_row(2)[OF touch_custom_ns_save nt.stable_owned];
      (auto dest!: form_results intro: st.owned_edit xt.owned_edit at.owned_edit yt.owned_edit nt.owned_edit held_ok(1)))+

lemma delete_rows_confined:
  "confined W E req (delete_zone_secret W E req i)" "confined W E req (delete_zone_axfr_secret W E req i)"
  "confined W E req (delete_zone_axfr_ip_acl W E req i)" "confined W E req (delete_zone_axfr_notify W E req i)"
  "confined W E req (delete_zone_custom_ns_record W E req i)"
  unfolding delete_zone_secret_def delete_zone_axfr_secret_def delete_zone_axfr_ip_acl_def delete_zone_axfr_notify_def
    delete_zone_custom_ns_record_def
  by (intro row_view_confined touch_cond touch_ret
      touch_row(2)[OF touch_row_deletes(4) st.stable_owned] touch_row(2)[OF touch_row_deletes(5) xt.stable_owned]
      touch_row(2)[OF touch_row_deletes(6) at.stable_owned] touch_row(2)[OF touch_row_deletes(7) yt.stable_owned]
      touch_row(2)[OF touch_row_deletes(3) nt.stable_owned];
      auto intro: held_ok(1) st.owned_row xt.owned_row at.owned_row yt.owned_row nt.owned_row)+



section \<open>Views of whole zones\<close>

lemma add_record_step:
  assumes "inj (uuid E)"
  shows "obeys (db_ok E) (zone_step E (z_id z)) (add_record E z name l b)"
proof -
  have "obeys (db_ok E) (zone_step E (z_id z))
    (bind_act (new_id E) (\<lambda>i. bind_act (lift_res (Inr (new_zrec i z name l b))) (zrec_save E z)))"
    by (rule new_record_step[OF assms]) (auto simp: new_zrec_def intro: zrec_save_step)
  moreover have "bind_act (lift_res (Inr r)) f = f r" for r and f :: "zrec \<Rightarrow> unit io"
    by (simp add: fun_eq_iff act_defs)
  ultimately show ?thesis by (simp add: add_record_def)
qed

lemma create_txt_step: "inj (uuid E) \<Longrightarrow> obeys (db_ok E) (zone_step E (z_id z)) (create_txt E z name text)"
  using add_record_step[of E z name 86400 "TXTRecord text"] by (simp add: create_txt_def add_record_def)

lemma zstep_seq:
  "obeys (db_ok E) (zone_step E zid) m \<Longrightarrow> obeys (db_ok E) (zone_step E zid) n \<Longrightarrow> obeys (db_ok E) (zone_step E zid) (seq m n)"
  by (rule zstep.obeys_seq[OF _ _ db_ok_stable])

lemma delete_named_step: "obeys P (zone_step E (z_id z)) (delete_named m z name Q)"
  unfolding delete_named_def by (rule queryset_delete_step) simp

lemma add_mx_step:
  "inj (uuid E) \<Longrightarrow> obeys (db_ok E) (zone_step E (z_id z)) (for_each mxs (add_mx E z name))"
  by (rule zstep.obeys_for_each[OF _ db_ok_stable]) (auto simp: add_mx_def add_record_step)

lemmas record_steps = zstep_seq add_record_step create_txt_step delete_named_step add_mx_step zstep.obeys_pure

text \<open>A view whose body only changes records of the zone.\<close>

lemma record_steps_confined:
  assumes "\<And>u z. obeys (db_ok E) (zone_step E (z_id z)) (k u z)"
  shows "confined W E req (zone_view W E (str ''edit'') req zone_id k)"
  by (rule zone_view_confined) (auto intro!: touch_zone_step[OF assms] tables_db_ok held_ok(1) held_zone(1))

lemma assistants_confined:
  assumes "inj (uuid E)"
  shows "confined W E req (generate_dmarc W E req zone_id)" "confined W E req (create_blank_spf_view W E req zone_id)"
    "confined W E req (create_blank_dmarc_view W E req zone_id)" "confined W E req (setup_gsuite W E req zone_id)"
    "confined W E req (setup_icloud W E req zone_id)"
  unfolding generate_dmarc_def create_blank_spf_view_def create_blank_dmarc_view_def setup_gsuite_def setup_icloud_def
    create_blank_spf_def create_blank_dmarc_def Let_def
  by (intro record_steps_confined; auto intro!: record_steps assms split: option.split)+

lemma import_view_confined:
  assumes "inj (uuid E)"
  shows "confined W E req (import_zone_file_view W E req zone_id)"
  unfolding import_zone_file_view_def
proof (rule record_steps_confined)
  have "obeys (db_ok E) (zone_step E (z_id z))
    (\<lambda>w. case import_zone_file E z data ow w of
       (Inl ValueError, w') \<Rightarrow> (Inr (Render page), w') | (Inl e, w') \<Rightarrow> (Inl e, w')
     | (Inr _, w') \<Rightarrow> (Inr (RedirectTo view args), w'))" for z data ow page view args
    by (rule obeys_catch[OF import_zone_file_step[OF assms, of z data ow]]) (auto split: prod.split sum.split exn.split)
  then show "obeys (db_ok E) (zone_step E (z_id z))
    (if is_post req then
       (case import_fields W (form_data req) of
          None \<Rightarrow> ret (Render (str ''dns_grpc/fzone/edit_record.html''))
        | Some (zone_data, overwrite) \<Rightarrow>
            (\<lambda>w. case import_zone_file E z zone_data overwrite w of
               (Inl ValueError, w') \<Rightarrow> (Inr (Render (str ''dns_grpc/fzone/edit_record.html'')), w')
             | (Inl e, w') \<Rightarrow> (Inl e, w')
             | (Inr _, w') \<Rightarrow> (Inr (RedirectTo (str ''edit_zone'') [zone_id]), w')))
     else ret (Render (str ''dns_grpc/fzone/edit_record.html'')))" for z
    by (auto intro: zstep.obeys_pure split: option.split)
qed

lemma readers_confined:
  "confined W E req (edit_zone_tsig W E req zone_id)" "confined W E req (edit_zone_axfr W E req zone_id)"
  "confined W E req (edit_zone_custom_ns W E req zone_id)" "confined W E req (edit_zone W E req zone_id)"
  "confined W E req (edit_zone_cds W E req zone_id)"
  unfolding edit_zone_tsig_def edit_zone_axfr_def edit_zone_custom_ns_def edit_zone_def edit_zone_cds_def
    pop_notice_def
  by (intro zone_view_confined; auto intro!: touch_session touch_bind touch_seq stable_held bld.obeys_pure touch_ret split: prod.split)+

text \<open>An operation that changes nothing.\<close>

definition reads :: "'a io \<Rightarrow> bool" where
  "reads m \<longleftrightarrow> (\<forall>w. snd (m w) = w)"

lemma reads_confined: "reads m \<Longrightarrow> confined W E req m"
  by (simp add: reads_def confined_def tch.R_refl)

lemma reads_rules:
  "reads (ret a)" "reads (throw e)" "reads (lift_res r)" "reads (asks f)" "reads (asks_res g)"
  by (simp_all add: reads_def act_defs)

lemma reads_bind: "reads m \<Longrightarrow> (\<And>a. reads (f a)) \<Longrightarrow> reads (bind_act m f)"
  by (auto simp: reads_def bind_act_def split: prod.split sum.split) (metis snd_conv)+

lemma reads_seq: "reads m \<Longrightarrow> reads n \<Longrightarrow> reads (seq m n)"
  by (simp add: seq_def reads_bind)

lemma reads_login: "(\<And>u. reads (k u)) \<Longrightarrow> reads (login_required req k)"
  by (simp add: login_required_def reads_rules split: option.split)

lemma reads_require: "reads (require r)"
  unfolding require_def by (intro reads_bind) (simp_all add: reads_rules)

lemma reads_get: "reads (get_or_404 E key rows i)" "reads (foreign key rows' j)"
  by (simp_all add: get_or_404_def foreign_def reads_rules)

lemmas reads_intros = reads_bind reads_seq reads_login reads_require reads_get reads_rules

lemma reads_zone_view: "(\<And>u z. reads (k u z)) \<Longrightarrow> reads (zone_view W E action req i k)"
  unfolding zone_view_def by (intro reads_intros)

lemma reads_zone_list: "reads (zone_list template u ids)"
  unfolding zone_list_def user_account_def by (intro reads_intros)

lemma lists_confined:
  "confined W E req (zones W req)" "confined W E req (list_rzones W req)" "confined W E req (list_szones W req)"
  unfolding zones_def list_rzones_def list_szones_def DNSZone_get_object_list_def ReverseDNSZone_get_object_list_def
    SecondaryDNSZone_get_object_list_def
  by (intro reads_confined reads_intros reads_zone_list)+

lemma export_confined: "confined W E req (export_zone_file W E req zone_id)"
  unfolding export_zone_file_def
  by (rule reads_confined, rule reads_zone_view, rule reads_bind) (simp_all only: reads_rules)

text \<open>Deletions: the usage is reported, the zone goes, a task is queued.\<close>

lemma touches_ok: "tables_ok E s \<Longrightarrow> touches E Z s t \<Longrightarrow> tables_ok E t"
  by (simp add: touches_def)

lemma touch_delete:
  assumes "obeys (tables_ok E) (touches E Z) del"
  shows "obeys (tables_ok E) (touches E Z) (seq del (seq (modify (delay t)) (ret x)))"
  by (rule tch.obeys_seq[OF assms tch.obeys_seq[OF obeys_touches[OF touch_delay] tch.obeys_pure(1) touches_ok] touches_ok])

lemma touch_usage:
  "(\<And>u. obeys (tables_ok E) (touches E Z) (f u))
    \<Longrightarrow> obeys (tables_ok E) (touches E Z) (bind_act (owner_log_usage E' rid extra cr os uri) f)"
  by (rule tch.obeys_bind[OF obeys_touches[OF touch_owner_usage] _ touches_ok])

lemma delete_zone_confined: "confined W E req (delete_zone W E req zone_id)"
proof -
  have "obeys (held E Z z) (touches E Z)
    (if is_post req \<and> post_is req ''delete'' then
       bind_act (owner_log_usage E (z_resource_id z) n True False uri) (\<lambda>usage.
         if usage = Error then ret (Render (str ''dns_grpc/fzone/delete_zone.html''))
         else seq (DNSZone_delete E z) (seq (modify (delay UpdateCatalog)) (ret (redirect_after usage (RedirectTo (str ''zones'') [])))))
     else ret (Render (str ''dns_grpc/fzone/delete_zone.html'')))" if "z_id z \<in> Z" for Z z n uri
    by (rule obeys_pre[OF _ held_ok(1)])
      (auto intro!: touch_usage touch_delete[OF touch_zone_delete[OF that]] intro: tch.obeys_pure)
  then show ?thesis unfolding delete_zone_def by (intro zone_view_touches) auto
qed

end
