(* ===== verification/View_Zones.thy ===== *)
theory View_Zones
  imports View_Props
begin

text \<open>
  The views that create zones, those of reverse and secondary zones, those of the administration, and the
  update of a dynamic address: each changes only zones that it creates or for which the request is
  permitted.
\<close>

section \<open>Creating zones\<close>

definition new_ids_in :: "ext \<Rightarrow> pstr set \<Rightarrow> world \<Rightarrow> bool" where
  "new_ids_in E Z w \<longleftrightarrow> tables_ok E w \<and> (\<forall>n \<ge> next_uuid w. uuid E n \<in> Z)"

lemma stable_new_ids: "stable E Z (new_ids_in E Z)"
  unfolding stable_def new_ids_in_def by (auto simp: builds_def touches_def)

lemma new_ids_allowed: "tables_ok E w \<Longrightarrow> new_ids_in E (allowed W E req w) w"
  by (auto simp: new_ids_in_def allowed_def)

lemma touch_new_zone:
  assumes "inj (uuid E)" "stable E Z P" "\<And>s. P s \<Longrightarrow> new_ids_in E Z s"
    "\<And>i. i \<in> Z \<Longrightarrow> obeys (drawn E i) (builds E Z) (k i)"
  shows "obeys P (builds E Z) (bind_act (new_id E) k)"
proof (rule bld.obeys_bind_strong[OF touch_new_id])
  fix s i t
  assume P: "P s" and run: "new_id E s = (Inr i, t)"
  have ok: "new_ids_in E Z s" using assms(3) P by blast
  have i: "i = uuid E (next_uuid s)" "t = s\<lparr>next_uuid := next_uuid s + 1\<rparr>" using run by (auto simp: new_id_def)
  have "i \<in> Z" "tables_ok E s" using ok i by (auto simp: new_ids_in_def)
  moreover from this have "drawn E i t" using drawn_new[OF assms(1)] i by simp
  ultimately show "builds E Z t (snd (k i t))" using assms(4) by (simp add: obeys_def)
qed

lemma touch_saved_zone:
  assumes "z_id z \<in> Z" "obeys (\<lambda>s. tables_ok E s \<and> z_id z \<in> zone_ids s) (builds E Z) rest"
  shows "obeys (drawn E (z_id z)) (builds E Z) (seq (DNSZone_save E' z) rest)"
proof -
  have "obeys (zt.owned E Z z) (builds E Z) (seq (DNSZone_save E' z) rest)"
    unfolding seq_def
  proof (rule bld.obeys_bind_strong[OF touch_zone_save[OF assms(1)]])
    fix s a t
    assume o: "zt.owned E Z z s" and run: "DNSZone_save E' z s = (Inr a, t)"
    have "tables_ok E t"
      using builds_ok[OF zt.owned_ok[OF o] obeysD[OF touch_zone_save[OF assms(1)] o run]] .
    moreover have "z_id z \<in> zone_ids t"
      using run by (auto simp: DNSZone_save_def keycloak_resource_def zone_ids_def set_upsert split: sum.splits option.splits)
    ultimately show "builds E Z t (snd (rest t))" using assms(2) by (simp add: obeys_def)
  qed
  then show ?thesis by (rule obeys_pre) (rule drawn_owned(11), simp_all)
qed

lemma touch_login: "(\<And>u. req_user req = Some u \<Longrightarrow> obeys P (builds E Z) (k u)) \<Longrightarrow> obeys P (builds E Z) (login_required req k)"
  by (auto simp: login_required_def touch_ret split: option.split)

lemma touch_lift: "(\<And>a. r = Inr a \<Longrightarrow> obeys P (builds E Z) (f a)) \<Longrightarrow> obeys P (builds E Z) (bind_act (lift_res r) f)"
  by (rule touch_read) (auto simp: lift_res_def obeys_def)

lemma touch_require: "obeys P (builds E Z) (require r)"
  by (simp add: obeys_def require_cases bld.R_refl)

lemma touch_after_usage:
  assumes "stable E Z P" "\<And>usage. obeys P (builds E Z) (k usage)"
  shows "obeys P (builds E Z) (bind_act (log_usage E' u extra cr os uri) k)"
  by (rule touch_bind[OF assms(1) touch_log_usage assms(2)])

lemmas touch_rules = touch_login touch_lift touch_require touch_asks touch_cond touch_ret touch_seq touch_finish
  touch_after_usage touch_option bld.obeys_pure touch_delay

lemma initial_records_step: "inj (uuid E) \<Longrightarrow> obeys (db_ok E) (zone_step E (z_id z)) (setup_initial_records E z)"
  unfolding setup_initial_records_def create_blank_spf_def create_blank_dmarc_def by (intro record_steps)

lemma new_dnszone_id [simp]: "z_id (new_dnszone i n t) = i" "z_id (lowered E z) = z_id z"
  by (simp_all add: new_dnszone_def lowered_def)

text \<open>What is done with a new zone after it has been saved.\<close>

lemma new_zone_rest:
  assumes "inj (uuid E)" "i \<in> Z"
  shows "obeys (\<lambda>s. tables_ok E s \<and> i \<in> zone_ids s) (builds E Z)
      (seq (setup_initial_records E (lowered E (new_dnszone i n t))) (seq (modify (delay (AddFzone i))) (ret y)))"
proof -
  have st: "stable E Z (\<lambda>s. tables_ok E s \<and> i \<in> zone_ids s)"
    by (auto simp: stable_def builds_def touches_def grown_def)
  have "obeys (\<lambda>s. tables_ok E s \<and> i \<in> zone_ids s) (builds E Z) (setup_initial_records E (lowered E (new_dnszone i n t)))"
    using initial_records_step[OF assms(1), of "lowered E (new_dnszone i n t)"] assms(2)
    by (intro touch_zone_step[of "db_ok E" E i]) (auto simp: tables_db_ok)
  then show ?thesis by (intro touch_seq[OF st] touch_finish[OF st] touch_delay)
qed

lemma touch_notice: "obeys P (builds E Z) (notice_updated req)"
  unfolding notice_updated_def by (rule touch_session)

lemma plain_rest: "obeys (\<lambda>s. tables_ok E s \<and> i \<in> zone_ids s) (builds E Z) (seq (modify (delay t)) (seq (notice_updated req) (ret y)))"
  "obeys (\<lambda>s. tables_ok E s \<and> i \<in> zone_ids s) (builds E Z) (seq (modify (delay t)) (seq (log_usage E' u extra cr os uri) (ret y)))"
  by (rule obeys_pre[of "tables_ok E"];
      (intro touch_finish[OF stable_tables_ok touch_delay] touch_finish[OF stable_tables_ok touch_notice]
        touch_seq[OF stable_tables_ok touch_delay]
        touch_finish[OF stable_tables_ok touch_log_usage])?; simp)+

lemma touch_zone_born:
  assumes "i \<in> Z" "\<And>t. z_id (mk t) = i" "\<And>t. obeys (\<lambda>s. tables_ok E s \<and> i \<in> zone_ids s) (builds E Z) (rest t)"
  shows "obeys (drawn E i) (builds E Z) (bind_act (asks now) (\<lambda>t. seq (DNSZone_save E' (mk t)) (rest t)))"
proof (rule touch_asks)
  fix t
  show "obeys (drawn E i) (builds E Z) (seq (DNSZone_save E' (mk t)) (rest t))"
    using touch_saved_zone[of "mk t" Z E "rest t" E'] assms(1,2) assms(3)[of t] by simp
qed

lemma create_zone_touch:
  assumes "inj (uuid E)"
  shows "obeys (new_ids_in E Z) (builds E Z) (create_zone W E req)"
  unfolding create_zone_def Let_def
  by (intro touch_rules stable_new_ids touch_new_zone[OF assms stable_new_ids] touch_zone_born new_zone_rest assms) simp_all

text \<open>The zones that a signed token names.\<close>

definition tokens_in :: "web \<Rightarrow> ext \<Rightarrow> request \<Rightarrow> pstr set \<Rightarrow> world \<Rightarrow> bool" where
  "tokens_in W E req Z w \<longleftrightarrow> new_ids_in E Z w \<and> (\<forall>z \<in> set (dnszones w). domain_token_for W req z \<longrightarrow> z_id z \<in> Z)"

lemma stable_tokens: "stable E Z (tokens_in W E req Z)"
  unfolding stable_def
proof (intro allI impI conjI)
  fix s t
  assume P: "tokens_in W E req Z s"
  then show ok: "tables_ok E s" by (simp add: tokens_in_def new_ids_in_def)
  assume b: "builds E Z s t"
  then have t: "touches E Z s t" by (rule builds_touches)
  have "z_id z \<in> Z" if z: "z \<in> set (dnszones t)" "domain_token_for W req z" for z
  proof (rule ccontr)
    assume out: "z_id z \<notin> Z"
    then have "z \<in> set [y \<leftarrow> dnszones s. z_id y = z_id z]"
      using zt.rows_same[of "z_id z" s t] ok t z(1) by (metis (mono_tags, lifting) mem_Collect_eq set_filter touches_def)
    then show False using P z(2) out by (auto simp: tokens_in_def)
  qed
  moreover have "new_ids_in E Z t" using stable_new_ids[of E Z] P b by (auto simp: stable_def tokens_in_def)
  ultimately show "tokens_in W E req Z t" by (simp add: tokens_in_def)
qed

lemma tokens_new_ids: "tokens_in W E req Z s \<Longrightarrow> new_ids_in E Z s"
  by (simp add: tokens_in_def)

lemma create_domains_zone_touch:
  assumes "inj (uuid E)"
  shows "obeys (tokens_in W E req Z) (builds E Z) (create_domains_zone W E req)"
proof -
  have activate: "obeys (tokens_in W E req Z) (builds E Z)
     (bind_act (asks (\<lambda>w. find (\<lambda>z. zone_root z = dt_domain dt) (dnszones w))) (\<lambda>existing. case existing of
        Some z \<Rightarrow> seq (DNSZone_save E (z\<lparr>z_active := True\<rparr>)) (seq (notice_updated req) (ret (RedirectTo (str ''edit_zone'') [z_id z])))
      | None \<Rightarrow> m))"
    if tok: "\<And>z. zone_root z = dt_domain dt \<Longrightarrow> domain_token_for W req z"
      and m: "obeys (tokens_in W E req Z) (builds E Z) m" for dt m
  proof (rule touch_read)
    fix s a
    assume P: "tokens_in W E req Z s" and a: "asks (\<lambda>w. find (\<lambda>z. zone_root z = dt_domain dt) (dnszones w)) s = (Inr a, s)"
    show "builds E Z s (snd ((case a of
        Some z \<Rightarrow> seq (DNSZone_save E (z\<lparr>z_active := True\<rparr>)) (seq (notice_updated req) (ret (RedirectTo (str ''edit_zone'') [z_id z])))
      | None \<Rightarrow> m) s))"
    proof (cases a)
      case (Some z)
      then have z: "z \<in> set (dnszones s)" "zone_root z = dt_domain dt" using a find_in by (fastforce simp: asks_def)+
      then have Z: "z_id z \<in> Z" using P tok by (auto simp: tokens_in_def)
      have "obeys (zt.owned E Z (z\<lparr>z_active := True\<rparr>)) (builds E Z)
          (seq (DNSZone_save E (z\<lparr>z_active := True\<rparr>)) (seq (notice_updated req) (ret (RedirectTo (str ''edit_zone'') [z_id z]))))"
        by (intro touch_finish touch_seq zt.stable_owned touch_zone_save touch_notice) (simp add: Z)
      moreover have "zt.owned E Z (z\<lparr>z_active := True\<rparr>) s"
        using P z(1) Z by (intro zt.owned_edit) (auto simp: tokens_in_def new_ids_in_def)
      ultimately show ?thesis using Some by (simp add: obeys_at)
    qed (use obeys_at[OF m P] in simp)
  qed (simp add: asks_def)
  have zone: "obeys (tokens_in W E req Z) (builds E Z)
     (bind_act (new_id E) (\<lambda>i. bind_act (asks now) (\<lambda>t.
        seq (DNSZone_save E ((new_dnszone i n t)\<lparr>z_charged := False, z_active := True\<rparr>))
          (seq (modify (delay (AddFzone i))) (seq (notice_updated req)
            (ret (redirect_after usage (RedirectTo (str ''edit_zone'') [i]))))))))" for n usage
    by (rule touch_new_zone[OF assms stable_tokens tokens_new_ids], assumption,
        rule touch_zone_born[OF _ _ plain_rest(1)]) simp_all
  show ?thesis
    unfolding create_domains_zone_def
    by (intro activate zone touch_rules touch_bind[OF stable_tokens touch_http] stable_tokens)
      (auto simp: domain_token_for_def)
qed

lemma new_zone_confined:
  assumes "inj (uuid E)"
  shows "confined W E req (create_zone W E req)" "confined W E req (create_domains_zone W E req)"
proof -
  have tok: "tokens_in W E req (allowed W E req w) w" if "tables_ok E w" for w
    using new_ids_allowed[OF that] by (auto simp: tokens_in_def allowed_def permitted_def)
  show "confined W E req (create_zone W E req)"
    by (rule confinedI, rule builds_touches[OF obeysD[OF create_zone_touch[OF assms]]]) (rule new_ids_allowed)
  show "confined W E req (create_domains_zone W E req)"
    by (rule confinedI, rule builds_touches[OF obeysD[OF create_domains_zone_touch[OF assms]]]) (rule tok)
qed

lemma domain_list_confined: "confined W E req (create_domain_zone_list W E req)"
proof -
  have run: "obeys (tables_ok E) (builds E Z) (create_domain_zone_list W E req)" for Z
    unfolding create_domain_zone_list_def
    by (intro touch_rules touch_bind[OF stable_tables_ok touch_http] stable_tables_ok)
  show ?thesis by (rule confinedI, rule builds_touches, rule obeysD[OF run])
qed

lemma subscription_confined: "confined W E req (setup_subscription W E req)"
proof -
  have "obeys (tables_ok E) (builds E Z) (case usage of
      Error \<Rightarrow> ret (Render (str ''dns_grpc/fzone/setup_subscription.html'')) | Redirect uri \<Rightarrow> ret (RedirectUrl uri)
    | Ok \<Rightarrow> ret (RedirectTo (str ''zones'') []))" for Z usage
    by (cases usage) (simp_all add: touch_ret)
  then have run: "obeys (tables_ok E) (builds E Z) (setup_subscription W E req)" for Z
    unfolding setup_subscription_def user_account_def
    by (intro touch_login touch_bind stable_tables_ok touch_cond touch_ret touch_log_usage bld.obeys_pure)
  show ?thesis by (rule confinedI, rule builds_touches, rule obeysD[OF run])
qed


section \<open>Reverse zones\<close>

lemma rzone_view_cases:
  assumes "rzone_view W E req zone_id k w = (x, w')"
  obtains "w' = w"
  | u tok z where "req_user req = Some u" "access_token W u = Inr tok" "z \<in> set (rzones w)"
      "ReverseDNSZone_has_scope W tok z (str ''edit'') = Inr True" "k z w = (x, w')"
  using assms
  by (auto simp: rzone_view_def frame_defs dest: find_in split: option.splits sum.splits if_splits)

lemma rrow_view_cases:
  assumes "rrow_view W E key rows zone_of req record_id k w = (x, w')"
  obtains "w' = w"
  | u tok z r where "req_user req = Some u" "access_token W u = Inr tok" "r \<in> set (rows w)"
      "z \<in> set (rzones w)" "rz_id z = zone_of r"
      "ReverseDNSZone_has_scope W tok z (str ''edit'') = Inr True" "k z r w = (x, w')"
  using assms
  by (auto simp: rrow_view_def frame_defs dest!: find_in split: option.splits sum.splits if_splits)

lemma rzone_granted:
  assumes "req_user req = Some u" "access_token W u = Inr tok" "z \<in> set (rzones w)"
    "ReverseDNSZone_has_scope W tok z (str ''edit'') = Inr True"
  shows "rz_id z \<in> allowed W E req w"
  using assms by (auto simp: allowed_def permitted_def granted_reverse_def)

lemma rzone_view_confined:
  assumes "\<And>z Z. rz_id z \<in> Z \<Longrightarrow> obeys (rheld E Z z) (builds E Z) (k z)"
  shows "confined W E req (rzone_view W E req zone_id k)"
proof (rule confinedI)
  fix w x w'
  assume ok: "tables_ok E w" and "rzone_view W E req zone_id k w = (x, w')" "w' \<noteq> w"
  then obtain u tok z where g: "req_user req = Some u" "access_token W u = Inr tok" "z \<in> set (rzones w)"
      "ReverseDNSZone_has_scope W tok z (str ''edit'') = Inr True" and k: "k z w = (x, w')"
    using rzone_view_cases by metis
  show "touches E (allowed W E req w) w w'"
    by (rule builds_touches[OF obeysD[OF assms[OF rzone_granted[OF g]] held_row(2)[OF ok g(3) rzone_granted[OF g]] k]])
qed

lemma rrow_view_confined:
  assumes "\<And>z r Z. rz_id z \<in> Z \<Longrightarrow> zone_of r = rz_id z \<Longrightarrow>
    obeys (\<lambda>w. rheld E Z z w \<and> r \<in> set (rows w)) (builds E Z) (k z r)"
  shows "confined W E req (rrow_view W E key rows zone_of req record_id k)"
proof (rule confinedI)
  fix w x w'
  assume ok: "tables_ok E w" and "rrow_view W E key rows zone_of req record_id k w = (x, w')" "w' \<noteq> w"
  then obtain u tok z r where g: "req_user req = Some u" "access_token W u = Inr tok" "z \<in> set (rzones w)"
      "ReverseDNSZone_has_scope W tok z (str ''edit'') = Inr True"
    and r: "r \<in> set (rows w)" "rz_id z = zone_of r" and k: "k z r w = (x, w')"
    using rrow_view_cases[of W E key rows zone_of req record_id k w x w'] by metis
  note Z = rzone_granted[OF g, of E]
  show "touches E (allowed W E req w) w w'"
    using builds_touches[OF obeysD[OF assms[OF Z r(2)[symmetric]] _ k]] held_row(2)[OF ok g(3) Z] r(1) by simp
qed

lemma touch_ptr_save [touch_acts]:
  assumes "p_zone p \<in> Z"
  shows "obeys (pt.owned E Z p) (builds E Z) (PTRRecord_save E' p)"
proof -
  let ?p = "p\<lparr>pointer := lower E' (pointer p)\<rparr>"
  have "obeys (pt.owned E Z ?p) (builds E Z) (PTRRecord_save E' p)"
    unfolding PTRRecord_save_def Let_def using assms by (intro touch_seq stable_rules touch_delay pt.save_act) simp
  then show ?thesis by (rule obeys_pre) (simp add: pt.owned_def)
qed

lemma touch_rns_save [touch_acts]:
  assumes "rn_zone n \<in> Z"
  shows "obeys (rnt.owned E Z n) (builds E Z) (ReverseNSRecord_save E' n)"
proof -
  let ?n = "n\<lparr>rn_nameserver := lower E' (rn_nameserver n)\<rparr>"
  have "obeys (rnt.owned E Z ?n) (builds E Z) (ReverseNSRecord_save E' n)"
    unfolding ReverseNSRecord_save_def using assms by (intro touch_seq stable_rules touch_delay rnt.save_act) simp
  then show ?thesis by (rule obeys_pre) (simp add: rnt.owned_def)
qed

lemma touch_reverse_deletes [touch_acts]:
  "obeys (pt.owned E Z p) (builds E Z) (PTRRecord_delete p)"
  "obeys (rnt.owned E Z n) (builds E Z) (ReverseNSRecord_delete n)"
  unfolding PTRRecord_delete_def ReverseNSRecord_delete_def
  by (intro touch_seq stable_rules touch_delay pt.delete_act rnt.delete_act)+

lemma touch_rrow:
  assumes "obeys Q (builds E Z) m" "stable E Z Q" "rz_id z \<in> Z" "\<And>s. rheld E Z z s \<Longrightarrow> R s \<Longrightarrow> Q s"
  shows "obeys (\<lambda>s. rheld E Z z s \<and> R s) (builds E Z) (seq (save_rzone_now E z) (seq m (ret x)))"
    "obeys (\<lambda>s. rheld E Z z s \<and> R s) (builds E Z) (seq m (seq (save_rzone_now E z) (ret x)))"
proof -
  have "obeys (\<lambda>s. rheld E Z z s \<and> Q s) (builds E Z) (seq (save_rzone_now E z) (seq m (ret x)))"
    "obeys (\<lambda>s. rheld E Z z s \<and> Q s) (builds E Z) (seq m (seq (save_rzone_now E z) (ret x)))"
    by (intro touch_seq touch_finish stable_conj stable_held assms obeys_conj1[OF held_save_now(2)] obeys_conj2)+
  with assms(4) show "obeys (\<lambda>s. rheld E Z z s \<and> R s) (builds E Z) (seq (save_rzone_now E z) (seq m (ret x)))"
    "obeys (\<lambda>s. rheld E Z z s \<and> R s) (builds E Z) (seq m (seq (save_rzone_now E z) (ret x)))"
    by (simp_all add: obeys_def)
qed

lemma reverse_form_results:
  "ReversePTRRecordForm W post i z = Inr (Some p) \<Longrightarrow> p_id p = i \<and> p_zone p = rz_id z"
  "ReverseNSRecordForm W post i z = Inr (Some n) \<Longrightarrow> rn_id n = i \<and> rn_zone n = rz_id z"
  by (auto simp: ReversePTRRecordForm_def ReverseNSRecordForm_def dest!: form_of_Some split: option.splits)

lemma create_reverse_confined:
  assumes "inj (uuid E)"
  shows "confined W E req (create_r_ptr_record W E req i)" "confined W E req (create_r_ns_record W E req i)"
  unfolding create_r_ptr_record_def create_r_ns_record_def
  by (intro rzone_view_confined touch_new_row[OF assms stable_held(2)] touch_cond touch_ret lift_form
      touch_rrow(2)[OF touch_ptr_save pt.stable_owned] touch_rrow(2)[OF touch_rns_save rnt.stable_owned];
      auto dest!: reverse_form_results intro: rheld_drawn)+

lemma edit_reverse_confined:
  "confined W E req (edit_r_ptr_record W E req i)" "confined W E req (edit_r_ns_record W E req i)"
  unfolding edit_r_ptr_record_def edit_r_ns_record_def
  by (intro rrow_view_confined touch_cond touch_ret lift_form
      touch_rrow(1)[OF touch_ptr_save pt.stable_owned] touch_rrow(1)[OF touch_rns_save rnt.stable_owned];
      auto dest!: reverse_form_results intro: pt.owned_edit rnt.owned_edit held_ok(2))+

lemma delete_reverse_confined:
  "confined W E req (delete_r_ptr_record W E req i)" "confined W E req (delete_r_ns_record W E req i)"
  unfolding delete_r_ptr_record_def delete_r_ns_record_def
  by (intro rrow_view_confined touch_cond touch_ret
      touch_rrow(1)[OF touch_reverse_deletes(1) pt.stable_owned] touch_rrow(1)[OF touch_reverse_deletes(2) rnt.stable_owned];
      auto intro: held_ok(2) pt.owned_row rnt.owned_row)+

lemma edit_rzone_confined: "confined W E req (edit_rzone W E req i)"
  unfolding edit_rzone_def rzone_view_def
  by (rule reads_confined) (intro reads_intros)

end
