(* ===== verification/View_Others.thy ===== *)
theory View_Others
  imports View_Zones
begin

text \<open>
  What secondary zones, the administration and the update of a dynamic address may change.
\<close>

section \<open>Secondary zones\<close>

lemma szone_view_cases:
  assumes "szone_view W E action req zone_id k w = (x, w')"
  obtains "w' = w"
  | u tok z where "req_user req = Some u" "access_token W u = Inr tok" "z \<in> set (szones w)"
      "SecondaryDNSZone_has_scope W tok z (str action) = Inr True" "k z w = (x, w')"
  using assms
  by (auto simp: szone_view_def frame_defs dest: find_in split: option.splits sum.splits if_splits)

lemma szone_view_confined:
  assumes "action \<in> {''edit'', ''delete''}"
    "\<And>z Z. sz_id z \<in> Z \<Longrightarrow> obeys (szt.owned E Z z) (touches E Z) (k z)"
  shows "confined W E req (szone_view W E action req zone_id k)"
proof (rule confinedI)
  fix w x w'
  assume ok: "tables_ok E w" and "szone_view W E action req zone_id k w = (x, w')" "w' \<noteq> w"
  then obtain u tok z where g: "req_user req = Some u" "access_token W u = Inr tok"
      "SecondaryDNSZone_has_scope W tok z (str action) = Inr True" and z: "z \<in> set (szones w)" and k: "k z w = (x, w')"
    using szone_view_cases by metis
  have "granted_secondary W req z" using g assms(1) by (auto simp: granted_secondary_def)
  then have Z: "sz_id z \<in> allowed W E req w" using z by (auto simp: allowed_def permitted_def)
  show "touches E (allowed W E req w) w w'"
    by (rule obeysD[OF assms(2)[OF Z] szt.owned_row[OF ok z Z] k])
qed

lemma create_szone_touch:
  assumes "inj (uuid E)"
  shows "obeys (new_ids_in E Z) (builds E Z) (create_szone W E req)"
proof -
  have saved: "obeys (drawn E i) (builds E Z) (seq (SecondaryDNSZone_save E (new_szone i n p)) (seq (modify (delay t)) (ret y)))"
    if "i \<in> Z" for i n p t and y :: response
  proof (rule obeys_pre)
    show "obeys (szt.owned E Z (new_szone i n p)) (builds E Z)
        (seq (SecondaryDNSZone_save E (new_szone i n p)) (seq (modify (delay t)) (ret y)))"
      by (intro touch_seq touch_finish szt.stable_owned touch_szone_save touch_delay) (simp add: new_szone_def that)
    show "szt.owned E Z (new_szone i n p) s" if "drawn E i s" for s
      by (rule drawn_owned(13)[OF that]) (simp add: new_szone_def)
  qed
  show ?thesis
    unfolding create_szone_def split_def
    by (intro saved touch_rules stable_new_ids touch_new_zone[OF assms stable_new_ids]) simp_all
qed

lemma edit_szone_confined: "confined W E req (edit_szone W E req i)"
proof -
  have "obeys (szt.owned E Z z) (builds E Z) (seq (SecondaryDNSZone_save E (z\<lparr>sz_primary := p\<rparr>)) (ret x))"
    if "sz_id z \<in> Z" for Z z p and x :: response
    by (rule obeys_pre[of "szt.owned E Z (z\<lparr>sz_primary := p\<rparr>)"], intro touch_finish szt.stable_owned touch_szone_save)
      (use that in \<open>simp_all add: szt.owned_def\<close>)
  then show ?thesis
    unfolding edit_szone_def
    by (intro szone_view_confined obeys_touches touch_cond touch_ret touch_option) simp_all
qed

lemma delete_szone_confined: "confined W E req (delete_szone W E req i)"
proof -
  have "obeys (szt.owned E Z z) (touches E Z)
    (if is_post req \<and> post_is req ''delete'' then
       bind_act (owner_log_usage E (sz_resource_id z) n True False uri) (\<lambda>usage.
         if usage = Error then ret (Render (str ''dns_grpc/szone/delete_szone.html''))
         else seq (SecondaryDNSZone_delete E z) (seq (modify (delay UpdateCatalog)) (ret (redirect_after usage (RedirectTo (str ''szones'') [])))))
     else ret (Render (str ''dns_grpc/szone/delete_szone.html'')))" if "sz_id z \<in> Z" for Z z n uri
    by (rule obeys_pre[OF _ szt.owned_ok])
      (auto intro!: touch_usage touch_delete[OF touch_szone_delete[OF that]] intro: tch.obeys_pure)
  then show ?thesis unfolding delete_szone_def by (intro szone_view_confined) auto
qed

lemma secondary_confined:
  assumes "inj (uuid E)"
  shows "confined W E req (create_szone W E req)" "confined W E req (view_szone W E req i)"
proof -
  show "confined W E req (create_szone W E req)"
    by (rule confinedI, rule builds_touches[OF obeysD[OF create_szone_touch[OF assms]]]) (rule new_ids_allowed)
  show "confined W E req (view_szone W E req i)"
    unfolding view_szone_def szone_view_def by (rule reads_confined) (intro reads_intros)
qed


section \<open>Administration\<close>

definition all_ids :: "ext \<Rightarrow> world \<Rightarrow> pstr set \<Rightarrow> bool" where
  "all_ids E w Z \<longleftrightarrow> zone_ids w \<union> rzone_ids w \<union> szone_ids w \<subseteq> Z"

lemma admin_view_confined:
  assumes "\<And>Z. obeys (\<lambda>w. new_ids_in E Z w \<and> all_ids E w Z) (touches E Z) m"
  shows "confined W E req (admin_view W req m)"
proof (rule confinedI)
  fix w x w'
  assume ok: "tables_ok E w" and "admin_view W req m w = (x, w')" "w' \<noteq> w"
  then have adm: "is_admin W req" and m: "m w = (x, w')"
    by (auto simp: admin_view_def login_required_def is_admin_def act_defs split: option.splits if_splits)
  have "all_ids E w (allowed W E req w)" using adm by (auto simp: all_ids_def allowed_def permitted_def)
  then show "touches E (allowed W E req w) w w'"
    using obeysD[OF assms _ m] new_ids_allowed[OF ok] by blast
qed

lemma admin_create_touch:
  assumes "inj (uuid E)" "\<And>i. i \<in> Z \<Longrightarrow> obeys (drawn E i) (builds E Z) (k i)"
  shows "obeys (\<lambda>w. new_ids_in E Z w \<and> all_ids E w Z) (touches E Z) (bind_act (new_id E) k)"
  by (rule obeys_touches[OF obeys_pre[OF touch_new_zone[OF assms(1) stable_new_ids _ assms(2)]]]) simp_all

lemma saved_rzone_charged:
  assumes "rz_id z = i" "i \<in> Z"
  shows "obeys (drawn E i) (builds E Z) (seq (ReverseDNSZone_save E' z) (seq (modify (delay t)) (seq (log_usage E' u x a b r) (ret y))))"
    by (rule obeys_pre[of "rzt.owned E Z z"],
        intro touch_seq touch_finish rzt.stable_owned touch_rzone_save touch_delay touch_log_usage)
      (use assms drawn_owned(12) in simp_all)

lemma saved_szone_charged:
  assumes "sz_id z = i" "i \<in> Z"
  shows "obeys (drawn E i) (builds E Z) (seq (SecondaryDNSZone_save E' z) (seq (log_usage E' u x a b r) (ret y)))"
    by (rule obeys_pre[of "szt.owned E Z z"],
        intro touch_seq touch_finish szt.stable_owned touch_szone_save touch_log_usage)
      (use assms drawn_owned(13) in simp_all)

lemma touch_pick:
  assumes "\<And>r w. P w \<Longrightarrow> r \<in> set (rows w) \<Longrightarrow> touches E Z w (snd (k r w))"
  shows "obeys P (touches E Z) (bind_act (get_or_404 E key rows i) k)"
proof (rule tch.obeys_bind_strong)
  show "obeys P (touches E Z) (get_or_404 E key rows i)" by (simp add: get_or_404_def tch.obeys_pure)
  show "touches E Z t (snd (k a t))" if "P s" "get_or_404 E key rows i s = (Inr a, t)" for s a t
    using get_or_404_cases[OF that(2)] assms[OF that(1)] by simp
qed

lemma admin_delete_touch:
  assumes "\<And>r w. all_ids E w Z \<Longrightarrow> r \<in> set (rows w) \<Longrightarrow> obeys (tables_ok E) (touches E Z) (del r)"
  shows "obeys (\<lambda>w. new_ids_in E Z w \<and> all_ids E w Z) (touches E Z)
    (bind_act (get_or_404 E key rows i) (\<lambda>r.
       if c then seq (owner_log_usage E' (rid r) n True True None) (seq (del r) (seq (modify (delay t)) (ret x)))
       else ret y))"
proof (rule touch_pick)
  fix r w
  assume w: "new_ids_in E Z w \<and> all_ids E w Z" "r \<in> set (rows w)"
  have "obeys (tables_ok E) (touches E Z)
      (if c then seq (owner_log_usage E' (rid r) n True True None) (seq (del r) (seq (modify (delay t)) (ret x))) else ret y)"
    using assms[OF conjunct2[OF w(1)] w(2)] by (simp add: seq_def[of "owner_log_usage _ _ _ _ _ _"] touch_usage touch_delete tch.obeys_pure)
  then show "touches E Z w (snd ((if c then seq (owner_log_usage E' (rid r) n True True None) (seq (del r) (seq (modify (delay t)) (ret x)))
      else ret y) w))"
    using w(1) by (simp add: obeys_def new_ids_in_def)
qed

lemma admin_confined:
  assumes "inj (uuid E)"
  shows "confined W E req (admin_index W req)" "confined W E req (admin_create_zone W E req)"
    "confined W E req (admin_create_rzone W E req)" "confined W E req (admin_create_szone W E req)"
    "confined W E req (admin_delete_zone W E req i)" "confined W E req (admin_delete_rzone W E req i)"
    "confined W E req (admin_delete_szone W E req i)"
proof -
  have page: "obeys P (touches E Z) (ret x)" for P Z and x :: response by (rule tch.obeys_pure)
  show "confined W E req (admin_index W req)"
    unfolding admin_index_def by (intro admin_view_confined page)
  show "confined W E req (admin_create_zone W E req)"
    unfolding admin_create_zone_def
    by (rule admin_view_confined)
      (auto intro!: page admin_create_touch[OF assms] touch_zone_born plain_rest split: option.split)
  show "confined W E req (admin_create_rzone W E req)"
    unfolding admin_create_rzone_def
    by (rule admin_view_confined)
      (auto intro!: page admin_create_touch[OF assms] touch_asks saved_rzone_charged simp: new_rzone_def split: option.split)
  show "confined W E req (admin_create_szone W E req)"
    unfolding admin_create_szone_def
    by (rule admin_view_confined)
      (auto intro!: page admin_create_touch[OF assms] saved_szone_charged simp: new_szone_def split: option.split)
  show "confined W E req (admin_delete_zone W E req i)"
    unfolding admin_delete_zone_def
    by (rule admin_view_confined, rule admin_delete_touch, rule touch_zone_delete) (auto simp: all_ids_def zone_id_defs)
  show "confined W E req (admin_delete_rzone W E req i)"
    unfolding admin_delete_rzone_def
    by (rule admin_view_confined, rule admin_delete_touch, rule touch_rzone_delete) (auto simp: all_ids_def zone_id_defs)
  show "confined W E req (admin_delete_szone W E req i)"
    unfolding admin_delete_szone_def
    by (rule admin_view_confined, rule admin_delete_touch, rule touch_szone_delete) (auto simp: all_ids_def zone_id_defs)
qed


section \<open>Dynamic addresses\<close>

lemma with_ip_keeps: "r_id (with_ip a r) = r_id r" "r_zone (with_ip a r) = r_zone r" "zmodel (with_ip a r) = zmodel r"
  by (auto simp: with_ip_def split: body.splits)

lemma update_ip_cases:
  assumes "update_ip E req w = (x, w')"
  obtains "w' = w"
  | z r ip where "r \<in> set (zrecs w)" "password_for E req r" "z \<in> set (dnszones w)" "z_id z = r_zone r"
      "store_ip E z r (ip :: ip_addr) w = (x, w')"
  using assms
  by (auto simp: update_ip_def get_header_auth_def[symmetric] dynamic_record_def frame_defs asks_res_def
      password_for_def objects_def bind_act_def[of "lift_res _"] bind_act_def[of "foreign _ _ _"]
      bind_act_def[of "dynamic_record _ _"] lift_res_def
      dest!: find_in split: option.splits sum.splits if_splits prod.splits)

lemma update_ip_confined: "confined W E req (update_ip E req)"
proof (rule confinedI)
  fix w x w'
  assume ok: "tables_ok E w" and "update_ip E req w = (x, w')" "w' \<noteq> w"
  then obtain z r ip where r: "r \<in> set (zrecs w)" and pw: "password_for E req r"
      and z: "z \<in> set (dnszones w)" "z_id z = r_zone r"
      and run: "store_ip E z r (ip :: ip_addr) w = (x, w')"
    using update_ip_cases by metis
  have Z: "r_zone r \<in> allowed W E req w" using r pw by (auto simp: allowed_def permitted_def)
  have "rt.owned E (allowed W E req w) r w" by (rule rt.owned_row[OF ok r Z])
  then have "rt.owned E (allowed W E req w) (with_ip ip r) w"
    by (subst rt.owned_cong[of "with_ip ip r" r]) (simp_all add: with_ip_keeps pk_def)
  then have "held E (allowed W E req w) z w \<and> rt.owned E (allowed W E req w) (with_ip ip r) w"
    using held_row(1)[OF ok z(1)] z(2) Z by simp
  then show "touches E (allowed W E req w) w w'"
    using builds_touches[OF obeysD[OF touch_save_both(1) _ run[unfolded store_ip_def]]] z(2) Z by (simp add: with_ip_keeps)
qed

lemma check_ip_confined: "confined W E req (check_ip req)"
  unfolding check_ip_def by (rule reads_confined) (intro reads_intros)

end
