(* ===== verification/View_Safety.thy ===== *)
theory View_Safety
  imports View_Others
begin

text \<open>
  Every path of the web interface is confined: a request changes only zones for which it is permitted and
  zones it creates.
\<close>

section \<open>All paths\<close>

lemma record_urls_confined:
  assumes "inj (uuid E)" "forms_typed W"
  shows "confined W E req (create_record_url m W E req i)" "confined W E req (edit_record_url m W E req i)"
    "confined W E req (delete_record_url m W E req i)"
proof -
  have no: "confined W E req (no_view W E req i)" by (simp add: confined_def no_view_def throw_def tch.R_refl)
  show "confined W E req (create_record_url m W E req i)"
    using create_record_confined[OF assms] create_dynamic_confined[OF assms] no
    by (cases m) (simp_all add: record_view_defs)
  show "confined W E req (edit_record_url m W E req i)"
    using edit_record_confined[OF assms(2)] no by (cases m) (simp_all add: record_view_defs)
  show "confined W E req (delete_record_url m W E req i)"
    using delete_record_confined no by (cases m) (simp_all add: record_view_defs)
qed

lemma zone_paths_confined:
  assumes "inj (uuid E)" "forms_typed W"
  shows "confined W E req (respond_zone W E p req)"
  by (cases p)
    (simp_all add: record_urls_confined[OF assms] new_zone_confined[OF assms(1)] subscription_confined
      delete_zone_confined import_view_confined[OF assms(1)] export_confined assistants_confined[OF assms(1)]
      domain_list_confined lists_confined readers_confined)

lemma key_paths_confined: "inj (uuid E) \<Longrightarrow> confined W E req (respond_key W E p req)"
  by (cases p)
    (simp_all add: switch_cds_confined create_cds_confined delete_cds_confined readers_confined
      create_rows_confined edit_rows_confined delete_rows_confined)

lemma reverse_paths_confined: "inj (uuid E) \<Longrightarrow> confined W E req (respond_reverse W E p req)"
  by (cases p)
    (simp_all add: lists_confined edit_rzone_confined create_reverse_confined edit_reverse_confined delete_reverse_confined)

lemma secondary_paths_confined: "inj (uuid E) \<Longrightarrow> confined W E req (respond_secondary W E p req)"
  by (cases p) (simp_all add: lists_confined secondary_confined edit_szone_confined delete_szone_confined)

lemma admin_paths_confined: "inj (uuid E) \<Longrightarrow> confined W E req (respond_admin W E p req)"
  by (cases p) (simp_all add: admin_confined)

lemma respond_confined:
  assumes "inj (uuid E)" "forms_typed W"
  shows "confined W E req (respond W E p req)"
  by (cases p)
    (simp_all add: zone_paths_confined[OF assms] key_paths_confined[OF assms(1)] reverse_paths_confined[OF assms(1)]
      secondary_paths_confined[OF assms(1)] admin_paths_confined[OF assms(1)] check_ip_confined update_ip_confined)


section \<open>Zones that exist\<close>

definition all_zone_ids :: "world \<Rightarrow> pstr set" where
  "all_zone_ids w = zone_ids w \<union> rzone_ids w \<union> szone_ids w"

lemma filter_image: "[x \<leftarrow> xs. f x = a] = [y \<leftarrow> ys. f y = a] \<Longrightarrow> a \<in> f ` set xs \<longleftrightarrow> a \<in> f ` set ys"
  by (auto dest!: arg_cong[where f = set] simp: set_eq_iff) (metis image_eqI)+

lemma filter_Bex: "[x \<leftarrow> xs. f x = a] = [y \<leftarrow> ys. f y = a] \<Longrightarrow> (\<exists>x \<in> set xs. f x = a \<and> P x) \<longleftrightarrow> (\<exists>y \<in> set ys. f y = a \<and> P y)"
  by (auto dest!: arg_cong[where f = set] simp: set_eq_iff) (metis+)

lemma same_zone_ids:
  assumes "same_zone zid w w'"
  shows "zid \<in> all_zone_ids w' \<longleftrightarrow> zid \<in> all_zone_ids w"
  using assms filter_image[of z_id zid "dnszones w'"] filter_image[of rz_id zid "rzones w'"] filter_image[of sz_id zid "szones w'"]
  unfolding same_zone_def all_zone_ids_def zone_id_defs by blast

lemma same_zone_permitted:
  assumes "same_zone zid w w'"
  shows "permitted W E req w' zid \<longleftrightarrow> permitted W E req w zid"
proof -
  have "[z \<leftarrow> dnszones w'. z_id z = zid] = [z \<leftarrow> dnszones w. z_id z = zid]"
    "[z \<leftarrow> rzones w'. rz_id z = zid] = [z \<leftarrow> rzones w. rz_id z = zid]"
    "[z \<leftarrow> szones w'. sz_id z = zid] = [z \<leftarrow> szones w. sz_id z = zid]"
    "[r \<leftarrow> zrecs w'. r_zone r = zid] = [r \<leftarrow> zrecs w. r_zone r = zid]"
    using assms by (simp_all add: same_zone_def)
  note same = this[THEN filter_Bex]
  show ?thesis by (simp only: permitted_def same)
qed

lemma fresh_not_drawn: "fresh E key ident rows n \<Longrightarrow> a \<in> ident ` set rows \<Longrightarrow> n \<le> k \<Longrightarrow> a \<noteq> uuid E k"
  by (auto simp: fresh_def)

lemma zone_not_drawn:
  assumes "tables_ok E w" "zid \<in> all_zone_ids w" "next_uuid w \<le> n"
  shows "zid \<noteq> uuid E n"
proof -
  have "fresh E z_id z_id (dnszones w) (next_uuid w)" "fresh E rz_id rz_id (rzones w) (next_uuid w)"
    "fresh E sz_id sz_id (szones w) (next_uuid w)"
    using assms(1) by (simp_all add: integrity_defs)
  from this[THEN fresh_not_drawn] show ?thesis using assms(2,3) unfolding all_zone_ids_def zone_id_defs by blast
qed

lemma respond_keeps:
  assumes "inj (uuid E)" "forms_typed W" "tables_ok E w"
  shows "tables_ok E (snd (respond W E p req w))"
    "zid \<in> all_zone_ids w \<Longrightarrow> \<not> permitted W E req w zid \<Longrightarrow> same_zone zid w (snd (respond W E p req w))"
proof -
  have t: "touches E (allowed W E req w) w (snd (respond W E p req w))"
    using respond_confined[OF assms(1,2), of req p] by (simp add: confined_def)
  then show "tables_ok E (snd (respond W E p req w))" using assms(3) by (simp add: touches_def)
  assume "zid \<in> all_zone_ids w" "\<not> permitted W E req w zid"
  then have "zid \<notin> allowed W E req w" using zone_not_drawn[OF assms(3)] by (auto simp: allowed_def)
  then show "same_zone zid w (snd (respond W E p req w))" using t assms(3) by (simp add: touches_def)
qed

end
