(* ===== verification/Rest_Serializers.thy ===== *)
theory Rest_Serializers
  imports Hex_Prelude
begin

text \<open>
  The serializers of \<^verbatim>\<open>api/serializers.py\<close> as data: the fields of each, those declared in the class and
  those among them declared read-only, and the tuples \<^verbatim>\<open>read_only_fields\<close> and \<^verbatim>\<open>write_once_fields\<close> of \<^verbatim>\<open>Meta\<close>.
  \<open>writable\<close> is the rule by which Django REST framework and \<^verbatim>\<open>WriteOnceMixin\<close> decide which submitted
  fields are taken: \<^verbatim>\<open>read_only_fields\<close> has no effect on a field that the class declares.
\<close>

record serializer =
  s_fields :: "pstr list"
  s_declared :: "pstr list"
  s_declared_read_only :: "pstr list"
  s_read_only :: "pstr list"
  s_write_once :: "pstr list"

definition names :: "string list \<Rightarrow> pstr list" where
  "names = map str"

definition writable :: "serializer \<Rightarrow> bool \<Rightarrow> pstr \<Rightarrow> bool" where
  "writable S updating f \<longleftrightarrow> f \<in> set (s_fields S) \<and> f \<notin> set (s_declared_read_only S)
     \<and> (f \<in> set (s_read_only S) \<longrightarrow> f \<in> set (s_declared S)) \<and> \<not> (updating \<and> f \<in> set (s_write_once S))"

definition taken :: "serializer \<Rightarrow> bool \<Rightarrow> (pstr \<times> pstr) list \<Rightarrow> (pstr \<times> pstr) list" where
  "taken S updating data = [x \<leftarrow> data. writable S updating (fst x)]"


section \<open>The serializers\<close>

definition AddressRecordSerializer :: serializer where
  "AddressRecordSerializer = \<lparr>
     s_fields = names [''url'', ''id'', ''zone'', ''zone_url'', ''record_name'', ''address'', ''auto_reverse'', ''ttl''],
     s_declared = names [''zone_url'', ''url'', ''zone''], s_declared_read_only = names [''zone_url'', ''url''],
     s_read_only = names [''id''], s_write_once = names [''zone'']\<rparr>"

definition DynamicRecordSerializer :: serializer where
  "DynamicRecordSerializer = \<lparr>
     s_fields = names [''url'', ''id'', ''zone'', ''zone_url'', ''record_name'', ''current_ipv4'', ''current_ipv6'',
       ''password'', ''ttl''],
     s_declared = names [''zone_url'', ''url'', ''zone''], s_declared_read_only = names [''zone_url'', ''url''],
     s_read_only = names [''id'', ''current_ipv4'', ''current_ipv6'', ''password''], s_write_once = names [''zone'']\<rparr>"

definition ANAMERecordSerializer :: serializer where
  "ANAMERecordSerializer = \<lparr>
     s_fields = names [''url'', ''id'', ''zone'', ''zone_url'', ''record_name'', ''alias'', ''ttl''],
     s_declared = names [''zone_url'', ''url'', ''zone''], s_declared_read_only = names [''zone_url'', ''url''],
     s_read_only = names [''id''], s_write_once = names [''zone'']\<rparr>"

definition CNAMERecordSerializer :: serializer where
  "CNAMERecordSerializer = \<lparr>
     s_fields = names [''url'', ''id'', ''zone'', ''zone_url'', ''record_name'', ''alias'', ''ttl''],
     s_declared = names [''zone_url'', ''url'', ''zone''], s_declared_read_only = names [''zone_url'', ''url''],
     s_read_only = names [''id''], s_write_once = names [''zone'']\<rparr>"

definition MXRecordSerializer :: serializer where
  "MXRecordSerializer = \<lparr>
     s_fields = names [''url'', ''id'', ''zone'', ''zone_url'', ''record_name'', ''exchange'', ''priority'', ''ttl''],
     s_declared = names [''zone_url'', ''url'', ''zone''], s_declared_read_only = names [''zone_url'', ''url''],
     s_read_only = names [''id''], s_write_once = names [''zone'']\<rparr>"

definition NSRecordSerializer :: serializer where
  "NSRecordSerializer = \<lparr>
     s_fields = names [''url'', ''id'', ''zone'', ''zone_url'', ''record_name'', ''nameserver'', ''ttl''],
     s_declared = names [''zone_url'', ''url'', ''zone''], s_declared_read_only = names [''zone_url'', ''url''],
     s_read_only = names [''id''], s_write_once = names [''zone'']\<rparr>"

definition TXTRecordSerializer :: serializer where
  "TXTRecordSerializer = \<lparr>
     s_fields = names [''url'', ''id'', ''zone'', ''zone_url'', ''record_name'', ''data'', ''ttl''],
     s_declared = names [''zone_url'', ''url'', ''zone''], s_declared_read_only = names [''zone_url'', ''url''],
     s_read_only = names [''id''], s_write_once = names [''zone'']\<rparr>"

definition SRVRecordSerializer :: serializer where
  "SRVRecordSerializer = \<lparr>
     s_fields = names [''url'', ''id'', ''zone'', ''zone_url'', ''record_name'', ''priority'', ''weight'', ''port'',
       ''target'', ''ttl''],
     s_declared = names [''zone_url'', ''url'', ''zone''], s_declared_read_only = names [''zone_url'', ''url''],
     s_read_only = names [''id''], s_write_once = names [''zone'']\<rparr>"

definition CAARecordSerializer :: serializer where
  "CAARecordSerializer = \<lparr>
     s_fields = names [''url'', ''id'', ''zone'', ''zone_url'', ''record_name'', ''flag'', ''tag'', ''value'', ''ttl''],
     s_declared = names [''zone_url'', ''url'', ''zone''], s_declared_read_only = names [''zone_url'', ''url''],
     s_read_only = names [''id''], s_write_once = names [''zone'']\<rparr>"

definition NAPTRRecordSerializer :: serializer where
  "NAPTRRecordSerializer = \<lparr>
     s_fields = names [''url'', ''id'', ''zone'', ''zone_url'', ''record_name'', ''order'', ''preference'', ''flags'',
       ''service'', ''regexp'', ''replacement'', ''ttl''],
     s_declared = names [''zone_url'', ''url'', ''zone''], s_declared_read_only = names [''zone_url'', ''url''],
     s_read_only = names [''id''], s_write_once = names [''zone'']\<rparr>"

definition SSHFPRecordSerializer :: serializer where
  "SSHFPRecordSerializer = \<lparr>
     s_fields = names [''url'', ''id'', ''zone'', ''zone_url'', ''record_name'', ''host_key'', ''ttl''],
     s_declared = names [''zone_url'', ''url'', ''zone''], s_declared_read_only = names [''zone_url'', ''url''],
     s_read_only = names [''id''], s_write_once = names [''zone'']\<rparr>"

definition DSRecordSerializer :: serializer where
  "DSRecordSerializer = \<lparr>
     s_fields = names [''url'', ''id'', ''zone'', ''zone_url'', ''record_name'', ''key_tag'', ''algorithm'',
       ''digest_type'', ''digest'', ''ttl''],
     s_declared = names [''zone_url'', ''url'', ''zone''], s_declared_read_only = names [''zone_url'', ''url''],
     s_read_only = names [''id''], s_write_once = names [''zone'']\<rparr>"

definition LOCRecordSerializer :: serializer where
  "LOCRecordSerializer = \<lparr>
     s_fields = names [''url'', ''id'', ''zone'', ''zone_url'', ''record_name'', ''latitude'', ''longitude'', ''altitude'',
       ''size'', ''hp'', ''vp'', ''ttl''],
     s_declared = names [''zone_url'', ''url'', ''zone''], s_declared_read_only = names [''zone_url'', ''url''],
     s_read_only = names [''id'', ''zone''], s_write_once = names []\<rparr>"

definition HINFORecordSerializer :: serializer where
  "HINFORecordSerializer = \<lparr>
     s_fields = names [''url'', ''id'', ''zone'', ''zone_url'', ''record_name'', ''cpu'', ''os'', ''ttl''],
     s_declared = names [''zone_url'', ''url'', ''zone''], s_declared_read_only = names [''zone_url'', ''url''],
     s_read_only = names [''id''], s_write_once = names [''zone'']\<rparr>"

definition RPRecordSerializer :: serializer where
  "RPRecordSerializer = \<lparr>
     s_fields = names [''url'', ''id'', ''zone'', ''zone_url'', ''record_name'', ''mailbox'', ''txt'', ''ttl''],
     s_declared = names [''zone_url'', ''url'', ''zone''], s_declared_read_only = names [''zone_url'', ''url''],
     s_read_only = names [''id''], s_write_once = names [''zone'']\<rparr>"

definition HTTPSRecordSerializer :: serializer where
  "HTTPSRecordSerializer = \<lparr>
     s_fields = names [''url'', ''id'', ''zone'', ''zone_url'', ''record_name'', ''port'', ''scheme'', ''ttl'',
       ''priority'', ''target'', ''target_port'', ''http2_support'', ''ech'', ''ech_mandatory'', ''alpns'',
       ''alpn_mandatory'', ''no_default_alpn'', ''ipv4_hints'', ''ipv4_hints_mandatory'', ''ipv6_hints'',
       ''ipv6_hints_mandatory'', ''extra_params''],
     s_declared = names [''zone_url'', ''url'', ''zone''], s_declared_read_only = names [''zone_url'', ''url''],
     s_read_only = names [''id''], s_write_once = names [''zone'']\<rparr>"

definition DNSZoneSerializer :: serializer where
  "DNSZoneSerializer = \<lparr>
     s_fields = names [''url'', ''id'', ''zone_root'', ''last_modified'', ''active'', ''dnssec'', ''address_records'',
       ''dynamic_address_records'', ''aname_records'', ''cname_records'', ''mx_records'', ''ns_records'',
       ''txt_records'', ''srv_records'', ''caa_records'', ''naptr_records'', ''sshfp_records'',
       ''ds_records'', ''loc_records'', ''hinfo_records'', ''rp_records'', ''https_records''],
     s_declared = names [''address_records'', ''dynamic_address_records'', ''aname_records'', ''cname_records'', ''mx_records'', ''ns_records'', ''txt_records'', ''srv_records'', ''caa_records'', ''naptr_records'', ''sshfp_records'', ''ds_records'', ''loc_records'', ''hinfo_records'', ''rp_records'', ''https_records'', ''dnssec''], s_declared_read_only = names [''address_records'', ''dynamic_address_records'', ''aname_records'', ''cname_records'', ''mx_records'', ''ns_records'', ''txt_records'', ''srv_records'', ''caa_records'', ''naptr_records'', ''sshfp_records'', ''ds_records'', ''loc_records'', ''hinfo_records'', ''rp_records'', ''https_records'', ''dnssec''],
     s_read_only = names [''id'', ''last_modified'', ''active''], s_write_once = names [''zone_root'']\<rparr>"

definition PTRRecordSerializer :: serializer where
  "PTRRecordSerializer = \<lparr>
     s_fields = names [''url'', ''id'', ''zone'', ''zone_url'', ''record_address'', ''pointer'', ''ttl''],
     s_declared = names [''url'', ''zone'', ''zone_url''], s_declared_read_only = names [''url'', ''zone_url''],
     s_read_only = names [''id''], s_write_once = names [''zone'']\<rparr>"

definition ReverseNSRecordSerializer :: serializer where
  "ReverseNSRecordSerializer = \<lparr>
     s_fields = names [''url'', ''id'', ''zone'', ''zone_url'', ''record_address'', ''record_prefix'', ''nameserver'',
       ''ttl''],
     s_declared = names [''url'', ''zone'', ''zone_url''], s_declared_read_only = names [''url'', ''zone_url''],
     s_read_only = names [''id''], s_write_once = names [''zone'']\<rparr>"

definition ReverseDNSZoneSerializer :: serializer where
  "ReverseDNSZoneSerializer = \<lparr>
     s_fields = names [''url'', ''id'', ''zone_root_address'', ''zone_root_prefix'', ''last_modified'', ''active'',
       ''ptr_records'', ''ns_records'', ''dnssec''],
     s_declared = names [''ptr_records'', ''ns_records'', ''dnssec''], s_declared_read_only = names [''ptr_records'', ''ns_records'', ''dnssec''],
     s_read_only = names [''id'', ''last_modified'', ''active''], s_write_once = names [''zone_root_address'', ''zone_root_prefix'']\<rparr>"

definition SecondaryDNSZoneRecordSerializer :: serializer where
  "SecondaryDNSZoneRecordSerializer = \<lparr>
     s_fields = names [''url'', ''id'', ''zone'', ''zone_url'', ''record_name'', ''rtype'', ''rdata'', ''ttl''],
     s_declared = names [''url'', ''zone'', ''zone_url''], s_declared_read_only = names [''url'', ''zone_url''],
     s_read_only = names [''id'', ''zone'', ''record_name'', ''rtype'', ''rdata'', ''ttl''], s_write_once = names []\<rparr>"

definition SecondaryDNSZoneSerializer :: serializer where
  "SecondaryDNSZoneSerializer = \<lparr>
     s_fields = names [''url'', ''id'', ''zone_root'', ''primary'', ''serial'', ''active'', ''error'', ''records''],
     s_declared = names [''records''], s_declared_read_only = names [''records''],
     s_read_only = names [''id'', ''serial'', ''active'', ''error''], s_write_once = names [''zone_root'']\<rparr>"

end
