(* ===== verification/Rest_Api.thy ===== *)
theory Rest_Api
  imports Reverse_Views Rest_Serializers
begin

text \<open>
  The REST interface: the view sets of \<^verbatim>\<open>api/views.py\<close> with the permissions of \<^verbatim>\<open>api/permissions.py\<close>. A
  request carries the token of the caller, if any; the answer is a status. The argument \<open>A :: api\<close> stands
  for the conversion of submitted fields by Django REST framework, for the permission class of the
  library for zones, and for the answer of Keycloak when it is asked without a token: the field for the zone of a new
  record does that, because nothing ever sets its attribute \<^verbatim>\<open>auth_token\<close>.
\<close>

section \<open>Requests\<close>

datatype verb = GET | POST | PUT | PATCH | DELETE

record api_request =
  api_verb :: verb
  api_token :: "pstr option"
  api_data :: fields

record api =
  row_values :: "model \<Rightarrow> bool \<Rightarrow> zrec option \<Rightarrow> fields \<Rightarrow> (pstr \<times> nat \<times> body) option"
  ptr_values :: "bool \<Rightarrow> ptr_rec option \<Rightarrow> fields \<Rightarrow> (pstr \<times> nat \<times> pstr) option"
  rns_values :: "bool \<Rightarrow> rns_rec option \<Rightarrow> fields \<Rightarrow> (pstr \<times> nat \<times> nat \<times> pstr) option"
  zone_values :: "fields \<Rightarrow> pstr option"
  primary_value :: "szone \<Rightarrow> bool \<Rightarrow> fields \<Rightarrow> pstr option"
  import_values :: "fields \<Rightarrow> (pstr \<times> bool) option"
  kc_allows :: "pstr option \<Rightarrow> verb \<Rightarrow> pstr option option \<Rightarrow> bool res"
  scope_without_token :: "pstr option \<Rightarrow> pstr \<Rightarrow> bool res"

text \<open>\<^verbatim>\<open>isinstance(request.auth, OAuthToken)\<close>\<close>

definition with_token :: "api_request \<Rightarrow> (pstr \<Rightarrow> nat io) \<Rightarrow> nat io" where
  "with_token req k = (case api_token req of None \<Rightarrow> ret 403 | Some tok \<Rightarrow> k tok)"

text \<open>The zone that the field \<^verbatim>\<open>zone\<close> names, if it exists and passes the validator of the field.\<close>

definition PermissionPrimaryKeyRelatedField ::
  "ext \<Rightarrow> ('z \<Rightarrow> pstr) \<Rightarrow> (world \<Rightarrow> 'z list) \<Rightarrow> ('z \<Rightarrow> bool res) \<Rightarrow> fields \<Rightarrow> world \<Rightarrow> 'z option res" where
  "PermissionPrimaryKeyRelatedField E key rows may_view data w =
     (case map_of data (str ''zone'') of
        None \<Rightarrow> Inr None
      | Some i \<Rightarrow>
         (case typed_uuid E i of
            None \<Rightarrow> Inr None
          | Some k \<Rightarrow>
             (case find (\<lambda>z. key z = k) (rows w) of
                None \<Rightarrow> Inr None
              | Some z \<Rightarrow> bind_res (may_view z) (\<lambda>ok. Inr (if ok then Some z else None)))))"

definition zone_field :: "api \<Rightarrow> ext \<Rightarrow> fields \<Rightarrow> world \<Rightarrow> dnszone option res" where
  "zone_field A E = PermissionPrimaryKeyRelatedField E z_id dnszones
     (\<lambda>z. scope_without_token A (z_resource_id z) (str ''view-zone''))"

definition rzone_field :: "api \<Rightarrow> ext \<Rightarrow> fields \<Rightarrow> world \<Rightarrow> rzone option res" where
  "rzone_field A E = PermissionPrimaryKeyRelatedField E rz_id rzones
     (\<lambda>z. scope_without_token A (rz_resource_id z) (str ''view-reverse-zone''))"

text \<open>\<^verbatim>\<open>ZoneKeycloak.has_object_permission\<close>\<close>

fun object_scope :: "verb \<Rightarrow> pstr" where
  "object_scope GET = str ''view''"
| "object_scope POST = []"
| "object_scope _ = str ''edit''"

text \<open>\<^verbatim>\<open>get_object\<close>: the row is looked up among the zones the token may see, then its zone decides.\<close>

definition with_row ::
  "ext \<Rightarrow> api_request \<Rightarrow> (pstr \<Rightarrow> 'z list io) \<Rightarrow> ('z \<Rightarrow> pstr) \<Rightarrow> (pstr \<Rightarrow> 'z \<Rightarrow> pstr \<Rightarrow> bool res)
     \<Rightarrow> (world \<Rightarrow> 'r list) \<Rightarrow> ('r \<Rightarrow> pstr) \<Rightarrow> ('r \<Rightarrow> pstr) \<Rightarrow> pstr \<Rightarrow> ('z \<Rightarrow> 'r \<Rightarrow> nat io) \<Rightarrow> nat io" where
  "with_row E req get_zones zkey has_scope rows key zone_of i k =
     with_token req (\<lambda>tok.
       bind_act (get_zones tok) (\<lambda>zs.
       bind_act (asks rows) (\<lambda>rs.
         case typed_uuid E i of
           None \<Rightarrow> ret 404
         | Some j \<Rightarrow>
            (case find (\<lambda>r. key r = j \<and> zone_of r \<in> zkey ` set zs) rs of
               None \<Rightarrow> ret 404
             | Some r \<Rightarrow>
                (case find (\<lambda>z. zkey z = zone_of r) zs of
                   None \<Rightarrow> throw DoesNotExist
                 | Some z \<Rightarrow>
                     bind_act (lift_res (has_scope tok z (object_scope (api_verb req)))) (\<lambda>ok.
                       if ok then k z r else ret 403))))))"


section \<open>Records of forward zones\<close>

fun serializer_of :: "model \<Rightarrow> serializer option" where
  "serializer_of M_Address = Some AddressRecordSerializer"
| "serializer_of M_DynamicAddress = Some DynamicRecordSerializer"
| "serializer_of M_ANAME = Some ANAMERecordSerializer"
| "serializer_of M_CNAME = Some CNAMERecordSerializer"
| "serializer_of M_MX = Some MXRecordSerializer"
| "serializer_of M_NS = Some NSRecordSerializer"
| "serializer_of M_TXT = Some TXTRecordSerializer"
| "serializer_of M_SRV = Some SRVRecordSerializer"
| "serializer_of M_CAA = Some CAARecordSerializer"
| "serializer_of M_NAPTR = Some NAPTRRecordSerializer"
| "serializer_of M_SSHFP = Some SSHFPRecordSerializer"
| "serializer_of M_DS = Some DSRecordSerializer"
| "serializer_of M_LOC = Some LOCRecordSerializer"
| "serializer_of M_HINFO = Some HINFORecordSerializer"
| "serializer_of M_RP = Some RPRecordSerializer"
| "serializer_of M_HTTPS = Some HTTPSRecordSerializer"
| "serializer_of _ = None"

text \<open>\<^verbatim>\<open>DNSZoneRecordViewSet\<close>. Creating asks no permission of the token; the model's own validation is not run.
  The password of a dynamic address is drawn.\<close>

definition DNSZoneRecord_create :: "web \<Rightarrow> api \<Rightarrow> ext \<Rightarrow> serializer \<Rightarrow> model \<Rightarrow> api_request \<Rightarrow> nat io" where
  "DNSZoneRecord_create W A E S m req =
     with_token req (\<lambda>tok.
       let data = taken S False (api_data req) in
       bind_act (asks_res (zone_field A E data)) (\<lambda>zone. case zone of
         None \<Rightarrow> ret 400
       | Some z \<Rightarrow>
          (case row_values A m False None data of
             None \<Rightarrow> ret 400
           | Some (n, l, b) \<Rightarrow>
               bind_act (new_id E) (\<lambda>i.
               bind_act (asks (\<lambda>w. token_hex W (next_uuid w))) (\<lambda>pw.
                 let r = \<lparr>r_id = i, r_zone = z_id z, record_name = n, ttl = l, body = form_body None b\<rparr> in
                 seq (zrec_save E z (if m = M_DynamicAddress then set_password pw r else r)) (ret 201))))))"

definition DNSZoneRecord_object ::
  "web \<Rightarrow> ext \<Rightarrow> model \<Rightarrow> api_request \<Rightarrow> pstr \<Rightarrow> (dnszone \<Rightarrow> zrec \<Rightarrow> nat io) \<Rightarrow> nat io" where
  "DNSZoneRecord_object W E m req =
     with_row E req (\<lambda>tok. DNSZone_get_object_list W tok (str ''view'')) z_id (DNSZone_has_scope W) (objects m) r_id r_zone"

text \<open>The zone of the changed object: that of the row, or the one submitted where the field is writable.\<close>

definition updated_zone :: "api \<Rightarrow> ext \<Rightarrow> serializer \<Rightarrow> bool \<Rightarrow> fields \<Rightarrow> dnszone \<Rightarrow> world \<Rightarrow> dnszone option res" where
  "updated_zone A E S partly data z w =
     (if \<not> writable S True (str ''zone'') \<or> (partly \<and> map_of data (str ''zone'') = None) then Inr (Some z)
      else zone_field A E data w)"

definition DNSZoneRecord_update :: "web \<Rightarrow> api \<Rightarrow> ext \<Rightarrow> serializer \<Rightarrow> model \<Rightarrow> api_request \<Rightarrow> pstr \<Rightarrow> nat io" where
  "DNSZoneRecord_update W A E S m req i =
     DNSZoneRecord_object W E m req i (\<lambda>z r.
       let data = taken S True (api_data req); partly = (api_verb req = PATCH) in
       bind_act (asks_res (updated_zone A E S partly data z)) (\<lambda>zone. case zone of
         None \<Rightarrow> ret 400
       | Some z' \<Rightarrow>
          (case row_values A m partly (Some r) data of
             None \<Rightarrow> ret 400
           | Some (n, l, b) \<Rightarrow>
               seq (save_zone_now E z)
                 (seq (zrec_save E (lowered E z')
                        (r\<lparr>r_zone := z_id z', record_name := n, ttl := l, body := form_body (Some (body r)) b\<rparr>))
                   (ret 200)))))"

definition DNSZoneRecord_destroy :: "web \<Rightarrow> ext \<Rightarrow> model \<Rightarrow> api_request \<Rightarrow> pstr \<Rightarrow> nat io" where
  "DNSZoneRecord_destroy W E m req i = DNSZoneRecord_object W E m req i (\<lambda>z r. seq (zrec_delete E r) (ret 204))"


section \<open>Records of reverse zones\<close>

definition PTRRecord_create :: "api \<Rightarrow> ext \<Rightarrow> api_request \<Rightarrow> nat io" where
  "PTRRecord_create A E req =
     with_token req (\<lambda>tok.
       let data = taken PTRRecordSerializer False (api_data req) in
       bind_act (asks_res (rzone_field A E data)) (\<lambda>zone. case zone of
         None \<Rightarrow> ret 400
       | Some z \<Rightarrow>
          (case ptr_values A False None data of
             None \<Rightarrow> ret 400
           | Some (a, l, p) \<Rightarrow>
               bind_act (new_id E) (\<lambda>i.
                 seq (PTRRecord_save E \<lparr>p_id = i, p_zone = rz_id z, p_address = a, p_ttl = l, pointer = p\<rparr>) (ret 201)))))"

definition ReverseNSRecord_create :: "api \<Rightarrow> ext \<Rightarrow> api_request \<Rightarrow> nat io" where
  "ReverseNSRecord_create A E req =
     with_token req (\<lambda>tok.
       let data = taken ReverseNSRecordSerializer False (api_data req) in
       bind_act (asks_res (rzone_field A E data)) (\<lambda>zone. case zone of
         None \<Rightarrow> ret 400
       | Some z \<Rightarrow>
          (case rns_values A False None data of
             None \<Rightarrow> ret 400
           | Some (a, l, p, n) \<Rightarrow>
               bind_act (new_id E) (\<lambda>i.
                 seq (ReverseNSRecord_save E \<lparr>rn_id = i, rn_zone = rz_id z, rn_address = a, rn_ttl = l, rn_prefix = p, rn_nameserver = n\<rparr>)
                   (ret 201)))))"

definition ReverseDNSZoneRecord_object ::
  "web \<Rightarrow> ext \<Rightarrow> (world \<Rightarrow> 'r list) \<Rightarrow> ('r \<Rightarrow> pstr) \<Rightarrow> ('r \<Rightarrow> pstr) \<Rightarrow> api_request \<Rightarrow> pstr \<Rightarrow> (rzone \<Rightarrow> 'r \<Rightarrow> nat io) \<Rightarrow> nat io" where
  "ReverseDNSZoneRecord_object W E rows key zone_of req =
     with_row E req (\<lambda>tok. ReverseDNSZone_get_object_list W tok (str ''view'')) rz_id (ReverseDNSZone_has_scope W) rows key zone_of"

definition PTRRecord_update :: "web \<Rightarrow> api \<Rightarrow> ext \<Rightarrow> api_request \<Rightarrow> pstr \<Rightarrow> nat io" where
  "PTRRecord_update W A E req i =
     ReverseDNSZoneRecord_object W E ptrs p_id p_zone req i (\<lambda>z r.
       case ptr_values A (api_verb req = PATCH) (Some r) (taken PTRRecordSerializer True (api_data req)) of
         None \<Rightarrow> ret 400
       | Some (a, l, p) \<Rightarrow>
           seq (save_rzone_now E z) (seq (PTRRecord_save E (r\<lparr>p_address := a, p_ttl := l, pointer := p\<rparr>)) (ret 200)))"

definition ReverseNSRecord_update :: "web \<Rightarrow> api \<Rightarrow> ext \<Rightarrow> api_request \<Rightarrow> pstr \<Rightarrow> nat io" where
  "ReverseNSRecord_update W A E req i =
     ReverseDNSZoneRecord_object W E rnss rn_id rn_zone req i (\<lambda>z r.
       case rns_values A (api_verb req = PATCH) (Some r) (taken ReverseNSRecordSerializer True (api_data req)) of
         None \<Rightarrow> ret 400
       | Some (a, l, p, n) \<Rightarrow>
           seq (save_rzone_now E z)
             (seq (ReverseNSRecord_save E (r\<lparr>rn_address := a, rn_ttl := l, rn_prefix := p, rn_nameserver := n\<rparr>)) (ret 200)))"

definition PTRRecord_destroy :: "web \<Rightarrow> ext \<Rightarrow> api_request \<Rightarrow> pstr \<Rightarrow> nat io" where
  "PTRRecord_destroy W E req i = ReverseDNSZoneRecord_object W E ptrs p_id p_zone req i (\<lambda>z r. seq (PTRRecord_delete r) (ret 204))"

definition ReverseNSRecord_destroy :: "web \<Rightarrow> ext \<Rightarrow> api_request \<Rightarrow> pstr \<Rightarrow> nat io" where
  "ReverseNSRecord_destroy W E req i =
     ReverseDNSZoneRecord_object W E rnss rn_id rn_zone req i (\<lambda>z r. seq (ReverseNSRecord_delete r) (ret 204))"



section \<open>Reading\<close>

text \<open>A list: the zones the token may see are asked for; a method other than GET is refused.\<close>

definition read_rows :: "api_request \<Rightarrow> (pstr \<Rightarrow> 'z list io) \<Rightarrow> nat io" where
  "read_rows req get_zones =
     with_token req (\<lambda>tok. if api_verb req = GET then bind_act (get_zones tok) (\<lambda>_. ret 200) else ret 405)"

text \<open>The serializer of the records of a secondary zone names fields that are no columns: it fails on the first
  record.\<close>

definition SecondaryRecord_list :: "web \<Rightarrow> api_request \<Rightarrow> nat io" where
  "SecondaryRecord_list W req =
     with_token req (\<lambda>tok. if api_verb req = GET then
       bind_act (SecondaryDNSZone_get_object_list W tok (str ''view'')) (\<lambda>zs.
         asks_res (\<lambda>w. if \<exists>r \<in> set (szone_records w). sr_zone r \<in> sz_id ` set zs then Inl OtherError else Inr 200))
       else ret 405)"

definition DNSZoneRecord_retrieve :: "web \<Rightarrow> ext \<Rightarrow> model \<Rightarrow> api_request \<Rightarrow> pstr \<Rightarrow> nat io" where
  "DNSZoneRecord_retrieve W E m req i = DNSZoneRecord_object W E m req i (\<lambda>z r. ret 200)"


section \<open>Zones\<close>

text \<open>The permission class of the library, for the class of zones or for one zone.\<close>

definition kc_check :: "api \<Rightarrow> api_request \<Rightarrow> pstr option option \<Rightarrow> nat io \<Rightarrow> nat io" where
  "kc_check A req rid k = bind_act (lift_res (kc_allows A (api_token req) (api_verb req) rid)) (\<lambda>ok. if ok then k else ret 403)"

text \<open>Both call \<^verbatim>\<open>views.valid_zone\<close> or \<^verbatim>\<open>views.log_usage\<close>; the package \<^verbatim>\<open>views\<close> has neither name.\<close>

definition zone_perform_create :: "api \<Rightarrow> api_request \<Rightarrow> nat io" where
  "zone_perform_create A req =
     kc_check A req None (case zone_values A (api_data req) of None \<Rightarrow> ret 400 | Some _ \<Rightarrow> throw AttributeError)"

definition zone_perform_destroy :: "nat io" where
  "zone_perform_destroy = throw AttributeError"

definition zone_object ::
  "api \<Rightarrow> ext \<Rightarrow> api_request \<Rightarrow> (pstr \<Rightarrow> 'z list io) \<Rightarrow> ('z \<Rightarrow> pstr) \<Rightarrow> ('z \<Rightarrow> pstr option) \<Rightarrow> pstr \<Rightarrow> ('z \<Rightarrow> nat io) \<Rightarrow> nat io" where
  "zone_object A E req get_zones key resource i k =
     kc_check A req None (with_token req (\<lambda>tok.
       bind_act (get_zones tok) (\<lambda>zs.
         case typed_uuid E i of
           None \<Rightarrow> ret 404
         | Some j \<Rightarrow> (case find (\<lambda>z. key z = j) zs of
             None \<Rightarrow> ret 404
           | Some z \<Rightarrow> kc_check A req (Some (resource z)) (k z)))))"

text \<open>\<^verbatim>\<open>to_representation\<close>: of a forward zone it names \<^verbatim>\<open>dns_grpc\<close>, which nothing imports; of a reverse zone
  \<^verbatim>\<open>views.make_zone_digest\<close>; the serializer of the records of a secondary zone names fields that are no columns.\<close>

definition DNSZone_representation :: "dnszone \<Rightarrow> nat res" where
  "DNSZone_representation z = Inl NameError"

definition ReverseDNSZone_representation :: "rzone \<Rightarrow> nat res" where
  "ReverseDNSZone_representation z = bind_res (network_of (zone_root_address z) (zone_root_prefix z)) (\<lambda>n. Inl AttributeError)"

definition SecondaryDNSZone_representation :: "world \<Rightarrow> szone \<Rightarrow> nat res" where
  "SecondaryDNSZone_representation w z =
     (if [r \<leftarrow> szone_records w. sr_zone r = sz_id z] = [] then Inr 200 else Inl OtherError)"

definition represent_all :: "('z \<Rightarrow> nat res) \<Rightarrow> 'z list \<Rightarrow> nat res" where
  "represent_all f zs = bind_res (mapM_res f zs) (\<lambda>_. Inr 200)"

definition DNSZoneViewSet :: "web \<Rightarrow> api \<Rightarrow> ext \<Rightarrow> api_request \<Rightarrow> pstr option \<Rightarrow> nat io" where
  "DNSZoneViewSet W A E req path =
     (let list = \<lambda>tok. DNSZone_get_object_list W tok (str ''view'') in
      case path of
        None \<Rightarrow>
          if api_verb req = POST then zone_perform_create A req
          else if api_verb req \<noteq> GET then ret 405
          else kc_check A req None (with_token req (\<lambda>tok. bind_act (list tok) (\<lambda>zs. lift_res (represent_all DNSZone_representation zs))))
      | Some i \<Rightarrow>
          zone_object A E req list z_id z_resource_id i (\<lambda>z.
            case api_verb req of
              POST \<Rightarrow> ret 405
            | GET \<Rightarrow> lift_res (DNSZone_representation z)
            | DELETE \<Rightarrow> zone_perform_destroy
            | _ \<Rightarrow> seq (save_zone_now E z) (lift_res (DNSZone_representation z))))"

definition ReverseDNSZoneViewSet :: "web \<Rightarrow> api \<Rightarrow> ext \<Rightarrow> api_request \<Rightarrow> pstr option \<Rightarrow> nat io" where
  "ReverseDNSZoneViewSet W A E req path =
     (let list = \<lambda>tok. ReverseDNSZone_get_object_list W tok (str ''view'') in
      case path of
        None \<Rightarrow>
          if api_verb req = POST then zone_perform_create A req
          else if api_verb req \<noteq> GET then ret 405
          else kc_check A req None (with_token req (\<lambda>tok. bind_act (list tok) (\<lambda>zs. lift_res (represent_all ReverseDNSZone_representation zs))))
      | Some i \<Rightarrow>
          zone_object A E req list rz_id rz_resource_id i (\<lambda>z.
            case api_verb req of
              POST \<Rightarrow> ret 405
            | GET \<Rightarrow> lift_res (ReverseDNSZone_representation z)
            | DELETE \<Rightarrow> zone_perform_destroy
            | _ \<Rightarrow> seq (save_rzone_now E z) (lift_res (ReverseDNSZone_representation z))))"

definition SecondaryDNSZoneViewSet :: "web \<Rightarrow> api \<Rightarrow> ext \<Rightarrow> api_request \<Rightarrow> pstr option \<Rightarrow> nat io" where
  "SecondaryDNSZoneViewSet W A E req path =
     (let list = \<lambda>tok. SecondaryDNSZone_get_object_list W tok (str ''view'') in
      case path of
        None \<Rightarrow>
          if api_verb req = POST then zone_perform_create A req
          else if api_verb req \<noteq> GET then ret 405
          else kc_check A req None (with_token req (\<lambda>tok. bind_act (list tok) (\<lambda>zs.
                 asks_res (\<lambda>w. represent_all (SecondaryDNSZone_representation w) zs))))
      | Some i \<Rightarrow>
          zone_object A E req list sz_id sz_resource_id i (\<lambda>z.
            case api_verb req of
              POST \<Rightarrow> ret 405
            | GET \<Rightarrow> asks_res (\<lambda>w. SecondaryDNSZone_representation w z)
            | DELETE \<Rightarrow> zone_perform_destroy
            | _ \<Rightarrow>
               (case primary_value A z (api_verb req = PATCH) (taken SecondaryDNSZoneSerializer True (api_data req)) of
                  None \<Rightarrow> ret 400
                | Some p \<Rightarrow>
                    seq (SecondaryDNSZone_save E (z\<lparr>sz_primary := p\<rparr>)) (asks_res (\<lambda>w. SecondaryDNSZone_representation w z)))))"

definition api_import_zone_file :: "web \<Rightarrow> api \<Rightarrow> ext \<Rightarrow> api_request \<Rightarrow> pstr \<Rightarrow> nat io" where
  "api_import_zone_file W A E req i =
     kc_check A req None (with_token req (\<lambda>tok.
       bind_act (get_or_404 E z_id dnszones i) (\<lambda>z.
       seq (require (DNSZone_has_scope W tok z (str ''edit'')))
         (case import_values A (api_data req) of
            None \<Rightarrow> ret 400
          | Some (zone_file, overwrite) \<Rightarrow>
              (\<lambda>w. case import_zone_file E z zone_file overwrite w of
                 (Inl ValueError, w') \<Rightarrow> (Inr 400, w')
               | (Inl e, w') \<Rightarrow> (Inl e, w')
               | (Inr _, w') \<Rightarrow> (Inr 202, w'))))))"


section \<open>The routes\<close>

datatype api_path =
    A_zones "pstr option" | A_import pstr | A_rzones "pstr option" | A_szones "pstr option"
  | A_records model "pstr option" | A_ptrs "pstr option" | A_rnss "pstr option" | A_szone_records

definition api_respond :: "web \<Rightarrow> api \<Rightarrow> ext \<Rightarrow> api_path \<Rightarrow> api_request \<Rightarrow> nat io" where
  "api_respond W A E path req =
     (case path of
        A_zones i \<Rightarrow> DNSZoneViewSet W A E req i
      | A_import i \<Rightarrow> api_import_zone_file W A E req i
      | A_rzones i \<Rightarrow> ReverseDNSZoneViewSet W A E req i
      | A_szones i \<Rightarrow> SecondaryDNSZoneViewSet W A E req i
      | A_records m i \<Rightarrow>
         (case serializer_of m of
            None \<Rightarrow> ret 404
          | Some S \<Rightarrow>
             (case i of
                None \<Rightarrow> if api_verb req = POST then DNSZoneRecord_create W A E S m req
                         else read_rows req (\<lambda>tok. DNSZone_get_object_list W tok (str ''view''))
              | Some j \<Rightarrow>
                 (case api_verb req of
                    GET \<Rightarrow> DNSZoneRecord_retrieve W E m req j
                  | POST \<Rightarrow> ret 405
                  | DELETE \<Rightarrow> DNSZoneRecord_destroy W E m req j
                  | _ \<Rightarrow> DNSZoneRecord_update W A E S m req j)))
      | A_ptrs i \<Rightarrow>
         (case i of
            None \<Rightarrow> if api_verb req = POST then PTRRecord_create A E req
                     else read_rows req (\<lambda>tok. ReverseDNSZone_get_object_list W tok (str ''view''))
          | Some j \<Rightarrow>
             (case api_verb req of
                GET \<Rightarrow> ReverseDNSZoneRecord_object W E ptrs p_id p_zone req j (\<lambda>z r. ret 200)
              | POST \<Rightarrow> ret 405
              | DELETE \<Rightarrow> PTRRecord_destroy W E req j
              | _ \<Rightarrow> PTRRecord_update W A E req j))
      | A_rnss i \<Rightarrow>
         (case i of
            None \<Rightarrow> if api_verb req = POST then ReverseNSRecord_create A E req
                     else read_rows req (\<lambda>tok. ReverseDNSZone_get_object_list W tok (str ''view''))
          | Some j \<Rightarrow>
             (case api_verb req of
                GET \<Rightarrow> ReverseDNSZoneRecord_object W E rnss rn_id rn_zone req j (\<lambda>z r. ret 200)
              | POST \<Rightarrow> ret 405
              | DELETE \<Rightarrow> ReverseNSRecord_destroy W E req j
              | _ \<Rightarrow> ReverseNSRecord_update W A E req j))
      | A_szone_records \<Rightarrow> SecondaryRecord_list W req)"

end
