(* ===== verification/Rest_Props.thy ===== *)
theory Rest_Props
  imports Rest_Api View_Others
begin

text \<open>
  What a request to the REST interface may change. The rules of \<open>View_Ops\<close> and \<open>View_Props\<close> on operations
  that touch the rows of some zones only are applied to the view sets.
\<close>

section \<open>Who may change what\<close>

definition token_edits :: "web \<Rightarrow> api_request \<Rightarrow> world \<Rightarrow> pstr \<Rightarrow> bool" where
  "token_edits W req w zid \<longleftrightarrow> (\<exists>tok. api_token req = Some tok
     \<and> ((\<exists>z \<in> set (dnszones w). z_id z = zid \<and> DNSZone_has_scope W tok z (str ''edit'') = Inr True)
      \<or> (\<exists>z \<in> set (rzones w). rz_id z = zid \<and> ReverseDNSZone_has_scope W tok z (str ''edit'') = Inr True)))"

definition library_edits :: "api \<Rightarrow> api_request \<Rightarrow> world \<Rightarrow> pstr \<Rightarrow> bool" where
  "library_edits A req w zid \<longleftrightarrow>
     (\<exists>z \<in> set (dnszones w). z_id z = zid \<and> kc_allows A (api_token req) (api_verb req) (Some (z_resource_id z)) = Inr True)
     \<or> (\<exists>z \<in> set (rzones w). rz_id z = zid \<and> kc_allows A (api_token req) (api_verb req) (Some (rz_resource_id z)) = Inr True)
     \<or> (\<exists>z \<in> set (szones w). sz_id z = zid \<and> kc_allows A (api_token req) (api_verb req) (Some (sz_resource_id z)) = Inr True)"

text \<open>The zone of a record that is created or moved: Keycloak, asked without a token, lets it be seen.\<close>

definition named_zone :: "api \<Rightarrow> world \<Rightarrow> pstr \<Rightarrow> bool" where
  "named_zone A w zid \<longleftrightarrow>
     (\<exists>z \<in> set (dnszones w). z_id z = zid \<and> scope_without_token A (z_resource_id z) (str ''view-zone'') = Inr True)
     \<or> (\<exists>z \<in> set (rzones w). rz_id z = zid \<and> scope_without_token A (rz_resource_id z) (str ''view-reverse-zone'') = Inr True)"

definition api_allowed :: "web \<Rightarrow> api \<Rightarrow> api_request \<Rightarrow> world \<Rightarrow> pstr set" where
  "api_allowed W A req w = {zid. token_edits W req w zid \<or> library_edits A req w zid
     \<or> (api_token req \<noteq> None \<and> named_zone A w zid)}"

text \<open>What the conversion of submitted fields guarantees.\<close>

definition api_typed :: "api \<Rightarrow> bool" where
  "api_typed A \<longleftrightarrow> (\<forall>m partly r data n l b. row_values A m partly r data = Some (n, l, b) \<longrightarrow> model_of b = m)"

definition within :: "web \<Rightarrow> api \<Rightarrow> ext \<Rightarrow> api_request \<Rightarrow> nat io \<Rightarrow> bool" where
  "within W A E req m \<longleftrightarrow> (\<forall>w. tables_ok E w \<longrightarrow> touches E (api_allowed W A req w) w (snd (m w)))"


section \<open>Rules\<close>

lemma withinI: "(\<And>w. tables_ok E w \<Longrightarrow> builds E (api_allowed W A req w) w (snd (m w))) \<Longrightarrow> within W A E req m"
  by (simp add: within_def builds_touches)

lemma within_silent: "(\<And>w. snd (m w) = w) \<Longrightarrow> within W A E req m"
  by (simp add: within_def tch.R_refl)

lemma within_ret: "within W A E req (ret x)" "within W A E req (throw e)" "within W A E req (lift_res r)"
  "within W A E req (asks_res f)"
  by (rule within_silent, simp add: act_defs)+

text \<open>A step that does not change the world, followed by one that may know what the step has found.\<close>

lemma within_after:
  assumes "\<And>w. snd (m w) = w"
    and "\<And>w a. tables_ok E w \<Longrightarrow> m w = (Inr a, w) \<Longrightarrow> touches E (api_allowed W A req w) w (snd (f a w))"
  shows "within W A E req (bind_act m f)"
  unfolding within_def
proof (intro allI impI)
  fix w
  assume ok: "tables_ok E w"
  obtain x where x: "m w = (x, w)" using assms(1) by (metis prod.collapse)
  then show "touches E (api_allowed W A req w) w (snd (bind_act m f w))"
    using assms(2)[OF ok] tch.R_refl by (cases x) (auto simp: bind_act_def)
qed

lemma within_bind:
  assumes "\<And>w. snd (m w) = w" "\<And>a. within W A E req (f a)"
  shows "within W A E req (bind_act m f)"
  using assms(2) by (intro within_after assms(1)) (simp add: within_def)

lemma within_token: "(\<And>tok. api_token req = Some tok \<Longrightarrow> within W A E req (k tok)) \<Longrightarrow> within W A E req (with_token req k)"
  by (auto simp: with_token_def within_ret split: option.splits)

lemma object_lists_read:
  "snd (DNSZone_get_object_list W tok a w) = w" "snd (ReverseDNSZone_get_object_list W tok a w) = w"
  "snd (SecondaryDNSZone_get_object_list W tok a w) = w"
  by (simp_all add: DNSZone_get_object_list_def ReverseDNSZone_get_object_list_def SecondaryDNSZone_get_object_list_def act_defs
      split: sum.splits)

lemma object_lists_in:
  "DNSZone_get_object_list W tok a w = (Inr zs, w') \<Longrightarrow> set zs \<subseteq> set (dnszones w)"
  "ReverseDNSZone_get_object_list W tok a w = (Inr ys, w') \<Longrightarrow> set ys \<subseteq> set (rzones w)"
  "SecondaryDNSZone_get_object_list W tok a w = (Inr xs, w') \<Longrightarrow> set xs \<subseteq> set (szones w)"
  by (auto simp: DNSZone_get_object_list_def ReverseDNSZone_get_object_list_def SecondaryDNSZone_get_object_list_def act_defs
      split: sum.splits)

lemmas object_lists_mem = object_lists_in[THEN subsetD]

text \<open>A row that the request reaches: its zone is in the list, and the scope has been granted.\<close>

lemma within_row:
  assumes "\<And>tok w. snd (get_zones tok w) = w"
    and "\<And>w tok zs z r. tables_ok E w \<Longrightarrow> api_token req = Some tok \<Longrightarrow> get_zones tok w = (Inr zs, w) \<Longrightarrow> z \<in> set zs
      \<Longrightarrow> r \<in> set (rows w) \<Longrightarrow> zone_of r = zkey z \<Longrightarrow> has_scope tok z (object_scope (api_verb req)) = Inr True
      \<Longrightarrow> touches E (api_allowed W A req w) w (snd (k z r w))"
  shows "within W A E req (with_row E req get_zones zkey has_scope rows key zone_of i k)"
  unfolding with_row_def
proof (intro within_token within_after)
  fix tok w zs
  assume a: "api_token req = Some tok" "tables_ok E w" "get_zones tok w = (Inr zs, w)"
  show "touches E (api_allowed W A req w) w (snd (bind_act (asks rows) (\<lambda>rs. case typed_uuid E i of
         None \<Rightarrow> ret 404
       | Some j \<Rightarrow> (case find (\<lambda>r. key r = j \<and> zone_of r \<in> zkey ` set zs) rs of
             None \<Rightarrow> ret 404
           | Some r \<Rightarrow> (case find (\<lambda>z. zkey z = zone_of r) zs of
                 None \<Rightarrow> throw DoesNotExist
               | Some z \<Rightarrow> bind_act (lift_res (has_scope tok z (object_scope (api_verb req)))) (\<lambda>ok.
                     if ok then k z r else ret 403)))) w))"
    using assms(2)[OF a(2,1,3)] tch.R_refl[of E "api_allowed W A req w" w]
    by (auto simp: bind_act_def asks_def ret_def throw_def lift_res_def find_Some_iff split: option.splits sum.splits)
qed (rule assms(1))

lemma edit_allowed:
  "api_token req = Some tok \<Longrightarrow> z \<in> set (dnszones w) \<Longrightarrow> DNSZone_has_scope W tok z (str ''edit'') = Inr True \<Longrightarrow> z_id z \<in> api_allowed W A req w"
  "api_token req = Some tok \<Longrightarrow> y \<in> set (rzones w) \<Longrightarrow> ReverseDNSZone_has_scope W tok y (str ''edit'') = Inr True \<Longrightarrow> rz_id y \<in> api_allowed W A req w"
  by (auto simp: api_allowed_def token_edits_def)

lemma zone_field_result:
  assumes "zone_field A E data w = Inr (Some z)"
  shows "z \<in> set (dnszones w)" "api_token req \<noteq> None \<Longrightarrow> z_id z \<in> api_allowed W A req w"
proof -
  have "z \<in> set (dnszones w) \<and> scope_without_token A (z_resource_id z) (str ''view-zone'') = Inr True"
    using assms by (auto simp: zone_field_def PermissionPrimaryKeyRelatedField_def res_simps find_Some_iff split: option.splits if_splits)
  then show "z \<in> set (dnszones w)" "api_token req \<noteq> None \<Longrightarrow> z_id z \<in> api_allowed W A req w"
    by (auto simp: api_allowed_def named_zone_def)
qed

lemma rzone_field_result:
  assumes "rzone_field A E data w = Inr (Some z)"
  shows "z \<in> set (rzones w)" "api_token req \<noteq> None \<Longrightarrow> rz_id z \<in> api_allowed W A req w"
proof -
  have "z \<in> set (rzones w) \<and> scope_without_token A (rz_resource_id z) (str ''view-reverse-zone'') = Inr True"
    using assms by (auto simp: rzone_field_def PermissionPrimaryKeyRelatedField_def res_simps find_Some_iff split: option.splits if_splits)
  then show "z \<in> set (rzones w)" "api_token req \<noteq> None \<Longrightarrow> rz_id z \<in> api_allowed W A req w"
    by (auto simp: api_allowed_def named_zone_def)
qed


section \<open>The view sets of records\<close>

lemma record_create_within:
  assumes "inj (uuid E)"
  shows "within W A E req (DNSZoneRecord_create W A E S m req)"
  unfolding DNSZoneRecord_create_def Let_def
proof (intro within_token within_after)
  fix tok w zone
  assume a: "api_token req = Some tok" "tables_ok E w"
    "asks_res (zone_field A E (taken S False (api_data req))) w = (Inr zone, w)"
  let ?Z = "api_allowed W A req w"
  show "touches E ?Z w (snd ((case zone of
         None \<Rightarrow> ret 400
       | Some z \<Rightarrow> (case row_values A m False None (taken S False (api_data req)) of
             None \<Rightarrow> ret 400
           | Some (n, l, b) \<Rightarrow> bind_act (new_id E) (\<lambda>i. bind_act (asks (\<lambda>w. token_hex W (next_uuid w))) (\<lambda>pw.
                 seq (zrec_save E z (if m = M_DynamicAddress
                        then set_password pw \<lparr>r_id = i, r_zone = z_id z, record_name = n, ttl = l, body = form_body None b\<rparr>
                        else \<lparr>r_id = i, r_zone = z_id z, record_name = n, ttl = l, body = form_body None b\<rparr>)) (ret 201))))) w))"
  proof (cases zone)
    case (Some z)
    then have f: "zone_field A E (taken S False (api_data req)) w = Inr (Some z)" using a(3) by (simp add: asks_res_def)
    have z: "held E ?Z z w" using zone_field_result[OF f] a(1,2) by (intro held_row) auto
    have zZ: "z_id z \<in> ?Z" using zone_field_result(2)[OF f] a(1) by simp
    have save: "obeys (\<lambda>s. held E ?Z z s \<and> drawn E (r_id r) s) (builds E ?Z) (seq (zrec_save E z r) (ret 201))"
      if "r_zone r = z_id z" for r
      by (rule obeys_pre[OF touch_finish[OF rt.stable_owned touch_zrec_save]]) (use that zZ held_drawn(1) in auto)
    have run: "obeys (held E ?Z z) (builds E ?Z) (bind_act (new_id E) (\<lambda>i. bind_act (asks (\<lambda>w. token_hex W (next_uuid w))) (\<lambda>pw.
        seq (zrec_save E z (if m = M_DynamicAddress
               then set_password pw \<lparr>r_id = i, r_zone = z_id z, record_name = n, ttl = l, body = form_body None b\<rparr>
               else \<lparr>r_id = i, r_zone = z_id z, record_name = n, ttl = l, body = form_body None b\<rparr>)) (ret 201))))" for n l b
    proof (intro touch_new_row[OF assms stable_held(1)] touch_asks)
      fix i pw
      let ?r = "if m = M_DynamicAddress
               then set_password pw \<lparr>r_id = i, r_zone = z_id z, record_name = n, ttl = l, body = form_body None b\<rparr>
               else \<lparr>r_id = i, r_zone = z_id z, record_name = n, ttl = l, body = form_body None b\<rparr>"
      have "r_id ?r = i" "r_zone ?r = z_id z" by (simp_all add: set_password_keeps)
      then show "obeys (\<lambda>s. held E ?Z z s \<and> drawn E i s) (builds E ?Z) (seq (zrec_save E z ?r) (ret 201))"
        using save[of ?r] by simp
    qed
    show ?thesis
      using Some builds_touches[OF obeys_at[OF run z]] tch.R_refl by (auto simp: ret_def split: option.splits prod.splits)
  qed (simp add: ret_def tch.R_refl)
qed (simp add: asks_res_def)


lemma record_update_within:
  assumes "api_typed A" "api_verb req \<in> {PUT, PATCH}"
  shows "within W A E req (DNSZoneRecord_update W A E S m req i)"
  unfolding DNSZoneRecord_update_def DNSZoneRecord_object_def Let_def
proof (rule within_row[OF object_lists_read(1)])
  fix w tok zs z r
  assume a: "tables_ok E w" "api_token req = Some tok"
    "DNSZone_get_object_list W tok (str ''view'') w = (Inr zs, w)" "z \<in> set zs" "r \<in> set (objects m w)" "r_zone r = z_id z"
    "DNSZone_has_scope W tok z (object_scope (api_verb req)) = Inr True"
  let ?Z = "api_allowed W A req w" and ?d = "taken S True (api_data req)" and ?p = "api_verb req = PATCH"
  have z: "z \<in> set (dnszones w)" using object_lists_in(1)[OF a(3)] a(4) by auto
  have Z: "z_id z \<in> ?Z" using edit_allowed(1)[OF a(2) z] a(7) assms(2) by auto
  have r: "r \<in> set (zrecs w)" using a(5) by (simp add: objects_def)
  show "touches E ?Z w (snd (bind_act (asks_res (updated_zone A E S ?p ?d z)) (\<lambda>zone. case zone of
         None \<Rightarrow> ret (400 :: nat)
       | Some z' \<Rightarrow> (case row_values A m ?p (Some r) ?d of
             None \<Rightarrow> ret 400
           | Some (n, l, b) \<Rightarrow> seq (save_zone_now E z) (seq (zrec_save E (lowered E z')
                 (r\<lparr>r_zone := z_id z', record_name := n, ttl := l, body := form_body (Some (body r)) b\<rparr>)) (ret 200)))) w))"
  proof (cases "updated_zone A E S ?p ?d z w")
    case (Inr zone)
    show ?thesis
    proof (cases zone)
      case (Some z')
      have z': "z' \<in> set (dnszones w) \<and> z_id z' \<in> ?Z"
        using Inr Some zone_field_result(1)[of A E ?d w z'] zone_field_result(2)[of A E ?d w z' req W] z Z a(2) by (auto simp: updated_zone_def split: if_splits)
      have "builds E ?Z w (snd (seq (save_zone_now E z) (seq (zrec_save E (lowered E z')
                 (r\<lparr>r_zone := z_id z', record_name := n, ttl := l, body := form_body (Some (body r)) b\<rparr>)) (ret (200 :: nat))) w))"
        if "model_of b = m" for n l b
      proof (rule obeys_at[OF touch_save_both(2)[OF Z]])
        let ?r = "r\<lparr>r_zone := z_id z', record_name := n, ttl := l, body := form_body (Some (body r)) b\<rparr>"
        have "pk ?r = pk r" using a(5) that by (cases "(Some (body r), b)" rule: form_body.cases) (auto simp: pk_def objects_def)
        moreover have "rt.owned E ?Z r w" using rt.owned_row[OF a(1) r] a(6) Z by simp
        moreover have "z_id z' \<in> zone_ids w" using z' by (simp add: zone_ids_def)
        ultimately have "rt.owned E ?Z ?r w" by (simp add: rt.owned_def)
        then show "held E ?Z z w \<and> rt.owned E ?Z ?r w" using held_row(1)[OF a(1) z Z] by simp
      qed (use z' in simp)
      then show ?thesis
        using Inr Some assms(1) builds_touches tch.R_refl
        by (auto simp: api_typed_def bind_act_def asks_res_def ret_def split: option.splits)
    qed (use Inr in \<open>simp add: bind_act_def asks_res_def ret_def tch.R_refl\<close>)
  qed (simp add: bind_act_def asks_res_def tch.R_refl)
qed

lemma record_destroy_within: "api_verb req = DELETE \<Longrightarrow> within W A E req (DNSZoneRecord_destroy W E m req i)"
  unfolding DNSZoneRecord_destroy_def DNSZoneRecord_object_def
proof (rule within_row[OF object_lists_read(1)], rule builds_touches)
  fix w tok zs z r
  assume verb: "api_verb req = DELETE" and a: "tables_ok E w" "api_token req = Some tok"
    "DNSZone_get_object_list W tok (str ''view'') w = (Inr zs, w)" "z \<in> set zs" "r \<in> set (objects m w)" "r_zone r = z_id z"
    "DNSZone_has_scope W tok z (object_scope (api_verb req)) = Inr True"
  have z: "z \<in> set (dnszones w)" using object_lists_in(1)[OF a(3)] a(4) by auto
  then have "z_id z \<in> api_allowed W A req w" using edit_allowed(1)[OF a(2) z] a(7) verb by auto
  then have "rt.owned E (api_allowed W A req w) r w" using rt.owned_row[OF a(1)] a(5,6) by (simp add: objects_def)
  then show "builds E (api_allowed W A req w) w (snd (seq (zrec_delete E r) (ret 204) w))"
    by (rule obeys_at[OF touch_finish[OF rt.stable_owned touch_zrec_delete]])
qed

lemma ptr_rns_create_within:
  assumes "inj (uuid E)"
  shows "within W A E req (PTRRecord_create A E req)" "within W A E req (ReverseNSRecord_create A E req)"
proof -
  have ptr: "obeys (rheld E Z z) (builds E Z) (bind_act (new_id E) (\<lambda>i.
      seq (PTRRecord_save E \<lparr>p_id = i, p_zone = rz_id z, p_address = a, p_ttl = l, pointer = p\<rparr>) (ret c)))"
    and rns: "obeys (rheld E Z z) (builds E Z) (bind_act (new_id E) (\<lambda>i.
      seq (ReverseNSRecord_save E \<lparr>rn_id = i, rn_zone = rz_id z, rn_address = a, rn_ttl = l, rn_prefix = k, rn_nameserver = p\<rparr>) (ret c)))"
    if "rz_id z \<in> Z" for Z z a l p k and c :: nat
    using that
    by (intro touch_new_row[OF assms stable_held(2)] obeys_pre[OF touch_finish[OF pt.stable_owned touch_ptr_save]]
        obeys_pre[OF touch_finish[OF rnt.stable_owned touch_rns_save]]; auto intro: rheld_drawn)+
  have zone: "rheld E (api_allowed W A req w) z w \<and> rz_id z \<in> api_allowed W A req w"
    if "tables_ok E w" "api_token req = Some tok" "rzone_field A E d w = Inr (Some z)" for w tok d z
    using rzone_field_result[OF that(3)] that(1,2) by (auto intro: held_row)
  show "within W A E req (PTRRecord_create A E req)"
    unfolding PTRRecord_create_def Let_def
    by (intro within_token within_after)
      (auto simp: asks_res_def ret_def tch.R_refl intro!: builds_touches obeys_at[OF ptr] dest: zone split: option.splits prod.splits)
  show "within W A E req (ReverseNSRecord_create A E req)"
    unfolding ReverseNSRecord_create_def Let_def
    by (intro within_token within_after)
      (auto simp: asks_res_def ret_def tch.R_refl intro!: builds_touches obeys_at[OF rns] dest: zone split: option.splits prod.splits)
qed

text \<open>A row of a reverse zone whose zone the token may edit: the zone is in hand.\<close>

lemma reverse_row_within:
  assumes "api_verb req \<in> {PUT, PATCH, DELETE}"
    and "\<And>Z w z r. tables_ok E w \<Longrightarrow> rheld E Z z w \<Longrightarrow> rz_id z \<in> Z \<Longrightarrow> r \<in> set (rows w) \<Longrightarrow> zone_of r = rz_id z
      \<Longrightarrow> builds E Z w (snd (k z r w))"
  shows "within W A E req (ReverseDNSZoneRecord_object W E rows key zone_of req i k)"
  unfolding ReverseDNSZoneRecord_object_def
proof (rule within_row[OF object_lists_read(2)], rule builds_touches)
  fix w tok zs z r
  assume a: "tables_ok E w" "api_token req = Some tok"
    "ReverseDNSZone_get_object_list W tok (str ''view'') w = (Inr zs, w)" "z \<in> set zs" "r \<in> set (rows w)" "zone_of r = rz_id z"
    "ReverseDNSZone_has_scope W tok z (object_scope (api_verb req)) = Inr True"
  have z: "z \<in> set (rzones w)" using object_lists_in(2)[OF a(3)] a(4) by auto
  then have Z: "rz_id z \<in> api_allowed W A req w" using edit_allowed(2)[OF a(2) z] a(7) assms(1) by auto
  show "builds E (api_allowed W A req w) w (snd (k z r w))"
    by (rule assms(2)[OF a(1) held_row(2)[OF a(1) z Z] Z a(5,6)])
qed

lemma reverse_update_within:
  assumes "api_verb req \<in> {PUT, PATCH}"
  shows "within W A E req (PTRRecord_update W A E req i)" "within W A E req (ReverseNSRecord_update W A E req i)"
proof -
  have verb: "api_verb req \<in> {PUT, PATCH, DELETE}" using assms by auto
  have ptr: "obeys (\<lambda>s. rheld E Z z s \<and> (tables_ok E s \<and> r \<in> set (ptrs s))) (builds E Z)
      (seq (save_rzone_now E z) (seq (PTRRecord_save E (r\<lparr>p_address := a, p_ttl := l, pointer := p\<rparr>)) (ret (200 :: nat))))"
    if "rz_id z \<in> Z" "p_zone r = rz_id z" for Z z r a l p
    by (rule touch_rrow(1)[OF touch_ptr_save pt.stable_owned]) (use that in \<open>auto intro: pt.owned_edit\<close>)
  have rns: "obeys (\<lambda>s. rheld E Z z s \<and> (tables_ok E s \<and> r \<in> set (rnss s))) (builds E Z)
      (seq (save_rzone_now E z) (seq (ReverseNSRecord_save E (r\<lparr>rn_address := a, rn_ttl := l, rn_prefix := p, rn_nameserver := n\<rparr>)) (ret (200 :: nat))))"
    if "rz_id z \<in> Z" "rn_zone r = rz_id z" for Z z r a l p n
    by (rule touch_rrow(1)[OF touch_rns_save rnt.stable_owned]) (use that in \<open>auto intro: rnt.owned_edit\<close>)
  show "within W A E req (PTRRecord_update W A E req i)"
    unfolding PTRRecord_update_def
    by (rule reverse_row_within[OF verb]) (auto simp: ret_def bld.R_refl split: option.splits intro!: obeys_at[OF ptr])
  show "within W A E req (ReverseNSRecord_update W A E req i)"
    unfolding ReverseNSRecord_update_def
    by (rule reverse_row_within[OF verb]) (auto simp: ret_def bld.R_refl split: option.splits intro!: obeys_at[OF rns])
qed

lemma reverse_destroy_within:
  assumes "api_verb req = DELETE"
  shows "within W A E req (PTRRecord_destroy W E req i)" "within W A E req (ReverseNSRecord_destroy W E req i)"
  unfolding PTRRecord_destroy_def ReverseNSRecord_destroy_def
  by (rule reverse_row_within, use assms in simp,
      rule obeys_at[OF touch_finish[OF pt.stable_owned touch_reverse_deletes(1)]]
        obeys_at[OF touch_finish[OF rnt.stable_owned touch_reverse_deletes(2)]], rule pt.owned_row rnt.owned_row, auto)+


section \<open>The view sets of zones\<close>

lemma within_kc: "within W A E req k \<Longrightarrow> within W A E req (kc_check A req rid k)"
  unfolding kc_check_def by (rule within_bind) (auto simp: lift_res_def within_ret)

lemma zone_object_within:
  assumes "\<And>tok w. snd (get_zones tok w) = w"
    and "\<And>w tok zs z. tables_ok E w \<Longrightarrow> get_zones tok w = (Inr zs, w) \<Longrightarrow> z \<in> set zs
      \<Longrightarrow> kc_allows A (api_token req) (api_verb req) (Some (resource z)) = Inr True
      \<Longrightarrow> touches E (api_allowed W A req w) w (snd (k z w))"
  shows "within W A E req (zone_object A E req get_zones key resource i k)"
  unfolding zone_object_def
proof (intro within_kc within_token within_after)
  fix tok w zs
  assume a: "tables_ok E w" "get_zones tok w = (Inr zs, w)"
  show "touches E (api_allowed W A req w) w (snd ((case typed_uuid E i of
         None \<Rightarrow> ret 404
       | Some j \<Rightarrow> (case find (\<lambda>z. key z = j) zs of
             None \<Rightarrow> ret 404
           | Some z \<Rightarrow> kc_check A req (Some (resource z)) (k z))) w))"
    using assms(2)[OF a] tch.R_refl[of E "api_allowed W A req w" w]
    by (auto simp: kc_check_def bind_act_def ret_def lift_res_def find_Some_iff split: option.splits sum.splits)
qed (rule assms(1))

lemma library_allowed:
  "z \<in> set (dnszones w) \<Longrightarrow> kc_allows A (api_token req) (api_verb req) (Some (z_resource_id z)) = Inr True \<Longrightarrow> z_id z \<in> api_allowed W A req w"
  "y \<in> set (rzones w) \<Longrightarrow> kc_allows A (api_token req) (api_verb req) (Some (rz_resource_id y)) = Inr True \<Longrightarrow> rz_id y \<in> api_allowed W A req w"
  "x \<in> set (szones w) \<Longrightarrow> kc_allows A (api_token req) (api_verb req) (Some (sz_resource_id x)) = Inr True \<Longrightarrow> sz_id x \<in> api_allowed W A req w"
  by (auto simp: api_allowed_def library_edits_def)

lemma zone_perform_create_within: "within W A E req (zone_perform_create A req)"
  unfolding zone_perform_create_def by (rule within_kc) (simp add: within_ret split: option.split)

lemma zone_lists_within:
  assumes "\<And>tok w. snd (list tok w) = w" "\<And>zs. within W A E req (f zs)"
  shows "within W A E req (kc_check A req None (with_token req (\<lambda>tok. bind_act (list tok) f)))"
  using assms by (intro within_kc within_token within_bind)

lemma changes_pure:
  assumes "obeys P (builds E Z) m" "stable E Z P"
  shows "obeys P (builds E Z) (seq m (lift_res r))" "obeys P (builds E Z) (seq m (asks_res f))"
  by (intro touch_seq assms bld.obeys_pure)+

lemma zone_sets_within:
  "within W A E req (DNSZoneViewSet W A E req i)" "within W A E req (ReverseDNSZoneViewSet W A E req i)"
proof -
  have z: "touches E (api_allowed W A req w) w (snd (seq (save_zone_now E z) (lift_res (x :: nat res)) w))"
    if "tables_ok E w" "z \<in> set (dnszones w)" "kc_allows A (api_token req) (api_verb req) (Some (z_resource_id z)) = Inr True" for w z x
    by (rule builds_touches[OF obeys_at[OF changes_pure(1)[OF held_save_now(1) stable_held(1)] held_row(1)]])
      (use that library_allowed(1) in auto)
  have y: "touches E (api_allowed W A req w) w (snd (seq (save_rzone_now E y) (lift_res (x :: nat res)) w))"
    if "tables_ok E w" "y \<in> set (rzones w)" "kc_allows A (api_token req) (api_verb req) (Some (rz_resource_id y)) = Inr True" for w y x
    by (rule builds_touches[OF obeys_at[OF changes_pure(1)[OF held_save_now(2) stable_held(2)] held_row(2)]])
      (use that library_allowed(2) in auto)
  show "within W A E req (DNSZoneViewSet W A E req i)"
    unfolding DNSZoneViewSet_def Let_def zone_perform_destroy_def
    by (cases i)
      (auto intro!: zone_perform_create_within zone_lists_within zone_object_within object_lists_read within_ret z
        simp: ret_def throw_def lift_res_def tch.R_refl dest: object_lists_mem split: verb.split)
  show "within W A E req (ReverseDNSZoneViewSet W A E req i)"
    unfolding ReverseDNSZoneViewSet_def Let_def zone_perform_destroy_def
    by (cases i)
      (auto intro!: zone_perform_create_within zone_lists_within zone_object_within object_lists_read within_ret y
        simp: ret_def throw_def lift_res_def tch.R_refl dest: object_lists_mem split: verb.split)
qed

lemma secondary_set_within: "within W A E req (SecondaryDNSZoneViewSet W A E req i)"
proof -
  have x: "touches E (api_allowed W A req w) w (snd (seq (SecondaryDNSZone_save E (x\<lparr>sz_primary := p\<rparr>)) (asks_res f :: nat io) w))"
    if "tables_ok E w" "x \<in> set (szones w)" "kc_allows A (api_token req) (api_verb req) (Some (sz_resource_id x)) = Inr True" for w x p f
  proof -
    have Z: "sz_id x \<in> api_allowed W A req w" using that library_allowed(3) by blast
    have "szt.owned E (api_allowed W A req w) (x\<lparr>sz_primary := p\<rparr>) w"
      using szt.owned_row[OF that(1,2) Z] by (simp add: szt.owned_def)
    then show ?thesis
      by (rule builds_touches[OF obeys_at[OF changes_pure(2)[OF touch_szone_save szt.stable_owned]], rotated]) (use Z in simp)
  qed
  show ?thesis
    unfolding SecondaryDNSZoneViewSet_def Let_def zone_perform_destroy_def
    by (cases i)
      (auto intro!: zone_perform_create_within zone_lists_within zone_object_within object_lists_read within_ret x
        simp: ret_def throw_def asks_res_def tch.R_refl dest: object_lists_mem split: verb.split option.split)
qed

lemma api_import_within:
  assumes "inj (uuid E)"
  shows "within W A E req (api_import_zone_file W A E req i)"
  unfolding api_import_zone_file_def
proof (intro within_kc within_token within_after)
  fix tok w z
  assume tok: "api_token req = Some tok" and ok: "tables_ok E w" and get: "get_or_404 E z_id dnszones i w = (Inr z, w)"
  have z: "z \<in> set (dnszones w)" using get_or_404_cases[OF get] by auto
  have "obeys (db_ok E) (zone_step E (z_id z)) (\<lambda>w. case import_zone_file E z data ow w of
       (Inl ValueError, w') \<Rightarrow> (Inr (400 :: nat), w') | (Inl e, w') \<Rightarrow> (Inl e, w') | (Inr _, w') \<Rightarrow> (Inr 202, w'))" for data ow
    by (rule obeys_catch[OF import_zone_file_step[OF assms, of z data ow]]) (auto split: prod.split sum.split exn.split)
  then have run: "obeys (db_ok E) (zone_step E (z_id z)) (case import_values A (api_data req) of None \<Rightarrow> ret 400
      | Some (data, ow) \<Rightarrow> (\<lambda>w. case import_zone_file E z data ow w of
       (Inl ValueError, w') \<Rightarrow> (Inr (400 :: nat), w') | (Inl e, w') \<Rightarrow> (Inl e, w') | (Inr _, w') \<Rightarrow> (Inr 202, w')))"
    by (auto intro: zstep.obeys_pure split: option.split)
  have "builds E (api_allowed W A req w) w (snd ((case import_values A (api_data req) of None \<Rightarrow> ret 400
      | Some (data, ow) \<Rightarrow> (\<lambda>w. case import_zone_file E z data ow w of
       (Inl ValueError, w') \<Rightarrow> (Inr (400 :: nat), w') | (Inl e, w') \<Rightarrow> (Inl e, w') | (Inr _, w') \<Rightarrow> (Inr 202, w'))) w))"
    if "DNSZone_has_scope W tok z (str ''edit'') = Inr True"
    by (rule zone_step_builds[OF ok obeys_at[OF run tables_db_ok[OF ok]] edit_allowed(1)[OF tok z that]])
      (use z in \<open>simp add: zone_ids_def\<close>)
  then show "touches E (api_allowed W A req w) w (snd (seq (require (DNSZone_has_scope W tok z (str ''edit'')))
      (case import_values A (api_data req) of None \<Rightarrow> ret 400
      | Some (data, ow) \<Rightarrow> (\<lambda>w. case import_zone_file E z data ow w of
       (Inl ValueError, w') \<Rightarrow> (Inr (400 :: nat), w') | (Inl e, w') \<Rightarrow> (Inl e, w') | (Inr _, w') \<Rightarrow> (Inr 202, w'))) w))"
    by (cases "DNSZone_has_scope W tok z (str ''edit'')")
      (auto simp: seq_def bind_act_def require_def lift_res_def ret_def throw_def tch.R_refl intro: builds_touches)
qed (simp add: get_or_404_def act_defs split: option.split)


section \<open>All requests\<close>

lemma read_rows_within: "(\<And>tok w. snd (list tok w) = w) \<Longrightarrow> within W A E req (read_rows req list)"
  unfolding read_rows_def by (intro within_token) (auto intro!: within_bind within_ret)

lemma retrieve_within:
  "within W A E req (DNSZoneRecord_retrieve W E m req i)"
  "within W A E req (ReverseDNSZoneRecord_object W E rows key zone_of req i (\<lambda>z r. ret 200))"
  unfolding DNSZoneRecord_retrieve_def DNSZoneRecord_object_def ReverseDNSZoneRecord_object_def
  by (rule within_row, rule object_lists_read, simp add: ret_def tch.R_refl)+

lemma secondary_records_within: "within W A E req (SecondaryRecord_list W req)"
  unfolding SecondaryRecord_list_def by (auto intro!: within_token within_bind within_ret object_lists_read)

lemma api_within:
  assumes "inj (uuid E)" "api_typed A"
  shows "within W A E req (api_respond W A E path req)"
proof -
  have "within W A E req (api_respond W A E (A_records m i) req)" for m i
    using record_create_within[OF assms(1)] record_update_within[OF assms(2)] record_destroy_within
    by (auto simp: api_respond_def intro!: within_ret read_rows_within object_lists_read retrieve_within
        split: option.split verb.split)
  moreover have "within W A E req (api_respond W A E (A_ptrs i) req)" "within W A E req (api_respond W A E (A_rnss i) req)" for i
    using ptr_rns_create_within[OF assms(1)] reverse_update_within reverse_destroy_within
    by (auto simp: api_respond_def intro!: within_ret read_rows_within object_lists_read retrieve_within
        split: option.split verb.split)
  ultimately show ?thesis
    by (cases path) (simp_all add: api_respond_def zone_sets_within secondary_set_within api_import_within[OF assms(1)]
        secondary_records_within)
qed

lemma api_respond_keeps:
  assumes "inj (uuid E)" "api_typed A" "tables_ok E w"
  shows "tables_ok E (snd (api_respond W A E path req w))"
    "zid \<notin> api_allowed W A req w \<Longrightarrow> same_zone zid w (snd (api_respond W A E path req w))"
  using api_within[OF assms(1,2), of W req path] assms(3) by (simp_all add: within_def touches_def)


section \<open>Where the interface departs from its permissions\<close>

lemma asks_unused: "bind_act (asks f) (\<lambda>_. m) = m"
  by (simp add: fun_eq_iff bind_act_def asks_def)

text \<open>Creating a record asks neither the views' permissions nor the token: all tokens give the same result.\<close>

lemma create_ignores_caller:
  assumes "m \<noteq> M_DynamicAddress"
  shows "DNSZoneRecord_create W A E S m (req\<lparr>api_token := Some tok\<rparr>) w
    = DNSZoneRecord_create W' A E S m (req\<lparr>api_token := Some tok'\<rparr>) w"
  unfolding DNSZoneRecord_create_def with_token_def Let_def if_not_P[OF assms] asks_unused by simp

text \<open>No zone can be created, and none deleted: the first succeeds for no request, the second raises.\<close>

lemma zone_creation_fails: "zone_perform_create A req w = (x, w') \<Longrightarrow> w' = w \<and> x \<noteq> Inr 201"
  by (auto simp: zone_perform_create_def kc_check_def act_defs split: sum.splits option.splits if_splits)

text \<open>The zone of a LOC record is not among the fields that only a creation may set.\<close>

lemma loc_zone_writable:
  "writable LOCRecordSerializer True (str ''zone'')" "\<not> writable MXRecordSerializer True (str ''zone'')"
  by (simp_all add: writable_def LOCRecordSerializer_def MXRecordSerializer_def names_def)


section \<open>A sample\<close>

definition sample_api :: api where
  "sample_api = \<lparr>row_values = (\<lambda>m partly r data. sample_record_fields m data), ptr_values = (\<lambda>partly r data. None),
     rns_values = (\<lambda>partly r data. None), zone_values = (\<lambda>data. Some (str ''new.org'')), primary_value = (\<lambda>z partly data. None),
     import_values = (\<lambda>data. None), kc_allows = (\<lambda>tok verb rid. Inr (tok = Some (str ''alice''))),
     scope_without_token = (\<lambda>rid scope. Inr True)\<rparr>"

lemma sample_api_typed: "api_typed sample_api"
  by (auto simp: api_typed_def sample_api_def sample_record_fields_def split: if_splits)

end
