(* ===== verification/Json_Http.thy ===== *)
theory Json_Http
  imports Zone_Views
begin

text \<open>
  What the views for GitHub and Google share: JSON values with the operations that the views apply to them,
  requests to a REST service, times of expiry, the fields of plain forms, and the state of a login that
  leads over another site. The argument \<open>R :: remote\<close> stands for the settings and for code outside of the
  repository: the JSON parser (for numbers without a fraction), \<^verbatim>\<open>str\<close> of a JSON value, \<^verbatim>\<open>dateutil\<close>, and the
  signed token of the application.
\<close>

section \<open>JSON\<close>

datatype json = JNull | JBool bool | JInt int | JStr pstr | JList "json list" | JObj "(pstr \<times> json) list"

record remote =
  parse_json :: "pstr \<Rightarrow> json res"
  json_loads :: "bytes \<Rightarrow> json res"
  py_str :: "json \<Rightarrow> pstr"
  isoparse :: "json \<Rightarrow> nat res"
  app_jwt :: "nat \<Rightarrow> pstr"
  base_url :: pstr
  github_app :: pstr
  webhook_secret :: bytes
  github_client :: "pstr \<times> pstr"
  google_client :: "pstr \<times> pstr"

fun jtruthy :: "json \<Rightarrow> bool" where
  "jtruthy JNull = False"
| "jtruthy (JBool b) = b"
| "jtruthy (JInt i) = (i \<noteq> 0)"
| "jtruthy (JStr s) = (s \<noteq> [])"
| "jtruthy (JList xs) = (xs \<noteq> [])"
| "jtruthy (JObj kvs) = (kvs \<noteq> [])"

text \<open>\<^verbatim>\<open>j.get(key)\<close>, \<^verbatim>\<open>j[key]\<close>, \<^verbatim>\<open>key in j\<close>, \<^verbatim>\<open>int(j)\<close>, and the elements that a loop over \<open>j\<close> sees.\<close>

fun jget :: "json \<Rightarrow> string \<Rightarrow> json res" where
  "jget (JObj kvs) key = Inr (case map_of kvs (str key) of None \<Rightarrow> JNull | Some v \<Rightarrow> v)"
| "jget j key = Inl AttributeError"

fun jsub :: "json \<Rightarrow> string \<Rightarrow> json res" where
  "jsub (JObj kvs) key = (case map_of kvs (str key) of None \<Rightarrow> Inl KeyError | Some v \<Rightarrow> Inr v)"
| "jsub j key = Inl TypeError"

fun jin :: "string \<Rightarrow> json \<Rightarrow> bool res" where
  "jin key (JObj kvs) = Inr (map_of kvs (str key) \<noteq> None)"
| "jin key (JList xs) = Inr (JStr (str key) \<in> set xs)"
| "jin key (JStr s) = Inr (contains (str key) s)"
| "jin key j = Inl TypeError"

fun jint :: "json \<Rightarrow> int res" where
  "jint (JInt i) = Inr i"
| "jint (JBool b) = Inr (if b then 1 else 0)"
| "jint (JStr s) = py_int s"
| "jint j = Inl TypeError"

fun jitems :: "json \<Rightarrow> json list res" where
  "jitems (JList xs) = Inr xs"
| "jitems (JObj kvs) = Inr (map (\<lambda>kv. JStr (fst kv)) kvs)"
| "jitems (JStr s) = Inr (map (\<lambda>c. JStr [c]) s)"
| "jitems j = Inl TypeError"

fun jeq_int :: "json \<Rightarrow> int \<Rightarrow> bool" where
  "jeq_int (JInt k) i = (k = i)"
| "jeq_int (JBool b) i = ((if b then 1 else 0) = i)"
| "jeq_int j i = False"

text \<open>A text column that is given a JSON value, and such a column in an f-string.\<close>

definition jtext :: "remote \<Rightarrow> json \<Rightarrow> pstr option" where
  "jtext R j = (case j of JNull \<Rightarrow> None | JStr s \<Rightarrow> Some s | v \<Rightarrow> Some (py_str R v))"

definition token_text :: "pstr option \<Rightarrow> pstr" where
  "token_text t = (case t of None \<Rightarrow> str ''None'' | Some s \<Rightarrow> s)"


section \<open>Requests\<close>

definition rest_call :: "ext \<Rightarrow> string \<Rightarrow> pstr \<Rightarrow> pstr \<Rightarrow> (pstr \<times> pstr) list \<Rightarrow> http_resp io" where
  "rest_call E verb url auth params = http_call E (RestCall (str verb) url auth params)"

definition json_of :: "remote \<Rightarrow> http_resp \<Rightarrow> json res" where
  "json_of R r = parse_json R (resp_text r)"

text \<open>\<^verbatim>\<open>now + timedelta(seconds=int(...))\<close>, where given. Dates before 1970 count as 1970; a date outside of the
  years 1 to 9999 overflows. The clock counts microseconds.\<close>

definition expires_in :: "nat \<Rightarrow> json \<Rightarrow> nat option res" where
  "expires_in t j =
     (if \<not> jtruthy j then Inr None
      else bind_res (jint j) (\<lambda>i.
        let e = int t + 1000000 * i in
        if i = 0 then Inr None
        else if e < - 62135596800000000 \<or> 253402300799999999 < e then Inl OverflowError
        else Inr (Some (nat e))))"

text \<open>An access token that may be used at the time \<open>t\<close>.\<close>

definition live_token :: "pstr option \<Rightarrow> nat option \<Rightarrow> nat \<Rightarrow> pstr option" where
  "live_token tok expires t =
     (case truthy tok of
        None \<Rightarrow> None
      | Some s \<Rightarrow> (case expires of None \<Rightarrow> Some s | Some e \<Rightarrow> if t < e then Some s else None))"


section \<open>Operations that may not return\<close>

text \<open>None stands for an operation that runs for ever.\<close>

type_synonym 'a pio = "world \<Rightarrow> ('a res \<times> world) option"

definition returning :: "'a io \<Rightarrow> 'a pio" where
  "returning m w = Some (m w)"

definition bind_pio :: "'a pio \<Rightarrow> ('a \<Rightarrow> 'b pio) \<Rightarrow> 'b pio" where
  "bind_pio m f w =
     (case m w of
        None \<Rightarrow> None
      | Some (Inl e, w') \<Rightarrow> Some (Inl e, w')
      | Some (Inr a, w') \<Rightarrow> f a w')"


section \<open>Plain forms\<close>

definition char_field :: "nat \<Rightarrow> fields \<Rightarrow> string \<Rightarrow> pstr option" where
  "char_field limit post name =
     (case map_of post (str name) of
        None \<Rightarrow> None
      | Some v \<Rightarrow> (let s = py_strip v in if s = [] \<or> limit < length s \<or> 0 \<in> set s then None else Some s))"

definition choice_field :: "pstr list \<Rightarrow> fields \<Rightarrow> string \<Rightarrow> pstr option" where
  "choice_field choices post name =
     (case map_of post (str name) of
        None \<Rightarrow> None
      | Some v \<Rightarrow> if v \<noteq> [] \<and> v \<in> set choices then Some v else None)"

definition GithubPagesForm :: "fields \<Rightarrow> pstr option" where
  "GithubPagesForm post = char_field 255 post ''record_name''"

definition GithubPagesSetupForm :: "pstr list \<Rightarrow> fields \<Rightarrow> (pstr \<times> pstr \<times> pstr) option" where
  "GithubPagesSetupForm branches post =
     (case (char_field 255 post ''record_name'', choice_field [str ''/'', str ''/docs''] post ''source_path'',
            choice_field branches post ''source_branch'') of
        (Some n, Some p, Some b) \<Rightarrow> Some (n, p, b)
      | _ \<Rightarrow> None)"


section \<open>Logins that lead over another site\<close>

text \<open>The row of the state whose identifier the session has, in the table that belongs to the site. Primary keys
  are taken from the counter of identifiers.\<close>

definition session_state :: "request \<Rightarrow> (session \<Rightarrow> nat option) \<Rightarrow> (world \<Rightarrow> oauth_state list) \<Rightarrow> oauth_state option io" where
  "session_state req key rows = asks (\<lambda>w.
     case key (get_session req w) of None \<Rightarrow> None | Some i \<Rightarrow> find (\<lambda>s. st_id s = i) (rows w))"

definition new_state :: "ext \<Rightarrow> user \<Rightarrow> pstr option \<Rightarrow> oauth_state io" where
  "new_state E u redirect_uri =
     bind_act (user_account u) (\<lambda>_.
     bind_act (asks next_uuid) (\<lambda>n.
     bind_act (new_id E) (\<lambda>s.
       ret \<lparr>st_id = n, st_user = username u, st_state = s, st_redirect = redirect_uri\<rparr>)))"

definition new_key :: "ext \<Rightarrow> nat io" where
  "new_key E = bind_act (asks next_uuid) (\<lambda>n. seq (new_id E) (ret n))"

end
