(* ===== verification/Github_Views.thy ===== *)
theory Github_Views
  imports Json_Http
begin

text \<open>
  The views of \<^verbatim>\<open>views/github.py\<close>: the login over GitHub, the notifications that GitHub sends, and the records
  that point to GitHub Pages. The loop over the pages of a list may run for ever, so the views that use it
  are partial.
\<close>

section \<open>Installations\<close>

definition GitHubInstallation_save :: "gh_install \<Rightarrow> unit io" where
  "GitHubInstallation_save i = modify (\<lambda>w. w\<lparr>gh_installs := upsert gi_id i (gh_installs w)\<rparr>)"

definition user_installation :: "user \<Rightarrow> gh_install option io" where
  "user_installation u = bind_act (user_account u) (\<lambda>_.
     asks (\<lambda>w. find (\<lambda>i. gi_user i = Some (username u)) (gh_installs w)))"

definition installation_url :: "gh_install \<Rightarrow> pstr" where
  "installation_url i =
     str ''https://api.github.com/app/installations/'' @ int_str (gi_installation i) @ str ''/access_tokens''"

definition token_answer :: "remote \<Rightarrow> http_resp \<Rightarrow> (pstr option \<times> nat option) res" where
  "token_answer R r =
     bind_res (raise_for_status r) (\<lambda>_.
     bind_res (json_of R r) (\<lambda>j.
     bind_res (jget j ''token'') (\<lambda>tok.
     bind_res (jget j ''expires_at'') (\<lambda>x.
     bind_res (if jtruthy x then map_sum id Some (isoparse R x) else Inr None) (\<lambda>expiry.
       Inr (jtext R tok, expiry))))))"

text \<open>The object is changed in place: its new version comes back with the token.\<close>

definition get_installation_token :: "remote \<Rightarrow> ext \<Rightarrow> gh_install option \<Rightarrow> (gh_install \<times> pstr option) io" where
  "get_installation_token R E inst =
     (case inst of
        None \<Rightarrow> throw AttributeError
      | Some i \<Rightarrow>
         bind_act (asks now) (\<lambda>t.
           case live_token (gi_token i) (gi_token_expires i) t of
             Some tok \<Rightarrow> ret (i, Some tok)
           | None \<Rightarrow>
              bind_act (rest_call E ''POST'' (installation_url i) (str ''Bearer '' @ app_jwt R t) []) (\<lambda>r.
              bind_act (lift_res (token_answer R r)) (\<lambda>(tok, expiry).
                let i' = i\<lparr>gi_token := tok, gi_token_expires := expiry\<rparr> in
                seq (GitHubInstallation_save i') (ret (i', tok))))))"

partial_function (option) github_get_all ::
  "remote \<Rightarrow> ext \<Rightarrow> pstr \<Rightarrow> string \<Rightarrow> pstr \<Rightarrow> nat \<Rightarrow> json list \<Rightarrow> world \<Rightarrow> (json list res \<times> world) option" where
  "github_get_all R E url key auth page items_out w =
     (case rest_call E ''GET'' url auth [(str ''per_page'', str ''100''), (str ''page'', dec_str page)] w of
        (Inl e, w1) \<Rightarrow> Some (Inl e, w1)
      | (Inr r, w1) \<Rightarrow>
         (case bind_res (raise_for_status r) (\<lambda>_. bind_res (json_of R r) (\<lambda>j. bind_res (jsub j key) jitems)) of
            Inl e \<Rightarrow> Some (Inl e, w1)
          | Inr items \<Rightarrow>
              if length items = 100 then github_get_all R E url key auth (Suc page) (items_out @ items) w1
              else Some (Inr (items_out @ items), w1)))"


section \<open>The notifications of GitHub\<close>

definition own_signature :: "remote \<Rightarrow> ext \<Rightarrow> bytes \<Rightarrow> pstr" where
  "own_signature R E msg_body = hexlify (hmac E (str ''sha256'') (webhook_secret R) msg_body)"

definition delete_installations :: "int \<Rightarrow> unit io" where
  "delete_installations k = modify (\<lambda>w. w\<lparr>gh_installs := [i \<leftarrow> gh_installs w. gi_installation i \<noteq> k]\<rparr>)"

text \<open>What the notification asks for: the installation that has been deleted, if any.\<close>

definition deleted_installation :: "json \<Rightarrow> int option res" where
  "deleted_installation j =
     bind_res (jin ''installation'' j) (\<lambda>a.
     if \<not> a then Inr None else
     bind_res (jin ''action'' j) (\<lambda>b.
     if \<not> b then Inr None else
     bind_res (jsub j ''action'') (\<lambda>action.
     if action \<noteq> JStr (str ''deleted'') then Inr None else
     bind_res (jsub j ''installation'') (\<lambda>inst.
     bind_res (jsub inst ''id'') (\<lambda>k.
     if k = JNull then Inr None else bind_res (jint k) (\<lambda>n. Inr (Some n)))))))"

definition webhook :: "remote \<Rightarrow> ext \<Rightarrow> request \<Rightarrow> response io" where
  "webhook R E req =
     (case truthy (hub_signature req) of
        None \<Rightarrow> ret (Answer 400 [])
      | Some sig \<Rightarrow>
          if \<not> Sublist.prefix (str ''sha256='') sig then ret (Answer 400 [])
          else if \<not> is_ascii (drop 7 sig) then throw TypeError
          else if drop 7 sig \<noteq> own_signature R E (raw_body req) then ret (Answer 400 [])
          else
            bind_act (lift_res (bind_res (json_loads R (raw_body req)) deleted_installation)) (\<lambda>k.
              seq (case k of None \<Rightarrow> ret () | Some n \<Rightarrow> delete_installations n) (ret (Answer 200 []))))"


section \<open>The login\<close>

definition github_oauth_login :: "remote \<Rightarrow> ext \<Rightarrow> request \<Rightarrow> response io" where
  "github_oauth_login R E req =
     login_required req (\<lambda>u.
       bind_act (new_state E u (map_option (\<lambda>p. base_url R @ p) (map_of (query req) (str ''redirect'')))) (\<lambda>st.
       seq (modify (\<lambda>w. w\<lparr>gh_states := gh_states w @ [st]\<rparr>))
         (seq (set_session req (\<lambda>s. s\<lparr>github_state_id := Some (st_id st)\<rparr>))
           (ret (RedirectUrl (str ''https://github.com/apps/'' @ github_app R @ str ''/installations/new?state='' @ st_state st))))))"

text \<open>The opening part of \<^verbatim>\<open>oauth_callback\<close>, up to the request to GitHub: a response, or the state, if there is
  one, and the installation that is updated, if it is an update.\<close>

definition to_login :: response where
  "to_login = RedirectTo (str ''github_oauth_login'') []"

definition check_state :: "request \<Rightarrow> oauth_state option \<Rightarrow> 'a io \<Rightarrow> (response + 'a) io" where
  "check_state req st k =
     (case st of
        None \<Rightarrow> bind_act k (\<lambda>a. ret (Inr a))
      | Some s \<Rightarrow>
         (case map_of (query req) (str ''state'') of
            None \<Rightarrow> throw KeyError
          | Some q \<Rightarrow> if q \<noteq> st_state s then ret (Inl (Answer 400 [])) else bind_act k (\<lambda>a. ret (Inr a))))"

definition callback_start :: "request \<Rightarrow> user \<Rightarrow> int \<Rightarrow> pstr \<Rightarrow> (response + oauth_state option \<times> gh_install option) io" where
  "callback_start req u installation_id setup_action =
     (if setup_action = str ''update'' then
        bind_act (session_state req github_state_id gh_states) (\<lambda>found.
          if map_of (query req) (str ''state'') \<noteq> None \<and> found = None then ret (Inl to_login)
          else
            let st = (if map_of (query req) (str ''state'') = None then None else found) in
            bind_act (user_account u) (\<lambda>_.
            bind_act (asks (\<lambda>w. find (\<lambda>i. gi_installation i = installation_id \<and> gi_user i = Some (username u)) (gh_installs w))) (\<lambda>inst.
              case inst of
                None \<Rightarrow> ret (Inl (Answer 400 []))
              | Some i \<Rightarrow> check_state req st (ret (st, Some i)))))
      else
        bind_act (session_state req github_state_id gh_states) (\<lambda>found.
          case found of
            None \<Rightarrow> ret (Inl to_login)
          | Some s \<Rightarrow> check_state req (Some s) (ret (Some s, None))))"

text \<open>The exchange of the code. An update without a state fails when it reads \<^verbatim>\<open>state.state\<close>.\<close>

definition exchange_code :: "remote \<Rightarrow> ext \<Rightarrow> request \<Rightarrow> pstr \<Rightarrow> oauth_state option \<Rightarrow> http_resp io" where
  "exchange_code R E req code st =
     (case st of
        None \<Rightarrow> throw AttributeError
      | Some s \<Rightarrow> rest_call E ''POST'' (str ''https://github.com/login/oauth/access_token'') []
          [(str ''client_id'', fst (github_client R)), (str ''client_secret'', snd (github_client R)), (str ''code'', code),
           (str ''redirect_uri'', base_url R @ req_path req), (str ''state'', st_state s)])"

record user_tokens =
  ut_access :: json
  ut_access_expires :: "nat option"
  ut_refresh :: json
  ut_refresh_expires :: "nat option"

definition read_tokens :: "nat \<Rightarrow> json \<Rightarrow> user_tokens res" where
  "read_tokens t j =
     bind_res (jget j ''access_token'') (\<lambda>a.
     bind_res (jget j ''expires_in'') (\<lambda>x.
     bind_res (expires_in t x) (\<lambda>ae.
     bind_res (jget j ''refresh_token'') (\<lambda>f.
     bind_res (jget j ''refresh_token_expires_in'') (\<lambda>y.
     bind_res (expires_in t y) (\<lambda>re.
       Inr \<lparr>ut_access = a, ut_access_expires = ae, ut_refresh = f, ut_refresh_expires = re\<rparr>))))))"

definition set_tokens :: "remote \<Rightarrow> user_tokens \<Rightarrow> gh_install \<Rightarrow> gh_install" where
  "set_tokens R k i = i\<lparr>gi_user_token := jtext R (ut_access k), gi_user_token_expires := ut_access_expires k,
     gi_refresh := jtext R (ut_refresh k), gi_refresh_expires := ut_refresh_expires k\<rparr>"

definition back_to :: "oauth_state option \<Rightarrow> response" where
  "back_to st = (case truthy (Option.bind st st_redirect) of None \<Rightarrow> RedirectTo (str ''zones'') [] | Some p \<Rightarrow> RedirectUrl p)"

text \<open>\<^verbatim>\<open>next(filter(lambda i: i.get("id") == installation_id, installations), None)\<close>\<close>

fun lists_installation :: "int \<Rightarrow> json list \<Rightarrow> bool res" where
  "lists_installation k [] = Inr False"
| "lists_installation k (j # js) =
     bind_res (jget j ''id'') (\<lambda>v. if jeq_int v k then Inr True else lists_installation k js)"

definition find_installation ::
  "remote \<Rightarrow> ext \<Rightarrow> user \<Rightarrow> int \<Rightarrow> user_tokens \<Rightarrow> gh_install option \<Rightarrow> gh_install option pio" where
  "find_installation R E u installation_id k inst =
     (case inst of
        Some i \<Rightarrow> returning (ret (Some i))
      | None \<Rightarrow>
         bind_pio (github_get_all R E (str ''https://api.github.com/user/installations'') ''installations''
             (str ''token '' @ token_text (jtext R (ut_access k))) 1 []) (\<lambda>installations.
         returning (bind_act (lift_res (lists_installation installation_id installations)) (\<lambda>found.
           if \<not> found then ret None
           else bind_act (user_account u) (\<lambda>_. bind_act (new_key E) (\<lambda>n.
             ret (Some \<lparr>gi_id = n, gi_installation = installation_id, gi_user = Some (username u), gi_token = None,
               gi_token_expires = None, gi_user_token = None, gi_user_token_expires = None, gi_refresh = None,
               gi_refresh_expires = None\<rparr>)))))))"

definition callback_finish ::
  "remote \<Rightarrow> ext \<Rightarrow> request \<Rightarrow> user \<Rightarrow> pstr \<Rightarrow> int \<Rightarrow> oauth_state option \<Rightarrow> gh_install option \<Rightarrow> response pio" where
  "callback_finish R E req u code installation_id st inst =
     bind_pio (returning (exchange_code R E req code st)) (\<lambda>r.
       if status r \<noteq> 200 then returning (ret (Answer 400 []))
       else
         bind_pio (returning (modify (\<lambda>w. w\<lparr>gh_states := [s \<leftarrow> gh_states w. Some (st_id s) \<noteq> map_option st_id st]\<rparr>))) (\<lambda>_.
         bind_pio (returning (asks_res (\<lambda>w. bind_res (json_of R r) (read_tokens (now w))))) (\<lambda>k.
         bind_pio (find_installation R E u installation_id k inst) (\<lambda>found.
           case found of
             None \<Rightarrow> returning (ret (Answer 400 []))
           | Some i \<Rightarrow> returning (seq (GitHubInstallation_save (set_tokens R k i)) (ret (back_to st)))))))"

definition github_oauth_callback :: "remote \<Rightarrow> ext \<Rightarrow> request \<Rightarrow> response pio" where
  "github_oauth_callback R E req =
     (case (req_user req, map_of (query req) (str ''code''), map_of (query req) (str ''installation_id''),
            map_of (query req) (str ''setup_action'')) of
        (None, _) \<Rightarrow> returning (ret Login)
      | (Some u, Some code, Some k, Some setup_action) \<Rightarrow>
         (case py_int k of
            Inl _ \<Rightarrow> returning (ret (Answer 400 []))
          | Inr installation_id \<Rightarrow>
             bind_pio (returning (callback_start req u installation_id setup_action)) (\<lambda>r. case r of
               Inl resp \<Rightarrow> returning (ret resp)
             | Inr (st, inst) \<Rightarrow> callback_finish R E req u code installation_id st inst))
      | _ \<Rightarrow> returning (ret (Answer 400 [])))"

end
