(* ===== verification/Github_Pages.thy ===== *)
theory Github_Pages
  imports Github_Views
begin

text \<open>
  The records that point to GitHub Pages, \<^verbatim>\<open>views/github.py\<close> from \<^verbatim>\<open>setup_github_pages\<close> on. A view keeps one object
  of the installation, whose token the first request may renew.
\<close>

section \<open>Requests for a repository\<close>

definition repo_url :: "pstr \<Rightarrow> pstr \<Rightarrow> string \<Rightarrow> pstr" where
  "repo_url owner repo rest = str ''https://api.github.com/repos/'' @ owner @ str ''/'' @ repo @ str rest"

definition repo_call ::
  "remote \<Rightarrow> ext \<Rightarrow> gh_install option \<Rightarrow> string \<Rightarrow> pstr \<Rightarrow> (pstr \<times> pstr) list \<Rightarrow> (gh_install option \<times> http_resp) io" where
  "repo_call R E inst verb url params =
     bind_act (get_installation_token R E inst) (\<lambda>(i, tok).
     bind_act (rest_call E verb url (str ''token '' @ token_text tok) params) (\<lambda>r. ret (Some i, r)))"

text \<open>\<^verbatim>\<open>list(map(lambda b: (b["name"], b["name"]), branches))\<close>: the texts that may be chosen.\<close>

definition branch_names :: "remote \<Rightarrow> json \<Rightarrow> pstr list res" where
  "branch_names R branches =
     bind_res (jitems branches) (mapM_res (\<lambda>b. bind_res (jsub b ''name'') (\<lambda>n. Inr (token_text (jtext R n)))))"

definition pages_name :: "dnszone \<Rightarrow> pstr \<Rightarrow> pstr" where
  "pages_name z name = (if name = str ''@'' then zone_root z else name @ str ''.'' @ zone_root z)"

definition source_params :: "pstr \<Rightarrow> pstr \<Rightarrow> (pstr \<times> pstr) list" where
  "source_params branch path = [(str ''source.branch'', branch), (str ''source.path'', path)]"

text \<open>\<^verbatim>\<open>pages_data["source"]["path"]\<close> and \<^verbatim>\<open>pages_data["source"]["branch"]\<close>, the values that an empty form shows.\<close>

definition pages_source :: "json \<Rightarrow> (json \<times> json) res" where
  "pages_source j =
     bind_res (jsub j ''source'') (\<lambda>s. bind_res (jsub s ''path'') (\<lambda>p.
     bind_res (jsub j ''source'') (\<lambda>s'. bind_res (jsub s' ''branch'') (\<lambda>b. Inr (p, b)))))"

definition save_new_pages :: "ext \<Rightarrow> dnszone \<Rightarrow> pstr \<Rightarrow> pstr option \<Rightarrow> pstr option \<Rightarrow> response io" where
  "save_new_pages E z name owner repo =
     bind_act (new_id E) (\<lambda>i.
       seq (zrec_save E z (new_zrec i z name 3600 (GitHubPagesRecord owner repo)))
         (seq (save_zone_now E z) (ret (RedirectTo (str ''edit_zone'') [z_id z]))))"


section \<open>New records\<close>

text \<open>The part of \<^verbatim>\<open>setup_github_pages\<close> before the list of repositories: a response, or the installation.\<close>

definition pages_start :: "web \<Rightarrow> ext \<Rightarrow> request \<Rightarrow> user \<Rightarrow> pstr \<Rightarrow> (response + gh_install option) io" where
  "pages_start W E req u zone_id =
     bind_act (lift_res (access_token W u)) (\<lambda>tok.
     bind_act (get_or_404 E z_id dnszones zone_id) (\<lambda>z.
     seq (require (DNSZone_has_scope W tok z (str ''edit'')))
       (case (if is_post req then GithubPagesForm (form_data req) else None) of
          Some name \<Rightarrow> bind_act (save_new_pages E z name None None) (\<lambda>r. ret (Inl r))
        | None \<Rightarrow> bind_act (user_installation u) (\<lambda>i. ret (Inr i)))))"

definition setup_github_pages :: "web \<Rightarrow> remote \<Rightarrow> ext \<Rightarrow> request \<Rightarrow> pstr \<Rightarrow> response pio" where
  "setup_github_pages W R E req zone_id =
     (case req_user req of
        None \<Rightarrow> returning (ret Login)
      | Some u \<Rightarrow>
         bind_pio (returning (pages_start W E req u zone_id)) (\<lambda>r. case r of
           Inl resp \<Rightarrow> returning (ret resp)
         | Inr None \<Rightarrow> returning (ret (Render (str ''dns_grpc/github/add_github_record.html'')))
         | Inr (Some inst) \<Rightarrow>
             bind_pio (returning (get_installation_token R E (Some inst))) (\<lambda>(i, tok).
             bind_pio (github_get_all R E (str ''https://api.github.com/installation/repositories'') ''repositories''
                 (str ''token '' @ token_text tok) 1 []) (\<lambda>repositories.
               returning (ret (Render (str ''dns_grpc/github/add_github_record.html'')))))))"

text \<open>The repository has no site yet: it is set up with a branch and a path, then given its name.\<close>

definition enable_pages ::
  "remote \<Rightarrow> ext \<Rightarrow> request \<Rightarrow> dnszone \<Rightarrow> pstr \<Rightarrow> pstr \<Rightarrow> gh_install option \<Rightarrow> json \<Rightarrow> response io" where
  "enable_pages R E req z owner repo inst branches =
     bind_act (lift_res (branch_names R branches)) (\<lambda>names.
       case (if is_post req then GithubPagesSetupForm names (form_data req) else None) of
         None \<Rightarrow> ret (Render (str ''dns_grpc/github/edit_github_record.html''))
       | Some (name, path, branch) \<Rightarrow>
          bind_act (repo_call R E inst ''POST'' (repo_url owner repo ''/pages'') (source_params branch path)) (\<lambda>(i1, r1).
          seq (lift_res (raise_for_status r1))
            (bind_act (repo_call R E i1 ''PUT'' (repo_url owner repo ''/pages'') [(str ''cname'', pages_name z name)]) (\<lambda>(i2, r2).
             seq (lift_res (raise_for_status r2)) (save_new_pages E z name (Some owner) (Some repo))))))"

text \<open>The repository has a site: it is given the name and the source of the form.\<close>

definition adopt_pages ::
  "remote \<Rightarrow> ext \<Rightarrow> request \<Rightarrow> dnszone \<Rightarrow> pstr \<Rightarrow> pstr \<Rightarrow> gh_install option \<Rightarrow> json \<Rightarrow> json \<Rightarrow> response io" where
  "adopt_pages R E req z owner repo inst branches pages_data =
     (if \<not> is_post req then
        seq (lift_res (pages_source pages_data)) (seq (lift_res (branch_names R branches))
          (ret (Render (str ''dns_grpc/fzone/edit_record.html''))))
      else
        bind_act (lift_res (branch_names R branches)) (\<lambda>names.
          case GithubPagesSetupForm names (form_data req) of
            None \<Rightarrow> ret (Render (str ''dns_grpc/fzone/edit_record.html''))
          | Some (name, path, branch) \<Rightarrow>
             bind_act (repo_call R E inst ''PUT'' (repo_url owner repo ''/pages'')
                 ((str ''cname'', pages_name z name) # source_params branch path)) (\<lambda>(i1, r1).
             seq (lift_res (raise_for_status r1)) (save_new_pages E z name (Some owner) (Some repo)))))"

definition setup_github_pages_repo :: "web \<Rightarrow> remote \<Rightarrow> ext \<Rightarrow> request \<Rightarrow> pstr \<Rightarrow> pstr \<Rightarrow> pstr \<Rightarrow> response io" where
  "setup_github_pages_repo W R E req zone_id owner repo =
     login_required req (\<lambda>u.
       bind_act (lift_res (access_token W u)) (\<lambda>tok.
       bind_act (get_or_404 E z_id dnszones zone_id) (\<lambda>z.
       bind_act (user_installation u) (\<lambda>inst.
         if inst = None then ret (RedirectTo (str ''github_oauth_login'') [str ''?redirect='' @ req_path req])
         else
           seq (require (DNSZone_has_scope W tok z (str ''edit'')))
             (bind_act (repo_call R E inst ''GET'' (repo_url owner repo ''/branches'') []) (\<lambda>(i1, branches_r).
                if status branches_r = 404 then ret (Render (str ''dns_grpc/error.html''))
                else seq (lift_res (raise_for_status branches_r))
                  (bind_act (lift_res (json_of R branches_r)) (\<lambda>branches.
                   bind_act (repo_call R E i1 ''GET'' (repo_url owner repo ''/pages'') []) (\<lambda>(i2, pages_r).
                     if status pages_r = 404 then enable_pages R E req z owner repo i2 branches
                     else bind_act (lift_res (json_of R pages_r)) (adopt_pages R E req z owner repo i2 branches))))))))))"


section \<open>Existing records\<close>

definition repo_of :: "zrec \<Rightarrow> pstr option \<times> pstr option" where
  "repo_of r = (case body r of GitHubPagesRecord owner repo \<Rightarrow> (owner, repo) | _ \<Rightarrow> (None, None))"

text \<open>The opening lines of the three views: without an installation only a record that names no repository goes on.\<close>

definition github_record_view ::
  "web \<Rightarrow> ext \<Rightarrow> request \<Rightarrow> pstr \<Rightarrow> (gh_install option \<Rightarrow> dnszone \<Rightarrow> zrec \<Rightarrow> response io) \<Rightarrow> response io" where
  "github_record_view W E req record_id k =
     login_required req (\<lambda>u.
       bind_act (lift_res (access_token W u)) (\<lambda>tok.
       bind_act (get_or_404 E r_id (objects M_GitHubPages) record_id) (\<lambda>r.
       bind_act (user_installation u) (\<lambda>inst.
       bind_act (foreign z_id dnszones (r_zone r)) (\<lambda>z.
       seq (require (DNSZone_has_scope W tok z (str ''edit'')))
         (if inst = None \<and> truthy (snd (repo_of r)) \<noteq> None
          then ret (RedirectTo (str ''github_oauth_login'') [str ''?redirect='' @ req_path req])
          else k inst z r))))))"

definition rename_record :: "ext \<Rightarrow> dnszone \<Rightarrow> zrec \<Rightarrow> pstr \<Rightarrow> response io" where
  "rename_record E z r name =
     seq (zrec_save E z (r\<lparr>record_name := name\<rparr>))
       (seq (save_zone_now E z) (ret (RedirectTo (str ''edit_zone'') [z_id z])))"

definition edit_repo_record ::
  "remote \<Rightarrow> ext \<Rightarrow> request \<Rightarrow> gh_install option \<Rightarrow> dnszone \<Rightarrow> zrec \<Rightarrow> pstr \<Rightarrow> pstr \<Rightarrow> response io" where
  "edit_repo_record R E req inst z r owner repo =
     bind_act (repo_call R E inst ''GET'' (repo_url owner repo ''/branches'') []) (\<lambda>(i1, branches_r).
     seq (lift_res (raise_for_status branches_r))
       (bind_act (lift_res (json_of R branches_r)) (\<lambda>branches.
        bind_act (repo_call R E i1 ''GET'' (repo_url owner repo ''/pages'') []) (\<lambda>(i2, pages_r).
          if status branches_r = 404 \<or> status pages_r = 404 then ret (Render (str ''dns_grpc/error.html''))
          else
            bind_act (lift_res (json_of R pages_r)) (\<lambda>pages_data.
              if \<not> is_post req then
                seq (lift_res (pages_source pages_data)) (seq (lift_res (branch_names R branches))
                  (ret (Render (str ''dns_grpc/fzone/edit_record.html''))))
              else
                bind_act (lift_res (branch_names R branches)) (\<lambda>names.
                  case GithubPagesSetupForm names (form_data req) of
                    None \<Rightarrow> ret (Render (str ''dns_grpc/fzone/edit_record.html''))
                  | Some (name, path, branch) \<Rightarrow>
                     bind_act (repo_call R E i2 ''PUT'' (repo_url owner repo ''/pages'')
                         ((str ''cname'', name @ str ''.'' @ zone_root z) # source_params branch path)) (\<lambda>(i3, r3).
                     seq (lift_res (raise_for_status r3)) (rename_record E z r name))))))))"

definition edit_github_pages_record :: "web \<Rightarrow> remote \<Rightarrow> ext \<Rightarrow> request \<Rightarrow> pstr \<Rightarrow> response io" where
  "edit_github_pages_record W R E req record_id =
     github_record_view W E req record_id (\<lambda>inst z r.
       case truthy (snd (repo_of r)) of
         Some repo \<Rightarrow> edit_repo_record R E req inst z r (token_text (fst (repo_of r))) repo
       | None \<Rightarrow>
          (case (if is_post req then GithubPagesForm (form_data req) else None) of
             Some name \<Rightarrow> rename_record E z r name
           | None \<Rightarrow> ret (Render (str ''dns_grpc/fzone/edit_record.html''))))"

definition delete_github_pages_record :: "web \<Rightarrow> remote \<Rightarrow> ext \<Rightarrow> request \<Rightarrow> pstr \<Rightarrow> response io" where
  "delete_github_pages_record W R E req record_id =
     github_record_view W E req record_id (\<lambda>inst z r.
       let remove_row = seq (save_zone_now E z) (seq (zrec_delete E r) (ret (RedirectTo (str ''edit_zone'') [z_id z]))) in
       if \<not> (is_post req \<and> post_is req ''delete'') then ret (Render (str ''dns_grpc/fzone/delete_record.html''))
       else
         case truthy (snd (repo_of r)) of
           None \<Rightarrow> remove_row
         | Some repo \<Rightarrow>
            bind_act (repo_call R E inst ''DELETE'' (repo_url (token_text (fst (repo_of r))) repo ''/pages'') []) (\<lambda>(i1, r1).
              if status r1 \<noteq> 204 then ret (Render (str ''dns_grpc/error.html'')) else remove_row))"

definition github_pages_record_rebuild :: "web \<Rightarrow> remote \<Rightarrow> ext \<Rightarrow> request \<Rightarrow> pstr \<Rightarrow> response io" where
  "github_pages_record_rebuild W R E req record_id =
     github_record_view W E req record_id (\<lambda>inst z r.
       bind_act (repo_call R E inst ''POST''
           (repo_url (token_text (fst (repo_of r))) (token_text (snd (repo_of r))) ''/pages/builds'') []) (\<lambda>(i1, r1).
         if status r1 \<noteq> 201 then ret (Render (str ''dns_grpc/error.html''))
         else ret (RedirectTo (str ''edit_zone'') [z_id z])))"

end
