(* ===== verification/Google_Views.thy ===== *)
theory Google_Views
  imports Json_Http
begin

text \<open>
  The views of \<^verbatim>\<open>views/google.py\<close>: the login over Google, the test that a view may use the services it needs,
  and the verification of a zone with a TXT record.
\<close>

section \<open>The login\<close>

definition GoogleInstallation_save :: "gg_install \<Rightarrow> unit io" where
  "GoogleInstallation_save i = modify (\<lambda>w. w\<lparr>gg_installs := upsert gg_id i (gg_installs w)\<rparr>)"

definition google_installation :: "user \<Rightarrow> gg_install option io" where
  "google_installation u = bind_act (user_account u) (\<lambda>_.
     asks (\<lambda>w. find (\<lambda>i. gg_user i = Some (username u)) (gg_installs w)))"

definition google_login_url :: "remote \<Rightarrow> pstr list \<Rightarrow> pstr \<Rightarrow> pstr" where
  "google_login_url R scopes state =
     str ''https://accounts.google.com/o/oauth2/v2/auth?response_type=code&client_id='' @ fst (google_client R)
     @ str ''&scope='' @ join [32] scopes @ str ''&redirect_uri='' @ base_url R @ str ''/google_oauth_callback/''
     @ str ''&state='' @ state @ str ''&access_type=offline&include_granted_scopes=true''"

definition google_oauth_login :: "remote \<Rightarrow> ext \<Rightarrow> request \<Rightarrow> user \<Rightarrow> pstr list \<Rightarrow> pstr option \<Rightarrow> response io" where
  "google_oauth_login R E req u scopes redirect_uri =
     bind_act (new_state E u (map_option (\<lambda>p. base_url R @ p) (truthy redirect_uri))) (\<lambda>st.
       seq (modify (\<lambda>w. w\<lparr>gg_states := gg_states w @ [st]\<rparr>))
         (seq (set_session req (\<lambda>s. s\<lparr>google_state_id := Some (st_id st)\<rparr>))
           (ret (RedirectUrl (google_login_url R scopes (st_state st))))))"

definition google_tokens :: "remote \<Rightarrow> nat \<Rightarrow> json \<Rightarrow> (gg_install \<Rightarrow> gg_install) res" where
  "google_tokens R t j =
     bind_res (jget j ''access_token'') (\<lambda>a.
     bind_res (jget j ''expires_in'') (\<lambda>x.
     bind_res (expires_in t x) (\<lambda>ae.
     bind_res (jget j ''refresh_token'') (\<lambda>f.
     bind_res (jget j ''refresh_token_expires_in'') (\<lambda>y.
     bind_res (expires_in t y) (\<lambda>re.
     bind_res (jget j ''scope'') (\<lambda>s.
       Inr (\<lambda>i. i\<lparr>gg_token := jtext R a, gg_token_expires := ae, gg_refresh := jtext R f, gg_refresh_expires := re,
              gg_scopes := jtext R s\<rparr>))))))))"

definition google_finish :: "remote \<Rightarrow> ext \<Rightarrow> user \<Rightarrow> oauth_state \<Rightarrow> http_resp \<Rightarrow> response io" where
  "google_finish R E u st r =
     seq (modify (\<lambda>w. w\<lparr>gg_states := [s \<leftarrow> gg_states w. st_id s \<noteq> st_id st]\<rparr>))
       (bind_act (lift_res (json_of R r)) (\<lambda>j.
        bind_act (asks now) (\<lambda>t.
        bind_act (lift_res (google_tokens R t j)) (\<lambda>set_tokens.
        bind_act (google_installation u) (\<lambda>inst.
        bind_act (case inst of
            Some i \<Rightarrow> ret i
          | None \<Rightarrow> bind_act (new_key E) (\<lambda>n. ret \<lparr>gg_id = n, gg_user = Some (username u), gg_token = None,
              gg_token_expires = None, gg_refresh = None, gg_refresh_expires = None, gg_scopes = None\<rparr>)) (\<lambda>i.
          seq (GoogleInstallation_save (set_tokens i))
            (ret (case truthy (st_redirect st) of None \<Rightarrow> RedirectTo (str ''zones'') [] | Some p \<Rightarrow> RedirectUrl p))))))))"

definition google_oauth_callback :: "remote \<Rightarrow> ext \<Rightarrow> request \<Rightarrow> response io" where
  "google_oauth_callback R E req =
     login_required req (\<lambda>u.
       case (map_of (query req) (str ''code''), map_of (query req) (str ''state'')) of
         (Some code, Some q) \<Rightarrow>
           bind_act (asks (\<lambda>w. google_state_id (get_session req w))) (\<lambda>sid.
             if sid = None then google_oauth_login R E req u [] (Some (req_path req))
             else
               bind_act (session_state req google_state_id gg_states) (\<lambda>found.
                 case found of
                   None \<Rightarrow> google_oauth_login R E req u [] None
                 | Some st \<Rightarrow>
                     if q \<noteq> st_state st then ret (Answer 400 [])
                     else
                       bind_act (rest_call E ''POST'' (str ''https://oauth2.googleapis.com/token'') []
                         [(str ''client_id'', fst (google_client R)), (str ''client_secret'', snd (google_client R)),
                          (str ''code'', code), (str ''redirect_uri'', base_url R @ req_path req),
                          (str ''grant_type'', str ''authorization_code'')]) (\<lambda>r.
                         if status r \<noteq> 200 then ret (Answer 400 []) else google_finish R E u st r)))
       | _ \<Rightarrow> ret (Answer 400 []))"


section \<open>Views that need a token\<close>

definition refresh_token :: "remote \<Rightarrow> nat \<Rightarrow> http_resp \<Rightarrow> gg_install \<Rightarrow> gg_install res" where
  "refresh_token R t r i =
     bind_res (json_of R r) (\<lambda>j.
     bind_res (jget j ''access_token'') (\<lambda>a.
     bind_res (jget j ''expires_in'') (\<lambda>x.
     bind_res (expires_in t x) (\<lambda>ae. Inr (i\<lparr>gg_token := jtext R a, gg_token_expires := ae\<rparr>)))))"

definition verify_google_scopes ::
  "pstr list \<Rightarrow> remote \<Rightarrow> ext \<Rightarrow> request \<Rightarrow> user \<Rightarrow> (pstr option \<Rightarrow> response io) \<Rightarrow> response io" where
  "verify_google_scopes scopes R E req u inner =
     bind_act (google_installation u) (\<lambda>inst.
       let login = google_oauth_login R E req u scopes (Some (req_path req)) in
       case inst of
         None \<Rightarrow> login
       | Some i \<Rightarrow>
           if \<not> set scopes \<subseteq> set (case truthy (gg_scopes i) of None \<Rightarrow> [] | Some s \<Rightarrow> split_on 32 s) then login
           else
             bind_act (asks now) (\<lambda>t.
               case live_token (gg_token i) (gg_token_expires i) t of
                 Some tok \<Rightarrow> inner (Some tok)
               | None \<Rightarrow>
                   if (case gg_refresh_expires i of None \<Rightarrow> False | Some e \<Rightarrow> t < e) then login
                   else
                     bind_act (rest_call E ''POST'' (str ''https://oauth2.googleapis.com/token'') []
                       ([(str ''client_id'', fst (google_client R)), (str ''client_secret'', snd (google_client R)),
                         (str ''grant_type'', str ''refresh_token'')]
                        @ (case gg_refresh i of None \<Rightarrow> [] | Some f \<Rightarrow> [(str ''refresh_token'', f)]))) (\<lambda>r.
                       if status r \<noteq> 200 then login
                       else
                         bind_act (lift_res (refresh_token R t r i)) (\<lambda>i'.
                           seq (GoogleInstallation_save i') (inner (gg_token i'))))))"


section \<open>The verification of a zone\<close>

text \<open>\<^verbatim>\<open>txtrecord_set.get_or_create(data=token)[0]\<close>\<close>

definition get_or_create_txt :: "ext \<Rightarrow> dnszone \<Rightarrow> pstr option \<Rightarrow> zrec io" where
  "get_or_create_txt E z data =
     (case data of
        None \<Rightarrow> throw OtherError
      | Some text \<Rightarrow>
         bind_act (asks (\<lambda>w. [r \<leftarrow> objects M_TXT w. r_zone r = z_id z \<and> body r = TXTRecord text])) (\<lambda>found.
           case found of
             [r] \<Rightarrow> ret r
           | [] \<Rightarrow> bind_act (new_id E) (\<lambda>i. let r = new_zrec i z (str ''@'') 3600 (TXTRecord text) in seq (zrec_save E z r) (ret r))
           | _ \<Rightarrow> throw OtherError))"

definition VERIFIED :: pstr where
  "VERIFIED = str ''Great! Your domain is now verified with Google.''"

definition NOT_VERIFIED :: pstr where
  "NOT_VERIFIED = str ''Oh no! That didn't quite work. '' @ str ''Please try again later to allow DNS updates to propagate.''"

definition site_params :: "dnszone \<Rightarrow> (pstr \<times> pstr) list" where
  "site_params z = [(str ''site.type'', str ''INET_DOMAIN''), (str ''site.identifier'', zone_root z)]"

definition verify_zone_google :: "web \<Rightarrow> remote \<Rightarrow> ext \<Rightarrow> request \<Rightarrow> pstr \<Rightarrow> response io" where
  "verify_zone_google W R E req zone_id =
     login_required req (\<lambda>u.
       verify_google_scopes [str ''https://www.googleapis.com/auth/siteverification.verify_only''] R E req u (\<lambda>google_token.
         zone_view W E (str ''edit'') req zone_id (\<lambda>u z.
           bind_act (rest_call E ''POST'' (str ''https://www.googleapis.com/siteVerification/v1/token?access_token=''
               @ token_text google_token) [] ((str ''verificationMethod'', str ''DNS_TXT'') # site_params z)) (\<lambda>r.
           bind_act (lift_res (bind_res (raise_for_status r) (\<lambda>_. bind_res (json_of R r) (\<lambda>j. jsub j ''token'')))) (\<lambda>token.
           bind_act (get_or_create_txt E z (jtext R token)) (\<lambda>row.
           seq (zrec_save E z row)
             (bind_act (rest_call E ''POST''
                 (str ''https://www.googleapis.com/siteVerification/v1/webResource?verificationMethod=DNS_TXT&access_token=''
                  @ token_text google_token) [] (site_params z)) (\<lambda>r2.
              seq (set_session req (\<lambda>s. s\<lparr>zone_notice := Some (if status r2 = 200 then VERIFIED else NOT_VERIFIED)\<rparr>))
                (ret (RedirectTo (str ''edit_zone'') [z_id z]))))))))))"

end
