(* ===== verification/Github_Props.thy ===== *)
theory Github_Props
  imports Github_Pages Google_Views View_Safety
begin

text \<open>
  What the views for GitHub and Google may change: of zones only those for which the user has the scope
  \<^verbatim>\<open>edit\<close>; of the installations only what a login with the right state or a signed notification concerns.
\<close>

section \<open>Steps that concern no zone\<close>

lemma touch_installs [touch_acts]:
  "obeys P (builds E Z) (GitHubInstallation_save i)" "obeys P (builds E Z) (GoogleInstallation_save g)"
  "obeys P (builds E Z) (delete_installations k)"
  "obeys P (builds E Z) (modify (\<lambda>w. w\<lparr>gh_states := f w\<rparr>))" "obeys P (builds E Z) (modify (\<lambda>w. w\<lparr>gg_states := f w\<rparr>))"
  by (simp_all add: obeys_def GitHubInstallation_save_def GoogleInstallation_save_def delete_installations_def modify_def builds_silent)

lemma touch_rest [touch_acts]: "obeys P (builds E Z) (rest_call E' verb url auth params)"
  by (simp add: rest_call_def touch_http)

text \<open>Sequences of steps that need no condition.\<close>

lemma free_bind:
  "obeys (\<lambda>_. True) (builds E Z) m \<Longrightarrow> (\<And>a. obeys (\<lambda>_. True) (builds E Z) (f a)) \<Longrightarrow> obeys (\<lambda>_. True) (builds E Z) (bind_act m f)"
  by (rule bld.obeys_bind) auto

lemma free_seq:
  "obeys (\<lambda>_. True) (builds E Z) m \<Longrightarrow> obeys (\<lambda>_. True) (builds E Z) n \<Longrightarrow> obeys (\<lambda>_. True) (builds E Z) (seq m n)"
  by (simp add: seq_def free_bind)

lemmas free_rules = free_bind free_seq touch_rest touch_installs touch_session touch_new_id bld.obeys_pure

lemma free_any: "obeys (\<lambda>_. True) R m \<Longrightarrow> obeys P R m"
  by (simp add: obeys_def)

lemma free_token: "obeys (\<lambda>_. True) (builds E Z) (get_installation_token R E inst)"
  unfolding get_installation_token_def Let_def
  by (auto intro!: free_rules split: option.split prod.split)

lemma free_repo_call: "obeys (\<lambda>_. True) (builds E Z) (repo_call R E inst verb url params)"
  unfolding repo_call_def by (auto intro!: free_rules free_token split: prod.split)

lemma free_account: "obeys (\<lambda>_. True) (builds E Z) (user_account u)" "obeys (\<lambda>_. True) (builds E Z) (user_installation u)"
  "obeys (\<lambda>_. True) (builds E Z) (google_installation u)"
  unfolding user_installation_def google_installation_def user_account_def by (intro free_rules)+

lemma free_new: "obeys (\<lambda>_. True) (builds E Z) (new_state E u p)" "obeys (\<lambda>_. True) (builds E Z) (new_key E)"
  unfolding new_state_def new_key_def by (intro free_rules free_account)+

text \<open>The loop over the pages of a list only sends requests.\<close>

lemma get_all_related:
  assumes refl: "\<And>w. Q w w" and trans: "\<And>u v w. Q u v \<Longrightarrow> Q v w \<Longrightarrow> Q u w" and call: "\<And>w q. Q w (emit (Http q) w)"
    and run: "github_get_all R E url key auth n xs w = Some (x, w')"
  shows "Q w w'"
proof -
  let ?P = "\<lambda>R E url key auth n xs w r. Q w (snd r)"
  have "?P R E url key auth n xs w (x, w')"
  proof (rule github_get_all.raw_induct[of ?P, OF _ run])
    fix get_all R E url key auth n xs w r
    assume IH: "\<And>R E url key auth n xs w r. get_all R E url key auth n xs w = Some r \<Longrightarrow> ?P R E url key auth n xs w r"
      and r: "(case rest_call E ''GET'' url auth [(str ''per_page'', str ''100''), (str ''page'', dec_str n)] w of
        (Inl e, w1) \<Rightarrow> Some (Inl e, w1)
      | (Inr r, w1) \<Rightarrow>
         (case bind_res (raise_for_status r) (\<lambda>_. bind_res (json_of R r) (\<lambda>j. bind_res (jsub j key) jitems)) of
            Inl e \<Rightarrow> Some (Inl e, w1)
          | Inr items \<Rightarrow>
              if length items = 100 then get_all R E url key auth (Suc n) (xs @ items) w1
              else Some (Inr (xs @ items), w1))) = Some r"
    obtain a w1 where a: "rest_call E ''GET'' url auth [(str ''per_page'', str ''100''), (str ''page'', dec_str n)] w = (a, w1)"
      by fastforce
    then have w1: "Q w w1" using call by (auto simp: rest_call_def http_call_def)
    have "Q w1 (snd r)"
    proof (cases a)
      case (Inr p)
      then show ?thesis using r a refl
        by (cases "bind_res (raise_for_status p) (\<lambda>_. bind_res (json_of R p) (\<lambda>j. bind_res (jsub j key) jitems))")
          (auto dest: IH split: if_splits)
    qed (use r a refl in auto)
    then show "?P R E url key auth n xs w r" by (rule trans[OF w1])
  qed
  then show ?thesis by simp
qed

lemma free_get_all: "github_get_all R E url key auth n xs w = Some (x, w') \<Longrightarrow> builds E Z w w'"
  by (rule get_all_related[where Q = "builds E Z"])
    (use touch_http[of "\<lambda>_. True" E Z] in \<open>auto simp: bld.R_refl obeys_def http_call_def intro: bld.R_trans\<close>)

section \<open>Views\<close>

definition confined_pio :: "web \<Rightarrow> ext \<Rightarrow> request \<Rightarrow> response pio \<Rightarrow> bool" where
  "confined_pio W E req m \<longleftrightarrow> (\<forall>w x w'. m w = Some (x, w') \<longrightarrow> touches E (allowed W E req w) w w')"

lemma confined_after:
  assumes "\<And>w. snd (m w) = w"
    and "\<And>w a. tables_ok E w \<Longrightarrow> m w = (Inr a, w) \<Longrightarrow> touches E (allowed W E req w) w (snd (f a w))"
  shows "confined W E req (bind_act m f)"
proof (rule confinedI)
  fix w x w'
  assume ok: "tables_ok E w" and run: "bind_act m f w = (x, w')"
  obtain y where y: "m w = (y, w)" using assms(1) by (metis prod.collapse)
  then show "touches E (allowed W E req w) w w'"
    using assms(2)[OF ok] run tch.R_refl by (cases y) (auto simp: bind_act_def)
qed

lemma confined_at: "confined W E req m \<Longrightarrow> touches E (allowed W E req w) w (snd (m w))"
  by (simp add: confined_def)

lemma confined_bind: "(\<And>w. snd (m w) = w) \<Longrightarrow> (\<And>a. confined W E req (f a)) \<Longrightarrow> confined W E req (bind_act m f)"
  by (rule confined_after) (simp_all add: confined_at)

lemma confined_free: "(\<And>Z. obeys (\<lambda>_. True) (builds E Z) m) \<Longrightarrow> confined W E req m"
  by (simp add: confined_def obeys_def builds_touches)

lemma confined_login: "(\<And>u. req_user req = Some u \<Longrightarrow> confined W E req (k u)) \<Longrightarrow> confined W E req (login_required req k)"
  by (auto simp: login_required_def confined_free bld.obeys_pure split: option.split)

text \<open>After a step that concerns no zone a request may do what it might have done before.\<close>

lemma allowed_later:
  assumes "tables_ok E w" "builds E {} w v"
  shows "allowed W E req v \<subseteq> allowed W E req w"
proof -
  have same: "same_zone zid w v" for zid using assms by (simp add: builds_def touches_def)
  have "next_uuid w \<le> next_uuid v" using assms by (simp add: builds_def touches_def)
  then show ?thesis using same_zone_permitted[OF same, of W E req] by (auto simp: allowed_def)
qed

lemma touches_wider: "touches E Y w v \<Longrightarrow> Y \<subseteq> Z \<Longrightarrow> touches E Z w v"
  by (auto simp: touches_def)

lemma confined_then:
  assumes "obeys (\<lambda>_. True) (builds E {}) m" "\<And>a. confined W E req (f a)"
  shows "confined W E req (bind_act m f)"
proof (rule confinedI)
  fix w x w'
  assume ok: "tables_ok E w" and run: "bind_act m f w = (x, w')"
  obtain y v where y: "m w = (y, v)" by fastforce
  have b: "builds E {} w v" using obeysD[OF assms(1) _ y] by simp
  then have v: "touches E (allowed W E req w) w v" by (intro touches_wider[OF builds_touches]) auto
  show "touches E (allowed W E req w) w w'"
  proof (cases y)
    case (Inr a)
    then have "f a v = (x, w')" using run y by (simp add: bind_act_def)
    then have "touches E (allowed W E req v) v w'" using confined_at[OF assms(2), of v a] by simp
    then show ?thesis by (rule tch.R_trans[OF v touches_wider[OF _ allowed_later[OF ok b]]])
  qed (use run y v in \<open>simp add: bind_act_def\<close>)
qed

lemma confined_gate:
  assumes "req_user req = Some u" "access_token W u = Inr tok"
    and "z \<in> set (dnszones w)" "tables_ok E w" "\<And>Z. z_id z \<in> Z \<Longrightarrow> obeys (held E Z z) (builds E Z) k"
  shows "touches E (allowed W E req w) w (snd (seq (require (DNSZone_has_scope W tok z (str ''edit''))) k w))"
proof (cases "DNSZone_has_scope W tok z (str ''edit'') = Inr True")
  case True
  have Z: "z_id z \<in> allowed W E req w" by (rule row_granted[OF assms(1,2,3) True])
  have "touches E (allowed W E req w) w (snd (k w))"
    by (rule builds_touches[OF obeys_at[OF assms(5)[OF Z] held_row(1)[OF assms(4,3) Z]]])
  then show ?thesis by (simp add: seq_def bind_act_def require_cases True del: str_simps)
next
  case False
  then show ?thesis
    by (cases "DNSZone_has_scope W tok z (str ''edit'')") (simp_all add: seq_def bind_act_def require_cases tch.R_refl)
qed

lemma held_bind:
  "obeys (\<lambda>_. True) (builds E Z) m \<Longrightarrow> (\<And>a. obeys (held E Z z) (builds E Z) (f a)) \<Longrightarrow> obeys (held E Z z) (builds E Z) (bind_act m f)"
  by (rule touch_bind[OF stable_held(1) free_any])

lemma held_seq:
  "obeys (\<lambda>_. True) (builds E Z) m \<Longrightarrow> obeys (held E Z z) (builds E Z) n \<Longrightarrow> obeys (held E Z z) (builds E Z) (seq m n)"
  by (rule touch_seq[OF stable_held(1) free_any])

lemma held_new_pages:
  assumes "inj (uuid E)" "z_id z \<in> Z"
  shows "obeys (held E Z z) (builds E Z) (save_new_pages E z name owner repo)"
  unfolding save_new_pages_def
proof (rule touch_new_row[OF assms(1) stable_held(1)])
  fix i
  show "obeys (\<lambda>s. held E Z z s \<and> drawn E i s) (builds E Z)
      (seq (zrec_save E z (new_zrec i z name 3600 (GitHubPagesRecord owner repo)))
        (seq (save_zone_now E z) (ret (RedirectTo (str ''edit_zone'') [z_id z]))))"
    by (rule obeys_pre[OF touch_save_both(1)[OF assms(2)]])
      (use assms(2) held_drawn(1) in \<open>auto simp: new_zrec_def\<close>)
qed

lemmas held_rules = held_bind held_seq free_repo_call free_any[OF free_repo_call] bld.obeys_pure held_new_pages

lemma held_new_site:
  assumes "inj (uuid E)" "z_id z \<in> Z"
  shows "obeys (held E Z z) (builds E Z) (enable_pages R E req z owner repo inst branches)"
    "obeys (held E Z z) (builds E Z) (adopt_pages R E req z owner repo inst branches data)"
  unfolding enable_pages_def adopt_pages_def
  by (auto intro!: held_rules assms split: option.split prod.split)

lemma confined_from: "(\<And>w. tables_ok E w \<Longrightarrow> touches E (allowed W E req w) w (snd (m w))) \<Longrightarrow> confined W E req m"
  by (rule confinedI) (metis snd_conv)

lemma read_then:
  assumes "snd (m w) = w" "\<And>a. m w = (Inr a, w) \<Longrightarrow> touches E Z w (snd (f a w))"
  shows "touches E Z w (snd (bind_act m f w))"
  using assms tch.R_refl by (cases "m w"; cases "fst (m w)") (auto simp: bind_act_def)

lemma reads_row:
  "snd (lift_res r w) = w" "snd (get_or_404 E key rows i w) = w" "snd (foreign key' rows' j w) = w"
  "snd (user_installation u w) = w" "snd (google_installation u w) = w" "snd (user_account u w) = w"
  by (simp_all add: get_or_404_def foreign_def user_installation_def google_installation_def user_account_def act_defs
      split: option.split)

lemma got: "get_or_404 E key rows i w = (Inr r, w') \<Longrightarrow> r \<in> set (rows w)" "foreign key' rows' j w = (Inr r', w') \<Longrightarrow> r' \<in> set (rows' w) \<and> key' r' = j"
  using get_or_404_cases[of E key rows i w "Inr r" w'] foreign_cases[of key' rows' j w "Inr r'" w'] by auto

lemma setup_repo_confined:
  assumes "inj (uuid E)"
  shows "confined W E req (setup_github_pages_repo W R E req zone_id owner repo)"
  unfolding setup_github_pages_repo_def
proof (intro confined_login confined_from read_then reads_row)
  fix u w tok z inst
  assume a: "req_user req = Some u" "tables_ok E w" "lift_res (access_token W u) w = (Inr tok, w)"
    "get_or_404 E z_id dnszones zone_id w = (Inr z, w)"
  have tok: "access_token W u = Inr tok" using a(3) by (simp add: lift_res_def)
  show "touches E (allowed W E req w) w (snd ((if inst = None then ret (RedirectTo (str ''github_oauth_login'') [str ''?redirect='' @ req_path req])
         else
           seq (require (DNSZone_has_scope W tok z (str ''edit'')))
             (bind_act (repo_call R E inst ''GET'' (repo_url owner repo ''/branches'') []) (\<lambda>(i1, branches_r).
                if status branches_r = 404 then ret (Render (str ''dns_grpc/error.html''))
                else seq (lift_res (raise_for_status branches_r))
                  (bind_act (lift_res (json_of R branches_r)) (\<lambda>branches.
                   bind_act (repo_call R E i1 ''GET'' (repo_url owner repo ''/pages'') []) (\<lambda>(i2, pages_r).
                     if status pages_r = 404 then enable_pages R E req z owner repo i2 branches
                     else bind_act (lift_res (json_of R pages_r)) (adopt_pages R E req z owner repo i2 branches))))))) w))"
    (is "touches _ _ w (snd ((if _ then _ else ?k) w))")
  proof (cases "inst = None")
    case False
    have "touches E (allowed W E req w) w (snd (?k w))"
      by (rule confined_gate[OF a(1) tok got(1)[OF a(4)] a(2)])
        (auto intro!: held_rules held_new_site assms split: prod.split)
    then show ?thesis using False by (simp only: if_False)
  qed (simp add: ret_def tch.R_refl)
qed

text \<open>A zone and one of its records, both of which may change.\<close>

definition row_held :: "ext \<Rightarrow> pstr set \<Rightarrow> dnszone \<Rightarrow> zrec \<Rightarrow> world \<Rightarrow> bool" where
  "row_held E Z z r s \<longleftrightarrow> held E Z z s \<and> rt.owned E Z r s"

lemma stable_row_held: "stable E Z (row_held E Z z r)"
  unfolding row_held_def by (intro stable_conj stable_held stable_rules)

lemma row_heldI: "held E Z z s \<Longrightarrow> r \<in> set (objects m s) \<Longrightarrow> r_zone r \<in> Z \<Longrightarrow> row_held E Z z r s"
  using held_ok(1) rt.owned_row by (auto simp: row_held_def objects_def)

lemma row_heldI2: "held E Z z s \<Longrightarrow> rt.owned E Z r s \<Longrightarrow> row_held E Z z r s"
  by (simp add: row_held_def)

lemma held_on: "stable E Z P \<Longrightarrow> P s \<Longrightarrow> builds E Z s t \<Longrightarrow> P t"
  by (simp add: stable_def)

lemma row_bind:
  "obeys (\<lambda>_. True) (builds E Z) n \<Longrightarrow> (\<And>a. obeys (row_held E Z z r) (builds E Z) (f a))
    \<Longrightarrow> obeys (row_held E Z z r) (builds E Z) (bind_act n f)"
  by (rule touch_bind[OF stable_row_held free_any])

lemma row_seq:
  "obeys (\<lambda>_. True) (builds E Z) n \<Longrightarrow> obeys (row_held E Z z r) (builds E Z) k
    \<Longrightarrow> obeys (row_held E Z z r) (builds E Z) (seq n k)"
  by (rule touch_seq[OF stable_row_held free_any])

lemma row_rename:
  assumes "z_id z \<in> Z" "r_zone r = z_id z"
  shows "obeys (row_held E Z z r) (builds E Z) (rename_record E z r name)"
proof -
  have "rt.owned E Z r = rt.owned E Z (r\<lparr>record_name := name\<rparr>)"
    by (intro ext rt.owned_cong) (simp_all add: pk_def)
  then have "row_held E Z z r s \<Longrightarrow> held E Z z s \<and> rt.owned E Z (r\<lparr>record_name := name\<rparr>) s" for s
    by (simp add: row_held_def)
  then show ?thesis
    unfolding rename_record_def by (intro obeys_pre[OF touch_save_both(1)[OF assms(1)]]) (use assms in simp_all)
qed

lemma row_remove:
  assumes "z_id z \<in> Z"
  shows "obeys (row_held E Z z r) (builds E Z) (seq (save_zone_now E z) (seq (zrec_delete E r) (ret x)))"
  unfolding row_held_def
  by (intro touch_seq touch_finish stable_conj stable_rules stable_held obeys_conj1[OF held_save_now(1)]
      obeys_conj2[OF touch_zrec_delete] assms)

lemmas row_rules = row_bind row_seq free_repo_call bld.obeys_pure row_rename row_remove

lemma record_view_confined:
  assumes "\<And>Z inst z r. z_id z \<in> Z \<Longrightarrow> r_zone r = z_id z
    \<Longrightarrow> obeys (row_held E Z z r) (builds E Z) (k inst z r)"
  shows "confined W E req (github_record_view W E req record_id k)"
  unfolding github_record_view_def
proof (intro confined_login confined_from read_then reads_row)
  fix u w tok r inst z
  assume a: "req_user req = Some u" "tables_ok E w" "lift_res (access_token W u) w = (Inr tok, w)"
    "get_or_404 E r_id (objects M_GitHubPages) record_id w = (Inr r, w)" "foreign z_id dnszones (r_zone r) w = (Inr z, w)"
  have tok: "access_token W u = Inr tok" using a(3) by (simp add: lift_res_def)
  have z: "z \<in> set (dnszones w)" "z_id z = r_zone r" using got(2)[OF a(5)] by auto
  let ?k = "if inst = None \<and> truthy (snd (repo_of r)) \<noteq> None
          then ret (RedirectTo (str ''github_oauth_login'') [str ''?redirect='' @ req_path req]) else k inst z r"
  show "touches E (allowed W E req w) w (snd (seq (require (DNSZone_has_scope W tok z (str ''edit''))) ?k w))"
  proof (cases "DNSZone_has_scope W tok z (str ''edit'') = Inr True")
    case True
    have Z: "z_id z \<in> allowed W E req w" by (rule row_granted[OF a(1) tok z(1) True])
    have "touches E (allowed W E req w) w (snd (k inst z r w))"
      by (rule builds_touches[OF obeys_at[OF assms[OF Z]]])
        (use z row_heldI[OF held_row(1)[OF a(2) z(1) Z] got(1)[OF a(4)]] Z in auto)
    then have "touches E (allowed W E req w) w (snd (?k w))" by (simp add: ret_def tch.R_refl)
    then show ?thesis by (simp add: seq_def bind_act_def require_cases True del: str_simps)
  next
    case False
    then show ?thesis
      by (cases "DNSZone_has_scope W tok z (str ''edit'')") (simp_all add: seq_def bind_act_def require_cases tch.R_refl)
  qed
qed


lemma record_views_confined:
  "confined W E req (edit_github_pages_record W R E req record_id)"
  "confined W E req (delete_github_pages_record W R E req record_id)"
  "confined W E req (github_pages_record_rebuild W R E req record_id)"
  unfolding edit_github_pages_record_def edit_repo_record_def delete_github_pages_record_def
    github_pages_record_rebuild_def Let_def
  by (rule record_view_confined; auto intro!: row_rules split: option.split prod.split)+

lemma bind_pio_cases:
  assumes "bind_pio m f w = Some (x, w')"
  obtains e where "m w = Some (Inl e, w')" "x = Inl e" | a w1 where "m w = Some (Inr a, w1)" "f a w1 = Some (x, w')"
  using assms by (auto simp: bind_pio_def split: option.splits sum.splits)

lemma returning_Some: "returning m w = Some r \<longleftrightarrow> m w = r"
  by (simp add: returning_def)

text \<open>Operations that may not return and concern no zone.\<close>

definition pio_free :: "ext \<Rightarrow> 'a pio \<Rightarrow> bool" where
  "pio_free E m \<longleftrightarrow> (\<forall>Z w x w'. m w = Some (x, w') \<longrightarrow> builds E Z w w')"

lemma pio_free_returning: "(\<And>Z. obeys (\<lambda>_. True) (builds E Z) m) \<Longrightarrow> pio_free E (returning m)"
  by (auto simp: pio_free_def returning_Some dest: obeysD)

lemma pio_freeD: "pio_free E m \<Longrightarrow> m w = Some (x, w') \<Longrightarrow> builds E Z w w'"
  by (simp add: pio_free_def)

lemma pio_free_bind:
  assumes "pio_free E m" "\<And>a. pio_free E (f a)"
  shows "pio_free E (bind_pio m f)"
  unfolding pio_free_def
proof (intro allI impI)
  fix Z w x w'
  assume "bind_pio m f w = Some (x, w')"
  then show "builds E Z w w'"
    by (cases rule: bind_pio_cases)
      (use pio_freeD[OF assms(1)] pio_freeD[OF assms(2)] in \<open>blast intro: bld.R_trans\<close>)+
qed

lemma pio_free_get_all: "pio_free E (github_get_all R E url key auth n xs)"
  by (auto simp: pio_free_def dest: free_get_all)

lemma pio_confined: "pio_free E m \<Longrightarrow> confined_pio W E req m"
  by (auto simp: pio_free_def confined_pio_def intro: builds_touches)

lemma free_callback:
  "obeys (\<lambda>_. True) (builds E Z) (check_state req st (ret x))"
  "obeys (\<lambda>_. True) (builds E Z) (callback_start req u k action)"
  "obeys (\<lambda>_. True) (builds E Z) (exchange_code R E req code st)"
  unfolding callback_start_def check_state_def session_state_def exchange_code_def Let_def
  by (auto intro!: free_rules free_account split: option.split)

lemma oauth_callback_free: "pio_free E (github_oauth_callback R E req)"
  unfolding github_oauth_callback_def callback_finish_def find_installation_def
  by (auto intro!: pio_free_bind pio_free_returning pio_free_get_all free_callback free_rules free_new free_account
      split: option.split sum.split prod.split)

lemma pages_start_touches:
  assumes a: "req_user req = Some u" "inj (uuid E)" "tables_ok E w"
  shows "touches E (allowed W E req w) w (snd (pages_start W E req u zone_id w))"
  unfolding pages_start_def
proof (intro read_then reads_row)
  fix tok z
  assume b: "lift_res (access_token W u) w = (Inr tok, w)" "get_or_404 E z_id dnszones zone_id w = (Inr z, w)"
  have tok: "access_token W u = Inr tok" using b(1) by (simp add: lift_res_def)
  show "touches E (allowed W E req w) w (snd (seq (require (DNSZone_has_scope W tok z (str ''edit'')))
       (case (if is_post req then GithubPagesForm (form_data req) else None) of
          Some name \<Rightarrow> bind_act (save_new_pages E z name None None) (\<lambda>r. ret (Inl r))
        | None \<Rightarrow> bind_act (user_installation u) (\<lambda>i. ret (Inr i))) w))"
    by (rule confined_gate[OF a(1) tok got(1)[OF b(2)] a(3)])
      (auto intro!: touch_bind[OF stable_held(1) held_new_pages] free_any[OF free_bind[OF free_account(2)]] bld.obeys_pure a(2)
        split: option.split)
qed

lemma setup_pages_confined: "inj (uuid E) \<Longrightarrow> confined_pio W E req (setup_github_pages W R E req zone_id)"
proof (cases "req_user req")
  case (Some u)
  assume inj: "inj (uuid E)"
  show ?thesis
    unfolding confined_pio_def
  proof (intro allI impI)
    fix w x w'
    assume run: "setup_github_pages W R E req zone_id w = Some (x, w')"
    let ?list = "\<lambda>inst. bind_pio (returning (get_installation_token R E (Some inst))) (\<lambda>(i, tok).
             bind_pio (github_get_all R E (str ''https://api.github.com/installation/repositories'') ''repositories''
                 (str ''token '' @ token_text tok) 1 []) (\<lambda>repositories.
               returning (ret (Render (str ''dns_grpc/github/add_github_record.html'')))))"
    let ?start = "pages_start W E req u zone_id w"
    have list: "pio_free E (?list inst)" for inst
      by (intro pio_free_bind pio_free_returning free_token) (auto intro!: pio_free_bind pio_free_get_all pio_free_returning bld.obeys_pure)
    have "builds E {} (snd ?start) w'"
      using run list bld.R_refl
      by (auto simp: setup_github_pages_def Some returning_Some ret_def pio_free_def elim!: bind_pio_cases split: sum.splits option.splits)
    then have later: "touches E Z (snd ?start) w'" for Z by (intro touches_wider[OF builds_touches]) auto
    then show "touches E (allowed W E req w) w w'"
      using tch.R_trans[OF pages_start_touches[OF Some inj] later] by (cases "tables_ok E w") (auto simp: touches_def)
  qed
qed (simp add: setup_github_pages_def pio_confined pio_free_returning bld.obeys_pure)

lemma webhook_free: "obeys (\<lambda>_. True) (builds E Z) (webhook R E req)"
  unfolding webhook_def by (auto intro!: free_rules split: option.split)

lemma github_login_free: "obeys (\<lambda>_. True) (builds E Z) (github_oauth_login R E req)"
  unfolding github_oauth_login_def login_required_def
  by (auto intro!: free_rules free_new split: option.split)

lemma google_login_free: "obeys (\<lambda>_. True) (builds E Z) (google_oauth_login R E req u scopes redirect_uri)"
  unfolding google_oauth_login_def by (intro free_rules free_new)

lemma google_callback_free: "obeys (\<lambda>_. True) (builds E Z) (google_oauth_callback R E req)"
  unfolding google_oauth_callback_def google_finish_def session_state_def login_required_def
  by (auto intro!: free_rules free_new free_account google_login_free split: option.split)

lemma scopes_confined:
  assumes "\<And>t. confined W E req (inner t)"
  shows "confined W E req (verify_google_scopes scopes R E req u inner)"
  unfolding verify_google_scopes_def Let_def
  by (auto intro!: confined_then assms free_rules free_account confined_free[OF google_login_free] simp: seq_def
      split: option.split)

lemma txt_row:
  assumes "inj (uuid E)" "z_id z \<in> Z" "held E Z z s" "get_or_create_txt E z data s = (Inr row, t)"
  shows "row_held E Z z row t \<and> r_zone row = z_id z"
proof -
  obtain v where data: "data = Some v" using assms(4) by (cases data) (auto simp: get_or_create_txt_def act_defs)
  let ?found = "[r \<leftarrow> objects M_TXT s. r_zone r = z_id z \<and> body r = TXTRecord v]"
  show ?thesis
  proof (cases ?found)
    case Nil
    let ?r = "new_zrec (uuid E (next_uuid s)) z (str ''@'') 3600 (TXTRecord v)"
    have new: "new_id E s = (Inr (uuid E (next_uuid s)), snd (new_id E s))" by (simp add: new_id_def)
    have saved: "zrec_save E z ?r (snd (new_id E s)) = (Inr (), t)" "row = ?r"
      using assms(4) Nil data new by (auto simp: get_or_create_txt_def Let_def bind_act_def seq_def asks_def ret_def split: sum.splits prod.splits)
    have "builds E Z s (snd (new_id E s))" using obeysD[OF touch_new_id[of "\<lambda>_. True"] _ new] by simp
    then have h: "held E Z z (snd (new_id E s))" using stable_held(1) assms(3) by (auto simp: stable_def)
    have "drawn E (uuid E (next_uuid s)) (snd (new_id E s))"
      using drawn_new[OF assms(1) held_ok(1)[OF assms(3)]] by (simp add: new_id_def)
    then have o: "rt.owned E Z ?r (snd (new_id E s))" by (rule held_drawn(1)[OF h]) (simp_all add: new_zrec_def)
    have "builds E Z (snd (new_id E s)) t"
      by (rule obeysD[OF touch_zrec_save o saved(1)]) (simp add: new_zrec_def assms(2))
    then have "row_held E Z z ?r t"
      by (rule held_on[OF stable_row_held row_heldI2[OF h o]])
    then show ?thesis by (simp add: saved(2) new_zrec_def)
  next
    case (Cons r rs)
    then have "rs = [] \<and> row = r \<and> t = s"
      using assms(4) data by (auto simp: get_or_create_txt_def bind_act_def asks_def ret_def throw_def split: list.splits)
    moreover have "r \<in> set ?found" by (simp add: Cons)
    ultimately show ?thesis using row_heldI[OF assms(3), of r M_TXT] assms(2) by auto
  qed
qed

lemma held_new_rec:
  assumes "z_id z \<in> Z"
  shows "obeys (\<lambda>s. held E Z z s \<and> drawn E i s) (builds E Z) (seq (zrec_save E z (new_zrec i z n l b)) (ret x))"
  by (rule obeys_pre[OF touch_finish[OF rt.stable_owned touch_zrec_save]])
    (use assms held_drawn(1) in \<open>auto simp: new_zrec_def\<close>)

lemma txt_free: "inj (uuid E) \<Longrightarrow> z_id z \<in> Z \<Longrightarrow> obeys (held E Z z) (builds E Z) (get_or_create_txt E z data)"
  unfolding get_or_create_txt_def Let_def
  by (auto intro!: held_bind[OF bld.obeys_pure(4)] touch_new_row stable_held held_new_rec bld.obeys_pure split: option.split list.split)

lemma held_txt:
  assumes "inj (uuid E)" "z_id z \<in> Z" "obeys (\<lambda>_. True) (builds E Z) k"
  shows "obeys (held E Z z) (builds E Z) (bind_act (get_or_create_txt E z data) (\<lambda>row. seq (zrec_save E z row) k))"
proof (rule bld.obeys_bind_strong[OF txt_free[OF assms(1,2)]])
  fix s row t
  assume "held E Z z s" "get_or_create_txt E z data s = (Inr row, t)"
  then have row: "row_held E Z z row t" "r_zone row = z_id z" using txt_row[OF assms(1,2)] by blast+
  have "obeys (row_held E Z z row) (builds E Z) (seq (zrec_save E z row) k)"
    by (intro touch_seq stable_row_held free_any[OF assms(3)] obeys_pre[OF touch_zrec_save])
      (use assms(2) row(2) in \<open>simp_all add: row_held_def\<close>)
  then show "builds E Z t (snd (seq (zrec_save E z row) k t))" by (rule obeys_at) (rule row(1))
qed

lemma verify_zone_confined: "inj (uuid E) \<Longrightarrow> confined W E req (verify_zone_google W R E req zone_id)"
  unfolding verify_zone_google_def
  by (intro confined_login scopes_confined zone_view_confined held_bind held_txt free_rules; simp)

end
