(* ===== verification/Github_Safety.thy ===== *)
theory Github_Safety
  imports Github_Props
begin

text \<open>
  The addresses of the views for GitHub and Google, and their main properties: zones change only for those who
  may change them, a notification counts only with the right signature, a login only with the state that its
  session was given, and the loop over the pages of a list returns exactly when the pages end.
\<close>

section \<open>Addresses\<close>

datatype remote_path =
    P_verify_google pstr | P_setup_github_pages pstr | P_setup_github_pages_repo pstr pstr pstr
  | P_edit_github_record pstr | P_github_record_rebuild pstr | P_delete_github_record pstr
  | P_github_oauth_login | P_github_oauth_callback | P_github_app_webhook | P_google_oauth_callback

fun respond_remote :: "web \<Rightarrow> remote \<Rightarrow> ext \<Rightarrow> remote_path \<Rightarrow> request \<Rightarrow> response pio" where
  "respond_remote W R E (P_verify_google zone_id) req = returning (verify_zone_google W R E req zone_id)"
| "respond_remote W R E (P_setup_github_pages zone_id) req = setup_github_pages W R E req zone_id"
| "respond_remote W R E (P_setup_github_pages_repo zone_id owner repo) req =
     returning (setup_github_pages_repo W R E req zone_id owner repo)"
| "respond_remote W R E (P_edit_github_record record_id) req = returning (edit_github_pages_record W R E req record_id)"
| "respond_remote W R E (P_github_record_rebuild record_id) req = returning (github_pages_record_rebuild W R E req record_id)"
| "respond_remote W R E (P_delete_github_record record_id) req = returning (delete_github_pages_record W R E req record_id)"
| "respond_remote W R E P_github_oauth_login req = returning (github_oauth_login R E req)"
| "respond_remote W R E P_github_oauth_callback req = github_oauth_callback R E req"
| "respond_remote W R E P_github_app_webhook req = returning (webhook R E req)"
| "respond_remote W R E P_google_oauth_callback req = returning (google_oauth_callback R E req)"

lemma pio_returning: "confined W E req m \<Longrightarrow> confined_pio W E req (returning m)"
  by (auto simp: confined_pio_def returning_Some confined_def) (metis snd_conv)

lemma respond_remote_confined:
  assumes "inj (uuid E)"
  shows "confined_pio W E req (respond_remote W R E p req)"
  by (cases p)
    (simp_all add: pio_returning verify_zone_confined[OF assms] setup_pages_confined[OF assms] setup_repo_confined[OF assms]
      record_views_confined pio_confined oauth_callback_free confined_free webhook_free github_login_free google_callback_free)

lemma respond_remote_keeps:
  assumes "inj (uuid E)" "tables_ok E w" "respond_remote W R E p req w = Some (x, w')"
  shows "tables_ok E w'" "zid \<in> all_zone_ids w \<Longrightarrow> \<not> permitted W E req w zid \<Longrightarrow> same_zone zid w w'"
proof -
  have t: "touches E (allowed W E req w) w w'"
    using respond_remote_confined[OF assms(1)] assms(3) by (simp add: confined_pio_def)
  then show "tables_ok E w'" using assms(2) by (simp add: touches_def)
  assume "zid \<in> all_zone_ids w" "\<not> permitted W E req w zid"
  then have "zid \<notin> allowed W E req w" using zone_not_drawn[OF assms(2)] by (auto simp: allowed_def)
  then show "same_zone zid w w'" using t assms(2) by (simp add: touches_def)
qed


section \<open>Samples\<close>

definition sample_remote :: remote where
  "sample_remote = \<lparr>parse_json = (\<lambda>t. Inr (JObj [(str ''installations'', JList [JObj [(str ''id'', JInt 7)]])])),
     json_loads = (\<lambda>b. Inr (JObj [(str ''action'', JStr (str ''deleted'')), (str ''installation'', JObj [(str ''id'', JInt 7)])])),
     py_str = (\<lambda>j. []), isoparse = (\<lambda>j. Inr 0), app_jwt = (\<lambda>t. str ''jwt''), base_url = str ''https://dns.example'',
     github_app = str ''app'', webhook_secret = [1], github_client = (str ''c'', str ''s''), google_client = (str ''c'', str ''s'')\<rparr>"

definition sample_install :: "nat \<Rightarrow> int \<Rightarrow> string \<Rightarrow> gh_install" where
  "sample_install n k name = \<lparr>gi_id = n, gi_installation = k, gi_user = Some (str name), gi_token = Some (str ''t''),
     gi_token_expires = None, gi_user_token = None, gi_user_token_expires = None, gi_refresh = None, gi_refresh_expires = None\<rparr>"



section \<open>Notifications\<close>

text \<open>C10: a notification changes something only if it carries the signature that the secret of the service gives its
  body; then it only removes the installations with the number that the body names as deleted.\<close>

theorem webhook_authentic:
  assumes "webhook R E req w = (x, w')" "w' \<noteq> w"
  shows "hub_signature req = Some (str ''sha256='' @ own_signature R E (raw_body req))
    \<and> (\<exists>k. bind_res (json_loads R (raw_body req)) deleted_installation = Inr (Some k) \<and> x = Inr (Answer 200 [])
         \<and> w' = w\<lparr>gh_installs := [i \<leftarrow> gh_installs w. gi_installation i \<noteq> k]\<rparr>)"
proof -
  obtain sig where sig: "hub_signature req = Some sig" "Sublist.prefix (str ''sha256='') sig"
      "drop 7 sig = own_signature R E (raw_body req)"
    using assms by (auto simp: webhook_def act_defs truthy_def split: option.splits if_splits)
  then obtain k where "bind_res (json_loads R (raw_body req)) deleted_installation = Inr (Some k)"
      "(x, w') = seq (delete_installations k) (ret (Answer 200 [])) w"
    using assms by (auto simp: webhook_def act_defs seq_def truthy_def split: option.splits if_splits sum.splits)
  moreover have "sig = str ''sha256='' @ own_signature R E (raw_body req)"
    using sig(2,3) by (auto simp: Sublist.prefix_def)
  ultimately show ?thesis using sig(1) by (simp add: delete_installations_def modify_def seq_def act_defs)
qed

definition sample_notification :: request where
  "sample_notification = (Web.sample_request ''x'')\<lparr>req_user := None, hub_signature := Some (str ''sha256=01'')\<rparr>"

definition sample_installed :: world where
  "sample_installed = empty_world\<lparr>gh_installs := [sample_install 1 7 ''alice'', sample_install 2 8 ''bob'']\<rparr>"

theorem webhook_authentic_witness:
  "own_signature sample_remote sample_ext [] = str ''01''
    \<and> gh_installs (snd (webhook sample_remote sample_ext sample_notification sample_installed)) = [sample_install 2 8 ''bob'']"
proof -
  let ?w = sample_installed
  obtain x w' where run: "webhook sample_remote sample_ext sample_notification ?w = (x, w')" by fastforce
  have own: "own_signature sample_remote sample_ext [] = str ''01''"
    by (simp add: own_signature_def sample_remote_def hexlify_def hex_digit_def)
  have "w' \<noteq> ?w"
    using run own
    by (auto simp: webhook_def sample_notification_def Web.sample_request_def truthy_def sample_remote_def act_defs seq_def
        deleted_installation_def res_simps delete_installations_def sample_installed_def sample_install_def empty_world_def
        is_ascii_def dest!: arg_cong[where f = gh_installs])
  then have "gh_installs w' = [sample_install 2 8 ''bob'']"
    using webhook_authentic[OF run]
    by (auto simp: sample_remote_def deleted_installation_def res_simps sample_installed_def sample_install_def)
  then show ?thesis using own by (simp only: run snd_conv)
qed



section \<open>Logins\<close>

lemma get_all_installs: "github_get_all R E url key auth n xs w = Some (x, w') \<Longrightarrow> gh_installs w' = gh_installs w \<and> gh_states w' = gh_states w"
  by (rule get_all_related[where Q = "\<lambda>u v. gh_installs v = gh_installs u \<and> gh_states v = gh_states u"])
    (simp_all add: emit_def)

lemma callback_start_reads: "snd (callback_start req u k action w) = w"
  by (simp add: callback_start_def check_state_def session_state_def user_account_def act_defs Let_def
      split: option.split sum.split)

lemma check_state_cases:
  assumes "check_state req st (ret a) w = (Inr (Inr b), w')"
  shows "b = a \<and> (st = None \<or> map_of (query req) (str ''state'') = map_option st_state st)"
  using assms by (auto simp: check_state_def act_defs split: option.splits if_splits)

lemma session_state_cases:
  "session_state req key rows w = (Inr (Some s), w') \<Longrightarrow> s \<in> set (rows w) \<and> key (get_session req w) = Some (st_id s)"
  by (auto simp: session_state_def asks_def find_Some_iff split: option.splits dest: nth_mem)

lemma found_in: "find P xs = Some x \<Longrightarrow> x \<in> set xs \<and> P x"
  by (auto simp: find_Some_iff dest: nth_mem)

lemma callback_start_cases:
  assumes "callback_start req u k action w = (Inr (Inr (st, inst)), w')"
  shows "st = Some s \<Longrightarrow> s \<in> set (gh_states w) \<and> github_state_id (get_session req w) = Some (st_id s)
      \<and> map_of (query req) (str ''state'') = Some (st_state s)"
    "inst = Some i \<Longrightarrow> gi_user i = Some (username u) \<and> gi_installation i = k"
  using assms
  by (auto simp: callback_start_def check_state_def session_state_def user_account_def act_defs Let_def
      split: option.splits if_splits sum.splits dest!: found_in)

lemma find_installation_cases:
  assumes "find_installation R E u k t inst w = Some (x, w')"
  shows "gh_installs w' = gh_installs w \<and> gh_states w' = gh_states w
    \<and> (\<forall>i. x = Inr (Some i) \<longrightarrow> inst = Some i \<or> gi_user i = Some (username u) \<and> gi_installation i = k)"
proof (cases inst)
  case None
  let ?pick = "\<lambda>installations. bind_act (lift_res (lists_installation k installations)) (\<lambda>found.
           if \<not> found then ret None
           else bind_act (user_account u) (\<lambda>_. bind_act (new_key E) (\<lambda>n.
             ret (Some \<lparr>gi_id = n, gi_installation = k, gi_user = Some (username u), gi_token = None,
               gi_token_expires = None, gi_user_token = None, gi_user_token_expires = None, gi_refresh = None,
               gi_refresh_expires = None\<rparr>))))"
  have pick: "gh_installs v' = gh_installs v \<and> gh_states v' = gh_states v
      \<and> (\<forall>i. y = Inr (Some i) \<longrightarrow> gi_user i = Some (username u) \<and> gi_installation i = k)" if "?pick js v = (y, v')" for js v y v'
    using that by (auto simp: new_key_def new_id_def user_account_def act_defs split: sum.splits if_splits option.splits)
  show ?thesis
    using assms[unfolded None find_installation_def option.case]
  proof (cases rule: bind_pio_cases)
    case (1 e)
    then show ?thesis using get_all_installs[OF 1(1)] by simp
  next
    case (2 js v)
    then show ?thesis using get_all_installs[OF 2(1)] pick[of js v x w'] by (simp add: returning_Some)
  qed
qed (use assms in \<open>auto simp: find_installation_def returning_Some ret_def\<close>)

lemma callback_finish_cases:
  assumes "callback_finish R E req u code k st inst w = Some (x, w')" "gh_installs w' \<noteq> gh_installs w"
    and "\<And>i. inst = Some i \<Longrightarrow> gi_user i = Some (username u) \<and> gi_installation i = k"
  shows "\<exists>s i. st = Some s \<and> gh_states w' = [t \<leftarrow> gh_states w. st_id t \<noteq> st_id s]
    \<and> gh_installs w' = upsert gi_id i (gh_installs w) \<and> gi_user i = Some (username u) \<and> gi_installation i = k"
proof (cases st)
  case None
  then show ?thesis using assms(1,2)
    by (simp add: callback_finish_def exchange_code_def bind_pio_def returning_def throw_def)
next
  case (Some s)
  let ?open = "[t \<leftarrow> gh_states w. st_id t \<noteq> st_id s]"
  obtain r w1 where ex: "exchange_code R E req code st w = (r, w1)" by fastforce
  then have w1: "gh_installs w1 = gh_installs w" "gh_states w1 = gh_states w"
    by (auto simp: exchange_code_def Some rest_call_def http_call_def emit_def)
  let ?w2 = "w1\<lparr>gh_states := ?open\<rparr>"
  obtain p t y w3 where p: "r = Inr p" "status p = 200" and t: "bind_res (json_of R p) (read_tokens (now ?w2)) = Inr t"
    and find: "find_installation R E u k t inst ?w2 = Some (y, w3)"
    and rest: "(case y of Inl e \<Rightarrow> Some (Inl e, w3)
      | Inr None \<Rightarrow> Some (Inr (Answer 400 []), w3)
      | Inr (Some i) \<Rightarrow> Some (seq (GitHubInstallation_save (set_tokens R t i)) (ret (back_to st)) w3)) = Some (x, w')"
    using assms(1,2) ex w1
    by (auto simp: callback_finish_def bind_pio_def returning_def act_defs Some split: option.splits sum.splits if_splits)
  note found = find_installation_cases[OF find]
  obtain i where i: "y = Inr (Some i)" using rest found w1 assms(2) by (auto split: sum.splits option.splits)
  have own: "gi_user i = Some (username u) \<and> gi_installation i = k" using found i assms(3) by auto
  have "gh_installs w' = upsert gi_id (set_tokens R t i) (gh_installs w) \<and> gh_states w' = ?open"
    using rest i found w1 by (auto simp: GitHubInstallation_save_def act_defs seq_def)
  then show ?thesis using own Some by (intro exI[of _ s] exI[of _ "set_tokens R t i"]) (simp add: set_tokens_def)
qed

text \<open>C11: a login over GitHub changes the installations only if its request has the state that the session was given, in
  a row that is still there and is used up by it; then it stores one installation, of the user who
  is logged in and with the number of the request.\<close>

theorem oauth_callback_bound:
  assumes "github_oauth_callback R E req w = Some (x, w')" "gh_installs w' \<noteq> gh_installs w"
  shows "\<exists>u q k s i. req_user req = Some u \<and> map_of (query req) (str ''installation_id'') = Some q \<and> py_int q = Inr k
    \<and> s \<in> set (gh_states w) \<and> github_state_id (get_session req w) = Some (st_id s)
    \<and> map_of (query req) (str ''state'') = Some (st_state s) \<and> gh_states w' = [t \<leftarrow> gh_states w. st_id t \<noteq> st_id s]
    \<and> gh_installs w' = upsert gi_id i (gh_installs w) \<and> gi_user i = Some (username u) \<and> gi_installation i = k"
proof -
  obtain u code q action k where u: "req_user req = Some u" "map_of (query req) (str ''installation_id'') = Some q" "py_int q = Inr k"
    and run: "bind_pio (returning (callback_start req u k action)) (\<lambda>r. case r of
               Inl resp \<Rightarrow> returning (ret resp)
             | Inr (st, inst) \<Rightarrow> callback_finish R E req u code k st inst) w = Some (x, w')"
    using assms by (auto simp: github_oauth_callback_def returning_Some ret_def split: option.splits sum.splits)
  obtain st inst where start: "callback_start req u k action w = (Inr (Inr (st, inst)), w)"
    and fin: "callback_finish R E req u code k st inst w = Some (x, w')"
    using run assms(2) callback_start_reads[of req u k action w]
    by (cases "callback_start req u k action w") (auto simp: bind_pio_def returning_def ret_def split: sum.splits)
  show ?thesis
    using callback_finish_cases[OF fin assms(2) callback_start_cases(2)[OF start]] callback_start_cases(1)[OF start] u
    by (auto simp del: str_simps)
qed

definition sample_callback :: request where
  "sample_callback = (Web.sample_request ''alice'')\<lparr>is_post := False, query := [(str ''code'', str ''c''),
     (str ''installation_id'', str ''7''), (str ''setup_action'', str ''install''), (str ''state'', str ''u3'')]\<rparr>"

definition sample_state :: oauth_state where
  "sample_state = \<lparr>st_id = 3, st_user = str ''alice'', st_state = str ''u3'', st_redirect = None\<rparr>"

definition sample_login :: world where
  "sample_login = empty_world\<lparr>gh_states := [sample_state], accounts := [(str ''alice'', \<lparr>acc_id = 1, subscription_id = None, subscription_active = False\<rparr>)],
     sessions := [(str ''s'', \<lparr>github_state_id = Some 3, google_state_id = None, zone_notice = None\<rparr>)]\<rparr>"

lemma sample_callback_simps:
  "req_user sample_callback = Some \<lparr>username = str ''alice''\<rparr>" "session_key sample_callback = str ''s''"
  "map_of (query sample_callback) (str ''code'') = Some (str ''c'')"
  "map_of (query sample_callback) (str ''installation_id'') = Some (str ''7'')"
  "map_of (query sample_callback) (str ''setup_action'') = Some (str ''install'')"
  "map_of (query sample_callback) (str ''state'') = Some (str ''u3'')"
  by (simp_all add: sample_callback_def Web.sample_request_def)

lemma sample_installation_id: "py_int (str ''7'') = Inr 7"
  by (simp add: py_int_def py_strip_def is_space_def nat_of_digits_def is_digit_def)

lemma sample_start:
  "callback_start sample_callback \<lparr>username = str ''alice''\<rparr> 7 (str ''install'') sample_login
    = (Inr (Inr (Some sample_state, None)), sample_login)"
  by (simp add: callback_start_def check_state_def session_state_def get_session_def sample_callback_simps act_defs sample_login_def
      sample_state_def del: str_simps) simp

lemma sample_list:
  "github_get_all sample_remote sample_ext url ''installations'' auth n [] w
    = Some (Inr [JObj [(str ''id'', JInt 7)]],
        emit (Http (RestCall (str ''GET'') url auth [(str ''per_page'', str ''100''), (str ''page'', dec_str n)])) w)"
  by (subst github_get_all.simps)
    (simp add: rest_call_def http_call_def raise_for_status_def json_of_def sample_remote_def res_simps)

lemma sample_answers:
  "bind_res (json_of sample_remote r) (read_tokens t)
    = Inr \<lparr>ut_access = JNull, ut_access_expires = None, ut_refresh = JNull, ut_refresh_expires = None\<rparr>"
  "lists_installation 7 [JObj [(str ''id'', JInt 7)]] = Inr True"
  "accounts sample_login = [(str ''alice'', \<lparr>acc_id = 1, subscription_id = None, subscription_active = False\<rparr>)]"
  "st_redirect sample_state = None" "gh_installs sample_login = []"
  by (simp_all add: json_of_def read_tokens_def sample_remote_def expires_in_def res_simps sample_login_def sample_state_def
      empty_world_def)

lemma sample_callback_run:
  "\<exists>w'. github_oauth_callback sample_remote sample_ext sample_callback sample_login = Some (Inr (RedirectTo (str ''zones'') []), w')
    \<and> map gi_installation (gh_installs w') = [7]"
  by (simp add: github_oauth_callback_def sample_callback_simps sample_installation_id returning_def bind_pio_def sample_start
      callback_finish_def exchange_code_def find_installation_def sample_list sample_answers rest_call_def http_call_def
      user_account_def account_of_def new_key_def new_id_def GitHubInstallation_save_def upsert_def set_tokens_def
      back_to_def truthy_def emit_def act_defs seq_def del: str_simps)

theorem oauth_callback_bound_witness:
  "\<exists>w'. github_oauth_callback sample_remote sample_ext sample_callback sample_login = Some (Inr (RedirectTo (str ''zones'') []), w')
    \<and> gh_states w' = [] \<and> map gi_user (gh_installs w') = [Some (str ''alice'')]"
proof -
  obtain w' where run: "github_oauth_callback sample_remote sample_ext sample_callback sample_login = Some (Inr (RedirectTo (str ''zones'') []), w')"
    and one: "map gi_installation (gh_installs w') = [7]" using sample_callback_run by (elim exE conjE) (rule that)
  have w: "gh_states sample_login = [sample_state]" "gh_installs sample_login = []" by (simp_all add: sample_login_def empty_world_def)
  then have "gh_installs w' \<noteq> gh_installs sample_login" using one by auto
  from oauth_callback_bound[OF run this] obtain u q k s i where bound: "req_user sample_callback = Some u" "s \<in> set (gh_states sample_login)"
      "gh_states w' = [t \<leftarrow> gh_states sample_login. st_id t \<noteq> st_id s]"
      "gh_installs w' = upsert gi_id i (gh_installs sample_login)" "gi_user i = Some (username u)"
    by (elim exE conjE) (rule that)
  have "gh_states w' = [] \<and> map gi_user (gh_installs w') = [Some (str ''alice'')]"
    using bound(1,2) by (auto simp: bound(3-5) w upsert_def sample_callback_simps simp del: str_simps)
  then show ?thesis using run by (elim conjE) (intro exI conjI)
qed



section \<open>Lists in pages\<close>

text \<open>The site answers the request for the page \<open>n\<close> with the elements \<open>js\<close>, whatever it was asked before.\<close>

definition page_request :: "pstr \<Rightarrow> pstr \<Rightarrow> nat \<Rightarrow> http_req" where
  "page_request url auth n = RestCall (str ''GET'') url auth [(str ''per_page'', str ''100''), (str ''page'', dec_str n)]"

definition serves :: "remote \<Rightarrow> ext \<Rightarrow> pstr \<Rightarrow> string \<Rightarrow> pstr \<Rightarrow> nat \<Rightarrow> json list \<Rightarrow> bool" where
  "serves R E url key auth n js \<longleftrightarrow> (\<forall>h. \<exists>r. http E h (page_request url auth n) = Inr r
     \<and> bind_res (raise_for_status r) (\<lambda>_. bind_res (json_of R r) (\<lambda>j. bind_res (jsub j key) jitems)) = Inr js)"

lemma get_all_page:
  assumes "serves R E url key auth n js"
  shows "github_get_all R E url key auth n xs w =
    (if length js = 100 then github_get_all R E url key auth (Suc n) (xs @ js) (emit (Http (page_request url auth n)) w)
     else Some (Inr (xs @ js), emit (Http (page_request url auth n)) w))"
proof -
  obtain r where "http E (events w) (page_request url auth n) = Inr r"
      "bind_res (raise_for_status r) (\<lambda>_. bind_res (json_of R r) (\<lambda>j. bind_res (jsub j key) jitems)) = Inr js"
    using assms unfolding serves_def by blast
  then show ?thesis
    by (subst github_get_all.simps) (simp add: rest_call_def http_call_def page_request_def)
qed

lemma get_all_from:
  assumes "\<And>i. i < length ps \<Longrightarrow> serves R E url key auth (n + i) (ps ! i) \<and> length (ps ! i) = 100"
    and "serves R E url key auth (n + length ps) js" "length js \<noteq> 100"
  shows "\<exists>w'. github_get_all R E url key auth n xs w = Some (Inr (xs @ concat ps @ js), w')
    \<and> events w' = events w @ map (\<lambda>i. Http (page_request url auth i)) [n ..< Suc (n + length ps)]"
  using assms
proof (induction ps arbitrary: n xs w)
  case Nil
  then show ?case by (simp add: get_all_page emit_def)
next
  case (Cons p ps)
  let ?w = "emit (Http (page_request url auth n)) w"
  have p: "serves R E url key auth n p" "length p = 100" using Cons.prems(1)[of 0] by auto
  have "\<exists>w'. github_get_all R E url key auth (Suc n) (xs @ p) ?w = Some (Inr ((xs @ p) @ concat ps @ js), w')
      \<and> events w' = events ?w @ map (\<lambda>i. Http (page_request url auth i)) [Suc n ..< Suc (Suc n + length ps)]"
    by (rule Cons.IH) (use Cons.prems(1)[of "Suc i" for i] Cons.prems(2,3) in auto)
  then show ?case using p by (simp add: get_all_page[OF p(1)] emit_def upt_conv_Cons del: upt_Suc)
qed

text \<open>C12: a list whose pages are full up to a shorter one is read completely and in order, with one request for
  each page; the loop ends there.\<close>

theorem get_all_complete:
  assumes "\<forall>i < length ps. serves R E url key auth (Suc i) (ps ! i) \<and> length (ps ! i) = 100"
    and "serves R E url key auth (Suc (length ps)) js" "length js \<noteq> 100"
  shows "\<exists>w'. github_get_all R E url key auth 1 [] w = Some (Inr (concat ps @ js), w')
    \<and> events w' = events w @ map (\<lambda>i. Http (page_request url auth i)) [1 ..< Suc (Suc (length ps))]"
  using get_all_from[of ps R E url key auth 1 js "[]" w] assms by simp

definition sample_pages :: ext where
  "sample_pages = sample_ext\<lparr>http := (\<lambda>h q. Inr \<lparr>status = 200, resp_id = [], resp_redirect = [],
     resp_text = (if q = page_request (str ''u'') [] 1 then [1] else [])\<rparr>)\<rparr>"

definition sample_reader :: remote where
  "sample_reader = sample_remote\<lparr>parse_json := (\<lambda>t.
     Inr (JObj [(str ''repositories'', JList (replicate (if t = [1] then 100 else 7) (JInt 0)))]))\<rparr>"

lemma sample_serves:
  "serves sample_reader sample_pages (str ''u'') ''repositories'' [] 1 (replicate 100 (JInt 0))"
  "serves sample_reader sample_pages (str ''u'') ''repositories'' [] 2 (replicate 7 (JInt 0))"
  by (simp_all add: serves_def sample_pages_def sample_reader_def page_request_def raise_for_status_def json_of_def res_simps
      inj_eq[OF inj_dec_str])

theorem get_all_complete_witness:
  "\<exists>w'. github_get_all sample_reader sample_pages (str ''u'') ''repositories'' [] 1 [] sample_login
      = Some (Inr (replicate 107 (JInt 0)), w') \<and> length (events w') = length (events sample_login) + 2"
proof -
  let ?full = "[replicate 100 (JInt 0)]" and ?rest = "replicate 7 (JInt 0)"
  have pages: "\<forall>i < length ?full. serves sample_reader sample_pages (str ''u'') ''repositories'' [] (Suc i) (?full ! i) \<and> length (?full ! i) = 100"
    "serves sample_reader sample_pages (str ''u'') ''repositories'' [] (Suc (length ?full)) ?rest" "length ?rest \<noteq> 100"
    using sample_serves by (simp_all add: numeral_2_eq_2 del: str_simps)
  have all: "concat ?full @ ?rest = replicate 107 (JInt 0)" by (simp add: replicate_add[symmetric])
  from get_all_complete[OF pages, of sample_login] show ?thesis unfolding all by (elim exE conjE) (intro exI conjI, assumption, simp)
qed



section \<open>Updates and renewals that cannot succeed\<close>

text \<open>An update of an installation that GitHub sends without a state passes every check and then fails, before any
  request, at \<^verbatim>\<open>state.state\<close>.\<close>

theorem update_without_state_fails:
  assumes "req_user req = Some u" "account_of w (username u) = Some a"
    and "map_of (query req) (str ''code'') = Some code" "map_of (query req) (str ''installation_id'') = Some q" "py_int q = Inr k"
    and "map_of (query req) (str ''setup_action'') = Some (str ''update'')" "map_of (query req) (str ''state'') = None"
    and "i \<in> set (gh_installs w)" "gi_installation i = k" "gi_user i = Some (username u)"
  shows "github_oauth_callback R E req w = Some (Inl AttributeError, w)"
proof -
  obtain j where j: "find (\<lambda>i. gi_installation i = k \<and> gi_user i = Some (username u)) (gh_installs w) = Some j"
    using assms(8-10) by (cases "find (\<lambda>i. gi_installation i = k \<and> gi_user i = Some (username u)) (gh_installs w)") (auto simp: find_None_iff)
  have "callback_start req u k (str ''update'') w = (Inr (Inr (None, Some j)), w)"
    using assms(2,7) j by (simp add: callback_start_def check_state_def session_state_def user_account_def act_defs Let_def del: str_simps)
  then show ?thesis using assms(1,3-6)
    by (simp add: github_oauth_callback_def bind_pio_def returning_def callback_finish_def exchange_code_def throw_def del: str_simps)
qed

text \<open>A refresh token of Google that has not expired is never used: while its time of expiry lies ahead, a view that
  needs a new token sends the user to the login.\<close>

theorem live_refresh_token_unused:
  assumes "account_of w (username u) = Some a" "find (\<lambda>i. gg_user i = Some (username u)) (gg_installs w) = Some i"
    and "live_token (gg_token i) (gg_token_expires i) (now w) = None" "gg_refresh_expires i = Some e" "now w < e"
  shows "verify_google_scopes scopes R E req u inner w = google_oauth_login R E req u scopes (Some (req_path req)) w"
  using assms by (simp add: verify_google_scopes_def google_installation_def user_account_def act_defs Let_def)

end
