(* ===== verification/Hexdns_System.thy ===== *)
theory Hexdns_System
  imports View_Safety Rest_Props Github_Safety Update_Props Worker_Props
begin

text \<open>
  The whole service as one transition system: requests to the web and REST interfaces, update packets, tasks of
  the worker and the passing of time, in any order, on one database. The trace of a run notes each
  event with the state in which it happened. A request that never returns is no step.
\<close>

section \<open>Events and steps\<close>

datatype sys_event =
    Ev_web path request | Ev_api api_path api_request | Ev_remote remote_path request | Ev_packet bytes | Ev_task task | Ev_clock nat

inductive sys_step :: "web \<Rightarrow> api \<Rightarrow> remote \<Rightarrow> ext \<Rightarrow> nat \<Rightarrow> sys_event \<Rightarrow> world \<Rightarrow> world \<Rightarrow> bool" for W A R E n where
  web: "respond W E p req w = (x, w') \<Longrightarrow> sys_step W A R E n (Ev_web p req) w w'"
| api: "api_respond W A E path req w = (x, w') \<Longrightarrow> sys_step W A R E n (Ev_api path req) w w'"
| remote: "respond_remote W R E p req w = Some (x, w') \<Longrightarrow> sys_step W A R E n (Ev_remote p req) w w'"
| packet: "UpdateQuery n E data w = (x, w') \<Longrightarrow> sys_step W A R E n (Ev_packet data) w w'"
| finished: "worker_done E t w w' \<Longrightarrow> sys_step W A R E n (Ev_task t) w w'"
| retried: "worker_retry E t w w' \<Longrightarrow> sys_step W A R E n (Ev_task t) w w'"
| clock: "now w \<le> t \<Longrightarrow> sys_step W A R E n (Ev_clock t) w (w\<lparr>now := t\<rparr>)"

inductive sys_run :: "web \<Rightarrow> api \<Rightarrow> remote \<Rightarrow> ext \<Rightarrow> nat \<Rightarrow> world \<Rightarrow> (sys_event \<times> world) list \<Rightarrow> world \<Rightarrow> bool" for W A R E n where
  idle: "sys_run W A R E n w [] w"
| event: "sys_step W A R E n ev w v \<Longrightarrow> sys_run W A R E n v tr w' \<Longrightarrow> sys_run W A R E n w ((ev, w) # tr) w'"

inductive_simps sys_run_simps: "sys_run W A R E n w [] w'" "sys_run W A R E n w (x # tr) w'"

text \<open>Who may change a zone: for the web interface \<open>permitted\<close>, for the REST interface \<open>api_allowed\<close>; an update packet
  must be signed, in time, with a key of the zone; tasks and time may not.\<close>

fun authorised :: "web \<Rightarrow> api \<Rightarrow> ext \<Rightarrow> sys_event \<Rightarrow> world \<Rightarrow> pstr \<Rightarrow> bool" where
  "authorised W A E (Ev_web p req) w zid \<longleftrightarrow> permitted W E req w zid"
| "authorised W A E (Ev_api path req) w zid \<longleftrightarrow> zid \<in> api_allowed W A req w"
| "authorised W A E (Ev_remote p req) w zid \<longleftrightarrow> permitted W E req w zid"
| "authorised W A E (Ev_packet data) w zid \<longleftrightarrow>
     (\<exists>req z. msg_parse E data = Inr req \<and> signed_update E w req z \<and> z_id z = zid)"
| "authorised W A E (Ev_task t) w zid \<longleftrightarrow> False"
| "authorised W A E (Ev_clock t) w zid \<longleftrightarrow> False"


section \<open>One step\<close>

lemma UpdateQuery_cases:
  assumes "UpdateQuery n E data w = (x, w')" "w' \<noteq> w"
  obtains req y where "msg_parse E data = Inr req" "handle_update_query n E req w = (y, w')"
  using assms unfolding UpdateQuery_def by (auto split: sum.splits exn.splits prod.splits)

lemma zone_named_in: "zone_named E w zn = Some z \<Longrightarrow> z \<in> set (dnszones w)"
  by (auto simp: zone_named_def zones_by_length_def split: list.splits if_splits dest!: arg_cong[where f = set] last_in_set)

lemma packet_builds:
  assumes "inj (uuid E)" "tables_ok E w" "UpdateQuery n E data w = (x, w')"
  shows "w' = w \<or> (\<exists>zid. authorised W A E (Ev_packet data) w zid \<and> builds E {zid} w w')"
proof (cases "w' = w")
  case False
  then obtain req y where parse: "msg_parse E data = Inr req" and run: "handle_update_query n E req w = (y, w')"
    using UpdateQuery_cases[OF assms(3)] by blast
  obtain z zn where z: "zone_named E w zn = Some z" "signed_update E w req z" "zone_step E (z_id z) w w'"
    using handle_update_step[OF assms(1) tables_db_ok[OF assms(2)] run False] by blast
  have "z_id z \<in> zone_ids w" using zone_named_in[OF z(1)] by (simp add: zone_ids_def)
  then show ?thesis using zone_step_builds[OF assms(2) z(3)] parse z(2) by auto
qed simp

lemma same_zone_tables: "tables w' = tables w \<Longrightarrow> same_zone zid w w'"
  "tables w' = tables w \<Longrightarrow> tables_ok E w' \<longleftrightarrow> tables_ok E w"
  by (cases w; cases w'; simp add: tables_def same_zone_def integrity_defs zone_id_defs)+

lemma sys_step_safe:
  assumes "inj (uuid E)" "forms_typed W" "api_typed A" "tables_ok E w" "sys_step W A R E n ev w w'"
  shows "tables_ok E w' \<and> (zid \<in> all_zone_ids w \<longrightarrow> \<not> authorised W A E ev w zid \<longrightarrow> same_zone zid w w')"
  using assms(5)
proof (cases rule: sys_step.cases)
  case (web p req x)
  then show ?thesis
    using respond_keeps(1)[OF assms(1,2,4), of p req] respond_keeps(2)[OF assms(1,2,4), where p = p and req = req and zid = zid] by simp
next
  case (api path req x)
  then show ?thesis
    using api_respond_keeps(1)[OF assms(1,3,4), of W path req] api_respond_keeps(2)[OF assms(1,3,4), where W = W and path = path and req = req and zid = zid] by (auto split: prod.splits)
next
  case (remote p req x)
  then show ?thesis
    using respond_remote_keeps(1)[OF assms(1,4) remote(2)] respond_remote_keeps(2)[OF assms(1,4) remote(2), of zid] by auto
next
  case (packet data x)
  then show ?thesis
    using packet_builds[OF assms(1,4) packet(2), of W] assms(4)
    by (auto simp: builds_def touches_def same_zone_refl) metis+
next
  case (finished t)
  then show ?thesis using worker_done_effect(2) same_zone_tables[of w' w] assms(4) by metis
next
  case (retried t)
  then show ?thesis using worker_retry_effect(2) same_zone_tables[of w' w] assms(4) by metis
next
  case (clock t)
  then show ?thesis using assms(4) by (simp add: same_zone_def integrity_defs zone_id_defs)
qed


section \<open>Runs\<close>

lemma sys_run_safe:
  assumes "inj (uuid E)" "forms_typed W" "api_typed A" "sys_run W A R E n w tr w'" "tables_ok E w"
  shows "tables_ok E w'
    \<and> (zid \<in> all_zone_ids w \<longrightarrow> (\<forall>(ev, v) \<in> set tr. \<not> authorised W A E ev v zid) \<longrightarrow> same_zone zid w w')"
  using assms(4,5)
proof (induction rule: sys_run.induct)
  case (idle w)
  then show ?case by (simp add: same_zone_refl)
next
  case (event ev w v tr w')
  have s: "tables_ok E v" "zid \<in> all_zone_ids w \<Longrightarrow> \<not> authorised W A E ev w zid \<Longrightarrow> same_zone zid w v"
    using sys_step_safe[OF assms(1-3) event.prems event.hyps(1)] by auto
  then show ?case
    using event.IH[OF s(1)] same_zone_ids[of zid w v] same_zone_trans[of zid w v w'] by auto
qed

definition sample_system :: world where
  "sample_system = empty_world\<lparr>dnszones := [sample_zone], now := 5\<rparr>"

definition sample_switch :: "(sys_event \<times> world) list" where
  "sample_switch = [(Ev_web (Key_path (P_enable_zone_cds (str ''z1''))) (Web.sample_request ''alice''), sample_system)]"

lemma sample_system_ok: "tables_ok sample_ext sample_system"
  by (auto simp: integrity_defs fresh_def sample_system_def empty_world_def sample_zone_def)

lemma sample_zone_id: "z_id sample_zone = str ''z1''" "z_last_modified sample_zone = 0"
  by (simp_all add: sample_zone_def)

lemma sample_switch_run:
  "\<exists>w. sys_run sample_web sample_api sample_remote sample_ext 1 sample_system sample_switch w \<and> map z_last_modified [z \<leftarrow> dnszones w. z_id z = str ''z1''] = [5]"
proof -
  let ?r = "respond sample_web sample_ext (Key_path (P_enable_zone_cds (str ''z1''))) (Web.sample_request ''alice'') sample_system"
  have "sys_run sample_web sample_api sample_remote sample_ext 1 sample_system sample_switch (snd ?r)"
    unfolding sample_switch_def by (rule sys_run.event[OF sys_step.web sys_run.idle], rule prod.collapse[symmetric])
  moreover have "map z_last_modified [z \<leftarrow> dnszones (snd ?r). z_id z = str ''z1''] = [5]"
    by (simp add: enable_zone_cds_def zone_view_def frame_defs DNSZone_has_scope_def save_zone_now_def DNSZone_save_def keycloak_resource_def
        Web.sample_request_def sample_system_def sample_zone_id seq_def upsert_def)
  ultimately show ?thesis by (intro exI conjI)
qed

text \<open>C1: every change of a zone or of a row that belongs to it (records, keys, access lists, name servers and
  the others), in whatever order requests to the web and REST interfaces, update packets, tasks and time happen,
  goes back to an event that was entitled to it when it happened: a request of an administrator, of a
  user or token to whom Keycloak grants the scope for that zone, with a signed domain token for its name or with the
  password of a dynamic address in it, or an update packet signed in time with a key of the zone. Only the REST
  interface lets a caller with any token add a record to a zone, or move a LOC record there, if Keycloak
  lets that zone be seen without a token.\<close>

theorem zone_changes_are_authorised:
  assumes "inj (uuid E)" "forms_typed W" "api_typed A" "tables_ok E w" "zid \<in> all_zone_ids w"
    and "sys_run W A R E n w tr w'" "\<not> same_zone zid w w'"
  shows "\<exists>(ev, v) \<in> set tr. authorised W A E ev v zid"
  using sys_run_safe[OF assms(1-3,6,4), of zid] assms(5,7) by blast

theorem zone_changes_are_authorised_witness:
  "\<exists>(ev, v) \<in> set sample_switch. authorised sample_web sample_api sample_ext ev v (str ''z1'')"
proof -
  obtain w where w: "sys_run sample_web sample_api sample_remote sample_ext 1 sample_system sample_switch w"
      "map z_last_modified [z \<leftarrow> dnszones w. z_id z = str ''z1''] = [5]"
    using sample_switch_run by (elim exE conjE)
  have "\<not> same_zone (str ''z1'') sample_system w"
  proof
    assume "same_zone (str ''z1'') sample_system w"
    then have "[z \<leftarrow> dnszones w. z_id z = str ''z1''] = [z \<leftarrow> dnszones sample_system. z_id z = str ''z1'']"
      unfolding same_zone_def by (rule conjunct1)
    then show False using w(2) by (simp add: sample_system_def sample_zone_id)
  qed
  moreover have "str ''z1'' \<in> all_zone_ids sample_system"
    by (simp add: all_zone_ids_def zone_id_defs sample_system_def sample_zone_id)
  ultimately show ?thesis
    using zone_changes_are_authorised[OF inj_sample_uuid sample_forms_typed sample_api_typed sample_system_ok _ w(1)] by blast
qed

text \<open>C2: the database stays consistent in every run: identifiers are unique, none is one that is still to be
  drawn, every row refers to a zone that exists, so that following its reference cannot fail.\<close>

theorem integrity_invariant:
  assumes "inj (uuid E)" "forms_typed W" "api_typed A" "tables_ok E w" "sys_run W A R E n w tr w'"
  shows "tables_ok E w' \<and> (\<forall>r \<in> set (zrecs w'). \<exists>z. get_fzone w' (r_zone r) = Some z)"
proof -
  have ok: "tables_ok E w'" using sys_run_safe[OF assms(1-3,5,4)] by simp
  then have "\<exists>z. get_fzone w' (r_zone r) = Some z" if "r \<in> set (zrecs w')" for r
    using rt.rows_home[OF ok that] by (auto simp: get_fzone_def zone_ids_def find_None_iff not_None_eq[symmetric] simp del: not_None_eq)
  then show ?thesis using ok by blast
qed

theorem integrity_invariant_witness:
  "\<exists>w. sys_run sample_web sample_api sample_remote sample_ext 1 sample_system sample_switch w \<and> tables_ok sample_ext w"
  using sample_switch_run integrity_invariant[OF inj_sample_uuid sample_forms_typed sample_api_typed sample_system_ok] by blast

end
