(* ===== verification/Axfr_Service.thy ===== *)
theory Axfr_Service
  imports Lookup_Props Key_Views
begin

text \<open>
  What two small servers ask of the database: \<^verbatim>\<open>axfr.py\<close>, the service behind the transfer server, which
  gives it the secret of a TSIG key and the verdict of the access lists, and \<^verbatim>\<open>redirect.py\<close>, the server
  that the addresses of redirection records point to.
\<close>

section \<open>The service of the transfer server\<close>

datatype grpc_code = NOT_FOUND | INVALID_ARGUMENT
datatype grpc_reply = Failed grpc_code pstr | TSIGSecret bytes | IPACLResponse bool

definition axfr_key :: "ext \<Rightarrow> label \<Rightarrow> axfr_secret option io" where
  "axfr_key E lbl = asks_res (\<lambda>w.
     case typed_uuid E (strip_char 46 (label_str E lbl)) of
       None \<Rightarrow> Inl ValidationError
     | Some i \<Rightarrow> Inr (find (\<lambda>s. as_id s = i) (f_axfr_secrets w)))"

definition GetTSIGSecret :: "ext \<Rightarrow> pstr \<Rightarrow> grpc_reply io" where
  "GetTSIGSecret E key_name =
     bind_act (asks_res (\<lambda>w. find_zone E w (DNSLabel E key_name))) (\<lambda>found. case found of
       None \<Rightarrow> ret (Failed NOT_FOUND (str ''Unknown zone''))
     | Some (z, lbl) \<Rightarrow>
         bind_act (axfr_key E lbl) (\<lambda>key. case key of
           None \<Rightarrow> ret (Failed NOT_FOUND (str ''Unknown key''))
         | Some s \<Rightarrow>
             bind_act (asks now) (\<lambda>t.
               seq (AXFRSecret_save (s\<lparr>as_last_used := Some t\<rparr>)) (ret (TSIGSecret (as_secret s))))))"

text \<open>The address of a request is a number, 16 bytes, or missing.\<close>

datatype acl_addr = Addr_v4 nat | Addr_v6 bytes | Addr_missing

fun acl_ip :: "acl_addr \<Rightarrow> ip_addr option res" where
  "acl_ip (Addr_v4 v) = Inr (Some (IPv4 v))"
| "acl_ip (Addr_v6 b) = (if length b = 16 then Inr (Some (IPv6 (from_be b))) else Inl ValueError)"
| "acl_ip Addr_missing = Inr None"

fun check_acls :: "ip_addr \<Rightarrow> axfr_acl list \<Rightarrow> grpc_reply io" where
  "check_acls ip [] = ret (IPACLResponse False)"
| "check_acls ip (a # acls) =
     (case AXFRIPACL_network a of
        None \<Rightarrow> throw TypeError
      | Some n \<Rightarrow>
          if in_network ip n then
            bind_act (asks now) (\<lambda>t. seq (AXFRIPACL_save (a\<lparr>acl_last_used := Some t\<rparr>)) (ret (IPACLResponse True)))
          else check_acls ip acls)"

definition CheckIPACL :: "ext \<Rightarrow> pstr \<Rightarrow> acl_addr \<Rightarrow> grpc_reply io" where
  "CheckIPACL E zone_name addr =
     bind_act (asks_res (\<lambda>w. find_zone E w (DNSLabel E zone_name))) (\<lambda>found. case found of
       None \<Rightarrow> ret (Failed NOT_FOUND (str ''Unknown zone''))
     | Some (z, lbl) \<Rightarrow>
         bind_act (lift_res (acl_ip addr)) (\<lambda>ip. case ip of
           None \<Rightarrow> ret (Failed INVALID_ARGUMENT (str ''Invalid IP''))
         | Some ip \<Rightarrow> bind_act (asks (\<lambda>w. [a \<leftarrow> f_axfr_acls w. acl_zone a = z_id z])) (check_acls ip)))"


section \<open>The redirection server\<close>

text \<open>The headers \<^verbatim>\<open>Date\<close> and \<^verbatim>\<open>Expires\<close> are given as seconds of the clock.\<close>

datatype wsgi_response = Not_found | Permanent_redirect pstr nat nat

definition redirect_to :: "zrec \<Rightarrow> pstr option \<Rightarrow> nat \<Rightarrow> wsgi_response res" where
  "redirect_to r path_info seconds =
     (case body r of
        RedirectRecord target include_path \<Rightarrow>
          Inr (Permanent_redirect (if include_path then target @ (case path_info of None \<Rightarrow> [] | Some p \<Rightarrow> p) else target)
            seconds (seconds + ttl r))
      | _ \<Rightarrow> Inl AttributeError)"

definition application :: "ext \<Rightarrow> pstr option \<Rightarrow> pstr option \<Rightarrow> world \<Rightarrow> wsgi_response res" where
  "application E http_host path_info w =
     (case truthy http_host of
        None \<Rightarrow> Inr Not_found
      | Some host \<Rightarrow>
          bind_res (find_zone E w (DNSLabel E (hd (split1_on 58 host)))) (\<lambda>found. case found of
            None \<Rightarrow> Inr Not_found
          | Some (z, rn) \<Rightarrow>
              bind_res (find_records w M_Redirect rn z) (\<lambda>rs. case rs of
                [] \<Rightarrow> Inr Not_found
              | r # _ \<Rightarrow> redirect_to r path_info (now w div 1000000))))"


section \<open>Access lists\<close>

lemma check_acls_result:
  assumes "check_acls ip acls w = (Inr x, w')"
  shows "(x = IPACLResponse False \<and> w' = w \<and> (\<forall>a \<in> set acls. \<exists>n. AXFRIPACL_network a = Some n \<and> \<not> in_network ip n))
    \<or> (x = IPACLResponse True \<and> (\<exists>a \<in> set acls. \<exists>n. AXFRIPACL_network a = Some n \<and> in_network ip n
        \<and> w' = w\<lparr>f_axfr_acls := upsert acl_id (a\<lparr>acl_last_used := Some (now w)\<rparr>) (f_axfr_acls w)\<rparr>))"
  using assms
  by (induction acls) (auto simp: act_defs AXFRIPACL_save_def seq_def split: option.splits if_splits)

lemma check_acls_member: "a \<in> set acls \<Longrightarrow> AXFRIPACL_network a = Some n \<Longrightarrow> in_network ip n
    \<Longrightarrow> (\<And>b. b \<in> set acls \<Longrightarrow> AXFRIPACL_network b \<noteq> None)
    \<Longrightarrow> fst (check_acls ip acls w) = Inr (IPACLResponse True)"
  by (induction acls) (auto simp: act_defs AXFRIPACL_save_def seq_def split: option.splits)

lemma check_acls_returns:
  "(\<And>b. b \<in> set acls \<Longrightarrow> AXFRIPACL_network b \<noteq> None) \<Longrightarrow> \<exists>y. fst (check_acls ip acls w) = Inr y"
proof (induction acls)
  case (Cons a acls)
  then obtain n where "AXFRIPACL_network a = Some n" by fastforce
  then show ?case using Cons by (auto simp: act_defs AXFRIPACL_save_def seq_def)
qed (simp add: ret_def)

text \<open>A list that was validated when it was stored has a network.\<close>

lemma clean_acl_network: "AXFRIPACL_clean a = Inr () \<longleftrightarrow> AXFRIPACL_network a \<noteq> None"
  by (auto simp: AXFRIPACL_clean_def AXFRIPACL_network_def split: sum.splits)

lemma upsert_forgets:
  assumes "a \<in> set xs" "distinct (map acl_id xs)"
  shows "map (acl_last_used_update f) (upsert acl_id (a\<lparr>acl_last_used := t\<rparr>) xs)
    = map (acl_last_used_update f) (map (\<lambda>b. if b = a then a\<lparr>acl_last_used := t\<rparr> else b) xs)"
proof -
  have "b = a" if "b \<in> set xs" "acl_id b = acl_id a" for b
    using assms that by (auto simp: distinct_map dest: inj_onD)
  then have "upsert acl_id (a\<lparr>acl_last_used := t\<rparr>) xs = map (\<lambda>b. if b = a then a\<lparr>acl_last_used := t\<rparr> else b) xs"
    using assms(1) by (auto simp: upsert_def list_ex_iff)
  then show ?thesis by simp
qed

text \<open>C13: The access lists of a zone admit exactly the addresses in one of their networks; an empty list admits
  nobody. The question changes nothing but the time a list was last used.\<close>

theorem check_ip_acl_exact:
  assumes "find_zone E w (DNSLabel E zone_name) = Inr (Some (z, lbl))" "acl_ip addr = Inr (Some ip)"
    and "\<And>a. a \<in> set (f_axfr_acls w) \<Longrightarrow> acl_zone a = z_id z \<Longrightarrow> AXFRIPACL_clean a = Inr ()"
    and "distinct (map acl_id (f_axfr_acls w))"
    and "CheckIPACL E zone_name addr w = (x, w')"
  shows "x = Inr (IPACLResponse (\<exists>a \<in> set (f_axfr_acls w). acl_zone a = z_id z
      \<and> (\<exists>n. AXFRIPACL_network a = Some n \<and> in_network ip n)))
    \<and> map (acl_last_used_update (\<lambda>_. None)) (f_axfr_acls w') = map (acl_last_used_update (\<lambda>_. None)) (f_axfr_acls w)
    \<and> w'\<lparr>f_axfr_acls := []\<rparr> = w\<lparr>f_axfr_acls := []\<rparr>"
proof -
  let ?acls = "[a \<leftarrow> f_axfr_acls w. acl_zone a = z_id z]"
  have run: "check_acls ip ?acls w = (x, w')" using assms(1,2,5) by (simp add: CheckIPACL_def act_defs)
  have nets: "AXFRIPACL_network b \<noteq> None" if "b \<in> set ?acls" for b
    using that assms(3) clean_acl_network by simp
  show ?thesis
  proof (cases "\<exists>a \<in> set ?acls. \<exists>n. AXFRIPACL_network a = Some n \<and> in_network ip n")
    case True
    then have x: "x = Inr (IPACLResponse True)" using check_acls_member[of _ ?acls _ ip w] nets run by fastforce
    then obtain a where a: "a \<in> set ?acls"
        "w' = w\<lparr>f_axfr_acls := upsert acl_id (a\<lparr>acl_last_used := Some (now w)\<rparr>) (f_axfr_acls w)\<rparr>"
      using check_acls_result run by blast
    then show ?thesis using upsert_forgets[OF _ assms(4), of a] x True by (auto simp: comp_def)
  next
    case False
    moreover obtain y where "x = Inr y" using check_acls_returns[of ?acls ip w] nets run by auto
    ultimately show ?thesis using check_acls_result[of ip ?acls w y w'] run by auto
  qed
qed

definition sample_axfr_world :: world where
  "sample_axfr_world = empty_world\<lparr>
     dnszones := [sample_zone, sample_zone\<lparr>z_id := str ''z2'', zone_root := str ''bb.org''\<rparr>],
     accounts := [(str ''alice'', \<lparr>acc_id = 1, subscription_id = None, subscription_active = True\<rparr>)],
     f_axfr_acls := [\<lparr>acl_id = str ''l1'', acl_zone = str ''z1'', acl_name = [], acl_address = str ''192.0.2.0'',
       acl_prefix = 24, acl_last_used = None\<rparr>],
     f_axfr_secrets := [\<lparr>as_id = str ''k'', as_zone = str ''z2'', as_name = [], as_secret = [1, 2, 3], as_last_used = None\<rparr>]\<rparr>"

lemmas sample_axfr_simps = find_zone_def zones_by_length_def sample_axfr_world_def sample_zone_def sample_label_def
  sample_match_def sample_strip_def apex_label_def zone_active_def owner_account_def account_of_def empty_world_def

theorem check_ip_acl_exact_witness:
  "fst (CheckIPACL sample_ext (str ''ex.org'') (Addr_v4 3221225985) sample_axfr_world) = Inr (IPACLResponse True)"
proof -
  obtain lbl where zone: "find_zone sample_ext sample_axfr_world (DNSLabel sample_ext (str ''ex.org'')) = Inr (Some (sample_zone, lbl))"
    by (simp add: sample_axfr_simps)
  have net: "network_of (str ''192.0.2.0'') 24 = Inr (Net4 3221225984 24)"
    by (simp add: network_of_def parse_ip_def parse_v4_def parse_octet_def is_digit_def nat_of_digits_def)
  obtain x w' where run: "CheckIPACL sample_ext (str ''ex.org'') (Addr_v4 3221225985) sample_axfr_world = (x, w')" by fastforce
  have rows: "f_axfr_acls sample_axfr_world = [\<lparr>acl_id = str ''l1'', acl_zone = str ''z1'', acl_name = [],
      acl_address = str ''192.0.2.0'', acl_prefix = 24, acl_last_used = None\<rparr>]" by (simp add: sample_axfr_world_def)
  have "x = Inr (IPACLResponse (\<exists>a \<in> set (f_axfr_acls sample_axfr_world). acl_zone a = z_id sample_zone
      \<and> (\<exists>n. AXFRIPACL_network a = Some n \<and> in_network (IPv4 3221225985) n)))"
    by (rule conjunct1[OF check_ip_acl_exact[OF zone _ _ _ run]])
      (use net in \<open>simp_all add: rows AXFRIPACL_clean_def del: str_simps\<close>)
  then have "x = Inr (IPACLResponse True)"
    using net by (simp add: rows AXFRIPACL_network_def sample_zone_def del: str_simps)
  then show ?thesis using run by simp
qed

lemma find_row: "s \<in> set xs \<Longrightarrow> distinct (map key xs) \<Longrightarrow> find (\<lambda>r. key r = key s) xs = Some s"
  by (induction xs) (auto simp: rev_image_eqI)

text \<open>The service finds a TSIG key by its identifier alone and asks no question about its zone: under the name of
  any active zone it gives away the secret of a key of another zone. The transfer server takes the answer
  as proof that the request is authorised, so that every customer with a key can transfer every zone.\<close>

theorem any_key_for_any_zone:
  assumes "find_zone E w (DNSLabel E key_name) = Inr (Some (z, lbl))" "s \<in> set (f_axfr_secrets w)"
    and "typed_uuid E (strip_char 46 (label_str E lbl)) = Some (as_id s)" "distinct (map as_id (f_axfr_secrets w))"
  shows "fst (GetTSIGSecret E key_name w) = Inr (TSIGSecret (as_secret s))"
proof -
  have "find (\<lambda>r. as_id r = as_id s) (f_axfr_secrets w) = Some s" by (rule find_row[OF assms(2,4)])
  then show ?thesis using assms(1,3) by (simp add: GetTSIGSecret_def axfr_key_def act_defs asks_res_def AXFRSecret_save_def seq_def)
qed

theorem any_key_for_any_zone_witness:
  "fst (GetTSIGSecret sample_ext (str ''k.ex.org'') sample_axfr_world) = Inr (TSIGSecret [1, 2, 3])
    \<and> (\<exists>lbl. find_zone sample_ext sample_axfr_world (DNSLabel sample_ext (str ''k.ex.org'')) = Inr (Some (sample_zone, lbl)))
    \<and> as_zone (hd (f_axfr_secrets sample_axfr_world)) \<noteq> z_id sample_zone"
proof -
  have zone: "find_zone sample_ext sample_axfr_world (DNSLabel sample_ext (str ''k.ex.org'')) = Inr (Some (sample_zone, [str ''k'']))"
    by (simp add: sample_axfr_simps)
  have "fst (GetTSIGSecret sample_ext (str ''k.ex.org'') sample_axfr_world) = Inr (TSIGSecret (as_secret (hd (f_axfr_secrets sample_axfr_world))))"
    by (rule any_key_for_any_zone[OF zone]) (simp_all add: sample_axfr_world_def strip_char_def sample_label_str_def)
  then show ?thesis using zone by (simp add: sample_axfr_world_def sample_zone_def)
qed


section \<open>Redirections\<close>

lemma redirect_to_Inr: "redirect_to r path_info n = Inr x \<longleftrightarrow> (\<exists>t include_path. body r = RedirectRecord t include_path
    \<and> x = Permanent_redirect (if include_path then t @ (case path_info of None \<Rightarrow> [] | Some p \<Rightarrow> p) else t) n (n + ttl r))"
  by (auto simp: redirect_to_def split: body.splits)

text \<open>The server redirects only to the target of a stored redirection record of the active zone that the
  longest match finds, and lets the answer expire after the time to live of the record.\<close>

theorem redirect_targets_stored:
  assumes "application E host path_info w = Inr (Permanent_redirect target date expires)"
  shows "\<exists>z rn r t include_path h. host = Some h
    \<and> find_zone E w (DNSLabel E (hd (split1_on 58 h))) = Inr (Some (z, rn))
    \<and> r \<in> set (zrecs w) \<and> r_zone r = z_id z \<and> body r = RedirectRecord t include_path
    \<and> target = (if include_path then t @ (case path_info of None \<Rightarrow> [] | Some p \<Rightarrow> p) else t) \<and> expires = date + ttl r"
proof -
  obtain h z rn rows where "host = Some h" "find_zone E w (DNSLabel E (hd (split1_on 58 h))) = Inr (Some (z, rn))"
      "find_records w M_Redirect rn z = Inr rows"
      "(case rows of [] \<Rightarrow> Inr Not_found | r # _ \<Rightarrow> redirect_to r path_info (now w div 1000000))
        = Inr (Permanent_redirect target date expires)"
    using assms by (auto simp: application_def res_simps truthy_def split: option.splits if_splits)
  then obtain r rs where *: "host = Some h" "find_zone E w (DNSLabel E (hd (split1_on 58 h))) = Inr (Some (z, rn))"
      "find_records w M_Redirect rn z = Inr (r # rs)" "redirect_to r path_info (now w div 1000000) = Inr (Permanent_redirect target date expires)"
    by (cases rows) auto
  then have "r \<in> set (zrecs w)" "r_zone r = z_id z" using find_records_mem[OF *(3), of r] by simp_all
  then show ?thesis using * unfolding redirect_to_Inr wsgi_response.inject by blast
qed

definition sample_redirect_world :: world where
  "sample_redirect_world = sample_axfr_world\<lparr>zrecs := [\<lparr>r_id = str ''r1'', r_zone = str ''z1'', record_name = str ''www'', ttl = 60,
     body = RedirectRecord (str ''https://a.b'') True\<rparr>]\<rparr>"

theorem redirect_targets_stored_witness:
  "\<exists>r \<in> set (zrecs sample_redirect_world). str ''https://a.b/x'' = str ''https://a.b'' @ str ''/x'' \<and> r_zone r = str ''z1''"
proof -
  have "application sample_ext (Some (str ''www.ex.org:80'')) (Some (str ''/x'')) sample_redirect_world
      = Inr (Permanent_redirect (str ''https://a.b/x'') 0 60)"
    by (simp add: application_def sample_redirect_world_def sample_axfr_simps truthy_def find_records_def dotted_def wildcard_def
        codec_simps filter_name_def redirect_to_def)
  from redirect_targets_stored[OF this] show ?thesis by (auto simp: sample_redirect_world_def)
qed

end
