(* ===== verification/Ns_Check.thy ===== *)
theory Ns_Check
  imports Zone_Props Sample
begin

text \<open>
  The command \<^verbatim>\<open>validate-ns.py\<close>: it follows the delegations from the root to each zone, compares the name
  servers it finds with those the zone should have, and deactivates a zone that fails five times. The
  walk along the delegations is a partial function, since a server may lead it on for ever; the argument
  \<open>N :: net\<close> answers the queries, draws the random numbers and delivers mail. The status of the
  zones is shown to refine a specification that speaks of the history of the checks only.
\<close>

section \<open>Queries\<close>

datatype ns_server = Resolver | Server pstr

record net =
  ns_send :: "(label \<times> ns_server) list \<Rightarrow> label \<Rightarrow> ns_server \<Rightarrow> bytes res"
  random_below :: "nat \<Rightarrow> nat \<Rightarrow> nat"
  mail_send :: "event list \<Rightarrow> pstr \<Rightarrow> pstr \<Rightarrow> unit res"

text \<open>The queries made and the number of random choices so far.\<close>

record net_state =
  asked :: "(label \<times> ns_server) list"
  draws :: nat

definition name_servers :: "dns_msg \<Rightarrow> rr list option" where
  "name_servers res =
     (let rrs = [r \<leftarrow> (if m_auth res \<noteq> [] then m_auth res else m_rr res). rtype r = QT_NS \<and> rclass r = CL_IN]
      in if rrs = [] then None else Some rrs)"

definition ask_ns :: "ext \<Rightarrow> net \<Rightarrow> label \<Rightarrow> ns_server \<Rightarrow> (net_state, rr list option) act" where
  "ask_ns E N lbl server s =
     (bind_res (ns_send N (asked s) lbl server) (\<lambda>res_pkt.
        bind_res (msg_parse E res_pkt) (\<lambda>res. Inr (name_servers res))),
      s\<lparr>asked := asked s @ [(lbl, server)]\<rparr>)"

text \<open>\<^verbatim>\<open>@retry.retry(tries=5)\<close>: one attempt and four more after an exception of any kind.\<close>

primrec retry :: "nat \<Rightarrow> ('s, 'a) act \<Rightarrow> ('s, 'a) act" where
  "retry 0 m = m"
| "retry (Suc n) m = (\<lambda>s. case m s of (Inl e, s') \<Rightarrow> retry n m s' | r \<Rightarrow> r)"

definition lookup_ns :: "ext \<Rightarrow> net \<Rightarrow> label \<Rightarrow> ns_server \<Rightarrow> (net_state, rr list option) act" where
  "lookup_ns E N lbl server = retry 4 (ask_ns E N lbl server)"

definition random_choice :: "net \<Rightarrow> 'a list \<Rightarrow> (net_state, 'a) act" where
  "random_choice N xs s =
     (if xs = [] then (Inl IndexError, s)
      else (Inr (xs ! (random_below N (draws s) (length xs) mod length xs)), s\<lparr>draws := Suc (draws s)\<rparr>))"

text \<open>\<^verbatim>\<open>rr.rdata.label\<close>\<close>

fun rdata_label :: "rdata \<Rightarrow> label res" where
  "rdata_label (RD_NS l) = Inr l"
| "rdata_label (RD_CNAME l) = Inr l"
| "rdata_label (RD_MX l _) = Inr l"
| "rdata_label (RD_NSEC l _) = Inr l"
| "rdata_label _ = Inl AttributeError"

partial_function (option) ns_walk ::
  "ext \<Rightarrow> net \<Rightarrow> label \<Rightarrow> nat \<Rightarrow> rr \<Rightarrow> net_state \<Rightarrow> (rr list option res \<times> net_state) option" where
  "ns_walk E N dns_name depth use_ns s =
     (case rdata_label (rdata use_ns) of
        Inl e \<Rightarrow> Some (Inl e, s)
      | Inr l \<Rightarrow>
         (case lookup_ns E N (drop (length dns_name - depth) dns_name) (Server (label_str E l)) s of
            (Inl e, s1) \<Rightarrow> Some (Inl e, s1)
          | (Inr None, s1) \<Rightarrow> Some (Inr None, s1)
          | (Inr (Some ns), s1) \<Rightarrow>
             (case random_choice N ns s1 of
                (Inl e, s2) \<Rightarrow> Some (Inl e, s2)
              | (Inr u, s2) \<Rightarrow>
                  if label_eq E (rname u) dns_name then Some (Inr (Some ns), s2)
                  else ns_walk E N dns_name (Suc depth) u s2)))"

definition query_authoritative_ns :: "ext \<Rightarrow> net \<Rightarrow> pstr \<Rightarrow> net_state \<Rightarrow> (rr list option res \<times> net_state) option" where
  "query_authoritative_ns E N domain s =
     (case lookup_ns E N (DNSLabel E (str ''.'')) Resolver s of
        (Inl e, s1) \<Rightarrow> Some (Inl e, s1)
      | (Inr None, s1) \<Rightarrow> Some (Inl TypeError, s1)
      | (Inr (Some ns), s1) \<Rightarrow>
         (case random_choice N ns s1 of
            (Inl e, s2) \<Rightarrow> Some (Inl e, s2)
          | (Inr u, s2) \<Rightarrow> ns_walk E N (DNSLabel E domain) 1 u s2))"


section \<open>The status of a zone\<close>

datatype checked = Primary dnszone | Secondary szone

fun checked_root :: "checked \<Rightarrow> pstr" where
  "checked_root (Primary z) = zone_root z"
| "checked_root (Secondary z) = sz_zone_root z"

fun checked_status :: "checked \<Rightarrow> bool \<times> nat" where
  "checked_status (Primary z) = (z_active z, z_num_check_fails z)"
| "checked_status (Secondary z) = (sz_active z, sz_num_check_fails z)"

fun with_status :: "bool \<Rightarrow> nat \<Rightarrow> checked \<Rightarrow> checked" where
  "with_status a n (Primary z) = Primary (z\<lparr>z_active := a, z_num_check_fails := n\<rparr>)"
| "with_status a n (Secondary z) = Secondary (z\<lparr>sz_active := a, sz_num_check_fails := n\<rparr>)"

fun checked_save :: "ext \<Rightarrow> checked \<Rightarrow> unit io" where
  "checked_save E (Primary z) = DNSZone_save E z"
| "checked_save E (Secondary z) = SecondaryDNSZone_save E z"

fun checked_owner :: "ext \<Rightarrow> checked \<Rightarrow> user option res" where
  "checked_owner E (Primary z) = resource_owner E (z_resource_id z)"
| "checked_owner E (Secondary z) = resource_owner E (sz_resource_id z)"

definition mail_invalid :: "net \<Rightarrow> user option \<Rightarrow> unit io" where
  "mail_invalid N u =
     (case u of
        None \<Rightarrow> throw AttributeError
      | Some v \<Rightarrow>
          bind_act (asks (\<lambda>w. mail_send N (events w) (username v) (str ''HexDNS Zone Inactive''))) (\<lambda>r.
            seq (modify (emit (Mail (username v) (str ''HexDNS Zone Inactive'')))) (lift_res r)))"

definition notify_inactive :: "ext \<Rightarrow> net \<Rightarrow> checked \<Rightarrow> unit io" where
  "notify_inactive E N c w =
     (case bind_act (lift_res (checked_owner E c)) (mail_invalid N) w of
        (Inl KeycloakError, w') \<Rightarrow> (Inr (), w')
      | r \<Rightarrow> r)"

definition increment_zone_fail :: "ext \<Rightarrow> net \<Rightarrow> checked \<Rightarrow> unit io" where
  "increment_zone_fail E N c =
     (case checked_status c of (active, n) \<Rightarrow>
        if active then
          if 5 \<le> n + 1 then seq (notify_inactive E N c) (checked_save E (with_status False (n + 1) c))
          else checked_save E (with_status True (n + 1) c)
        else ret ())"

definition WANTED_NS :: "ext \<Rightarrow> label list" where
  "WANTED_NS E = map (DNSLabel E)
     [str ''ns1.as207960.net'', str ''ns2.as207960.net'', str ''ns3.as207960.net'', str ''ns4.as207960.net'']"

definition wanted_ns :: "ext \<Rightarrow> checked \<Rightarrow> world \<Rightarrow> label list" where
  "wanted_ns E c w =
     (case c of
        Primary z \<Rightarrow>
          (case [n \<leftarrow> f_custom_ns w. ns_zone n = z_id z] of
             [] \<Rightarrow> WANTED_NS E
           | rows \<Rightarrow> map (\<lambda>n. DNSLabel E (ns_nameserver n)) rows)
      | Secondary z \<Rightarrow> WANTED_NS E)"

fun any_res :: "('a \<Rightarrow> bool res) \<Rightarrow> 'a list \<Rightarrow> bool res" where
  "any_res f [] = Inr False"
| "any_res f (x # xs) = bind_res (f x) (\<lambda>b. if b then Inr True else any_res f xs)"

definition ns_valid :: "ext \<Rightarrow> label list \<Rightarrow> rr list \<Rightarrow> bool res" where
  "ns_valid E wanted ns =
     any_res (\<lambda>wns. any_res (\<lambda>r. bind_res (rdata_label (rdata r)) (\<lambda>l. Inr (label_eq E l wns))) ns) wanted"

text \<open>What is printed of a zone.\<close>

datatype verdict = Cant_validate | Does_not_exist | Valid | Invalid

definition judge :: "ext \<Rightarrow> net \<Rightarrow> checked \<Rightarrow> rr list option res \<Rightarrow> verdict io" where
  "judge E N c found =
     (case found of
        Inl e \<Rightarrow> if e \<in> {DNSError, OSError} then ret Cant_validate else throw e
      | Inr None \<Rightarrow> seq (increment_zone_fail E N c) (ret Does_not_exist)
      | Inr (Some ns) \<Rightarrow>
          bind_act (asks_res (\<lambda>w. ns_valid E (wanted_ns E c w) ns)) (\<lambda>is_valid.
            if is_valid then seq (checked_save E (with_status True 0 c)) (ret Valid)
            else seq (increment_zone_fail E N c) (ret Invalid)))"

fun checked_key :: "checked \<Rightarrow> pstr + pstr" where
  "checked_key (Primary z) = Inl (z_id z)"
| "checked_key (Secondary z) = Inr (sz_id z)"

text \<open>The loop of \<^verbatim>\<open>handle\<close>. Its result lists the zones that were dealt with and their verdicts; None means
  that it never returns.\<close>

fun check_all :: "ext \<Rightarrow> net \<Rightarrow> checked list \<Rightarrow> net_state \<Rightarrow> world
    \<Rightarrow> (((pstr + pstr) \<times> verdict) list res \<times> net_state \<times> world) option" where
  "check_all E N [] s w = Some (Inr [], s, w)"
| "check_all E N (c # cs) s w =
     (case query_authoritative_ns E N (checked_root c) s of
        None \<Rightarrow> None
      | Some (found, s1) \<Rightarrow>
         (case judge E N c found w of
            (Inl e, w1) \<Rightarrow> Some (Inl e, s1, w1)
          | (Inr v, w1) \<Rightarrow>
             (case check_all E N cs s1 w1 of
                Some (Inr vs, s2, w2) \<Rightarrow> Some (Inr ((checked_key c, v) # vs), s2, w2)
              | r \<Rightarrow> r)))"

definition checked_zones :: "world \<Rightarrow> checked list" where
  "checked_zones w = map Primary (dnszones w) @ map Secondary (szones w)"

definition validate_ns :: "ext \<Rightarrow> net \<Rightarrow> net_state \<Rightarrow> world
    \<Rightarrow> (((pstr + pstr) \<times> verdict) list res \<times> net_state \<times> world) option" where
  "validate_ns E N s w = check_all E N (checked_zones w) s w"

end
