(* ===== verification/Ns_Check_Props.thy ===== *)
theory Ns_Check_Props
  imports Ns_Check
begin

text \<open>
  Theorems about \<^verbatim>\<open>validate-ns.py\<close>: when the walk along the delegations returns, what the stored status of
  a zone says of the history of its checks, and what one zone without a known owner does to the others.
\<close>

section \<open>Queries\<close>

lemma retry_result:
  assumes "retry n m s = (Inr a, s')"
  obtains s0 where "m s0 = (Inr a, s')"
  using assms by (induction n arbitrary: s) (auto split: prod.splits sum.splits)

lemma lookup_ns_result:
  assumes "lookup_ns E N lbl server s = (Inr (Some ns), s')"
  obtains hs pkt m where "ns_send N hs lbl server = Inr pkt" "msg_parse E pkt = Inr m" "name_servers m = Some ns"
proof -
  obtain s0 where "ask_ns E N lbl server s0 = (Inr (Some ns), s')"
    using retry_result assms unfolding lookup_ns_def by metis
  then show thesis
    using that by (cases "ns_send N (asked s0) lbl server"; cases "msg_parse E (projr (ns_send N (asked s0) lbl server))")
      (auto simp: ask_ns_def)
qed

lemma random_choice_mem: "random_choice N xs s = (Inr x, s') \<Longrightarrow> x \<in> set xs"
  by (auto simp: random_choice_def split: if_splits)

lemma name_servers_some: "name_servers m = Some ns \<Longrightarrow> ns \<noteq> []"
  by (auto simp: name_servers_def Let_def split: if_splits)

text \<open>\<open>exact E N\<close>: a server names as the owner of its delegation the name that it was asked about.\<close>

definition exact :: "ext \<Rightarrow> net \<Rightarrow> bool" where
  "exact E N \<longleftrightarrow> (\<forall>hs lbl server pkt m ns. ns_send N hs lbl server = Inr pkt \<longrightarrow> msg_parse E pkt = Inr m
     \<longrightarrow> name_servers m = Some ns \<longrightarrow> (\<forall>r \<in> set ns. label_eq E (rname r) lbl))"

lemma ns_walk_returns:
  assumes "exact E N"
  shows "ns_walk E N dns_name depth use_ns s \<noteq> None"
proof (induction "Suc (length dns_name) - depth" arbitrary: depth use_ns s rule: less_induct)
  case (less depth)
  show ?case
  proof (cases "\<exists>l s1 ns u s2. rdata_label (rdata use_ns) = Inr l
      \<and> lookup_ns E N (drop (length dns_name - depth) dns_name) (Server (label_str E l)) s = (Inr (Some ns), s1)
      \<and> random_choice N ns s1 = (Inr u, s2) \<and> \<not> label_eq E (rname u) dns_name")
    case True
    then obtain l s1 ns u s2 where l: "rdata_label (rdata use_ns) = Inr l"
      and look: "lookup_ns E N (drop (length dns_name - depth) dns_name) (Server (label_str E l)) s = (Inr (Some ns), s1)"
      and u: "random_choice N ns s1 = (Inr u, s2)" "\<not> label_eq E (rname u) dns_name" by blast
    have "label_eq E (rname u) (drop (length dns_name - depth) dns_name)"
      using lookup_ns_result[OF look] random_choice_mem[OF u(1)] assms unfolding exact_def by metis
    then have "depth < length dns_name" using u(2) by (cases "depth < length dns_name") auto
    then have "ns_walk E N dns_name (Suc depth) u s2 \<noteq> None" using less(1)[of "Suc depth"] by simp
    then show ?thesis using l look u by (subst ns_walk.simps) simp
  next
    case False
    then show ?thesis by (subst ns_walk.simps) (auto split: sum.splits prod.splits option.splits)
  qed
qed

text \<open>C36: If every server names the zone it was asked about, the walk to a zone returns, whatever else the servers
  answer and however the random choices fall.\<close>

theorem authoritative_query_returns:
  assumes "exact E N"
  shows "query_authoritative_ns E N domain s \<noteq> None"
  using ns_walk_returns[OF assms]
  by (auto simp: query_authoritative_ns_def split: sum.splits prod.splits option.splits)

text \<open>The servers of \<open>L\<close> are lame for \<open>dns_name\<close>: whatever one of them is asked, it answers with name servers of another
  name, all of them in \<open>L\<close>. \<open>L\<close> may be one server that refers to itself.\<close>

definition lame :: "ext \<Rightarrow> net \<Rightarrow> label \<Rightarrow> pstr set \<Rightarrow> bool" where
  "lame E N dns_name L \<longleftrightarrow> (\<forall>hs lbl. \<forall>v \<in> L. \<exists>pkt m ns. ns_send N hs lbl (Server v) = Inr pkt \<and> msg_parse E pkt = Inr m
     \<and> name_servers m = Some ns
     \<and> (\<forall>r \<in> set ns. \<not> label_eq E (rname r) dns_name \<and> (\<exists>l. rdata r = RD_NS l \<and> label_str E l \<in> L)))"

definition refers :: "ext \<Rightarrow> pstr set \<Rightarrow> rr \<Rightarrow> bool" where
  "refers E L u \<longleftrightarrow> (\<exists>l. rdata u = RD_NS l \<and> label_str E l \<in> L)"

lemma lame_lookup:
  assumes "lame E N dns_name L" "v \<in> L"
  shows "\<exists>ns s1 u s2. lookup_ns E N lbl (Server v) s = (Inr (Some ns), s1) \<and> random_choice N ns s1 = (Inr u, s2)
    \<and> \<not> label_eq E (rname u) dns_name \<and> refers E L u"
proof -
  obtain pkt m ns where a: "ns_send N (asked s) lbl (Server v) = Inr pkt" "msg_parse E pkt = Inr m" "name_servers m = Some ns"
      "\<forall>r \<in> set ns. \<not> label_eq E (rname r) dns_name \<and> refers E L r"
    using assms unfolding lame_def refers_def by metis
  let ?s1 = "s\<lparr>asked := asked s @ [(lbl, Server v)]\<rparr>"
  have "lookup_ns E N lbl (Server v) s = (Inr (Some ns), ?s1)"
    using a by (simp add: lookup_ns_def ask_ns_def eval_nat_numeral)
  moreover obtain u s2 where u: "random_choice N ns ?s1 = (Inr u, s2)"
    using name_servers_some[OF a(3)] by (simp add: random_choice_def)
  ultimately show ?thesis using a(4) random_choice_mem[OF u] by blast
qed

lemma lame_walk:
  assumes "lame E N dns_name L" "refers E L use_ns"
  shows "ns_walk E N dns_name depth use_ns s = None"
proof (rule ccontr)
  assume "ns_walk E N dns_name depth use_ns s \<noteq> None"
  then obtain y where y: "ns_walk E N dns_name depth use_ns s = Some y" by blast
  have "\<not> (lame E N dns_name L \<and> refers E L use_ns)"
  proof (rule ns_walk.raw_induct[of "\<lambda>E N dns_name depth use_ns s y.
      \<not> (lame E N dns_name L \<and> refers E L use_ns)", OF _ y], rule notI, elim conjE)
    fix walk E N dns_name depth use_ns s y
    assume IH: "\<And>E N dns_name depth use_ns s y. walk E N dns_name depth use_ns s = Some y
          \<Longrightarrow> \<not> (lame E N dns_name L \<and> refers E L use_ns)"
      and run: "(case rdata_label (rdata use_ns) of
         Inl e \<Rightarrow> Some (Inl e, s)
       | Inr l \<Rightarrow>
          (case lookup_ns E N (drop (length dns_name - depth) dns_name) (Server (label_str E l)) s of
             (Inl e, s1) \<Rightarrow> Some (Inl e, s1)
           | (Inr None, s1) \<Rightarrow> Some (Inr None, s1)
           | (Inr (Some ns), s1) \<Rightarrow>
              (case random_choice N ns s1 of
                (Inl e, s2) \<Rightarrow> Some (Inl e, s2)
               | (Inr u, s2) \<Rightarrow>
                   if label_eq E (rname u) dns_name then Some (Inr (Some ns), s2)
                   else walk E N dns_name (Suc depth) u s2))) = Some y"
      and lame: "lame E N dns_name L" and u: "refers E L use_ns"
    obtain l where l: "rdata use_ns = RD_NS l" "label_str E l \<in> L" using u by (auto simp: refers_def)
    obtain ns s1 u s2 where u: "lookup_ns E N (drop (length dns_name - depth) dns_name) (Server (label_str E l)) s = (Inr (Some ns), s1)"
        "random_choice N ns s1 = (Inr u, s2)" "\<not> label_eq E (rname u) dns_name" "refers E L u"
      using lame_lookup[OF lame l(2)] by blast
    have "walk E N dns_name (Suc depth) u s2 = Some y" using run l u by simp
    from IH[OF this] show False using lame u(4) by blast
  qed
  then show False using assms by blast
qed

text \<open>The walk to \<open>dns_name\<close> that starts in \<open>s0\<close> goes on, at the given depth and with the state \<open>s\<close>, to the server that
  the record \<open>u\<close> names.\<close>

inductive walk_reaches :: "ext \<Rightarrow> net \<Rightarrow> label \<Rightarrow> net_state \<Rightarrow> nat \<Rightarrow> rr \<Rightarrow> net_state \<Rightarrow> bool" for E N dns_name s0 where
  first_server: "lookup_ns E N (DNSLabel E (str ''.'')) Resolver s0 = (Inr (Some ns), s1) \<Longrightarrow> random_choice N ns s1 = (Inr u, s)
    \<Longrightarrow> walk_reaches E N dns_name s0 1 u s"
| next_server: "walk_reaches E N dns_name s0 depth v s \<Longrightarrow> rdata v = RD_NS l
    \<Longrightarrow> lookup_ns E N (drop (length dns_name - depth) dns_name) (Server (label_str E l)) s = (Inr (Some ns), s1)
    \<Longrightarrow> random_choice N ns s1 = (Inr u, s2) \<Longrightarrow> \<not> label_eq E (rname u) dns_name
    \<Longrightarrow> walk_reaches E N dns_name s0 (Suc depth) u s2"

lemma walk_reaches_eq:
  "walk_reaches E N (DNSLabel E domain) s0 depth u s \<Longrightarrow> query_authoritative_ns E N domain s0 = ns_walk E N (DNSLabel E domain) depth u s"
proof (induction rule: walk_reaches.induct)
  case (next_server depth v s l ns s1 u s2)
  then show ?case by (simp add: ns_walk.simps[of E N "DNSLabel E domain" depth v s])
qed (simp add: query_authoritative_ns_def)

text \<open>C37: If the walk to a zone comes to a server that answers whatever it is asked with name servers of some other name, all of
  them that server itself or others that do so too, the command stays there for ever: it does not notice that
  the walk no longer descends, and no later zone is checked. One such server, which refers to itself, is enough.\<close>

theorem lame_delegation_never_returns:
  assumes "walk_reaches E N (DNSLabel E (checked_root c)) s depth u s'" "rdata u = RD_NS l" "label_str E l \<in> L"
    and "lame E N (DNSLabel E (checked_root c)) L"
  shows "check_all E N (c # cs) s w = None"
  using walk_reaches_eq[OF assms(1)] lame_walk[OF assms(4)] assms(2,3) by (simp add: refers_def)


section \<open>The status and the history\<close>

text \<open>The specification: verdicts, the newest first. A zone is active if it was valid once and has not failed five
  times since.\<close>

fun fails_since :: "verdict list \<Rightarrow> nat" where
  "fails_since [] = 0"
| "fails_since (Valid # h) = 0"
| "fails_since (Cant_validate # h) = fails_since h"
| "fails_since (_ # h) = Suc (fails_since h)"

definition ought_active :: "verdict list \<Rightarrow> bool" where
  "ought_active h \<longleftrightarrow> Valid \<in> set h \<and> fails_since h < 5"

text \<open>The relation between the stored status and the history: the counter counts only while the zone is active.\<close>

definition follows :: "bool \<times> nat \<Rightarrow> verdict list \<Rightarrow> bool" where
  "follows p h \<longleftrightarrow> fst p = ought_active h \<and> (fst p \<longrightarrow> snd p = fails_since h)"

fun step_status :: "verdict \<Rightarrow> bool \<times> nat \<Rightarrow> bool \<times> nat" where
  "step_status Cant_validate p = p"
| "step_status Valid p = (True, 0)"
| "step_status _ (a, n) = (if a then (n + 1 < 5, n + 1) else (a, n))"

lemma follows_new: "follows (False, n) []"
  by (simp add: follows_def ought_active_def)

lemma follows_step: "follows p h \<Longrightarrow> follows (step_status v p) (v # h)"
  by (cases v; cases p) (auto simp: follows_def ought_active_def)

definition statuses :: "world \<Rightarrow> ((pstr + pstr) \<times> bool \<times> nat) list" where
  "statuses w = map (\<lambda>c. (checked_key c, checked_status c)) (checked_zones w)"

lemma statuses_tables:
  "dnszones w' = dnszones w \<Longrightarrow> szones w' = szones w \<Longrightarrow> statuses w' = statuses w"
  by (simp add: statuses_def checked_zones_def)

lemma checked_save_status:
  assumes "checked_key c \<in> fst ` set (statuses w)" "checked_save E (with_status a n c) w = (Inr (), w')"
  shows "statuses w' = map (\<lambda>(k, p). if k = checked_key c then (k, (a, n)) else (k, p)) (statuses w)"
proof (cases c)
  case (Primary z)
  then have "list_ex (\<lambda>s. z_id s = z_id z) (dnszones w)"
    using assms by (auto simp: statuses_def checked_zones_def list_ex_iff)
  then show ?thesis
    using Primary assms(2)
    by (auto simp: statuses_def checked_zones_def DNSZone_save_def keycloak_resource_def emit_def upsert_def
        split: sum.splits option.splits)
next
  case (Secondary z)
  then have "list_ex (\<lambda>s. sz_id s = sz_id z) (szones w)"
    using assms by (auto simp: statuses_def checked_zones_def list_ex_iff)
  then show ?thesis
    using Secondary assms(2)
    by (auto simp: statuses_def checked_zones_def SecondaryDNSZone_save_def keycloak_resource_def emit_def upsert_def
        split: sum.splits option.splits)
qed

lemma notify_keeps: "notify_inactive E N c w = (r, w') \<Longrightarrow> statuses w' = statuses w"
proof -
  have "mail_invalid N u w = (x, v) \<Longrightarrow> statuses v = statuses w" for u x v
    by (auto simp: mail_invalid_def act_defs split: option.splits intro!: statuses_tables) (auto simp: emit_def)
  then show "notify_inactive E N c w = (r, w') \<Longrightarrow> statuses w' = statuses w"
    by (auto simp: notify_inactive_def act_defs split: prod.splits sum.splits exn.splits)
qed

lemma status_unchanged:
  "(\<And>p. (k, p) \<in> set xs \<Longrightarrow> f p = p) \<Longrightarrow> map (\<lambda>(j, p). if j = k then (j, f p) else (j, p)) xs = xs"
  by (induction xs) auto

lemma status_update:
  "(\<And>p. (k, p) \<in> set xs \<Longrightarrow> f p = q) \<Longrightarrow> map (\<lambda>(j, p). if j = k then (j, f p) else (j, p)) xs
    = map (\<lambda>(j, p). if j = k then (j, q) else (j, p)) xs"
  by (induction xs) auto

text \<open>What one failure does to the row.\<close>

lemma increment_status:
  assumes "increment_zone_fail E N c w = (Inr (), w')" "(checked_key c, checked_status c) \<in> set (statuses w)"
    and "distinct (map fst (statuses w))" "v \<in> {Does_not_exist, Invalid}"
  shows "statuses w' = map (\<lambda>(k, p). if k = checked_key c then (k, step_status v p) else (k, p)) (statuses w)"
proof -
  obtain a n where c: "checked_status c = (a, n)" by fastforce
  have only: "p = (a, n)" if "(checked_key c, p) \<in> set (statuses w)" for p
    using eq_key_imp_eq_value[OF assms(3) that] assms(2) c by simp
  have key: "checked_key c \<in> fst ` set (statuses w)" using assms(2) by force
  have step: "step_status v (a, n) = (if a then (n + 1 < 5, n + 1) else (a, n))" using assms(4) by auto
  show ?thesis
  proof (cases a)
    case True
    have "statuses w' = map (\<lambda>(k, p). if k = checked_key c then (k, (n + 1 < 5, n + 1)) else (k, p)) (statuses w)"
    proof (cases "5 \<le> n + 1")
      case True
      then have "seq (notify_inactive E N c) (checked_save E (with_status False (n + 1) c)) w = (Inr (), w')"
        using assms(1) \<open>a\<close> c by (simp add: increment_zone_fail_def)
      then obtain w1 where w1: "notify_inactive E N c w = (Inr (), w1)" "checked_save E (with_status False (n + 1) c) w1 = (Inr (), w')"
        by (auto simp: act_defs split: prod.splits sum.splits)
      then show ?thesis
        using checked_save_status[of c w1 E False "n + 1"] notify_keeps[OF w1(1)] key True by auto
    next
      case False
      then show ?thesis
        using assms(1) \<open>a\<close> c checked_save_status[OF key, of E True "n + 1"] by (auto simp: increment_zone_fail_def)
    qed
    also have "\<dots> = map (\<lambda>(k, p). if k = checked_key c then (k, step_status v p) else (k, p)) (statuses w)"
      by (rule status_update[symmetric]) (use only step True in auto)
    finally show ?thesis .
  next
    case False
    then have "w' = w" using assms(1) c by (simp add: increment_zone_fail_def ret_def)
    have "map (\<lambda>(k, p). if k = checked_key c then (k, step_status v p) else (k, p)) (statuses w) = statuses w"
      by (rule status_unchanged) (use only step False in auto)
    then show ?thesis using \<open>w' = w\<close> by simp
  qed
qed

lemma judge_status:
  assumes "judge E N c found w = (Inr v, w')" "(checked_key c, checked_status c) \<in> set (statuses w)"
    and "distinct (map fst (statuses w))"
  shows "statuses w' = map (\<lambda>(k, p). if k = checked_key c then (k, step_status v p) else (k, p)) (statuses w)"
proof (cases found)
  case (Inl e)
  then have "v = Cant_validate" "w' = w" using assms(1) by (auto simp: judge_def act_defs split: if_splits)
  then show ?thesis by (simp add: status_unchanged)
next
  case (Inr x)
  have key: "checked_key c \<in> fst ` set (statuses w)" using assms(2) by force
  show ?thesis
  proof (cases x)
    case None
    then have "increment_zone_fail E N c w = (Inr (), w')" "v = Does_not_exist"
      using assms(1) Inr by (auto simp: judge_def act_defs split: prod.splits sum.splits)
    then show ?thesis using increment_status assms(2,3) by blast
  next
    case (Some ns)
    show ?thesis
    proof (cases "ns_valid E (wanted_ns E c w) ns")
      case (Inr b)
      show ?thesis
      proof (cases b)
        case True
        then have "checked_save E (with_status True 0 c) w = (Inr (), w')" "v = Valid"
          using assms(1) Inr Some \<open>found = Inr x\<close> by (auto simp: judge_def act_defs split: prod.splits sum.splits)
        then show ?thesis
          using checked_save_status[OF key, of E True 0] status_update[of "checked_key c" "statuses w" "step_status Valid" "(True, 0)"] by auto
      next
        case False
        then have "increment_zone_fail E N c w = (Inr (), w')" "v = Invalid"
          using assms(1) Inr Some \<open>found = Inr x\<close> by (auto simp: judge_def act_defs split: prod.splits sum.splits)
        then show ?thesis using increment_status assms(2,3) by blast
      qed
    qed (use assms(1) Inr Some in \<open>simp add: judge_def act_defs\<close>)
  qed
qed


lemma check_all_status:
  assumes "check_all E N cs s w = Some (Inr vs, s', w')" "distinct (map fst (statuses w))" "distinct (map checked_key cs)"
    and "\<And>c. c \<in> set cs \<Longrightarrow> (checked_key c, checked_status c) \<in> set (statuses w)"
  shows "map fst vs = map checked_key cs
    \<and> statuses w' = map (\<lambda>(k, p). (k, case map_of vs k of None \<Rightarrow> p | Some v \<Rightarrow> step_status v p)) (statuses w)"
  using assms
proof (induction cs arbitrary: s w vs)
  case Nil
  then show ?case by auto
next
  case (Cons c cs)
  obtain found s1 where q: "query_authoritative_ns E N (checked_root c) s = Some (found, s1)"
    using Cons.prems(1) by (cases "query_authoritative_ns E N (checked_root c) s") auto
  obtain v w1 where j: "judge E N c found w = (Inr v, w1)"
    using Cons.prems(1) q by (auto split: prod.splits sum.splits)
  obtain vs1 where rest: "check_all E N cs s1 w1 = Some (Inr vs1, s', w')" and vs: "vs = (checked_key c, v) # vs1"
    using Cons.prems(1) q j by (auto split: option.splits prod.splits sum.splits)
  have st: "statuses w1 = map (\<lambda>(k, p). if k = checked_key c then (k, step_status v p) else (k, p)) (statuses w)"
    using judge_status[OF j] Cons.prems(2,4) by simp
  have keys: "map fst (statuses w1) = map fst (statuses w)" by (auto simp: st)
  have in1: "(checked_key d, checked_status d) \<in> set (statuses w1)" if "d \<in> set cs" for d
  proof -
    have "checked_key d \<noteq> checked_key c" using Cons.prems(3) that by (metis distinct.simps(2) imageI list.set_map list.simps(9))
    then show ?thesis unfolding st using Cons.prems(4)[of d] that by force
  qed
  have ih: "map fst vs1 = map checked_key cs"
      "statuses w' = map (\<lambda>(k, p). (k, case map_of vs1 k of None \<Rightarrow> p | Some v \<Rightarrow> step_status v p)) (statuses w1)"
    using Cons.IH[OF rest] keys Cons.prems(2,3) in1 by simp_all
  have "checked_key c \<notin> set (map fst vs1)" using ih(1) Cons.prems(3) by simp
  then have "map_of vs1 (checked_key c) = None" by (simp add: map_of_eq_None_iff)
  then have "statuses w' = map (\<lambda>(k, p). (k, case map_of vs k of None \<Rightarrow> p | Some v \<Rightarrow> step_status v p)) (statuses w)"
    unfolding ih(2) st vs by auto
  then show ?case using ih(1) vs by simp
qed

lemma statuses_keys: "map fst (statuses w) = map (Inl \<circ> z_id) (dnszones w) @ map (Inr \<circ> sz_id) (szones w)"
  by (simp add: statuses_def checked_zones_def comp_def)

lemma statuses_iff:
  "x \<in> set (statuses w) \<longleftrightarrow> (\<exists>z \<in> set (dnszones w). x = (Inl (z_id z), z_active z, z_num_check_fails z))
    \<or> (\<exists>z \<in> set (szones w). x = (Inr (sz_id z), sz_active z, sz_num_check_fails z))"
  by (auto simp: statuses_def checked_zones_def)

lemma distinct_statuses:
  assumes "distinct (map z_id (dnszones w))" "distinct (map sz_id (szones w))"
  shows "distinct (map fst (statuses w))"
  using assms by (auto simp: statuses_keys distinct_map inj_on_def)

lemma validate_ns_status:
  assumes "validate_ns E N s w = Some (Inr vs, s', w')" "distinct (map z_id (dnszones w))" "distinct (map sz_id (szones w))"
    and "\<And>k p. (k, p) \<in> set (statuses w) \<Longrightarrow> follows p (H k)" "(k, p) \<in> set (statuses w')"
  shows "\<exists>v. (k, v) \<in> set vs \<and> follows p (v # H k)"
proof -
  have d: "distinct (map fst (statuses w))" by (rule distinct_statuses[OF assms(2,3)])
  have keys: "map checked_key (checked_zones w) = map fst (statuses w)" by (simp add: statuses_def comp_def)
  have in0: "c \<in> set (checked_zones w) \<Longrightarrow> (checked_key c, checked_status c) \<in> set (statuses w)" for c
    by (auto simp: statuses_def)
  have r: "map fst vs = map fst (statuses w)"
      "statuses w' = map (\<lambda>(k, p). (k, case map_of vs k of None \<Rightarrow> p | Some v \<Rightarrow> step_status v p)) (statuses w)"
    using check_all_status[OF assms(1)[unfolded validate_ns_def] d] in0 d keys by auto
  obtain p0 where p0: "(k, p0) \<in> set (statuses w)" "p = (case map_of vs k of None \<Rightarrow> p0 | Some v \<Rightarrow> step_status v p0)"
    using assms(5) unfolding r(2) by auto
  then have "k \<in> set (map fst vs)" using r(1) by force
  then obtain v where v: "map_of vs k = Some v" using map_of_eq_None_iff[of vs k] by (cases "map_of vs k") auto
  then show ?thesis using p0 follows_step[OF assms(4)[OF p0(1)], of v] map_of_SomeD[OF v] by auto
qed

text \<open>C8: The stored status refines the specification. A run of the command that ends gives each zone one verdict; if the
  status of every zone followed the history of its verdicts before, then afterwards it follows the history
  extended by the new verdict: the zone is active if and only if it was valid once and has failed fewer
  than five checks since then.\<close>

theorem status_follows_history:
  assumes "validate_ns E N s w = Some (Inr vs, s', w')" "distinct (map z_id (dnszones w))" "distinct (map sz_id (szones w))"
    and "\<And>z. z \<in> set (dnszones w) \<Longrightarrow> follows (z_active z, z_num_check_fails z) (H (Inl (z_id z)))"
    and "\<And>z. z \<in> set (szones w) \<Longrightarrow> follows (sz_active z, sz_num_check_fails z) (H (Inr (sz_id z)))"
  shows "(\<forall>z \<in> set (dnszones w'). \<exists>v. (Inl (z_id z), v) \<in> set vs
      \<and> follows (z_active z, z_num_check_fails z) (v # H (Inl (z_id z))))
    \<and> (\<forall>z \<in> set (szones w'). \<exists>v. (Inr (sz_id z), v) \<in> set vs
      \<and> follows (sz_active z, sz_num_check_fails z) (v # H (Inr (sz_id z))))"
proof -
  have "follows p (H k)" if "(k, p) \<in> set (statuses w)" for k p
    using that assms(4,5) by (auto simp: statuses_iff)
  note r = validate_ns_status[OF assms(1-3) this]
  show ?thesis
    by (intro conjI ballI; rule r) (auto simp: statuses_iff)
qed

text \<open>The mail to the owner of a zone that fails for the fifth time is sent before the status is saved, and a zone
  whose owner is not known has nobody to write to: the command ends with an exception, the status
  stays as it was, and the zones after it are never checked, in this run or a later one.\<close>

theorem unknown_owner_stops_checks:
  assumes "query_authoritative_ns E N (checked_root c) s = Some (Inr None, s1)"
    and "checked_status c = (True, 4)" "checked_owner E c = Inr None"
  shows "check_all E N (c # cs) s w = Some (Inl AttributeError, s1, w)"
  using assms by (simp add: judge_def increment_zone_fail_def notify_inactive_def mail_invalid_def act_defs)

section \<open>A concrete run\<close>

text \<open>A network in which the servers know the delegations of the root, of \<^verbatim>\<open>org\<close> and of \<^verbatim>\<open>ex.org\<close>; packets are
  the numbers of these names.\<close>

definition delegation :: "bytes \<Rightarrow> dns_msg res" where
  "delegation pkt =
     (case pkt of
        [n] \<Rightarrow> Inr (empty_msg\<lparr>m_auth := [mk_rr (drop (2 - n) (sample_label (str ''ex.org''))) QT_NS
                 (RD_NS (sample_label (str ''ns1.as207960.net''))) 0]\<rparr>)
      | _ \<Rightarrow> Inl DNSError)"

definition check_ext :: ext where
  "check_ext = sample_ext\<lparr>msg_parse := delegation, label_eq := (=)\<rparr>"

definition check_net :: net where
  "check_net = \<lparr>ns_send = (\<lambda>hs lbl server. if lbl = drop (2 - length lbl) (sample_label (str ''ex.org'')) \<and> length lbl \<le> 2
     then Inr [length lbl] else Inl OSError), random_below = (\<lambda>k n. 0), mail_send = (\<lambda>hs u subject. Inr ())\<rparr>"

definition check_world :: world where
  "check_world = empty_world\<lparr>dnszones := [sample_zone\<lparr>z_active := False\<rparr>]\<rparr>"

lemma check_ext_simps [simp]:
  "msg_parse check_ext = delegation" "label_eq check_ext = (=)" "DNSLabel check_ext = sample_label"
  "label_str check_ext = sample_label_str" "resource_owner check_ext = resource_owner sample_ext"
  "kc_resource check_ext = kc_resource sample_ext"
  by (simp_all add: check_ext_def)

lemma sample_names: "sample_label (str ''ex.org'') = [str ''ex'', str ''org'']" "sample_label (str ''.'') = []"
  by (simp_all add: sample_label_def)

definition sample_ns :: "nat \<Rightarrow> rr" where
  "sample_ns n = mk_rr (drop (2 - n) [str ''ex'', str ''org'']) QT_NS (RD_NS (sample_label (str ''ns1.as207960.net''))) 0"

lemma sample_lookup:
  assumes "n \<le> 2"
  shows "lookup_ns check_ext check_net (drop (2 - n) [str ''ex'', str ''org'']) server s
    = (Inr (Some [sample_ns n]), s\<lparr>asked := asked s @ [(drop (2 - n) [str ''ex'', str ''org''], server)]\<rparr>)"
  using assms unfolding lookup_ns_def
  by (simp add: eval_nat_numeral ask_ns_def check_net_def sample_names delegation_def name_servers_def sample_ns_def mk_rr_def
      del: str_simps)

lemma sample_choice: "random_choice check_net [r] s = (Inr r, s\<lparr>draws := Suc (draws s)\<rparr>)"
  by (simp add: random_choice_def)

lemma sample_target: "rdata_label (rdata (sample_ns n)) = Inr (sample_label (str ''ns1.as207960.net''))"
  by (simp add: sample_ns_def mk_rr_def)

lemma sample_owner: "rname (sample_ns n) = drop (2 - n) [str ''ex'', str ''org'']"
  by (simp add: sample_ns_def mk_rr_def)

lemma sample_query: "\<exists>s'. query_authoritative_ns check_ext check_net (str ''ex.org'') s = Some (Inr (Some [sample_ns 2]), s')"
proof -
  show ?thesis
    unfolding query_authoritative_ns_def check_ext_simps sample_names
    using sample_lookup[of 0] sample_lookup[of 1] sample_lookup[of 2]
    by (simp add: sample_choice ns_walk.simps[of _ _ _ _ "sample_ns _"] sample_target sample_owner del: str_simps)
qed

theorem status_follows_history_witness:
  "\<exists>vs s' w'. validate_ns check_ext check_net \<lparr>asked = [], draws = 0\<rparr> check_world = Some (Inr vs, s', w')
    \<and> (\<forall>z \<in> set (dnszones w'). \<exists>v. (Inl (z_id z), v) \<in> set vs \<and> follows (z_active z, z_num_check_fails z) [v])"
proof -
  let ?c = "Primary (sample_zone\<lparr>z_active := False\<rparr>)"
  obtain s' where q: "query_authoritative_ns check_ext check_net (str ''ex.org'') \<lparr>asked = [], draws = 0\<rparr>
      = Some (Inr (Some [sample_ns 2]), s')" using sample_query by blast
  have v: "ns_valid check_ext (wanted_ns check_ext ?c check_world) [sample_ns 2] = Inr True"
    by (simp add: ns_valid_def wanted_ns_def check_world_def empty_world_def WANTED_NS_def sample_ns_def mk_rr_def del: str_simps)
  obtain w' where "judge check_ext check_net ?c (Inr (Some [sample_ns 2])) check_world = (Inr Valid, w')"
    using v by (simp add: judge_def act_defs DNSZone_save_def keycloak_resource_def)
  moreover have "checked_zones check_world = [?c]" "checked_root ?c = str ''ex.org''"
    by (simp_all add: checked_zones_def check_world_def empty_world_def sample_zone_def)
  ultimately have run: "validate_ns check_ext check_net \<lparr>asked = [], draws = 0\<rparr> check_world
      = Some (Inr [(checked_key ?c, Valid)], s', w')"
    using q by (simp add: validate_ns_def)
  show ?thesis
    using run status_follows_history[OF run, of "\<lambda>_. []"]
    by (auto simp: check_world_def empty_world_def sample_zone_def follows_new)
qed

lemma exact_sample: "exact check_ext check_net"
  by (auto simp: exact_def check_net_def delegation_def name_servers_def mk_rr_def empty_msg_def split: if_splits)

theorem authoritative_query_returns_witness:
  "\<exists>r. query_authoritative_ns check_ext check_net (str ''a.b.ex.org'') \<lparr>asked = [], draws = 0\<rparr> = Some r"
  using authoritative_query_returns[OF exact_sample] by blast

text \<open>The resolver names a server of the root, and that server answers every query with a delegation of
  \<^verbatim>\<open>org\<close> to itself.\<close>

definition lame_net :: net where
  "lame_net = check_net\<lparr>ns_send := (\<lambda>hs lbl server. Inr (if server = Resolver then [0] else [1]))\<rparr>"

theorem lame_delegation_never_returns_witness:
  "check_all check_ext lame_net [Primary sample_zone] \<lparr>asked = [], draws = 0\<rparr> check_world = None"
proof (rule lame_delegation_never_returns[where L = "{label_str check_ext (sample_label (str ''ns1.as207960.net''))}"])
  have "lookup_ns check_ext lame_net (DNSLabel check_ext (str ''.'')) Resolver \<lparr>asked = [], draws = 0\<rparr>
      = (Inr (Some [sample_ns 0]), \<lparr>asked = [(DNSLabel check_ext (str ''.''), Resolver)], draws = 0\<rparr>)"
    unfolding lookup_ns_def
    by (simp add: eval_nat_numeral ask_ns_def lame_net_def sample_names delegation_def name_servers_def sample_ns_def mk_rr_def
        del: str_simps)
  then show "walk_reaches check_ext lame_net (DNSLabel check_ext (checked_root (Primary sample_zone))) \<lparr>asked = [], draws = 0\<rparr> 1
      (sample_ns 0) \<lparr>asked = [(DNSLabel check_ext (str ''.''), Resolver)], draws = 1\<rparr>"
    by (rule walk_reaches.first_server) (simp add: random_choice_def)
  show "rdata (sample_ns 0) = RD_NS (sample_label (str ''ns1.as207960.net''))" by (simp add: sample_ns_def mk_rr_def)
qed (simp_all add: lame_def lame_net_def delegation_def name_servers_def mk_rr_def sample_zone_def sample_names del: str_simps)

definition orphan_ext :: ext where
  "orphan_ext = check_ext\<lparr>resource_owner := (\<lambda>_. Inr None),
     msg_parse := (\<lambda>pkt. if pkt = [0] then delegation pkt else Inr empty_msg)\<rparr>"

lemma orphan_ext_simps:
  "label_eq orphan_ext = (=)" "DNSLabel orphan_ext = sample_label" "label_str orphan_ext = sample_label_str"
  by (simp_all add: orphan_ext_def)

theorem unknown_owner_stops_checks_witness:
  "\<exists>s1. check_all orphan_ext check_net [Primary (sample_zone\<lparr>z_num_check_fails := 4\<rparr>), Primary sample_zone]
     \<lparr>asked = [], draws = 0\<rparr> check_world = Some (Inl AttributeError, s1, check_world)"
proof -
  have net: "ns_send check_net hs [] server = Inr [0]" "ns_send check_net hs [str ''org''] server = Inr [1]" for hs server
    by (simp_all add: check_net_def sample_names del: str_simps)
  have root: "lookup_ns orphan_ext check_net [] server s = (Inr (Some [sample_ns 0]), s\<lparr>asked := asked s @ [([], server)]\<rparr>)" for server s
    unfolding lookup_ns_def by (simp add: eval_nat_numeral ask_ns_def net orphan_ext_def delegation_def name_servers_def
        sample_ns_def mk_rr_def sample_names del: str_simps)
  have org: "lookup_ns orphan_ext check_net [str ''org''] server s = (Inr None, s\<lparr>asked := asked s @ [([str ''org''], server)]\<rparr>)" for server s
    unfolding lookup_ns_def by (simp add: eval_nat_numeral ask_ns_def net orphan_ext_def name_servers_def empty_msg_def del: str_simps)
  have "\<exists>s1. query_authoritative_ns orphan_ext check_net (str ''ex.org'') s = Some (Inr None, s1)" for s
    using root org
    by (simp add: query_authoritative_ns_def sample_choice orphan_ext_simps sample_names sample_target
        ns_walk.simps[of _ _ _ _ "sample_ns _"] sample_owner del: str_simps)
  then obtain s1 where "query_authoritative_ns orphan_ext check_net (checked_root (Primary (sample_zone\<lparr>z_num_check_fails := 4\<rparr>)))
      \<lparr>asked = [], draws = 0\<rparr> = Some (Inr None, s1)" by (auto simp: sample_zone_def)
  from unknown_owner_stops_checks[OF this] show ?thesis by (auto simp: sample_zone_def orphan_ext_def)
qed

end
