(* ===== verification/Tcp_Stream.thy ===== *)
theory Tcp_Stream
  imports Byte_Codecs
begin

text \<open>
  Reading from a connection. A stream is the list of pieces in which the bytes arrive, and how it ends:
  the peer closes it, so that every further \<^verbatim>\<open>recv\<close> returns no bytes, or the call raises (a timeout, a
  reset). The loop of \<^verbatim>\<open>sidecar.py\<close> and \<^verbatim>\<open>run-axfr-notify.py\<close> that reads a message of a given length does
  not look for the end of the stream: it is a partial function, and the lemmas say when it returns.
\<close>

record tcp =
  tcp_chunks :: "bytes list"
  tcp_end :: "exn option"

definition tcp_wf :: "tcp \<Rightarrow> bool" where
  "tcp_wf t \<longleftrightarrow> [] \<notin> set (tcp_chunks t)"

definition available :: "tcp \<Rightarrow> bytes" where
  "available t = concat (tcp_chunks t)"

definition recv :: "nat \<Rightarrow> tcp \<Rightarrow> bytes res \<times> tcp" where
  "recv n t =
     (case tcp_chunks t of
        [] \<Rightarrow> ((case tcp_end t of None \<Rightarrow> Inr [] | Some e \<Rightarrow> Inl e), t)
      | c # cs \<Rightarrow>
          if n = 0 then (Inr [], t)
          else if length c \<le> n then (Inr c, t\<lparr>tcp_chunks := cs\<rparr>)
          else (Inr (take n c), t\<lparr>tcp_chunks := drop n c # cs\<rparr>))"

text \<open>\<^verbatim>\<open>while len(data) < data_len: data.extend(conn.recv(data_len - len(data)))\<close>\<close>

partial_function (option) recv_loop :: "nat \<Rightarrow> bytes \<Rightarrow> tcp \<Rightarrow> (bytes res \<times> tcp) option" where
  "recv_loop n data t =
     (if length data < n then
        (case recv (n - length data) t of
           (Inl e, t') \<Rightarrow> Some (Inl e, t')
         | (Inr b, t') \<Rightarrow> recv_loop n (data @ b) t')
      else Some (Inr data, t))"

text \<open>\<^verbatim>\<open>struct.unpack("!H", data)\<close>\<close>

definition unpack_H :: "bytes \<Rightarrow> nat res" where
  "unpack_H b = (if length b = 2 then Inr (from_be b) else Inl StructError)"


section \<open>What a call returns\<close>

lemma recv_Inr:
  assumes "recv n t = (Inr b, t')" "tcp_wf t"
  shows "available t = b @ available t'" "length b \<le> n" "tcp_wf t'" "tcp_end t' = tcp_end t"
    "b = [] \<Longrightarrow> 0 < n \<Longrightarrow> available t = [] \<and> tcp_end t = None \<and> t' = t"
  using assms
  by (auto simp: recv_def available_def tcp_wf_def split: list.splits if_splits option.splits)

lemma recv_Inl: "recv n t = (Inl e, t') \<Longrightarrow> available t = [] \<and> tcp_end t = Some e"
  by (auto simp: recv_def available_def split: list.splits if_splits option.splits)

lemma recv_end: "tcp_chunks t = [] \<Longrightarrow> recv n t = ((case tcp_end t of None \<Rightarrow> Inr [] | Some e \<Rightarrow> Inl e), t)"
  by (simp add: recv_def)

lemma available_Nil: "tcp_wf t \<Longrightarrow> available t = [] \<longleftrightarrow> tcp_chunks t = []"
  by (cases "tcp_chunks t") (auto simp: available_def tcp_wf_def)


section \<open>The loop\<close>

lemma recv_loop_enough:
  assumes "tcp_wf t" "n \<le> length data + length (available t)" "length data \<le> n"
  shows "\<exists>t'. recv_loop n data t = Some (Inr (data @ take (n - length data) (available t)), t')
    \<and> available t' = drop (n - length data) (available t) \<and> tcp_wf t' \<and> tcp_end t' = tcp_end t"
  using assms
proof (induction "n - length data" arbitrary: data t rule: less_induct)
  case less
  show ?case
  proof (cases "length data < n")
    case True
    obtain x t1 where r: "recv (n - length data) t = (x, t1)" by fastforce
    show ?thesis
    proof (cases x)
      case (Inl e)
      then show ?thesis using recv_Inl r less.prems(2) True by fastforce
    next
      case (Inr b)
      note k = recv_Inr[OF r[unfolded Inr] less.prems(1)]
      have b: "b \<noteq> []" using k(5) True less.prems(2) by fastforce
      have "n - length (data @ b) < n - length data" using True b by (cases b) auto
      moreover have "n \<le> length (data @ b) + length (available t1)" "length (data @ b) \<le> n"
        using k(1,2) less.prems(2) True by auto
      ultimately obtain t' where t': "recv_loop n (data @ b) t1
            = Some (Inr ((data @ b) @ take (n - length (data @ b)) (available t1)), t')"
          "available t' = drop (n - length (data @ b)) (available t1)" "tcp_wf t'" "tcp_end t' = tcp_end t1"
        using less.hyps[OF _ k(3), of "data @ b"] by blast
      have "take (n - length data) (available t) = b @ take (n - length (data @ b)) (available t1)"
        "drop (n - length data) (available t) = drop (n - length (data @ b)) (available t1)"
        using k(1,2) by simp_all
      then show ?thesis using t' True r Inr k(4) by (subst recv_loop.simps) simp
    qed
  next
    case False
    then show ?thesis using less.prems by (subst recv_loop.simps) simp
  qed
qed

lemma recv_loop_starves:
  assumes "recv_loop n data t = Some y" "tcp_wf t"
  shows "n \<le> length data + length (available t) \<or> tcp_end t \<noteq> None"
proof -
  have "tcp_wf t \<longrightarrow> n \<le> length data + length (available t) \<or> tcp_end t \<noteq> None"
  proof (rule recv_loop.raw_induct[of "\<lambda>n data t y. tcp_wf t
      \<longrightarrow> n \<le> length data + length (available t) \<or> tcp_end t \<noteq> None", OF _ assms(1)], intro impI)
    fix loop n data t y
    assume IH: "\<And>n data t y. loop n data t = Some y
        \<Longrightarrow> tcp_wf t \<longrightarrow> n \<le> length data + length (available t) \<or> tcp_end t \<noteq> None"
      and run: "(if length data < n then
          (case recv (n - length data) t of
             (Inl e, t') \<Rightarrow> Some (Inl e, t')
           | (Inr b, t') \<Rightarrow> loop n (data @ b) t')
        else Some (Inr data, t)) = Some y" and wf: "tcp_wf t"
    obtain x t1 where r: "recv (n - length data) t = (x, t1)" by fastforce
    show "n \<le> length data + length (available t) \<or> tcp_end t \<noteq> None"
    proof (cases "length data < n")
      case True
      show ?thesis
      proof (cases x)
        case (Inl e)
        then show ?thesis using recv_Inl r by fastforce
      next
        case (Inr b)
        note k = recv_Inr[OF r[unfolded Inr] wf]
        have "loop n (data @ b) t1 = Some y" using run True r Inr by simp
        from IH[OF this] k(1,3,4) show ?thesis by (simp add: add.assoc)
      qed
    qed simp
  qed
  then show ?thesis using assms(2) by simp
qed

lemma recv_loop_error:
  assumes "tcp_wf t" "length data + length (available t) < n" "tcp_end t = Some e"
  shows "\<exists>t'. recv_loop n data t = Some (Inl e, t')"
  using assms
proof (induction "length (available t)" arbitrary: data t rule: less_induct)
  case less
  obtain x t1 where r: "recv (n - length data) t = (x, t1)" by fastforce
  show ?case
  proof (cases x)
    case (Inl e')
    then show ?thesis using recv_Inl r less.prems(2,3) by (subst recv_loop.simps) fastforce
  next
    case (Inr b)
    note k = recv_Inr[OF r[unfolded Inr] less.prems(1)]
    have "b \<noteq> []" using k(5) less.prems(2,3) by fastforce
    then have "length (available t1) < length (available t)" using k(1) by simp
    moreover have "length (data @ b) + length (available t1) < n" using k(1) less.prems(2) by simp
    ultimately obtain t' where "recv_loop n (data @ b) t1 = Some (Inl e, t')"
      using less.hyps[OF _ k(3)] k(4) less.prems(3) by fastforce
    then show ?thesis using r Inr less.prems(2) by (subst recv_loop.simps) simp
  qed
qed

text \<open>The loop returns exactly if the bytes arrive or the connection fails; then it has read exactly the bytes
  asked for. If the peer closes the connection early it turns for ever.\<close>

theorem recv_loop_returns:
  assumes "tcp_wf t"
  shows "((\<exists>r. recv_loop n [] t = Some r) \<longleftrightarrow> n \<le> length (available t) \<or> tcp_end t \<noteq> None)
    \<and> (n \<le> length (available t) \<longrightarrow> (\<exists>t'. recv_loop n [] t = Some (Inr (take n (available t)), t')
         \<and> available t' = drop n (available t)))"
  using recv_loop_enough[OF assms, of n "[]"] recv_loop_starves[of n "[]" t] recv_loop_error[OF assms, of "[]" n] assms
  by (cases "n \<le> length (available t)") auto

theorem recv_loop_returns_witness:
  "\<not> (\<exists>r. recv_loop 4 [] \<lparr>tcp_chunks = [[1, 2], [3]], tcp_end = None\<rparr> = Some r)
    \<and> (\<exists>t'. recv_loop 3 [] \<lparr>tcp_chunks = [[1, 2], [3]], tcp_end = None\<rparr> = Some (Inr [1, 2, 3], t'))"
  using recv_loop_returns[of "\<lparr>tcp_chunks = [[1, 2], [3]], tcp_end = None\<rparr>" 4]
    recv_loop_returns[of "\<lparr>tcp_chunks = [[1, 2], [3]], tcp_end = None\<rparr>" 3]
  by (auto simp: tcp_wf_def available_def)

end
