(* ===== verification/Secondary_Transfer.thy ===== *)
theory Secondary_Transfer
  imports Zone_Props Tcp_Stream Sample
begin

text \<open>
  The command \<^verbatim>\<open>transfer-secondary.py\<close>: for each secondary zone it asks the primary server for the serial
  number and, if that has changed, transfers the zone. The argument \<open>P :: peer\<close> resolves names, opens
  connections and prints records. A connection is the outcome of the two writes and the stream of
  bytes that the server sends. The variable \<^verbatim>\<open>response_len\<close> belongs to the whole loop and may be
  unbound: it is passed along as an option.
\<close>

section \<open>Connections\<close>

record conn =
  soa_sent :: "unit res"
  axfr_sent :: "unit res"
  replies :: tcp

record peer =
  getaddrinfo :: "pstr \<Rightarrow> pstr list res"
  connect :: "pstr \<Rightarrow> pstr \<Rightarrow> conn res"
  toZone :: "rr \<Rightarrow> pstr"
  rcode_name :: "nat \<Rightarrow> pstr"

fun connect_first :: "peer \<Rightarrow> szone \<Rightarrow> pstr list \<Rightarrow> conn option res" where
  "connect_first P z [] = Inr None"
| "connect_first P z (a # addrs) =
     (case connect P (sz_id z) a of
        Inr c \<Rightarrow> Inr (Some c)
      | Inl e \<Rightarrow> if e = OSError then connect_first P z addrs else Inl e)"

text \<open>Packing a query and sending its length and its bytes.\<close>

definition query_sent :: "ext \<Rightarrow> szone \<Rightarrow> nat \<Rightarrow> unit res \<Rightarrow> unit res" where
  "query_sent E z qt sent =
     bind_res (msg_pack E ((msg_new E)\<lparr>questions := [\<lparr>qname = DNSLabel E (sz_zone_root z), qtype = qt, qclass = CL_IN\<rparr>]\<rparr>))
       (\<lambda>q. if 65535 < length q then Inl StructError else sent)"

text \<open>\<^verbatim>\<open>except (OSError, ValueError, dnslib.DNSError)\<close>, with their subclasses (\<^verbatim>\<open>requests.RequestException\<close>
  is one of \<^verbatim>\<open>OSError\<close>).\<close>

definition caught :: "exn \<Rightarrow> bool" where
  "caught e \<longleftrightarrow> e \<in> {OSError, RequestError, ValueError, UnicodeError, BinasciiError, DNSError}"


section \<open>The serial number\<close>

datatype soa_reply = Invalid_response | Same_serial | New_serial nat

fun soa_serial :: "rdata \<Rightarrow> nat res" where
  "soa_serial (RD_SOA _ _ (s # _)) = Inr s"
| "soa_serial (RD_SOA _ _ []) = Inl IndexError"
| "soa_serial _ = Inl AttributeError"

definition read_soa :: "szone \<Rightarrow> dns_msg \<Rightarrow> soa_reply res" where
  "read_soa z m =
     (case m_rr m of
        [r] \<Rightarrow> bind_res (soa_serial (rdata r)) (\<lambda>serial.
                 Inr (if sz_serial z = Some serial then Same_serial else New_serial serial))
      | _ \<Rightarrow> Inr Invalid_response)"

definition soa_phase :: "ext \<Rightarrow> szone \<Rightarrow> nat option \<Rightarrow> conn \<Rightarrow> soa_reply res \<times> nat option \<times> tcp" where
  "soa_phase E z response_len c =
     (case query_sent E z QT_SOA (soa_sent c) of
        Inl e \<Rightarrow> (Inl e, response_len, replies c)
      | Inr _ \<Rightarrow>
         (case recv 2 (replies c) of
            (Inl e, t1) \<Rightarrow> (Inl e, response_len, t1)
          | (Inr b, t1) \<Rightarrow>
             (let len1 = (case unpack_H b of Inl _ \<Rightarrow> response_len | Inr n \<Rightarrow> Some n) in
              case len1 of
                None \<Rightarrow> (Inl NameError, None, t1)
              | Some n \<Rightarrow>
                 (case recv n t1 of
                    (Inl e, t2) \<Rightarrow> (Inl e, len1, t2)
                  | (Inr response, t2) \<Rightarrow> (bind_res (msg_parse E response) (read_soa z), len1, t2)))))"


section \<open>The transfer\<close>

text \<open>The object of the zone after its \<^verbatim>\<open>save\<close>, which Keycloak may have ended with an exception.\<close>

definition saved_szone :: "ext \<Rightarrow> szone \<Rightarrow> world \<Rightarrow> szone" where
  "saved_szone E z w = z\<lparr>sz_zone_root := lower E (sz_zone_root z),
     sz_resource_id := (case kc_resource E (events w) (sz_id z) (sz_resource_id z) of
         Inl (e, None) \<Rightarrow> sz_resource_id z | Inl (e, Some r) \<Rightarrow> r | Inr r \<Rightarrow> r)\<rparr>"

text \<open>\<^verbatim>\<open>zone.save(); continue\<close>; the number is \<^verbatim>\<open>response_len\<close>, which lives on.\<close>

definition save_and_go :: "ext \<Rightarrow> szone \<Rightarrow> nat option \<Rightarrow> world \<Rightarrow> unit res \<times> nat option \<times> world" where
  "save_and_go E z response_len w = (case SecondaryDNSZone_save E z w of (r, w1) \<Rightarrow> (r, response_len, w1))"

text \<open>The same inside the first \<^verbatim>\<open>try\<close> statement, whose handler saves the zone once more.\<close>

definition save_or_fail :: "ext \<Rightarrow> szone \<Rightarrow> nat option \<Rightarrow> world \<Rightarrow> unit res \<times> nat option \<times> world" where
  "save_or_fail E z response_len w =
     (case SecondaryDNSZone_save E z w of
        (Inr _, w1) \<Rightarrow> (Inr (), response_len, w1)
      | (Inl e, w1) \<Rightarrow>
          if caught e then save_and_go E ((saved_szone E z w)\<lparr>sz_error := True\<rparr>) response_len w1
          else (Inl e, response_len, w1))"

definition failing :: "szone \<Rightarrow> pstr \<Rightarrow> szone" where
  "failing z message = z\<lparr>sz_error := True, sz_error_message := Some message\<rparr>"

text \<open>One resource record: counts the SOA records of the zone, and makes a row unless it is the closing SOA. The
  identifier of a row is drawn when the object is made.\<close>

definition take_rr :: "ext \<Rightarrow> peer \<Rightarrow> szone \<Rightarrow> rr \<Rightarrow> nat \<times> szone_record list \<times> world \<Rightarrow> nat \<times> szone_record list \<times> world" where
  "take_rr E P z r = (\<lambda>(seen_soa, rrs, w).
     let seen_soa = (if rtype r = QT_SOA \<and> label_eq E (rname r) (DNSLabel E (sz_zone_root z)) then seen_soa + 1 else seen_soa)
     in if rclass r = CL_IN \<and> (rtype r \<noteq> QT_SOA \<or> seen_soa \<le> 1)
        then (seen_soa, rrs @ [\<lparr>sr_id = uuid E (next_uuid w), sr_zone = sz_id z, record_text = toZone P r\<rparr>],
              w\<lparr>next_uuid := Suc (next_uuid w)\<rparr>)
        else (seen_soa, rrs, w))"

lemma recv_consumes: "recv n t = (Inr b, t') \<Longrightarrow> available t = b @ available t'"
  by (auto simp: recv_def available_def split: list.splits if_splits option.splits)

lemma recv_two: "(Inr b, t1) = recv 2 t \<Longrightarrow> unpack_H b = Inr n \<Longrightarrow> (Inr r, t2) = recv n t1
    \<Longrightarrow> length (available t2) < length (available t)"
  by (auto simp: unpack_H_def dest!: recv_consumes[OF sym] split: if_splits)

text \<open>The loop \<^verbatim>\<open>while True\<close>. An answer with an error code is recorded, but its \<^verbatim>\<open>continue\<close> reads on. The result
  has the object of the zone and \<^verbatim>\<open>response_len\<close> as the loop leaves them. Every turn takes at least the two
  bytes of a length off the stream, so that the loop ends.\<close>

function axfr_loop :: "ext \<Rightarrow> peer \<Rightarrow> szone \<Rightarrow> nat option \<Rightarrow> nat \<Rightarrow> szone_record list \<Rightarrow> tcp \<Rightarrow> world
    \<Rightarrow> (nat \<times> szone_record list) res \<times> szone \<times> nat option \<times> world" where
  "axfr_loop E P z response_len seen_soa rrs t w =
     (case recv 2 t of
        (Inl e, _) \<Rightarrow> (Inl e, z, response_len, w)
      | (Inr b, t1) \<Rightarrow>
         (case unpack_H b of
            Inl e \<Rightarrow> (Inl e, z, response_len, w)
          | Inr n \<Rightarrow>
             (case recv n t1 of
                (Inl e, _) \<Rightarrow> (Inl e, z, Some n, w)
              | (Inr response, t2) \<Rightarrow>
                 (case msg_parse E response of
                    Inl e \<Rightarrow> (Inl e, z, Some n, w)
                  | Inr m \<Rightarrow>
                      if rcode m \<noteq> RC_NOERROR then
                        (let z' = failing z (str ''Failed to sync from '' @ sz_primary z @ str '': got response '' @ rcode_name P (rcode m))
                         in case SecondaryDNSZone_save E z' w of
                              (Inl e, w1) \<Rightarrow> (Inl e, saved_szone E z' w, Some n, w1)
                            | (Inr _, w1) \<Rightarrow> axfr_loop E P (saved_szone E z' w) (Some n) seen_soa rrs t2 w1)
                      else
                        (case fold (take_rr E P z) (m_rr m) (seen_soa, rrs, w) of
                           (seen, rows, w') \<Rightarrow>
                             if 2 \<le> seen then (Inr (seen, rows), z, Some n, w')
                             else axfr_loop E P z (Some n) seen rows t2 w')))))"
  by pat_completeness auto

termination axfr_loop
  by (relation "measure (\<lambda>(E, P, z, l, n, rrs, t, w). length (available t))") (auto dest: recv_two)

declare axfr_loop.simps [simp del]

definition replace_records :: "ext \<Rightarrow> szone \<Rightarrow> szone_record list \<Rightarrow> nat \<Rightarrow> unit io" where
  "replace_records E z rrs serial w =
     (let w1 = w\<lparr>szone_records := [r \<leftarrow> szone_records w. sr_zone r \<noteq> sz_id z]\<rparr>;
          w2 = w1\<lparr>szone_records := fold (upsert sr_id) rrs (szone_records w1)\<rparr>
      in seq (SecondaryDNSZone_save E (z\<lparr>sz_serial := Some serial, sz_error := False, sz_error_message := None\<rparr>))
           (modify (delay (UpdateSzone (sz_id z)))) w2)"

definition axfr_phase :: "ext \<Rightarrow> peer \<Rightarrow> szone \<Rightarrow> nat \<Rightarrow> nat option \<Rightarrow> conn \<Rightarrow> tcp \<Rightarrow> world \<Rightarrow> unit res \<times> nat option \<times> world" where
  "axfr_phase E P z serial response_len c t w =
     (let (r, z1, len1, w1) =
        (case query_sent E z 252 (axfr_sent c) of
           Inl e \<Rightarrow> (Inl e, z, response_len, w)
         | Inr _ \<Rightarrow> axfr_loop E P z response_len 0 [] t w)
      in case r of
           Inl e \<Rightarrow>
             if caught e \<or> e = StructError then save_and_go E (z1\<lparr>sz_error := True\<rparr>) len1 w1
             else (Inl e, len1, w1)
         | Inr (seen_soa, rrs) \<Rightarrow>
             if seen_soa = 2 then (case replace_records E z1 rrs serial w1 of (r, w2) \<Rightarrow> (r, len1, w2))
             else save_and_go E (failing z1 (str ''Invalid number of SOAs received from '' @ sz_primary z1)) len1 w1)"

definition transfer_zone :: "ext \<Rightarrow> peer \<Rightarrow> szone \<Rightarrow> nat option \<Rightarrow> world \<Rightarrow> unit res \<times> nat option \<times> world" where
  "transfer_zone E P z response_len w =
     (case getaddrinfo P (sz_primary z) of
        Inl e \<Rightarrow>
          if e = OSError
          then save_and_go E (failing z (str ''Can't get address of '' @ sz_primary z)) response_len w
          else (Inl e, response_len, w)
      | Inr addrs \<Rightarrow>
         (case connect_first P z addrs of
            Inl e \<Rightarrow> (Inl e, response_len, w)
          | Inr None \<Rightarrow> save_and_go E (failing z (str ''Can't connect to '' @ sz_primary z)) response_len w
          | Inr (Some c) \<Rightarrow>
             (case soa_phase E z response_len c of
                (Inl e, len1, _) \<Rightarrow>
                  if caught e then save_and_go E (z\<lparr>sz_error := True\<rparr>) len1 w else (Inl e, len1, w)
              | (Inr Invalid_response, len1, _) \<Rightarrow>
                  save_or_fail E (failing z (str ''Invalid SOA response from '' @ sz_primary z)) len1 w
              | (Inr Same_serial, len1, _) \<Rightarrow> save_or_fail E (z\<lparr>sz_error := False\<rparr>) len1 w
              | (Inr (New_serial serial), len1, t) \<Rightarrow> axfr_phase E P z serial len1 c t w)))"

fun transfer_all :: "ext \<Rightarrow> peer \<Rightarrow> szone list \<Rightarrow> nat option \<Rightarrow> world \<Rightarrow> unit res \<times> world" where
  "transfer_all E P [] response_len w = (Inr (), w)"
| "transfer_all E P (z # zs) response_len w =
     (case transfer_zone E P z response_len w of
        (Inl e, _, w1) \<Rightarrow> (Inl e, w1)
      | (Inr _, len1, w1) \<Rightarrow> transfer_all E P zs len1 w1)"

definition transfer_secondary :: "ext \<Rightarrow> peer \<Rightarrow> world \<Rightarrow> unit res \<times> world" where
  "transfer_secondary E P w = transfer_all E P (szones w) None w"

end
