(* ===== verification/Secondary_Transfer_Props.thy ===== *)
theory Secondary_Transfer_Props
  imports Secondary_Transfer
begin

text \<open>
  What \<^verbatim>\<open>transfer-secondary.py\<close> stores: the records of a secondary zone stay as they are or are replaced by
  one complete transfer; and how a short reply ends the command.
\<close>

section \<open>Messages and records\<close>

text \<open>Reading messages one after the other takes the stream from one state to another.\<close>

inductive reads :: "ext \<Rightarrow> tcp \<Rightarrow> dns_msg list \<Rightarrow> tcp \<Rightarrow> bool" for E where
  none: "reads E t [] t"
| message: "recv 2 t = (Inr b, t1) \<Longrightarrow> unpack_H b = Inr n \<Longrightarrow> recv n t1 = (Inr response, t2)
    \<Longrightarrow> msg_parse E response = Inr m \<Longrightarrow> reads E t2 ms t' \<Longrightarrow> reads E t (m # ms) t'"

definition zone_soa :: "ext \<Rightarrow> pstr \<Rightarrow> rr \<Rightarrow> bool" where
  "zone_soa E root r \<longleftrightarrow> rtype r = QT_SOA \<and> label_eq E (rname r) (DNSLabel E root)"

definition soas :: "ext \<Rightarrow> pstr \<Rightarrow> rr list \<Rightarrow> nat" where
  "soas E root rs = length (filter (zone_soa E root) rs)"

lemma soas_simps [simp]:
  "soas E root [] = 0" "soas E root (r # rs) = (if zone_soa E root r then Suc (soas E root rs) else soas E root rs)"
  "soas E root (rs @ rs') = soas E root rs + soas E root rs'"
  by (simp_all add: soas_def)

text \<open>The records that become rows, after \<open>n\<close> SOA records.\<close>

fun kept :: "ext \<Rightarrow> pstr \<Rightarrow> nat \<Rightarrow> rr list \<Rightarrow> rr list" where
  "kept E root n [] = []"
| "kept E root n (r # rs) =
     (let n' = (if zone_soa E root r then n + 1 else n)
      in if rclass r = CL_IN \<and> (rtype r \<noteq> QT_SOA \<or> n' \<le> 1) then r # kept E root n' rs else kept E root n' rs)"

lemma kept_append: "kept E root n (a @ b) = kept E root n a @ kept E root (n + soas E root a) b"
  by (induction a arbitrary: n) (auto simp: Let_def)

lemma kept_early: "n + soas E root a \<le> 1 \<Longrightarrow> kept E root n a = [r \<leftarrow> a. rclass r = CL_IN]"
  by (induction a arbitrary: n) (auto simp: Let_def split: if_splits)

lemma kept_late: "2 \<le> n \<Longrightarrow> kept E root n a = [r \<leftarrow> a. rclass r = CL_IN \<and> rtype r \<noteq> QT_SOA]"
  by (induction a arbitrary: n) (auto simp: Let_def)

lemma kept_two:
  assumes "soas E root rs = 2"
  shows "\<exists>a soa b. rs = a @ soa # b \<and> zone_soa E root soa \<and> soas E root a = 1 \<and> soas E root b = 0
    \<and> kept E root 0 rs = [r \<leftarrow> a. rclass r = CL_IN] @ [r \<leftarrow> b. rclass r = CL_IN \<and> rtype r \<noteq> QT_SOA]"
proof -
  have "\<exists>r \<in> set rs. zone_soa E root r" using assms by (cases "filter (zone_soa E root) rs") (auto simp: soas_def filter_eq_Cons_iff)
  then obtain a soa b where s: "rs = a @ soa # b" "zone_soa E root soa" "\<forall>r \<in> set b. \<not> zone_soa E root r"
    using split_list_last_prop by metis
  have b: "soas E root b = 0" using s(3) by (simp add: soas_def)
  then have a: "soas E root a = 1" using assms s by simp
  have "kept E root 1 (soa # b) = kept E root 2 b" using s(2) by (simp add: zone_soa_def eval_nat_numeral)
  then show ?thesis using s a b by (intro exI[of _ a] exI[of _ soa] exI[of _ b]) (simp add: kept_append kept_early kept_late)
qed

text \<open>Rows with fresh identifiers.\<close>

definition rows_for :: "ext \<Rightarrow> peer \<Rightarrow> pstr \<Rightarrow> nat \<Rightarrow> rr list \<Rightarrow> szone_record list" where
  "rows_for E P zone k rs =
     map (\<lambda>(i, r). \<lparr>sr_id = uuid E (k + i), sr_zone = zone, record_text = toZone P r\<rparr>) (zip [0..<length rs] rs)"

lemma rows_for_Nil [simp]: "rows_for E P zone k [] = []"
  by (simp add: rows_for_def)

lemma rows_for_snoc: "rows_for E P zone k (rs @ [r]) = rows_for E P zone k rs
    @ [\<lparr>sr_id = uuid E (k + length rs), sr_zone = zone, record_text = toZone P r\<rparr>]"
  by (simp add: rows_for_def)

lemma rows_for_text: "map record_text (rows_for E P zone k rs) = map (toZone P) rs"
  by (induction rs rule: rev_induct) (simp_all add: rows_for_snoc)

lemma rows_for_zone: "x \<in> set (rows_for E P zone k rs) \<Longrightarrow> sr_zone x = zone"
  by (auto simp: rows_for_def)

lemma rows_for_ids: "map sr_id (rows_for E P zone k rs) = map (uuid E) [k..<k + length rs]"
  by (induction rs rule: rev_induct) (simp_all add: rows_for_snoc)

lemma fold_take_rr:
  "fold (take_rr E P z) rs (n, rows_for E P (sz_id z) k before, w\<lparr>next_uuid := k + length before\<rparr>)
    = (n + soas E (sz_zone_root z) rs, rows_for E P (sz_id z) k (before @ kept E (sz_zone_root z) n rs),
       w\<lparr>next_uuid := k + length before + length (kept E (sz_zone_root z) n rs)\<rparr>)"
proof (induction rs arbitrary: n before)
  case (Cons r rs)
  let ?n = "if zone_soa E (sz_zone_root z) r then n + 1 else n"
  show ?case
  proof (cases "rclass r = CL_IN \<and> (rtype r \<noteq> QT_SOA \<or> ?n \<le> 1)")
    case True
    then have "take_rr E P z r (n, rows_for E P (sz_id z) k before, w\<lparr>next_uuid := k + length before\<rparr>)
        = (?n, rows_for E P (sz_id z) k (before @ [r]), w\<lparr>next_uuid := k + length (before @ [r])\<rparr>)"
      by (auto simp: take_rr_def zone_soa_def rows_for_snoc Let_def)
    then show ?thesis using Cons[of ?n "before @ [r]"] True by (auto simp: Let_def)
  next
    case False
    then have "take_rr E P z r (n, rows_for E P (sz_id z) k before, w\<lparr>next_uuid := k + length before\<rparr>)
        = (?n, rows_for E P (sz_id z) k before, w\<lparr>next_uuid := k + length before\<rparr>)"
      by (auto simp: take_rr_def zone_soa_def Let_def)
    then show ?thesis using Cons[of ?n before] False by (auto simp: Let_def)
  qed
qed simp


section \<open>What the loop leaves\<close>

text \<open>\<open>calm z w w'\<close>: no record of a secondary zone and no task has changed, and of the zones at most the one
  in question, which keeps its serial number.\<close>

definition calm :: "szone \<Rightarrow> world \<Rightarrow> world \<Rightarrow> bool" where
  "calm z w w' \<longleftrightarrow> szone_records w' = szone_records w \<and> queue w' = queue w
     \<and> (\<forall>s \<in> set (szones w'). s \<in> set (szones w) \<or> sz_id s = sz_id z \<and> sz_serial s = sz_serial z)"

lemma calm_refl: "calm z w w"
  by (simp add: calm_def)

lemma calm_trans: "calm z w v \<Longrightarrow> calm z' v u \<Longrightarrow> sz_id z' = sz_id z \<Longrightarrow> sz_serial z' = sz_serial z \<Longrightarrow> calm z w u"
  unfolding calm_def by metis

lemma calm_uuid: "calm z w v \<Longrightarrow> calm z w (v\<lparr>next_uuid := k\<rparr>)"
  by (simp add: calm_def)

lemma save_cases:
  "SecondaryDNSZone_save E z w = (x, v) \<Longrightarrow> v = emit (Keycloak_sync (sz_id z)) w \<and> x \<noteq> Inr ()
    \<or> (\<exists>i. v = emit (Keycloak_sync (sz_id z)) (w\<lparr>szones :=
          upsert sz_id (z\<lparr>sz_zone_root := lower E (sz_zone_root z), sz_resource_id := i\<rparr>) (szones w)\<rparr>))"
  unfolding SecondaryDNSZone_save_def by (rule keycloak_resource_cases)

lemma calm_save: "SecondaryDNSZone_save E z' w = (x, v) \<Longrightarrow> sz_id z' = sz_id z \<Longrightarrow> sz_serial z' = sz_serial z \<Longrightarrow> calm z w v"
  by (drule save_cases) (auto simp: calm_def emit_def set_upsert)

lemma save_uuid: "SecondaryDNSZone_save E z w = (x, v) \<Longrightarrow> next_uuid v = next_uuid w"
  by (drule save_cases) auto

lemma calm_go: "save_and_go E z' l w = (x, l', v) \<Longrightarrow> sz_id z' = sz_id z \<Longrightarrow> sz_serial z' = sz_serial z \<Longrightarrow> calm z w v"
  by (auto simp: save_and_go_def dest: calm_save split: prod.splits)

lemma saved_szone_fields [simp]:
  "sz_id (saved_szone E z w) = sz_id z" "sz_serial (saved_szone E z w) = sz_serial z"
  "sz_zone_root (saved_szone E z w) = lower E (sz_zone_root z)"
  by (simp_all add: saved_szone_def)

lemma calm_or_fail:
  assumes "save_or_fail E z' l w = (x, l', v)" "sz_id z' = sz_id z" "sz_serial z' = sz_serial z"
  shows "calm z w v"
proof -
  obtain y w1 where s: "SecondaryDNSZone_save E z' w = (y, w1)" by fastforce
  have c: "calm z w w1" using calm_save[OF s assms(2,3)] .
  show ?thesis
  proof (cases "\<exists>e. y = Inl e \<and> caught e")
    case True
    then have "save_and_go E ((saved_szone E z' w)\<lparr>sz_error := True\<rparr>) l w1 = (x, l', v)"
      using assms(1) s by (auto simp: save_or_fail_def)
    then have "calm z w1 v" by (rule calm_go) (simp_all add: assms)
    then show ?thesis using calm_trans[OF c] by simp
  next
    case False
    then show ?thesis using assms(1) s c by (auto simp: save_or_fail_def split: sum.splits)
  qed
qed


definition answers :: "dns_msg list \<Rightarrow> rr list" where
  "answers ms = concat (map m_rr [m \<leftarrow> ms. rcode m = RC_NOERROR])"

lemma answers_Cons [simp]: "answers (m # ms) = (if rcode m = RC_NOERROR then m_rr m @ answers ms else answers ms)"
  by (simp add: answers_def)

lemma axfr_loop_result:
  assumes "axfr_loop E P z l n rrs t w = (r, z1, l1, w1)" "lower E (sz_zone_root z) = sz_zone_root z"
    and "rrs = rows_for E P (sz_id z) k before" "next_uuid w = k + length before"
  shows "calm z w w1 \<and> sz_id z1 = sz_id z \<and> sz_serial z1 = sz_serial z
    \<and> (\<forall>seen rows. r = Inr (seen, rows) \<longrightarrow> (\<exists>ms t'. reads E t ms t' \<and> 2 \<le> seen
         \<and> seen = n + soas E (sz_zone_root z) (answers ms)
         \<and> rows = rows_for E P (sz_id z) k (before @ kept E (sz_zone_root z) n (answers ms))))"
  using assms
proof (induction E P z l n rrs t w arbitrary: r z1 l1 w1 before rule: axfr_loop.induct)
  case (1 E P z l n rrs t w)
  note run = "1.prems"(1)[unfolded axfr_loop.simps[of E P z l n rrs t w]]
  show ?case
  proof (cases "\<exists>b t1 i response t2 m. recv 2 t = (Inr b, t1) \<and> unpack_H b = Inr i \<and> recv i t1 = (Inr response, t2)
      \<and> msg_parse E response = Inr m")
    case False
    then have "w1 = w \<and> z1 = z \<and> (\<exists>e. r = Inl e)" using run by (auto split: prod.splits sum.splits)
    then show ?thesis using calm_refl by auto
  next
    case True
    then obtain b t1 i response t2 m where x: "recv 2 t = (Inr b, t1)" "unpack_H b = Inr i"
        "recv i t1 = (Inr response, t2)" "msg_parse E response = Inr m" by blast
    have msg: "reads E t2 ms t' \<Longrightarrow> reads E t (m # ms) t'" for ms t' by (rule reads.message[OF x])
    show ?thesis
    proof (cases "rcode m = RC_NOERROR")
      case False
      define z' where "z' = failing z (str ''Failed to sync from '' @ sz_primary z @ str '': got response '' @ rcode_name P (rcode m))"
      have z': "sz_zone_root (saved_szone E z' w) = sz_zone_root z" "sz_id z' = sz_id z" "sz_serial z' = sz_serial z"
        using "1.prems"(2) by (simp_all add: z'_def failing_def)
      obtain y v where save: "SecondaryDNSZone_save E z' w = (y, v)" by fastforce
      have calm: "calm z w v" by (rule calm_save[OF save z'(2,3)])
      show ?thesis
      proof (cases y)
        case (Inl e)
        then have "w1 = v \<and> z1 = saved_szone E z' w \<and> r = Inl e"
          using run x False save by (simp add: z'_def[symmetric] Let_def del: str_simps)
        then show ?thesis using calm z' by simp
      next
        case (Inr u)
      have go: "axfr_loop E P (saved_szone E z' w) (Some i) n rrs t2 v = (r, z1, l1, w1)"
        using run x False save Inr by (simp add: z'_def[symmetric] Let_def del: str_simps)
      have "calm (saved_szone E z' w) v w1 \<and> sz_id z1 = sz_id z \<and> sz_serial z1 = sz_serial z
        \<and> (\<forall>seen rows. r = Inr (seen, rows) \<longrightarrow> (\<exists>ms t'. reads E t2 ms t' \<and> 2 \<le> seen
         \<and> seen = n + soas E (sz_zone_root z) (answers ms)
         \<and> rows = rows_for E P (sz_id z) k (before @ kept E (sz_zone_root z) n (answers ms))))"
        using "1.IH"(1)[OF x(1)[symmetric] _ x(2) x(3)[symmetric] _ x(4) False z'_def save[symmetric] Inr go] "1.prems"(2-4) z'
        by (simp add: save_uuid[OF save])
      then show ?thesis
        using msg False calm_trans[OF calm, of "saved_szone E z' w" w1] z' by (metis answers_Cons saved_szone_fields(1,2))
      qed
    next
      case ok: True
      obtain seen rows w' where f: "fold (take_rr E P z) (m_rr m) (n, rrs, w) = (seen, rows, w')" by (metis prod_cases3)
      have w: "w = w\<lparr>next_uuid := k + length before\<rparr>" using "1.prems"(4) by (metis world.surjective world.update_convs(23))
      have f': "seen = n + soas E (sz_zone_root z) (m_rr m)"
          "rows = rows_for E P (sz_id z) k (before @ kept E (sz_zone_root z) n (m_rr m))"
          "w' = w\<lparr>next_uuid := k + length (before @ kept E (sz_zone_root z) n (m_rr m))\<rparr>"
        using fold_take_rr[of E P z "m_rr m" n k before w] f w "1.prems"(3) by (simp_all add: add.assoc)
      show ?thesis
      proof (cases "2 \<le> seen")
        case True
        then have "r = Inr (seen, rows)" "z1 = z" "w1 = w'" using run x ok f by simp_all
        then show ?thesis
          using True f' calm_uuid[OF calm_refl] msg[OF reads.none] ok by (auto intro!: exI[of _ "[m]"] simp: answers_def)
      next
        case False
        then have go: "axfr_loop E P z (Some i) seen rows t2 w' = (r, z1, l1, w1)" using run x ok f by simp
        have "calm z w' w1 \<and> sz_id z1 = sz_id z \<and> sz_serial z1 = sz_serial z
          \<and> (\<forall>sn rws. r = Inr (sn, rws) \<longrightarrow> (\<exists>ms t'. reads E t2 ms t' \<and> 2 \<le> sn
           \<and> sn = seen + soas E (sz_zone_root z) (answers ms)
           \<and> rws = rows_for E P (sz_id z) k ((before @ kept E (sz_zone_root z) n (m_rr m)) @ kept E (sz_zone_root z) seen (answers ms))))"
          by (rule "1.IH"(2)[OF x(1)[symmetric] _ x(2) x(3)[symmetric] _ x(4) _ f[symmetric] _ False go])
            (use ok "1.prems"(2) f' in simp_all)
        moreover have "calm z w w'" unfolding f'(3) by (rule calm_uuid[OF calm_refl])
        ultimately show ?thesis using msg ok f'(1) calm_trans[of z w w' z w1]
          by (fastforce simp: kept_append add.assoc)
      qed
    qed
  qed
qed



section \<open>Replacing the records\<close>

lemma upsert_fresh: "sr_id r \<notin> sr_id ` set rs \<Longrightarrow> upsert sr_id r rs = rs @ [r]"
  by (auto simp: upsert_def list_ex_iff image_iff)

lemma fold_upsert_fresh:
  assumes "distinct (map sr_id rows)" "sr_id ` set rows \<inter> sr_id ` set rs = {}"
  shows "fold (upsert sr_id) rows rs = rs @ rows"
  using assms
proof (induction rows arbitrary: rs)
  case (Cons r rows)
  then have "upsert sr_id r rs = rs @ [r]" by (intro upsert_fresh) auto
  moreover have "fold (upsert sr_id) rows (rs @ [r]) = (rs @ [r]) @ rows" by (rule Cons.IH) (use Cons.prems in auto)
  ultimately show ?case by simp
qed simp

text \<open>\<open>replaced E P z t serial w w'\<close>: the rows of the zone are one complete transfer, as the messages at the head of the
  stream \<open>t\<close> carry it, the serial number is \<open>serial\<close>, and the zone is to be published.\<close>

definition replaced :: "ext \<Rightarrow> peer \<Rightarrow> szone \<Rightarrow> tcp \<Rightarrow> nat \<Rightarrow> world \<Rightarrow> world \<Rightarrow> bool" where
  "replaced E P z t serial w w' \<longleftrightarrow> (\<exists>ms t' a soa b. reads E t ms t' \<and> answers ms = a @ soa # b
     \<and> zone_soa E (sz_zone_root z) soa \<and> soas E (sz_zone_root z) a = 1 \<and> soas E (sz_zone_root z) b = 0
     \<and> map record_text [r \<leftarrow> szone_records w'. sr_zone r = sz_id z]
       = map (toZone P) ([r \<leftarrow> a. rclass r = CL_IN] @ [r \<leftarrow> b. rclass r = CL_IN \<and> rtype r \<noteq> QT_SOA])
     \<and> [r \<leftarrow> szone_records w'. sr_zone r \<noteq> sz_id z] = [r \<leftarrow> szone_records w. sr_zone r \<noteq> sz_id z]
     \<and> queue w' = queue w @ [UpdateSzone (sz_id z)]
     \<and> (\<exists>s \<in> set (szones w'). sz_id s = sz_id z \<and> sz_serial s = Some serial \<and> \<not> sz_error s))"

text \<open>\<open>complete E P z l w w'\<close>: the stream is that of the first address of the primary server that can be reached. Its first
  message is the answer about the SOA record, with a serial number other than the stored one; the
  transfer is what follows. If the length of the first message cannot be read, the code takes the length \<open>l\<close> that it
  has read last, if there is one.\<close>

definition complete :: "ext \<Rightarrow> peer \<Rightarrow> szone \<Rightarrow> nat option \<Rightarrow> world \<Rightarrow> world \<Rightarrow> bool" where
  "complete E P z l w w' \<longleftrightarrow> (\<exists>before a after c b t n response t' m r mname rname serial others.
     getaddrinfo P (sz_primary z) = Inr (before @ a # after) \<and> (\<forall>x \<in> set before. connect P (sz_id z) x = Inl OSError)
     \<and> connect P (sz_id z) a = Inr c
     \<and> recv 2 (replies c) = (Inr b, t) \<and> (unpack_H b = Inr n \<or> length b \<noteq> 2 \<and> l = Some n)
     \<and> recv n t = (Inr response, t') \<and> msg_parse E response = Inr m
     \<and> m_rr m = [r] \<and> rdata r = RD_SOA mname rname (serial # others) \<and> sz_serial z \<noteq> Some serial
     \<and> replaced E P z t' serial w w')"

lemma connect_first_Some:
  "connect_first P z addrs = Inr (Some c) \<Longrightarrow> \<exists>before a after. addrs = before @ a # after
     \<and> (\<forall>x \<in> set before. connect P (sz_id z) x = Inl OSError) \<and> connect P (sz_id z) a = Inr c"
proof (induction addrs)
  case (Cons a addrs)
  show ?case
  proof (cases "connect P (sz_id z) a")
    case (Inl e)
    then obtain before a' after where "addrs = before @ a' # after" "\<forall>x \<in> set before. connect P (sz_id z) x = Inl OSError"
        "connect P (sz_id z) a' = Inr c" "e = OSError"
      using Cons by (auto split: if_splits)
    then show ?thesis using Inl by (intro exI[of _ "a # before"] exI[of _ a'] exI[of _ after]) simp
  next
    case (Inr c')
    then show ?thesis using Cons.prems by (intro exI[of _ "[]"] exI[of _ a] exI[of _ addrs]) simp
  qed
qed simp

lemma soa_serial_Inr: "soa_serial d = Inr s \<Longrightarrow> \<exists>mn rn ts. d = RD_SOA mn rn (s # ts)"
  by (cases d rule: soa_serial.cases) auto

lemma soa_phase_New:
  assumes "soa_phase E z l c = (Inr (New_serial serial), l', t')"
  shows "\<exists>b t n response m r mn rn ts. recv 2 (replies c) = (Inr b, t) \<and> (unpack_H b = Inr n \<or> length b \<noteq> 2 \<and> l = Some n)
    \<and> recv n t = (Inr response, t') \<and> msg_parse E response = Inr m \<and> m_rr m = [r]
    \<and> rdata r = RD_SOA mn rn (serial # ts) \<and> sz_serial z \<noteq> Some serial"
proof -
  obtain b t n response m where x: "recv 2 (replies c) = (Inr b, t)" "unpack_H b = Inr n \<or> length b \<noteq> 2 \<and> l = Some n"
      "recv n t = (Inr response, t')" "msg_parse E response = Inr m" "read_soa z m = Inr (New_serial serial)"
    using assms by (auto simp: soa_phase_def Let_def unpack_H_def res_simps split: sum.splits prod.splits option.splits if_splits)
  then obtain r where r: "m_rr m = [r]" "soa_serial (rdata r) = Inr serial" "sz_serial z \<noteq> Some serial"
    by (auto simp: read_soa_def res_simps split: list.splits if_splits)
  then show ?thesis using x soa_serial_Inr[OF r(2)] by metis
qed

lemma replace_complete:
  assumes "rows = rows_for E P (sz_id z) k rs" "inj (uuid E)" "calm z w w1" "sz_id z1 = sz_id z"
    and "uuid E ` {k..} \<inter> sr_id ` set (szone_records w) = {}"
    and run: "replace_records E z1 rows serial w1 = (Inr (), w')"
  shows "map record_text [r \<leftarrow> szone_records w'. sr_zone r = sz_id z] = map (toZone P) rs"
    and "[r \<leftarrow> szone_records w'. sr_zone r \<noteq> sz_id z] = [r \<leftarrow> szone_records w. sr_zone r \<noteq> sz_id z]"
    and "queue w' = queue w @ [UpdateSzone (sz_id z)]"
    and "\<exists>s \<in> set (szones w'). sz_id s = sz_id z \<and> sz_serial s = Some serial \<and> \<not> sz_error s"
proof -
  let ?old = "[r \<leftarrow> szone_records w. sr_zone r \<noteq> sz_id z]"
  let ?z = "z1\<lparr>sz_serial := Some serial, sz_error := False, sz_error_message := None\<rparr>"
  have "distinct (map sr_id rows)"
    using assms(1,2) by (simp add: rows_for_ids distinct_map inj_on_def inj_def)
  moreover have "sr_id ` set rows = uuid E ` {k..<k + length rs}"
    using arg_cong[OF rows_for_ids[of E P "sz_id z" k rs], of set] assms(1) by simp
  then have "sr_id ` set rows \<subseteq> uuid E ` {k..}" by auto
  then have "sr_id ` set rows \<inter> sr_id ` set (szone_records w) = {}" using assms(5) by blast
  then have "sr_id ` set rows \<inter> sr_id ` set ?old = {}" by auto
  ultimately have add: "fold (upsert sr_id) rows ?old = ?old @ rows" by (rule fold_upsert_fresh)
  obtain v where v: "SecondaryDNSZone_save E ?z (w1\<lparr>szone_records := ?old @ rows\<rparr>) = (Inr (), v)"
      "w' = delay (UpdateSzone (sz_id z)) v"
    using run assms(3,4) add
    by (auto simp: replace_records_def Let_def calm_def seq_def bind_act_def modify_def split: prod.splits sum.splits)
  obtain i where i: "v = emit (Keycloak_sync (sz_id z)) (w1\<lparr>szone_records := ?old @ rows, szones :=
      upsert sz_id (?z\<lparr>sz_zone_root := lower E (sz_zone_root ?z), sz_resource_id := i\<rparr>) (szones w1)\<rparr>)"
    using save_cases[OF v(1)] assms(4) by auto
  have recs: "szone_records w' = ?old @ rows" by (simp add: v(2) i delay_def emit_def)
  have zone: "\<forall>r \<in> set rows. sr_zone r = sz_id z" using rows_for_zone assms(1) by blast
  show "map record_text [r \<leftarrow> szone_records w'. sr_zone r = sz_id z] = map (toZone P) rs"
    using zone rows_for_text[of E P "sz_id z" k rs, folded assms(1)] by (simp add: recs)
  show "[r \<leftarrow> szone_records w'. sr_zone r \<noteq> sz_id z] = ?old"
    using zone by (simp add: recs)
  show "queue w' = queue w @ [UpdateSzone (sz_id z)]"
    using assms(3) by (simp add: v(2) i calm_def)
  show "\<exists>s \<in> set (szones w'). sz_id s = sz_id z \<and> sz_serial s = Some serial \<and> \<not> sz_error s"
    using assms(4) by (simp add: v(2) i delay_def emit_def set_upsert)
qed

text \<open>The rows are exchanged without a transaction: if Keycloak fails when the zone is saved, the new rows stay,
  but they are not published.\<close>

lemma replace_records_failure:
  assumes "replace_records E z rrs serial w = (Inl e, w')"
  shows "szone_records w' = fold (upsert sr_id) rrs [r \<leftarrow> szone_records w. sr_zone r \<noteq> sz_id z] \<and> queue w' = queue w"
proof -
  let ?z = "z\<lparr>sz_serial := Some serial, sz_error := False, sz_error_message := None\<rparr>"
  let ?rows = "fold (upsert sr_id) rrs [r \<leftarrow> szone_records w. sr_zone r \<noteq> sz_id z]"
  have "SecondaryDNSZone_save E ?z (w\<lparr>szone_records := ?rows\<rparr>) = (Inl e, w')"
    using assms by (auto simp: replace_records_def Let_def seq_def bind_act_def modify_def split: prod.splits sum.splits)
  then show ?thesis by (auto dest!: save_cases simp: emit_def)
qed

lemma axfr_phase_result:
  assumes "axfr_phase E P z serial l c t w = (Inr (), l', w')" "lower E (sz_zone_root z) = sz_zone_root z" "inj (uuid E)"
    and "uuid E ` {next_uuid w..} \<inter> sr_id ` set (szone_records w) = {}"
  shows "calm z w w' \<or> replaced E P z t serial w w'"
proof (cases "query_sent E z 252 (axfr_sent c)")
  case (Inl e)
  then have "save_and_go E (z\<lparr>sz_error := True\<rparr>) l w = (Inr (), l', w')"
    using assms(1) by (simp add: axfr_phase_def split: if_splits)
  then have "calm z w w'" by (rule calm_go) simp_all
  then show ?thesis ..
next
  case (Inr u)
  obtain r z1 l1 w1 where run: "axfr_loop E P z l 0 [] t w = (r, z1, l1, w1)" by (metis prod_cases4)
  have k: "[] = rows_for E P (sz_id z) (next_uuid w) []" "next_uuid w = next_uuid w + length ([] :: rr list)" by simp_all
  have calm: "calm z w w1" "sz_id z1 = sz_id z" "sz_serial z1 = sz_serial z"
    using axfr_loop_result[OF run assms(2) k] by simp_all
  have fail: "calm z w w'" if "save_and_go E z2 l1 w1 = (Inr (), l', w')" "sz_id z2 = sz_id z1" "sz_serial z2 = sz_serial z1" for z2
    using calm_trans[OF calm(1) calm_go[OF that(1), of z]] that(2,3) calm(2,3) by simp
  show ?thesis
  proof (cases r)
    case (Inl e)
    then have "save_and_go E (z1\<lparr>sz_error := True\<rparr>) l1 w1 = (Inr (), l', w')"
      using assms(1) Inr run by (simp add: axfr_phase_def split: if_splits)
    then have "calm z w w'" by (rule fail) simp_all
    then show ?thesis ..
  next
    case r: (Inr y)
    obtain seen rows where y: "y = (seen, rows)" by fastforce
    obtain ms t' where x: "reads E t ms t'" "2 \<le> seen" "seen = soas E (sz_zone_root z) (answers ms)"
        "rows = rows_for E P (sz_id z) (next_uuid w) (kept E (sz_zone_root z) 0 (answers ms))"
      using axfr_loop_result[OF run assms(2) k] r y by auto
    show ?thesis
    proof (cases "seen = 2")
      case True
      then have w': "replace_records E z1 rows serial w1 = (Inr (), w')"
        using assms(1) Inr run r y by (simp add: axfr_phase_def split: prod.splits)
      obtain a soa b where ab: "answers ms = a @ soa # b" "zone_soa E (sz_zone_root z) soa" "soas E (sz_zone_root z) a = 1"
          "soas E (sz_zone_root z) b = 0" "kept E (sz_zone_root z) 0 (answers ms)
            = [r \<leftarrow> a. rclass r = CL_IN] @ [r \<leftarrow> b. rclass r = CL_IN \<and> rtype r \<noteq> QT_SOA]"
        using kept_two[of E "sz_zone_root z" "answers ms"] True x(3) by auto
      note rc = replace_complete[OF x(4) assms(3) calm(1,2) assms(4) w']
      have "replaced E P z t serial w w'"
        unfolding replaced_def using x(1) ab(1-4) rc[unfolded ab(5)] by blast
      then show ?thesis by simp
    next
      case False
      then have "save_and_go E (failing z1 (str ''Invalid number of SOAs received from '' @ sz_primary z1)) l1 w1 = (Inr (), l', w')"
        using assms(1) Inr run r y by (simp add: axfr_phase_def)
      then have "calm z w w'" by (rule fail) (simp_all add: failing_def)
      then show ?thesis ..
    qed
  qed
qed

text \<open>C9: A transfer that ends without an exception leaves records, tasks and serial number as they were, or it replaces
  the records of the zone by a complete transfer that the primary server has sent over the connection: after its answer with
  the new serial number, everything between the opening and the closing SOA record in class IN, and what follows
  the closing one except further SOA records, in the messages without an error code;
  then the serial number of the answer is stored, the records of other zones stay, and the publication of the zone is queued.\<close>

theorem transfer_all_or_nothing:
  assumes "transfer_zone E P z l w = (Inr (), l', w')" "lower E (sz_zone_root z) = sz_zone_root z" "inj (uuid E)"
    and "uuid E ` {next_uuid w..} \<inter> sr_id ` set (szone_records w) = {}"
  shows "calm z w w' \<or> complete E P z l w w'"
proof (cases "\<exists>addrs c serial l1 t. getaddrinfo P (sz_primary z) = Inr addrs \<and> connect_first P z addrs = Inr (Some c)
    \<and> soa_phase E z l c = (Inr (New_serial serial), l1, t)")
  case True
  then obtain addrs c serial l1 t where x: "getaddrinfo P (sz_primary z) = Inr addrs" "connect_first P z addrs = Inr (Some c)"
      "soa_phase E z l c = (Inr (New_serial serial), l1, t)" by blast
  then have "axfr_phase E P z serial l1 c t w = (Inr (), l', w')" using assms(1) by (simp add: transfer_zone_def)
  then have "calm z w w' \<or> replaced E P z t serial w w'" by (rule axfr_phase_result[OF _ assms(2-4)])
  then show ?thesis
    unfolding complete_def using x(1) connect_first_Some[OF x(2)] soa_phase_New[OF x(3)] by blast
next
  case False
  then have "calm z w w'" using assms(1)
    by (auto simp: transfer_zone_def failing_def intro: calm_go calm_or_fail
        split: sum.splits option.splits prod.splits soa_reply.splits if_splits)
  then show ?thesis ..
qed

text \<open>If the primary of the first zone closes the connection before it has sent two bytes, the handler of the error
  prints a message and goes on with a variable that has no value: the command ends, and no zone after
  this one is transferred. Nothing is recorded of the error.\<close>

theorem short_reply_aborts:
  assumes "getaddrinfo P (sz_primary z) = Inr addrs" "connect_first P z addrs = Inr (Some c)"
    and "query_sent E z QT_SOA (soa_sent c) = Inr ()" "recv 2 (replies c) = (Inr b, t)" "length b \<noteq> 2"
  shows "transfer_all E P (z # zs) None w = (Inl NameError, w)"
  using assms by (simp add: transfer_zone_def soa_phase_def unpack_H_def caught_def)



section \<open>A concrete run\<close>

definition transfer_soa :: rr where
  "transfer_soa = mk_rr (sample_label (str ''ex.org'')) QT_SOA (RD_SOA [] [] [5, 0, 0, 0, 0]) 0"

definition transfer_ext :: ext where
  "transfer_ext = sample_ext\<lparr>msg_parse := (\<lambda>b.
     if b = [7] then Inr (empty_msg\<lparr>m_rr := [transfer_soa]\<rparr>)
     else if b = [8] then Inr (empty_msg\<lparr>m_rr := [transfer_soa, mk_rr [] QT_A (RD_A 1) 0, transfer_soa]\<rparr>)
     else Inl DNSError)\<rparr>"

definition transfer_szone :: szone where
  "transfer_szone = \<lparr>sz_id = str ''s1'', sz_zone_root = str ''ex.org'', sz_serial = None, sz_primary = [], sz_charged = True,
     sz_active = True, sz_error = False, sz_error_message = None, sz_num_check_fails = 0, sz_resource_id = None\<rparr>"

definition transfer_peer :: "bytes list \<Rightarrow> peer" where
  "transfer_peer cs = \<lparr>getaddrinfo = (\<lambda>n. Inr [[]]), connect = (\<lambda>i a. Inr \<lparr>soa_sent = Inr (), axfr_sent = Inr (),
     replies = \<lparr>tcp_chunks = cs, tcp_end = None\<rparr>\<rparr>), toZone = (\<lambda>r. [rtype r]), rcode_name = (\<lambda>n. [])\<rparr>"

definition transfer_world :: world where
  "transfer_world = empty_world\<lparr>szones := [transfer_szone]\<rparr>"

lemma transfer_ext_simps [simp]:
  "msg_new transfer_ext = empty_msg" "msg_pack transfer_ext = sample_pack" "DNSLabel transfer_ext = sample_label"
  "label_eq transfer_ext = (=)" "uuid transfer_ext = uuid sample_ext" "kc_resource transfer_ext = kc_resource sample_ext"
  "uni_lower transfer_ext = uni_lower sample_ext"
  "msg_parse transfer_ext [7] = Inr (empty_msg\<lparr>m_rr := [transfer_soa]\<rparr>)"
  "msg_parse transfer_ext [8] = Inr (empty_msg\<lparr>m_rr := [transfer_soa, mk_rr [] QT_A (RD_A 1) 0, transfer_soa]\<rparr>)"
  by (simp_all add: transfer_ext_def)

lemma transfer_rrs [simp]:
  "rtype transfer_soa = QT_SOA" "rclass transfer_soa = CL_IN" "rdata transfer_soa = RD_SOA [] [] [5, 0, 0, 0, 0]"
  "rname transfer_soa = sample_label (sz_zone_root transfer_szone)" "sz_serial transfer_szone = None"
  by (simp_all add: transfer_soa_def mk_rr_def transfer_szone_def)

lemma sent_sample: "query_sent transfer_ext z q (Inr ()) = Inr ()"
  by (simp add: query_sent_def sample_pack_def)

lemma lower_transfer: "lower transfer_ext s = lower sample_ext s"
  by (simp add: lower_def)

theorem transfer_all_or_nothing_witness:
  "\<exists>l' w'. transfer_zone transfer_ext (transfer_peer [[0, 1], [7], [0, 1], [8]]) transfer_szone None transfer_world = (Inr (), l', w')
    \<and> complete transfer_ext (transfer_peer [[0, 1], [7], [0, 1], [8]]) transfer_szone None transfer_world w'"
proof -
  let ?P = "transfer_peer [[0, 1], [7], [0, 1], [8]]"
  have soa: "soa_phase transfer_ext transfer_szone None \<lparr>soa_sent = Inr (), axfr_sent = Inr (), replies = \<lparr>tcp_chunks = [[0, 1], [7], [0, 1], [8]], tcp_end = None\<rparr>\<rparr>
      = (Inr (New_serial 5), Some 1, \<lparr>tcp_chunks = [[0, 1], [8]], tcp_end = None\<rparr>)"
    by (simp add: soa_phase_def sent_sample recv_def unpack_H_def from_be_def read_soa_def)
  obtain rows w1 where loop: "axfr_loop transfer_ext ?P transfer_szone (Some 1) 0 [] \<lparr>tcp_chunks = [[0, 1], [8]], tcp_end = None\<rparr> transfer_world
      = (Inr (2, rows), transfer_szone, Some 1, w1)"
    by (simp add: axfr_loop.simps[of _ _ _ _ _ _ "\<lparr>tcp_chunks = _, tcp_end = _\<rparr>"] recv_def unpack_H_def from_be_def take_rr_def
        empty_msg_def mk_rr_def)
  define w' where "w' = snd (replace_records transfer_ext transfer_szone rows 5 w1)"
  have replace: "replace_records transfer_ext transfer_szone rows 5 w1 = (Inr (), w')" "queue w' \<noteq> []"
    by (simp_all add: w'_def replace_records_def SecondaryDNSZone_save_def keycloak_resource_def seq_def bind_act_def modify_def Let_def)
  have run: "transfer_zone transfer_ext ?P transfer_szone None transfer_world = (Inr (), Some 1, w')"
    using soa loop replace(1) by (simp add: transfer_zone_def transfer_peer_def axfr_phase_def sent_sample)
  have "lower transfer_ext (sz_zone_root transfer_szone) = sz_zone_root transfer_szone"
    by (simp add: lower_transfer lower_sample is_ascii_def transfer_szone_def)
  moreover have "inj (uuid transfer_ext)" using inj_sample_uuid by simp
  ultimately have "calm transfer_szone transfer_world w' \<or> complete transfer_ext ?P transfer_szone None transfer_world w'"
    using transfer_all_or_nothing[OF run] by (simp add: transfer_world_def empty_world_def)
  moreover have "queue w' \<noteq> queue transfer_world" using replace(2) by (simp add: transfer_world_def empty_world_def)
  ultimately show ?thesis using run by (auto simp: calm_def)
qed

theorem short_reply_aborts_witness:
  "transfer_all transfer_ext (transfer_peer []) [transfer_szone, transfer_szone] None transfer_world = (Inl NameError, transfer_world)"
  by (rule short_reply_aborts[where addrs = "[[]]" and b = "[]"]) (auto simp: transfer_peer_def sent_sample recv_def)

end
