(* ===== verification/Sidecar.thy ===== *)
theory Sidecar
  imports Tcp_Stream Sample Record_Models
begin

text \<open>
  The processes beside the Knot name server: \<^verbatim>\<open>knot/sidecar.py\<close>, which hands reload and resign messages to
  Knot and passes its notifications on, \<^verbatim>\<open>knot/sidecar-secondary.py\<close>, which hands those to the secondary
  servers, and \<^verbatim>\<open>run-axfr-notify.py\<close>, which does so for the name servers of customers. Knot is the
  argument \<open>K :: knot\<close>: the answers to the calls of each callback, by the number of callbacks so far.
  The queues of a side car are exclusive to its connection: they vanish with the process.
\<close>

section \<open>Orders to Knot\<close>

text \<open>\<^verbatim>\<open>KnotCtlError\<close> with its attribute \<^verbatim>\<open>data\<close>, which may be None, and the item \<^verbatim>\<open>ERROR\<close> of that; or another
  exception.\<close>

datatype knot_exc = KnotCtlError "pstr option option" | Other_exc exn

record knot =
  ctl_connect :: "nat \<Rightarrow> knot_exc option"
  ctl_command :: "nat \<Rightarrow> pstr \<Rightarrow> pstr \<Rightarrow> knot_exc option"
  ctl_end :: "nat \<Rightarrow> knot_exc option"

datatype settlement = Acked | Rejected | Unsettled

text \<open>What a callback leaves: the message acknowledged, rejected or neither; whether Knot took the order; the
  exception that leaves the callback; the orders that were given to Knot, each a command and a zone.\<close>

record outcome =
  settled :: settlement
  accepted :: bool
  escaped :: "exn option"
  orders :: "(pstr \<times> pstr) list"

definition NO_ZONE :: pstr where
  "NO_ZONE = str ''no such zone found''"

fun exn_of :: "knot_exc \<Rightarrow> exn" where
  "exn_of (KnotCtlError d) = OtherError"
| "exn_of (Other_exc e) = e"

text \<open>The clause \<^verbatim>\<open>finally\<close>: only \<^verbatim>\<open>KnotCtlError\<close> is caught there.\<close>

definition finally_end :: "knot \<Rightarrow> nat \<Rightarrow> outcome \<Rightarrow> outcome" where
  "finally_end K k r =
     (case ctl_end K k of
        Some (Other_exc e) \<Rightarrow> r\<lparr>escaped := Some e\<rparr>
      | _ \<Rightarrow> r)"

text \<open>A callback: the name is decoded and the connection opened outside of \<^verbatim>\<open>try\<close>; \<open>handler\<close> is the clause
  \<^verbatim>\<open>except KnotCtlError\<close>.\<close>

definition knot_callback :: "pstr \<Rightarrow> (pstr option option \<Rightarrow> outcome) \<Rightarrow> knot \<Rightarrow> nat \<Rightarrow> bytes \<Rightarrow> outcome" where
  "knot_callback cmd handler K k msg_body =
     (case py_decode msg_body of
        Inl e \<Rightarrow> \<lparr>settled = Unsettled, accepted = False, escaped = Some e, orders = []\<rparr>
      | Inr zone \<Rightarrow>
         (case ctl_connect K k of
            Some x \<Rightarrow> \<lparr>settled = Unsettled, accepted = False, escaped = Some (exn_of x), orders = []\<rparr>
          | None \<Rightarrow> finally_end K k
             ((case ctl_command K k cmd zone of
                None \<Rightarrow> \<lparr>settled = Acked, accepted = True, escaped = None, orders = []\<rparr>
              | Some (KnotCtlError d) \<Rightarrow> handler d
              | Some (Other_exc e) \<Rightarrow> \<lparr>settled = Unsettled, accepted = False, escaped = Some e, orders = []\<rparr>)
              \<lparr>orders := [(cmd, zone)]\<rparr>)))"

definition callback_reload :: "knot \<Rightarrow> nat \<Rightarrow> bytes \<Rightarrow> outcome" where
  "callback_reload = knot_callback (str ''zone-reload'') (\<lambda>d.
     \<lparr>settled = (case d of
         None \<Rightarrow> Rejected
       | Some err \<Rightarrow> if err = Some NO_ZONE then Acked else Rejected), accepted = False, escaped = None, orders = []\<rparr>)"

text \<open>Here \<^verbatim>\<open>e.data\<close> is not tested before it is subscripted.\<close>

definition callback_resign :: "knot \<Rightarrow> nat \<Rightarrow> bytes \<Rightarrow> outcome" where
  "callback_resign = knot_callback (str ''zone-sign'') (\<lambda>d.
     (case d of
        None \<Rightarrow> \<lparr>settled = Unsettled, accepted = False, escaped = Some TypeError, orders = []\<rparr>
      | Some err \<Rightarrow> \<lparr>settled = (if err = Some NO_ZONE then Acked else Rejected), accepted = False, escaped = None, orders = []\<rparr>))"


section \<open>The process\<close>

datatype job = Reload | Resign

fun callback :: "job \<Rightarrow> knot \<Rightarrow> nat \<Rightarrow> bytes \<Rightarrow> outcome" where
  "callback Reload = callback_reload"
| "callback Resign = callback_resign"

text \<open>The messages of both queues, the messages that were acknowledged, with the information whether Knot took
  the order, the orders given to Knot, each with the number of its callback, the number of callbacks so far, and
  whether the process runs.\<close>

record side =
  ready :: "(job \<times> bytes) list"
  handled :: "(job \<times> bytes \<times> bool) list"
  given :: "(nat \<times> pstr \<times> pstr) list"
  calls :: nat
  alive :: bool

datatype side_event = Arrive job bytes | Handle | Restart

definition settle :: "settlement \<Rightarrow> job \<Rightarrow> bytes \<Rightarrow> bool \<Rightarrow> (job \<times> bytes \<times> bool) list \<Rightarrow> (job \<times> bytes \<times> bool) list" where
  "settle st j d b hs = (if st = Acked then hs @ [(j, d, b)] else hs)"

text \<open>The call that a callback makes is recorded under its number.\<close>

definition called :: "outcome \<Rightarrow> side \<Rightarrow> side" where
  "called r s = s\<lparr>given := given s @ map (Pair (calls s)) (orders r), calls := Suc (calls s)\<rparr>"

text \<open>A fanout exchange drops a message when no queue is bound to it. The broker may deliver any message;
  \<^verbatim>\<open>basic_reject\<close> puts the message back. An exception leaves \<^verbatim>\<open>start_consuming\<close> and ends the process.\<close>

inductive side_step :: "knot \<Rightarrow> side \<Rightarrow> side_event \<Rightarrow> side \<Rightarrow> bool" for K where
  arrive: "alive s \<Longrightarrow> side_step K s (Arrive j d) (s\<lparr>ready := ready s @ [(j, d)]\<rparr>)"
| lost: "\<not> alive s \<Longrightarrow> side_step K s (Arrive j d) s"
| done_step: "alive s \<Longrightarrow> ready s = q1 @ (j, d) # q2 \<Longrightarrow> r = callback j K (calls s) d \<Longrightarrow> escaped r = None \<Longrightarrow> settled r = Acked
    \<Longrightarrow> side_step K s Handle (called r (s\<lparr>ready := q1 @ q2, handled := handled s @ [(j, d, accepted r)]\<rparr>))"
| back_step: "alive s \<Longrightarrow> ready s = q1 @ (j, d) # q2 \<Longrightarrow> r = callback j K (calls s) d \<Longrightarrow> escaped r = None \<Longrightarrow> settled r = Rejected
    \<Longrightarrow> side_step K s Handle (called r s)"
| crash: "alive s \<Longrightarrow> ready s = q1 @ (j, d) # q2 \<Longrightarrow> r = callback j K (calls s) d \<Longrightarrow> escaped r = Some e
    \<Longrightarrow> side_step K s Handle (called r (s\<lparr>ready := [], handled := settle (settled r) j d (accepted r) (handled s), alive := False\<rparr>))"
| restart: "\<not> alive s \<Longrightarrow> side_step K s Restart (s\<lparr>ready := [], alive := True\<rparr>)"

inductive side_run :: "knot \<Rightarrow> side \<Rightarrow> side_event list \<Rightarrow> side \<Rightarrow> bool" for K where
  side_stop: "side_run K s [] s"
| side_go: "side_step K s e s1 \<Longrightarrow> side_run K s1 es s2 \<Longrightarrow> side_run K s (e # es) s2"

lemma called_simps [simp]:
  "ready (called r s) = ready s" "handled (called r s) = handled s" "alive (called r s) = alive s"
  "calls (called r s) = Suc (calls s)" "given (called r s) = given s @ map (Pair (calls s)) (orders r)"
  by (simp_all add: called_def)

inductive_cases side_stepE: "side_step K s e s'"


section \<open>Notifications\<close>

abbreviation (input) OP_NOTIFY :: nat where "OP_NOTIFY \<equiv> 4"

text \<open>The header bits QR and AA, as \<^verbatim>\<open>m_flags\<close> has them.\<close>

definition notify_response :: "ext \<Rightarrow> nat \<Rightarrow> label \<Rightarrow> dns_msg" where
  "notify_response E i name = (msg_new E)\<lparr>m_id := i, m_flags := 33792, opcode := OP_NOTIFY,
     questions := [\<lparr>qname = name, qtype = QT_SOA, qclass = CL_IN\<rparr>]\<rparr>"

definition notify_request :: "ext \<Rightarrow> label \<Rightarrow> dns_msg" where
  "notify_request E name = (msg_new E)\<lparr>m_flags := 1024, opcode := OP_NOTIFY,
     questions := [\<lparr>qname = name, qtype = QT_SOA, qclass = CL_IN\<rparr>]\<rparr>"

text \<open>What a handler does to the outside, in order, and the exception that ends its thread.\<close>

datatype sent_item = To_exchange pstr bytes | To_queue pstr bytes | Send bytes

definition framed :: "dns_msg res \<Rightarrow> (dns_msg \<Rightarrow> bytes res) \<Rightarrow> sent_item list res" where
  "framed m pack = bind_res (bind_res m pack) (\<lambda>p. if 65535 < length p then Inl StructError
     else Inr [Send (be_bytes 2 (length p)), Send p])"

text \<open>One message from the connection: None if the peer closed it before a message, and the loop may not end.\<close>

definition read_message :: "ext \<Rightarrow> tcp \<Rightarrow> (dns_msg option res \<times> tcp) option" where
  "read_message E t =
     (case recv 2 t of
        (Inl e, t1) \<Rightarrow> Some (Inl e, t1)
      | (Inr b, t1) \<Rightarrow>
          if b = [] then Some (Inr None, t1)
          else case unpack_H b of
            Inl e \<Rightarrow> Some (Inl e, t1)
          | Inr n \<Rightarrow>
             (case recv_loop n [] t1 of
                None \<Rightarrow> None
              | Some (Inl e, t2) \<Rightarrow> Some (Inl e, t2)
              | Some (Inr data, t2) \<Rightarrow>
                 (case msg_parse E data of
                    Inl e \<Rightarrow> Some (if e = DNSError then Inr None else Inl e, t2)
                  | Inr m \<Rightarrow> Some (Inr (Some m), t2))))"

definition is_notify :: "dns_msg \<Rightarrow> bool" where
  "is_notify m \<longleftrightarrow> opcode m = OP_NOTIFY \<and> questions m \<noteq> []"

text \<open>\<^verbatim>\<open>notify_conn\<close> of \<^verbatim>\<open>sidecar.py\<close>; \<open>bus\<close> is the outcome of publishing.\<close>

definition sidecar_notify_conn :: "ext \<Rightarrow> unit res \<Rightarrow> tcp \<Rightarrow> (sent_item list \<times> exn option) option" where
  "sidecar_notify_conn E bus t =
     (case read_message E t of
        None \<Rightarrow> None
      | Some (Inl e, _) \<Rightarrow> Some ([], Some e)
      | Some (Inr None, _) \<Rightarrow> Some ([], None)
      | Some (Inr (Some m), _) \<Rightarrow>
          if \<not> is_notify m then Some ([], None)
          else
            let dns_name = qname (hd (questions m)) in
            case bus of
              Inl e \<Rightarrow> Some ([], Some e)
            | Inr _ \<Rightarrow>
                let pub = To_exchange (str ''hexdns_secondary_reload'') (utf8_encode (label_str E dns_name)) in
                case framed (Inr (notify_response E (m_id m) dns_name)) (msg_pack E) of
                  Inl e \<Rightarrow> Some ([pub], Some e)
                | Inr out \<Rightarrow> Some (pub # out, None))"

text \<open>\<^verbatim>\<open>notify_conn\<close> of \<^verbatim>\<open>run-axfr-notify.py\<close>: the answer comes first, and \<^verbatim>\<open>continue\<close> waits for another message if
  there is nobody to notify. \<open>encode\<close> is the serialisation of the protocol buffer.\<close>

definition notify_messages :: "(pstr \<Rightarrow> nat \<Rightarrow> pstr \<Rightarrow> bytes) \<Rightarrow> world \<Rightarrow> dnszone \<Rightarrow> sent_item list" where
  "notify_messages encode w z =
     map (\<lambda>a. To_queue (str ''hexdns_axfr_notify'') (encode (an_server a) (an_port a) (zone_root z)))
       [a \<leftarrow> f_axfr_notifies w. an_zone a = z_id z]"

definition rstrip_dot :: "pstr \<Rightarrow> pstr" where
  "rstrip_dot s = rev (dropWhile ((=) 46) (rev s))"

definition notified_zone :: "ext \<Rightarrow> world \<Rightarrow> label \<Rightarrow> dnszone option" where
  "notified_zone E w name = find (\<lambda>z. zone_root z = rstrip_dot (label_str E name)) (dnszones w)"

partial_function (option) axfr_notify_conn ::
  "ext \<Rightarrow> (pstr \<Rightarrow> nat \<Rightarrow> pstr \<Rightarrow> bytes) \<Rightarrow> unit res \<Rightarrow> world \<Rightarrow> sent_item list \<Rightarrow> tcp \<Rightarrow> (sent_item list \<times> exn option) option" where
  "axfr_notify_conn E encode bus w out t =
     (case read_message E t of
        None \<Rightarrow> None
      | Some (Inl e, _) \<Rightarrow> Some (out, Some e)
      | Some (Inr None, _) \<Rightarrow> Some (out, None)
      | Some (Inr (Some m), t1) \<Rightarrow>
          if \<not> is_notify m then Some (out, None)
          else
            (case framed (Inr (notify_response E (m_id m) (qname (hd (questions m))))) (msg_pack E) of
               Inl e \<Rightarrow> Some (out, Some e)
             | Inr sent \<Rightarrow>
                (case notified_zone E w (qname (hd (questions m))) of
                   None \<Rightarrow> axfr_notify_conn E encode bus w (out @ sent) t1
                 | Some z \<Rightarrow>
                     if notify_messages encode w z = [] then axfr_notify_conn E encode bus w (out @ sent) t1
                     else case bus of
                       Inl e \<Rightarrow> Some (out @ sent, Some e)
                     | Inr _ \<Rightarrow> Some (out @ sent @ notify_messages encode w z, None))))"

text \<open>\<^verbatim>\<open>callback\<close> of \<^verbatim>\<open>sidecar-secondary.py\<close>; \<open>opened\<close> and \<open>sent\<close> are the outcomes of connecting and of sending.\<close>

definition secondary_callback :: "ext \<Rightarrow> unit res \<Rightarrow> unit res \<Rightarrow> bytes \<Rightarrow> settlement \<times> sent_item list \<times> exn option" where
  "secondary_callback E opened sent msg_body =
     (case py_decode msg_body of
        Inl e \<Rightarrow> (Unsettled, [], Some e)
      | Inr zone \<Rightarrow>
         (case bind_res opened (\<lambda>_. framed (Inr (notify_request E (DNSLabel E zone))) (msg_pack E)) of
            Inl e \<Rightarrow> if e = OSError then (Rejected, [], None) else (Unsettled, [], Some e)
          | Inr out \<Rightarrow>
             (case sent of
                Inr _ \<Rightarrow> (Acked, out, None)
              | Inl e \<Rightarrow> if e = OSError then (Rejected, [], None) else (Unsettled, [], Some e))))"

end
