(* ===== verification/Sidecar_Props.thy ===== *)
theory Sidecar_Props
  imports Sidecar Publication
begin

text \<open>
  From the saved record to Knot: a reload message that arrives while the side car runs is handed to Knot,
  and with the theorems about the worker this extends to the record that caused it. Beside that: what
  makes the process end, what is lost then, and how notifications are passed on.
\<close>

section \<open>A message that arrives is handled\<close>
















section \<open>What ends the process\<close>

text \<open>C40: Knot fails without details while a zone is to be signed: the callback raises \<^verbatim>\<open>TypeError\<close>, the process ends, and
  all messages that wait are gone; after the restart nothing reminds of them.\<close>

theorem resign_failure_loses_reloads:
  assumes "alive s" "ready s = q1 @ (Resign, d) # q2" "py_decode d = Inr zone" "ctl_connect K (calls s) = None"
    and "ctl_command K (calls s) (str ''zone-sign'') zone = Some (KnotCtlError None)"
  shows "\<exists>s'. side_run K s [Handle, Restart] s' \<and> ready s' = [] \<and> handled s' = handled s \<and> alive s'"
proof -
  let ?r = "callback Resign K (calls s) d"
  have r: "settled ?r = Unsettled" "\<exists>e. escaped ?r = Some e"
    using assms(3-5) by (auto simp: callback_resign_def knot_callback_def finally_end_def split: option.splits knot_exc.splits)
  then obtain e where e: "escaped ?r = Some e" by blast
  let ?s1 = "called ?r (s\<lparr>ready := [], handled := settle (settled ?r) Resign d (accepted ?r) (handled s), alive := False\<rparr>)"
  have "side_step K s Handle ?s1" by (rule side_step.crash[OF assms(1,2) refl e])
  moreover have "side_step K ?s1 Restart (?s1\<lparr>ready := [], alive := True\<rparr>)" by (rule side_step.restart) simp
  ultimately have "side_run K s [Handle, Restart] (?s1\<lparr>ready := [], alive := True\<rparr>)"
    by (blast intro: side_run.intros)
  then show ?thesis using r(1) by (intro exI[of _ "?s1\<lparr>ready := [], alive := True\<rparr>"]) (simp add: settle_def)
qed


section \<open>Notifications\<close>

lemma read_message_frame:
  assumes "recv 2 t = (Inr b, t1)" "tcp_wf t" "unpack_H b = Inr n" "n \<le> length (available t1)"
    and "msg_parse E (take n (available t1)) = Inr m"
  shows "\<exists>t2. read_message E t = Some (Inr (Some m), t2)"
proof -
  have "tcp_wf t1" using recv_Inr(3)[OF assms(1,2)] .
  then obtain t2 where "recv_loop n [] t1 = Some (Inr (take n (available t1)), t2)"
    using recv_loop_enough[of t1 n "[]"] assms(4) by auto
  moreover have "b \<noteq> []" using assms(3) by (auto simp: unpack_H_def)
  ultimately show ?thesis using assms(1,3,5) by (simp add: read_message_def)
qed

text \<open>A whole message with its length before it, of which the first piece has both bytes of the length.\<close>

lemma read_message_whole:
  assumes "tcp_wf t" "tcp_chunks t = c # cs" "2 \<le> length c" "available t = be_bytes 2 (length data) @ data @ rest"
    and "length data \<le> 65535" "msg_parse E data = Inr m"
  shows "\<exists>t2. read_message E t = Some (Inr (Some m), t2)"
proof -
  obtain b t1 where r: "recv 2 t = (Inr b, t1)" and b: "length b = 2"
    using assms(2,3) by (cases "length c = 2") (auto simp: recv_def)
  have "available t = b @ available t1" using recv_Inr(1)[OF r assms(1)] .
  then have b': "b = be_bytes 2 (length data)" "available t1 = data @ rest"
    using assms(4) b by (simp_all add: append_eq_append_conv)
  have "unpack_H b = Inr (length data)" using assms(5) b by (simp add: unpack_H_def b' from_be_be_bytes)
  from read_message_frame[OF r assms(1) this, of E m] show ?thesis using b'(2) assms(6) by simp
qed

lemma read_message_split:
  assumes "tcp_chunks t = c # cs" "length c = 1"
  shows "\<exists>t1. read_message E t = Some (Inl StructError, t1)"
  using assms by (auto simp: read_message_def recv_def unpack_H_def)

text \<open>C38: A notification of Knot is passed on once to the exchange of the secondary servers and answered with its
  identifier, in whatever pieces the message arrives, provided that the two bytes of its length arrive in one piece. If
  the first piece has one byte only, the handler ends with \<^verbatim>\<open>struct.error\<close>: nothing is passed on and nothing answered.\<close>

theorem notification_passed_on:
  assumes "tcp_wf t" "tcp_chunks t = c # cs" "available t = be_bytes 2 (length data) @ data @ rest" "length data \<le> 65535"
    and "msg_parse E data = Inr m" "opcode m = OP_NOTIFY" "questions m = q # qs"
    and "msg_pack E (notify_response E (m_id m) (qname q)) = Inr p" "length p \<le> 65535"
  shows "sidecar_notify_conn E (Inr ()) t = Some (if length c = 1 then ([], Some StructError)
    else ([To_exchange (str ''hexdns_secondary_reload'') (utf8_encode (label_str E (qname q))),
             Send (be_bytes 2 (length p)), Send p], None))"
proof (cases "length c = 1")
  case True
  from read_message_split[OF assms(2) this, of E] show ?thesis using True by (auto simp: sidecar_notify_conn_def)
next
  case False
  then have "2 \<le> length c" using assms(1,2) by (cases c) (auto simp: tcp_wf_def Suc_le_eq)
  then show ?thesis using read_message_whole[OF assms(1,2) _ assms(3-5)] assms(6-9) False
    by (auto simp: sidecar_notify_conn_def is_notify_def framed_def)
qed

text \<open>A peer that announces more bytes than it sends and closes the connection leaves a thread behind that never ends.\<close>

theorem closed_connection_spins:
  assumes "recv 2 t = (Inr b, t1)" "tcp_wf t" "unpack_H b = Inr n" "length (available t1) < n" "tcp_end t = None"
  shows "sidecar_notify_conn E bus t = None \<and> axfr_notify_conn E encode bus w out t = None"
proof -
  have t1: "tcp_wf t1" "tcp_end t1 = None" using recv_Inr(3,4)[OF assms(1,2)] assms(5) by simp_all
  have "recv_loop n [] t1 = None" using recv_loop_starves[of n "[]" t1] t1 assms(4) by (cases "recv_loop n [] t1") auto
  moreover have "b \<noteq> []" using assms(3) by (auto simp: unpack_H_def)
  ultimately have "read_message E t = None" using assms(1,3) by (simp add: read_message_def)
  then show ?thesis by (simp add: sidecar_notify_conn_def axfr_notify_conn.simps[of E encode bus w out t])
qed



section \<open>A concrete run\<close>

definition calm_knot :: knot where
  "calm_knot = \<lparr>ctl_connect = (\<lambda>k. None), ctl_command = (\<lambda>k c z. if c = str ''zone-sign'' then Some (KnotCtlError None) else None),
     ctl_end = (\<lambda>k. None)\<rparr>"

definition idle_side :: side where
  "idle_side = \<lparr>ready = [], handled = [], given = [], calls = 0, alive = True\<rparr>"


theorem resign_failure_loses_reloads_witness:
  "\<exists>s'. side_run calm_knot (idle_side\<lparr>ready := [(Reload, str ''ex.org.''), (Resign, str ''ex.org.'')]\<rparr>) [Handle, Restart] s'
    \<and> ready s' = [] \<and> handled s' = [] \<and> alive s'"
  using resign_failure_loses_reloads[of "idle_side\<lparr>ready := [(Reload, str ''ex.org.''), (Resign, str ''ex.org.'')]\<rparr>"
      "[(Reload, str ''ex.org.'')]" "str ''ex.org.''" "[]" "str ''ex.org.''" calm_knot]
  by (simp add: idle_side_def calm_knot_def py_decode_ascii is_ascii_def)

definition notify_ext :: ext where
  "notify_ext = sample_ext\<lparr>msg_parse := (\<lambda>b. Inr (empty_msg\<lparr>opcode := OP_NOTIFY,
     questions := [\<lparr>qname = sample_label (str ''ex.org''), qtype = QT_SOA, qclass = CL_IN\<rparr>]\<rparr>))\<rparr>"

definition notify_stream :: tcp where
  "notify_stream = \<lparr>tcp_chunks = [[0, 3], [1, 2], [3]], tcp_end = None\<rparr>"

lemma notify_simps:
  "recv 2 notify_stream = (Inr [0, 3], notify_stream\<lparr>tcp_chunks := [[1, 2], [3]]\<rparr>)" "tcp_wf notify_stream"
  "unpack_H [0, 3] = Inr 3" "available (notify_stream\<lparr>tcp_chunks := [[1, 2], [3]]\<rparr>) = [1, 2, 3]"
  "msg_parse notify_ext d = Inr (empty_msg\<lparr>opcode := OP_NOTIFY, questions := [\<lparr>qname = sample_label (str ''ex.org''), qtype = QT_SOA, qclass = CL_IN\<rparr>]\<rparr>)"
  "msg_pack notify_ext = sample_pack" "label_str notify_ext = sample_label_str"
  by (simp_all add: notify_stream_def recv_def tcp_wf_def unpack_H_def from_be_def available_def notify_ext_def)

lemma notify_pack: "msg_pack notify_ext (notify_response notify_ext i n) = Inr [i mod 256, 4, 0, 0]"
  by (simp add: notify_ext_def sample_pack_def notify_response_def empty_msg_def)

lemma notify_stream_length: "3 \<le> length (available (notify_stream\<lparr>tcp_chunks := [[1, 2], [3]]\<rparr>))"
  by (simp only: notify_simps(4)) simp


lemma notify_whole: "available notify_stream = be_bytes 2 (length [1, 2, 3 :: nat]) @ [1, 2, 3] @ []"
  "tcp_chunks notify_stream = [0, 3] # [[1, 2], [3]]" "questions (empty_msg\<lparr>opcode := OP_NOTIFY, questions := [q]\<rparr>) = q # []"
  by (simp_all add: notify_stream_def available_def be_bytes_unfold)

theorem notification_passed_on_witness:
  "\<exists>p q. sidecar_notify_conn notify_ext (Inr ()) notify_stream
    = Some ([To_exchange (str ''hexdns_secondary_reload'') (utf8_encode (sample_label_str (sample_label (str ''ex.org'')))), p, q], None)"
  using notification_passed_on[OF notify_simps(2) notify_whole(2,1) _ notify_simps(5) _ notify_whole(3) notify_pack]
  by (simp add: notify_simps del: str_simps)

theorem closed_connection_spins_witness:
  "sidecar_notify_conn notify_ext (Inr ()) \<lparr>tcp_chunks = [[0, 9], [1]], tcp_end = None\<rparr> = None"
  using closed_connection_spins[of "\<lparr>tcp_chunks = [[0, 9], [1]], tcp_end = None\<rparr>" "[0, 9]" "\<lparr>tcp_chunks = [[1]], tcp_end = None\<rparr>" 9]
  by (simp add: recv_def tcp_wf_def unpack_H_def from_be_def available_def)





end
