(* ===== verification/Spec2Isabelle.thy ===== *)
theory Spec2Isabelle
  imports Record_Props Update_Effects Zonefile_Props Publication Catalog_Props Netnod_Props Hexdns_System
    Axfr_Service Ns_Check_Props Secondary_Transfer_Props Sidecar_Props
begin

text \<open>
  HexDNS is a hosting service for DNS zones: a Django application
  (\<^verbatim>\<open>src/hexdns_django/dns_grpc/\<close>) that stores zones and records in a database, a gRPC service that
  answers transfers and dynamic updates from that database, and background tasks that write zone
  files for the name servers. Users manage their zones through a web interface. This library models
  these four parts as functions of Isabelle/HOL and proves what they promise.

  \<^bold>\<open>The parts and how they interact.\<close>
  The record and zone classes (\<^verbatim>\<open>models.py\<close>, with \<^verbatim>\<open>svcb.py\<close> for the parameters of HTTPS records) hold
  the state. Saving or deleting a record queues the task \<^verbatim>\<open>update_fzone\<close> for its zone. The service
  (\<^verbatim>\<open>grpc.py\<close>) looks records up by name and type, and changes them through the classes when a signed
  update arrives. The worker runs the tasks of \<^verbatim>\<open>tasks.py\<close>: \<^verbatim>\<open>update_fzone\<close> and its relatives write the
  text of a zone to the storage and publish a reload message through the broker client of \<^verbatim>\<open>apps.py\<close>;
  \<^verbatim>\<open>update_catalog\<close> lists all zones and queues the synchronisation with Netnod (\<^verbatim>\<open>netnod.py\<close>).

  The web views (\<^verbatim>\<open>views/\<close>, reached by the paths of \<^verbatim>\<open>urls.py\<close>) ask Keycloak for permission, validate the
  submitted form, and call the same classes; two paths serve routers that report a changed address. The
  REST interface (\<^verbatim>\<open>api/\<close>) does so for programs that bring a token. Beside the Knot name server runs a process
  (\<^verbatim>\<open>src/knot/sidecar.py\<close>) that turns the reload messages into orders to Knot and passes its notifications on. Two
  commands run from time to time: \<^verbatim>\<open>validate-ns\<close> checks that zones are delegated here and deactivates those that are
  not, \<^verbatim>\<open>transfer-secondary\<close> fetches the secondary zones from their primary servers.

  \<^bold>\<open>State and effects.\<close>
  The record \<open>world\<close> of \<open>Dns_Types\<close> has a list of rows for each table, the queue of tasks, the calls
  made to other systems (\<open>events\<close>) and the clock. An operation that may raise and that changes the
  world is a function from a world to a result and a world (\<open>Effects\<close>); a result is an exception or a
  value (\<open>res\<close>). What an operation has written before it raises stays written, as in the code. Python
  strings and byte strings are lists of numbers. Code that is not in the repository is the argument
  \<open>E :: ext\<close>: the functions of \<^verbatim>\<open>dnslib\<close>, \<^verbatim>\<open>idna\<close>, \<^verbatim>\<open>sshpubkeys\<close>, \<^verbatim>\<open>hmac\<close>, \<^verbatim>\<open>hashlib\<close>, the public suffix
  list, Keycloak, Kubernetes, the storage, the broker, the HTTP services, and the printing of
  floating point numbers. Nothing is assumed of these functions in a definition; a theorem that
  needs a fact about one names it as a hypothesis. \<open>Sample\<close> gives concrete functions for all of them,
  on which the witnesses run. The answer of a remote system is a function of the calls made before,
  so it may change from call to call. Every call that registers or removes a zone with Keycloak may raise, after or
  before the row has been stored.

  \<^bold>\<open>Theories.\<close>
  \<^item> \<open>Hex_Prelude\<close>, \<open>Byte_Codecs\<close>, \<open>Py_Ipaddress\<close>, \<open>Py_Float\<close>: strings, UTF-8, numbers, byte codecs (with
    the locale of a codec and its interpretations), Python's \<^verbatim>\<open>ipaddress\<close>, doubles as exact rationals
    with rounding, and \<^verbatim>\<open>dd_to_dms\<close> of \<^verbatim>\<open>tasks.py\<close>.
  \<^item> \<open>Effects\<close>, \<open>Tables\<close>: the effect combinators with the locale \<open>step_rel\<close>, the contract of relations
    that operations obey, and the locale \<open>table\<close>, the contract of saving and deleting rows.
  \<^item> \<open>Svcb\<close>: \<^verbatim>\<open>svcb.py\<close>, parsing and printing of parameters and their wire form.
  \<^item> \<open>Dns_Types\<close>, \<open>Record_Models\<close>, \<open>Service_Records\<close>, \<open>Record_Store\<close>: the subclasses of \<^verbatim>\<open>DNSZoneRecord\<close> in
    \<^verbatim>\<open>models.py\<close>, one constructor and one group of definitions each (\<^verbatim>\<open>X_save\<close>, \<^verbatim>\<open>X_delete\<close>, \<^verbatim>\<open>X_to_rr\<close>,
    \<^verbatim>\<open>X_from_rr\<close>, \<^verbatim>\<open>X_clean\<close>), and the dispatch over the classes.
  \<^item> \<open>Zone_Models\<close>, \<open>Zone_Frame\<close>, \<open>Zone_Props\<close>: the zone classes, the import of zone files, reverse and
    secondary zones, and what they keep.
  \<^item> \<open>Record_Props\<close>: theorems about validation, conversion and rendering of records.
  \<^item> \<open>Lookup\<close>, \<open>Lookup_Props\<close>: \<^verbatim>\<open>find_zone\<close>, \<^verbatim>\<open>find_records\<close> and the \<^verbatim>\<open>lookup_*\<close> methods of \<^verbatim>\<open>grpc.py\<close>, with
    the locale \<open>lookup_handler\<close> that all of them interpret.
  \<^item> \<open>Tsig\<close>, \<open>Update\<close>, \<open>Update_Sample\<close>, \<open>Update_Props\<close>, \<open>Update_Effects\<close>: the TSIG record,
    \<^verbatim>\<open>handle_update_query\<close> in its phases, \<^verbatim>\<open>UpdateQuery\<close>, \<^verbatim>\<open>AXFRQuery\<close>, a signed request, and theorems.
  \<^item> \<open>Arpa\<close>, \<open>Dnssec_Key\<close>, \<open>Zonefile\<close>, \<open>Zonefile_Props\<close>: \<^verbatim>\<open>network_to_apra\<close>, \<^verbatim>\<open>make_key_tag\<close>,
    \<^verbatim>\<open>make_zone_digest\<close>, \<^verbatim>\<open>generate_zone_header\<close>, \<^verbatim>\<open>generate_fzone\<close>, \<^verbatim>\<open>generate_rzone\<close>, \<^verbatim>\<open>generate_szone\<close>;
    each loop of \<^verbatim>\<open>generate_fzone\<close> is a definition \<open>X_text\<close>.
  \<^item> \<open>Publish\<close>: the broker client, \<^verbatim>\<open>write_zone_file\<close>, \<^verbatim>\<open>send_reload_message\<close>, \<^verbatim>\<open>netnod.py\<close>.
  \<^item> \<open>Tasks\<close>, \<open>Task_Frame\<close>, \<open>Task_Props\<close>, \<open>Worker_Props\<close>, \<open>Publication\<close>, \<open>Catalog_Props\<close>, \<open>Netnod_Props\<close>: the
    tasks, the worker as an inductive step relation, and theorems about its runs.
  \<^item> \<open>Billing\<close>: \<^verbatim>\<open>log_usage\<close> and \<^verbatim>\<open>valid_zone\<close> of \<^verbatim>\<open>utils.py\<close>.
  \<^item> \<open>Zone_Checks\<close>: \<^verbatim>\<open>check_spf\<close> and \<^verbatim>\<open>check_dmarc\<close> of \<^verbatim>\<open>views/zone_checks.py\<close>, and a grammar of the
    records of SPF and DMARC.
  \<^item> \<open>Web\<close>, \<open>Forward_Views\<close>, \<open>Key_Views\<close>, \<open>Zone_Views\<close>, \<open>Reverse_Views\<close>, \<open>Admin_Views\<close>, \<open>Dyndns\<close>, \<open>Urls\<close>: requests,
    permissions and model forms; one definition for every view of \<^verbatim>\<open>views/fzone.py\<close>, \<^verbatim>\<open>views/rzone.py\<close>,
    \<^verbatim>\<open>views/szone.py\<close>, \<^verbatim>\<open>views/admin.py\<close> and \<^verbatim>\<open>views/dyndns.py\<close>, with its name; the dispatch. The argument
    \<open>W :: web\<close> stands for Keycloak, random secrets, signed tokens and Django's conversion of submitted fields.
  \<^item> \<open>View_Frame\<close>, \<open>View_Ops\<close>, \<open>View_Props\<close>, \<open>View_Zones\<close>, \<open>View_Others\<close>, \<open>View_Safety\<close>: the integrity of the
    tables and what a view may change, with the locales \<open>zone_table\<close> and \<open>row_table\<close> that the tables of
    zones and of their rows interpret.
  \<^item> \<open>Rest_Serializers\<close>, \<open>Rest_Api\<close>, \<open>Rest_Props\<close>: \<^verbatim>\<open>api/\<close>, one definition for each serializer and for each operation of a
    view set, the routes, and what a request may change. The argument \<open>A :: api\<close> stands for the conversion of
    submitted fields and the permission class of the library.
  \<^item> \<open>Json_Http\<close>, \<open>Github_Views\<close>, \<open>Github_Pages\<close>, \<open>Google_Views\<close>: \<^verbatim>\<open>views/github.py\<close> and \<^verbatim>\<open>views/google.py\<close>, the logins over
    these sites, their notifications, the renewal of tokens, records for GitHub Pages and the verification
    of a zone. The argument \<open>R :: remote\<close> stands for the JSON parser, dates in ISO format, signed tokens and settings.
  \<^item> \<open>Github_Props\<close>, \<open>Github_Safety\<close>: what these views may change, the addresses, and theorems.
  \<^item> \<open>Hexdns_System\<close>: requests of all interfaces, update packets, tasks and time as one transition system over these parts.
  \<^item> \<open>Axfr_Service\<close>: \<^verbatim>\<open>axfr.py\<close>, the keys and access lists for transfers, and \<^verbatim>\<open>redirect.py\<close>.
  \<^item> \<open>Tcp_Stream\<close>, \<open>Sidecar\<close>, \<open>Sidecar_Props\<close>: reading messages from a stream; the processes beside Knot as a step
    relation over messages, callbacks and restarts; the handlers of notifications.
  \<^item> \<open>Ns_Check\<close>, \<open>Ns_Check_Props\<close>: \<^verbatim>\<open>validate-ns.py\<close>, with a specification of the status of a zone by the history of its checks.
  \<^item> \<open>Secondary_Transfer\<close>, \<open>Secondary_Transfer_Props\<close>: \<^verbatim>\<open>transfer-secondary.py\<close>.

  \<^bold>\<open>What is shown.\<close>
  \<^item> The system as a whole: in every interleaving of requests, update packets and tasks, a change of a
    zone or its rows goes back to a request with a permission for that zone (scope, signed token,
    administrator, password of a dynamic address, token of a program) or to an update signed with one of its keys; the
    tables stay consistent. The mail checks of the interface accept exactly the records that a grammar apart from
    the code finds safe (what DMARC says of subdomains does not count).
  \<^item> Updates: state changes only for a request whose TSIG record has the HMAC of the request under a key of the
    zone it names, in time; only rows of that zone change; an ACME key changes TXT rows only; every later response is
    signed; the deletion of an RRset removes exactly its rows where these can be rendered.
  \<^item> Store: a saved record is found and every other row stays; an import changes its zone only and a
    failed one nothing; deleting a zone removes all that belongs to it; validation implies that an
    HTTPS record can be rendered unless it gives alpn as key1; conversions round-trip where they do.
  \<^item> Lookups: the longest zone is taken, a lookup only adds to a response, aliases inside one zone need
    no recursion.
  \<^item> Publication, across the components: once the queue is empty, a saved record is in the file that
    the storage accepted and the reload message has been sent; successful runs end; tasks leave the
    tables alone; the catalog and the requests to Netnod are complete and exact.
  \<^item> Beside the name server: a saved record ends in an order to Knot to reload its zone, which Knot took or answered
    with not knowing the zone; a notification whose length arrives in one piece
    is passed on once to the secondary servers and to those of customers; a callback that fails on a
    resign message takes the waiting reload messages with it.
  \<^item> Other sites: a notification of GitHub counts only with the right signature, a login over GitHub only with the
    state of the session, which it uses up; lists in pages are read completely.
  \<^item> Commands: the stored status of a zone is the one its history of checks determines; the walk along the delegations
    returns if servers answer what they are asked, and never returns once it has come to servers that refer to
    each other for a name that is not asked for; a transfer without an exception replaces all records of a secondary
    zone by what its primary sent, or none.
  \<^item> Deviations: theorems about inputs on which the code does not do what it should stand beside these,
    for instance an update that is refused half way, aliases in a loop between zones under different labels, an update that overtakes the
    row it was queued for, a text that ends with a backslash.

  \<^bold>\<open>Bounds.\<close>
  The lookups call themselves for aliases without a limit in the code. In the model they take the
  number of calls that the stack still allows and raise \<open>RecursionError\<close> at zero, as Python does.
  \<open>lookup_one_zone_depth\<close> shows that one call is enough where all zones are one, and
  \<open>cname_loop_raises\<close> that an alias loop between zones, under different labels, exhausts every bound. The loops that read from a
  connection or the pages of a list and the walk along the delegations may run for ever in the code: they are partial functions whose
  value is None then (\<open>recv_loop\<close>, \<open>axfr_notify_conn\<close>, \<open>ns_walk\<close>, \<open>github_get_all\<close>), and theorems say when they return. The loop of
  \<open>axfr_loop\<close> ends because each turn takes bytes off the stream. All other loops are structural recursion.
  Worker and side car have no bound: a run is a derivation of the relation \<open>worker\<close> or \<open>side_run\<close>.

  \<^bold>\<open>Not modelled.\<close>
  The text of web pages and mails, the JSON text of answers; the administration site of Django;
  migrations, generated protocol messages and settings; the
  commands that only queue a task for every zone or start a process; the programs in Rust. Inside
  the modelled files: the heartbeat thread of the broker client, the loops that accept connections, key generation, and the
  feedback request. Tasks and requests are atomic in the model except where a
  theorem splits them; transactions of the database are modelled where the code opens one.
\<close>

end
